(* ===== verification/Prelude.thy ===== *)
theory Prelude
  imports Main "HOL-Library.State_Monad"
begin

text \<open>
  Shared vocabulary of the Backvault development: the parts of Go and of its standard library
  that the modelled packages use (byte strings and package \<open>strings\<close>, \<open>strconv.Itoa\<close>,
  errors with a wrapped sentinel, \<open>int64\<close> wrap-around, \<open>time.Duration\<close>), the sequencing of
  stateful code in the state monad with its Hoare rules, and the generic list lemmas the
  component theories share.
\<close>

named_theorems wp \<open>Hoare rules of the state monad\<close>

section \<open>Byte strings\<close>

text \<open>A Go string is a sequence of bytes; a \<^typ>\<open>char\<close> is one byte.\<close>

definition HasPrefix :: "string \<Rightarrow> string \<Rightarrow> bool" where
  "HasPrefix s p \<longleftrightarrow> take (length p) s = p"

definition HasSuffix :: "string \<Rightarrow> string \<Rightarrow> bool" where
  "HasSuffix s p \<longleftrightarrow> length p \<le> length s \<and> drop (length s - length p) s = p"

definition TrimPrefix :: "string \<Rightarrow> string \<Rightarrow> string" where
  "TrimPrefix s p = (if HasPrefix s p then drop (length p) s else s)"

definition TrimSuffix :: "string \<Rightarrow> string \<Rightarrow> string" where
  "TrimSuffix s p = (if HasSuffix s p then take (length s - length p) s else s)"

text \<open>
  \<open>strings.TrimSpace\<close> strips the code points of \<open>unicode.IsSpace\<close>. They are given here by
  their UTF-8 encodings: the six ASCII spaces, U+0085, U+00A0, U+1680, U+2000 to U+200A, U+2028,
  U+2029, U+202F, U+205F and U+3000.
\<close>

definition space_runes :: "string list" where
  "space_runes =
     map (\<lambda>c. [c]) [CHR '' '', CHR 0x09, CHR 0x0A, CHR 0x0B, CHR 0x0C, CHR 0x0D]
     @ map (\<lambda>c. [CHR 0xC2, c]) [CHR 0x85, CHR 0xA0]
     @ [[CHR 0xE1, CHR 0x9A, CHR 0x80], [CHR 0xE2, CHR 0x81, CHR 0x9F], [CHR 0xE3, CHR 0x80, CHR 0x80]]
     @ map (\<lambda>c. [CHR 0xE2, CHR 0x80, c])
         [CHR 0x80, CHR 0x81, CHR 0x82, CHR 0x83, CHR 0x84, CHR 0x85, CHR 0x86, CHR 0x87, CHR 0x88,
          CHR 0x89, CHR 0x8A, CHR 0xA8, CHR 0xA9, CHR 0xAF]"

text \<open>The number of leading bytes of \<open>s\<close> that encode one of the runes \<open>rs\<close>, 0 for none.\<close>

definition rune_len :: "string list \<Rightarrow> string \<Rightarrow> nat" where
  "rune_len rs s = (case find (HasPrefix s) rs of None \<Rightarrow> 0 | Some r \<Rightarrow> length r)"

function trim_runes :: "string list \<Rightarrow> string \<Rightarrow> string" where
  "trim_runes rs s =
     (if s = [] \<or> rune_len rs s = 0 then s else trim_runes rs (drop (rune_len rs s) s))"
  by pat_completeness auto
termination
  by (relation "measure (\<lambda>(rs, s). length s)") (auto simp: length_greater_0_conv)

declare trim_runes.simps [simp del]

definition TrimSpace :: "string \<Rightarrow> string" where
  "TrimSpace s =
     rev (trim_runes (map rev space_runes) (rev (trim_runes space_runes s)))"

text \<open>\<open>strings.ToLower\<close> on ASCII letters; other bytes are left as they are.\<close>

definition lower_char :: "char \<Rightarrow> char" where
  "lower_char c =
     (let n = of_char c :: nat in if 65 \<le> n \<and> n \<le> 90 then char_of (n + 32) else c)"

definition ToLower :: "string \<Rightarrow> string" where
  "ToLower s = map lower_char s"

text \<open>\<open>strings.LastIndex(s, c)\<close> for a one-byte separator: \<open>None\<close> for -1.\<close>

fun last_index :: "char \<Rightarrow> string \<Rightarrow> nat option" where
  "last_index c [] = None"
| "last_index c (x # xs) =
     (case last_index c xs of Some i \<Rightarrow> Some (Suc i) | None \<Rightarrow> if x = c then Some 0 else None)"

fun Join :: "string list \<Rightarrow> string \<Rightarrow> string" where
  "Join [] sep = []"
| "Join [x] sep = x"
| "Join (x # y # ys) sep = x @ sep @ Join (y # ys) sep"

section \<open>Decimal numbers\<close>

fun digits_of :: "nat \<Rightarrow> string" where
  "digits_of n =
     (if n < 10 then [''0123456789'' ! n] else digits_of (n div 10) @ [''0123456789'' ! (n mod 10)])"

declare digits_of.simps [simp del]

definition Itoa :: "int \<Rightarrow> string" where
  "Itoa i = (if i < 0 then ''-'' @ digits_of (nat (- i)) else digits_of (nat i))"

text \<open>Zero padding to a minimal width, as in \<open>%02d\<close> and in the layouts of \<open>time.Format\<close>.\<close>

definition pad :: "nat \<Rightarrow> nat \<Rightarrow> string" where
  "pad w n = replicate (w - length (digits_of n)) (CHR ''0'') @ digits_of n"

section \<open>Machine integers and durations\<close>

text \<open>\<open>int64\<close> arithmetic wraps around; \<open>wrap64\<close> is the two's complement value of an integer.\<close>

definition wrap64 :: "int \<Rightarrow> int" where
  "wrap64 x = (x + 2 ^ 63) mod 2 ^ 64 - 2 ^ 63"

text \<open>
  A \<open>time.Duration\<close> counts nanoseconds. A \<open>time.Time\<close> is the number of nanoseconds since the
  zero \<open>Time\<close>, 1 January of year 1, 00:00 UTC, so \<open>IsZero t\<close> is \<open>t = 0\<close>. The program
  converts every instant it stores or compares to UTC.
\<close>

type_synonym duration = int
type_synonym time = int

abbreviation Millisecond :: duration where "Millisecond \<equiv> 1000000"
abbreviation Second :: duration where "Second \<equiv> 1000000000"
abbreviation Minute :: duration where "Minute \<equiv> 60 * 1000000000"
abbreviation Hour :: duration where "Hour \<equiv> 3600 * 1000000000"

definition IsZero :: "time \<Rightarrow> bool" where
  "IsZero t \<longleftrightarrow> t = 0"

text \<open>\<open>t.Sub(u)\<close> saturates at the ends of the \<open>int64\<close> range.\<close>

definition Sub :: "time \<Rightarrow> time \<Rightarrow> duration" where
  "Sub t u = max (- (2 ^ 63)) (min (2 ^ 63 - 1) (t - u))"

text \<open>Integer division truncates towards zero.\<close>

definition quot :: "int \<Rightarrow> int \<Rightarrow> int" where
  "quot a b = sgn a * sgn b * (\<bar>a\<bar> div \<bar>b\<bar>)"

section \<open>Errors\<close>

text \<open>
  An error is the text \<open>Error()\<close> returns and the sentinel that \<open>errors.Is\<close> finds in its
  chain, if any. \<open>fmt.Errorf\<close> with \<open>%w\<close> keeps the sentinel and extends the text.
\<close>

datatype sentinel =
    Canceled | DeadlineExceeded
  | ErrNotFound | ErrConflict
  | ErrJobBusy | ErrQueueFull | ErrNotRunning | ErrRunNotFound
  | ErrInvalidHash | ErrInvalidCredentials | ErrSessionExpired | ErrTokenExpired
  | ErrNotExist

datatype error = GoErr (sentinel_of: "sentinel option") (Error: string)

type_synonym 'a result = "error + 'a"

definition errIs :: "error \<Rightarrow> sentinel \<Rightarrow> bool" where
  "errIs e s \<longleftrightarrow> sentinel_of e = Some s"

definition errNew :: "string \<Rightarrow> error" where
  "errNew msg = GoErr None msg"

definition wrapf :: "string \<Rightarrow> error \<Rightarrow> error" where
  "wrapf prefix e = GoErr (sentinel_of e) (prefix @ '': '' @ Error e)"

text \<open>A loop over a list that returns at the first error of its body.\<close>

fun foldE :: "('b \<Rightarrow> 'a \<Rightarrow> 'b result) \<Rightarrow> 'b \<Rightarrow> 'a list \<Rightarrow> 'b result" where
  "foldE f b [] = Inr b"
| "foldE f b (x # xs) = (case f b x of Inl e \<Rightarrow> Inl e | Inr b' \<Rightarrow> foldE f b' xs)"

section \<open>Stateful code\<close>

definition gets :: "('s \<Rightarrow> 'a) \<Rightarrow> ('s, 'a) state" where
  "gets f = State (\<lambda>s. (f s, s))"

definition modify :: "('s \<Rightarrow> 's) \<Rightarrow> ('s, unit) state" where
  "modify f = State (\<lambda>s. ((), f s))"

abbreviation return :: "'a \<Rightarrow> ('s, 'a) state" where
  "return \<equiv> State_Monad.return"

text \<open>A \<open>for\<close> loop over a list that threads an accumulator through its body.\<close>

fun foldM :: "('b \<Rightarrow> 'a \<Rightarrow> ('s, 'b) state) \<Rightarrow> 'b \<Rightarrow> 'a list \<Rightarrow> ('s, 'b) state" where
  "foldM f b [] = return b"
| "foldM f b (x # xs) = do { b' \<leftarrow> f b x; foldM f b' xs }"

definition valid :: "('s \<Rightarrow> bool) \<Rightarrow> ('s, 'a) state \<Rightarrow> ('a \<Rightarrow> 's \<Rightarrow> bool) \<Rightarrow> bool" where
  "valid P m Q \<longleftrightarrow> (\<forall>s. P s \<longrightarrow> (case run_state m s of (x, s') \<Rightarrow> Q x s'))"

section \<open>Lemmas on strings\<close>

lemma HasSuffix_iff: "HasSuffix s p \<longleftrightarrow> (\<exists>t. s = t @ p)"
proof
  assume "HasSuffix s p"
  then have "s = take (length s - length p) s @ p"
    by (metis HasSuffix_def append_take_drop_id)
  then show "\<exists>t. s = t @ p" by blast
qed (auto simp: HasSuffix_def)

lemma HasPrefix_iff: "HasPrefix s p \<longleftrightarrow> (\<exists>t. s = p @ t)"
proof
  assume "HasPrefix s p"
  then have "s = p @ drop (length p) s"
    by (metis HasPrefix_def append_take_drop_id)
  then show "\<exists>t. s = p @ t" by blast
qed (auto simp: HasPrefix_def)

lemma HasSuffix_append [simp]: "HasSuffix (s @ p) p"
  by (auto simp: HasSuffix_iff)

lemma HasPrefix_append [simp]: "HasPrefix (p @ s) p"
  by (auto simp: HasPrefix_iff)

lemma TrimSuffix_append [simp]: "TrimSuffix (s @ p) p = s"
  by (simp add: TrimSuffix_def)

lemma TrimPrefix_append [simp]: "TrimPrefix (p @ s) p = s"
  by (simp add: TrimPrefix_def)

text \<open>A suffix at least as long as the last segment decides on that segment alone.\<close>

lemma HasSuffix_append_same_length:
  "length p = length q \<Longrightarrow> HasSuffix (s @ q) p \<longleftrightarrow> q = p"
  by (auto simp: HasSuffix_def)

lemma last_index_notin: "c \<notin> set s \<Longrightarrow> last_index c s = None"
  by (induction s) auto

lemma last_index_append:
  "c \<notin> set t \<Longrightarrow> last_index c (s @ c # t) = Some (length s)"
  by (induction s) (auto simp: last_index_notin)

text \<open>Splitting a string at a separator that does not occur before it is unambiguous.\<close>

lemma split_at_sep:
  assumes "xs @ c # ys = xs' @ c # ys'" and "c \<notin> set xs" and "c \<notin> set xs'"
  shows "xs = xs' \<and> ys = ys'"
  using assms
proof (induction xs arbitrary: xs')
  case Nil
  then show ?case by (cases xs') auto
next
  case (Cons x xs)
  then show ?case by (cases xs') auto
qed

lemma sep_inject:
  "c \<notin> set xs \<Longrightarrow> c \<notin> set xs' \<Longrightarrow> xs @ c # ys = xs' @ c # ys' \<longleftrightarrow> xs = xs' \<and> ys = ys'"
  by (metis split_at_sep)

text \<open>A separator that does not occur in the last segment can be cut off from the right.\<close>

lemma last_sep_inject:
  assumes "c \<notin> set ys" and "c \<notin> set ys'"
  shows "xs @ c # ys = xs' @ c # ys' \<longleftrightarrow> xs = xs' \<and> ys = ys'"
proof
  assume "xs @ c # ys = xs' @ c # ys'"
  then have "rev (xs @ c # ys) = rev (xs' @ c # ys')" by (rule arg_cong)
  then have "rev ys @ c # rev xs = rev ys' @ c # rev xs'" by simp
  from split_at_sep [OF this] assms show "xs = xs' \<and> ys = ys'" by simp
qed simp

text \<open>A string of printable ASCII characters is not touched by \<open>TrimSpace\<close>, and a newline
  after it is cut off.\<close>

definition printable :: "char \<Rightarrow> bool" where
  "printable c \<longleftrightarrow> 33 \<le> (of_char c :: nat) \<and> (of_char c :: nat) < 127"

lemma find_None: "(\<And>x. x \<in> set xs \<Longrightarrow> \<not> P x) \<Longrightarrow> find P xs = None"
  by (induction xs) auto

lemma rune_len_printable:
  assumes "s \<noteq> [] \<Longrightarrow> printable (hd s)" and "\<And>r. r \<in> set rs \<Longrightarrow> r \<noteq> [] \<and> \<not> printable (hd r)"
  shows "rune_len rs s = 0"
proof -
  have "\<not> HasPrefix s r" if "r \<in> set rs" for r
    using assms(1) assms(2) [OF that] by (cases r) (auto simp: HasPrefix_iff)
  then show ?thesis by (simp add: rune_len_def find_None)
qed

lemma space_runes_unprintable:
  "list_all (\<lambda>r. r \<noteq> [] \<and> \<not> printable (hd r) \<and> \<not> printable (hd (rev r))) space_runes"
  by code_simp

lemma trim_runes_space:
  assumes "s \<noteq> [] \<Longrightarrow> printable (hd s)"
  shows "trim_runes space_runes s = s" and "trim_runes (map rev space_runes) s = s"
proof -
  have "rune_len space_runes s = 0" and "rune_len (map rev space_runes) s = 0"
    using space_runes_unprintable
    by (auto intro!: rune_len_printable [OF assms] simp: list_all_iff)
  then show "trim_runes space_runes s = s" and "trim_runes (map rev space_runes) s = s"
    by (simp_all add: trim_runes.simps [of _ s])
qed

lemma TrimSpace_printable:
  assumes "s \<noteq> []" and "printable (hd s)" and "printable (last s)"
  shows "TrimSpace s = s" and "TrimSpace (s @ [CHR 0x0A]) = s"
proof -
  have s: "trim_runes space_runes (s @ t) = s @ t" for t
    using trim_runes_space(1) [of "s @ t"] assms by simp
  have r: "trim_runes (map rev space_runes) (rev s) = rev s"
    using trim_runes_space(2) [of "rev s"] assms by (simp add: hd_rev)
  have "rune_len (map rev space_runes) (CHR 0x0A # t) = 1" for t
    by (simp add: rune_len_def space_runes_def HasPrefix_def)
  then have nl: "trim_runes (map rev space_runes) (CHR 0x0A # rev s) = rev s"
    using r by (simp add: trim_runes.simps [of _ "CHR 0x0A # rev s"])
  show "TrimSpace s = s" using s [of "[]"] r by (simp add: TrimSpace_def)
  show "TrimSpace (s @ [CHR 0x0A]) = s" using s [of "[CHR 0x0A]"] nl by (simp add: TrimSpace_def)
qed

section \<open>Lemmas on decimal numbers\<close>

lemma digit_notin: "d < 10 \<Longrightarrow> c \<notin> set ''0123456789'' \<Longrightarrow> ''0123456789'' ! d \<noteq> c"
proof -
  assume "d < 10" and "c \<notin> set ''0123456789''"
  then have "''0123456789'' ! d \<in> set ''0123456789''"
    by (intro nth_mem) simp
  with \<open>c \<notin> set ''0123456789''\<close> show ?thesis by blast
qed

lemma digits_of_set: "set (digits_of n) \<subseteq> set ''0123456789''"
proof (induction n rule: digits_of.induct)
  case (1 n)
  have dig: "''0123456789'' ! d \<in> set ''0123456789''" if "d < 10" for d
    using that by (intro nth_mem) simp
  show ?case
  proof (cases "n < 10")
    case True
    with dig show ?thesis by (subst digits_of.simps) simp
  next
    case False
    with 1 dig [of "n mod 10"] show ?thesis by (subst digits_of.simps) auto
  qed
qed

lemma digits_of_notin: "c \<notin> set ''0123456789'' \<Longrightarrow> c \<notin> set (digits_of n)"
  using digits_of_set by blast

lemma digits_of_nonempty: "digits_of n \<noteq> []"
  by (subst digits_of.simps) simp

lemma pad_notin: "c \<notin> set ''0123456789'' \<Longrightarrow> c \<notin> set (pad w n)"
  using digits_of_notin [of c n] by (auto simp: pad_def)

lemma pad_nonempty: "pad w n \<noteq> []"
  by (simp add: pad_def digits_of_nonempty)

text \<open>The value of a string of digits; it inverts \<open>digits_of\<close> and ignores leading zeros.\<close>

definition digit_value :: "char \<Rightarrow> nat" where
  "digit_value c = of_char c - 48"

definition decimal_value :: "string \<Rightarrow> nat" where
  "decimal_value s = foldl (\<lambda>v c. 10 * v + digit_value c) 0 s"

lemma digit_value_nth: "d < 10 \<Longrightarrow> digit_value (''0123456789'' ! d) = d"
  by (auto simp: digit_value_def less_Suc_eq numeral_eq_Suc)

lemma decimal_value_snoc:
  "decimal_value (s @ [c]) = 10 * decimal_value s + digit_value c"
  by (simp add: decimal_value_def)

lemma decimal_value_digits_of [simp]: "decimal_value (digits_of n) = n"
proof (induction n rule: digits_of.induct)
  case (1 n)
  show ?case
  proof (cases "n < 10")
    case True
    then show ?thesis
      by (subst digits_of.simps) (simp add: decimal_value_def digit_value_nth)
  next
    case False
    with 1 show ?thesis
      by (subst digits_of.simps) (simp add: decimal_value_snoc digit_value_nth)
  qed
qed

lemma decimal_value_zeros: "decimal_value (replicate k (CHR ''0'') @ s) = decimal_value s"
proof -
  have "foldl (\<lambda>v c. 10 * v + digit_value c) 0 (replicate k (CHR ''0'')) = 0"
    by (induction k) (auto simp: digit_value_def)
  then show ?thesis by (simp add: decimal_value_def)
qed

lemma decimal_value_pad [simp]: "decimal_value (pad w n) = n"
  by (simp add: pad_def decimal_value_zeros)

lemma digits_of_inject: "digits_of m = digits_of n \<longleftrightarrow> m = n"
  by (metis decimal_value_digits_of)

lemma pad_inject: "pad w m = pad w n \<longleftrightarrow> m = n"
  by (metis decimal_value_pad)

section \<open>Lemmas on machine integers\<close>

lemma wrap64_id: "- (2 ^ 63) \<le> x \<Longrightarrow> x < 2 ^ 63 \<Longrightarrow> wrap64 x = x"
  by (simp add: wrap64_def)

lemma wrap64_range: "- (2 ^ 63) \<le> wrap64 x \<and> wrap64 x < 2 ^ 63"
  by (simp add: wrap64_def)

lemma Sub_small: "\<bar>t - u\<bar> < 2 ^ 63 \<Longrightarrow> Sub t u = t - u"
  by (simp add: Sub_def)

lemma Sub_less_iff: "d < 2 ^ 63 - 1 \<Longrightarrow> - (2 ^ 63) \<le> d \<Longrightarrow> d < Sub t u \<longleftrightarrow> d < t - u"
  by (auto simp: Sub_def)

section \<open>Hoare rules\<close>

lemma run_gets [simp]: "run_state (gets f) s = (f s, s)"
  by (simp add: gets_def)

lemma run_modify [simp]: "run_state (modify f) s = ((), f s)"
  by (simp add: modify_def)

lemma validI: "(\<And>s x s'. P s \<Longrightarrow> run_state m s = (x, s') \<Longrightarrow> Q x s') \<Longrightarrow> valid P m Q"
  by (auto simp: valid_def split: prod.splits)

lemma validD: "valid P m Q \<Longrightarrow> P s \<Longrightarrow> run_state m s = (x, s') \<Longrightarrow> Q x s'"
  by (fastforce simp: valid_def)

lemma valid_return [wp]: "(\<And>s. P s \<Longrightarrow> Q x s) \<Longrightarrow> valid P (return x) Q"
  by (simp add: valid_def)

lemma valid_bind:
  assumes "valid P m R" and "\<And>x. valid (R x) (f x) Q"
  shows "valid P (m \<bind> f) Q"
  using assms by (fastforce simp: valid_def split: prod.splits)

lemma valid_conseq:
  assumes "valid P' m Q'" and "\<And>s. P s \<Longrightarrow> P' s" and "\<And>x s. Q' x s \<Longrightarrow> Q x s"
  shows "valid P m Q"
  using assms by (fastforce simp: valid_def split: prod.splits)

lemma valid_gets [wp]: "(\<And>s. P s \<Longrightarrow> Q (f s) s) \<Longrightarrow> valid P (gets f) Q"
  by (simp add: valid_def)

lemma valid_modify [wp]: "(\<And>s. P s \<Longrightarrow> Q () (f s)) \<Longrightarrow> valid P (modify f) Q"
  by (simp add: valid_def)

text \<open>An assertion that every step keeps, as one rule per control structure.\<close>

definition keeps :: "('s \<Rightarrow> bool) \<Rightarrow> ('s, 'a) state \<Rightarrow> bool" where
  "keeps P m \<longleftrightarrow> valid P m (\<lambda>_. P)"

lemma keepsI: "(\<And>s. P s \<Longrightarrow> P (snd (run_state m s))) \<Longrightarrow> keeps P m"
  by (fastforce simp: keeps_def valid_def split: prod.splits)

lemma keepsD: "keeps P m \<Longrightarrow> P s \<Longrightarrow> P (snd (run_state m s))"
  by (cases "run_state m s") (auto simp: keeps_def dest: validD)

lemma keeps_run: "keeps P m \<Longrightarrow> P s \<Longrightarrow> run_state m s = (x, s') \<Longrightarrow> P s'"
  using keepsD [of P m s] by simp

lemma keeps_return [wp]: "keeps P (return x)"
  by (rule keepsI) simp

lemma keeps_gets [wp]: "keeps P (gets f)"
  by (rule keepsI) simp

lemma keeps_modify [wp]: "(\<And>s. P s \<Longrightarrow> P (f s)) \<Longrightarrow> keeps P (modify f)"
  by (rule keepsI) simp

lemma keeps_bind [wp]: "keeps P m \<Longrightarrow> (\<And>x. keeps P (f x)) \<Longrightarrow> keeps P (m \<bind> f)"
  by (auto simp: keeps_def intro: valid_bind)

lemma keeps_if [wp]: "(b \<Longrightarrow> keeps P m) \<Longrightarrow> (\<not> b \<Longrightarrow> keeps P n) \<Longrightarrow> keeps P (if b then m else n)"
  by simp

lemma keeps_option [wp]:
  "keeps P m \<Longrightarrow> (\<And>x. keeps P (f x)) \<Longrightarrow> keeps P (case v of None \<Rightarrow> m | Some x \<Rightarrow> f x)"
  by (cases v) auto

lemma keeps_sum [wp]:
  "(\<And>e. keeps P (f e)) \<Longrightarrow> (\<And>x. keeps P (g x)) \<Longrightarrow> keeps P (case v of Inl e \<Rightarrow> f e | Inr x \<Rightarrow> g x)"
  by (cases v) auto

lemma keeps_prod [wp]: "(\<And>x y. keeps P (f x y)) \<Longrightarrow> keeps P (case v of (x, y) \<Rightarrow> f x y)"
  by (cases v) auto

lemma keeps_let [wp]: "(\<And>x. keeps P (f x)) \<Longrightarrow> keeps P (let x = v in f x)"
  by (simp add: Let_def)

lemma keeps_foldM [wp]: "(\<And>b x. keeps P (f b x)) \<Longrightarrow> keeps P (foldM f b xs)"
  by (induction xs arbitrary: b) (auto intro: keeps_return keeps_bind)

section \<open>Lemmas on lists\<close>

lemma nth_mem_take: "i < j \<Longrightarrow> j \<le> length xs \<Longrightarrow> xs ! i \<in> set (take j xs)"
  by (metis in_set_conv_nth length_take min.absorb2 nth_take)

lemma set_take_Suc: "i < length xs \<Longrightarrow> set (take (Suc i) xs) = insert (xs ! i) (set (take i xs))"
  by (simp add: take_Suc_conv_app_nth)

end
