(* ===== verification/Core_Types.thy ===== *)
theory Core_Types
  imports Prelude
begin

text \<open>
  The data model of package \<open>internal/core\<close> (types.go): one record per struct and one
  datatype per string-typed enumeration, with the source's constants as constructors. Record
  fields carry the struct's name as a prefix because Isabelle's field names are global.
  Fields that only decorate API output and that no modelled operation reads or writes
  (\<open>json\<close> tags, help texts, icons) are left out; every other field is kept.
\<close>

section \<open>Driver specifications\<close>

definition SecretMask :: string where
  "SecretMask = ''********''"

datatype FieldType =
    FieldString | FieldText | FieldSecret | FieldInt | FieldBool | FieldSelect
  | FieldStringList | FieldPath | FieldPort

definition CapRestore :: string where "CapRestore = ''restore''"
definition CapBrowse :: string where "CapBrowse = ''browse''"
definition CapIngest :: string where "CapIngest = ''ingest''"
definition CapTest :: string where "CapTest = ''test''"
definition CapRemote :: string where "CapRemote = ''remote''"

section \<open>Packing and retention options\<close>

text \<open>
  \<open>Compression\<close> and \<open>Encryption\<close> are Go strings: the empty string and values outside the
  constants are possible and the code treats them.
\<close>

datatype Compression =
    CompressionEmpty | CompressionNone | CompressionGzip | CompressionZstd | CompressionOther string

datatype Encryption = EncryptionEmpty | EncryptionNone | EncryptionAge | EncryptionOther string

record Retention =
  KeepLast :: int
  KeepHourly :: int
  KeepDaily :: int
  KeepWeekly :: int
  KeepMonthly :: int
  KeepYearly :: int
  MaxAgeDays :: int

definition zero_retention :: Retention where
  "zero_retention = \<lparr>KeepLast = 0, KeepHourly = 0, KeepDaily = 0, KeepWeekly = 0, KeepMonthly = 0,
     KeepYearly = 0, MaxAgeDays = 0\<rparr>"

definition Retention_IsZero :: "Retention \<Rightarrow> bool" where
  "Retention_IsZero r \<longleftrightarrow> r = zero_retention"

section \<open>Hosts and configuration values\<close>

datatype HostAuth = HostAuthKey | HostAuthPassword | HostAuthOther string

record Host =
  host_ID :: string
  host_Name :: string
  host_Description :: string
  host_Address :: string
  host_Port :: int
  host_User :: string
  host_Auth :: HostAuth
  host_PrivateKey :: string
  host_KeyPassphrase :: string
  host_Password :: string
  host_PublicKey :: string
  host_HostKey :: string
  host_Sudo :: bool
  host_ConnectTimeout :: int
  host_Tags :: "string list"
  host_CreatedAt :: time
  host_UpdatedAt :: time
  host_LastTestAt :: "time option"
  host_LastTestOK :: "bool option"
  host_LastTestError :: string
  host_LastSeenOS :: string
  host_Tools :: "string list"
  host_SourceCount :: int

definition mask_secret :: "string \<Rightarrow> string" where
  "mask_secret v = (if v \<noteq> [] then SecretMask else v)"

definition Host_Masked :: "Host \<Rightarrow> Host" where
  "Host_Masked h =
     h\<lparr>host_PrivateKey := mask_secret (host_PrivateKey h),
       host_KeyPassphrase := mask_secret (host_KeyPassphrase h),
       host_Password := mask_secret (host_Password h)\<rparr>"

definition HostConfigKey :: string where
  "HostConfigKey = ''_host''"

text \<open>
  A configuration maps keys to values of type \<open>any\<close>. A \<open>float64\<close> is a decimal
  mantissa with a number of fractional digits (what JSON numbers decode to, exact up to 15
  significant digits). Values of other dynamic types carry the text \<open>fmt.Sprint\<close> prints for
  them: \<open>VHost\<close> and \<open>VHostPtr\<close> next to the host, \<open>VOther\<close> alone.
\<close>

datatype cfgval =
    VNil
  | VString string
  | VBool bool
  | VFloat int nat
  | VInt int
  | VInt64 int
  | VStrings "string list"
  | VAnys "cfgval list"
  | VHost Host string
  | VHostPtr "Host option" string
  | VOther string

type_synonym Config = "string \<rightharpoonup> cfgval"

datatype showif = ShowStrings "string list" | ShowAnys "cfgval list" | ShowBool bool | ShowValue cfgval

record Field =
  fld_Name :: string
  fld_Label :: string
  fld_Type :: FieldType
  fld_Required :: bool
  fld_Secret :: bool
  fld_Default :: cfgval
  fld_ShowIf :: "(string \<times> showif) list"
  fld_LocalOnly :: bool

record DriverSpec =
  spec_Kind :: string
  spec_Label :: string
  spec_Fields :: "Field list"
  spec_Capabilities :: "string list"
  spec_Tools :: "string list"

definition DriverSpec_Has :: "DriverSpec \<Rightarrow> string \<Rightarrow> bool" where
  "DriverSpec_Has s capability \<longleftrightarrow> list_ex (\<lambda>c. c = capability) (spec_Capabilities s)"

definition SecretFields :: "DriverSpec \<Rightarrow> string list" where
  "SecretFields s = map fld_Name (filter (\<lambda>f. fld_Secret f \<or> fld_Type f = FieldSecret) (spec_Fields s))"

section \<open>Sources, destinations, jobs\<close>

record Source =
  src_ID :: string
  src_Name :: string
  src_Kind :: string
  src_Description :: string
  src_Config :: Config
  src_HostID :: string
  src_HostName :: string
  src_Tags :: "string list"
  src_CreatedAt :: time
  src_UpdatedAt :: time
  src_LastTestAt :: "time option"
  src_LastTestOK :: "bool option"
  src_LastTestError :: string
  src_JobCount :: int

record Destination =
  dst_ID :: string
  dst_Name :: string
  dst_Kind :: string
  dst_Description :: string
  dst_Config :: Config
  dst_Tags :: "string list"
  dst_CreatedAt :: time
  dst_UpdatedAt :: time
  dst_LastTestAt :: "time option"
  dst_LastTestOK :: "bool option"
  dst_LastTestError :: string
  dst_JobCount :: int
  dst_UsedBytes :: int
  dst_ArtifactCount :: int

text \<open>The event names; \<open>NotifyOn\<close> and channel filters are lists of arbitrary strings.\<close>

definition EventRunSuccess :: string where "EventRunSuccess = ''run.success''"
definition EventRunFailed :: string where "EventRunFailed = ''run.failed''"
definition EventRunWarning :: string where "EventRunWarning = ''run.warning''"
definition EventJobOverdue :: string where "EventJobOverdue = ''job.overdue''"
definition EventArtifactMissing :: string where "EventArtifactMissing = ''artifact.missing''"
definition EventPruneDone :: string where "EventPruneDone = ''prune.done''"
definition EventRestoreDone :: string where "EventRestoreDone = ''restore.done''"
definition EventRestoreFailed :: string where "EventRestoreFailed = ''restore.failed''"

definition AllEvents :: "string list" where
  "AllEvents = [EventRunSuccess, EventRunFailed, EventRunWarning, EventJobOverdue,
     EventArtifactMissing, EventPruneDone, EventRestoreDone, EventRestoreFailed]"

section \<open>Runs\<close>

datatype RunKind = RunBackup | RunRestore | RunPrune | RunVerify | RunIngest

datatype RunTrigger = TriggerSchedule | TriggerManual | TriggerAPI | TriggerIngest | TriggerRetry

datatype RunStatus = RunQueued | RunRunning | RunSuccess | RunWarning | RunFailed | RunCanceled

fun Terminal :: "RunStatus \<Rightarrow> bool" where
  "Terminal RunSuccess = True"
| "Terminal RunWarning = True"
| "Terminal RunFailed = True"
| "Terminal RunCanceled = True"
| "Terminal _ = False"

datatype StageStatus = StagePending | StageRunning | StageSuccess | StageFailed | StageSkipped

record Stage =
  stg_Name :: string
  stg_Status :: StageStatus
  stg_StartedAt :: "time option"
  stg_FinishedAt :: "time option"
  stg_Message :: string

record Run =
  run_ID :: string
  run_JobID :: string
  run_JobSlug :: string
  run_JobName :: string
  run_Kind :: RunKind
  run_Trigger :: RunTrigger
  run_Status :: RunStatus
  run_QueuedAt :: time
  run_StartedAt :: "time option"
  run_FinishedAt :: "time option"
  run_DurationMS :: int
  run_Bytes :: int
  run_RawBytes :: int
  run_SHA256 :: string
  run_Filename :: string
  run_Error :: string
  run_Stages :: "Stage list"
  run_ArtifactIDs :: "string list"
  run_Attempt :: int
  run_Meta :: "string \<rightharpoonup> string"
  run_CreatedBy :: string

record RunSummary =
  sum_ID :: string
  sum_Kind :: RunKind
  sum_Status :: RunStatus
  sum_StartedAt :: "time option"
  sum_FinishedAt :: "time option"
  sum_DurationMS :: int
  sum_Bytes :: int
  sum_Error :: string

definition Summary :: "Run \<Rightarrow> RunSummary" where
  "Summary r = \<lparr>sum_ID = run_ID r, sum_Kind = run_Kind r, sum_Status = run_Status r,
     sum_StartedAt = run_StartedAt r, sum_FinishedAt = run_FinishedAt r,
     sum_DurationMS = run_DurationMS r, sum_Bytes = run_Bytes r, sum_Error = run_Error r\<rparr>"

record Job =
  job_ID :: string
  job_Slug :: string
  job_Name :: string
  job_Description :: string
  job_SourceID :: string
  job_DestinationIDs :: "string list"
  job_Schedule :: string
  job_Timezone :: string
  job_Enabled :: bool
  job_Compression :: Compression
  job_CompressionLevel :: int
  job_Encryption :: Encryption
  job_EncryptionPassphrase :: string
  job_Retention :: Retention
  job_NotificationChannelIDs :: "string list"
  job_NotifyOn :: "string list"
  job_TimeoutMinutes :: int
  job_Retries :: int
  job_RetryDelaySeconds :: int
  job_PreCommand :: string
  job_PostCommand :: string
  job_VerifyAfterUpload :: bool
  job_ExpectedIntervalMinutes :: int
  job_Tags :: "string list"
  job_CreatedAt :: time
  job_UpdatedAt :: time
  job_SourceName :: string
  job_SourceKind :: string
  job_DestinationNames :: "string list"
  job_LastRun :: "RunSummary option"
  job_NextRunAt :: "time option"
  job_Overdue :: bool
  job_ArtifactCount :: int
  job_TotalBytes :: int

section \<open>Artifacts, channels, settings\<close>

datatype ArtifactStatus = ArtifactUnset | ArtifactPresent | ArtifactMissing | ArtifactPruned | ArtifactDeleted

record Artifact =
  art_ID :: string
  art_JobID :: string
  art_JobSlug :: string
  art_JobName :: string
  art_RunID :: string
  art_DestinationID :: string
  art_DestinationName :: string
  art_DestinationKind :: string
  art_Path :: string
  art_Filename :: string
  art_Size :: int
  art_SHA256 :: string
  art_Compression :: Compression
  art_Encryption :: Encryption
  art_SourceKind :: string
  art_Extension :: string
  art_Status :: ArtifactStatus
  art_CreatedAt :: time
  art_VerifiedAt :: "time option"
  art_DeletedAt :: "time option"
  art_Meta :: "string \<rightharpoonup> string"

record NotificationChannel =
  chn_ID :: string
  chn_Name :: string
  chn_Kind :: string
  chn_Config :: Config
  chn_Enabled :: bool
  chn_Events :: "string list"
  chn_CreatedAt :: time
  chn_UpdatedAt :: time
  chn_LastSentAt :: "time option"
  chn_LastError :: string

record Settings =
  set_SiteName :: string
  set_BaseURL :: string
  set_DefaultTimezone :: string
  set_MaxConcurrentRuns :: int
  set_DefaultRetention :: Retention
  set_RunHistoryDays :: int
  set_AuditHistoryDays :: int
  set_OverdueCheckMinutes :: int
  set_DefaultNotifyOn :: "string list"

section \<open>Users and tokens\<close>

datatype UserRole = RoleAdmin | RoleViewer | RoleOther string

record User =
  usr_ID :: string
  usr_Email :: string
  usr_Name :: string
  usr_Role :: UserRole
  usr_CreatedAt :: time
  usr_LastLoginAt :: "time option"

definition ScopeAdmin :: string where "ScopeAdmin = ''admin''"
definition ScopeRead :: string where "ScopeRead = ''read''"
definition ScopeIngest :: string where "ScopeIngest = ''ingest''"
definition ScopeRun :: string where "ScopeRun = ''run''"

lemmas scope_defs = ScopeAdmin_def ScopeRead_def ScopeIngest_def ScopeRun_def

record APIToken =
  tok_ID :: string
  tok_Name :: string
  tok_Prefix :: string
  tok_Scopes :: "string list"
  tok_JobSlugs :: "string list"
  tok_CreatedAt :: time
  tok_CreatedBy :: string
  tok_LastUsedAt :: "time option"
  tok_ExpiresAt :: "time option"

section \<open>Audit entries and statistics\<close>

record AuditEntry =
  ae_ID :: string
  ae_Time :: time
  ae_ActorID :: string
  ae_ActorLabel :: string
  ae_Action :: string
  ae_ObjectType :: string
  ae_ObjectID :: string
  ae_ObjectName :: string
  ae_Details :: Config
  ae_IP :: string

record DestinationUsage =
  du_DestinationID :: string
  du_DestinationName :: string
  du_Kind :: string
  du_Bytes :: int
  du_Artifacts :: int

record DailyStat =
  day_Date :: string
  day_Success :: int
  day_Failed :: int
  day_Bytes :: int

record DashboardStats =
  st_Jobs :: int
  st_JobsEnabled :: int
  st_JobsOverdue :: int
  st_JobsFailing :: int
  st_RunsRunning :: int
  st_Runs24hSuccess :: int
  st_Runs24hFailed :: int
  st_Artifacts :: int
  st_TotalBytes :: int
  st_Destinations :: "DestinationUsage list"
  st_Daily :: "DailyStat list"
  st_RecentRuns :: "Run list"
  st_Upcoming :: "Job list"
  st_ProblemJobs :: "Job list"

section \<open>Zero values\<close>

text \<open>The zero value of a struct: what a composite literal leaves in the fields it does not name.\<close>

definition zero_run :: Run where
  "zero_run = \<lparr>run_ID = [], run_JobID = [], run_JobSlug = [], run_JobName = [], run_Kind = RunBackup,
     run_Trigger = TriggerManual, run_Status = RunQueued, run_QueuedAt = 0, run_StartedAt = None,
     run_FinishedAt = None, run_DurationMS = 0, run_Bytes = 0, run_RawBytes = 0, run_SHA256 = [],
     run_Filename = [], run_Error = [], run_Stages = [], run_ArtifactIDs = [], run_Attempt = 0,
     run_Meta = Map.empty, run_CreatedBy = []\<rparr>"

definition zero_job :: Job where
  "zero_job = \<lparr>job_ID = [], job_Slug = [], job_Name = [], job_Description = [], job_SourceID = [],
     job_DestinationIDs = [], job_Schedule = [], job_Timezone = [], job_Enabled = False,
     job_Compression = CompressionEmpty, job_CompressionLevel = 0, job_Encryption = EncryptionEmpty,
     job_EncryptionPassphrase = [], job_Retention = zero_retention, job_NotificationChannelIDs = [],
     job_NotifyOn = [], job_TimeoutMinutes = 0, job_Retries = 0, job_RetryDelaySeconds = 0,
     job_PreCommand = [], job_PostCommand = [], job_VerifyAfterUpload = False,
     job_ExpectedIntervalMinutes = 0, job_Tags = [], job_CreatedAt = 0, job_UpdatedAt = 0,
     job_SourceName = [], job_SourceKind = [], job_DestinationNames = [], job_LastRun = None,
     job_NextRunAt = None, job_Overdue = False, job_ArtifactCount = 0, job_TotalBytes = 0\<rparr>"

definition zero_artifact :: Artifact where
  "zero_artifact = \<lparr>art_ID = [], art_JobID = [], art_JobSlug = [], art_JobName = [], art_RunID = [],
     art_DestinationID = [], art_DestinationName = [], art_DestinationKind = [], art_Path = [],
     art_Filename = [], art_Size = 0, art_SHA256 = [], art_Compression = CompressionEmpty,
     art_Encryption = EncryptionEmpty, art_SourceKind = [], art_Extension = [],
     art_Status = ArtifactUnset, art_CreatedAt = 0, art_VerifiedAt = None, art_DeletedAt = None,
     art_Meta = Map.empty\<rparr>"

definition zero_destination :: Destination where
  "zero_destination = \<lparr>dst_ID = [], dst_Name = [], dst_Kind = [], dst_Description = [],
     dst_Config = Map.empty, dst_Tags = [], dst_CreatedAt = 0, dst_UpdatedAt = 0,
     dst_LastTestAt = None, dst_LastTestOK = None, dst_LastTestError = [], dst_JobCount = 0,
     dst_UsedBytes = 0, dst_ArtifactCount = 0\<rparr>"

definition zero_host :: Host where
  "zero_host = \<lparr>host_ID = [], host_Name = [], host_Description = [], host_Address = [], host_Port = 0,
     host_User = [], host_Auth = HostAuthOther [], host_PrivateKey = [], host_KeyPassphrase = [],
     host_Password = [], host_PublicKey = [], host_HostKey = [], host_Sudo = False,
     host_ConnectTimeout = 0, host_Tags = [], host_CreatedAt = 0, host_UpdatedAt = 0,
     host_LastTestAt = None, host_LastTestOK = None, host_LastTestError = [], host_LastSeenOS = [],
     host_Tools = [], host_SourceCount = 0\<rparr>"

definition zero_user :: User where
  "zero_user = \<lparr>usr_ID = [], usr_Email = [], usr_Name = [], usr_Role = RoleOther [], usr_CreatedAt = 0,
     usr_LastLoginAt = None\<rparr>"

definition zero_token :: APIToken where
  "zero_token = \<lparr>tok_ID = [], tok_Name = [], tok_Prefix = [], tok_Scopes = [], tok_JobSlugs = [],
     tok_CreatedAt = 0, tok_CreatedBy = [], tok_LastUsedAt = None, tok_ExpiresAt = None\<rparr>"

definition zero_source :: Source where
  "zero_source = \<lparr>src_ID = [], src_Name = [], src_Kind = [], src_Description = [], src_Config = Map.empty,
     src_HostID = [], src_HostName = [], src_Tags = [], src_CreatedAt = 0, src_UpdatedAt = 0,
     src_LastTestAt = None, src_LastTestOK = None, src_LastTestError = [], src_JobCount = 0\<rparr>"

definition zero_channel :: NotificationChannel where
  "zero_channel = \<lparr>chn_ID = [], chn_Name = [], chn_Kind = [], chn_Config = Map.empty, chn_Enabled = False,
     chn_Events = [], chn_CreatedAt = 0, chn_UpdatedAt = 0, chn_LastSentAt = None, chn_LastError = []\<rparr>"

section \<open>Basic facts\<close>

lemma Terminal_iff: "Terminal s \<longleftrightarrow> s \<noteq> RunQueued \<and> s \<noteq> RunRunning"
  by (cases s) auto

text \<open>Masking a host hides every secret that is set and changes nothing else.\<close>

lemma Host_Masked_hides:
  "host_PrivateKey (Host_Masked h) \<in> {[], SecretMask}"
  "host_KeyPassphrase (Host_Masked h) \<in> {[], SecretMask}"
  "host_Password (Host_Masked h) \<in> {[], SecretMask}"
  by (auto simp: Host_Masked_def mask_secret_def)

lemma Host_Masked_idem: "Host_Masked (Host_Masked h) = Host_Masked h"
  by (simp add: Host_Masked_def mask_secret_def SecretMask_def)

end
