(* ===== verification/Go_Time.thy ===== *)
theory Go_Time
  imports Core_Types
begin

text \<open>
  The calendar of Go's package \<open>time\<close>, as far as the program uses it: the proleptic Gregorian
  date of an instant in UTC, its ISO 8601 week, the layouts that artifact names and retention
  buckets are formatted with, and \<open>AddDate(0, 0, n)\<close>. The lemmas show that a formatted bucket
  key identifies the calendar period it names.
\<close>

definition day_of :: "time \<Rightarrow> int" where
  "day_of t = t div (24 * Hour)"

definition hour_of :: "time \<Rightarrow> int" where
  "hour_of t = t mod (24 * Hour) div Hour"

definition minute_of :: "time \<Rightarrow> int" where
  "minute_of t = t mod Hour div Minute"

definition second_of :: "time \<Rightarrow> int" where
  "second_of t = t mod Minute div Second"

text \<open>Day numbers count from 1 January of year 1, a Monday.\<close>

definition civil :: "int \<Rightarrow> int \<times> int" where
  "civil d =
     (let n400 = d div 146097; r400 = d mod 146097;
          n100 = min 3 (r400 div 36524); r100 = r400 - 36524 * n100;
          n4 = r100 div 1461; r4 = r100 mod 1461;
          n1 = min 3 (r4 div 365)
      in (400 * n400 + 100 * n100 + 4 * n4 + n1 + 1, r4 - 365 * n1))"

definition year_of :: "int \<Rightarrow> int" where
  "year_of d = fst (civil d)"

definition yday_of :: "int \<Rightarrow> int" where
  "yday_of d = snd (civil d)"

definition is_leap :: "int \<Rightarrow> bool" where
  "is_leap y \<longleftrightarrow> y mod 4 = 0 \<and> (y mod 100 \<noteq> 0 \<or> y mod 400 = 0)"

definition month_lengths :: "int \<Rightarrow> int list" where
  "month_lengths y = [31, if is_leap y then 29 else 28, 31, 30, 31, 30, 31, 31, 30, 31, 30, 31]"

fun month_day :: "int list \<Rightarrow> int \<Rightarrow> int \<Rightarrow> int \<times> int" where
  "month_day [] m d = (m, d + 1)"
| "month_day (l # ls) m d = (if d < l then (m, d + 1) else month_day ls (m + 1) (d - l))"

definition month_day_of :: "int \<Rightarrow> int \<times> int" where
  "month_day_of d = month_day (month_lengths (year_of d)) 1 (yday_of d)"

text \<open>The ISO week of a day is the week of the year of its Thursday.\<close>

definition ISOWeek :: "int \<Rightarrow> int \<times> int" where
  "ISOWeek d = (let th = d - d mod 7 + 3 in (year_of th, yday_of th div 7 + 1))"

definition year_str :: "int \<Rightarrow> string" where
  "year_str y = (if y < 0 then CHR ''-'' # pad 4 (nat (- y)) else pad 4 (nat y))"

definition Format_2006 :: "time \<Rightarrow> string" where
  "Format_2006 t = year_str (year_of (day_of t))"

definition Format_2006_01 :: "time \<Rightarrow> string" where
  "Format_2006_01 t = Format_2006 t @ ''-'' @ pad 2 (nat (fst (month_day_of (day_of t))))"

definition Format_2006_01_02 :: "time \<Rightarrow> string" where
  "Format_2006_01_02 t = Format_2006_01 t @ ''-'' @ pad 2 (nat (snd (month_day_of (day_of t))))"

definition Format_2006_01_02T15 :: "time \<Rightarrow> string" where
  "Format_2006_01_02T15 t = Format_2006_01_02 t @ ''T'' @ pad 2 (nat (hour_of t))"

definition Format_20060102 :: "time \<Rightarrow> string" where
  "Format_20060102 t =
     (let (m, d) = month_day_of (day_of t) in Format_2006 t @ pad 2 (nat m) @ pad 2 (nat d))"

definition Format_150405 :: "time \<Rightarrow> string" where
  "Format_150405 t = pad 2 (nat (hour_of t)) @ pad 2 (nat (minute_of t)) @ pad 2 (nat (second_of t))"

definition iso_week_str :: "time \<Rightarrow> string" where
  "iso_week_str t =
     (let (y, w) = ISOWeek (day_of t)
      in (if y < 0 then CHR ''-'' # pad 3 (nat (- y)) else pad 4 (nat y)) @ ''-W'' @ pad 2 (nat w))"

definition AddDays :: "time \<Rightarrow> int \<Rightarrow> time" where
  "AddDays t n = t + n * (24 * Hour)"

section \<open>The civil calendar is a bijection\<close>

definition days_before_year :: "int \<Rightarrow> int" where
  "days_before_year y = (let p = y - 1 in 365 * p + p div 4 - p div 100 + p div 400)"

lemma civil_decomp:
  obtains a b c e r where
    "civil d = (400 * a + 100 * b + 4 * c + e + 1, r)"
    and "d = 146097 * a + 36524 * b + 1461 * c + 365 * e + r"
    and "0 \<le> b" "b \<le> 3" "0 \<le> c" "c \<le> 24" "0 \<le> e" "e \<le> 3" "0 \<le> r" "r \<le> 365"
    and "r = 365 \<Longrightarrow> e = 3 \<and> (c < 24 \<or> b = 3)"
proof -
  define a r1 where "a = d div 146097" and "r1 = d mod 146097"
  define q m where "q = r1 div 36524" and "m = r1 mod 36524"
  define b r2 where "b = min 3 q" and "r2 = r1 - 36524 * b"
  define c r3 where "c = r2 div 1461" and "r3 = r2 mod 1461"
  define q' m' where "q' = r3 div 365" and "m' = r3 mod 365"
  define e r where "e = min 3 q'" and "r = r3 - 365 * e"
  have r1: "0 \<le> r1" "r1 < 146097" "d = 146097 * a + r1"
    by (simp_all add: r1_def a_def)
  have q: "r1 = 36524 * q + m" "0 \<le> m" "m < 36524"
    by (simp_all add: q_def m_def)
  have b: "0 \<le> b" "b \<le> 3"
    using r1 q by (auto simp: b_def)
  have r2: "0 \<le> r2" "r2 \<le> 36524" "r2 = 36524 \<Longrightarrow> b = 3"
    using r1 q by (cases "q \<le> 3"; simp add: r2_def b_def min_def)+
  have r3: "0 \<le> r3" "r3 < 1461" "r2 = 1461 * c + r3"
    by (simp_all add: r3_def c_def)
  have c: "0 \<le> c" "c \<le> 24"
    using r2(1,2) r3 by simp_all
  have q': "r3 = 365 * q' + m'" "0 \<le> m'" "m' < 365"
    by (simp_all add: q'_def m'_def)
  have e: "0 \<le> e" "e \<le> 3"
    using r3(1,2) q' by (auto simp: e_def)
  have r: "0 \<le> r" "r \<le> 365" "r = 365 \<Longrightarrow> e = 3"
    using r3(1,2) q' by (cases "q' \<le> 3"; simp add: r_def e_def min_def)+
  have last: "c < 24 \<or> b = 3" if "r = 365"
  proof (cases "c = 24")
    case True
    with that r r3 have "r2 = 36524" by (simp add: r_def)
    with r2 show ?thesis by simp
  qed (use c in simp)
  show thesis
  proof (rule that [of a b c e r])
    show "civil d = (400 * a + 100 * b + 4 * c + e + 1, r)"
      unfolding civil_def Let_def a_def [symmetric] r1_def [symmetric] q_def [symmetric]
        b_def [symmetric] r2_def [symmetric] c_def [symmetric] r3_def [symmetric]
        q'_def [symmetric] e_def [symmetric] r_def [symmetric] ..
    show "d = 146097 * a + 36524 * b + 1461 * c + 365 * e + r"
      using r1 r3 by (simp add: r2_def r_def)
  qed (use b c e r last in auto)
qed

lemma civil_inverse: "d = days_before_year (year_of d) + yday_of d"
proof -
  obtain a b c e r where civ: "civil d = (400 * a + 100 * b + 4 * c + e + 1, r)"
    and d: "d = 146097 * a + 36524 * b + 1461 * c + 365 * e + r"
    and bnd: "0 \<le> b" "b \<le> 3" "0 \<le> c" "c \<le> 24" "0 \<le> e" "e \<le> 3"
    by (rule civil_decomp) blast
  define p where "p = 400 * a + 100 * b + 4 * c + e"
  have "p div 4 = 100 * a + 25 * b + c" and "p div 100 = 4 * a + b" and "p div 400 = a"
    using bnd unfolding p_def by linarith+
  then have "days_before_year (p + 1) = 146097 * a + 36524 * b + 1461 * c + 365 * e"
    by (simp add: days_before_year_def Let_def) (simp add: p_def)
  with civ d show ?thesis
    by (simp add: year_of_def yday_of_def p_def)
qed

lemma yday_bounds: "0 \<le> yday_of d" "yday_of d < sum_list (month_lengths (year_of d))"
proof -
  obtain a b c e r where civ: "civil d = (400 * a + 100 * b + 4 * c + e + 1, r)"
    and bnd: "0 \<le> b" "b \<le> 3" "0 \<le> c" "c \<le> 24" "0 \<le> e" "e \<le> 3" "0 \<le> r" "r \<le> 365"
    and leap: "r = 365 \<Longrightarrow> e = 3 \<and> (c < 24 \<or> b = 3)"
    by (rule civil_decomp) blast
  from civ bnd show "0 \<le> yday_of d" by (simp add: yday_of_def)
  have "is_leap (year_of d)" if "r = 365"
  proof -
    have y: "year_of d = 4 * (100 * a + 25 * b + c + 1)"
      using leap [OF that] civ by (simp add: year_of_def)
    show ?thesis
    proof (cases "c < 24")
      case True
      have "year_of d = 100 * (4 * a + b) + (4 * c + 4)" by (simp add: y)
      then have "year_of d mod 100 = 4 * c + 4" using True bnd by (simp only: mod_mult_self4) simp
      with y bnd show ?thesis by (simp add: is_leap_def)
    next
      case False
      with leap [OF that] bnd have "year_of d = 400 * (a + 1)" by (simp add: y)
      then show ?thesis by (simp add: is_leap_def)
    qed
  qed
  then show "yday_of d < sum_list (month_lengths (year_of d))"
    using civ bnd by (cases "r = 365") (auto simp: yday_of_def month_lengths_def)
qed

lemma month_day_inverse:
  assumes "0 \<le> d" and "d < sum_list ls" and "month_day ls m d = (a, b)"
  shows "d = sum_list (take (nat (a - m)) ls) + b - 1 \<and> m \<le> a \<and> 1 \<le> b"
  using assms
proof (induction ls arbitrary: m d)
  case (Cons l ls)
  show ?case
  proof (cases "d < l")
    case True
    with Cons.prems show ?thesis by auto
  next
    case False
    with Cons.prems have "0 \<le> d - l" and "d - l < sum_list ls" and "month_day ls (m + 1) (d - l) = (a, b)"
      by auto
    then have ih: "d - l = sum_list (take (nat (a - (m + 1))) ls) + b - 1 \<and> m + 1 \<le> a \<and> 1 \<le> b"
      by (rule Cons.IH)
    then have "nat (a - m) = Suc (nat (a - (m + 1)))" by linarith
    with ih show ?thesis by simp
  qed
qed simp

lemma civil_date_eq_iff:
  "year_of d = year_of d' \<and> month_day_of d = month_day_of d' \<longleftrightarrow> d = d'"
proof
  assume eq: "year_of d = year_of d' \<and> month_day_of d = month_day_of d'"
  obtain a b where md: "month_day_of d = (a, b)" by (cases "month_day_of d")
  have "yday_of x = sum_list (take (nat (a - 1)) (month_lengths (year_of x))) + b - 1"
    if "month_day_of x = (a, b)" for x
    using month_day_inverse [OF yday_bounds [of x]] that by (simp add: month_day_of_def)
  from this [of d] this [of d'] md eq have "yday_of d = yday_of d'" by simp
  with eq show "d = d'" by (metis civil_inverse)
qed simp

text \<open>Two days carry the same ISO week exactly when they lie in the same week from Monday.\<close>

lemma ISOWeek_eq_iff: "ISOWeek d = ISOWeek d' \<longleftrightarrow> d div 7 = d' div 7"
proof
  assume eq: "ISOWeek d = ISOWeek d'"
  define th where "th = d - d mod 7 + 3"
  define th' where "th' = d' - d' mod 7 + 3"
  have "year_of th = year_of th'" and week: "yday_of th div 7 = yday_of th' div 7"
    using eq by (simp_all add: ISOWeek_def Let_def th_def th'_def)
  then have "th - th' = yday_of th - yday_of th'"
    using civil_inverse [of th] civil_inverse [of th'] by simp
  with week have "\<bar>th - th'\<bar> < 7" by linarith
  then have "\<bar>7 * (d div 7) - 7 * (d' div 7)\<bar> < 7"
    by (simp add: th_def th'_def minus_mod_eq_mult_div)
  then show "d div 7 = d' div 7" by linarith
next
  assume "d div 7 = d' div 7"
  then show "ISOWeek d = ISOWeek d'"
    by (simp add: ISOWeek_def minus_mod_eq_mult_div)
qed

section \<open>Formatted keys identify their period\<close>

lemma year_of_pos: "0 \<le> d \<Longrightarrow> 1 \<le> year_of d"
proof -
  assume "0 \<le> d"
  obtain a b c e r where civ: "civil d = (400 * a + 100 * b + 4 * c + e + 1, r)"
    and d: "d = 146097 * a + 36524 * b + 1461 * c + 365 * e + r"
    and bnd: "0 \<le> b" "b \<le> 3" "0 \<le> c" "c \<le> 24" "0 \<le> e" "e \<le> 3" "0 \<le> r" "r \<le> 365"
    and "r = 365 \<Longrightarrow> e = 3 \<and> (c < 24 \<or> b = 3)"
    by (rule civil_decomp) blast
  with \<open>0 \<le> d\<close> have "0 \<le> a" by linarith
  with civ bnd show ?thesis by (simp add: year_of_def)
qed

lemma day_of_nonneg: "0 \<le> t \<Longrightarrow> 0 \<le> day_of t"
  by (simp add: day_of_def pos_imp_zdiv_nonneg_iff)

lemma year_str_inject:
  "0 \<le> y \<Longrightarrow> 0 \<le> y' \<Longrightarrow> year_str y = year_str y' \<longleftrightarrow> y = y'"
  by (auto simp: year_str_def pad_inject)

lemma dash_notin_year_str: "0 \<le> y \<Longrightarrow> CHR ''-'' \<notin> set (year_str y)"
  by (simp add: year_str_def pad_notin)

lemma Format_2006_eq_iff:
  assumes "0 \<le> t" and "0 \<le> u"
  shows "Format_2006 t = Format_2006 u \<longleftrightarrow> year_of (day_of t) = year_of (day_of u)"
  using year_of_pos [OF day_of_nonneg [OF assms(1)]] year_of_pos [OF day_of_nonneg [OF assms(2)]]
  by (simp add: Format_2006_def year_str_inject)

lemma dash_notin_Format_2006: "0 \<le> t \<Longrightarrow> CHR ''-'' \<notin> set (Format_2006 t)"
  using year_of_pos [OF day_of_nonneg, of t] by (simp add: Format_2006_def dash_notin_year_str)

lemma month_day_of_pos: "1 \<le> fst (month_day_of d)" "1 \<le> snd (month_day_of d)"
  using month_day_inverse [OF yday_bounds [of d]]
  by (cases "month_day_of d"; simp add: month_day_of_def)+

lemma Format_2006_01_eq_iff:
  assumes "0 \<le> t" and "0 \<le> u"
  shows "Format_2006_01 t = Format_2006_01 u \<longleftrightarrow>
     year_of (day_of t) = year_of (day_of u) \<and>
     fst (month_day_of (day_of t)) = fst (month_day_of (day_of u))"
proof -
  have "Format_2006_01 t = Format_2006_01 u \<longleftrightarrow>
     Format_2006 t = Format_2006 u \<and>
     pad 2 (nat (fst (month_day_of (day_of t)))) = pad 2 (nat (fst (month_day_of (day_of u))))"
    by (simp add: Format_2006_01_def sep_inject dash_notin_Format_2006 assms)
  then show ?thesis
    using month_day_of_pos(1) [of "day_of t"] month_day_of_pos(1) [of "day_of u"]
    by (auto simp: Format_2006_eq_iff assms pad_inject)
qed

lemma Format_2006_01_02_eq_iff:
  assumes "0 \<le> t" and "0 \<le> u"
  shows "Format_2006_01_02 t = Format_2006_01_02 u \<longleftrightarrow> day_of t = day_of u"
proof -
  have "Format_2006_01_02 t = Format_2006_01_02 u \<longleftrightarrow>
     Format_2006_01 t = Format_2006_01 u \<and>
     pad 2 (nat (snd (month_day_of (day_of t)))) = pad 2 (nat (snd (month_day_of (day_of u))))"
    by (simp add: Format_2006_01_02_def last_sep_inject pad_notin)
  also have "\<dots> \<longleftrightarrow> year_of (day_of t) = year_of (day_of u) \<and>
     month_day_of (day_of t) = month_day_of (day_of u)"
    using month_day_of_pos(2) [of "day_of t"] month_day_of_pos(2) [of "day_of u"]
    by (auto simp: Format_2006_01_eq_iff assms pad_inject prod_eq_iff)
  finally show ?thesis by (simp add: civil_date_eq_iff)
qed

lemma hour_bounds: "0 \<le> hour_of t"
  by (simp add: hour_of_def pos_imp_zdiv_nonneg_iff)

lemma mod_mult_div: "0 < (h::int) \<Longrightarrow> 0 < k \<Longrightarrow> t mod (k * h) div h = t div h mod k"
  by (simp add: mult.commute [of k] zmod_zmult2_eq)

lemma hours_of_day: "day_of t = t div Hour div 24" "hour_of t = t div Hour mod 24"
proof -
  have "t div (24 * h) = t div h div 24" if "0 < h" for h :: int
    using zdiv_zmult2_eq [of 24 t h] by (simp add: mult.commute)
  from this [of Hour] show "day_of t = t div Hour div 24"
    unfolding day_of_def by simp
  show "hour_of t = t div Hour mod 24"
    unfolding hour_of_def by (rule mod_mult_div) simp_all
qed

lemma Format_2006_01_02T15_eq_iff:
  assumes "0 \<le> t" and "0 \<le> u"
  shows "Format_2006_01_02T15 t = Format_2006_01_02T15 u \<longleftrightarrow> t div Hour = u div Hour"
proof -
  have "Format_2006_01_02T15 t = Format_2006_01_02T15 u \<longleftrightarrow>
     Format_2006_01_02 t = Format_2006_01_02 u \<and> pad 2 (nat (hour_of t)) = pad 2 (nat (hour_of u))"
    by (simp add: Format_2006_01_02T15_def last_sep_inject pad_notin)
  also have "\<dots> \<longleftrightarrow> day_of t = day_of u \<and> hour_of t = hour_of u"
    using hour_bounds [of t] hour_bounds [of u]
    by (auto simp: Format_2006_01_02_eq_iff assms pad_inject)
  also have "\<dots> \<longleftrightarrow> t div Hour = u div Hour"
    by (metis div_mult_mod_eq hours_of_day)
  finally show ?thesis .
qed

lemma iso_week_str_eq_iff:
  assumes "0 \<le> t" and "0 \<le> u"
  shows "iso_week_str t = iso_week_str u \<longleftrightarrow> day_of t div 7 = day_of u div 7"
proof -
  obtain y w where t: "ISOWeek (day_of t) = (y, w)" by (cases "ISOWeek (day_of t)")
  obtain y' w' where u: "ISOWeek (day_of u) = (y', w')" by (cases "ISOWeek (day_of u)")
  have nonneg: "0 \<le> fst (ISOWeek (day_of x)) \<and> 0 \<le> snd (ISOWeek (day_of x))" if "0 \<le> x" for x
  proof -
    have "0 \<le> day_of x - day_of x mod 7 + 3"
      using day_of_nonneg [OF that] by (simp add: minus_mod_eq_mult_div pos_imp_zdiv_nonneg_iff)
    from year_of_pos [OF this] yday_bounds(1) [of "day_of x - day_of x mod 7 + 3"]
    show ?thesis by (simp add: ISOWeek_def Let_def pos_imp_zdiv_nonneg_iff)
  qed
  have pos: "0 \<le> y" "0 \<le> y'" "0 \<le> w" "0 \<le> w'"
    using nonneg [OF assms(1)] nonneg [OF assms(2)] t u by simp_all
  have "iso_week_str t = iso_week_str u \<longleftrightarrow> pad 4 (nat y) = pad 4 (nat y') \<and> pad 2 (nat w) = pad 2 (nat w')"
    using pos by (simp add: iso_week_str_def t u sep_inject pad_notin)
  also have "\<dots> \<longleftrightarrow> ISOWeek (day_of t) = ISOWeek (day_of u)"
    using pos by (auto simp: pad_inject t u)
  finally show ?thesis by (simp add: ISOWeek_eq_iff)
qed

section \<open>Time stamps of file names\<close>

lemma length_pad: "n < 100 \<Longrightarrow> length (pad 2 n) = 2"
proof -
  assume "n < 100"
  then have "n div 10 < 10" by linarith
  then show ?thesis by (simp add: pad_def digits_of.simps [of n] digits_of.simps [of "n div 10"])
qed

lemma month_day_bound:
  "0 \<le> d \<Longrightarrow> d < sum_list ls \<Longrightarrow> (\<And>l. l \<in> set ls \<Longrightarrow> l \<le> 31) \<Longrightarrow> month_day ls m d = (a, b) \<Longrightarrow>
   a < m + int (length ls) \<and> b \<le> 31"
proof (induction ls arbitrary: m d)
  case (Cons l ls)
  show ?case
  proof (cases "d < l")
    case True
    with Cons.prems show ?thesis by fastforce
  next
    case False
    then have "a < m + 1 + int (length ls) \<and> b \<le> 31"
      using Cons.prems by (intro Cons.IH [of "d - l"]) auto
    then show ?thesis by simp
  qed
qed simp

lemma month_day_of_range:
  "1 \<le> fst (month_day_of d) \<and> fst (month_day_of d) \<le> 12
   \<and> 1 \<le> snd (month_day_of d) \<and> snd (month_day_of d) \<le> 31"
proof -
  obtain a b where md: "month_day (month_lengths (year_of d)) 1 (yday_of d) = (a, b)"
    by (cases "month_day (month_lengths (year_of d)) 1 (yday_of d)")
  have "l \<le> 31" if "l \<in> set (month_lengths (year_of d))" for l
    using that by (auto simp: month_lengths_def split: if_splits)
  from month_day_bound [OF yday_bounds this md] month_day_of_pos [of d] md show ?thesis
    by (simp add: month_day_of_def month_lengths_def)
qed

lemma Format_20060102_eq_iff:
  assumes "0 \<le> t" and "0 \<le> u"
  shows "Format_20060102 t = Format_20060102 u \<longleftrightarrow> day_of t = day_of u"
proof -
  obtain a b where t: "month_day_of (day_of t) = (a, b)" by (cases "month_day_of (day_of t)")
  obtain a' b' where u: "month_day_of (day_of u) = (a', b')" by (cases "month_day_of (day_of u)")
  have r: "1 \<le> a" "a \<le> 12" "1 \<le> b" "b \<le> 31" "1 \<le> a'" "a' \<le> 12" "1 \<le> b'" "b' \<le> 31"
    using month_day_of_range [of "day_of t"] month_day_of_range [of "day_of u"] t u by auto
  have len: "length (pad 2 (nat a)) = 2" "length (pad 2 (nat b)) = 2"
    "length (pad 2 (nat a')) = 2" "length (pad 2 (nat b')) = 2"
    using r by (simp_all add: length_pad)
  have "Format_20060102 t = Format_20060102 u \<longleftrightarrow>
     Format_2006 t = Format_2006 u \<and> pad 2 (nat a) = pad 2 (nat a') \<and> pad 2 (nat b) = pad 2 (nat b')"
    using len by (simp add: Format_20060102_def t u append_eq_append_conv) 
  also have "\<dots> \<longleftrightarrow> year_of (day_of t) = year_of (day_of u) \<and> a = a' \<and> b = b'"
    using r by (simp add: Format_2006_eq_iff [OF assms] pad_inject eq_nat_nat_iff)
  also have "\<dots> \<longleftrightarrow> day_of t = day_of u"
    using civil_date_eq_iff [of "day_of t" "day_of u"] t u by auto
  finally show ?thesis .
qed

text \<open>The seconds since the zero time, from the fields of the clock.\<close>

lemma div_unit: "0 < k \<Longrightarrow> (t::int) div (k * u) = t div u div k"
  by (metis mult.commute zdiv_zmult2_eq order_less_imp_le)

lemma clock_of_second:
  "day_of t = t div Second div 3600 div 24" "hour_of t = t div Second div 3600 mod 24"
  "minute_of t = t div Second div 60 mod 60" "second_of t = t div Second mod 60"
proof -
  have hour: "t div Hour = t div Second div 3600" by (rule div_unit) simp
  show "day_of t = t div Second div 3600 div 24" "hour_of t = t div Second div 3600 mod 24"
    by (simp_all only: hours_of_day hour)
  have "t mod (60 * Minute) div Minute = t div Minute mod 60" by (rule mod_mult_div) simp_all
  moreover have "t div Minute = t div Second div 60" by (rule div_unit) simp
  moreover have "60 * Minute = Hour" by simp
  ultimately show "minute_of t = t div Second div 60 mod 60"
    by (simp only: minute_of_def)
  have "t mod (60 * Second) div Second = t div Second mod 60" by (rule mod_mult_div) simp_all
  then show "second_of t = t div Second mod 60"
    by (simp only: second_of_def)
qed

lemma clock_fields:
  "t div Second = 86400 * day_of t + 3600 * hour_of t + 60 * minute_of t + second_of t"
  "0 \<le> hour_of t" "hour_of t < 24" "0 \<le> minute_of t" "minute_of t < 60" "0 \<le> second_of t" "second_of t < 60"
proof -
  define s where "s = t div Second"
  have "s div 3600 = s div 60 div 60"
    using div_unit [of 60 s 60] by simp
  then show "t div Second = 86400 * day_of t + 3600 * hour_of t + 60 * minute_of t + second_of t"
    unfolding clock_of_second s_def [symmetric]
    using div_mult_mod_eq [of s 60] div_mult_mod_eq [of "s div 60" 60] div_mult_mod_eq [of "s div 3600" 24]
    by linarith
qed (simp_all add: clock_of_second)

lemma Format_150405_eq_iff:
  "Format_150405 t = Format_150405 u \<longleftrightarrow>
     hour_of t = hour_of u \<and> minute_of t = minute_of u \<and> second_of t = second_of u"
proof -
  note b = clock_fields(2-7) [of t] clock_fields(2-7) [of u]
  have "length (pad 2 (nat (hour_of t))) = 2" "length (pad 2 (nat (hour_of u))) = 2"
    "length (pad 2 (nat (minute_of t))) = 2" "length (pad 2 (nat (minute_of u))) = 2"
    using b by (simp_all add: length_pad)
  then show ?thesis
    using b by (simp add: Format_150405_def pad_inject eq_nat_nat_iff)
qed

text \<open>Date and time of a file name determine the second, no more.\<close>

lemma timestamp_eq_iff:
  assumes "0 \<le> t" and "0 \<le> u"
  shows "Format_20060102 t = Format_20060102 u \<and> Format_150405 t = Format_150405 u
    \<longleftrightarrow> t div Second = u div Second"
  unfolding Format_20060102_eq_iff [OF assms] Format_150405_eq_iff
  using clock_fields(1) [of t] clock_fields(1) [of u] by (metis clock_of_second)

lemma timestamp_chars:
  assumes "c \<notin> set ''0123456789''"
  shows "0 \<le> t \<Longrightarrow> c \<notin> set (Format_20060102 t)" and "c \<notin> set (Format_150405 t)"
  using assms year_of_pos [OF day_of_nonneg, of t]
  by (auto simp: Format_20060102_def Format_150405_def Format_2006_def year_str_def pad_notin split: prod.split)

end
