(* ===== verification/Retention.thy ===== *)
theory Retention
  imports Go_Time "HOL-Library.Multiset"
begin

text \<open>
  The retention planner of package \<open>internal/engine\<close> (retention.go): \<open>Plan\<close> decides which
  artifacts of one job on one destination stay and which are deleted. The abstract policy
  \<open>keep_rule\<close> says, rule by rule and in calendar terms, when an artifact is protected given the
  artifacts that are newer; \<open>Plan\<close> is proved to implement it.
\<close>

section \<open>The planner\<close>

fun applyBucket_loop ::
  "(time \<Rightarrow> string) \<Rightarrow> int \<Rightarrow> Artifact list \<Rightarrow> bool list \<Rightarrow> string set \<Rightarrow> int \<Rightarrow> bool list" where
  "applyBucket_loop key n (a # as) (k # ks) seen taken =
     (let x = key (art_CreatedAt a) in
      if x \<in> seen then k # applyBucket_loop key n as ks seen taken
      else True # (if n \<le> taken + 1 then ks
                   else applyBucket_loop key n as ks (insert x seen) (taken + 1)))"
| "applyBucket_loop key n _ ks seen taken = ks"

definition applyBucket :: "Artifact list \<Rightarrow> bool list \<Rightarrow> int \<Rightarrow> (time \<Rightarrow> string) \<Rightarrow> bool list" where
  "applyBucket items kept n key =
     (if n \<le> 0 then kept else applyBucket_loop key n items kept {} 0)"

text \<open>The loop that marks the first \<open>KeepLast\<close> positions.\<close>

fun keepLast_loop :: "int \<Rightarrow> bool list \<Rightarrow> bool list" where
  "keepLast_loop n [] = []"
| "keepLast_loop n (k # ks) = (if 0 < n then True # keepLast_loop (n - 1) ks else k # ks)"

definition hasKeepRule :: "Retention \<Rightarrow> bool" where
  "hasKeepRule r \<longleftrightarrow> 0 < KeepLast r \<or> 0 < KeepHourly r \<or> 0 < KeepDaily r \<or> 0 < KeepWeekly r
     \<or> 0 < KeepMonthly r \<or> 0 < KeepYearly r"

definition newest_first :: "Artifact list \<Rightarrow> Artifact list" where
  "newest_first = sort_key (\<lambda>a. - art_CreatedAt a)"

definition plan_buckets :: "Artifact list \<Rightarrow> bool list \<Rightarrow> Retention \<Rightarrow> bool list" where
  "plan_buckets items k1 r =
     (let k2 = applyBucket items k1 (KeepHourly r) Format_2006_01_02T15;
          k3 = applyBucket items k2 (KeepDaily r) Format_2006_01_02;
          k4 = applyBucket items k3 (KeepWeekly r) iso_week_str;
          k5 = applyBucket items k4 (KeepMonthly r) Format_2006_01
      in applyBucket items k5 (KeepYearly r) Format_2006)"

definition plan_kept :: "Artifact list \<Rightarrow> Retention \<Rightarrow> time \<Rightarrow> bool list" where
  "plan_kept items r now =
     (let k0 = True # replicate (length items - 1) False;
          k1 = (if 0 < KeepLast r then keepLast_loop (KeepLast r) k0 else k0);
          k6 = plan_buckets items k1 r
      in if \<not> hasKeepRule r \<and> 0 < MaxAgeDays r
         then map2 (\<lambda>a k. k \<or> \<not> art_CreatedAt a < AddDays now (- MaxAgeDays r)) items k6
         else k6)"

definition Plan :: "Artifact list \<Rightarrow> Retention \<Rightarrow> time \<Rightarrow> Artifact list \<times> Artifact list" where
  "Plan artifacts r now =
     (let items = newest_first artifacts in
      if items = [] then ([], [])
      else if Retention_IsZero r then (items, [])
      else let kept = plan_kept items r now
           in (map fst (filter snd (zip items kept)), map fst (filter (\<lambda>p. \<not> snd p) (zip items kept))))"

definition EffectiveRetention :: "Job \<Rightarrow> Settings \<Rightarrow> Retention" where
  "EffectiveRetention job settings =
     (if Retention_IsZero (job_Retention job) then set_DefaultRetention settings else job_Retention job)"

section \<open>The policy\<close>

text \<open>
  One bucket rule: with \<open>newer\<close> the artifacts newer than \<open>a\<close>, \<open>a\<close> is the newest of its
  period and its period is among the \<open>n\<close> most recent ones that hold an artifact.
\<close>

definition bucket_rule :: "(time \<Rightarrow> 'k) \<Rightarrow> int \<Rightarrow> Artifact list \<Rightarrow> Artifact \<Rightarrow> bool" where
  "bucket_rule key n newer a \<longleftrightarrow>
     0 < n \<and> key (art_CreatedAt a) \<notin> (\<lambda>b. key (art_CreatedAt b)) ` set newer
     \<and> int (card ((\<lambda>b. key (art_CreatedAt b)) ` set (newer @ [a]))) \<le> n"

definition hour_bucket :: "time \<Rightarrow> int" where "hour_bucket t = t div Hour"
definition day_bucket :: "time \<Rightarrow> int" where "day_bucket t = day_of t"
definition week_bucket :: "time \<Rightarrow> int" where "week_bucket t = day_of t div 7"
definition year_bucket :: "time \<Rightarrow> int" where "year_bucket t = year_of (day_of t)"
definition month_bucket :: "time \<Rightarrow> int \<times> int" where
  "month_bucket t = (year_of (day_of t), fst (month_day_of (day_of t)))"

definition keep_rule :: "Retention \<Rightarrow> time \<Rightarrow> Artifact list \<Rightarrow> Artifact \<Rightarrow> bool" where
  "keep_rule r now newer a \<longleftrightarrow>
     Retention_IsZero r \<or> newer = []
     \<or> int (length newer) < KeepLast r
     \<or> bucket_rule hour_bucket (KeepHourly r) newer a
     \<or> bucket_rule day_bucket (KeepDaily r) newer a
     \<or> bucket_rule week_bucket (KeepWeekly r) newer a
     \<or> bucket_rule month_bucket (KeepMonthly r) newer a
     \<or> bucket_rule year_bucket (KeepYearly r) newer a
     \<or> (\<not> hasKeepRule r \<and> 0 < MaxAgeDays r \<and> AddDays now (- MaxAgeDays r) \<le> art_CreatedAt a)"

text \<open>Select the elements a rule accepts, the rule seeing the elements before each.\<close>

fun select :: "('a list \<Rightarrow> 'a \<Rightarrow> bool) \<Rightarrow> 'a list \<Rightarrow> 'a list \<Rightarrow> 'a list" where
  "select R pre [] = []"
| "select R pre (x # xs) = (if R pre x then x # select R (pre @ [x]) xs else select R (pre @ [x]) xs)"

section \<open>Selection\<close>

lemma select_flags:
  assumes "length ks = length xs"
    and "\<And>i. i < length xs \<Longrightarrow> ks ! i \<longleftrightarrow> R (pre @ take i xs) (xs ! i)"
  shows "map fst (filter snd (zip xs ks)) = select R pre xs
    \<and> map fst (filter (\<lambda>p. \<not> snd p) (zip xs ks)) = select (\<lambda>p x. \<not> R p x) pre xs"
  using assms
proof (induction xs arbitrary: ks pre)
  case (Cons x xs)
  then obtain k ks' where ks: "ks = k # ks'" "length ks' = length xs"
    by (cases ks) auto
  have hd: "k \<longleftrightarrow> R pre x" using Cons.prems(2) [of 0] ks by simp
  have tl: "ks' ! i \<longleftrightarrow> R ((pre @ [x]) @ take i xs) (xs ! i)" if "i < length xs" for i
    using Cons.prems(2) [of "Suc i"] ks that by simp
  from Cons.IH [OF ks(2) tl] ks hd show ?case by simp
qed simp

lemma select_subset: "set (select R pre xs) \<subseteq> set xs"
  by (induction xs arbitrary: pre) auto

lemma select_partition:
  "mset (select R pre xs) + mset (select (\<lambda>p x. \<not> R p x) pre xs) = mset xs"
  by (induction xs arbitrary: pre) auto

lemma select_cong:
  assumes "\<And>i. i < length xs \<Longrightarrow> R (pre @ take i xs) (xs ! i) \<longleftrightarrow> R' (pre @ take i xs) (xs ! i)"
  shows "select R pre xs = select R' pre xs"
  using assms
proof (induction xs arbitrary: pre)
  case (Cons x xs)
  have "R ((pre @ [x]) @ take i xs) (xs ! i) \<longleftrightarrow> R' ((pre @ [x]) @ take i xs) (xs ! i)"
    if "i < length xs" for i
    using Cons.prems [of "Suc i"] that by simp
  from Cons.IH [OF this] Cons.prems [of 0] show ?case by simp
qed simp

lemma sorted_select:
  "sorted (map f xs) \<Longrightarrow> sorted (map f (select R pre xs))"
proof (induction xs arbitrary: pre)
  case (Cons x xs)
  then show ?case using select_subset [of R "pre @ [x]" xs] by auto
qed simp

text \<open>A rule that can only gain from seeing fewer elements selects everything it selected.\<close>

lemma select_idem:
  assumes mono: "\<And>p q x. set q \<subseteq> set p \<Longrightarrow> length q \<le> length p \<Longrightarrow> R p x \<Longrightarrow> R q x"
    and "set q \<subseteq> set p" and "length q \<le> length p"
  shows "select R q (select R p xs) = select R p xs"
  using assms(2,3)
proof (induction xs arbitrary: p q)
  case (Cons x xs)
  show ?case
  proof (cases "R p x")
    case True
    with mono Cons.prems have "R q x" by blast
    moreover have "select R (q @ [x]) (select R (p @ [x]) xs) = select R (p @ [x]) xs"
      using Cons.prems by (intro Cons.IH) auto
    ultimately show ?thesis using True by simp
  next
    case False
    moreover have "select R q (select R (p @ [x]) xs) = select R (p @ [x]) xs"
      using Cons.prems by (intro Cons.IH) auto
    ultimately show ?thesis by simp
  qed
qed simp

section \<open>The loops compute the rules\<close>

abbreviation keys_of :: "(time \<Rightarrow> 'k) \<Rightarrow> Artifact list \<Rightarrow> 'k set" where
  "keys_of key as \<equiv> (\<lambda>b. key (art_CreatedAt b)) ` set as"

lemma length_applyBucket_loop [simp]:
  "length ks = length as \<Longrightarrow> length (applyBucket_loop key n as ks S t) = length ks"
  by (induction key n as ks S t rule: applyBucket_loop.induct) (auto simp: Let_def)

lemma length_applyBucket [simp]:
  "length ks = length as \<Longrightarrow> length (applyBucket as ks n key) = length ks"
  by (simp add: applyBucket_def)

lemma length_keepLast_loop [simp]: "length (keepLast_loop n ks) = length ks"
  by (induction n ks rule: keepLast_loop.induct) auto

lemma card_insert_Diff:
  "finite A \<Longrightarrow> x \<notin> S \<Longrightarrow> card (insert x A - S) = Suc (card (A - insert x S))"
  by (metis Diff_insert finite_Diff card.insert_remove insert_Diff_if)

lemma applyBucket_loop_nth:
  assumes "length ks = length as" and "i < length as" and "t < n"
  shows "applyBucket_loop key n as ks S t ! i \<longleftrightarrow>
     ks ! i \<or> (key (art_CreatedAt (as ! i)) \<notin> S \<union> keys_of key (take i as)
        \<and> t + int (card (keys_of key (take (Suc i) as) - S)) \<le> n)"
  using assms
proof (induction as arbitrary: ks S t i)
  case (Cons a as)
  obtain k ks' where ks: "ks = k # ks'" "length ks' = length as"
    using Cons.prems by (cases ks) auto
  let ?x = "key (art_CreatedAt a)"
  let ?K = "\<lambda>j. keys_of key (take j as)"
  show ?case
  proof (cases i)
    case 0
    with Cons.prems ks show ?thesis
      by (cases "?x \<in> S") (auto simp: Let_def insert_Diff_if)
  next
    case (Suc j)
    with Cons.prems have j: "j < length as" by simp
    let ?y = "key (art_CreatedAt (as ! j))"
    consider (seen) "?x \<in> S" | (last) "?x \<notin> S" "n \<le> t + 1" | (new) "?x \<notin> S" "t + 1 < n" by linarith
    then show ?thesis
    proof cases
      case seen
      with Cons.IH [OF ks(2) j Cons.prems(3)] Suc ks show ?thesis
        by (auto simp: insert_absorb insert_Diff_if)
    next
      case last
      have "\<not> t + int (card (insert ?x (?K (Suc j)) - S)) \<le> n" if "?y \<notin> insert ?x (S \<union> ?K j)"
      proof -
        have "?y \<in> ?K (Suc j) - insert ?x S" using that j by (auto simp: set_take_Suc)
        then have "0 < card (?K (Suc j) - insert ?x S)" by (auto simp: card_gt_0_iff)
        with last show ?thesis by (simp add: card_insert_Diff)
      qed
      with last Suc ks show ?thesis by auto
    next
      case new
      from Cons.IH [OF ks(2) j new(2), of "insert ?x S"] new Suc ks show ?thesis
        by (auto simp: card_insert_Diff)
    qed
  qed
qed simp

lemma applyBucket_nth:
  assumes "length ks = length as" and "i < length as"
  shows "applyBucket as ks n key ! i \<longleftrightarrow> ks ! i \<or> bucket_rule key n (take i as) (as ! i)"
proof (cases "n \<le> 0")
  case False
  with assms show ?thesis
    by (simp add: applyBucket_def bucket_rule_def applyBucket_loop_nth set_take_Suc)
qed (simp add: applyBucket_def bucket_rule_def)

lemma keepLast_loop_nth: "i < length ks \<Longrightarrow> keepLast_loop n ks ! i \<longleftrightarrow> ks ! i \<or> int i < n"
proof (induction n ks arbitrary: i rule: keepLast_loop.induct)
  case (2 n k ks)
  then show ?case by (cases i) auto
qed simp

text \<open>String keys that identify the same periods give the same rule.\<close>

lemma card_image_same_kernel:
  assumes "finite A" and ker: "\<And>x y. x \<in> A \<Longrightarrow> y \<in> A \<Longrightarrow> f x = f y \<longleftrightarrow> g x = g y"
  shows "card (f ` A) = card (g ` A)"
proof (rule bij_betw_same_card)
  let ?h = "\<lambda>u. g (SOME x. x \<in> A \<and> f x = u)"
  have h: "?h (f x) = g x" if "x \<in> A" for x
  proof -
    have "(SOME z. z \<in> A \<and> f z = f x) \<in> A \<and> f (SOME z. z \<in> A \<and> f z = f x) = f x"
      by (rule someI [of _ x]) (use that in simp)
    with ker that show ?thesis by blast
  qed
  show "bij_betw ?h (f ` A) (g ` A)"
    unfolding bij_betw_def inj_on_def using h ker by (auto simp: image_iff)
qed

lemma bucket_rule_cong:
  assumes "\<And>b c. b \<in> set (newer @ [a]) \<Longrightarrow> c \<in> set (newer @ [a]) \<Longrightarrow>
     key (art_CreatedAt b) = key (art_CreatedAt c) \<longleftrightarrow> key' (art_CreatedAt b) = key' (art_CreatedAt c)"
  shows "bucket_rule key n newer a \<longleftrightarrow> bucket_rule key' n newer a"
proof -
  have "card (keys_of key (newer @ [a])) = card (keys_of key' (newer @ [a]))"
    using assms by (intro card_image_same_kernel) simp_all
  moreover have "key (art_CreatedAt a) \<in> keys_of key newer \<longleftrightarrow> key' (art_CreatedAt a) \<in> keys_of key' newer"
    using assms [of a] by (auto simp: image_iff)
  ultimately show ?thesis by (simp add: bucket_rule_def)
qed

lemma bucket_kernels:
  assumes "0 \<le> t" and "0 \<le> u"
  shows "Format_2006_01_02T15 t = Format_2006_01_02T15 u \<longleftrightarrow> hour_bucket t = hour_bucket u"
    and "Format_2006_01_02 t = Format_2006_01_02 u \<longleftrightarrow> day_bucket t = day_bucket u"
    and "iso_week_str t = iso_week_str u \<longleftrightarrow> week_bucket t = week_bucket u"
    and "Format_2006_01 t = Format_2006_01 u \<longleftrightarrow> month_bucket t = month_bucket u"
    and "Format_2006 t = Format_2006 u \<longleftrightarrow> year_bucket t = year_bucket u"
  unfolding hour_bucket_def day_bucket_def week_bucket_def month_bucket_def year_bucket_def prod.inject
  using assms
  by (simp_all only: Format_2006_01_02T15_eq_iff Format_2006_01_02_eq_iff iso_week_str_eq_iff
      Format_2006_01_eq_iff Format_2006_eq_iff)

lemma length_plan_buckets [simp]:
  "length ks = length items \<Longrightarrow> length (plan_buckets items ks r) = length items"
  by (simp add: plan_buckets_def)

lemma plan_buckets_nth:
  assumes "length ks = length items" and "i < length items"
  shows "plan_buckets items ks r ! i \<longleftrightarrow>
     ks ! i
     \<or> bucket_rule Format_2006_01_02T15 (KeepHourly r) (take i items) (items ! i)
     \<or> bucket_rule Format_2006_01_02 (KeepDaily r) (take i items) (items ! i)
     \<or> bucket_rule iso_week_str (KeepWeekly r) (take i items) (items ! i)
     \<or> bucket_rule Format_2006_01 (KeepMonthly r) (take i items) (items ! i)
     \<or> bucket_rule Format_2006 (KeepYearly r) (take i items) (items ! i)"
  unfolding plan_buckets_def Let_def
  by (simp only: applyBucket_nth length_applyBucket assms disj_assoc)

lemma calendar_buckets:
  assumes "\<And>b. b \<in> set (newer @ [a]) \<Longrightarrow> 0 \<le> art_CreatedAt b"
  shows "bucket_rule Format_2006_01_02T15 n newer a \<longleftrightarrow> bucket_rule hour_bucket n newer a"
    and "bucket_rule Format_2006_01_02 n newer a \<longleftrightarrow> bucket_rule day_bucket n newer a"
    and "bucket_rule iso_week_str n newer a \<longleftrightarrow> bucket_rule week_bucket n newer a"
    and "bucket_rule Format_2006_01 n newer a \<longleftrightarrow> bucket_rule month_bucket n newer a"
    and "bucket_rule Format_2006 n newer a \<longleftrightarrow> bucket_rule year_bucket n newer a"
  using bucket_rule_cong [of newer a Format_2006_01_02T15 hour_bucket n]
    bucket_rule_cong [of newer a Format_2006_01_02 day_bucket n]
    bucket_rule_cong [of newer a iso_week_str week_bucket n]
    bucket_rule_cong [of newer a Format_2006_01 month_bucket n]
    bucket_rule_cong [of newer a Format_2006 year_bucket n]
    bucket_kernels [OF assms assms]
  by blast+

lemma plan_kept_nth:
  assumes "i < length items" and "\<not> Retention_IsZero r"
    and pos: "\<And>a. a \<in> set items \<Longrightarrow> 0 \<le> art_CreatedAt a"
  shows "plan_kept items r now ! i \<longleftrightarrow> keep_rule r now (take i items) (items ! i)"
proof -
  define k0 where "k0 = True # replicate (length items - 1) False"
  define k1 where "k1 = (if 0 < KeepLast r then keepLast_loop (KeepLast r) k0 else k0)"
  have k0: "length k0 = length items" "k0 ! i \<longleftrightarrow> take i items = []"
    using assms(1) by (auto simp: k0_def nth_Cons split: nat.split)
  have k1: "length k1 = length items" "k1 ! i \<longleftrightarrow> take i items = [] \<or> int i < KeepLast r"
    using assms(1) k0 by (auto simp: k1_def keepLast_loop_nth)
  have kept: "plan_kept items r now =
     (if \<not> hasKeepRule r \<and> 0 < MaxAgeDays r
      then map2 (\<lambda>a k. k \<or> \<not> art_CreatedAt a < AddDays now (- MaxAgeDays r)) items (plan_buckets items k1 r)
      else plan_buckets items k1 r)"
    by (simp only: plan_kept_def Let_def k0_def k1_def)
  have "0 \<le> art_CreatedAt b" if "b \<in> set (take i items @ [items ! i])" for b
    using that assms(1) by (auto dest: in_set_takeD intro: pos)
  then have cal: "bucket_rule Format_2006_01_02T15 n (take i items) (items ! i) \<longleftrightarrow> bucket_rule hour_bucket n (take i items) (items ! i)"
     "bucket_rule Format_2006_01_02 n (take i items) (items ! i) \<longleftrightarrow> bucket_rule day_bucket n (take i items) (items ! i)"
     "bucket_rule iso_week_str n (take i items) (items ! i) \<longleftrightarrow> bucket_rule week_bucket n (take i items) (items ! i)"
     "bucket_rule Format_2006_01 n (take i items) (items ! i) \<longleftrightarrow> bucket_rule month_bucket n (take i items) (items ! i)"
     "bucket_rule Format_2006 n (take i items) (items ! i) \<longleftrightarrow> bucket_rule year_bucket n (take i items) (items ! i)" for n
    by (rule calendar_buckets, blast)+
  have buckets: "plan_buckets items k1 r ! i \<longleftrightarrow> take i items = []
     \<or> int (length (take i items)) < KeepLast r
     \<or> bucket_rule hour_bucket (KeepHourly r) (take i items) (items ! i)
     \<or> bucket_rule day_bucket (KeepDaily r) (take i items) (items ! i)
     \<or> bucket_rule week_bucket (KeepWeekly r) (take i items) (items ! i)
     \<or> bucket_rule month_bucket (KeepMonthly r) (take i items) (items ! i)
     \<or> bucket_rule year_bucket (KeepYearly r) (take i items) (items ! i)"
    unfolding plan_buckets_nth [OF k1(1) assms(1)] k1(2) cal using assms(1) by simp
  show ?thesis
  proof (cases "\<not> hasKeepRule r \<and> 0 < MaxAgeDays r")
    case True
    then have "plan_kept items r now ! i \<longleftrightarrow>
       plan_buckets items k1 r ! i \<or> AddDays now (- MaxAgeDays r) \<le> art_CreatedAt (items ! i)"
      unfolding kept using assms(1) k1(1) by (simp add: not_less)
    with True assms(2) show ?thesis unfolding keep_rule_def buckets by blast
  next
    case False
    then have "plan_kept items r now ! i \<longleftrightarrow> plan_buckets items k1 r ! i"
      unfolding kept by (simp only: if_False)
    with False assms(2) show ?thesis unfolding keep_rule_def buckets by blast
  qed
qed

lemma length_plan_kept: "items \<noteq> [] \<Longrightarrow> length (plan_kept items r now) = length items"
  by (simp add: plan_kept_def Let_def)

lemma mset_newest_first [simp]: "mset (newest_first xs) = mset xs"
  by (simp add: newest_first_def)

lemma set_newest_first [simp]: "set (newest_first xs) = set xs"
  by (simp add: newest_first_def)

lemma sorted_newest_first: "sorted (map (\<lambda>a. - art_CreatedAt a) (newest_first xs))"
  by (simp add: newest_first_def)

lemma newest_first_id: "sorted (map (\<lambda>a. - art_CreatedAt a) xs) \<Longrightarrow> newest_first xs = xs"
  by (simp add: newest_first_def sort_key_id_if_sorted)

lemma newest_first_hd:
  assumes "b \<in> set artifacts"
  shows "art_CreatedAt b \<le> art_CreatedAt (hd (newest_first artifacts))"
proof -
  have "b \<in> set (newest_first artifacts)" using assms by simp
  with sorted_newest_first [of artifacts] show ?thesis
    by (cases "newest_first artifacts") auto
qed

text \<open>The policy is monotone: with fewer newer artifacts an artifact stays protected.\<close>

lemma bucket_rule_mono:
  assumes "set q \<subseteq> set p" and "bucket_rule key n p a"
  shows "bucket_rule key n q a"
proof -
  have "card (keys_of key (q @ [a])) \<le> card (keys_of key (p @ [a]))"
    using assms(1) by (intro card_mono) auto
  with assms show ?thesis by (auto simp: bucket_rule_def)
qed

lemma keep_rule_mono:
  "set q \<subseteq> set p \<Longrightarrow> length q \<le> length p \<Longrightarrow> keep_rule r now p a \<Longrightarrow> keep_rule r now q a"
  unfolding keep_rule_def by (elim disjE) (auto dest: bucket_rule_mono [rotated, of _ _ p])

text \<open>\<open>Plan\<close> as selection by the policy; the shape the properties below rest on.\<close>

lemma Plan_select:
  assumes "\<And>a. a \<in> set artifacts \<Longrightarrow> 0 \<le> art_CreatedAt a"
  shows "Plan artifacts r now =
     (select (keep_rule r now) [] (newest_first artifacts),
      select (\<lambda>newer a. \<not> keep_rule r now newer a) [] (newest_first artifacts))"
proof -
  let ?items = "newest_first artifacts"
  have all: "select (\<lambda>_ _. True) pre xs = xs" "select (\<lambda>_ _. False) pre xs = []" for pre and xs :: "Artifact list"
    by (induction xs arbitrary: pre) auto
  consider "?items = []" | "?items \<noteq> []" "Retention_IsZero r" | "?items \<noteq> []" "\<not> Retention_IsZero r" by blast
  then show ?thesis
  proof cases
    case 3
    have "plan_kept ?items r now ! i \<longleftrightarrow> keep_rule r now ([] @ take i ?items) (?items ! i)"
      if "i < length ?items" for i
      using plan_kept_nth [OF that 3(2)] assms by simp
    from select_flags [OF length_plan_kept [OF 3(1)] this] 3 show ?thesis
      by (simp add: Plan_def Let_def)
  qed (simp_all add: Plan_def keep_rule_def [abs_def] all)
qed

text \<open>Without the assumption on dates: the parts of \<open>Plan\<close> that do not depend on the calendar.\<close>

lemma Plan_parts:
  "mset (fst (Plan artifacts r now)) + mset (snd (Plan artifacts r now)) = mset artifacts"
proof -
  have "mset (map fst (filter snd (zip xs ks))) + mset (map fst (filter (\<lambda>p. \<not> snd p) (zip xs ks))) = mset xs"
    if "length xs = length ks" for xs :: "Artifact list" and ks :: "bool list"
    using that by (induction xs ks rule: list_induct2) auto
  from this [OF length_plan_kept [symmetric], of "newest_first artifacts" r now]
    mset_newest_first [of artifacts]
  show ?thesis
    by (cases "newest_first artifacts = []"; cases "Retention_IsZero r")
      (simp_all add: Plan_def Let_def del: mset_newest_first)
qed

lemma plan_kept_hd: "items \<noteq> [] \<Longrightarrow> plan_kept items r now ! 0"
  by (cases items) (auto simp: plan_kept_def Let_def plan_buckets_nth)

lemma Plan_hd:
  assumes "artifacts \<noteq> []"
  shows "fst (Plan artifacts r now) \<noteq> [] \<and> hd (fst (Plan artifacts r now)) = hd (newest_first artifacts)"
proof -
  have "newest_first artifacts \<noteq> []" using assms by (metis set_newest_first set_empty)
  then obtain a as where items: "newest_first artifacts = a # as" by (cases "newest_first artifacts") auto
  obtain k ks where kept: "plan_kept (a # as) r now = k # ks"
    using length_plan_kept [of "a # as" r now] by (cases "plan_kept (a # as) r now") auto
  have k: k using plan_kept_hd [of "a # as" r now] kept by simp
  show ?thesis by (simp add: Plan_def Let_def items kept k)
qed

section \<open>Properties\<close>

text \<open>Two artifacts of one job, created a day apart; the input of the witnesses.\<close>

definition two_days :: "Artifact list" where
  "two_days = [zero_artifact\<lparr>art_ID := ''new'', art_CreatedAt := 48 * Hour\<rparr>,
     zero_artifact\<lparr>art_ID := ''old'', art_CreatedAt := 24 * Hour\<rparr>]"

text \<open>The planner splits the artifacts into those to keep and those to delete. No
  artifact is lost, invented or in both lists, whatever the policy, the clock and the dates.\<close>

theorem Plan_partition:
  "mset (fst (Plan artifacts r now)) + mset (snd (Plan artifacts r now)) = mset artifacts"
  by (rule Plan_parts)

text \<open>The newest artifact is never deleted. Whenever there is an artifact, the list to
  keep starts with one that is at least as new as every other, and the artifacts to delete are all
  among the remaining ones.\<close>

theorem Plan_newest_kept:
  assumes "artifacts \<noteq> []"
  shows "fst (Plan artifacts r now) \<noteq> []
    \<and> (\<forall>b\<in>set artifacts. art_CreatedAt b \<le> art_CreatedAt (hd (fst (Plan artifacts r now))))
    \<and> mset (snd (Plan artifacts r now)) \<subseteq># mset artifacts - {#hd (fst (Plan artifacts r now))#}"
proof -
  let ?keep = "fst (Plan artifacts r now)" and ?remove = "snd (Plan artifacts r now)"
  from Plan_hd [OF assms] have keep: "?keep \<noteq> []" and hd: "hd ?keep = hd (newest_first artifacts)"
    by auto
  have "art_CreatedAt b \<le> art_CreatedAt (hd ?keep)" if "b \<in> set artifacts" for b
    unfolding hd using that by (rule newest_first_hd)
  moreover have "mset ?remove \<subseteq># mset artifacts - {#hd ?keep#}"
  proof -
    from keep have "mset ?keep = add_mset (hd ?keep) (mset (tl ?keep))"
      by (metis list.collapse mset.simps(2))
    then have "mset ?keep + mset ?remove = add_mset (hd ?keep) (mset (tl ?keep) + mset ?remove)"
      by (simp only: union_mset_add_mset_left)
    then have "mset artifacts - {#hd ?keep#} = mset (tl ?keep) + mset ?remove"
      unfolding Plan_parts by (simp only: add_mset_remove_trivial)
    then show ?thesis by (simp only: mset_subset_eq_add_right)
  qed
  ultimately show ?thesis using keep by blast
qed

theorem Plan_newest_kept_witness:
  "fst (Plan two_days (zero_retention\<lparr>KeepLast := 1\<rparr>) 0) \<noteq> []
    \<and> art_CreatedAt (two_days ! 0) \<le> art_CreatedAt (hd (fst (Plan two_days (zero_retention\<lparr>KeepLast := 1\<rparr>) 0)))"
  using Plan_newest_kept [of two_days "zero_retention\<lparr>KeepLast := 1\<rparr>" 0]
  by (simp add: two_days_def)

text \<open>C27 (refinement): on artifacts dated after year 0 the planner implements the documented policy
  exactly. Going from the newest artifact to the oldest, it keeps those that some rule protects,
  where the hourly, daily, weekly, monthly and yearly rules speak of UTC hours, UTC days, weeks from
  Monday, calendar months and calendar years that contain an artifact, and deletes the others.\<close>

theorem Plan_implements_policy:
  assumes "\<forall>a\<in>set artifacts. 0 \<le> art_CreatedAt a"
  shows "Plan artifacts r now =
     (select (keep_rule r now) [] (newest_first artifacts),
      select (\<lambda>newer a. \<not> keep_rule r now newer a) [] (newest_first artifacts))"
  by (rule Plan_select) (use assms in blast)

theorem Plan_implements_policy_witness:
  "Plan two_days (zero_retention\<lparr>KeepDaily := 1\<rparr>) 0 = ([hd two_days], tl two_days)"
  using Plan_implements_policy [of two_days "zero_retention\<lparr>KeepDaily := 1\<rparr>" 0]
  by (simp add: two_days_def newest_first_def keep_rule_def Retention_IsZero_def hasKeepRule_def
      bucket_rule_def day_bucket_def day_of_def zero_artifact_def zero_retention_def)

text \<open>Retention is stable. Planning again, at the same instant and with the same
  policy, over the artifacts that were kept deletes nothing more and keeps them in the same order.\<close>

theorem Plan_idempotent:
  assumes "\<forall>a\<in>set artifacts. 0 \<le> art_CreatedAt a"
  shows "Plan (fst (Plan artifacts r now)) r now = (fst (Plan artifacts r now), [])"
proof -
  let ?items = "newest_first artifacts" and ?R = "keep_rule r now"
  let ?keep = "select ?R [] ?items"
  have keep: "fst (Plan artifacts r now) = ?keep"
    by (subst Plan_select) (use assms in auto)
  have sub: "set ?keep \<subseteq> set artifacts"
    using select_subset [of ?R "[]" ?items] by simp
  have "newest_first ?keep = ?keep"
    by (intro newest_first_id sorted_select sorted_newest_first)
  moreover have "select ?R [] ?keep = ?keep"
    by (rule select_idem) (auto intro: keep_rule_mono)
  moreover from this have "select (\<lambda>p a. \<not> ?R p a) [] ?keep = []"
    using select_partition [of ?R "[]" ?keep] by simp
  ultimately show ?thesis
    unfolding keep by (subst Plan_select) (use assms sub in auto)
qed

theorem Plan_idempotent_witness:
  "Plan (fst (Plan two_days (zero_retention\<lparr>KeepDaily := 1\<rparr>) 0)) (zero_retention\<lparr>KeepDaily := 1\<rparr>) 0
     = (fst (Plan two_days (zero_retention\<lparr>KeepDaily := 1\<rparr>) 0), [])"
  by (rule Plan_idempotent) (simp add: two_days_def zero_artifact_def)

end
