(* ===== verification/Store_Tables.thy ===== *)
theory Store_Tables
  imports Core_Types Go_Time "HOL-Library.List_Lexorder" "HOL-Library.Char_ord"
begin

text \<open>
  Package \<open>internal/store\<close>, first part: the tables as lists of rows, the statements on them,
  and the repositories of runs, run logs and artifacts (common.go, runs.go, runlogs.go,
  artifacts.go).

  SQLite is outside the repository. A statement is modelled by what it does to the rows when it
  succeeds; the error the driver may return instead is an argument \<open>flt\<close>, \<open>None\<close> for success.
  A row is the value the scan functions read back: a time that \<open>nullTime\<close> stores as NULL is
  \<open>None\<close>. Identifiers made by \<open>NewID\<close> and the clock are arguments too.
\<close>

section \<open>Rows and tables\<close>

record JobState =
  js_JobID :: string
  js_LastRun :: "RunSummary option"
  js_LastSuccessAt :: "time option"
  js_LastDurationMS :: int
  js_NextRunAt :: "time option"
  js_Overdue :: bool
  js_OverdueNotifiedAt :: "time option"
  js_UpdatedAt :: time

record Session =
  ses_ID :: string
  ses_UserID :: string
  ses_CreatedAt :: time
  ses_ExpiresAt :: time
  ses_LastSeenAt :: time
  ses_IP :: string
  ses_UserAgent :: string

record UserRecord =
  ur_User :: User
  ur_PasswordHash :: string

record TokenRow =
  tr_Token :: APIToken
  tr_Hash :: string

record LogRow =
  lg_RunID :: string
  lg_Seq :: int
  lg_Text :: string

record db =
  t_users :: "UserRecord list"
  t_sessions :: "Session list"
  t_tokens :: "TokenRow list"
  t_hosts :: "Host list"
  t_sources :: "Source list"
  t_destinations :: "Destination list"
  t_jobs :: "Job list"
  t_job_state :: "JobState list"
  t_runs :: "Run list"
  t_run_logs :: "LogRow list"
  t_artifacts :: "Artifact list"
  t_channels :: "NotificationChannel list"
  t_settings :: "Settings option"
  t_audit :: "AuditEntry list"

text \<open>\<open>SELECT ... WHERE id = ?\<close> and \<open>UPDATE ... WHERE\<close> with the number of rows affected.\<close>

definition find_row :: "('r \<Rightarrow> string) \<Rightarrow> string \<Rightarrow> 'r list \<Rightarrow> 'r option" where
  "find_row key rid rows = find (\<lambda>r. key r = rid) rows"

definition update_rows :: "('r \<Rightarrow> bool) \<Rightarrow> ('r \<Rightarrow> 'r) \<Rightarrow> 'r list \<Rightarrow> 'r list" where
  "update_rows P f rows = map (\<lambda>r. if P r then f r else r) rows"

definition count_rows :: "('r \<Rightarrow> bool) \<Rightarrow> 'r list \<Rightarrow> nat" where
  "count_rows P rows = length (filter P rows)"

definition affected :: "nat \<Rightarrow> string \<Rightarrow> string \<Rightarrow> error option" where
  "affected n kind rid =
     (if n = 0 then Some (GoErr (Some ErrNotFound) (kind @ '' '' @ rid @ '': not found'')) else None)"

text \<open>The error of a statement: the driver's, or the violated constraint's.\<close>

definition exec_err :: "error option \<Rightarrow> bool \<Rightarrow> string \<Rightarrow> error option" where
  "exec_err flt violated msg =
     (case flt of Some e \<Rightarrow> Some e | None \<Rightarrow> if violated then Some (errNew msg) else None)"

definition nullTime :: "time option \<Rightarrow> time option" where
  "nullTime t = (if t = Some 0 then None else t)"

section \<open>Pages and filters\<close>

definition DefaultLimit :: int where "DefaultLimit = 50"
definition MaxLimit :: int where "MaxLimit = 500"

record Page =
  pg_Limit :: int
  pg_Offset :: int

definition Page_normalized :: "Page \<Rightarrow> Page" where
  "Page_normalized p =
     (let l = (if pg_Limit p \<le> 0 then DefaultLimit else pg_Limit p);
          limit = (if l > MaxLimit then MaxLimit else l);
          offset = (if pg_Offset p < 0 then 0 else pg_Offset p)
      in \<lparr>pg_Limit = limit, pg_Offset = offset\<rparr>)"

definition limit_offset :: "Page \<Rightarrow> 'r list \<Rightarrow> 'r list" where
  "limit_offset p rows = take (nat (pg_Limit p)) (drop (nat (pg_Offset p)) rows)"

text \<open>A where clause is the conjunction of the clauses added; an absent one accepts every row.\<close>

definition where_eq :: "string \<Rightarrow> ('r \<Rightarrow> string) \<Rightarrow> 'r \<Rightarrow> bool" where
  "where_eq v col r \<longleftrightarrow> v = [] \<or> col r = v"

definition where_since :: "time \<Rightarrow> ('r \<Rightarrow> time) \<Rightarrow> 'r \<Rightarrow> bool" where
  "where_since t col r \<longleftrightarrow> IsZero t \<or> t \<le> col r"

definition where_until :: "time \<Rightarrow> ('r \<Rightarrow> time) \<Rightarrow> 'r \<Rightarrow> bool" where
  "where_until t col r \<longleftrightarrow> IsZero t \<or> col r \<le> t"

section \<open>Runs\<close>

fun RunStatus_str :: "RunStatus \<Rightarrow> string" where
  "RunStatus_str RunQueued = ''queued''"
| "RunStatus_str RunRunning = ''running''"
| "RunStatus_str RunSuccess = ''success''"
| "RunStatus_str RunWarning = ''warning''"
| "RunStatus_str RunFailed = ''failed''"
| "RunStatus_str RunCanceled = ''canceled''"

fun RunKind_str :: "RunKind \<Rightarrow> string" where
  "RunKind_str RunBackup = ''backup''"
| "RunKind_str RunRestore = ''restore''"
| "RunKind_str RunPrune = ''prune''"
| "RunKind_str RunVerify = ''verify''"
| "RunKind_str RunIngest = ''ingest''"

definition run_row :: "Run \<Rightarrow> Run" where
  "run_row r = r\<lparr>run_StartedAt := nullTime (run_StartedAt r), run_FinishedAt := nullTime (run_FinishedAt r)\<rparr>"

definition Runs_Create :: "error option \<Rightarrow> string \<Rightarrow> time \<Rightarrow> Run \<Rightarrow> db \<Rightarrow> Run result \<times> db" where
  "Runs_Create flt newID now run s =
     (let r1 = (if run_ID run = [] then run\<lparr>run_ID := newID\<rparr> else run);
          r2 = (if IsZero (run_QueuedAt r1) then r1\<lparr>run_QueuedAt := now\<rparr> else r1)
      in case exec_err flt (find_row run_ID (run_ID r2) (t_runs s) \<noteq> None) ''UNIQUE constraint failed: runs.id'' of
           Some e \<Rightarrow> (Inl (wrapf ''create run'' e), s)
         | None \<Rightarrow> (Inr r2, s\<lparr>t_runs := t_runs s @ [run_row r2]\<rparr>))"

definition Runs_Save :: "error option \<Rightarrow> Run \<Rightarrow> db \<Rightarrow> error option \<times> db" where
  "Runs_Save flt run s =
     (case flt of
        Some e \<Rightarrow> (Some (wrapf ''save run'' e), s)
      | None \<Rightarrow>
          (affected (count_rows (\<lambda>r. run_ID r = run_ID run) (t_runs s)) ''run'' (run_ID run),
           s\<lparr>t_runs := update_rows (\<lambda>r. run_ID r = run_ID run) (\<lambda>_. run_row run) (t_runs s)\<rparr>))"

definition Runs_Get :: "error option \<Rightarrow> string \<Rightarrow> db \<Rightarrow> Run result" where
  "Runs_Get flt rid s =
     (case flt of
        Some e \<Rightarrow> Inl (wrapf ''get run'' e)
      | None \<Rightarrow>
          (case find_row run_ID rid (t_runs s) of
             None \<Rightarrow> Inl (GoErr (Some ErrNotFound) (''run '' @ rid @ '': not found''))
           | Some r \<Rightarrow> Inr r))"

record RunFilter =
  rf_JobID :: string
  rf_JobSlug :: string
  rf_Status :: string
  rf_Statuses :: "string list"
  rf_Kind :: string
  rf_Since :: time
  rf_Until :: time
  rf_Page :: Page

definition RunFilter_where :: "RunFilter \<Rightarrow> Run \<Rightarrow> bool" where
  "RunFilter_where f r \<longleftrightarrow>
     where_eq (rf_JobID f) run_JobID r \<and> where_eq (rf_JobSlug f) run_JobSlug r
     \<and> where_eq (rf_Status f) (\<lambda>r. RunStatus_str (run_Status r)) r
     \<and> (rf_Statuses f = [] \<or> RunStatus_str (run_Status r) \<in> set (rf_Statuses f))
     \<and> where_eq (rf_Kind f) (\<lambda>r. RunKind_str (run_Kind r)) r
     \<and> where_since (rf_Since f) run_QueuedAt r \<and> where_until (rf_Until f) run_QueuedAt r"

text \<open>Rows ordered by a time, newest first, then by identifier, last first.\<close>

definition newest :: "('r \<Rightarrow> time) \<Rightarrow> ('r \<Rightarrow> string) \<Rightarrow> 'r list \<Rightarrow> 'r list" where
  "newest t key rows =
     sort_key (\<lambda>r. - t r) (rev (sort_key key rows))"

definition Runs_List :: "error option \<Rightarrow> RunFilter \<Rightarrow> db \<Rightarrow> (Run list \<times> nat) result" where
  "Runs_List flt f s =
     (case flt of
        Some e \<Rightarrow> Inl (wrapf ''list runs'' e)
      | None \<Rightarrow>
          (let rows = filter (RunFilter_where f) (t_runs s)
           in Inr (limit_offset (Page_normalized (rf_Page f)) (newest run_QueuedAt run_ID rows), length rows)))"

definition Runs_CountByStatus :: "error option \<Rightarrow> RunStatus \<Rightarrow> db \<Rightarrow> nat result" where
  "Runs_CountByStatus flt st s =
     (case flt of
        Some e \<Rightarrow> Inl (wrapf ''count runs by status'' e)
      | None \<Rightarrow> Inr (count_rows (\<lambda>r. run_Status r = st) (t_runs s)))"

definition unfinished :: "Run \<Rightarrow> bool" where
  "unfinished r \<longleftrightarrow> run_Status r = RunQueued \<or> run_Status r = RunRunning"

definition Runs_Unfinished :: "error option \<Rightarrow> db \<Rightarrow> Run list result" where
  "Runs_Unfinished flt s =
     (case flt of
        Some e \<Rightarrow> Inl (wrapf ''list unfinished runs'' e)
      | None \<Rightarrow> Inr (sort_key run_QueuedAt (filter unfinished (t_runs s))))"

definition Runs_ActiveForJob :: "error option \<Rightarrow> string \<Rightarrow> db \<Rightarrow> Run option result" where
  "Runs_ActiveForJob flt jobID s =
     (case flt of
        Some e \<Rightarrow> Inl (wrapf ''find active run'' e)
      | None \<Rightarrow>
          Inr (case sort_key (\<lambda>r. - run_QueuedAt r) (filter (\<lambda>r. run_JobID r = jobID \<and> unfinished r) (t_runs s)) of
                 [] \<Rightarrow> None | r # _ \<Rightarrow> Some r))"

definition finish_times :: "string \<Rightarrow> Run list \<Rightarrow> time list" where
  "finish_times jobID rows =
     List.map_filter (\<lambda>r. if run_JobID r = jobID \<and> run_Status r = RunSuccess then run_FinishedAt r else None) rows"

definition Runs_LastSuccessByJob :: "error option \<Rightarrow> db \<Rightarrow> (string \<rightharpoonup> time) result" where
  "Runs_LastSuccessByJob flt s =
     (case flt of
        Some e \<Rightarrow> Inl (wrapf ''last success by job'' e)
      | None \<Rightarrow>
          Inr (\<lambda>jobID. case finish_times jobID (t_runs s) of
                 [] \<Rightarrow> None
               | t # ts \<Rightarrow> (let m = fold max ts t in if IsZero m then None else Some m)))"

text \<open>Deleting a run deletes its log, by the foreign key.\<close>

definition Runs_DeleteOlderThan :: "error option \<Rightarrow> time \<Rightarrow> db \<Rightarrow> nat result \<times> db" where
  "Runs_DeleteOlderThan flt cutoff s =
     (case flt of
        Some e \<Rightarrow> (Inl (wrapf ''delete old runs'' e), s)
      | None \<Rightarrow>
          (let old = (\<lambda>r. run_QueuedAt r < cutoff \<and> \<not> unfinished r);
               kept = filter (\<lambda>r. \<not> old r) (t_runs s)
           in (Inr (count_rows old (t_runs s)),
               s\<lparr>t_runs := kept,
                 t_run_logs := filter (\<lambda>l. lg_RunID l \<in> run_ID ` set kept) (t_run_logs s)\<rparr>)))"

section \<open>Run logs\<close>

definition Runs_AppendLog :: "error option \<Rightarrow> string \<Rightarrow> string \<Rightarrow> db \<Rightarrow> int result \<times> db" where
  "Runs_AppendLog flt runID text' s =
     (let seq = fold max (map lg_Seq (filter (\<lambda>l. lg_RunID l = runID) (t_run_logs s))) 0 + 1
      in case exec_err flt (find_row run_ID runID (t_runs s) = None) ''FOREIGN KEY constraint failed'' of
           Some e \<Rightarrow> (Inl (wrapf ''append run log'' e), s)
         | None \<Rightarrow> (Inr seq, s\<lparr>t_run_logs := t_run_logs s @ [\<lparr>lg_RunID = runID, lg_Seq = seq, lg_Text = text'\<rparr>]\<rparr>))"

definition Runs_LogChunks :: "error option \<Rightarrow> string \<Rightarrow> int \<Rightarrow> db \<Rightarrow> LogRow list result" where
  "Runs_LogChunks flt runID afterSeq s =
     (case flt of
        Some e \<Rightarrow> Inl (wrapf ''read run log'' e)
      | None \<Rightarrow>
          Inr (sort_key lg_Seq (filter (\<lambda>l. lg_RunID l = runID \<and> afterSeq < lg_Seq l) (t_run_logs s))))"

definition Runs_Log :: "error option \<Rightarrow> string \<Rightarrow> db \<Rightarrow> string result" where
  "Runs_Log flt runID s =
     (case Runs_LogChunks flt runID 0 s of Inl e \<Rightarrow> Inl e | Inr cs \<Rightarrow> Inr (concat (map lg_Text cs)))"

section \<open>Artifacts\<close>

fun ArtifactStatus_str :: "ArtifactStatus \<Rightarrow> string" where
  "ArtifactStatus_str ArtifactUnset = []"
| "ArtifactStatus_str ArtifactPresent = ''present''"
| "ArtifactStatus_str ArtifactMissing = ''missing''"
| "ArtifactStatus_str ArtifactPruned = ''pruned''"
| "ArtifactStatus_str ArtifactDeleted = ''deleted''"

definition artifact_row :: "Artifact \<Rightarrow> Artifact" where
  "artifact_row a =
     a\<lparr>art_VerifiedAt := nullTime (art_VerifiedAt a), art_DeletedAt := nullTime (art_DeletedAt a)\<rparr>"

definition Artifacts_Create :: "error option \<Rightarrow> string \<Rightarrow> time \<Rightarrow> Artifact \<Rightarrow> db \<Rightarrow> Artifact result \<times> db" where
  "Artifacts_Create flt newID now a s =
     (let a1 = (if art_ID a = [] then a\<lparr>art_ID := newID\<rparr> else a);
          a2 = (if IsZero (art_CreatedAt a1) then a1\<lparr>art_CreatedAt := now\<rparr> else a1);
          a3 = (if art_Status a2 = ArtifactUnset then a2\<lparr>art_Status := ArtifactPresent\<rparr> else a2)
      in case exec_err flt (find_row art_ID (art_ID a3) (t_artifacts s) \<noteq> None) ''UNIQUE constraint failed: artifacts.id'' of
           Some e \<Rightarrow> (Inl (wrapf ''create artifact'' e), s)
         | None \<Rightarrow> (Inr a3, s\<lparr>t_artifacts := t_artifacts s @ [artifact_row a3]\<rparr>))"

definition Artifacts_Get :: "error option \<Rightarrow> string \<Rightarrow> db \<Rightarrow> Artifact result" where
  "Artifacts_Get flt rid s =
     (case flt of
        Some e \<Rightarrow> Inl (wrapf ''get artifact'' e)
      | None \<Rightarrow>
          (case find_row art_ID rid (t_artifacts s) of
             None \<Rightarrow> Inl (GoErr (Some ErrNotFound) (''artifact '' @ rid @ '': not found''))
           | Some a \<Rightarrow> Inr a))"

definition set_status_row :: "ArtifactStatus \<Rightarrow> time \<Rightarrow> Artifact \<Rightarrow> Artifact" where
  "set_status_row st at a =
     a\<lparr>art_Status := st,
       art_DeletedAt := (if st = ArtifactDeleted \<or> st = ArtifactPruned then Some at else art_DeletedAt a)\<rparr>"

definition Artifacts_SetStatus :: "error option \<Rightarrow> string \<Rightarrow> ArtifactStatus \<Rightarrow> time \<Rightarrow> db \<Rightarrow> error option \<times> db" where
  "Artifacts_SetStatus flt rid st at s =
     (case flt of
        Some e \<Rightarrow> (Some (wrapf ''set artifact status'' e), s)
      | None \<Rightarrow>
          (affected (count_rows (\<lambda>a. art_ID a = rid) (t_artifacts s)) ''artifact'' rid,
           s\<lparr>t_artifacts := update_rows (\<lambda>a. art_ID a = rid) (set_status_row st at) (t_artifacts s)\<rparr>))"

definition Artifacts_SetVerified :: "error option \<Rightarrow> string \<Rightarrow> time \<Rightarrow> db \<Rightarrow> error option \<times> db" where
  "Artifacts_SetVerified flt rid at s =
     (case flt of
        Some e \<Rightarrow> (Some (wrapf ''set artifact verified'' e), s)
      | None \<Rightarrow>
          (None, s\<lparr>t_artifacts := update_rows (\<lambda>a. art_ID a = rid) (\<lambda>a. a\<lparr>art_VerifiedAt := Some at\<rparr>) (t_artifacts s)\<rparr>))"

definition Artifacts_Delete :: "error option \<Rightarrow> string \<Rightarrow> db \<Rightarrow> error option \<times> db" where
  "Artifacts_Delete flt rid s =
     (case flt of
        Some e \<Rightarrow> (Some (wrapf ''delete artifact'' e), s)
      | None \<Rightarrow>
          (affected (count_rows (\<lambda>a. art_ID a = rid) (t_artifacts s)) ''artifact'' rid,
           s\<lparr>t_artifacts := filter (\<lambda>a. art_ID a \<noteq> rid) (t_artifacts s)\<rparr>))"

record ArtifactFilter =
  af_JobID :: string
  af_JobSlug :: string
  af_DestinationID :: string
  af_Status :: string
  af_RunID :: string
  af_Since :: time
  af_Until :: time
  af_Q :: string
  af_Page :: Page

text \<open>\<open>LIKE\<close>: \<open>%\<close> stands for any text, \<open>_\<close> for one character, and the case of ASCII letters is
  ignored. A byte from 80 to BF continues a character.\<close>

definition continues :: "char \<Rightarrow> bool" where
  "continues c \<longleftrightarrow> 128 \<le> (of_char c :: nat) \<and> (of_char c :: nat) < 192"

fun like :: "string \<Rightarrow> string \<Rightarrow> bool" where
  "like [] s \<longleftrightarrow> s = []"
| "like (p # ps) [] \<longleftrightarrow> p = CHR ''%'' \<and> like ps []"
| "like (p # ps) (c # s) \<longleftrightarrow>
     (if p = CHR ''%'' then like ps (c # s) \<or> like (p # ps) s
      else if p = CHR ''_'' then like ps (dropWhile continues s)
      else lower_char p = lower_char c \<and> like ps s)"

definition like_any :: "string \<Rightarrow> string \<Rightarrow> bool" where
  "like_any q s \<longleftrightarrow> like (''%'' @ q @ ''%'') s"

definition ArtifactFilter_where :: "ArtifactFilter \<Rightarrow> Artifact \<Rightarrow> bool" where
  "ArtifactFilter_where f a \<longleftrightarrow>
     where_eq (af_JobID f) art_JobID a \<and> where_eq (af_JobSlug f) art_JobSlug a
     \<and> where_eq (af_DestinationID f) art_DestinationID a
     \<and> where_eq (af_Status f) (\<lambda>a. ArtifactStatus_str (art_Status a)) a
     \<and> where_eq (af_RunID f) art_RunID a
     \<and> (TrimSpace (af_Q f) = [] \<or> like_any (TrimSpace (af_Q f)) (art_Filename a))
     \<and> where_since (af_Since f) art_CreatedAt a \<and> where_until (af_Until f) art_CreatedAt a"

definition Artifacts_List :: "error option \<Rightarrow> ArtifactFilter \<Rightarrow> db \<Rightarrow> (Artifact list \<times> nat) result" where
  "Artifacts_List flt f s =
     (case flt of
        Some e \<Rightarrow> Inl (wrapf ''list artifacts'' e)
      | None \<Rightarrow>
          (let rows = filter (ArtifactFilter_where f) (t_artifacts s)
           in Inr (limit_offset (Page_normalized (af_Page f)) (newest art_CreatedAt art_ID rows), length rows)))"

definition Artifacts_ForJobDestination ::
  "error option \<Rightarrow> string \<Rightarrow> string \<Rightarrow> ArtifactStatus \<Rightarrow> db \<Rightarrow> Artifact list result" where
  "Artifacts_ForJobDestination flt jobID destinationID st s =
     (case flt of
        Some e \<Rightarrow> Inl (wrapf ''list job artifacts'' e)
      | None \<Rightarrow>
          Inr (sort_key (\<lambda>a. - art_CreatedAt a)
            (filter (\<lambda>a. art_JobID a = jobID \<and> art_DestinationID a = destinationID \<and> art_Status a = st) (t_artifacts s))))"

definition Artifacts_ForRun :: "error option \<Rightarrow> string \<Rightarrow> db \<Rightarrow> Artifact list result" where
  "Artifacts_ForRun flt runID s =
     (case Artifacts_List flt \<lparr>af_JobID = [], af_JobSlug = [], af_DestinationID = [], af_Status = [],
         af_RunID = runID, af_Since = 0, af_Until = 0, af_Q = [], af_Page = \<lparr>pg_Limit = MaxLimit, pg_Offset = 0\<rparr>\<rparr> s of
        Inl e \<Rightarrow> Inl e | Inr (items, _) \<Rightarrow> Inr items)"

definition Artifacts_Count :: "error option \<Rightarrow> db \<Rightarrow> (nat \<times> int) result" where
  "Artifacts_Count flt s =
     (case flt of
        Some e \<Rightarrow> Inl (wrapf ''count artifacts'' e)
      | None \<Rightarrow>
          (let rows = filter (\<lambda>a. art_Status a = ArtifactPresent) (t_artifacts s)
           in Inr (length rows, sum_list (map art_Size rows))))"

section \<open>Statements that keep the keys\<close>

text \<open>
  The contract the row updates share: an update leaves the key of a row alone. Its consequences,
  once: the keys of the table, the row found under a key afterwards, and the rows it does not
  touch.
\<close>

locale row_update =
  fixes key :: "'r \<Rightarrow> string" and edit :: "'r \<Rightarrow> 'r" and rid :: string
  assumes keeps_key: "key r = rid \<Longrightarrow> key (edit r) = rid"
begin

lemma keys: "map key (update_rows (\<lambda>r. key r = rid) edit rows) = map key rows"
  by (simp add: update_rows_def keeps_key)

lemma distinct: "distinct (map key rows) \<Longrightarrow> distinct (map key (update_rows (\<lambda>r. key r = rid) edit rows))"
  by (simp add: keys)

lemma find_same:
  "find_row key rid (update_rows (\<lambda>r. key r = rid) edit rows) = map_option edit (find_row key rid rows)"
  by (induction rows) (auto simp: find_row_def update_rows_def keeps_key)

lemma find_other:
  "k \<noteq> rid \<Longrightarrow> find_row key k (update_rows (\<lambda>r. key r = rid) edit rows) = find_row key k rows"
  by (induction rows) (auto simp: find_row_def update_rows_def keeps_key)

lemma filter_same:
  assumes "\<And>r. P (edit r) = P r"
  shows "filter P (update_rows (\<lambda>r. key r = rid) edit rows)
    = update_rows (\<lambda>r. key r = rid) edit (filter P rows)"
  using assms by (induction rows) (auto simp: update_rows_def)

lemma none_found: "find_row key rid rows = None \<Longrightarrow> update_rows (\<lambda>r. key r = rid) edit rows = rows"
  by (induction rows) (auto simp: find_row_def update_rows_def)

end

interpretation save: row_update run_ID "\<lambda>_. run_row run" "run_ID run" for run
  by unfold_locales (simp add: run_row_def)

interpretation status: row_update art_ID "set_status_row st at" rid for st at rid
  by unfold_locales (simp add: set_status_row_def)

interpretation verified: row_update art_ID "\<lambda>a. a\<lparr>art_VerifiedAt := Some at\<rparr>" rid for at rid
  by unfold_locales simp

lemma find_row_Some: "find_row key rid rows = Some r \<Longrightarrow> r \<in> set rows \<and> key r = rid"
  by (induction rows) (auto simp: find_row_def split: if_splits)

lemma find_row_None: "find_row key rid rows = None \<longleftrightarrow> rid \<notin> key ` set rows"
  by (induction rows) (auto simp: find_row_def)

lemma find_row_append:
  "find_row key rid (rows @ [r])
    = (case find_row key rid rows of Some x \<Rightarrow> Some x | None \<Rightarrow> if key r = rid then Some r else None)"
  by (induction rows) (auto simp: find_row_def)

lemma find_row_unique: "distinct (map key rows) \<Longrightarrow> r \<in> set rows \<Longrightarrow> find_row key (key r) rows = Some r"
  by (induction rows) (auto simp: find_row_def image_iff)

lemma count_rows_0: "count_rows (\<lambda>r. key r = rid) rows = 0 \<longleftrightarrow> find_row key rid rows = None"
  by (induction rows) (auto simp: count_rows_def find_row_def)

lemma Page_normalized_bounds:
  "1 \<le> pg_Limit (Page_normalized p)" "pg_Limit (Page_normalized p) \<le> MaxLimit"
  "0 \<le> pg_Offset (Page_normalized p)"
  by (simp_all add: Page_normalized_def Let_def DefaultLimit_def MaxLimit_def)

lemma run_row_ID [simp]: "run_ID (run_row r) = run_ID r"
  by (simp add: run_row_def)

lemma run_row_Status [simp]: "run_Status (run_row r) = run_Status r"
  by (simp add: run_row_def)

lemma run_row_JobID [simp]: "run_JobID (run_row r) = run_JobID r"
  by (simp add: run_row_def)

end
