(* ===== verification/Store_Jobs.thy ===== *)
theory Store_Jobs
  imports Store_Tables
begin

text \<open>
  Package \<open>internal/store\<close>, second part: jobs with the data joined to them (jobs.go), the state
  kept per job (jobstate.go), the settings (settings.go) and the periodic cleanup (cleanup.go).
\<close>

section \<open>Settings\<close>

definition DefaultSettings :: Settings where
  "DefaultSettings =
     \<lparr>set_SiteName = ''Backvault'', set_BaseURL = [], set_DefaultTimezone = ''UTC'', set_MaxConcurrentRuns = 2,
      set_DefaultRetention = zero_retention\<lparr>KeepLast := 7, KeepDaily := 7, KeepWeekly := 4, KeepMonthly := 6\<rparr>,
      set_RunHistoryDays = 90, set_AuditHistoryDays = 365, set_OverdueCheckMinutes = 15,
      set_DefaultNotifyOn = [EventRunFailed, EventRunWarning, EventJobOverdue]\<rparr>"

definition normalizeSettings :: "Settings \<Rightarrow> Settings" where
  "normalizeSettings s =
     s\<lparr>set_SiteName := (if set_SiteName s = [] then ''Backvault'' else set_SiteName s),
       set_DefaultTimezone := (if set_DefaultTimezone s = [] then ''UTC'' else set_DefaultTimezone s),
       set_MaxConcurrentRuns := (if set_MaxConcurrentRuns s \<le> 0 then 2 else set_MaxConcurrentRuns s),
       set_OverdueCheckMinutes := (if set_OverdueCheckMinutes s \<le> 0 then 15 else set_OverdueCheckMinutes s),
       set_RunHistoryDays := (if set_RunHistoryDays s < 0 then 0 else set_RunHistoryDays s),
       set_AuditHistoryDays := (if set_AuditHistoryDays s < 0 then 0 else set_AuditHistoryDays s)\<rparr>"

text \<open>\<open>Get\<close> also returns a usable value next to an error: the defaults.\<close>

definition Settings_Get :: "error option \<Rightarrow> db \<Rightarrow> Settings \<times> error option" where
  "Settings_Get flt s =
     (case flt of
        Some e \<Rightarrow> (DefaultSettings, Some (wrapf ''get settings'' e))
      | None \<Rightarrow>
          (case t_settings s of
             None \<Rightarrow> (DefaultSettings, None)
           | Some row \<Rightarrow> (normalizeSettings row, None)))"

definition Settings_Save :: "error option \<Rightarrow> Settings \<Rightarrow> db \<Rightarrow> (Settings \<times> error option) \<times> db" where
  "Settings_Save flt st s =
     (let n = normalizeSettings st in
      case flt of
        Some e \<Rightarrow> ((n, Some (wrapf ''save settings'' e)), s)
      | None \<Rightarrow> ((n, None), s\<lparr>t_settings := Some n\<rparr>))"

section \<open>Job state\<close>

definition zero_job_state :: "string \<Rightarrow> JobState" where
  "zero_job_state jobID = \<lparr>js_JobID = jobID, js_LastRun = None, js_LastSuccessAt = None, js_LastDurationMS = 0,
     js_NextRunAt = None, js_Overdue = False, js_OverdueNotifiedAt = None, js_UpdatedAt = 0\<rparr>"

text \<open>\<open>INSERT ... ON CONFLICT(job_id) DO UPDATE\<close>: the row inserted has defaults in the columns the
  statement does not name. The job must exist, by the foreign key.\<close>

definition upsert_state ::
  "string \<Rightarrow> error option \<Rightarrow> string \<Rightarrow> (JobState \<Rightarrow> JobState) \<Rightarrow> db \<Rightarrow> error option \<times> db" where
  "upsert_state what flt jobID f s =
     (case exec_err flt (find_row job_ID jobID (t_jobs s) = None) ''FOREIGN KEY constraint failed'' of
        Some e \<Rightarrow> (Some (wrapf what e), s)
      | None \<Rightarrow>
          (None, s\<lparr>t_job_state :=
             (case find_row js_JobID jobID (t_job_state s) of
                None \<Rightarrow> t_job_state s @ [f (zero_job_state jobID)]
              | Some _ \<Rightarrow> update_rows (\<lambda>r. js_JobID r = jobID) f (t_job_state s))\<rparr>))"

definition JobStates_Get :: "error option \<Rightarrow> string \<Rightarrow> db \<Rightarrow> JobState result" where
  "JobStates_Get flt jobID s =
     (case flt of
        Some e \<Rightarrow> Inl (wrapf ''get job state'' e)
      | None \<Rightarrow>
          Inr (case find_row js_JobID jobID (t_job_state s) of None \<Rightarrow> zero_job_state jobID | Some st \<Rightarrow> st))"

definition JobStates_All :: "error option \<Rightarrow> db \<Rightarrow> (string \<rightharpoonup> JobState) result" where
  "JobStates_All flt s =
     (case flt of
        Some e \<Rightarrow> Inl (wrapf ''list job state'' e)
      | None \<Rightarrow> Inr (\<lambda>k. find_row js_JobID k (t_job_state s)))"

definition SetLastRun ::
  "error option \<Rightarrow> time \<Rightarrow> string \<Rightarrow> RunSummary \<Rightarrow> time option \<Rightarrow> db \<Rightarrow> error option \<times> db" where
  "SetLastRun flt now jobID summary successAt s =
     upsert_state ''set job last run'' flt jobID
       (\<lambda>st. st\<lparr>js_LastRun := (if sum_ID summary = [] then None else Some summary),
               js_LastSuccessAt := (case nullTime successAt of None \<Rightarrow> js_LastSuccessAt st | Some t \<Rightarrow> Some t),
               js_LastDurationMS := sum_DurationMS summary,
               js_UpdatedAt := now\<rparr>) s"

definition SetNextRun :: "error option \<Rightarrow> time \<Rightarrow> string \<Rightarrow> time option \<Rightarrow> db \<Rightarrow> error option \<times> db" where
  "SetNextRun flt now jobID nxt s =
     upsert_state ''set next run'' flt jobID
       (\<lambda>st. st\<lparr>js_NextRunAt := nullTime nxt, js_UpdatedAt := now\<rparr>) s"

definition SetOverdue :: "error option \<Rightarrow> time \<Rightarrow> string \<Rightarrow> bool \<Rightarrow> time option \<Rightarrow> db \<Rightarrow> error option \<times> db" where
  "SetOverdue flt now jobID overdue notifiedAt s =
     upsert_state ''set overdue'' flt jobID
       (\<lambda>st. st\<lparr>js_Overdue := overdue, js_OverdueNotifiedAt := nullTime notifiedAt, js_UpdatedAt := now\<rparr>) s"

section \<open>Jobs\<close>

text \<open>A row holds the columns of the table; the joined fields of a job are not stored.\<close>

definition job_row :: "Job \<Rightarrow> Job" where
  "job_row j = j\<lparr>job_SourceName := [], job_SourceKind := [], job_DestinationNames := [], job_LastRun := None,
     job_NextRunAt := None, job_Overdue := False, job_ArtifactCount := 0, job_TotalBytes := 0\<rparr>"

definition present_of :: "string \<Rightarrow> db \<Rightarrow> Artifact list" where
  "present_of jobID s = filter (\<lambda>a. art_JobID a = jobID \<and> art_Status a = ArtifactPresent) (t_artifacts s)"

definition enrichJob :: "db \<Rightarrow> Job \<Rightarrow> Job" where
  "enrichJob s j =
     (let j1 = (case find_row src_ID (job_SourceID j) (t_sources s) of
                  None \<Rightarrow> j | Some x \<Rightarrow> j\<lparr>job_SourceName := src_Name x, job_SourceKind := src_Kind x\<rparr>);
          j2 = j1\<lparr>job_DestinationNames :=
                 List.map_filter (\<lambda>d. map_option dst_Name (find_row dst_ID d (t_destinations s))) (job_DestinationIDs j)\<rparr>;
          j3 = (case find_row js_JobID (job_ID j) (t_job_state s) of
                  None \<Rightarrow> j2
                | Some st \<Rightarrow> j2\<lparr>job_LastRun := js_LastRun st, job_NextRunAt := js_NextRunAt st, job_Overdue := js_Overdue st\<rparr>)
      in (case present_of (job_ID j) s of
            [] \<Rightarrow> j3
          | as \<Rightarrow> j3\<lparr>job_ArtifactCount := int (length as), job_TotalBytes := sum_list (map art_Size as)\<rparr>))"

text \<open>The joins are one query each; the first that fails ends the call.\<close>

definition Jobs_Get :: "error option \<Rightarrow> error option \<Rightarrow> string \<Rightarrow> db \<Rightarrow> Job result" where
  "Jobs_Get flt flt_join jobID s =
     (case flt of
        Some e \<Rightarrow> Inl (wrapf ''get job'' e)
      | None \<Rightarrow>
          (case find_row job_ID jobID (t_jobs s) of
             None \<Rightarrow> Inl (GoErr (Some ErrNotFound) (''job '' @ jobID @ '': not found''))
           | Some j \<Rightarrow> (case flt_join of Some e \<Rightarrow> Inl e | None \<Rightarrow> Inr (enrichJob s j))))"

definition Jobs_GetBySlug :: "error option \<Rightarrow> error option \<Rightarrow> string \<Rightarrow> db \<Rightarrow> Job result" where
  "Jobs_GetBySlug flt flt_join slug s =
     (case flt of
        Some e \<Rightarrow> Inl (wrapf ''get job by slug'' e)
      | None \<Rightarrow>
          (case find_row job_Slug slug (t_jobs s) of
             None \<Rightarrow> Inl (GoErr (Some ErrNotFound) (''job '' @ slug @ '': not found''))
           | Some j \<Rightarrow> (case flt_join of Some e \<Rightarrow> Inl e | None \<Rightarrow> Inr (enrichJob s j))))"

definition Jobs_GetByIDOrSlug ::
  "error option \<Rightarrow> error option \<Rightarrow> error option \<Rightarrow> error option \<Rightarrow> string \<Rightarrow> db \<Rightarrow> Job result" where
  "Jobs_GetByIDOrSlug flt1 join1 flt2 join2 ref s =
     (case Jobs_Get flt1 join1 ref s of
        Inr j \<Rightarrow> Inr j
      | Inl e \<Rightarrow> if \<not> errIs e ErrNotFound then Inl e else Jobs_GetBySlug flt2 join2 ref s)"

definition Jobs_SlugExists :: "error option \<Rightarrow> string \<Rightarrow> string \<Rightarrow> db \<Rightarrow> bool result" where
  "Jobs_SlugExists flt slug exceptID s =
     (case flt of
        Some e \<Rightarrow> Inl (wrapf ''check job slug'' e)
      | None \<Rightarrow> Inr (0 < count_rows (\<lambda>j. job_Slug j = slug \<and> job_ID j \<noteq> exceptID) (t_jobs s)))"

definition Jobs_All :: "error option \<Rightarrow> error option \<Rightarrow> db \<Rightarrow> Job list result" where
  "Jobs_All flt flt_join s =
     (case flt of
        Some e \<Rightarrow> Inl (wrapf ''list all jobs'' e)
      | None \<Rightarrow>
          (let rows = sort_key job_Name (t_jobs s)
           in if rows = [] then Inr [] else (case flt_join of Some e \<Rightarrow> Inl e | None \<Rightarrow> Inr (map (enrichJob s) rows))))"

definition slug_conflict :: "Job \<Rightarrow> error" where
  "slug_conflict j = GoErr (Some ErrConflict) (''job slug \"'' @ job_Slug j @ ''\" already exists: conflict'')"

definition source_missing :: "Job \<Rightarrow> error" where
  "source_missing j = GoErr (Some ErrNotFound) (''source '' @ job_SourceID j @ '' does not exist: not found'')"

text \<open>The constraints of the jobs table: unique identifier and slug, an existing source.\<close>

definition job_constraint :: "Job \<Rightarrow> Job list \<Rightarrow> db \<Rightarrow> error option" where
  "job_constraint j others s =
     (if job_Slug j \<in> job_Slug ` set others \<or> job_ID j \<in> job_ID ` set others then Some (slug_conflict j)
      else if find_row src_ID (job_SourceID j) (t_sources s) = None then Some (source_missing j)
      else None)"

definition Jobs_Create :: "error option \<Rightarrow> string \<Rightarrow> time \<Rightarrow> Job \<Rightarrow> db \<Rightarrow> Job result \<times> db" where
  "Jobs_Create flt newID now j s =
     (let j1 = (if job_ID j = [] then j\<lparr>job_ID := newID\<rparr> else j);
          j2 = j1\<lparr>job_CreatedAt := now, job_UpdatedAt := now\<rparr>
      in case flt of
           Some e \<Rightarrow> (Inl (wrapf ''create job'' e), s)
         | None \<Rightarrow>
             (case job_constraint j2 (t_jobs s) s of
                Some e \<Rightarrow> (Inl e, s)
              | None \<Rightarrow> (Inr j2, s\<lparr>t_jobs := t_jobs s @ [job_row j2]\<rparr>)))"

text \<open>An update refreshes the labels copied to artifacts and runs, one statement each; the errors of
  the three statements are arguments.\<close>

definition Jobs_Update ::
  "error option \<Rightarrow> error option \<Rightarrow> error option \<Rightarrow> time \<Rightarrow> Job \<Rightarrow> db \<Rightarrow> Job result \<times> db" where
  "Jobs_Update flt1 flt2 flt3 now j s =
     (let j1 = j\<lparr>job_UpdatedAt := now\<rparr>;
          others = filter (\<lambda>r. job_ID r \<noteq> job_ID j) (t_jobs s)
      in case flt1 of
           Some e \<Rightarrow> (Inl (wrapf ''update job'' e), s)
         | None \<Rightarrow>
             (case find_row job_ID (job_ID j) (t_jobs s) of
                None \<Rightarrow> (Inl (GoErr (Some ErrNotFound) (''job '' @ job_ID j @ '': not found'')), s)
              | Some old \<Rightarrow>
                  (case job_constraint j1 others s of
                     Some e \<Rightarrow> (Inl e, s)
                   | None \<Rightarrow>
                       (let s1 = s\<lparr>t_jobs := update_rows (\<lambda>r. job_ID r = job_ID j)
                              (\<lambda>r. (job_row j1)\<lparr>job_CreatedAt := job_CreatedAt r\<rparr>) (t_jobs s)\<rparr>
                        in case flt2 of
                             Some e \<Rightarrow> (Inl (wrapf ''refresh artifact job labels'' e), s1)
                           | None \<Rightarrow>
                               (let s2 = s1\<lparr>t_artifacts := update_rows (\<lambda>a. art_JobID a = job_ID j)
                                      (\<lambda>a. a\<lparr>art_JobSlug := job_Slug j, art_JobName := job_Name j\<rparr>) (t_artifacts s1)\<rparr>
                                in case flt3 of
                                     Some e \<Rightarrow> (Inl (wrapf ''refresh run job labels'' e), s2)
                                   | None \<Rightarrow>
                                       (Inr j1, s2\<lparr>t_runs := update_rows (\<lambda>r. run_JobID r = job_ID j)
                                          (\<lambda>r. r\<lparr>run_JobSlug := job_Slug j, run_JobName := job_Name j\<rparr>) (t_runs s2)\<rparr>))))))"

definition Jobs_SetEnabled :: "error option \<Rightarrow> time \<Rightarrow> string \<Rightarrow> bool \<Rightarrow> db \<Rightarrow> error option \<times> db" where
  "Jobs_SetEnabled flt now jobID enabled s =
     (case flt of
        Some e \<Rightarrow> (Some (wrapf ''set job enabled'' e), s)
      | None \<Rightarrow>
          (affected (count_rows (\<lambda>j. job_ID j = jobID) (t_jobs s)) ''job'' jobID,
           s\<lparr>t_jobs := update_rows (\<lambda>j. job_ID j = jobID)
              (\<lambda>j. j\<lparr>job_Enabled := enabled, job_UpdatedAt := now\<rparr>) (t_jobs s)\<rparr>))"

text \<open>One transaction: on an error nothing is changed. The job's state goes with it.\<close>

definition Jobs_Delete :: "error option \<Rightarrow> error option \<Rightarrow> string \<Rightarrow> bool \<Rightarrow> db \<Rightarrow> error option \<times> db" where
  "Jobs_Delete flt1 flt2 jobID deleteArtifacts s =
     (case (if deleteArtifacts then flt1 else None) of
        Some e \<Rightarrow> (Some (wrapf ''delete job artifacts'' e), s)
      | None \<Rightarrow>
          (case flt2 of
             Some e \<Rightarrow> (Some (wrapf ''delete job'' e), s)
           | None \<Rightarrow>
               (case affected (count_rows (\<lambda>j. job_ID j = jobID) (t_jobs s)) ''job'' jobID of
                  Some e \<Rightarrow> (Some e, s)
                | None \<Rightarrow>
                    (None, s\<lparr>t_artifacts := (if deleteArtifacts then filter (\<lambda>a. art_JobID a \<noteq> jobID) (t_artifacts s)
                                           else t_artifacts s),
                             t_jobs := filter (\<lambda>j. job_ID j \<noteq> jobID) (t_jobs s),
                             t_job_state := filter (\<lambda>r. js_JobID r \<noteq> jobID) (t_job_state s)\<rparr>))))"

section \<open>Cleanup\<close>

definition Audit_DeleteOlderThan :: "error option \<Rightarrow> time \<Rightarrow> db \<Rightarrow> nat result \<times> db" where
  "Audit_DeleteOlderThan flt cutoff s =
     (case flt of
        Some e \<Rightarrow> (Inl (wrapf ''delete old audit entries'' e), s)
      | None \<Rightarrow> (Inr (count_rows (\<lambda>x. ae_Time x < cutoff) (t_audit s)), s\<lparr>t_audit := filter (\<lambda>x. \<not> ae_Time x < cutoff) (t_audit s)\<rparr>))"

definition Sessions_DeleteExpired :: "error option \<Rightarrow> time \<Rightarrow> db \<Rightarrow> nat result \<times> db" where
  "Sessions_DeleteExpired flt now s =
     (case flt of
        Some e \<Rightarrow> (Inl (wrapf ''delete expired sessions'' e), s)
      | None \<Rightarrow>
          (Inr (count_rows (\<lambda>x. ses_ExpiresAt x < now) (t_sessions s)),
           s\<lparr>t_sessions := filter (\<lambda>x. \<not> ses_ExpiresAt x < now) (t_sessions s)\<rparr>))"

record CleanupResult =
  cr_Runs :: nat
  cr_Audit :: nat
  cr_Sessions :: nat

definition Cleanup ::
  "error option \<Rightarrow> error option \<Rightarrow> error option \<Rightarrow> Settings \<Rightarrow> time \<Rightarrow> db \<Rightarrow> (CleanupResult \<times> error option) \<times> db" where
  "Cleanup flt1 flt2 flt3 settings now s =
     (let res0 = \<lparr>cr_Runs = 0, cr_Audit = 0, cr_Sessions = 0\<rparr>;
          (r1, s1) = (if 0 < set_RunHistoryDays settings
                      then Runs_DeleteOlderThan flt1 (AddDays now (- set_RunHistoryDays settings)) s
                      else (Inr 0, s))
      in case r1 of
           Inl e \<Rightarrow> ((res0, Some e), s1)
         | Inr n1 \<Rightarrow>
             (let res1 = res0\<lparr>cr_Runs := n1\<rparr>;
                  (r2, s2) = (if 0 < set_AuditHistoryDays settings
                              then Audit_DeleteOlderThan flt2 (AddDays now (- set_AuditHistoryDays settings)) s1
                              else (Inr 0, s1))
              in case r2 of
                   Inl e \<Rightarrow> ((res1, Some e), s2)
                 | Inr n2 \<Rightarrow>
                     (let res2 = res1\<lparr>cr_Audit := n2\<rparr>;
                          (r3, s3) = Sessions_DeleteExpired flt3 now s2
                      in case r3 of
                           Inl e \<Rightarrow> ((res2, Some e), s3)
                         | Inr n3 \<Rightarrow> ((res2\<lparr>cr_Sessions := n3\<rparr>, None), s3))))"

section \<open>Lemmas\<close>

lemma Audit_tables:
  "t_runs (snd (Audit_DeleteOlderThan flt c s)) = t_runs s" "t_jobs (snd (Audit_DeleteOlderThan flt c s)) = t_jobs s"
  "t_run_logs (snd (Audit_DeleteOlderThan flt c s)) = t_run_logs s"
  "t_artifacts (snd (Audit_DeleteOlderThan flt c s)) = t_artifacts s"
  by (simp_all add: Audit_DeleteOlderThan_def split: option.split)

lemma Sessions_tables:
  "t_runs (snd (Sessions_DeleteExpired flt c s)) = t_runs s" "t_jobs (snd (Sessions_DeleteExpired flt c s)) = t_jobs s"
  "t_run_logs (snd (Sessions_DeleteExpired flt c s)) = t_run_logs s"
  "t_artifacts (snd (Sessions_DeleteExpired flt c s)) = t_artifacts s"
  by (simp_all add: Sessions_DeleteExpired_def split: option.split)

lemma normalizeSettings_valid:
  "0 < set_MaxConcurrentRuns (normalizeSettings st)" "0 < set_OverdueCheckMinutes (normalizeSettings st)"
  "0 \<le> set_RunHistoryDays (normalizeSettings st)" "0 \<le> set_AuditHistoryDays (normalizeSettings st)"
  by (simp_all add: normalizeSettings_def)

lemma normalizeSettings_idem: "normalizeSettings (normalizeSettings st) = normalizeSettings st"
  by (simp add: normalizeSettings_def)

lemma normalizeSettings_default: "normalizeSettings DefaultSettings = DefaultSettings"
  by (simp add: normalizeSettings_def DefaultSettings_def)

section \<open>Integrity of the tables\<close>

text \<open>Primary keys and the slug are unique, the state of a job belongs to a stored job, a log chunk
  to a stored run, and the chunks of a run have distinct positive numbers.\<close>

definition db_ok :: "db \<Rightarrow> bool" where
  "db_ok s \<longleftrightarrow>
     distinct (map run_ID (t_runs s)) \<and> distinct (map art_ID (t_artifacts s))
     \<and> distinct (map job_ID (t_jobs s)) \<and> distinct (map job_Slug (t_jobs s))
     \<and> distinct (map js_JobID (t_job_state s)) \<and> js_JobID ` set (t_job_state s) \<subseteq> job_ID ` set (t_jobs s)
     \<and> distinct (map (\<lambda>l. (lg_RunID l, lg_Seq l)) (t_run_logs s))
     \<and> lg_RunID ` set (t_run_logs s) \<subseteq> run_ID ` set (t_runs s)
     \<and> (\<forall>l\<in>set (t_run_logs s). 0 < lg_Seq l)"

lemma keys_set: "map key xs = map key ys \<Longrightarrow> key ` set xs = key ` set ys"
  by (metis list.set_map)

lemma map_update_rows:
  "(\<And>r. P r \<Longrightarrow> g (f r) = g r) \<Longrightarrow> map g (update_rows P f rows) = map g rows"
  by (simp add: update_rows_def)

lemma distinct_map_filter': "distinct (map f xs) \<Longrightarrow> distinct (map f (filter P xs))"
  by (simp add: distinct_map_filter)

lemma fold_max_ge: "(x :: int) \<le> fold max xs x \<and> (y \<in> set xs \<longrightarrow> y \<le> fold max xs x)"
proof (induction xs arbitrary: x)
  case (Cons a xs)
  show ?case using Cons.IH [of "max a x"] by auto
qed simp

lemma fold_max_upper: "y \<in> set xs \<or> y = x \<Longrightarrow> (y :: int) \<le> fold max xs x"
  using fold_max_ge [of x xs y] by auto

lemma Runs_Create_ok: "db_ok s \<Longrightarrow> db_ok (snd (Runs_Create flt nid now run s))"
  by (auto simp: Runs_Create_def db_ok_def exec_err_def find_row_None Let_def image_iff split: option.splits if_splits)

lemma Runs_Save_ok: "db_ok s \<Longrightarrow> db_ok (snd (Runs_Save flt run s))"
  by (auto simp: Runs_Save_def db_ok_def save.keys keys_set [OF save.keys] split: option.split)

lemma Runs_DeleteOlderThan_ok: "db_ok s \<Longrightarrow> db_ok (snd (Runs_DeleteOlderThan flt cutoff s))"
  by (auto simp: Runs_DeleteOlderThan_def db_ok_def distinct_map_filter' Let_def split: option.split)

lemma Runs_AppendLog_ok:
  assumes "db_ok s"
  shows "db_ok (snd (Runs_AppendLog flt runID txt s))"
proof -
  let ?seq = "fold max (map lg_Seq (filter (\<lambda>l. lg_RunID l = runID) (t_run_logs s))) 0 + 1"
  have "lg_Seq l < ?seq" if "l \<in> set (t_run_logs s)" "lg_RunID l = runID" for l
  proof -
    have "lg_Seq l \<le> ?seq - 1" using that by (simp add: fold_max_upper)
    then show ?thesis by simp
  qed
  moreover have "0 < ?seq" using fold_max_upper [of 0 _ 0] by (simp add: add_strict_increasing2)
  ultimately show ?thesis
    using assms
    by (fastforce simp: Runs_AppendLog_def db_ok_def exec_err_def find_row_None Let_def split: option.splits if_splits)
qed

lemma Artifacts_Create_ok: "db_ok s \<Longrightarrow> db_ok (snd (Artifacts_Create flt nid now a s))"
  by (auto simp: Artifacts_Create_def db_ok_def exec_err_def find_row_None Let_def image_iff artifact_row_def
      split: option.splits if_splits)

lemma Artifacts_SetStatus_ok: "db_ok s \<Longrightarrow> db_ok (snd (Artifacts_SetStatus flt aid st at s))"
  by (auto simp: Artifacts_SetStatus_def db_ok_def status.keys split: option.split)

lemma Artifacts_SetVerified_ok: "db_ok s \<Longrightarrow> db_ok (snd (Artifacts_SetVerified flt aid at s))"
  by (auto simp: Artifacts_SetVerified_def db_ok_def verified.keys split: option.split)

lemma Artifacts_Delete_ok: "db_ok s \<Longrightarrow> db_ok (snd (Artifacts_Delete flt aid s))"
  by (auto simp: Artifacts_Delete_def db_ok_def distinct_map_filter' split: option.split)

lemma upsert_state_ok:
  assumes "db_ok s" and f: "\<And>r. js_JobID (f r) = js_JobID r"
  shows "db_ok (snd (upsert_state what flt jobID f s))"
proof (cases "find_row js_JobID jobID (t_job_state s)")
  case None
  then have "jobID \<notin> js_JobID ` set (t_job_state s)" by (simp add: find_row_None)
  with None assms show ?thesis
    by (auto simp: upsert_state_def db_ok_def exec_err_def find_row_None [of job_ID] zero_job_state_def
        split: option.split)
next
  case (Some r)
  have keys: "map js_JobID (update_rows (\<lambda>r. js_JobID r = k) f (t_job_state s)) = map js_JobID (t_job_state s)" for k
    by (rule map_update_rows) (rule f)
  from Some assms(1) show ?thesis
    by (auto simp: upsert_state_def db_ok_def exec_err_def keys keys_set [OF keys] split: option.splits if_splits)
qed

lemma SetLastRun_ok: "db_ok s \<Longrightarrow> db_ok (snd (SetLastRun flt now jid sm at s))"
  unfolding SetLastRun_def by (rule upsert_state_ok) (simp_all split: option.split)

lemma SetNextRun_ok: "db_ok s \<Longrightarrow> db_ok (snd (SetNextRun flt now jid nxt s))"
  unfolding SetNextRun_def by (rule upsert_state_ok) simp_all

lemma SetOverdue_ok: "db_ok s \<Longrightarrow> db_ok (snd (SetOverdue flt now jid b at s))"
  unfolding SetOverdue_def by (rule upsert_state_ok) simp_all

lemma Settings_Save_ok: "db_ok s \<Longrightarrow> db_ok (snd (Settings_Save flt st s))"
  by (auto simp: Settings_Save_def db_ok_def Let_def split: option.split)

lemma job_row_simps [simp]: "job_ID (job_row j) = job_ID j" "job_Slug (job_row j) = job_Slug j"
  by (simp_all add: job_row_def)

lemma Jobs_Create_ok: "db_ok s \<Longrightarrow> db_ok (snd (Jobs_Create flt nid now j s))"
  by (auto simp: Jobs_Create_def db_ok_def job_constraint_def Let_def image_iff split: option.splits if_splits)

lemma Jobs_SetEnabled_ok: "db_ok s \<Longrightarrow> db_ok (snd (Jobs_SetEnabled flt now jid b s))"
  by (auto simp: Jobs_SetEnabled_def db_ok_def map_update_rows keys_set [OF map_update_rows] split: option.split)

lemma Jobs_Delete_ok: "db_ok s \<Longrightarrow> db_ok (snd (Jobs_Delete flt1 flt2 jid b s))"
  by (auto simp: Jobs_Delete_def db_ok_def distinct_map_filter' split: option.splits)

text \<open>Replacing one row by another with the same identifier and a slug no other row has.\<close>

lemma distinct_slugs_update:
  assumes "distinct (map job_ID rows)" and "distinct (map job_Slug rows)"
    and "\<And>r. r \<in> set rows \<Longrightarrow> job_ID r \<noteq> jid \<Longrightarrow> job_Slug r \<noteq> slug"
    and "\<And>r. job_Slug (f r) = slug"
  shows "distinct (map job_Slug (update_rows (\<lambda>r. job_ID r = jid) f rows))"
  using assms(1-3)
proof (induction rows)
  case (Cons r rows)
  then have ih: "distinct (map job_Slug (update_rows (\<lambda>r. job_ID r = jid) f rows))" by simp
  show ?case
  proof (cases "job_ID r = jid")
    case True
    then have "job_ID x \<noteq> jid" if "x \<in> set rows" for x using Cons.prems(1) that by (auto simp: image_iff)
    then have "update_rows (\<lambda>r. job_ID r = jid) f rows = rows" by (simp add: update_rows_def map_idI)
    moreover have "slug \<notin> job_Slug ` set rows"
      using Cons.prems(3) \<open>\<And>x. x \<in> set rows \<Longrightarrow> job_ID x \<noteq> jid\<close> by force
    ultimately show ?thesis
      using True Cons.prems(2) assms(4) unfolding update_rows_def by simp
  next
    case False
    with Cons.prems(2,3) assms(4) ih show ?thesis by (auto simp: update_rows_def image_iff)
  qed
qed (simp add: update_rows_def)

lemma Jobs_Update_ok:
  assumes "db_ok s"
  shows "db_ok (snd (Jobs_Update flt1 flt2 flt3 now j s))"
proof -
  define s1 where "s1 = s\<lparr>t_jobs := update_rows (\<lambda>r. job_ID r = job_ID j)
     (\<lambda>r. (job_row (j\<lparr>job_UpdatedAt := now\<rparr>))\<lparr>job_CreatedAt := job_CreatedAt r\<rparr>) (t_jobs s)\<rparr>"
  have keys: "map job_ID (t_jobs s1) = map job_ID (t_jobs s)"
    by (simp add: s1_def map_update_rows)
  have s1: "db_ok s1" if new: "job_Slug j \<notin> job_Slug ` set (filter (\<lambda>r. job_ID r \<noteq> job_ID j) (t_jobs s))"
  proof -
    have other: "job_Slug r \<noteq> job_Slug j" if "r \<in> set (t_jobs s)" "job_ID r \<noteq> job_ID j" for r
      using new that by (auto simp: image_iff)
    have "distinct (map job_Slug (t_jobs s1))"
      using assms other by (auto simp: s1_def db_ok_def intro!: distinct_slugs_update)
    moreover have "job_ID ` set (t_jobs s1) = job_ID ` set (t_jobs s)" using keys by (rule keys_set)
    moreover have "distinct (map job_ID (t_jobs s1))" using assms by (simp add: keys db_ok_def)
    ultimately show ?thesis using assms by (simp add: db_ok_def) (simp add: s1_def)
  qed
  have arts: "db_ok (x\<lparr>t_artifacts := update_rows P (\<lambda>a. a\<lparr>art_JobSlug := u, art_JobName := v\<rparr>) (t_artifacts x)\<rparr>)"
    if "db_ok x" for x P u v
    using that by (simp add: db_ok_def map_update_rows)
  have runs: "db_ok (x\<lparr>t_runs := update_rows P (\<lambda>r. r\<lparr>run_JobSlug := u, run_JobName := v\<rparr>) (t_runs x)\<rparr>)"
    if "db_ok x" for x P u v
    using that by (simp add: db_ok_def map_update_rows keys_set [OF map_update_rows])
  have both: "db_ok (x\<lparr>t_artifacts := update_rows P (\<lambda>a. a\<lparr>art_JobSlug := u, art_JobName := v\<rparr>) (t_artifacts x),
      t_runs := update_rows Q (\<lambda>r. r\<lparr>run_JobSlug := u, run_JobName := v\<rparr>) (t_runs x)\<rparr>)"
    if "db_ok x" for x P Q u v
    using that by (simp add: db_ok_def map_update_rows keys_set [OF map_update_rows])
  show ?thesis
    using assms s1 arts both
    by (auto simp: Jobs_Update_def Let_def s1_def [symmetric] job_constraint_def split: option.split)
qed

section \<open>Logs and cleanup\<close>

lemma insort_key_snoc: "f a \<le> f x \<Longrightarrow> insort_key f a (ys @ [x]) = insort_key f a ys @ [x]"
  by (induction ys) auto

lemma sort_key_snoc: "(\<And>y. y \<in> set xs \<Longrightarrow> f y \<le> f x) \<Longrightarrow> sort_key f (xs @ [x]) = sort_key f xs @ [x]"
  by (induction xs) (auto simp: insort_key_snoc)

lemma Runs_Log_eq:
  "Runs_Log None runID s =
     Inr (concat (map lg_Text (sort_key lg_Seq (filter (\<lambda>l. lg_RunID l = runID \<and> 0 < lg_Seq l) (t_run_logs s)))))"
  by (simp add: Runs_Log_def Runs_LogChunks_def)

lemma Runs_DeleteOlderThan_keeps:
  "t_jobs (snd (Runs_DeleteOlderThan flt cutoff s)) = t_jobs s
   \<and> t_artifacts (snd (Runs_DeleteOlderThan flt cutoff s)) = t_artifacts s
   \<and> filter (\<lambda>r. unfinished r \<or> cutoff \<le> run_QueuedAt r) (t_runs (snd (Runs_DeleteOlderThan flt cutoff s)))
     = filter (\<lambda>r. unfinished r \<or> cutoff \<le> run_QueuedAt r) (t_runs s)
   \<and> (\<forall>r\<in>set (t_runs s). unfinished r \<or> cutoff \<le> run_QueuedAt r \<longrightarrow>
        filter (\<lambda>l. lg_RunID l = run_ID r) (t_run_logs (snd (Runs_DeleteOlderThan flt cutoff s)))
        = filter (\<lambda>l. lg_RunID l = run_ID r) (t_run_logs s))"
proof (cases flt)
  case None
  let ?kept = "filter (\<lambda>r. \<not> (run_QueuedAt r < cutoff \<and> \<not> unfinished r)) (t_runs s)"
  have runs: "filter (\<lambda>r. unfinished r \<or> cutoff \<le> run_QueuedAt r) ?kept
    = filter (\<lambda>r. unfinished r \<or> cutoff \<le> run_QueuedAt r) (t_runs s)"
    unfolding filter_filter by (intro filter_cong) auto
  have logs: "filter (\<lambda>l. lg_RunID l = run_ID r) (filter (\<lambda>l. lg_RunID l \<in> run_ID ` set ?kept) (t_run_logs s))
    = filter (\<lambda>l. lg_RunID l = run_ID r) (t_run_logs s)"
    if "r \<in> set (t_runs s)" "unfinished r \<or> cutoff \<le> run_QueuedAt r" for r
  proof -
    have "run_ID r \<in> run_ID ` set ?kept" using that by auto
    then show ?thesis unfolding filter_filter by (intro filter_cong) auto
  qed
  have del: "Runs_DeleteOlderThan flt cutoff s = (Inr (count_rows (\<lambda>r. run_QueuedAt r < cutoff \<and> \<not> unfinished r) (t_runs s)),
      s\<lparr>t_runs := ?kept, t_run_logs := filter (\<lambda>l. lg_RunID l \<in> run_ID ` set ?kept) (t_run_logs s)\<rparr>)"
    by (simp only: Runs_DeleteOlderThan_def None Let_def option.case)
  have "t_runs (snd (Runs_DeleteOlderThan flt cutoff s)) = ?kept"
    "t_run_logs (snd (Runs_DeleteOlderThan flt cutoff s))
      = filter (\<lambda>l. lg_RunID l \<in> run_ID ` set ?kept) (t_run_logs s)"
    "t_jobs (snd (Runs_DeleteOlderThan flt cutoff s)) = t_jobs s"
    "t_artifacts (snd (Runs_DeleteOlderThan flt cutoff s)) = t_artifacts s"
    unfolding del by simp_all
  with runs logs show ?thesis by simp
qed (simp add: Runs_DeleteOlderThan_def)

definition empty_db :: db where
  "empty_db = \<lparr>t_users = [], t_sessions = [], t_tokens = [], t_hosts = [], t_sources = [], t_destinations = [], t_jobs = [],
     t_job_state = [], t_runs = [], t_run_logs = [], t_artifacts = [], t_channels = [], t_settings = None,
     t_audit = []\<rparr>"

definition in_history :: "Settings \<Rightarrow> time \<Rightarrow> Run \<Rightarrow> bool" where
  "in_history settings now r \<longleftrightarrow>
     unfinished r \<or> set_RunHistoryDays settings \<le> 0 \<or> AddDays now (- set_RunHistoryDays settings) \<le> run_QueuedAt r"

definition log_of :: "string \<Rightarrow> db \<Rightarrow> LogRow list" where
  "log_of runID s = filter (\<lambda>l. lg_RunID l = runID) (t_run_logs s)"

text \<open>The statements that write these tables, each with the fault the database reports for it, the
  identifier drawn and the clock.\<close>

datatype statement =
    CreateRun "error option" string time Run
  | SaveRun "error option" Run
  | DeleteRuns "error option" time
  | AppendLog "error option" string string
  | CreateArtifact "error option" string time Artifact
  | SetArtifactStatus "error option" string ArtifactStatus time
  | SetArtifactVerified "error option" string time
  | DeleteArtifact "error option" string
  | SetJobLastRun "error option" time string RunSummary "time option"
  | SetJobNextRun "error option" time string "time option"
  | SetJobOverdue "error option" time string bool "time option"
  | SaveSettings "error option" Settings
  | CreateJob "error option" string time Job
  | UpdateJob "error option" "error option" "error option" time Job
  | EnableJob "error option" time string bool
  | DeleteJob "error option" "error option" string bool

fun apply_statement :: "statement \<Rightarrow> db \<Rightarrow> db" where
  "apply_statement (CreateRun flt newID now run) s = snd (Runs_Create flt newID now run s)"
| "apply_statement (SaveRun flt run) s = snd (Runs_Save flt run s)"
| "apply_statement (DeleteRuns flt cutoff) s = snd (Runs_DeleteOlderThan flt cutoff s)"
| "apply_statement (AppendLog flt runID txt) s = snd (Runs_AppendLog flt runID txt s)"
| "apply_statement (CreateArtifact flt newID now a) s = snd (Artifacts_Create flt newID now a s)"
| "apply_statement (SetArtifactStatus flt aid st now) s = snd (Artifacts_SetStatus flt aid st now s)"
| "apply_statement (SetArtifactVerified flt aid now) s = snd (Artifacts_SetVerified flt aid now s)"
| "apply_statement (DeleteArtifact flt aid) s = snd (Artifacts_Delete flt aid s)"
| "apply_statement (SetJobLastRun flt now jobID summary at) s = snd (SetLastRun flt now jobID summary at s)"
| "apply_statement (SetJobNextRun flt now jobID at) s = snd (SetNextRun flt now jobID at s)"
| "apply_statement (SetJobOverdue flt now jobID b at) s = snd (SetOverdue flt now jobID b at s)"
| "apply_statement (SaveSettings flt settings) s = snd (Settings_Save flt settings s)"
| "apply_statement (CreateJob flt newID now j) s = snd (Jobs_Create flt newID now j s)"
| "apply_statement (UpdateJob flt flt2 flt3 now j) s = snd (Jobs_Update flt flt2 flt3 now j s)"
| "apply_statement (EnableJob flt now jobID b) s = snd (Jobs_SetEnabled flt now jobID b s)"
| "apply_statement (DeleteJob flt flt2 jobID b) s = snd (Jobs_Delete flt flt2 jobID b s)"

lemma apply_statement_ok: "db_ok s \<Longrightarrow> db_ok (apply_statement st s)"
  by (cases st)
     (simp_all add: Runs_Create_ok Runs_Save_ok Runs_DeleteOlderThan_ok Runs_AppendLog_ok Artifacts_Create_ok
      Artifacts_SetStatus_ok Artifacts_SetVerified_ok Artifacts_Delete_ok SetLastRun_ok SetNextRun_ok
      SetOverdue_ok Settings_Save_ok Jobs_Create_ok Jobs_Update_ok Jobs_SetEnabled_ok Jobs_Delete_ok)

lemma empty_db_ok: "db_ok empty_db"
  by (simp add: db_ok_def empty_db_def)

section \<open>Properties\<close>

text \<open>No sequence of statements of the run, artifact, job, job state and settings
  repositories, from an empty database and whatever statement fails at any point, breaks the integrity
  of the tables: keys and slugs stay unique, job states belong to jobs, log chunks to runs.\<close>

theorem store_integrity: "db_ok (fold apply_statement statements empty_db)"
  by (rule fold_invariant [where Q = "\<lambda>_. True"]) (simp_all add: apply_statement_ok empty_db_ok)

text \<open>The log of a run reads back in the order it was written. Appending a text to
  the log of a stored run succeeds and the whole log is then the old log followed by that text.\<close>

theorem Runs_Log_append:
  assumes "db_ok s" and "r \<in> set (t_runs s)"
  shows "\<exists>seq s' t. Runs_AppendLog None (run_ID r) txt s = (Inr seq, s')
    \<and> Runs_Log None (run_ID r) s = Inr t \<and> Runs_Log None (run_ID r) s' = Inr (t @ txt)"
proof -
  let ?chunks = "filter (\<lambda>l. lg_RunID l = run_ID r) (t_run_logs s)"
  let ?seq = "fold max (map lg_Seq ?chunks) 0 + 1"
  let ?row = "\<lparr>lg_RunID = run_ID r, lg_Seq = ?seq, lg_Text = txt\<rparr>"
  have run: "find_row run_ID (run_ID r) (t_runs s) \<noteq> None"
    using assms(2) by (simp add: find_row_None)
  have pos: "0 < ?seq" using fold_max_upper [of 0 _ 0] by (simp add: add_strict_increasing2)
  have "lg_Seq l \<le> ?seq" if "l \<in> set ?chunks" for l
    using fold_max_upper [of "lg_Seq l" "map lg_Seq ?chunks" 0] that by simp
  then have "sort_key lg_Seq (filter (\<lambda>l. lg_RunID l = run_ID r \<and> 0 < lg_Seq l) (t_run_logs s) @ [?row])
    = sort_key lg_Seq (filter (\<lambda>l. lg_RunID l = run_ID r \<and> 0 < lg_Seq l) (t_run_logs s)) @ [?row]"
    by (intro sort_key_snoc) auto
  with run pos show ?thesis
    by (simp add: Runs_AppendLog_def exec_err_def Runs_Log_eq Let_def)
qed

theorem Runs_Log_append_witness:
  "\<exists>seq s' t. Runs_AppendLog None ''r1'' ''line'' (empty_db\<lparr>t_runs := [zero_run\<lparr>run_ID := ''r1''\<rparr>]\<rparr>) = (Inr seq, s')
     \<and> Runs_Log None ''r1'' s' = Inr (t @ ''line'')"
  using Runs_Log_append [of "empty_db\<lparr>t_runs := [zero_run\<lparr>run_ID := ''r1''\<rparr>]\<rparr>" "zero_run\<lparr>run_ID := ''r1''\<rparr>" "''line''"]
  by (auto simp: db_ok_def empty_db_def)

text \<open>The periodic cleanup deletes only finished runs older than the history setting. Every
  queued or running run and every run inside the history stays, with its whole log, and jobs and
  artifacts are untouched, also when a statement of the cleanup fails.\<close>

theorem Cleanup_safe:
  "filter (in_history settings now) (t_runs (snd (Cleanup flt1 flt2 flt3 settings now s)))
      = filter (in_history settings now) (t_runs s)
    \<and> map (\<lambda>r. log_of (run_ID r) (snd (Cleanup flt1 flt2 flt3 settings now s))) (filter (in_history settings now) (t_runs s))
      = map (\<lambda>r. log_of (run_ID r) s) (filter (in_history settings now) (t_runs s))
    \<and> t_jobs (snd (Cleanup flt1 flt2 flt3 settings now s)) = t_jobs s
    \<and> t_artifacts (snd (Cleanup flt1 flt2 flt3 settings now s)) = t_artifacts s"
proof -
  define s' where "s' = snd (Cleanup flt1 flt2 flt3 settings now s)"
  define s1 where "s1 = (if 0 < set_RunHistoryDays settings
    then snd (Runs_DeleteOlderThan flt1 (AddDays now (- set_RunHistoryDays settings)) s) else s)"
  have rest: "t_runs s' = t_runs s1 \<and> t_run_logs s' = t_run_logs s1 \<and> t_jobs s' = t_jobs s1 \<and> t_artifacts s' = t_artifacts s1"
    unfolding s'_def s1_def Cleanup_def Let_def
    by (simp add: case_prod_beta Audit_tables Sessions_tables split: sum.split)
  show ?thesis
  proof (cases "0 < set_RunHistoryDays settings")
    case True
    define cut where "cut = AddDays now (- set_RunHistoryDays settings)"
    from True have s1: "s1 = snd (Runs_DeleteOlderThan flt1 cut s)"
      and keep: "in_history settings now = (\<lambda>r. unfinished r \<or> cut \<le> run_QueuedAt r)"
      by (auto simp: s1_def in_history_def cut_def fun_eq_iff)
    note del = Runs_DeleteOlderThan_keeps [of flt1 cut s, folded s1]
    have "log_of (run_ID r) s1 = log_of (run_ID r) s" if "r \<in> set (filter (in_history settings now) (t_runs s))" for r
      using del that by (auto simp: log_of_def keep)
    with rest del show ?thesis
      unfolding s'_def [symmetric] by (auto simp: keep log_of_def)
  next
    case False
    then have "s1 = s" by (simp add: s1_def)
    with rest show ?thesis unfolding s'_def [symmetric] by (simp add: log_of_def)
  qed
qed

end
