(* ===== verification/Store_Configs.thy ===== *)
theory Store_Configs
  imports Store_Jobs
begin

text \<open>
  Package \<open>internal/store\<close>, third part: sources, destinations, hosts and notification channels
  (sources.go, destinations.go, hosts.go, channels.go), the filtered list of jobs (jobs.go) and the
  audit log (audit.go). Each table has a unique identifier and a unique name; the statements on such
  a table are defined once. A list is one query for the count, one for the rows and one for each
  join; the fault of each is an argument.
\<close>

section \<open>Tables with a unique name\<close>

definition insert_unique :: "('r \<Rightarrow> string) \<Rightarrow> ('r \<Rightarrow> string) \<Rightarrow> 'r \<Rightarrow> 'r list \<Rightarrow> 'r list option" where
  "insert_unique key nm r rows =
     (if key r \<in> key ` set rows \<or> nm r \<in> nm ` set rows then None else Some (rows @ [r]))"

definition update_unique ::
  "('r \<Rightarrow> string) \<Rightarrow> ('r \<Rightarrow> string) \<Rightarrow> string \<Rightarrow> ('r \<Rightarrow> 'r) \<Rightarrow> 'r list \<Rightarrow> 'r list option" where
  "update_unique key nm rid f rows =
     (case find_row key rid rows of
        None \<Rightarrow> Some rows
      | Some r \<Rightarrow>
          if nm (f r) \<in> nm ` set (filter (\<lambda>x. key x \<noteq> rid) rows) then None
          else Some (update_rows (\<lambda>x. key x = rid) f rows))"

definition delete_row :: "('r \<Rightarrow> string) \<Rightarrow> string \<Rightarrow> 'r list \<Rightarrow> 'r list" where
  "delete_row key rid rows = filter (\<lambda>r. key r \<noteq> rid) rows"

definition name_conflict :: "string \<Rightarrow> string \<Rightarrow> error" where
  "name_conflict kind name = GoErr (Some ErrConflict) (kind @ '' name \"'' @ name @ ''\" already exists: conflict'')"

definition row_missing :: "string \<Rightarrow> string \<Rightarrow> error" where
  "row_missing kind rid = GoErr (Some ErrNotFound) (kind @ '' '' @ rid @ '': not found'')"

definition count_by :: "('r \<Rightarrow> string) \<Rightarrow> 'r list \<Rightarrow> string \<Rightarrow> int" where
  "count_by key rows k = int (count_rows (\<lambda>r. key r = k) rows)"

section \<open>Text search\<close>

text \<open>A list of strings is stored as JSON; the filters on it match the text of an element in quotes.
  \<open>json.Marshal\<close> escapes the quote, the backslash, control characters and the HTML characters.\<close>

definition hex2 :: "nat \<Rightarrow> string" where
  "hex2 n = [''0123456789abcdef'' ! (n div 16), ''0123456789abcdef'' ! (n mod 16)]"

definition json_char :: "char \<Rightarrow> string" where
  "json_char c =
     (let n = of_char c :: nat; bs = CHR 0x5C in
      if c = CHR 0x22 \<or> c = bs then [bs, c]
      else if n = 8 then [bs, CHR ''b''] else if n = 9 then [bs, CHR ''t''] else if n = 10 then [bs, CHR ''n'']
      else if n = 12 then [bs, CHR ''f''] else if n = 13 then [bs, CHR ''r'']
      else if n < 32 \<or> c = CHR ''<'' \<or> c = CHR ''>'' \<or> c = CHR ''&'' then bs # ''u00'' @ hex2 n
      else [c])"

definition json_string :: "string \<Rightarrow> string" where
  "json_string s = CHR 0x22 # concat (map json_char s) @ [CHR 0x22]"

definition json_strings :: "string list \<Rightarrow> string" where
  "json_strings xs = ''['' @ Join (map json_string xs) '','' @ '']''"

definition like_element :: "string \<Rightarrow> string list \<Rightarrow> bool" where
  "like_element x xs \<longleftrightarrow> like (''%'' @ [CHR 0x22] @ x @ [CHR 0x22] @ ''%'') (json_strings xs)"

definition where_search :: "string \<Rightarrow> ('r \<Rightarrow> string) list \<Rightarrow> 'r \<Rightarrow> bool" where
  "where_search q cols r \<longleftrightarrow> TrimSpace q = [] \<or> list_ex (\<lambda>col. like_any (TrimSpace q) (col r)) cols"

text \<open>The page of the rows a filter accepts, and how many it accepts.\<close>

definition listed ::
  "string \<Rightarrow> error option \<Rightarrow> error option \<Rightarrow> ('r \<Rightarrow> bool) \<Rightarrow> Page \<Rightarrow> ('r list \<Rightarrow> 'r list) \<Rightarrow> 'r list \<Rightarrow>
   ('r list \<times> nat) result" where
  "listed what flt1 flt2 accepts page order rows =
     (case flt1 of
        Some e \<Rightarrow> Inl (wrapf (''count '' @ what) e)
      | None \<Rightarrow>
          (case flt2 of
             Some e \<Rightarrow> Inl (wrapf (''list '' @ what) e)
           | None \<Rightarrow>
               (let found = filter accepts rows
                in Inr (limit_offset (Page_normalized page) (order found), length found))))"

section \<open>Sources\<close>

definition src_row :: "Source \<Rightarrow> Source" where
  "src_row x = x\<lparr>src_HostName := [], src_LastTestAt := nullTime (src_LastTestAt x), src_JobCount := 0\<rparr>"

text \<open>\<open>LEFT JOIN hosts\<close> and the number of jobs.\<close>

definition join_host :: "db \<Rightarrow> Source \<Rightarrow> Source" where
  "join_host s x = x\<lparr>src_HostName := (case find_row host_ID (src_HostID x) (t_hosts s) of None \<Rightarrow> [] | Some h \<Rightarrow> host_Name h)\<rparr>"

definition jobCountsBySource :: "db \<Rightarrow> string \<Rightarrow> int" where
  "jobCountsBySource s = count_by job_SourceID (t_jobs s)"

definition join_source :: "db \<Rightarrow> Source \<Rightarrow> Source" where
  "join_source s x = (join_host s x)\<lparr>src_JobCount := jobCountsBySource s (src_ID x)\<rparr>"

definition Sources_Create :: "error option \<Rightarrow> string \<Rightarrow> time \<Rightarrow> Source \<Rightarrow> db \<Rightarrow> Source result \<times> db" where
  "Sources_Create flt newID now x s =
     (let x1 = (if src_ID x = [] then x\<lparr>src_ID := newID\<rparr> else x);
          x2 = x1\<lparr>src_CreatedAt := now, src_UpdatedAt := now\<rparr>
      in case flt of
           Some e \<Rightarrow> (Inl (wrapf ''create source'' e), s)
         | None \<Rightarrow>
             (case insert_unique src_ID src_Name (src_row x2) (t_sources s) of
                None \<Rightarrow> (Inl (name_conflict ''source'' (src_Name x2)), s)
              | Some rows \<Rightarrow> (Inr x2, s\<lparr>t_sources := rows\<rparr>)))"

definition src_assign :: "Source \<Rightarrow> Source \<Rightarrow> Source" where
  "src_assign x r = r\<lparr>src_Name := src_Name x, src_Kind := src_Kind x, src_Description := src_Description x,
     src_Config := src_Config x, src_HostID := src_HostID x, src_Tags := src_Tags x, src_UpdatedAt := src_UpdatedAt x\<rparr>"

definition Sources_Update :: "error option \<Rightarrow> time \<Rightarrow> Source \<Rightarrow> db \<Rightarrow> Source result \<times> db" where
  "Sources_Update flt now x s =
     (let x1 = x\<lparr>src_UpdatedAt := now\<rparr>
      in case flt of
           Some e \<Rightarrow> (Inl (wrapf ''update source'' e), s)
         | None \<Rightarrow>
             (case update_unique src_ID src_Name (src_ID x) (src_assign x1) (t_sources s) of
                None \<Rightarrow> (Inl (name_conflict ''source'' (src_Name x1)), s)
              | Some rows \<Rightarrow>
                  ((case affected (count_rows (\<lambda>r. src_ID r = src_ID x) (t_sources s)) ''source'' (src_ID x) of
                      Some e \<Rightarrow> Inl e | None \<Rightarrow> Inr x1), s\<lparr>t_sources := rows\<rparr>)))"

definition Sources_SetTestResult ::
  "error option \<Rightarrow> string \<Rightarrow> bool \<Rightarrow> string \<Rightarrow> time \<Rightarrow> db \<Rightarrow> error option \<times> db" where
  "Sources_SetTestResult flt rid ok msg at s =
     (case flt of
        Some e \<Rightarrow> (Some (wrapf ''store source test result'' e), s)
      | None \<Rightarrow>
          (None, s\<lparr>t_sources := update_rows (\<lambda>r. src_ID r = rid)
             (\<lambda>r. r\<lparr>src_LastTestAt := Some at, src_LastTestOK := Some ok, src_LastTestError := msg\<rparr>) (t_sources s)\<rparr>))"

definition Sources_Get :: "error option \<Rightarrow> error option \<Rightarrow> string \<Rightarrow> db \<Rightarrow> Source result" where
  "Sources_Get flt flt_counts rid s =
     (case flt of
        Some e \<Rightarrow> Inl (wrapf ''get source'' e)
      | None \<Rightarrow>
          (case find_row src_ID rid (t_sources s) of
             None \<Rightarrow> Inl (row_missing ''source'' rid)
           | Some x \<Rightarrow>
               (case flt_counts of
                  Some e \<Rightarrow> Inl (wrapf ''count jobs by source'' e)
                | None \<Rightarrow> Inr (join_source s x))))"

record SourceFilter =
  sf_Kind :: string
  sf_HostID :: string
  sf_Q :: string
  sf_Page :: Page

definition SourceFilter_where :: "SourceFilter \<Rightarrow> Source \<Rightarrow> bool" where
  "SourceFilter_where f x \<longleftrightarrow>
     where_eq (sf_Kind f) src_Kind x \<and> where_eq (sf_HostID f) src_HostID x
     \<and> where_search (sf_Q f) [src_Name, src_Description] x"

definition Sources_List ::
  "error option \<Rightarrow> error option \<Rightarrow> error option \<Rightarrow> SourceFilter \<Rightarrow> db \<Rightarrow> (Source list \<times> nat) result" where
  "Sources_List flt1 flt2 flt_counts f s =
     (case listed ''sources'' flt1 flt2 (SourceFilter_where f) (sf_Page f) (sort_key src_Name) (t_sources s) of
        Inl e \<Rightarrow> Inl e
      | Inr (rows, n) \<Rightarrow>
          (case flt_counts of
             Some e \<Rightarrow> Inl (wrapf ''count jobs by source'' e)
           | None \<Rightarrow> Inr (map (join_source s) rows, n)))"

text \<open>\<open>ON DELETE RESTRICT\<close>: a source that a job refers to stays.\<close>

definition Sources_Delete :: "error option \<Rightarrow> string \<Rightarrow> db \<Rightarrow> error option \<times> db" where
  "Sources_Delete flt rid s =
     (case flt of
        Some e \<Rightarrow> (Some (wrapf ''delete source'' e), s)
      | None \<Rightarrow>
          if rid \<in> src_ID ` set (t_sources s) \<and> rid \<in> job_SourceID ` set (t_jobs s)
          then (Some (GoErr (Some ErrConflict) (''source '' @ rid @ '' is used by jobs: conflict'')), s)
          else (affected (count_rows (\<lambda>r. src_ID r = rid) (t_sources s)) ''source'' rid,
                s\<lparr>t_sources := delete_row src_ID rid (t_sources s)\<rparr>))"

section \<open>Destinations\<close>

definition dst_row :: "Destination \<Rightarrow> Destination" where
  "dst_row d = d\<lparr>dst_LastTestAt := nullTime (dst_LastTestAt d), dst_JobCount := 0, dst_UsedBytes := 0, dst_ArtifactCount := 0\<rparr>"

definition stored_at :: "db \<Rightarrow> string \<Rightarrow> Artifact list" where
  "stored_at s rid = filter (\<lambda>a. art_Status a = ArtifactPresent \<and> art_DestinationID a = rid) (t_artifacts s)"

definition jobCountsByDestination :: "db \<Rightarrow> string \<Rightarrow> int" where
  "jobCountsByDestination s rid = int (length (filter (\<lambda>i. i = rid) (concat (map job_DestinationIDs (t_jobs s)))))"

definition join_destination :: "db \<Rightarrow> Destination \<Rightarrow> Destination" where
  "join_destination s d = d\<lparr>dst_UsedBytes := sum_list (map art_Size (stored_at s (dst_ID d))),
     dst_ArtifactCount := int (length (stored_at s (dst_ID d))),
     dst_JobCount := jobCountsByDestination s (dst_ID d)\<rparr>"

definition usage_faults :: "error option \<Rightarrow> error option \<Rightarrow> error option" where
  "usage_faults flt_usage flt_counts =
     (case flt_usage of
        Some e \<Rightarrow> Some (wrapf ''destination usage'' e)
      | None \<Rightarrow> map_option (wrapf ''count jobs by destination'') flt_counts)"

definition Destinations_Create :: "error option \<Rightarrow> string \<Rightarrow> time \<Rightarrow> Destination \<Rightarrow> db \<Rightarrow> Destination result \<times> db" where
  "Destinations_Create flt newID now d s =
     (let d1 = (if dst_ID d = [] then d\<lparr>dst_ID := newID\<rparr> else d);
          d2 = d1\<lparr>dst_CreatedAt := now, dst_UpdatedAt := now\<rparr>
      in case flt of
           Some e \<Rightarrow> (Inl (wrapf ''create destination'' e), s)
         | None \<Rightarrow>
             (case insert_unique dst_ID dst_Name (dst_row d2) (t_destinations s) of
                None \<Rightarrow> (Inl (name_conflict ''destination'' (dst_Name d2)), s)
              | Some rows \<Rightarrow> (Inr d2, s\<lparr>t_destinations := rows\<rparr>)))"

definition dst_assign :: "Destination \<Rightarrow> Destination \<Rightarrow> Destination" where
  "dst_assign d r = r\<lparr>dst_Name := dst_Name d, dst_Kind := dst_Kind d, dst_Description := dst_Description d,
     dst_Config := dst_Config d, dst_Tags := dst_Tags d, dst_UpdatedAt := dst_UpdatedAt d\<rparr>"

text \<open>A second statement refreshes the labels copied to the artifacts.\<close>

definition Destinations_Update ::
  "error option \<Rightarrow> error option \<Rightarrow> time \<Rightarrow> Destination \<Rightarrow> db \<Rightarrow> Destination result \<times> db" where
  "Destinations_Update flt1 flt2 now d s =
     (let d1 = d\<lparr>dst_UpdatedAt := now\<rparr>
      in case flt1 of
           Some e \<Rightarrow> (Inl (wrapf ''update destination'' e), s)
         | None \<Rightarrow>
             (case update_unique dst_ID dst_Name (dst_ID d) (dst_assign d1) (t_destinations s) of
                None \<Rightarrow> (Inl (name_conflict ''destination'' (dst_Name d1)), s)
              | Some rows \<Rightarrow>
                  (let s1 = s\<lparr>t_destinations := rows\<rparr>
                   in case affected (count_rows (\<lambda>r. dst_ID r = dst_ID d) (t_destinations s)) ''destination'' (dst_ID d) of
                        Some e \<Rightarrow> (Inl e, s1)
                      | None \<Rightarrow>
                          (case flt2 of
                             Some e \<Rightarrow> (Inl (wrapf ''refresh artifact destination labels'' e), s1)
                           | None \<Rightarrow>
                               (Inr d1, s1\<lparr>t_artifacts := update_rows (\<lambda>a. art_DestinationID a = dst_ID d)
                                  (\<lambda>a. a\<lparr>art_DestinationName := dst_Name d, art_DestinationKind := dst_Kind d\<rparr>)
                                  (t_artifacts s1)\<rparr>)))))"

definition Destinations_SetTestResult ::
  "error option \<Rightarrow> string \<Rightarrow> bool \<Rightarrow> string \<Rightarrow> time \<Rightarrow> db \<Rightarrow> error option \<times> db" where
  "Destinations_SetTestResult flt rid ok msg at s =
     (case flt of
        Some e \<Rightarrow> (Some (wrapf ''store destination test result'' e), s)
      | None \<Rightarrow>
          (None, s\<lparr>t_destinations := update_rows (\<lambda>r. dst_ID r = rid)
             (\<lambda>r. r\<lparr>dst_LastTestAt := Some at, dst_LastTestOK := Some ok, dst_LastTestError := msg\<rparr>) (t_destinations s)\<rparr>))"

definition Destinations_Get :: "error option \<Rightarrow> error option \<Rightarrow> error option \<Rightarrow> string \<Rightarrow> db \<Rightarrow> Destination result" where
  "Destinations_Get flt flt_usage flt_counts rid s =
     (case flt of
        Some e \<Rightarrow> Inl (wrapf ''get destination'' e)
      | None \<Rightarrow>
          (case find_row dst_ID rid (t_destinations s) of
             None \<Rightarrow> Inl (row_missing ''destination'' rid)
           | Some d \<Rightarrow>
               (case usage_faults flt_usage flt_counts of
                  Some e \<Rightarrow> Inl e
                | None \<Rightarrow> Inr (join_destination s d))))"

record DestinationFilter =
  df_Kind :: string
  df_Q :: string
  df_Page :: Page

definition DestinationFilter_where :: "DestinationFilter \<Rightarrow> Destination \<Rightarrow> bool" where
  "DestinationFilter_where f d \<longleftrightarrow>
     where_eq (df_Kind f) dst_Kind d \<and> where_search (df_Q f) [dst_Name, dst_Description] d"

definition Destinations_List ::
  "error option \<Rightarrow> error option \<Rightarrow> error option \<Rightarrow> error option \<Rightarrow> DestinationFilter \<Rightarrow> db \<Rightarrow>
   (Destination list \<times> nat) result" where
  "Destinations_List flt1 flt2 flt_usage flt_counts f s =
     (case listed ''destinations'' flt1 flt2 (DestinationFilter_where f) (df_Page f) (sort_key dst_Name) (t_destinations s) of
        Inl e \<Rightarrow> Inl e
      | Inr (rows, n) \<Rightarrow>
          (case usage_faults flt_usage flt_counts of
             Some e \<Rightarrow> Inl e
           | None \<Rightarrow> Inr (map (join_destination s) rows, n)))"

definition Destinations_Delete :: "error option \<Rightarrow> string \<Rightarrow> db \<Rightarrow> error option \<times> db" where
  "Destinations_Delete flt rid s =
     (case flt of
        Some e \<Rightarrow> (Some (wrapf ''delete destination'' e), s)
      | None \<Rightarrow>
          (affected (count_rows (\<lambda>r. dst_ID r = rid) (t_destinations s)) ''destination'' rid,
           s\<lparr>t_destinations := delete_row dst_ID rid (t_destinations s)\<rparr>))"

section \<open>Hosts\<close>

definition normalizeHost :: "Host \<Rightarrow> Host" where
  "normalizeHost h = h\<lparr>host_Name := TrimSpace (host_Name h), host_Address := TrimSpace (host_Address h),
     host_User := TrimSpace (host_User h), host_HostKey := TrimSpace (host_HostKey h),
     host_Auth := (if host_Auth h = HostAuthOther [] then HostAuthKey else host_Auth h)\<rparr>"

definition host_row :: "Host \<Rightarrow> Host" where
  "host_row h = h\<lparr>host_LastTestAt := nullTime (host_LastTestAt h), host_SourceCount := 0\<rparr>"

definition sourceCountsByHost :: "db \<Rightarrow> string \<Rightarrow> int" where
  "sourceCountsByHost s rid = (if rid = [] then 0 else count_by src_HostID (t_sources s) rid)"

definition join_sources :: "db \<Rightarrow> Host \<Rightarrow> Host" where
  "join_sources s h = h\<lparr>host_SourceCount := sourceCountsByHost s (host_ID h)\<rparr>"

definition Hosts_Create :: "error option \<Rightarrow> string \<Rightarrow> time \<Rightarrow> Host \<Rightarrow> db \<Rightarrow> Host result \<times> db" where
  "Hosts_Create flt newID now h s =
     (let h1 = normalizeHost h;
          h2 = (if host_ID h1 = [] then h1\<lparr>host_ID := newID\<rparr> else h1);
          h3 = h2\<lparr>host_CreatedAt := now, host_UpdatedAt := now\<rparr>
      in case flt of
           Some e \<Rightarrow> (Inl (wrapf ''create host'' e), s)
         | None \<Rightarrow>
             (case insert_unique host_ID host_Name (host_row h3) (t_hosts s) of
                None \<Rightarrow> (Inl (name_conflict ''host'' (host_Name h3)), s)
              | Some rows \<Rightarrow> (Inr h3, s\<lparr>t_hosts := rows\<rparr>)))"

definition host_assign :: "Host \<Rightarrow> Host \<Rightarrow> Host" where
  "host_assign h r =
     r\<lparr>host_Name := host_Name h, host_Description := host_Description h, host_Address := host_Address h,
       host_Port := host_Port h, host_User := host_User h, host_Auth := host_Auth h,
       host_PrivateKey := host_PrivateKey h, host_KeyPassphrase := host_KeyPassphrase h,
       host_Password := host_Password h, host_PublicKey := host_PublicKey h, host_HostKey := host_HostKey h,
       host_Sudo := host_Sudo h, host_ConnectTimeout := host_ConnectTimeout h, host_Tags := host_Tags h,
       host_UpdatedAt := host_UpdatedAt h\<rparr>"

definition Hosts_Update :: "error option \<Rightarrow> time \<Rightarrow> Host \<Rightarrow> db \<Rightarrow> Host result \<times> db" where
  "Hosts_Update flt now h s =
     (let h1 = (normalizeHost h)\<lparr>host_UpdatedAt := now\<rparr>
      in case flt of
           Some e \<Rightarrow> (Inl (wrapf ''update host'' e), s)
         | None \<Rightarrow>
             (case update_unique host_ID host_Name (host_ID h) (host_assign h1) (t_hosts s) of
                None \<Rightarrow> (Inl (name_conflict ''host'' (host_Name h1)), s)
              | Some rows \<Rightarrow>
                  ((case affected (count_rows (\<lambda>r. host_ID r = host_ID h) (t_hosts s)) ''host'' (host_ID h) of
                      Some e \<Rightarrow> Inl e | None \<Rightarrow> Inr h1), s\<lparr>t_hosts := rows\<rparr>)))"

definition host_found :: "string \<Rightarrow> string \<Rightarrow> error option \<Rightarrow> error option \<Rightarrow> Host option \<Rightarrow> db \<Rightarrow> Host result" where
  "host_found what ref flt flt_counts found s =
     (case flt of
        Some e \<Rightarrow> Inl (wrapf what e)
      | None \<Rightarrow>
          (case found of
             None \<Rightarrow> Inl (row_missing ''host'' ref)
           | Some h \<Rightarrow>
               (case flt_counts of
                  Some e \<Rightarrow> Inl (wrapf ''count sources by host'' e)
                | None \<Rightarrow> Inr (join_sources s h))))"

definition Hosts_Get :: "error option \<Rightarrow> error option \<Rightarrow> string \<Rightarrow> db \<Rightarrow> Host result" where
  "Hosts_Get flt flt_counts rid s = host_found ''get host'' rid flt flt_counts (find_row host_ID rid (t_hosts s)) s"

definition Hosts_GetByName :: "error option \<Rightarrow> error option \<Rightarrow> string \<Rightarrow> db \<Rightarrow> Host result" where
  "Hosts_GetByName flt flt_counts name s =
     host_found ''get host by name'' name flt flt_counts (find_row host_Name (TrimSpace name) (t_hosts s)) s"

record HostFilter =
  hf_Q :: string
  hf_Tag :: string
  hf_Page :: Page

definition HostFilter_where :: "HostFilter \<Rightarrow> Host \<Rightarrow> bool" where
  "HostFilter_where f h \<longleftrightarrow>
     where_search (hf_Q f) [host_Name, host_Description, host_Address] h
     \<and> (TrimSpace (hf_Tag f) = [] \<or> like_element (TrimSpace (hf_Tag f)) (host_Tags h))"

definition Hosts_List ::
  "error option \<Rightarrow> error option \<Rightarrow> error option \<Rightarrow> HostFilter \<Rightarrow> db \<Rightarrow> (Host list \<times> nat) result" where
  "Hosts_List flt1 flt2 flt_counts f s =
     (case listed ''hosts'' flt1 flt2 (HostFilter_where f) (hf_Page f) (sort_key host_Name) (t_hosts s) of
        Inl e \<Rightarrow> Inl e
      | Inr (rows, n) \<Rightarrow>
          (case flt_counts of
             Some e \<Rightarrow> Inl (wrapf ''count sources by host'' e)
           | None \<Rightarrow> Inr (map (join_sources s) rows, n)))"

text \<open>The check that no source uses the host and the deletion are two statements.\<close>

definition Hosts_Delete :: "error option \<Rightarrow> error option \<Rightarrow> string \<Rightarrow> db \<Rightarrow> error option \<times> db" where
  "Hosts_Delete flt_counts flt rid s =
     (case flt_counts of
        Some e \<Rightarrow> (Some (wrapf ''count sources by host'' e), s)
      | None \<Rightarrow>
          if 0 < sourceCountsByHost s rid
          then (Some (GoErr (Some ErrConflict) (''host '' @ rid @ '' is used by sources: conflict'')), s)
          else (case flt of
                  Some e \<Rightarrow> (Some (wrapf ''delete host'' e), s)
                | None \<Rightarrow>
                    (affected (count_rows (\<lambda>r. host_ID r = rid) (t_hosts s)) ''host'' rid,
                     s\<lparr>t_hosts := delete_row host_ID rid (t_hosts s)\<rparr>)))"

definition Hosts_SetTestResult ::
  "error option \<Rightarrow> time \<Rightarrow> string \<Rightarrow> bool \<Rightarrow> string \<Rightarrow> string \<Rightarrow> string list \<Rightarrow> db \<Rightarrow> error option \<times> db" where
  "Hosts_SetTestResult flt now rid ok msg os tools s =
     (case flt of
        Some e \<Rightarrow> (Some (wrapf ''store host test result'' e), s)
      | None \<Rightarrow>
          (affected (count_rows (\<lambda>r. host_ID r = rid) (t_hosts s)) ''host'' rid,
           s\<lparr>t_hosts := update_rows (\<lambda>r. host_ID r = rid)
             (\<lambda>r. r\<lparr>host_LastTestAt := Some now, host_LastTestOK := Some ok, host_LastTestError := msg,
                   host_LastSeenOS := os, host_Tools := tools\<rparr>) (t_hosts s)\<rparr>))"

section \<open>Notification channels\<close>

definition chn_row :: "NotificationChannel \<Rightarrow> NotificationChannel" where
  "chn_row c = c\<lparr>chn_LastSentAt := nullTime (chn_LastSentAt c)\<rparr>"

definition Channels_Create ::
  "error option \<Rightarrow> string \<Rightarrow> time \<Rightarrow> NotificationChannel \<Rightarrow> db \<Rightarrow> NotificationChannel result \<times> db" where
  "Channels_Create flt newID now c s =
     (let c1 = (if chn_ID c = [] then c\<lparr>chn_ID := newID\<rparr> else c);
          c2 = c1\<lparr>chn_CreatedAt := now, chn_UpdatedAt := now\<rparr>
      in case flt of
           Some e \<Rightarrow> (Inl (wrapf ''create channel'' e), s)
         | None \<Rightarrow>
             (case insert_unique chn_ID chn_Name (chn_row c2) (t_channels s) of
                None \<Rightarrow> (Inl (name_conflict ''channel'' (chn_Name c2)), s)
              | Some rows \<Rightarrow> (Inr c2, s\<lparr>t_channels := rows\<rparr>)))"

definition chn_assign :: "NotificationChannel \<Rightarrow> NotificationChannel \<Rightarrow> NotificationChannel" where
  "chn_assign c r = r\<lparr>chn_Name := chn_Name c, chn_Kind := chn_Kind c, chn_Config := chn_Config c,
     chn_Enabled := chn_Enabled c, chn_Events := chn_Events c, chn_UpdatedAt := chn_UpdatedAt c\<rparr>"

definition Channels_Update ::
  "error option \<Rightarrow> time \<Rightarrow> NotificationChannel \<Rightarrow> db \<Rightarrow> NotificationChannel result \<times> db" where
  "Channels_Update flt now c s =
     (let c1 = c\<lparr>chn_UpdatedAt := now\<rparr>
      in case flt of
           Some e \<Rightarrow> (Inl (wrapf ''update channel'' e), s)
         | None \<Rightarrow>
             (case update_unique chn_ID chn_Name (chn_ID c) (chn_assign c1) (t_channels s) of
                None \<Rightarrow> (Inl (name_conflict ''channel'' (chn_Name c1)), s)
              | Some rows \<Rightarrow>
                  ((case affected (count_rows (\<lambda>r. chn_ID r = chn_ID c) (t_channels s)) ''channel'' (chn_ID c) of
                      Some e \<Rightarrow> Inl e | None \<Rightarrow> Inr c1), s\<lparr>t_channels := rows\<rparr>)))"

definition Channels_SetSendResult :: "error option \<Rightarrow> string \<Rightarrow> time \<Rightarrow> string \<Rightarrow> db \<Rightarrow> error option \<times> db" where
  "Channels_SetSendResult flt rid at sendErr s =
     (case flt of
        Some e \<Rightarrow> (Some (wrapf ''store channel send result'' e), s)
      | None \<Rightarrow>
          (None, s\<lparr>t_channels := update_rows (\<lambda>r. chn_ID r = rid)
             (\<lambda>r. r\<lparr>chn_LastSentAt := Some at, chn_LastError := sendErr\<rparr>) (t_channels s)\<rparr>))"

definition Channels_Get :: "error option \<Rightarrow> string \<Rightarrow> db \<Rightarrow> NotificationChannel result" where
  "Channels_Get flt rid s =
     (case flt of
        Some e \<Rightarrow> Inl (wrapf ''get channel'' e)
      | None \<Rightarrow>
          (case find_row chn_ID rid (t_channels s) of
             None \<Rightarrow> Inl (row_missing ''channel'' rid)
           | Some c \<Rightarrow> Inr c))"

definition Channels_List :: "error option \<Rightarrow> db \<Rightarrow> NotificationChannel list result" where
  "Channels_List flt s =
     (case flt of
        Some e \<Rightarrow> Inl (wrapf ''list channels'' e)
      | None \<Rightarrow> Inr (sort_key chn_Name (t_channels s)))"

definition Channels_Delete :: "error option \<Rightarrow> string \<Rightarrow> db \<Rightarrow> error option \<times> db" where
  "Channels_Delete flt rid s =
     (case flt of
        Some e \<Rightarrow> (Some (wrapf ''delete channel'' e), s)
      | None \<Rightarrow>
          (affected (count_rows (\<lambda>r. chn_ID r = rid) (t_channels s)) ''channel'' rid,
           s\<lparr>t_channels := delete_row chn_ID rid (t_channels s)\<rparr>))"

section \<open>The filtered list of jobs\<close>

record JobFilter =
  jf_Enabled :: "bool option"
  jf_SourceID :: string
  jf_DestinationID :: string
  jf_Tag :: string
  jf_Q :: string
  jf_Page :: Page

definition JobFilter_where :: "JobFilter \<Rightarrow> Job \<Rightarrow> bool" where
  "JobFilter_where f j \<longleftrightarrow>
     (case jf_Enabled f of None \<Rightarrow> True | Some b \<Rightarrow> job_Enabled j = b)
     \<and> where_eq (jf_SourceID f) job_SourceID j
     \<and> where_search (jf_Q f) [job_Name, job_Slug, job_Description] j
     \<and> (jf_Tag f = [] \<or> like_element (jf_Tag f) (job_Tags j))
     \<and> (jf_DestinationID f = [] \<or> like_element (jf_DestinationID f) (job_DestinationIDs j))"

definition Jobs_List ::
  "error option \<Rightarrow> error option \<Rightarrow> error option \<Rightarrow> JobFilter \<Rightarrow> db \<Rightarrow> (Job list \<times> nat) result" where
  "Jobs_List flt1 flt2 flt_join f s =
     (case listed ''jobs'' flt1 flt2 (JobFilter_where f) (jf_Page f) (sort_key job_Name) (t_jobs s) of
        Inl e \<Rightarrow> Inl e
      | Inr (rows, n) \<Rightarrow>
          if rows = [] then Inr ([], n)
          else (case flt_join of Some e \<Rightarrow> Inl e | None \<Rightarrow> Inr (map (enrichJob s) rows, n)))"

section \<open>Audit log\<close>

definition Audit_Record :: "error option \<Rightarrow> string \<Rightarrow> time \<Rightarrow> AuditEntry \<Rightarrow> db \<Rightarrow> error option \<times> db" where
  "Audit_Record flt newID now x s =
     (let x1 = (if ae_ID x = [] then x\<lparr>ae_ID := newID\<rparr> else x);
          x2 = (if IsZero (ae_Time x1) then x1\<lparr>ae_Time := now\<rparr> else x1)
      in case exec_err flt (find_row ae_ID (ae_ID x2) (t_audit s) \<noteq> None) ''UNIQUE constraint failed: audit_log.id'' of
           Some e \<Rightarrow> (Some (wrapf ''record audit entry'' e), s)
         | None \<Rightarrow> (None, s\<lparr>t_audit := t_audit s @ [x2]\<rparr>))"

record AuditFilter =
  auf_Actor :: string
  auf_Action :: string
  auf_ObjectType :: string
  auf_Since :: time
  auf_Page :: Page

definition AuditFilter_where :: "AuditFilter \<Rightarrow> AuditEntry \<Rightarrow> bool" where
  "AuditFilter_where f x \<longleftrightarrow>
     (auf_Actor f = [] \<or> ae_ActorID x = auf_Actor f \<or> like_any (auf_Actor f) (ae_ActorLabel x))
     \<and> where_eq (auf_Action f) ae_Action x \<and> where_eq (auf_ObjectType f) ae_ObjectType x
     \<and> where_since (auf_Since f) ae_Time x"

definition Audit_List :: "error option \<Rightarrow> error option \<Rightarrow> AuditFilter \<Rightarrow> db \<Rightarrow> (AuditEntry list \<times> nat) result" where
  "Audit_List flt1 flt2 f s =
     listed ''audit entries'' flt1 flt2 (AuditFilter_where f) (auf_Page f) (newest ae_Time ae_ID) (t_audit s)"

end
