(* ===== verification/Core_Config.thy ===== *)
theory Core_Config
  imports Core_Types
begin

text \<open>
  Driver configurations, package \<open>internal/core\<close> (config.go and the host functions of
  types.go): the typed getters, masking of secrets for the API, merging of masked secrets on an
  update, and the check of required fields.
\<close>

section \<open>Numbers as text\<close>

text \<open>\<open>strconv.ParseInt(s, 10, 64)\<close> and \<open>strconv.Atoi\<close>: an optional sign, at least one
  digit, nothing else, and a value in the \<open>int64\<close> range.\<close>

definition is_digit :: "char \<Rightarrow> bool" where
  "is_digit c \<longleftrightarrow> c \<in> set ''0123456789''"

definition parse_digits :: "string \<Rightarrow> int option" where
  "parse_digits s = (if s \<noteq> [] \<and> list_all is_digit s then Some (int (decimal_value s)) else None)"

definition in_int64 :: "int \<Rightarrow> bool" where
  "in_int64 i \<longleftrightarrow> - (2 ^ 63) \<le> i \<and> i < 2 ^ 63"

definition Atoi :: "string \<Rightarrow> int option" where
  "Atoi s =
     (case (if HasPrefix s ''-'' then map_option uminus (parse_digits (tl s))
            else if HasPrefix s ''+'' then parse_digits (tl s)
            else parse_digits s)
      of None \<Rightarrow> None | Some i \<Rightarrow> if in_int64 i then Some i else None)"

text \<open>
  \<open>float64\<close> values \<open>m / 10 ^ k\<close>. Conversion to \<open>int64\<close> truncates; outside the range
  amd64 yields the smallest \<open>int64\<close>.
\<close>

definition float_trunc :: "int \<Rightarrow> nat \<Rightarrow> int" where
  "float_trunc m k = (let i = quot m (10 ^ k) in if in_int64 i then i else - (2 ^ 63))"

definition float_integral :: "int \<Rightarrow> nat \<Rightarrow> bool" where
  "float_integral m k \<longleftrightarrow> m = float_trunc m k * 10 ^ k"

definition strip_zeros :: "string \<Rightarrow> string" where
  "strip_zeros s = rev (dropWhile (\<lambda>c. c = CHR ''0'') (rev s))"

text \<open>\<open>strconv.FormatFloat(t, 'f', -1, 64)\<close>.\<close>

definition format_f :: "int \<Rightarrow> nat \<Rightarrow> string" where
  "format_f m k =
     (let n = nat \<bar>m\<bar>; frac = strip_zeros (if k = 0 then [] else pad k (n mod 10 ^ k))
      in (if m < 0 then ''-'' else []) @ digits_of (n div 10 ^ k) @ (if frac = [] then [] else ''.'' @ frac))"

text \<open>\<open>%v\<close> of a \<open>float64\<close>: shortest digits, with an exponent below -4 or from 21 on.\<close>

definition format_g :: "int \<Rightarrow> nat \<Rightarrow> string" where
  "format_g m k =
     (if m = 0 then ''0'' else
      let ds = digits_of (nat \<bar>m\<bar>); e = int (length ds) - 1 - int k; sig = strip_zeros ds
      in if e < - 4 \<or> 21 \<le> e
         then (if m < 0 then ''-'' else []) @ [hd sig] @ (if tl sig = [] then [] else ''.'' @ tl sig)
              @ ''e'' @ (if e < 0 then ''-'' else ''+'') @ pad 2 (nat \<bar>e\<bar>)
         else format_f m k)"

definition FormatBool :: "bool \<Rightarrow> string" where
  "FormatBool b = (if b then ''true'' else ''false'')"

text \<open>\<open>fmt.Sprint\<close> of one operand.\<close>

fun Sprint :: "cfgval \<Rightarrow> string" where
  "Sprint VNil = ''<nil>''"
| "Sprint (VString s) = s"
| "Sprint (VBool b) = FormatBool b"
| "Sprint (VFloat m k) = format_g m k"
| "Sprint (VInt i) = Itoa i"
| "Sprint (VInt64 i) = Itoa i"
| "Sprint (VStrings ss) = ''['' @ Join ss '' '' @ '']''"
| "Sprint (VAnys vs) = ''['' @ Join (map Sprint vs) '' '' @ '']''"
| "Sprint (VHost h txt) = txt"
| "Sprint (VHostPtr h txt) = txt"
| "Sprint (VOther txt) = txt"

section \<open>Getters\<close>

text \<open>The first two results of \<open>v, ok := c[key]\<close> with the test \<open>!ok || v == nil\<close>.\<close>

definition cfg_lookup :: "Config \<Rightarrow> string \<Rightarrow> cfgval option" where
  "cfg_lookup c key = (case c key of Some VNil \<Rightarrow> None | r \<Rightarrow> r)"

definition Config_Has :: "Config \<Rightarrow> string \<Rightarrow> bool" where
  "Config_Has c key =
     (case cfg_lookup c key of
        None \<Rightarrow> False
      | Some (VString s) \<Rightarrow> TrimSpace s \<noteq> []
      | Some _ \<Rightarrow> True)"

definition Config_String :: "Config \<Rightarrow> string \<Rightarrow> string" where
  "Config_String c key =
     (case cfg_lookup c key of
        None \<Rightarrow> []
      | Some (VString s) \<Rightarrow> s
      | Some (VFloat m k) \<Rightarrow> if float_integral m k then Itoa (float_trunc m k) else format_f m k
      | Some (VInt i) \<Rightarrow> Itoa i
      | Some (VInt64 i) \<Rightarrow> Itoa i
      | Some (VBool b) \<Rightarrow> FormatBool b
      | Some v \<Rightarrow> Sprint v)"

definition Config_StringOr :: "Config \<Rightarrow> string \<Rightarrow> string \<Rightarrow> string" where
  "Config_StringOr c key dflt = (let s = TrimSpace (Config_String c key) in if s \<noteq> [] then s else dflt)"

definition Config_Int :: "Config \<Rightarrow> string \<Rightarrow> int \<Rightarrow> int" where
  "Config_Int c key dflt =
     (case cfg_lookup c key of
        None \<Rightarrow> dflt
      | Some (VInt i) \<Rightarrow> i
      | Some (VInt64 i) \<Rightarrow> i
      | Some (VFloat m k) \<Rightarrow> float_trunc m k
      | Some (VString s) \<Rightarrow>
          if s = [] then dflt else (case Atoi (TrimSpace s) of Some n \<Rightarrow> n | None \<Rightarrow> dflt)
      | Some _ \<Rightarrow> dflt)"

definition Config_Int64 :: "Config \<Rightarrow> string \<Rightarrow> int \<Rightarrow> int" where
  "Config_Int64 c key dflt =
     (case cfg_lookup c key of
        None \<Rightarrow> dflt
      | Some (VInt i) \<Rightarrow> i
      | Some (VInt64 i) \<Rightarrow> i
      | Some (VFloat m k) \<Rightarrow> float_trunc m k
      | Some (VString s) \<Rightarrow> (case Atoi (TrimSpace s) of Some n \<Rightarrow> n | None \<Rightarrow> dflt)
      | Some _ \<Rightarrow> dflt)"

definition Config_Bool :: "Config \<Rightarrow> string \<Rightarrow> bool \<Rightarrow> bool" where
  "Config_Bool c key dflt =
     (case cfg_lookup c key of
        None \<Rightarrow> dflt
      | Some (VBool b) \<Rightarrow> b
      | Some (VString s) \<Rightarrow>
          (let t = ToLower (TrimSpace s) in
           if t \<in> {''1'', ''true'', ''yes'', ''on''} then True
           else if t \<in> {''0'', ''false'', ''no'', ''off''} then False
           else dflt)
      | Some (VFloat m k) \<Rightarrow> m \<noteq> 0
      | Some (VInt i) \<Rightarrow> i \<noteq> 0
      | Some _ \<Rightarrow> dflt)"

text \<open>\<open>strings.FieldsFunc\<close>: the maximal non-empty runs of bytes that are not separators.\<close>

fun FieldsFunc :: "(char \<Rightarrow> bool) \<Rightarrow> string \<Rightarrow> string \<Rightarrow> string list" where
  "FieldsFunc sep cur [] = (if cur = [] then [] else [cur])"
| "FieldsFunc sep cur (c # s) =
     (if sep c then (if cur = [] then [] else [cur]) @ FieldsFunc sep [] s
      else FieldsFunc sep (cur @ [c]) s)"

definition Config_StringList :: "Config \<Rightarrow> string \<Rightarrow> string list" where
  "Config_StringList c key =
     (case cfg_lookup c key of
        None \<Rightarrow> []
      | Some (VStrings ss) \<Rightarrow> filter (\<lambda>s. s \<noteq> []) (map TrimSpace ss)
      | Some (VAnys vs) \<Rightarrow> map (\<lambda>e. TrimSpace (Sprint e)) (filter (\<lambda>e. TrimSpace (Sprint e) \<noteq> [] \<and> e \<noteq> VNil) vs)
      | Some (VString t) \<Rightarrow>
          filter (\<lambda>s. s \<noteq> [])
            (map TrimSpace (FieldsFunc (\<lambda>ch. ch = CHR 0x0A \<or> ch = CHR '','') [] t))
      | Some _ \<Rightarrow> [])"

section \<open>Secrets\<close>

text \<open>Maps are values here, so \<open>Clone\<close> is the identity and the loops update the copy.\<close>

definition Config_Clone :: "Config \<Rightarrow> Config" where
  "Config_Clone c = c"

definition Config_Masked :: "Config \<Rightarrow> string list \<Rightarrow> Config" where
  "Config_Masked c secretFields =
     fold (\<lambda>f out. if Config_Has out f then out(f \<mapsto> VString SecretMask) else out) secretFields (Config_Clone c)"

definition Config_MergeSecrets :: "Config \<Rightarrow> Config \<Rightarrow> string list \<Rightarrow> Config" where
  "Config_MergeSecrets c previous secretFields =
     fold (\<lambda>f out.
        if Config_String out f = SecretMask
        then (case previous f of Some prev \<Rightarrow> out(f \<mapsto> prev) | None \<Rightarrow> out(f := None))
        else out) secretFields (Config_Clone c)"

section \<open>Hosts\<close>

definition Config_Host :: "Config \<Rightarrow> Host option" where
  "Config_Host c =
     (case cfg_lookup c HostConfigKey of
        Some (VHost h _) \<Rightarrow> Some h
      | Some (VHostPtr h _) \<Rightarrow> h
      | _ \<Rightarrow> None)"

text \<open>The text \<open>fmt.Sprint\<close> would print for the stored host is the second argument.\<close>

definition Config_WithHost :: "Config \<Rightarrow> Host option \<Rightarrow> string \<Rightarrow> Config" where
  "Config_WithHost c h txt =
     (case h of
        None \<Rightarrow> (Config_Clone c)(HostConfigKey := None)
      | Some host \<Rightarrow> (Config_Clone c)(HostConfigKey \<mapsto> VHost host txt))"

section \<open>Required fields\<close>

definition showIf_clause :: "Config \<Rightarrow> string \<times> showif \<Rightarrow> bool" where
  "showIf_clause cfg kw =
     (let got = Config_String cfg (fst kw) in
      case snd kw of
        ShowStrings w \<Rightarrow> list_ex (\<lambda>s. s = got) w
      | ShowAnys w \<Rightarrow> list_ex (\<lambda>s. Sprint s = got) w
      | ShowBool w \<Rightarrow> Config_Bool cfg (fst kw) False = w
      | ShowValue w \<Rightarrow> Sprint w = got)"

definition showIfMatches :: "(string \<times> showif) list \<Rightarrow> Config \<Rightarrow> bool" where
  "showIfMatches showIf cfg \<longleftrightarrow> showIf = [] \<or> list_all (showIf_clause cfg) showIf"

definition field_missing :: "bool \<Rightarrow> Config \<Rightarrow> Field \<Rightarrow> bool" where
  "field_missing remote cfg f \<longleftrightarrow>
     fld_Required f \<and> \<not> (remote \<and> fld_LocalOnly f) \<and> showIfMatches (fld_ShowIf f) cfg
     \<and> \<not> Config_Has cfg (fld_Name f) \<and> fld_Default f = VNil"

definition ValidateRequired :: "DriverSpec \<Rightarrow> Config \<Rightarrow> error option" where
  "ValidateRequired spec cfg =
     (let missing = map fld_Label (filter (field_missing (Config_Host cfg \<noteq> None) cfg) (spec_Fields spec))
      in if missing \<noteq> [] then Some (errNew (''missing required fields: '' @ Join missing '', '')) else None)"

section \<open>Lemmas\<close>

lemma Atoi_Itoa:
  assumes "in_int64 i"
  shows "Atoi (Itoa i) = Some i"
proof -
  have digs: "parse_digits (digits_of n) = Some (int n)" for n
  proof -
    have "list_all is_digit (digits_of n)"
      unfolding list_all_iff is_digit_def using digits_of_set by blast
    then show ?thesis by (simp add: parse_digits_def digits_of_nonempty)
  qed
  have sign: "\<not> HasPrefix (digits_of n) [c]" if "c \<notin> set ''0123456789''" for n c
    using digits_of_notin [OF that, of n] by (auto simp: HasPrefix_iff)
  show ?thesis
  proof (cases "i < 0")
    case True
    then have "Itoa i = ''-'' @ digits_of (nat (- i))" by (simp add: Itoa_def)
    moreover have "HasPrefix (''-'' @ digits_of (nat (- i))) ''-''" by (rule HasPrefix_append)
    ultimately show ?thesis using digs [of "nat (- i)"] assms True by (simp add: Atoi_def)
  next
    case False
    then have "Itoa i = digits_of (nat i)" by (simp add: Itoa_def)
    with digs [of "nat i"] sign [of "CHR ''-''" "nat i"] sign [of "CHR ''+''" "nat i"] False assms
    show ?thesis by (simp add: Atoi_def)
  qed
qed

lemma trim_runes_nonspace: "s \<noteq> [] \<Longrightarrow> rune_len rs s = 0 \<Longrightarrow> trim_runes rs s = s"
  by (simp add: trim_runes.simps)

lemma TrimSpace_SecretMask: "TrimSpace SecretMask = SecretMask"
  by code_simp

lemma Has_Mask [simp]: "Config_Has (c(f \<mapsto> VString SecretMask)) f"
  by (simp add: Config_Has_def cfg_lookup_def TrimSpace_SecretMask) (simp add: SecretMask_def)

lemma Has_upd_other [simp]: "g \<noteq> f \<Longrightarrow> Config_Has (c(f := v)) g = Config_Has c g"
  by (simp add: Config_Has_def cfg_lookup_def)

lemma String_upd_other [simp]: "g \<noteq> f \<Longrightarrow> Config_String (c(f := v)) g = Config_String c g"
  by (simp add: Config_String_def cfg_lookup_def)

lemma String_Mask [simp]: "Config_String (c(f \<mapsto> VString SecretMask)) f = SecretMask"
  by (simp add: Config_String_def cfg_lookup_def)

lemma Masked_apply:
  "Config_Masked c fs g = (if g \<in> set fs \<and> Config_Has c g then Some (VString SecretMask) else c g)"
proof -
  have "fold (\<lambda>f out. if Config_Has out f then out(f \<mapsto> VString SecretMask) else out) fs c g
      = (if g \<in> set fs \<and> Config_Has c g then Some (VString SecretMask) else c g)" for c g
  proof (induction fs arbitrary: c g)
    case (Cons f fs)
    show ?case by (cases "g = f") (auto simp: Cons.IH)
  qed simp
  then show ?thesis by (simp add: Config_Masked_def Config_Clone_def)
qed

lemma Merge_apply:
  assumes "distinct fs"
  shows "Config_MergeSecrets c prev fs g =
    (if g \<in> set fs \<and> Config_String c g = SecretMask then prev g else c g)"
proof -
  have "fold (\<lambda>f out. if Config_String out f = SecretMask
        then (case prev f of Some p \<Rightarrow> out(f \<mapsto> p) | None \<Rightarrow> out(f := None)) else out) fs c g
     = (if g \<in> set fs \<and> Config_String c g = SecretMask then prev g else c g)" for c
    using assms
  proof (induction fs arbitrary: c)
    case (Cons f fs)
    then show ?case by (cases "g = f") (auto split: option.split)
  qed simp
  then show ?thesis by (simp add: Config_MergeSecrets_def Config_Clone_def)
qed

text \<open>Merging back what masking hid: every step of the loop restores one field.\<close>

lemma merge_restores:
  assumes "\<And>g. out g = c g \<or> g \<in> set fs \<and> out g = Some (VString SecretMask)"
  shows "fold (\<lambda>f out. if Config_String out f = SecretMask
      then (case c f of Some p \<Rightarrow> out(f \<mapsto> p) | None \<Rightarrow> out(f := None)) else out) fs out = c"
  using assms
proof (induction fs arbitrary: out)
  case Nil
  then show ?case by auto
next
  case (Cons f fs)
  have step: "(case c f of Some p \<Rightarrow> out(f \<mapsto> p) | None \<Rightarrow> out(f := None)) = out(f := c f)"
    by (auto split: option.split)
  have mask: "out f = Some (VString SecretMask) \<Longrightarrow> Config_String out f = SecretMask"
    by (simp add: Config_String_def cfg_lookup_def)
  have "fold (\<lambda>f out. if Config_String out f = SecretMask
      then (case c f of Some p \<Rightarrow> out(f \<mapsto> p) | None \<Rightarrow> out(f := None)) else out) fs
      (if Config_String out f = SecretMask then out(f := c f) else out) = c"
    by (rule Cons.IH) (use Cons.prems mask in auto)
  then show ?case
    by (cases "Config_String out f = SecretMask") (simp_all only: fold.simps comp_apply step if_True if_False)
qed

section \<open>Properties\<close>

text \<open>What the API shows of a configuration. Every secret field that is set reads as
  the mask, whatever its type was, and every other key is unchanged.\<close>

theorem Masked_hides_exactly_secrets:
  "Config_Masked c secretFields =
     (\<lambda>k. if k \<in> set secretFields \<and> Config_Has c k then Some (VString SecretMask) else c k)"
  by (rule ext) (rule Masked_apply)

text \<open>A client that reads a masked configuration and sends it back unchanged changes
  nothing. Merging the masked configuration with the stored one gives the stored one.\<close>

theorem Masked_MergeSecrets_roundtrip:
  "Config_MergeSecrets (Config_Masked c secretFields) c secretFields = c"
  unfolding Config_MergeSecrets_def Config_Clone_def
  by (rule merge_restores) (auto simp: Masked_apply)

end
