(* ===== verification/Go_Path.thy ===== *)
theory Go_Path
  imports Prelude
begin

text \<open>
  Package \<open>path\<close> and, on Unix, package \<open>path/filepath\<close>: \<open>Clean\<close>, \<open>Join\<close>,
  \<open>Dir\<close>, \<open>Base\<close>, \<open>Ext\<close>, \<open>IsAbs\<close>. A path is cleaned by walking its elements with a
  stack of the elements kept so far.
\<close>

section \<open>Definitions\<close>

abbreviation slash :: char where "slash \<equiv> CHR ''/''"

fun split_slash :: "string \<Rightarrow> string list" where
  "split_slash [] = [[]]"
| "split_slash (c # s) =
     (if c = slash then [] # split_slash s
      else (case split_slash s of [] \<Rightarrow> [[c]] | e # es \<Rightarrow> (c # e) # es))"

text \<open>One element, the last kept one first on the stack: empty and \<open>.\<close> elements are dropped,
  \<open>..\<close> removes the element before it, is kept at the start of a relative path and dropped at
  the root.\<close>

definition clean_elem :: "bool \<Rightarrow> string \<Rightarrow> string list \<Rightarrow> string list" where
  "clean_elem rooted e st =
     (if e = [] \<or> e = ''.'' then st
      else if e = ''..'' then
        (case st of
           [] \<Rightarrow> if rooted then [] else [''..'']
         | x # xs \<Rightarrow> if x = ''..'' then ''..'' # st else xs)
      else e # st)"

definition IsAbs :: "string \<Rightarrow> bool" where
  "IsAbs p \<longleftrightarrow> HasPrefix p [slash]"

definition clean_elems :: "bool \<Rightarrow> string \<Rightarrow> string list" where
  "clean_elems rooted p = rev (fold (clean_elem rooted) (split_slash p) [])"

definition Clean :: "string \<Rightarrow> string" where
  "Clean p =
     (let rooted = IsAbs p; es = clean_elems rooted p
      in if rooted then slash # Join es [slash]
         else if es = [] then ''.'' else Join es [slash])"

definition path_Join :: "string list \<Rightarrow> string" where
  "path_Join elems =
     (let es = filter (\<lambda>e. e \<noteq> []) elems
      in if es = [] then [] else Clean (Join es [slash]))"

definition Dir :: "string \<Rightarrow> string" where
  "Dir p = Clean (case last_index slash p of None \<Rightarrow> [] | Some i \<Rightarrow> take (Suc i) p)"

definition strip_slashes :: "string \<Rightarrow> string" where
  "strip_slashes p = rev (dropWhile (\<lambda>c. c = slash) (rev p))"

definition Base :: "string \<Rightarrow> string" where
  "Base p =
     (if p = [] then ''.''
      else let q = strip_slashes p;
               b = (case last_index slash q of None \<Rightarrow> q | Some i \<Rightarrow> drop (Suc i) q)
           in if b = [] then [slash] else b)"

definition Ext :: "string \<Rightarrow> string" where
  "Ext p =
     (let b = (case last_index slash p of None \<Rightarrow> p | Some i \<Rightarrow> drop (Suc i) p)
      in case last_index (CHR ''.'') b of None \<Rightarrow> [] | Some i \<Rightarrow> drop i b)"

section \<open>Lemmas\<close>

text \<open>A plain element: a name that is neither empty nor a dot element and holds no slash.\<close>

definition plain :: "string \<Rightarrow> bool" where
  "plain e \<longleftrightarrow> e \<noteq> [] \<and> e \<noteq> ''.'' \<and> e \<noteq> ''..'' \<and> slash \<notin> set e"

lemma split_slash_nonempty [simp]: "split_slash s \<noteq> []"
  by (cases s) (auto split: list.split)

lemma split_slash_noslash: "slash \<notin> set s \<Longrightarrow> split_slash s = [s]"
  by (induction s) auto

lemma split_slash_append:
  "slash \<notin> set e \<Longrightarrow> split_slash (e @ slash # s) = e # split_slash s"
  by (induction e) auto

lemma split_slash_slash [simp]: "split_slash (slash # s) = [] # split_slash s"
  by simp

lemma split_slash_parts: "e \<in> set (split_slash s) \<Longrightarrow> slash \<notin> set e"
  by (induction s arbitrary: e) (auto split: if_splits list.splits)

lemma split_slash_Join:
  "es \<noteq> [] \<Longrightarrow> (\<And>e. e \<in> set es \<Longrightarrow> slash \<notin> set e) \<Longrightarrow> split_slash (Join es [slash]) = es"
  by (induction es "[slash]" rule: Join.induct) (auto simp: split_slash_noslash split_slash_append)

lemma split_slash_append2:
  "split_slash (s @ slash # t) = split_slash s @ split_slash t"
  by (induction s) (auto split: list.split)

lemma fold_clean_plain:
  "list_all plain es \<Longrightarrow> fold (clean_elem r) es st = rev es @ st"
  by (induction es arbitrary: st) (auto simp: clean_elem_def plain_def)

text \<open>On a rooted path only plain elements survive.\<close>

lemma clean_elem_rooted_plain:
  "list_all plain st \<Longrightarrow> slash \<notin> set e \<Longrightarrow> list_all plain (clean_elem True e st)"
  by (auto simp: clean_elem_def plain_def split: list.splits)

lemma fold_clean_rooted_plain:
  "list_all plain st \<Longrightarrow> (\<And>e. e \<in> set es \<Longrightarrow> slash \<notin> set e) \<Longrightarrow>
   list_all plain (fold (clean_elem True) es st)"
  by (induction es arbitrary: st) (auto intro: clean_elem_rooted_plain)

lemma clean_elems_rooted_plain: "list_all plain (clean_elems True p)"
  unfolding clean_elems_def list_all_rev
  by (rule fold_clean_rooted_plain) (auto dest: split_slash_parts)

lemma clean_elems_Join:
  assumes "list_all plain es"
  shows "clean_elems r (slash # Join es [slash]) = es" "es \<noteq> [] \<Longrightarrow> clean_elems r (Join es [slash]) = es"
proof -
  have ns: "slash \<notin> set e" if "e \<in> set es" for e
    using assms that by (auto simp: list_all_iff plain_def)
  show "clean_elems r (slash # Join es [slash]) = es"
  proof (cases "es = []")
    case False
    then show ?thesis
      using split_slash_Join [OF False ns] fold_clean_plain [OF assms]
      by (simp add: clean_elems_def) (simp add: clean_elem_def)
  qed (simp add: clean_elems_def clean_elem_def)
  show "es \<noteq> [] \<Longrightarrow> clean_elems r (Join es [slash]) = es"
    using split_slash_Join [OF _ ns] fold_clean_plain [OF assms] by (simp add: clean_elems_def)
qed

lemma IsAbs_slash [simp]: "IsAbs (slash # s)"
  by (simp add: IsAbs_def HasPrefix_def)

lemma Clean_abs: "Clean (slash # p) = slash # Join (clean_elems True (slash # p)) [slash]"
  by (simp add: Clean_def Let_def)

text \<open>Cleaning is idempotent on absolute paths.\<close>

lemma Clean_abs_plain: "list_all plain es \<Longrightarrow> Clean (slash # Join es [slash]) = slash # Join es [slash]"
  by (simp add: Clean_abs clean_elems_Join)

lemma Join_append_elems:
  "xs \<noteq> [] \<Longrightarrow> ys \<noteq> [] \<Longrightarrow> Join (xs @ ys) sep = Join xs sep @ sep @ Join ys sep"
proof (induction xs sep rule: Join.induct)
  case (2 x sep)
  then show ?case by (cases ys) auto
qed auto

lemma Join_nonempty: "list_all plain es \<Longrightarrow> Join es [slash] = [] \<longleftrightarrow> es = []"
  by (induction es "[slash]" rule: Join.induct) (auto simp: plain_def)

lemma Join_inject:
  assumes "list_all plain es" "list_all plain fs"
  shows "Join es [slash] = Join fs [slash] \<longleftrightarrow> es = fs"
proof
  assume eq: "Join es [slash] = Join fs [slash]"
  then have "clean_elems True (slash # Join es [slash]) = clean_elems True (slash # Join fs [slash])" by simp
  then show "es = fs" using assms by (simp add: clean_elems_Join)
qed simp

end
