(* ===== verification/Secrets.thy ===== *)
theory Secrets
  imports Core_Config Go_Path
begin

text \<open>
  Package \<open>internal/secrets\<close>: encryption of secret fields at rest (cipher.go, fields.go,
  hosts.go) and the master key (key.go). AES-GCM and the random source are code outside the
  repository: a \<open>Cipher\<close> record carries the authenticated cipher's operations, and each draw of
  random bytes is an argument. Base64 and hexadecimal are modelled as the standard library defines
  them.
\<close>

section \<open>Byte encodings\<close>

definition byte :: "nat \<Rightarrow> char" where "byte n = char_of n"

abbreviation code :: "char \<Rightarrow> nat" where "code c \<equiv> of_char c"

definition hexdigit :: "nat \<Rightarrow> char" where
  "hexdigit d = (if d < 10 then byte (48 + d) else byte (87 + d))"

definition hexval :: "char \<Rightarrow> nat option" where
  "hexval c =
     (let n = code c in
      if 48 \<le> n \<and> n \<le> 57 then Some (n - 48)
      else if 97 \<le> n \<and> n \<le> 102 then Some (n - 87)
      else if 65 \<le> n \<and> n \<le> 70 then Some (n - 55)
      else None)"

fun hex_encode :: "string \<Rightarrow> string" where
  "hex_encode [] = []"
| "hex_encode (c # s) = hexdigit (code c div 16) # hexdigit (code c mod 16) # hex_encode s"

fun hex_decode :: "string \<Rightarrow> string option" where
  "hex_decode [] = Some []"
| "hex_decode [c] = None"
| "hex_decode (c # d # s) =
     (case (hexval c, hexval d, hex_decode s) of
        (Some h, Some l, Some r) \<Rightarrow> Some (byte (16 * h + l) # r)
      | _ \<Rightarrow> None)"

text \<open>The base64 alphabets differ in the last two digits, \<open>+/\<close> or \<open>-_\<close>.\<close>

definition b64digit :: "bool \<Rightarrow> nat \<Rightarrow> char" where
  "b64digit url d =
     (if d < 26 then byte (65 + d) else if d < 52 then byte (71 + d) else if d < 62 then byte (d - 4)
      else if d = 62 then (if url then CHR ''-'' else CHR ''+'') else (if url then CHR ''_'' else CHR ''/''))"

definition b64val :: "bool \<Rightarrow> char \<Rightarrow> nat option" where
  "b64val url c =
     (let n = code c in
      if 65 \<le> n \<and> n \<le> 90 then Some (n - 65)
      else if 97 \<le> n \<and> n \<le> 122 then Some (n - 71)
      else if 48 \<le> n \<and> n \<le> 57 then Some (n + 4)
      else if c = (if url then CHR ''-'' else CHR ''+'') then Some 62
      else if c = (if url then CHR ''_'' else CHR ''/'') then Some 63
      else None)"

fun b64_encode :: "bool \<Rightarrow> string \<Rightarrow> string" where
  "b64_encode url [] = []"
| "b64_encode url [a] = [b64digit url (code a div 4), b64digit url (code a mod 4 * 16)]"
| "b64_encode url [a, b] =
     [b64digit url (code a div 4), b64digit url (code a mod 4 * 16 + code b div 16),
      b64digit url (code b mod 16 * 4)]"
| "b64_encode url (a # b # c # s) =
     b64digit url (code a div 4) # b64digit url (code a mod 4 * 16 + code b div 16)
     # b64digit url (code b mod 16 * 4 + code c div 64) # b64digit url (code c mod 64)
     # b64_encode url s"

text \<open>Decoding of the digits' values: groups of four, the rest of two or three digits; bits that are
  left over are not checked.\<close>

fun b64_bytes :: "nat list \<Rightarrow> string option" where
  "b64_bytes [] = Some []"
| "b64_bytes [p] = None"
| "b64_bytes [p, q] = Some [byte (p * 4 + q div 16)]"
| "b64_bytes [p, q, r] = Some [byte (p * 4 + q div 16), byte (q mod 16 * 16 + r div 4)]"
| "b64_bytes (p # q # r # t # ds) =
     map_option (\<lambda>s. byte (p * 4 + q div 16) # byte (q mod 16 * 16 + r div 4) # byte (r mod 4 * 64 + t) # s)
       (b64_bytes ds)"

text \<open>\<open>DecodeString\<close> skips line breaks. With padding, the length is a multiple of four and the
  padding completes the last group.\<close>

definition newline :: "char \<Rightarrow> bool" where
  "newline c \<longleftrightarrow> c = CHR 0x0A \<or> c = CHR 0x0D"

definition b64_decode_raw :: "bool \<Rightarrow> string \<Rightarrow> string option" where
  "b64_decode_raw url s =
     (let t = map (b64val url) (filter (\<lambda>c. \<not> newline c) s)
      in if list_all (\<lambda>v. v \<noteq> None) t then b64_bytes (map the t) else None)"

definition b64_decode_padded :: "bool \<Rightarrow> string \<Rightarrow> string option" where
  "b64_decode_padded url s =
     (let t = filter (\<lambda>c. \<not> newline c) s; body = rev (dropWhile (\<lambda>c. c = CHR ''='') (rev t))
      in if length t mod 4 = 0 \<and> length t - length body \<le> 2 then b64_decode_raw url body else None)"

section \<open>The cipher\<close>

record Cipher =
  NonceSize :: nat
  Seal :: "string \<Rightarrow> string \<Rightarrow> string"
  Open :: "string \<Rightarrow> string \<Rightarrow> string option"

text \<open>What the code relies on: opening with the nonce that sealed a text returns the text.\<close>

definition authenticated :: "Cipher \<Rightarrow> bool" where
  "authenticated c \<longleftrightarrow> (\<forall>nonce p. length nonce = NonceSize c \<longrightarrow> Open c nonce (Seal c nonce p) = Some p)"

definition Prefix :: string where
  "Prefix = ''enc:v1:''"

definition IsEncrypted :: "string \<Rightarrow> bool" where
  "IsEncrypted s \<longleftrightarrow> HasPrefix s Prefix"

text \<open>\<open>rnd\<close> is the outcome of \<open>rand.Read\<close> on a buffer of \<open>NonceSize\<close> bytes.\<close>

definition Encrypt :: "Cipher \<Rightarrow> string result \<Rightarrow> string \<Rightarrow> string result" where
  "Encrypt c rnd plaintext =
     (if plaintext = [] then Inr []
      else if IsEncrypted plaintext then Inr plaintext
      else (case rnd of
              Inl e \<Rightarrow> Inl (wrapf ''generate nonce'' e)
            | Inr nonce \<Rightarrow> Inr (Prefix @ b64_encode False (nonce @ Seal c nonce plaintext))))"

definition Decrypt :: "Cipher \<Rightarrow> string \<Rightarrow> string result" where
  "Decrypt c s =
     (if \<not> IsEncrypted s then Inr s
      else (case b64_decode_raw False (TrimPrefix s Prefix) of
              None \<Rightarrow> Inl (errNew ''decode encrypted value: illegal base64 data'')
            | Some raw \<Rightarrow>
                if length raw < NonceSize c then Inl (errNew ''encrypted value is truncated'')
                else (case Open c (take (NonceSize c) raw) (drop (NonceSize c) raw) of
                        None \<Rightarrow> Inl (errNew ''decrypt failed: wrong master key or corrupted value'')
                      | Some plaintext \<Rightarrow> Inr plaintext)))"

text \<open>The loops of \<open>EncryptConfig\<close> and \<open>DecryptConfig\<close> differ in the operation on one value.
  Each value of a field is drawn its own nonce, hence \<open>rnd\<close> is indexed by the field.\<close>

definition config_step :: "string \<Rightarrow> (string \<Rightarrow> string \<Rightarrow> string result) \<Rightarrow> Config \<Rightarrow> string \<Rightarrow> Config result" where
  "config_step verb op out f =
     (case out f of
        Some (VString s) \<Rightarrow>
          if s = [] then Inr out
          else (case op f s of
                  Inl e \<Rightarrow> Inl (wrapf (verb @ '' field '' @ f) e)
                | Inr v \<Rightarrow> Inr (out(f \<mapsto> VString v)))
      | _ \<Rightarrow> Inr out)"

definition EncryptConfig :: "Cipher \<Rightarrow> (string \<Rightarrow> string result) \<Rightarrow> Config \<Rightarrow> string list \<Rightarrow> Config result" where
  "EncryptConfig c rnd cfg secretFields =
     foldE (config_step ''encrypt'' (\<lambda>f. Encrypt c (rnd f))) (Config_Clone cfg) secretFields"

definition DecryptConfig :: "Cipher \<Rightarrow> Config \<Rightarrow> string list \<Rightarrow> Config result" where
  "DecryptConfig c cfg secretFields =
     foldE (config_step ''decrypt'' (\<lambda>_. Decrypt c)) (Config_Clone cfg) secretFields"

definition DecryptConfigLenient :: "Cipher \<Rightarrow> Config \<Rightarrow> string list \<Rightarrow> Config" where
  "DecryptConfigLenient c cfg secretFields =
     (case DecryptConfig c cfg secretFields of Inl _ \<Rightarrow> Config_Clone cfg | Inr out \<Rightarrow> out)"

text \<open>Hosts: the three secret fields in order; the error names the first that fails.\<close>

definition host_field :: "string \<Rightarrow> string \<Rightarrow> (string \<Rightarrow> string result) \<Rightarrow> string \<Rightarrow> string result" where
  "host_field verb name op v =
     (if v = [] then Inr v
      else (case op v of Inl e \<Rightarrow> Inl (wrapf (verb @ '' host field '' @ name) e) | Inr w \<Rightarrow> Inr w))"

definition host_fields :: "string \<Rightarrow> (string \<Rightarrow> string \<Rightarrow> string result) \<Rightarrow> Host \<Rightarrow> Host result" where
  "host_fields verb op h =
     (case host_field verb ''privateKey'' (op ''privateKey'') (host_PrivateKey h) of
        Inl e \<Rightarrow> Inl e
      | Inr k \<Rightarrow>
     (case host_field verb ''keyPassphrase'' (op ''keyPassphrase'') (host_KeyPassphrase h) of
        Inl e \<Rightarrow> Inl e
      | Inr p \<Rightarrow>
     (case host_field verb ''password'' (op ''password'') (host_Password h) of
        Inl e \<Rightarrow> Inl e
      | Inr w \<Rightarrow> Inr (h\<lparr>host_PrivateKey := k, host_KeyPassphrase := p, host_Password := w\<rparr>))))"

definition EncryptHost :: "Cipher \<Rightarrow> (string \<Rightarrow> string result) \<Rightarrow> Host \<Rightarrow> Host result" where
  "EncryptHost c rnd h = host_fields ''encrypt'' (\<lambda>name. Encrypt c (rnd name)) h"

definition DecryptHost :: "Cipher \<Rightarrow> Host \<Rightarrow> Host result" where
  "DecryptHost c h = host_fields ''decrypt'' (\<lambda>_. Decrypt c) h"

definition DecryptHostLenient :: "Cipher \<Rightarrow> Host \<Rightarrow> Host" where
  "DecryptHostLenient c h = (case DecryptHost c h of Inl _ \<Rightarrow> h | Inr out \<Rightarrow> out)"

section \<open>The master key\<close>

definition KeySize :: nat where "KeySize = 32"

definition key_ok :: "string option \<Rightarrow> bool" where
  "key_ok r \<longleftrightarrow> (case r of None \<Rightarrow> False | Some raw \<Rightarrow> length raw = KeySize)"

definition ParseKey :: "string \<Rightarrow> string result" where
  "ParseKey s =
     (let v = TrimSpace s in
      if v = [] then Inl (errNew ''master key is empty'')
      else case find key_ok [hex_decode v, b64_decode_padded False v, b64_decode_raw False v,
                             b64_decode_padded True v, b64_decode_raw True v]
           of Some (Some raw) \<Rightarrow> Inr raw
            | _ \<Rightarrow> Inl (errNew (''master key must be '' @ digits_of KeySize @ '' bytes encoded as hex or base64'')))"

definition New :: "string \<Rightarrow> Cipher \<Rightarrow> Cipher result" where
  "New key aead =
     (if length key \<noteq> KeySize
      then Inl (errNew (''master key must be '' @ digits_of KeySize @ '' bytes, got '' @ digits_of (length key)))
      else Inr aead)"

text \<open>The file system under the key file: contents by path, and the error each call returns, if any.\<close>

datatype keyop = OpRead string | OpMkdirAll string | OpWrite string | OpRename string string | OpChmod string

type_synonym files = "string \<rightharpoonup> string"

definition GenerateKey :: "string result \<Rightarrow> string result" where
  "GenerateKey rnd = (case rnd of Inl e \<Rightarrow> Inl (wrapf ''generate master key'' e) | Inr key \<Rightarrow> Inr key)"

definition read_file :: "(keyop \<Rightarrow> error option) \<Rightarrow> string \<Rightarrow> files \<Rightarrow> string result" where
  "read_file flt path fs =
     (case flt (OpRead path) of
        Some e \<Rightarrow> Inl e
      | None \<Rightarrow> (case fs path of
                   None \<Rightarrow> Inl (GoErr (Some ErrNotExist) (''open '' @ path @ '': no such file or directory''))
                 | Some data \<Rightarrow> Inr data))"

definition writeKeyFile :: "(keyop \<Rightarrow> error option) \<Rightarrow> string \<Rightarrow> string \<Rightarrow> files \<Rightarrow> error option \<times> files" where
  "writeKeyFile flt path key fs =
     (let tmp = path @ ''.tmp'' in
      case flt (OpMkdirAll (Dir path)) of
        Some e \<Rightarrow> (Some (wrapf (''create master key directory '' @ Dir path) e), fs)
      | None \<Rightarrow>
     (case flt (OpWrite tmp) of
        Some e \<Rightarrow> (Some (wrapf (''write master key file '' @ path) e), fs)
      | None \<Rightarrow>
     (let fs1 = fs(tmp \<mapsto> hex_encode key @ [CHR 0x0A]) in
      case flt (OpRename tmp path) of
        Some e \<Rightarrow> (Some (wrapf (''install master key file '' @ path) e), fs1(tmp := None))
      | None \<Rightarrow> (flt (OpChmod path), (fs1(tmp := None))(path := fs1 tmp)))))"

definition LoadKey ::
  "(keyop \<Rightarrow> error option) \<Rightarrow> string result \<Rightarrow> string \<Rightarrow> string \<Rightarrow> files \<Rightarrow> string result \<times> files" where
  "LoadKey flt rnd envValue path fs =
     (if TrimSpace envValue \<noteq> []
      then (case ParseKey envValue of
              Inl e \<Rightarrow> (Inl (wrapf ''master key from environment'' e), fs)
            | Inr key \<Rightarrow> (Inr key, fs))
      else case read_file flt path fs of
             Inr data \<Rightarrow>
               (case ParseKey data of
                  Inl e \<Rightarrow> (Inl (wrapf (''master key file '' @ path) e), fs)
                | Inr key \<Rightarrow> (Inr key, fs))
           | Inl err \<Rightarrow>
               if errIs err ErrNotExist
               then (case GenerateKey rnd of
                       Inl e \<Rightarrow> (Inl e, fs)
                     | Inr key \<Rightarrow>
                         (case writeKeyFile flt path key fs of
                            (Some e, fs') \<Rightarrow> (Inl e, fs')
                          | (None, fs') \<Rightarrow> (Inr key, fs')))
               else (Inl (wrapf (''read master key file '' @ path) err), fs))"

section \<open>Round trips of the encodings\<close>

lemma code_byte [simp]: "n < 256 \<Longrightarrow> code (byte n) = n"
  by (simp add: byte_def)

lemma byte_code [simp]: "byte (code c) = c"
  by (simp add: byte_def)

lemma code_less: "code c < 256"
  by (metis mod_less_divisor of_char_mod_256 zero_less_numeral)

lemma code_div: "code c div 16 < 16" "code c div 4 < 64" "code c div 64 < 4"
  using code_less [of c] by linarith+

lemma hexval_hexdigit [simp]: "d < 16 \<Longrightarrow> hexval (hexdigit d) = Some d"
  by (auto simp: hexval_def hexdigit_def)

lemma hex_roundtrip: "hex_decode (hex_encode s) = Some s"
proof (induction s)
  case (Cons c s)
  with code_div [of c] show ?case by simp
qed simp

lemma length_hex_encode [simp]: "length (hex_encode s) = 2 * length s"
  by (induction s) auto

lemma printable_hexdigit: "d < 16 \<Longrightarrow> printable (hexdigit d)"
  by (auto simp: printable_def hexdigit_def)

lemma printable_hex_encode: "x \<in> set (hex_encode s) \<Longrightarrow> printable x"
proof (induction s)
  case (Cons c s)
  with code_div [of c] show ?case by (auto simp: printable_hexdigit)
qed simp

lemma b64val_b64digit [simp]: "d < 64 \<Longrightarrow> b64val url (b64digit url d) = Some d"
  by (auto simp: b64val_def b64digit_def Let_def)

lemma b64val_newline: "newline c \<Longrightarrow> b64val url c = None"
  by (auto simp: newline_def b64val_def)

lemma newline_b64digit [simp]: "d < 64 \<Longrightarrow> \<not> newline (b64digit url d)"
  by (metis b64val_newline b64val_b64digit option.distinct(1))

text \<open>The digits of an encoded text, and that decoding inverts encoding.\<close>

fun b64_digits :: "string \<Rightarrow> nat list" where
  "b64_digits [] = []"
| "b64_digits [a] = [code a div 4, code a mod 4 * 16]"
| "b64_digits [a, b] = [code a div 4, code a mod 4 * 16 + code b div 16, code b mod 16 * 4]"
| "b64_digits (a # b # c # s) =
     code a div 4 # (code a mod 4 * 16 + code b div 16) # (code b mod 16 * 4 + code c div 64)
     # (code c mod 64) # b64_digits s"

lemma b64_encode_digits: "b64_encode url s = map (b64digit url) (b64_digits s)"
  by (induction url s rule: b64_encode.induct) auto

lemma b64_digit_bounds:
  "code a mod 4 * 16 < 64" "code a mod 4 * 16 + code b div 16 < 64" "code b mod 16 * 4 < 64"
  "code b mod 16 * 4 + code c div 64 < 64" "code c mod 64 < 64"
proof -
  have "code a mod 4 < 4" "code b mod 16 < 16" by simp_all
  with code_div [of b] code_div [of c] show
    "code a mod 4 * 16 < 64" "code a mod 4 * 16 + code b div 16 < 64" "code b mod 16 * 4 < 64"
    "code b mod 16 * 4 + code c div 64 < 64" by linarith+
qed simp

lemma b64_digits_range: "d \<in> set (b64_digits s) \<Longrightarrow> d < 64"
  by (induction s rule: b64_digits.induct) (auto simp: b64_digit_bounds code_div)

lemma byte_parts:
  "code a div 4 * 4 + code a mod 4 * 16 div 16 = code a"
  "code a div 4 * 4 + (code a mod 4 * 16 + code b div 16) div 16 = code a"
  "(code a mod 4 * 16 + code b div 16) mod 16 * 16 + code b mod 16 * 4 div 4 = code b"
  "(code a mod 4 * 16 + code b div 16) mod 16 * 16 + (code b mod 16 * 4 + code c div 64) div 4 = code b"
  "(code b mod 16 * 4 + code c div 64) mod 4 * 64 + code c mod 64 = code c"
  using code_div [of b] code_div [of c] by simp_all

lemma b64_bytes_digits: "b64_bytes (b64_digits s) = Some s"
  by (induction s rule: b64_digits.induct)
    (simp_all only: b64_digits.simps b64_bytes.simps byte_parts byte_code option.map)

lemma b64_roundtrip: "b64_decode_raw url (b64_encode url s) = Some s"
proof -
  have "filter (\<lambda>c. \<not> newline c) (b64_encode url s) = b64_encode url s"
    by (simp add: b64_encode_digits filter_id_conv b64_digits_range)
  moreover have "map (b64val url) (b64_encode url s) = map Some (b64_digits s)"
    by (simp add: b64_encode_digits b64_digits_range)
  ultimately show ?thesis
    by (simp add: b64_decode_raw_def list_all_iff b64_bytes_digits)
qed

section \<open>Round trips of the cipher\<close>

text \<open>A draw of random bytes that succeeds fills the buffer.\<close>

definition draws :: "Cipher \<Rightarrow> string result \<Rightarrow> bool" where
  "draws c rnd \<longleftrightarrow> (case rnd of Inl _ \<Rightarrow> False | Inr nonce \<Rightarrow> length nonce = NonceSize c)"

definition encrypted :: "Cipher \<Rightarrow> string result \<Rightarrow> string \<Rightarrow> string" where
  "encrypted c rnd s = (case Encrypt c rnd s of Inl _ \<Rightarrow> s | Inr e \<Rightarrow> e)"

lemma Encrypt_encrypted: "draws c rnd \<Longrightarrow> Encrypt c rnd s = Inr (encrypted c rnd s)"
  by (auto simp: encrypted_def Encrypt_def draws_def split: sum.splits)

lemma encrypted_cases:
  "draws c rnd \<Longrightarrow> s \<noteq> [] \<Longrightarrow> IsEncrypted (encrypted c rnd s)"
  by (auto simp: encrypted_def Encrypt_def draws_def IsEncrypted_def split: sum.splits)

lemma encrypted_idem: "draws c rnd \<Longrightarrow> encrypted c rnd (encrypted c rnd s) = encrypted c rnd s"
  using encrypted_cases [of c rnd s] by (cases "s = []") (auto simp: encrypted_def Encrypt_def)

lemma Decrypt_plain: "\<not> IsEncrypted s \<Longrightarrow> Decrypt c s = Inr s"
  by (simp add: Decrypt_def)

lemma Decrypt_encrypted:
  assumes "authenticated c" and "draws c rnd" and "\<not> IsEncrypted s"
  shows "Decrypt c (encrypted c rnd s) = Inr s"
proof (cases "s = []")
  case True
  with assms(3) show ?thesis by (simp add: encrypted_def Encrypt_def Decrypt_plain)
next
  case False
  obtain nonce where n: "rnd = Inr nonce" "length nonce = NonceSize c"
    using assms(2) by (auto simp: draws_def split: sum.splits)
  then have enc: "encrypted c rnd s = Prefix @ b64_encode False (nonce @ Seal c nonce s)"
    using False assms(3) by (simp add: encrypted_def Encrypt_def)
  have "Open c nonce (Seal c nonce s) = Some s"
    using assms(1) n(2) by (simp add: authenticated_def)
  with n(2) show ?thesis
    unfolding enc by (simp add: Decrypt_def IsEncrypted_def b64_roundtrip)
qed

text \<open>The loop over the secret fields, for an operation that succeeds on the values present and is
  idempotent: a field may be listed twice.\<close>

definition on_secrets :: "(string \<Rightarrow> string \<Rightarrow> string) \<Rightarrow> string set \<Rightarrow> Config \<Rightarrow> Config" where
  "on_secrets g F cfg f =
     (case cfg f of
        Some (VString s) \<Rightarrow> if f \<in> F \<and> s \<noteq> [] then Some (VString (g f s)) else cfg f
      | v \<Rightarrow> v)"

lemma config_loop:
  assumes "\<And>f s. f \<in> set fs \<Longrightarrow> cfg f = Some (VString s) \<Longrightarrow> s \<noteq> [] \<Longrightarrow>
     op f s = Inr (g f s) \<and> op f (g f s) = Inr (g f s) \<and> g f (g f s) = g f s"
  shows "foldE (config_step verb op) cfg fs = Inr (on_secrets g (set fs) cfg)"
  using assms
proof (induction fs arbitrary: cfg)
  case Nil
  have "on_secrets g {} cfg = cfg"
    by (rule ext) (simp add: on_secrets_def split: option.split cfgval.split)
  then show ?case by simp
next
  case (Cons f fs)
  have step: "config_step verb op cfg f = Inr (on_secrets g {f} cfg)"
  proof (cases "\<exists>s. cfg f = Some (VString s) \<and> s \<noteq> []")
    case True
    with Cons.prems [of f] show ?thesis
      by (auto simp: config_step_def on_secrets_def split: option.splits cfgval.splits)
  next
    case False
    then show ?thesis
      by (auto simp: config_step_def on_secrets_def split: option.splits cfgval.splits)
  qed
  have prems: "op f' s = Inr (g f' s) \<and> op f' (g f' s) = Inr (g f' s) \<and> g f' (g f' s) = g f' s"
    if f': "f' \<in> set fs" "on_secrets g {f} cfg f' = Some (VString s)" "s \<noteq> []" for f' s
  proof (cases "cfg f' = Some (VString s)")
    case True
    with Cons.prems [of f' s] f' show ?thesis by simp
  next
    case False
    with f'(2) obtain t where "cfg f' = Some (VString t)" "t \<noteq> []" "s = g f' t"
      by (auto simp: on_secrets_def split: option.splits cfgval.splits if_splits)
    with Cons.prems [of f' t] f' show ?thesis by simp
  qed
  have "on_secrets g (set fs) (on_secrets g {f} cfg) = on_secrets g (set (f # fs)) cfg"
  proof
    fix k
    show "on_secrets g (set fs) (on_secrets g {f} cfg) k = on_secrets g (set (f # fs)) cfg k"
      using Cons.prems [of k]
      by (auto simp: on_secrets_def [of g "set fs"] on_secrets_def [of g "insert f (set fs)"]
          on_secrets_def [of g "{f}"] split: option.splits cfgval.splits if_splits)
  qed
  with step Cons.IH [of "on_secrets g {f} cfg", OF prems] show ?case by simp
qed

text \<open>No secret of the configuration already looks like a stored one.\<close>

definition clear_secrets :: "Config \<Rightarrow> string list \<Rightarrow> bool" where
  "clear_secrets cfg fs \<longleftrightarrow> (\<forall>f\<in>set fs. \<forall>s. cfg f = Some (VString s) \<longrightarrow> \<not> IsEncrypted s)"

lemma EncryptConfig_eq:
  assumes "\<And>f. draws c (rnd f)"
  shows "EncryptConfig c rnd cfg fs = Inr (on_secrets (\<lambda>f. encrypted c (rnd f)) (set fs) cfg)"
  unfolding EncryptConfig_def Config_Clone_def
  by (rule config_loop) (simp add: Encrypt_encrypted assms encrypted_idem)

lemma DecryptConfig_encrypted:
  assumes "authenticated c" and "\<And>f. draws c (rnd f)" and "clear_secrets cfg fs"
  shows "DecryptConfig c (on_secrets (\<lambda>f. encrypted c (rnd f)) (set fs) cfg) fs = Inr cfg"
proof -
  let ?out = "on_secrets (\<lambda>f. encrypted c (rnd f)) (set fs) cfg"
  define g where "g = (\<lambda>(f :: string) s. case Decrypt c s of Inl _ \<Rightarrow> s | Inr p \<Rightarrow> p)"
  have enc: "\<exists>t. cfg f = Some (VString t) \<and> t \<noteq> [] \<and> s = encrypted c (rnd f) t \<and> \<not> IsEncrypted t"
    if "f \<in> set fs" "?out f = Some (VString s)" "s \<noteq> []" for f s
    using that assms(3)
    by (auto simp: on_secrets_def clear_secrets_def split: option.splits cfgval.splits if_splits)
  have dec: "Decrypt c (encrypted c (rnd f) t) = Inr t" if "\<not> IsEncrypted t" for f t
    using Decrypt_encrypted [OF assms(1,2) that] .
  have "DecryptConfig c ?out fs = Inr (on_secrets g (set fs) ?out)"
    unfolding DecryptConfig_def Config_Clone_def
  proof (rule config_loop)
    fix f s
    assume "f \<in> set fs" "?out f = Some (VString s)" "s \<noteq> []"
    from enc [OF this] dec show "Decrypt c s = Inr (g f s) \<and> Decrypt c (g f s) = Inr (g f s) \<and> g f (g f s) = g f s"
      by (auto simp: g_def Decrypt_plain)
  qed
  moreover have "on_secrets g (set fs) ?out = cfg"
  proof
    fix f
    have "encrypted c (rnd f) t \<noteq> []" if "t \<noteq> []" for t
      using encrypted_cases [OF assms(2) that, of f] by (auto simp: IsEncrypted_def HasPrefix_def Prefix_def)
    moreover have "g f (encrypted c (rnd f) t) = t" if "\<not> IsEncrypted t" for t
      using dec [OF that] by (simp add: g_def)
    ultimately show "on_secrets g (set fs) ?out f = cfg f"
      using assms(3)
      by (auto simp: on_secrets_def clear_secrets_def split: option.splits cfgval.splits if_splits)
  qed
  ultimately show ?thesis by simp
qed

lemma host_fields_ok:
  assumes "op ''privateKey'' (host_PrivateKey h) = Inr k" "op ''keyPassphrase'' (host_KeyPassphrase h) = Inr p"
    "op ''password'' (host_Password h) = Inr w"
    "host_PrivateKey h = [] \<Longrightarrow> k = []" "host_KeyPassphrase h = [] \<Longrightarrow> p = []"
    "host_Password h = [] \<Longrightarrow> w = []"
  shows "host_fields verb op h
     = Inr (h\<lparr>host_PrivateKey := k, host_KeyPassphrase := p, host_Password := w\<rparr>)"
  using assms by (simp add: host_fields_def host_field_def)

definition encrypted_host :: "Cipher \<Rightarrow> (string \<Rightarrow> string result) \<Rightarrow> Host \<Rightarrow> Host" where
  "encrypted_host c rnd h =
     h\<lparr>host_PrivateKey := encrypted c (rnd ''privateKey'') (host_PrivateKey h),
       host_KeyPassphrase := encrypted c (rnd ''keyPassphrase'') (host_KeyPassphrase h),
       host_Password := encrypted c (rnd ''password'') (host_Password h)\<rparr>"

lemma encrypted_empty [simp]: "encrypted c rnd [] = []"
  by (simp add: encrypted_def Encrypt_def)

lemma encrypted_nonempty: "draws c rnd \<Longrightarrow> encrypted c rnd s = [] \<longleftrightarrow> s = []"
  using encrypted_cases [of c rnd s]
  by (cases "s = []") (auto simp: IsEncrypted_def HasPrefix_def Prefix_def)

lemma EncryptHost_eq: "(\<And>f. draws c (rnd f)) \<Longrightarrow> EncryptHost c rnd h = Inr (encrypted_host c rnd h)"
  unfolding EncryptHost_def encrypted_host_def
  by (rule host_fields_ok) (simp_all add: Encrypt_encrypted)

lemma DecryptHost_encrypted:
  assumes "authenticated c" and "\<And>f. draws c (rnd f)"
    and "\<not> IsEncrypted (host_PrivateKey h)" "\<not> IsEncrypted (host_KeyPassphrase h)" "\<not> IsEncrypted (host_Password h)"
  shows "DecryptHost c (encrypted_host c rnd h) = Inr h"
proof -
  have "DecryptHost c (encrypted_host c rnd h) = Inr ((encrypted_host c rnd h)\<lparr>host_PrivateKey := host_PrivateKey h,
      host_KeyPassphrase := host_KeyPassphrase h, host_Password := host_Password h\<rparr>)"
    unfolding DecryptHost_def
    by (rule host_fields_ok)
      (simp_all add: encrypted_host_def Decrypt_encrypted assms encrypted_nonempty)
  then show ?thesis by (simp add: encrypted_host_def)
qed

section \<open>The key file\<close>

lemma ParseKey_hex:
  assumes "length key = KeySize"
  shows "ParseKey (hex_encode key @ [CHR 0x0A]) = Inr key"
proof -
  have ne: "hex_encode key \<noteq> []" using assms by (cases key) (auto simp: KeySize_def)
  have "TrimSpace (hex_encode key @ [CHR 0x0A]) = hex_encode key"
    using ne by (intro TrimSpace_printable printable_hex_encode [of _ key]) simp_all
  then show ?thesis
    using ne assms by (simp add: ParseKey_def hex_roundtrip key_ok_def)
qed

section \<open>Properties\<close>

text \<open>C30 (roundtrip): secret texts at rest. With a working cipher and random source, encrypting a configuration
  succeeds. A non-empty text in a secret field is stored as the marker and the base64 of its nonce and its sealed
  form; everything else is stored as it came, also a secret field that is no text and a secret text that already
  carries the marker. When no secret text carried the marker, decrypting gives the configuration back.\<close>

theorem EncryptConfig_roundtrip:
  assumes "authenticated c" and "\<forall>f. draws c (rnd f)"
  shows "\<exists>out. EncryptConfig c rnd cfg fs = Inr out
    \<and> (\<forall>f s nonce. f \<in> set fs \<and> cfg f = Some (VString s) \<and> s \<noteq> [] \<and> \<not> HasPrefix s ''enc:v1:'' \<and> rnd f = Inr nonce \<longrightarrow>
          out f = Some (VString (''enc:v1:'' @ b64_encode False (nonce @ Seal c nonce s))))
    \<and> (\<forall>f. f \<notin> set fs \<or> \<not> (\<exists>s. cfg f = Some (VString s) \<and> s \<noteq> [] \<and> \<not> HasPrefix s ''enc:v1:'') \<longrightarrow> out f = cfg f)
    \<and> (clear_secrets cfg fs \<longrightarrow> DecryptConfig c out fs = Inr cfg)"
proof (intro exI conjI impI)
  let ?out = "on_secrets (\<lambda>f. encrypted c (rnd f)) (set fs) cfg"
  show "EncryptConfig c rnd cfg fs = Inr ?out" by (rule EncryptConfig_eq) (use assms(2) in blast)
  show "\<forall>f s nonce. f \<in> set fs \<and> cfg f = Some (VString s) \<and> s \<noteq> [] \<and> \<not> HasPrefix s ''enc:v1:'' \<and> rnd f = Inr nonce \<longrightarrow>
      ?out f = Some (VString (''enc:v1:'' @ b64_encode False (nonce @ Seal c nonce s)))"
    by (auto simp: on_secrets_def encrypted_def Encrypt_def IsEncrypted_def Prefix_def)
  show "\<forall>f. f \<notin> set fs \<or> \<not> (\<exists>s. cfg f = Some (VString s) \<and> s \<noteq> [] \<and> \<not> HasPrefix s ''enc:v1:'') \<longrightarrow> ?out f = cfg f"
    by (auto simp: on_secrets_def encrypted_def Encrypt_def IsEncrypted_def Prefix_def split: option.split cfgval.split)
  show "DecryptConfig c ?out fs = Inr cfg" if "clear_secrets cfg fs"
    by (rule DecryptConfig_encrypted) (use assms that in blast)+
qed

definition demo_cipher :: Cipher where
  "demo_cipher = \<lparr>NonceSize = 2, Seal = (\<lambda>n p. rev p @ n), Open = (\<lambda>n s. Some (rev (take (length s - length n) s)))\<rparr>"

theorem EncryptConfig_roundtrip_witness:
  "\<exists>out. EncryptConfig demo_cipher (\<lambda>_. Inr ''ab'') [''password'' \<mapsto> VString ''hunter2''] [''password''] = Inr out
     \<and> DecryptConfig demo_cipher out [''password''] = Inr [''password'' \<mapsto> VString ''hunter2'']"
  using EncryptConfig_roundtrip [of demo_cipher "\<lambda>_. Inr ''ab''" "[''password'' \<mapsto> VString ''hunter2'']" "[''password'']"]
  by (auto simp: authenticated_def demo_cipher_def draws_def clear_secrets_def IsEncrypted_def HasPrefix_def Prefix_def)

text \<open>The same for the private key, its passphrase and the password of a host.\<close>

theorem EncryptHost_roundtrip:
  assumes "authenticated c" and "\<forall>f. draws c (rnd f)"
    and "\<not> IsEncrypted (host_PrivateKey h)" "\<not> IsEncrypted (host_KeyPassphrase h)" "\<not> IsEncrypted (host_Password h)"
  shows "\<exists>out. EncryptHost c rnd h = Inr out
    \<and> (host_PrivateKey h \<noteq> [] \<longrightarrow> IsEncrypted (host_PrivateKey out))
    \<and> (host_KeyPassphrase h \<noteq> [] \<longrightarrow> IsEncrypted (host_KeyPassphrase out))
    \<and> (host_Password h \<noteq> [] \<longrightarrow> IsEncrypted (host_Password out))
    \<and> DecryptHost c out = Inr h"
proof (intro exI conjI)
  show "EncryptHost c rnd h = Inr (encrypted_host c rnd h)" by (rule EncryptHost_eq) (use assms(2) in blast)
  show "DecryptHost c (encrypted_host c rnd h) = Inr h"
    by (rule DecryptHost_encrypted) (use assms in blast)+
qed (use assms(2) in \<open>simp_all add: encrypted_host_def encrypted_cases\<close>)

theorem EncryptHost_roundtrip_witness:
  "\<exists>out. EncryptHost demo_cipher (\<lambda>_. Inr ''ab'') (zero_host\<lparr>host_Password := ''pw''\<rparr>) = Inr out
     \<and> IsEncrypted (host_Password out)
     \<and> DecryptHost demo_cipher out = Inr (zero_host\<lparr>host_Password := ''pw''\<rparr>)"
  using EncryptHost_roundtrip [of demo_cipher "\<lambda>_. Inr ''ab''" "zero_host\<lparr>host_Password := ''pw''\<rparr>"]
  by (auto simp: authenticated_def demo_cipher_def draws_def IsEncrypted_def HasPrefix_def Prefix_def zero_host_def)

text \<open>The master key is stable. Where the file system works, the first start without
  a key in the environment and without a key file generates a key and stores it, and every later
  start loads that same key, whatever the random source says then.\<close>

theorem LoadKey_stable:
  assumes "TrimSpace envValue = []" and "fs path = None" and "length key = KeySize"
  shows "\<exists>fs'. LoadKey (\<lambda>_. None) (Inr key) envValue path fs = (Inr key, fs')
    \<and> (\<forall>rnd. LoadKey (\<lambda>_. None) rnd envValue path fs' = (Inr key, fs'))"
proof -
  define fs' where "fs' = (fs(path @ ''.tmp'' := None))(path \<mapsto> hex_encode key @ [CHR 0x0A])"
  have "LoadKey (\<lambda>_. None) (Inr key) envValue path fs = (Inr key, fs')"
    using assms by (simp add: LoadKey_def read_file_def errIs_def GenerateKey_def writeKeyFile_def fs'_def Let_def)
  moreover have "LoadKey (\<lambda>_. None) rnd envValue path fs' = (Inr key, fs')" for rnd
    using assms ParseKey_hex [OF assms(3)] by (simp add: LoadKey_def read_file_def fs'_def)
  ultimately show ?thesis by blast
qed

theorem LoadKey_stable_witness:
  "\<exists>fs'. LoadKey (\<lambda>_. None) (Inr (replicate 32 (CHR ''k''))) [] ''/data/master.key'' Map.empty
      = (Inr (replicate 32 (CHR ''k'')), fs')"
proof -
  have "TrimSpace [] = []" by code_simp
  from LoadKey_stable [OF this, of Map.empty "''/data/master.key''" "replicate 32 (CHR ''k'')"]
  show ?thesis by (auto simp: KeySize_def)
qed

text \<open>A secret typed by a user that starts with the marker is taken for an encrypted one: it is stored
  in clear text and can no longer be read back.\<close>

lemma Encrypt_marker_in_clear:
  "Encrypt c rnd ''enc:v1:hunter2'' = Inr ''enc:v1:hunter2''
   \<and> (NonceSize c = 12 \<longrightarrow> Decrypt c ''enc:v1:hunter2'' = Inl (errNew ''encrypted value is truncated''))"
proof -
  have "b64_decode_raw False ''hunter2'' = Some (map byte [134, 233, 237, 122, 189])" by code_simp
  then show ?thesis
    by (simp add: Encrypt_def Decrypt_def IsEncrypted_def HasPrefix_def Prefix_def TrimPrefix_def)
qed

end
