(* ===== verification/Pack.thy ===== *)
theory Pack
  imports Core_Types Go_Time Go_Path Secrets
begin

text \<open>
  The packing chain of package \<open>internal/engine\<close> (pack.go, spool.go and the naming part of
  download.go): compression, then encryption, into a spool file whose size and checksum are
  recorded; the reader that undoes it; and the file names that carry the format.

  Gzip, zstd and age are code outside the repository: the record \<open>codecs\<close> carries their
  operations. A stream is the bytes a reader delivers and the error that ends it, if any.
\<close>

section \<open>Streams and codecs\<close>

type_synonym stream = "string \<times> error option"

datatype zlevel = SpeedFastest | SpeedDefault | SpeedBetterCompression | SpeedBestCompression

record codecs =
  age_recipient :: "string \<Rightarrow> error option"
  age_start :: "string \<Rightarrow> error option"
  age_seal :: "string \<Rightarrow> string \<Rightarrow> string"
  age_identity :: "string \<Rightarrow> error option"
  age_open :: "string \<Rightarrow> stream \<Rightarrow> stream result"
  gzip_seal :: "int \<Rightarrow> string \<Rightarrow> string"
  gzip_open :: "stream \<Rightarrow> stream result"
  zstd_new :: "zlevel option \<Rightarrow> error option"
  zstd_seal :: "zlevel option \<Rightarrow> string \<Rightarrow> string"
  zstd_open :: "stream \<Rightarrow> stream result"
  sha256 :: "string \<Rightarrow> string"

text \<open>The documented behaviour the code relies on: what was sealed opens to the same bytes.\<close>

definition codecs_ok :: "codecs \<Rightarrow> string \<Rightarrow> bool" where
  "codecs_ok c pass \<longleftrightarrow>
     age_recipient c pass = None \<and> age_start c pass = None \<and> age_identity c pass = None
     \<and> (\<forall>l. zstd_new c l = None)
     \<and> (\<forall>s. age_open c pass (age_seal c pass s, None) = Inr (s, None))
     \<and> (\<forall>l s. gzip_open c (gzip_seal c l s, None) = Inr (s, None))
     \<and> (\<forall>l s. zstd_open c (zstd_seal c l s, None) = Inr (s, None))"

section \<open>Options\<close>

record PackOptions =
  po_Compression :: Compression
  po_Level :: int
  po_Encryption :: Encryption
  po_Passphrase :: string

definition suffix_of :: "PackOptions \<Rightarrow> string" where
  "suffix_of o' =
     (case po_Compression o' of CompressionGzip \<Rightarrow> ''.gz'' | CompressionZstd \<Rightarrow> ''.zst'' | _ \<Rightarrow> [])
     @ (if po_Encryption o' = EncryptionAge then ''.age'' else [])"

definition passthrough :: "PackOptions \<Rightarrow> bool" where
  "passthrough o' \<longleftrightarrow>
     (po_Compression o' = CompressionEmpty \<or> po_Compression o' = CompressionNone)
     \<and> (po_Encryption o' = EncryptionEmpty \<or> po_Encryption o' = EncryptionNone)"

definition zstdLevel :: "int \<Rightarrow> zlevel \<times> bool" where
  "zstdLevel level =
     (if level \<le> 0 then (SpeedDefault, False)
      else if level = 1 then (SpeedFastest, True)
      else if level \<le> 4 then (SpeedDefault, True)
      else if level \<le> 9 then (SpeedBetterCompression, True)
      else (SpeedBestCompression, True))"

text \<open>\<open>gzip.NewWriterLevel\<close> accepts -2 to 9; \<open>DefaultCompression\<close> is -1.\<close>

definition gzip_level :: "int \<Rightarrow> int" where
  "gzip_level level = (let l = (if level \<le> 0 then - 1 else level) in if l > 9 then 9 else l)"

definition gzip_NewWriterLevel :: "int \<Rightarrow> error option" where
  "gzip_NewWriterLevel level =
     (if level < - 2 \<or> 9 < level then Some (errNew (''gzip: invalid compression level: '' @ Itoa level)) else None)"

section \<open>The writer chain\<close>

text \<open>
  A layer buffers what is written to it and writes its encoding to the layer below when it is
  closed; what is below the first layer is the sink. The list of closers of \<open>multiCloser\<close> is the
  list of layers, the one opened first at the head.
\<close>

datatype layer = LAge string | LGzip int | LZstd "zlevel option"

fun seal :: "codecs \<Rightarrow> layer \<Rightarrow> string \<Rightarrow> string" where
  "seal c (LAge pass) s = age_seal c pass s"
| "seal c (LGzip l) s = gzip_seal c l s"
| "seal c (LZstd l) s = zstd_seal c l s"

record wlayer =
  wl_codec :: layer
  wl_buf :: string
  wl_closed :: bool

record chain =
  ch_layers :: "wlayer list"
  ch_sink :: string

text \<open>Write to level \<open>i\<close>: 0 is the sink, \<open>i\<close> above it the layer number \<open>i - 1\<close>.\<close>

definition write_at :: "nat \<Rightarrow> string \<Rightarrow> chain \<Rightarrow> error option \<times> chain" where
  "write_at i s ch =
     (if i = 0 then (None, ch\<lparr>ch_sink := ch_sink ch @ s\<rparr>)
      else let l = ch_layers ch ! (i - 1) in
           if wl_closed l then (Some (errNew ''write to closed writer''), ch)
           else (None, ch\<lparr>ch_layers := (ch_layers ch)[i - 1 := l\<lparr>wl_buf := wl_buf l @ s\<rparr>]\<rparr>))"

definition close_at :: "codecs \<Rightarrow> nat \<Rightarrow> chain \<Rightarrow> error option \<times> chain" where
  "close_at c i ch =
     (let l = ch_layers ch ! i in
      if wl_closed l then (None, ch)
      else write_at i (seal c (wl_codec l) (wl_buf l))
             (ch\<lparr>ch_layers := (ch_layers ch)[i := l\<lparr>wl_closed := True\<rparr>]\<rparr>))"

text \<open>\<open>multiCloser.Close\<close>: from the last closer to the first; the first error is returned.\<close>

fun close_from :: "codecs \<Rightarrow> nat \<Rightarrow> error option \<Rightarrow> chain \<Rightarrow> error option \<times> chain" where
  "close_from c 0 first ch = (first, ch)"
| "close_from c (Suc i) first ch =
     (let (err, ch') = close_at c i ch
      in close_from c i (if first = None then err else first) ch')"

definition multiCloser_Close :: "codecs \<Rightarrow> chain \<Rightarrow> error option \<times> chain" where
  "multiCloser_Close c ch = close_from c (length (ch_layers ch)) None ch"

definition open_layer :: "layer \<Rightarrow> wlayer" where
  "open_layer l = \<lparr>wl_codec = l, wl_buf = [], wl_closed = False\<rparr>"

definition Compression_str :: "Compression \<Rightarrow> string" where
  "Compression_str c =
     (case c of CompressionEmpty \<Rightarrow> [] | CompressionNone \<Rightarrow> ''none'' | CompressionGzip \<Rightarrow> ''gzip''
      | CompressionZstd \<Rightarrow> ''zstd'' | CompressionOther s \<Rightarrow> s)"

definition unsupported_compression :: "Compression \<Rightarrow> error" where
  "unsupported_compression c = errNew (''unsupported compression \"'' @ Compression_str c @ [CHR 0x22])"

definition age_layers :: "codecs \<Rightarrow> PackOptions \<Rightarrow> layer list result" where
  "age_layers c opts =
     (if po_Encryption opts = EncryptionAge
      then (if po_Passphrase opts = [] then Inl (errNew ''encryption passphrase is required for age encryption'')
            else case age_recipient c (po_Passphrase opts) of
                   Some e \<Rightarrow> Inl (wrapf ''create age recipient'' e)
                 | None \<Rightarrow>
                     (case age_start c (po_Passphrase opts) of
                        Some e \<Rightarrow> Inl (wrapf ''start age encryption'' e)
                      | None \<Rightarrow> Inr [LAge (po_Passphrase opts)]))
      else Inr [])"

definition newPackWriter :: "codecs \<Rightarrow> PackOptions \<Rightarrow> chain result" where
  "newPackWriter c opts =
     (let chain_of = (\<lambda>ls. \<lparr>ch_layers = map open_layer ls, ch_sink = []\<rparr>) in
      case age_layers c opts of
        Inl e \<Rightarrow> Inl e
      | Inr ls \<Rightarrow>
          (case po_Compression opts of
             CompressionGzip \<Rightarrow>
               (let level = gzip_level (po_Level opts) in
                case gzip_NewWriterLevel level of
                  Some e \<Rightarrow> Inl (wrapf ''create gzip writer'' e)
                | None \<Rightarrow> Inr (chain_of (ls @ [LGzip level])))
           | CompressionZstd \<Rightarrow>
               (let lvl = (case zstdLevel (po_Level opts) of (l, ok) \<Rightarrow> if ok then Some l else None) in
                case zstd_new c lvl of
                  Some e \<Rightarrow> Inl (wrapf ''create zstd writer'' e)
                | None \<Rightarrow> Inr (chain_of (ls @ [LZstd lvl])))
           | CompressionEmpty \<Rightarrow> Inr (chain_of ls)
           | CompressionNone \<Rightarrow> Inr (chain_of ls)
           | CompressionOther x \<Rightarrow> Inl (unsupported_compression (CompressionOther x))))"

section \<open>The reader chain\<close>

definition newUnpackReader :: "codecs \<Rightarrow> stream \<Rightarrow> PackOptions \<Rightarrow> stream result" where
  "newUnpackReader c src opts =
     (case (if po_Encryption opts = EncryptionAge
            then (if po_Passphrase opts = []
                  then Inl (errNew ''encryption passphrase is required to decrypt this artifact'')
                  else case age_identity c (po_Passphrase opts) of
                         Some e \<Rightarrow> Inl (wrapf ''create age identity'' e)
                       | None \<Rightarrow>
                           (case age_open c (po_Passphrase opts) src of
                              Inl e \<Rightarrow> Inl (wrapf ''decrypt artifact'' e)
                            | Inr r \<Rightarrow> Inr r))
            else Inr src) of
        Inl e \<Rightarrow> Inl e
      | Inr r \<Rightarrow>
          (case po_Compression opts of
             CompressionGzip \<Rightarrow>
               (case gzip_open c r of Inl e \<Rightarrow> Inl (wrapf ''open gzip stream'' e) | Inr g \<Rightarrow> Inr g)
           | CompressionZstd \<Rightarrow>
               (case zstd_open c r of Inl e \<Rightarrow> Inl (wrapf ''open zstd stream'' e) | Inr z \<Rightarrow> Inr z)
           | CompressionEmpty \<Rightarrow> Inr r
           | CompressionNone \<Rightarrow> Inr r
           | CompressionOther x \<Rightarrow> Inl (unsupported_compression (CompressionOther x))))"

section \<open>The spool\<close>

datatype spoolop = SpoolMkdir string | SpoolCreate string | SpoolWrite | SpoolSync | SpoolRemove string

record spool =
  sp_dir :: string
  sp_path :: string
  sp_Filename :: string
  sp_RawBytes :: int
  sp_PackedBytes :: int
  sp_SHA256 :: string

definition newSpool :: "(spoolop \<Rightarrow> error option) \<Rightarrow> string \<Rightarrow> string \<Rightarrow> string \<Rightarrow> spool result" where
  "newSpool flt workDir runID filename =
     (let dir = path_Join [workDir, runID] in
      case flt (SpoolMkdir dir) of
        Some e \<Rightarrow> Inl (wrapf ''create spool directory'' e)
      | None \<Rightarrow> Inr \<lparr>sp_dir = dir, sp_path = path_Join [dir, filename], sp_Filename = filename,
                     sp_RawBytes = 0, sp_PackedBytes = 0, sp_SHA256 = []\<rparr>)"

text \<open>
  \<open>io.Copy\<close> from the source, read in chunks. Before each read the context is asked, so the
  \<open>k\<close>-th read may find it ended; the source's own error ends the copy too. Result: the bytes
  read, the writer chain, and the error.
\<close>

fun copy_chunks ::
  "(nat \<Rightarrow> error option) \<Rightarrow> (spoolop \<Rightarrow> error option) \<Rightarrow> nat \<Rightarrow> string list \<Rightarrow> error option \<Rightarrow> int \<Rightarrow> chain
   \<Rightarrow> error option \<times> int \<times> chain" where
  "copy_chunks ctx_err flt k [] src_err n ch =
     (case ctx_err k of Some e \<Rightarrow> (Some e, n, ch) | None \<Rightarrow> (src_err, n, ch))"
| "copy_chunks ctx_err flt k (x # xs) src_err n ch =
     (case ctx_err k of
        Some e \<Rightarrow> (Some e, n, ch)
      | None \<Rightarrow>
          (let (err, ch') = (if ch_layers ch = [] then
                               (case flt SpoolWrite of Some e \<Rightarrow> (Some e, ch) | None \<Rightarrow> write_at 0 x ch)
                             else write_at (length (ch_layers ch)) x ch);
               n' = n + int (length x)
           in case err of
                Some e \<Rightarrow> (Some e, n', ch')
              | None \<Rightarrow> copy_chunks ctx_err flt (Suc k) xs src_err n' ch'))"

definition close_chain :: "codecs \<Rightarrow> (spoolop \<Rightarrow> error option) \<Rightarrow> chain \<Rightarrow> error option \<times> chain" where
  "close_chain c flt ch =
     (case (if ch_layers ch = [] then None else flt SpoolWrite) of
        Some e \<Rightarrow> (Some e, ch)
      | None \<Rightarrow> multiCloser_Close c ch)"

definition Fill ::
  "codecs \<Rightarrow> (nat \<Rightarrow> error option) \<Rightarrow> (spoolop \<Rightarrow> error option) \<Rightarrow> string list \<Rightarrow> error option \<Rightarrow> PackOptions
   \<Rightarrow> spool \<Rightarrow> (spool \<times> string) result" where
  "Fill c ctx_err flt chunks src_err opts s =
     (case flt (SpoolCreate (sp_path s)) of
        Some e \<Rightarrow> Inl (wrapf ''create spool file'' e)
      | None \<Rightarrow>
     (case newPackWriter c opts of
        Inl e \<Rightarrow> Inl e
      | Inr ch0 \<Rightarrow>
     (case copy_chunks ctx_err flt 0 chunks src_err 0 ch0 of
        (Some e, _) \<Rightarrow> Inl (wrapf ''copy stream into spool'' e)
      | (None, n, ch1) \<Rightarrow>
     (case close_chain c flt ch1 of
        (Some e, _) \<Rightarrow> Inl (wrapf ''finish pack chain'' e)
      | (None, ch2) \<Rightarrow>
     (case flt SpoolSync of
        Some e \<Rightarrow> Inl (wrapf ''sync spool file'' e)
      | None \<Rightarrow>
          Inr (s\<lparr>sp_RawBytes := n, sp_PackedBytes := int (length (ch_sink ch2)),
                 sp_SHA256 := hex_encode (sha256 c (ch_sink ch2))\<rparr>, ch_sink ch2))))))"

definition spool_Cleanup :: "(spoolop \<Rightarrow> error option) \<Rightarrow> spool \<Rightarrow> error option" where
  "spool_Cleanup flt s =
     (if sp_dir s = [] then None
      else map_option (wrapf ''remove spool directory'') (flt (SpoolRemove (sp_dir s))))"

section \<open>File names\<close>

definition file_ext :: "string \<Rightarrow> string" where
  "file_ext extension =
     (let ext = TrimPrefix (TrimSpace extension) ''.'' in if ext = [] then ''bin'' else ext)"

definition BuildFilename :: "string \<Rightarrow> string \<Rightarrow> time \<Rightarrow> PackOptions \<Rightarrow> string" where
  "BuildFilename jobSlug extension at opts =
     jobSlug @ ''-'' @ Format_20060102 at @ ''-'' @ Format_150405 at @ ''.'' @ file_ext extension @ suffix_of opts"

definition BuildPath :: "string \<Rightarrow> string \<Rightarrow> string" where
  "BuildPath jobSlug filename = jobSlug @ ''/'' @ filename"

definition name_ext :: "string \<Rightarrow> string" where
  "name_ext name =
     (case last_index (CHR ''.'') name of
        None \<Rightarrow> [] | Some idx \<Rightarrow> if idx < length name - 1 then drop (idx + 1) name else [])"

definition DetectPack :: "string \<Rightarrow> Compression \<times> Encryption \<times> string" where
  "DetectPack filename =
     (let (encryption, name) =
        (if HasSuffix filename ''.age'' then (EncryptionAge, TrimSuffix filename ''.age'')
         else (EncryptionNone, filename));
          (compression, name') =
        (if HasSuffix name ''.zst'' then (CompressionZstd, TrimSuffix name ''.zst'')
         else if HasSuffix name ''.gz'' then (CompressionGzip, TrimSuffix name ''.gz'')
         else (CompressionNone, name))
      in (compression, encryption, name_ext name'))"

definition unpackedName :: "string \<Rightarrow> string" where
  "unpackedName filename =
     TrimSuffix (TrimSuffix (TrimSuffix filename ''.age'') ''.zst'') ''.gz''"

section \<open>Lemmas on the chain\<close>

lemma close_from_open:
  assumes "ch_layers ch = map open_layer ls @ \<lparr>wl_codec = l, wl_buf = s, wl_closed = False\<rparr> # rest"
    and "ch_sink ch = []"
  shows "\<exists>ch'. close_from c (Suc (length ls)) None ch = (None, ch') \<and> ch_sink ch' = foldr (seal c) (ls @ [l]) s"
  using assms
proof (induction ls arbitrary: ch l s rest rule: rev_induct)
  case Nil
  then show ?case by (simp add: close_at_def write_at_def Let_def)
next
  case (snoc k ls)
  let ?ch' = "ch\<lparr>ch_layers := map open_layer ls @ \<lparr>wl_codec = k, wl_buf = seal c l s, wl_closed = False\<rparr>
    # \<lparr>wl_codec = l, wl_buf = s, wl_closed = True\<rparr> # rest\<rparr>"
  have top: "ch_layers ch ! Suc (length ls) = \<lparr>wl_codec = l, wl_buf = s, wl_closed = False\<rparr>"
    using snoc.prems(1) by (simp add: nth_append)
  have "close_at c (Suc (length ls)) ch = (None, ?ch')"
    using snoc.prems(1) by (simp add: close_at_def write_at_def top Let_def nth_append list_update_append open_layer_def)
  moreover obtain ch'' where "close_from c (Suc (length ls)) None ?ch' = (None, ch'')"
    "ch_sink ch'' = foldr (seal c) (ls @ [k]) (seal c l s)"
    using snoc.IH [of ?ch' k "seal c l s"] snoc.prems(2) by auto
  ultimately show ?case by simp
qed

text \<open>A chain that only its top layer, or the sink of an empty chain, has taken bytes.\<close>

definition filled :: "layer list \<Rightarrow> string \<Rightarrow> chain" where
  "filled ls s =
     (case rev ls of
        [] \<Rightarrow> \<lparr>ch_layers = [], ch_sink = s\<rparr>
      | l # r \<Rightarrow> \<lparr>ch_layers = map open_layer (rev r) @ [\<lparr>wl_codec = l, wl_buf = s, wl_closed = False\<rparr>], ch_sink = []\<rparr>)"

lemma filled_Nil: "\<lparr>ch_layers = map open_layer ls, ch_sink = []\<rparr> = filled ls []"
  by (cases ls rule: rev_cases) (simp_all add: filled_def open_layer_def)

lemma write_filled: "write_at (length (ch_layers (filled ls s))) x (filled ls s) = (None, filled ls (s @ x))"
  by (cases ls rule: rev_cases) (simp_all add: filled_def write_at_def list_update_append Let_def nth_append)

lemma close_filled:
  "\<exists>ch'. multiCloser_Close c (filled ls s) = (None, ch') \<and> ch_sink ch' = foldr (seal c) ls s"
proof (cases ls rule: rev_cases)
  case Nil
  then show ?thesis by (simp add: filled_def multiCloser_Close_def)
next
  case (snoc r l)
  with close_from_open [of "filled ls s" r l s "[]" c] show ?thesis
    by (simp add: filled_def multiCloser_Close_def)
qed

lemma copy_filled:
  "copy_chunks (\<lambda>_. None) (\<lambda>_. None) k xs None n (filled ls s)
     = (None, n + int (length (concat xs)), filled ls (s @ concat xs))"
proof (induction xs arbitrary: k n s)
  case (Cons x xs)
  have "ch_layers (filled ls s) = [] \<Longrightarrow> write_at 0 x (filled ls s) = (None, filled ls (s @ x))"
    using write_filled [of ls s x] by simp
  then show ?case
    by (simp add: write_filled Cons.IH Let_def split: prod.split)
qed simp

lemma gzip_level_valid: "gzip_NewWriterLevel (gzip_level level) = None"
  by (simp add: gzip_NewWriterLevel_def gzip_level_def)

text \<open>The layers a writer opens for options that are known and complete.\<close>

definition valid_options :: "PackOptions \<Rightarrow> bool" where
  "valid_options opts \<longleftrightarrow>
     (case po_Compression opts of CompressionOther _ \<Rightarrow> False | _ \<Rightarrow> True)
     \<and> (po_Encryption opts = EncryptionAge \<longrightarrow> po_Passphrase opts \<noteq> [])"

definition layers_of :: "PackOptions \<Rightarrow> layer list" where
  "layers_of opts =
     (if po_Encryption opts = EncryptionAge then [LAge (po_Passphrase opts)] else [])
     @ (case po_Compression opts of
          CompressionGzip \<Rightarrow> [LGzip (gzip_level (po_Level opts))]
        | CompressionZstd \<Rightarrow> [LZstd (case zstdLevel (po_Level opts) of (l, ok) \<Rightarrow> if ok then Some l else None)]
        | _ \<Rightarrow> [])"

lemma newPackWriter_layers:
  assumes "codecs_ok c (po_Passphrase opts)" and "valid_options opts"
  shows "newPackWriter c opts = Inr (filled (layers_of opts) [])"
  using assms
  by (auto simp: newPackWriter_def age_layers_def codecs_ok_def valid_options_def layers_of_def Let_def
      gzip_level_valid filled_def open_layer_def split: Compression.splits)

lemma unpack_layers:
  assumes "codecs_ok c (po_Passphrase opts)" and "valid_options opts"
  shows "newUnpackReader c (foldr (seal c) (layers_of opts) s, None) opts = Inr (s, None)"
  using assms
  by (auto simp: newUnpackReader_def codecs_ok_def valid_options_def layers_of_def split: Compression.splits)

section \<open>Lemmas on file names\<close>

lemma dot_suffix:
  assumes "CHR ''.'' \<notin> set e" and "CHR ''.'' \<notin> set x"
  shows "HasSuffix (s @ ''.'' @ e) (''.'' @ x) \<longleftrightarrow> e = x"
proof
  assume "HasSuffix (s @ ''.'' @ e) (''.'' @ x)"
  then obtain t where "s @ CHR ''.'' # e = t @ CHR ''.'' # x" by (auto simp: HasSuffix_iff)
  then show "e = x" using last_sep_inject [OF assms] by blast
next
  assume "e = x"
  then show "HasSuffix (s @ ''.'' @ e) (''.'' @ x)" using HasSuffix_append [of s "''.'' @ x"] by simp
qed

lemma TrimSuffix_dot: "TrimSuffix (s @ ''.'' @ e @ p) p = s @ ''.'' @ e"
  using TrimSuffix_append [of "s @ ''.'' @ e" p] by simp

lemma name_ext_dot:
  assumes "CHR ''.'' \<notin> set e" and "e \<noteq> []"
  shows "name_ext (s @ ''.'' @ e) = e"
  using last_index_append [OF assms(1), of s] assms(2) by (cases e) (simp_all add: name_ext_def)

lemma file_ext_nonempty: "file_ext x \<noteq> []"
  by (simp add: file_ext_def Let_def)

text \<open>An extension that does not interfere with the suffixes of packing.\<close>

definition plain_ext :: "string \<Rightarrow> bool" where
  "plain_ext e \<longleftrightarrow> CHR ''.'' \<notin> set e \<and> e \<noteq> ''gz'' \<and> e \<noteq> ''zst'' \<and> e \<noteq> ''age''"

text \<open>The suffixes of a name are read off from the right, one dot at a time.\<close>

lemma suffix_tests:
  assumes "plain_ext e"
  shows "\<not> HasSuffix (s @ ''.'' @ e) ''.age''" "\<not> HasSuffix (s @ ''.'' @ e) ''.zst''"
    "\<not> HasSuffix (s @ ''.'' @ e) ''.gz''"
  using assms dot_suffix [of e "''age''" s] dot_suffix [of e "''zst''" s] dot_suffix [of e "''gz''" s]
  by (auto simp: plain_ext_def)

lemma TrimSuffix_no: "\<not> HasSuffix s p \<Longrightarrow> TrimSuffix s p = s"
  by (simp add: TrimSuffix_def)

lemma suffix_crossed:
  "\<not> HasSuffix (s @ ''.gz'') ''.zst''" "\<not> HasSuffix (s @ ''.gz'') ''.age''" "\<not> HasSuffix (s @ ''.zst'') ''.age''"
  using dot_suffix [of "''gz''" "''zst''" s] dot_suffix [of "''gz''" "''age''" s] dot_suffix [of "''zst''" "''age''" s]
  by simp_all

definition norm_compression :: "Compression \<Rightarrow> Compression" where
  "norm_compression c = (case c of CompressionEmpty \<Rightarrow> CompressionNone | CompressionOther _ \<Rightarrow> CompressionNone | _ \<Rightarrow> c)"

definition norm_encryption :: "Encryption \<Rightarrow> Encryption" where
  "norm_encryption e = (if e = EncryptionAge then EncryptionAge else EncryptionNone)"

lemma DetectPack_suffix:
  assumes "plain_ext e" and "e \<noteq> []"
  shows "DetectPack (s @ ''.'' @ e @ suffix_of opts)
    = (norm_compression (po_Compression opts), norm_encryption (po_Encryption opts), e)"
proof -
  have ext: "name_ext (s @ ''.'' @ e) = e"
    using assms by (intro name_ext_dot) (auto simp: plain_ext_def)
  define n where "n = s @ ''.'' @ e"
  have n: "\<not> HasSuffix n ''.age''" "\<not> HasSuffix n ''.zst''" "\<not> HasSuffix n ''.gz''" "name_ext n = e"
    using suffix_tests [OF assms(1)] ext by (simp_all add: n_def)
  define cs where "cs = (case po_Compression opts of CompressionGzip \<Rightarrow> ''.gz'' | CompressionZstd \<Rightarrow> ''.zst'' | _ \<Rightarrow> [])"
  have comp: "DetectPack (n @ cs) = (norm_compression (po_Compression opts), EncryptionNone, e)
    \<and> \<not> HasSuffix (n @ cs) ''.age''"
    using n suffix_crossed [of n]
    by (cases "po_Compression opts")
      (simp_all add: cs_def DetectPack_def TrimSuffix_append norm_compression_def del: append_assoc)
  have age: "DetectPack (m @ ''.age'') = (fst (DetectPack m), EncryptionAge, snd (snd (DetectPack m)))"
    if "\<not> HasSuffix m ''.age''" for m
    using that by (simp add: DetectPack_def TrimSuffix_append Let_def)
  have "s @ ''.'' @ e @ suffix_of opts = (n @ cs) @ (if po_Encryption opts = EncryptionAge then ''.age'' else [])"
    by (simp add: n_def cs_def suffix_of_def)
  then show ?thesis
    using comp age [of "n @ cs"] by (auto simp: norm_encryption_def)
qed

lemma unpackedName_suffix:
  assumes "plain_ext e"
  shows "unpackedName (s @ ''.'' @ e @ suffix_of opts) = s @ ''.'' @ e"
proof -
  define n where "n = s @ ''.'' @ e"
  have n: "\<not> HasSuffix n ''.age''" "\<not> HasSuffix n ''.zst''" "\<not> HasSuffix n ''.gz''"
    using suffix_tests [OF assms] by (simp_all add: n_def)
  have 1: "TrimSuffix (n @ suffix_of opts) ''.age'' =
    n @ (case po_Compression opts of CompressionGzip \<Rightarrow> ''.gz'' | CompressionZstd \<Rightarrow> ''.zst'' | _ \<Rightarrow> [])"
    using n suffix_crossed [of n] TrimSuffix_append [of "n @ ''.gz''" "''.age''"]
      TrimSuffix_append [of "n @ ''.zst''" "''.age''"] TrimSuffix_append [of n "''.age''"]
    by (auto simp: suffix_of_def TrimSuffix_no split: Compression.split)
  have "unpackedName (n @ suffix_of opts) = n"
    unfolding unpackedName_def 1 using n suffix_crossed [of n]
    by (auto simp: TrimSuffix_no split: Compression.split)
  then show ?thesis by (simp add: n_def)
qed

section \<open>Properties\<close>

lemma Fill_packed:
  assumes "codecs_ok c (po_Passphrase opts)" and "valid_options opts"
  shows "\<exists>s' content. Fill c (\<lambda>_. None) (\<lambda>_. None) chunks None opts s = Inr (s', content)
    \<and> sp_RawBytes s' = int (length (concat chunks))
    \<and> sp_PackedBytes s' = int (length content)
    \<and> sp_SHA256 s' = hex_encode (sha256 c content)
    \<and> sp_path s' = sp_path s
    \<and> newUnpackReader c (content, None) opts = Inr (concat chunks, None)"
proof -
  let ?ls = "layers_of opts"
  obtain ch where close: "multiCloser_Close c (filled ?ls (concat chunks)) = (None, ch)"
    and sink: "ch_sink ch = foldr (seal c) ?ls (concat chunks)"
    using close_filled by blast
  have "Fill c (\<lambda>_. None) (\<lambda>_. None) chunks None opts s =
    Inr (s\<lparr>sp_RawBytes := int (length (concat chunks)), sp_PackedBytes := int (length (ch_sink ch)),
           sp_SHA256 := hex_encode (sha256 c (ch_sink ch))\<rparr>, ch_sink ch)"
    using copy_filled [of 0 chunks 0 ?ls "[]"] close
    by (simp add: Fill_def newPackWriter_layers [OF assms] close_chain_def)
  moreover have "newUnpackReader c (ch_sink ch, None) opts = Inr (concat chunks, None)"
    unfolding sink by (rule unpack_layers [OF assms])
  ultimately show ?thesis by auto
qed

text \<open>C28 (roundtrip): what is backed up can be restored. With working codecs, valid options and no
  fault, filling the spool from any stream succeeds; the raw and packed sizes and the checksum it
  records are those of the bytes read and of the packed content; and unpacking that content with the
  same options gives exactly the bytes read.\<close>

theorem pack_roundtrip:
  assumes "codecs_ok c (po_Passphrase opts)" and "valid_options opts"
  shows "\<exists>s' content. Fill c (\<lambda>_. None) (\<lambda>_. None) chunks None opts s = Inr (s', content)
    \<and> sp_RawBytes s' = int (length (concat chunks))
    \<and> sp_PackedBytes s' = int (length content)
    \<and> sp_SHA256 s' = hex_encode (sha256 c content)
    \<and> sp_path s' = sp_path s
    \<and> newUnpackReader c (content, None) opts = Inr (concat chunks, None)"
  by (rule Fill_packed [OF assms])

definition demo_codecs :: codecs where
  "demo_codecs = \<lparr>age_recipient = (\<lambda>_. None), age_start = (\<lambda>_. None), age_seal = (\<lambda>p s. p @ rev s),
     age_identity = (\<lambda>_. None), age_open = (\<lambda>p (s, e). Inr (rev (drop (length p) s), e)),
     gzip_seal = (\<lambda>l s. CHR ''z'' # s), gzip_open = (\<lambda>(s, e). Inr (tl s, e)),
     zstd_new = (\<lambda>_. None), zstd_seal = (\<lambda>l s. s @ ''!''), zstd_open = (\<lambda>(s, e). Inr (butlast s, e)),
     sha256 = (\<lambda>s. take 4 s)\<rparr>"

theorem pack_roundtrip_witness:
  "\<exists>s' content. Fill demo_codecs (\<lambda>_. None) (\<lambda>_. None) [''ab'', ''c''] None
       \<lparr>po_Compression = CompressionGzip, po_Level = 0, po_Encryption = EncryptionAge, po_Passphrase = ''pw''\<rparr>
       \<lparr>sp_dir = ''w'', sp_path = ''w/f'', sp_Filename = ''f'', sp_RawBytes = 0, sp_PackedBytes = 0, sp_SHA256 = []\<rparr>
     = Inr (s', content) \<and> sp_RawBytes s' = 3"
  using pack_roundtrip [of demo_codecs
      "\<lparr>po_Compression = CompressionGzip, po_Level = 0, po_Encryption = EncryptionAge, po_Passphrase = ''pw''\<rparr>"
      "[''ab'', ''c'']"
      "\<lparr>sp_dir = ''w'', sp_path = ''w/f'', sp_Filename = ''f'', sp_RawBytes = 0, sp_PackedBytes = 0, sp_SHA256 = []\<rparr>"]
  by (auto simp: codecs_ok_def demo_codecs_def valid_options_def)

text \<open>The name of a backup tells its format. For an extension that has no dot and is not
  itself a packing suffix, detecting the format of a built name gives the compression, the encryption
  and the extension it was built from, and removing the suffixes gives the name of the unpacked file.\<close>

theorem BuildFilename_DetectPack:
  assumes "plain_ext (file_ext extension)"
  shows "DetectPack (BuildFilename jobSlug extension at opts)
      = (norm_compression (po_Compression opts), norm_encryption (po_Encryption opts), file_ext extension)
    \<and> unpackedName (BuildFilename jobSlug extension at opts)
      = BuildFilename jobSlug extension at (opts\<lparr>po_Compression := CompressionNone, po_Encryption := EncryptionNone\<rparr>)"
proof -
  let ?s = "jobSlug @ ''-'' @ Format_20060102 at @ ''-'' @ Format_150405 at"
  have name: "BuildFilename jobSlug extension at o' = ?s @ ''.'' @ file_ext extension @ suffix_of o'" for o'
    by (simp add: BuildFilename_def)
  show ?thesis
    unfolding name DetectPack_suffix [OF assms file_ext_nonempty] unpackedName_suffix [OF assms]
    by (simp add: suffix_of_def)
qed

theorem BuildFilename_DetectPack_witness:
  "DetectPack (BuildFilename ''db'' ''.sql'' 0 \<lparr>po_Compression = CompressionZstd, po_Level = 3,
       po_Encryption = EncryptionAge, po_Passphrase = ''pw''\<rparr>) = (CompressionZstd, EncryptionAge, ''sql'')"
proof -
  have ext: "file_ext ''.sql'' = ''sql''" by code_simp
  have "plain_ext (file_ext ''.sql'')" by (simp add: ext plain_ext_def)
  from BuildFilename_DetectPack [OF this, of "''db''" 0 "\<lparr>po_Compression = CompressionZstd, po_Level = 3,
       po_Encryption = EncryptionAge, po_Passphrase = ''pw''\<rparr>"]
  show ?thesis by (simp add: ext norm_compression_def norm_encryption_def)
qed

text \<open>Two backups of one job and format get the same name exactly when they start in the
  same second.\<close>

theorem BuildFilename_collision:
  assumes "0 \<le> t" and "0 \<le> u"
  shows "BuildFilename jobSlug extension t opts = BuildFilename jobSlug extension u opts
    \<longleftrightarrow> t div Second = u div Second"
proof -
  have dash: "CHR ''-'' \<notin> set (Format_20060102 x)" if "0 \<le> x" for x
    using timestamp_chars(1) [of "CHR ''-''" x] that by simp
  have dot: "CHR ''.'' \<notin> set (Format_150405 x)" for x
    using timestamp_chars(2) [of "CHR ''.''" x] by simp
  have "BuildFilename jobSlug extension t opts = BuildFilename jobSlug extension u opts
    \<longleftrightarrow> Format_20060102 t @ CHR ''-'' # Format_150405 t = Format_20060102 u @ CHR ''-'' # Format_150405 u"
    by (simp add: BuildFilename_def) 
  then show ?thesis
    using sep_inject [OF dash dash] assms timestamp_eq_iff [OF assms] by simp
qed

theorem BuildFilename_collision_witness:
  "BuildFilename ''db'' ''sql'' Second \<lparr>po_Compression = CompressionGzip, po_Level = 0, po_Encryption = EncryptionNone, po_Passphrase = []\<rparr>
    = BuildFilename ''db'' ''sql'' (Second + Millisecond) \<lparr>po_Compression = CompressionGzip, po_Level = 0, po_Encryption = EncryptionNone, po_Passphrase = []\<rparr>"
  using BuildFilename_collision [of Second "Second + Millisecond" "''db''" "''sql''"
    "\<lparr>po_Compression = CompressionGzip, po_Level = 0, po_Encryption = EncryptionNone, po_Passphrase = []\<rparr>"]
  by simp

end
