(* ===== verification/Run_State.thy ===== *)
theory Run_State
  imports Store_Configs Secrets Pack
begin

text \<open>
  The record of one run while it executes (package \<open>internal/engine\<close>, runstate.go), in the
  state monad. The state of the system as one run sees it is the database, the run's own
  \<open>runState\<close>, the events published, a history of the calls that leave the process, and the
  outside world, which is abstract: the clock, the context of the run, the error a database
  statement returns, fresh identifiers and the drivers are functions of an environment record that
  may change the world.
\<close>

section \<open>Environment and state\<close>

datatype event = RunUpdated Run | JobUpdated Job | ArtifactUpdated Artifact

text \<open>The file system calls of a restore: paths, permission bits, link targets.\<close>

datatype fsop =
    FsMkdirAll string nat
  | FsCreate string nat
  | FsCopy string string
  | FsClose string
  | FsRemove string
  | FsRename string string
  | FsSymlink string string
  | FsLink string string
  | FsChmod string nat
  | FsChtimes string int
  | FsLchown string int int

text \<open>The calls that leave the process, as they are recorded in the history.\<close>

datatype call =
    CallPut Destination string string "error option"
  | CallStat Destination string "(int option) result"
  | CallDelete Destination string "error option"
  | CallHook string "error option"
  | CallWait duration
  | CallCleanup string
  | CallGet Destination string "(string \<times> error option) result"
  | CallFs fsop "error option"
  | CallRestore Source Config string "error option"

record dump_stream =
  ds_Extension :: string
  ds_Chunks :: "string list"
  ds_ReadErr :: "error option"
  ds_CloseErr :: "error option"

record runState =
  rs_run :: Run
  rs_warned :: bool
  rs_warnMsg :: string

record 'w sys =
  sy_world :: 'w
  sy_db :: db
  sy_rs :: runState
  sy_events :: "event list"
  sy_calls :: "call list"
  sy_dest_errors :: "string list"

record 'w env =
  env_now :: "'w \<Rightarrow> time \<times> 'w"
  env_ctx :: "'w \<Rightarrow> error option \<times> 'w"
  env_sql :: "string \<Rightarrow> 'w \<Rightarrow> error option \<times> 'w"
  env_id :: "'w \<Rightarrow> string \<times> 'w"
  env_cipher :: Cipher
  env_codecs :: codecs
  env_source_spec :: "string \<Rightarrow> DriverSpec option"
  env_validate :: "string \<Rightarrow> Config \<Rightarrow> error option"
  env_backup :: "string \<Rightarrow> Config \<Rightarrow> 'w \<Rightarrow> dump_stream result \<times> 'w"
  env_host :: "string \<Rightarrow> 'w \<Rightarrow> Host result \<times> 'w"
  env_dest_spec :: "string \<Rightarrow> DriverSpec option"
  env_open :: "string \<Rightarrow> Config \<Rightarrow> 'w \<Rightarrow> error option \<times> 'w"
  env_put :: "string \<Rightarrow> Config \<Rightarrow> string \<Rightarrow> string \<Rightarrow> 'w \<Rightarrow> error option \<times> 'w"
  env_stat :: "string \<Rightarrow> Config \<Rightarrow> string \<Rightarrow> 'w \<Rightarrow> (int option) result \<times> 'w"
  env_delete :: "string \<Rightarrow> Config \<Rightarrow> string \<Rightarrow> 'w \<Rightarrow> error option \<times> 'w"
  env_wait :: "duration \<Rightarrow> 'w \<Rightarrow> error option \<times> 'w"
  env_hook :: "string \<Rightarrow> 'w \<Rightarrow> error option \<times> 'w"
  env_spool :: "'w \<Rightarrow> ((nat \<Rightarrow> error option) \<times> (spoolop \<Rightarrow> error option)) \<times> 'w"
  env_spool_open :: "'w \<Rightarrow> error option \<times> 'w"
  env_workDir :: string

type_synonym ('w, 'a) run = "('w sys, 'a) state"

text \<open>A question to the environment, a statement on the database, and a query of it.\<close>

definition ask :: "('w \<Rightarrow> 'a \<times> 'w) \<Rightarrow> ('w, 'a) run" where
  "ask f = State (\<lambda>s. case f (sy_world s) of (x, w) \<Rightarrow> (x, s\<lparr>sy_world := w\<rparr>))"

definition exec :: "'w env \<Rightarrow> string \<Rightarrow> (error option \<Rightarrow> db \<Rightarrow> 'a \<times> db) \<Rightarrow> ('w, 'a) run" where
  "exec E what f = do {
     flt \<leftarrow> ask (env_sql E what);
     State (\<lambda>s. case f flt (sy_db s) of (x, d) \<Rightarrow> (x, s\<lparr>sy_db := d\<rparr>)) }"

definition query :: "'w env \<Rightarrow> string \<Rightarrow> (error option \<Rightarrow> db \<Rightarrow> 'a) \<Rightarrow> ('w, 'a) run" where
  "query E what f = do { flt \<leftarrow> ask (env_sql E what); gets (\<lambda>s. f flt (sy_db s)) }"

definition publish :: "event \<Rightarrow> ('w, unit) run" where
  "publish ev = modify (\<lambda>s. s\<lparr>sy_events := sy_events s @ [ev]\<rparr>)"

definition called :: "call \<Rightarrow> ('w, unit) run" where
  "called c = modify (\<lambda>s. s\<lparr>sy_calls := sy_calls s @ [c]\<rparr>)"

definition the_run :: "('w, Run) run" where
  "the_run = gets (\<lambda>s. rs_run (sy_rs s))"

definition set_rs :: "(runState \<Rightarrow> runState) \<Rightarrow> ('w, unit) run" where
  "set_rs f = modify (\<lambda>s. s\<lparr>sy_rs := f (sy_rs s)\<rparr>)"

section \<open>Updates of the run\<close>

definition newRunState :: "Run \<Rightarrow> runState" where
  "newRunState run = \<lparr>rs_run = run, rs_warned = False, rs_warnMsg = []\<rparr>"

text \<open>Every update saves the run and publishes it; an error of the save is only logged.\<close>

definition update :: "'w env \<Rightarrow> (Run \<Rightarrow> Run) \<Rightarrow> ('w, unit) run" where
  "update E fn = do {
     set_rs (\<lambda>rs. rs\<lparr>rs_run := fn (rs_run rs)\<rparr>);
     snapshot \<leftarrow> the_run;
     _ \<leftarrow> exec E ''save run'' (\<lambda>flt. Runs_Save flt snapshot);
     publish (RunUpdated snapshot) }"

definition start :: "'w env \<Rightarrow> ('w, unit) run" where
  "start E = do {
     now \<leftarrow> ask (env_now E);
     update E (\<lambda>r. r\<lparr>run_Status := RunRunning, run_StartedAt := Some now\<rparr>) }"

definition Warn :: "string \<Rightarrow> ('w, unit) run" where
  "Warn msg = set_rs (\<lambda>rs. rs\<lparr>rs_warned := True,
     rs_warnMsg := (if rs_warnMsg rs = [] then msg else rs_warnMsg rs)\<rparr>)"

definition new_stage :: "string \<Rightarrow> StageStatus \<Rightarrow> time \<Rightarrow> time option \<Rightarrow> string \<Rightarrow> Stage" where
  "new_stage name st started finished msg =
     \<lparr>stg_Name = name, stg_Status = st, stg_StartedAt = Some started, stg_FinishedAt = finished, stg_Message = msg\<rparr>"

definition stage :: "'w env \<Rightarrow> string \<Rightarrow> ('w, unit) run" where
  "stage E name = do {
     now \<leftarrow> ask (env_now E);
     update E (\<lambda>r. r\<lparr>run_Stages := run_Stages r @ [new_stage name StageRunning now None []]\<rparr>) }"

definition skippedStage :: "'w env \<Rightarrow> string \<Rightarrow> string \<Rightarrow> ('w, unit) run" where
  "skippedStage E name msg = do {
     now \<leftarrow> ask (env_now E);
     update E (\<lambda>r. r\<lparr>run_Stages := run_Stages r @ [new_stage name StageSkipped now (Some now) msg]\<rparr>) }"

text \<open>The loop of \<open>set\<close> runs from the last stage to the first, so over the reversed list.\<close>

definition end_stage :: "StageStatus \<Rightarrow> time \<Rightarrow> string \<Rightarrow> Stage \<Rightarrow> Stage" where
  "end_stage st now msg x = x\<lparr>stg_Status := st, stg_FinishedAt := Some now, stg_Message := msg\<rparr>"

fun set_first :: "string \<Rightarrow> (Stage \<Rightarrow> Stage) \<Rightarrow> Stage list \<Rightarrow> Stage list" where
  "set_first name f [] = []"
| "set_first name f (x # xs) =
     (if stg_Name x = name \<and> stg_Status x = StageRunning then f x # xs else x # set_first name f xs)"

definition set_stage :: "'w env \<Rightarrow> string \<Rightarrow> StageStatus \<Rightarrow> string \<Rightarrow> ('w, unit) run" where
  "set_stage E name st msg = do {
     now \<leftarrow> ask (env_now E);
     update E (\<lambda>r. r\<lparr>run_Stages := rev (set_first name (end_stage st now msg) (rev (run_Stages r)))\<rparr>) }"

definition stage_Done :: "'w env \<Rightarrow> string \<Rightarrow> string \<Rightarrow> ('w, unit) run" where
  "stage_Done E name msg = set_stage E name StageSuccess msg"

definition stage_Fail :: "'w env \<Rightarrow> string \<Rightarrow> error \<Rightarrow> ('w, error option) run" where
  "stage_Fail E name err = do { set_stage E name StageFailed (Error err); return (Some err) }"

definition addArtifact :: "'w env \<Rightarrow> Artifact \<Rightarrow> ('w, unit) run" where
  "addArtifact E a = do {
     update E (\<lambda>r. r\<lparr>run_ArtifactIDs := run_ArtifactIDs r @ [art_ID a]\<rparr>);
     publish (ArtifactUpdated a) }"

definition setResult :: "'w env \<Rightarrow> string \<Rightarrow> string \<Rightarrow> int \<Rightarrow> int \<Rightarrow> ('w, unit) run" where
  "setResult E filename sha rawBytes packedBytes =
     update E (\<lambda>r. r\<lparr>run_Filename := filename, run_SHA256 := sha, run_RawBytes := rawBytes, run_Bytes := packedBytes\<rparr>)"

section \<open>The end of a run\<close>

definition defaultTimeout :: duration where
  "defaultTimeout = 6 * Hour"

definition timeoutLabel :: "Run \<Rightarrow> string" where
  "timeoutLabel run =
     (let raw = (case run_Meta run ''timeoutMinutes'' of None \<Rightarrow> [] | Some v \<Rightarrow> v);
          minutes = (case Atoi raw of Some v \<Rightarrow> if 0 < v then v else quot defaultTimeout Minute
                     | None \<Rightarrow> quot defaultTimeout Minute)
      in if minutes = 1 then ''1 minute'' else Itoa minutes @ '' minutes'')"

definition errIsOpt :: "error option \<Rightarrow> sentinel \<Rightarrow> bool" where
  "errIsOpt e s = (case e of None \<Rightarrow> False | Some err \<Rightarrow> errIs err s)"

text \<open>Status and message of a finished run. \<open>c1\<close> and \<open>c2\<close> are the two readings of
  \<open>ctx.Err()\<close>.\<close>

definition outcome :: "error option \<Rightarrow> error option \<Rightarrow> error option \<Rightarrow> runState \<Rightarrow> RunStatus \<times> string" where
  "outcome c1 c2 runErr rs =
     (let canceled = errIsOpt c1 Canceled \<or> errIsOpt runErr Canceled;
          timedOut = errIsOpt c2 DeadlineExceeded \<or> errIsOpt runErr DeadlineExceeded
      in if canceled then (RunCanceled, ''run canceled'')
         else if timedOut then (RunFailed, ''run timed out after '' @ timeoutLabel (rs_run rs))
         else (case runErr of
                 Some e \<Rightarrow> (RunFailed, Error e)
               | None \<Rightarrow> if rs_warned rs then (RunWarning, rs_warnMsg rs) else (RunSuccess, [])))"

text \<open>\<open>now.Sub(started).Milliseconds()\<close>.\<close>

definition millis :: "duration \<Rightarrow> int" where
  "millis d = quot d Millisecond"

definition close_stage :: "time \<Rightarrow> string \<Rightarrow> Stage \<Rightarrow> Stage" where
  "close_stage now msg x =
     (if stg_Status x = StageRunning
      then x\<lparr>stg_Status := StageFailed, stg_FinishedAt := Some now,
             stg_Message := (if stg_Message x = [] then msg else stg_Message x)\<rparr>
      else x)"

definition finish_run :: "RunStatus \<Rightarrow> string \<Rightarrow> time \<Rightarrow> Run \<Rightarrow> Run" where
  "finish_run st msg now r =
     r\<lparr>run_Status := st, run_Error := msg, run_FinishedAt := Some now,
       run_DurationMS := (case run_StartedAt r of None \<Rightarrow> run_DurationMS r | Some t \<Rightarrow> millis (Sub now t)),
       run_Stages := map (close_stage now msg) (run_Stages r)\<rparr>"

definition succeeded :: "RunStatus \<Rightarrow> bool" where
  "succeeded st \<longleftrightarrow> st = RunSuccess \<or> st = RunWarning"

definition finish_job_state :: "'w env \<Rightarrow> RunStatus \<Rightarrow> time \<Rightarrow> Run \<Rightarrow> ('w, unit) run" where
  "finish_job_state E st now run = do {
     t1 \<leftarrow> ask (env_now E);
     _ \<leftarrow> exec E ''set job last run''
           (\<lambda>flt. SetLastRun flt t1 (run_JobID run) (Summary run) (if succeeded st then Some now else None));
     (if succeeded st then do {
        t2 \<leftarrow> ask (env_now E);
        _ \<leftarrow> exec E ''set overdue'' (\<lambda>flt. SetOverdue flt t2 (run_JobID run) False None);
        return () } else return ());
     flt_join \<leftarrow> ask (env_sql E ''join'');
     j \<leftarrow> query E ''get job'' (\<lambda>flt. Jobs_Get flt flt_join (run_JobID run));
     (case j of Inl _ \<Rightarrow> return () | Inr job \<Rightarrow> publish (JobUpdated job)) }"

definition finish :: "'w env \<Rightarrow> error option \<Rightarrow> ('w, unit) run" where
  "finish E runErr = do {
     now \<leftarrow> ask (env_now E);
     rs \<leftarrow> gets sy_rs;
     c1 \<leftarrow> ask (env_ctx E);
     c2 \<leftarrow> ask (env_ctx E);
     update E (finish_run (fst (outcome c1 c2 runErr rs)) (snd (outcome c1 c2 runErr rs)) now);
     run \<leftarrow> the_run;
     (if run_JobID run \<noteq> [] then finish_job_state E (fst (outcome c1 c2 runErr rs)) now run else return ()) }"

section \<open>Running the primitives\<close>

lemma run_ask: "run_state (ask f) s = (case f (sy_world s) of (x, w) \<Rightarrow> (x, s\<lparr>sy_world := w\<rparr>))"
  by (simp add: ask_def)

lemma keeps_ask [wp]: "(\<And>s w. P s \<Longrightarrow> P (s\<lparr>sy_world := w\<rparr>)) \<Longrightarrow> keeps P (ask f)"
  by (rule keepsI) (simp add: run_ask split: prod.split)

lemma keeps_exec [wp]:
  assumes "\<And>s w. P s \<Longrightarrow> P (s\<lparr>sy_world := w\<rparr>)"
    and "\<And>s flt. P s \<Longrightarrow> P (s\<lparr>sy_db := snd (f flt (sy_db s))\<rparr>)"
  shows "keeps P (exec E what f)"
  unfolding exec_def
proof (rule keeps_bind)
  show "keeps P (ask (env_sql E what))" by (rule keeps_ask) (rule assms(1))
  show "keeps P (State (\<lambda>s. case f flt (sy_db s) of (x, d) \<Rightarrow> (x, s\<lparr>sy_db := d\<rparr>)))" for flt
    by (rule keepsI) (simp add: case_prod_beta assms(2))
qed

lemma keeps_query [wp]: "(\<And>s w. P s \<Longrightarrow> P (s\<lparr>sy_world := w\<rparr>)) \<Longrightarrow> keeps P (query E what f)"
  unfolding query_def by (intro keeps_bind keeps_ask keeps_gets)

lemma keeps_publish [wp]: "(\<And>s ev. P s \<Longrightarrow> P (s\<lparr>sy_events := ev\<rparr>)) \<Longrightarrow> keeps P (publish e)"
  unfolding publish_def by (rule keeps_modify)

lemma keeps_set_rs [wp]: "(\<And>s. P s \<Longrightarrow> P (s\<lparr>sy_rs := f (sy_rs s)\<rparr>)) \<Longrightarrow> keeps P (set_rs f)"
  unfolding set_rs_def by (rule keeps_modify)

lemma keeps_the_run [wp]: "keeps P the_run"
  unfolding the_run_def by (rule keeps_gets)

lemma run_ask_eq: "run_state (ask f) s = (fst (f (sy_world s)), s\<lparr>sy_world := snd (f (sy_world s))\<rparr>)"
  by (simp add: run_ask case_prod_beta)

lemma run_exec_eq:
  "run_state (exec E what f) s =
     (fst (f (fst (env_sql E what (sy_world s))) (sy_db s)),
      s\<lparr>sy_world := snd (env_sql E what (sy_world s)),
        sy_db := snd (f (fst (env_sql E what (sy_world s))) (sy_db s))\<rparr>)"
  by (simp add: exec_def run_ask_eq case_prod_beta)

lemma run_query_eq:
  "run_state (query E what f) s =
     (f (fst (env_sql E what (sy_world s))) (sy_db s), s\<lparr>sy_world := snd (env_sql E what (sy_world s))\<rparr>)"
  by (simp add: query_def run_ask_eq)

lemma run_publish [simp]: "run_state (publish ev) s = ((), s\<lparr>sy_events := sy_events s @ [ev]\<rparr>)"
  by (simp add: publish_def)

lemma run_called [simp]: "run_state (called c) s = ((), s\<lparr>sy_calls := sy_calls s @ [c]\<rparr>)"
  by (simp add: called_def)

lemma run_the_run [simp]: "run_state the_run s = (rs_run (sy_rs s), s)"
  by (simp add: the_run_def)

lemma run_set_rs [simp]: "run_state (set_rs f) s = ((), s\<lparr>sy_rs := f (sy_rs s)\<rparr>)"
  by (simp add: set_rs_def)

lemmas run_simps = run_ask_eq run_exec_eq run_query_eq case_prod_beta

text \<open>What an update of the run leaves: the new run record, and the saved row.\<close>

lemma run_update:
  "run_state (update E fn) s = ((),
     s\<lparr>sy_rs := (sy_rs s)\<lparr>rs_run := fn (rs_run (sy_rs s))\<rparr>,
       sy_world := snd (env_sql E ''save run'' (sy_world s)),
       sy_db := snd (Runs_Save (fst (env_sql E ''save run'' (sy_world s))) (fn (rs_run (sy_rs s))) (sy_db s)),
       sy_events := sy_events s @ [RunUpdated (fn (rs_run (sy_rs s)))]\<rparr>)"
  by (simp add: update_def run_simps)

section \<open>What the updates keep\<close>

text \<open>Assertions that do not look at the run record, its row, the events or the world are kept by all
  functions of this theory; \<open>frame\<close> names them.\<close>

definition frame :: "('w sys \<Rightarrow> bool) \<Rightarrow> bool" where
  "frame P \<longleftrightarrow> (\<forall>s w rs ev rows. P s \<longrightarrow>
     P (s\<lparr>sy_world := w\<rparr>) \<and> P (s\<lparr>sy_rs := rs\<rparr>) \<and> P (s\<lparr>sy_events := ev\<rparr>)
     \<and> P (s\<lparr>sy_db := (sy_db s)\<lparr>t_runs := rows\<rparr>\<rparr>))"

lemma frameD:
  assumes "frame P" and "P s"
  shows "P (s\<lparr>sy_world := w\<rparr>)" "P (s\<lparr>sy_rs := rs\<rparr>)" "P (s\<lparr>sy_events := ev\<rparr>)"
    "P (s\<lparr>sy_db := (sy_db s)\<lparr>t_runs := rows\<rparr>\<rparr>)"
  using assms by (auto simp: frame_def)

lemma Runs_Save_frame: "\<exists>rows. snd (Runs_Save flt run d) = d\<lparr>t_runs := rows\<rparr>"
proof (cases flt)
  case None
  then show ?thesis by (auto simp: Runs_Save_def)
next
  case (Some e)
  then have "snd (Runs_Save flt run d) = d\<lparr>t_runs := t_runs d\<rparr>" by (simp add: Runs_Save_def)
  then show ?thesis by blast
qed

lemma keeps_update [wp]:
  assumes "frame P"
  shows "keeps P (update E fn)"
  unfolding update_def
proof (intro keeps_bind keeps_exec keeps_publish keeps_set_rs keeps_the_run)
  fix s :: "'a sys" and flt run
  assume "P s"
  obtain rows where "snd (Runs_Save flt run (sy_db s)) = (sy_db s)\<lparr>t_runs := rows\<rparr>"
    using Runs_Save_frame by blast
  with frameD [OF assms \<open>P s\<close>] show "P (s\<lparr>sy_db := snd (Runs_Save flt run (sy_db s))\<rparr>)" by simp
qed (simp_all add: frameD [OF assms])

lemma keeps_ask_frame [wp]: "frame P \<Longrightarrow> keeps P (ask f)"
  by (rule keeps_ask) (rule frameD)

lemma keeps_query_frame [wp]: "frame P \<Longrightarrow> keeps P (query E what f)"
  by (rule keeps_query) (rule frameD)

lemma keeps_publish_frame [wp]: "frame P \<Longrightarrow> keeps P (publish ev)"
  by (rule keeps_publish) (rule frameD)

lemma keeps_stage [wp]: "frame P \<Longrightarrow> keeps P (stage E name)"
  unfolding stage_def by (intro keeps_bind keeps_ask_frame keeps_update)

lemma keeps_skippedStage [wp]: "frame P \<Longrightarrow> keeps P (skippedStage E name msg)"
  unfolding skippedStage_def by (intro keeps_bind keeps_ask_frame keeps_update)

lemma keeps_set_stage [wp]: "frame P \<Longrightarrow> keeps P (set_stage E name st msg)"
  unfolding set_stage_def by (intro keeps_bind keeps_ask_frame keeps_update)

lemma keeps_stage_Done [wp]: "frame P \<Longrightarrow> keeps P (stage_Done E name msg)"
  unfolding stage_Done_def by (rule keeps_set_stage)

lemma keeps_stage_Fail [wp]: "frame P \<Longrightarrow> keeps P (stage_Fail E name err)"
  unfolding stage_Fail_def by (intro keeps_bind keeps_set_stage keeps_return)

lemma keeps_Warn [wp]: "frame P \<Longrightarrow> keeps P (Warn msg)"
  unfolding Warn_def by (rule keeps_set_rs) (rule frameD)

lemma keeps_addArtifact [wp]: "frame P \<Longrightarrow> keeps P (addArtifact E a)"
  unfolding addArtifact_def by (intro keeps_bind keeps_update keeps_publish_frame)

lemma keeps_setResult [wp]: "frame P \<Longrightarrow> keeps P (setResult E f sha rb pb)"
  unfolding setResult_def by (rule keeps_update)

lemma stage_Fail_result: "fst (run_state (stage_Fail E name err) s) = Some err"
  by (simp add: stage_Fail_def case_prod_beta)

section \<open>Finishing\<close>

lemma close_stage_closed: "stg_Status (close_stage now msg x) \<noteq> StageRunning"
  by (simp add: close_stage_def)

lemma outcome_terminal: "Terminal (fst (outcome c1 c2 err rs))"
  by (simp add: outcome_def Let_def split: option.split)

lemma outcome_succeeded:
  "succeeded (fst (outcome c1 c2 err rs)) \<longleftrightarrow>
     err = None \<and> \<not> errIsOpt c1 Canceled \<and> \<not> errIsOpt c2 DeadlineExceeded"
  by (auto simp: outcome_def succeeded_def errIsOpt_def Let_def split: option.splits)

text \<open>The statuses as they follow from the two readings of the context in the world at hand.\<close>

definition finish_outcome :: "'w env \<Rightarrow> error option \<Rightarrow> 'w sys \<Rightarrow> RunStatus \<times> string" where
  "finish_outcome E err s =
     (let w1 = snd (env_now E (sy_world s)); w2 = snd (env_ctx E w1)
      in outcome (fst (env_ctx E w1)) (fst (env_ctx E w2)) err (sy_rs s))"

lemma keeps_finish_job_state:
  "keeps (\<lambda>s. sy_rs s = rs) (finish_job_state E st now run)"
  unfolding finish_job_state_def
  by (intro keeps_bind keeps_ask keeps_exec keeps_query keeps_publish keeps_if keeps_sum keeps_return) simp_all

lemma finish_run_record:
  "rs_run (sy_rs (snd (run_state (finish E err) s)))
     = finish_run (fst (finish_outcome E err s)) (snd (finish_outcome E err s)) (fst (env_now E (sy_world s))) (rs_run (sy_rs s))"
proof -
  have js: "sy_rs (snd (run_state (finish_job_state E st now run) t)) = sy_rs t" for st now run t
    by (rule keepsD [OF keeps_finish_job_state]) simp
  show ?thesis
    by (simp add: finish_def finish_outcome_def run_ask_eq run_update Let_def js)
qed

text \<open>Statements that never fail.\<close>

definition sql_ok :: "'w env \<Rightarrow> bool" where
  "sql_ok E \<longleftrightarrow> (\<forall>what w. fst (env_sql E what w) = None)"

lemma sql_okD [simp]: "sql_ok E \<Longrightarrow> fst (env_sql E what w) = None"
  by (simp add: sql_ok_def)

lemma find_upsert:
  assumes "find_row job_ID jobID (t_jobs d) \<noteq> None" and "\<And>r. js_JobID (f r) = js_JobID r"
  shows "find_row js_JobID jobID (t_job_state (snd (upsert_state what None jobID f d)))
    = Some (f (case find_row js_JobID jobID (t_job_state d) of None \<Rightarrow> zero_job_state jobID | Some st \<Rightarrow> st))"
proof (cases "find_row js_JobID jobID (t_job_state d)")
  case None
  then show ?thesis
    using assms by (simp add: upsert_state_def exec_err_def find_row_append zero_job_state_def)
next
  case (Some st)
  have "row_update js_JobID f jobID" by unfold_locales (simp add: assms(2))
  from row_update.find_same [OF this] Some assms(1) show ?thesis
    by (auto simp: upsert_state_def exec_err_def)
qed

lemma upsert_state_tables:
  "t_runs (snd (upsert_state what flt jobID f d)) = t_runs d
   \<and> t_jobs (snd (upsert_state what flt jobID f d)) = t_jobs d"
  by (simp add: upsert_state_def split: option.split)

lemma SetLastRun_tables [simp]:
  "t_runs (snd (SetLastRun flt now jobID sm at d)) = t_runs d"
  "t_jobs (snd (SetLastRun flt now jobID sm at d)) = t_jobs d"
  unfolding SetLastRun_def using upsert_state_tables by auto

lemma SetOverdue_tables [simp]:
  "t_runs (snd (SetOverdue flt now jobID b at d)) = t_runs d"
  "t_jobs (snd (SetOverdue flt now jobID b at d)) = t_jobs d"
  unfolding SetOverdue_def using upsert_state_tables by auto

definition state_of :: "string \<Rightarrow> db \<Rightarrow> JobState" where
  "state_of jobID d =
     (case find_row js_JobID jobID (t_job_state d) of None \<Rightarrow> zero_job_state jobID | Some st \<Rightarrow> st)"

lemma state_of_SetLastRun:
  assumes "find_row job_ID jobID (t_jobs d) \<noteq> None"
  shows "state_of jobID (snd (SetLastRun None now jobID sm at d)) =
    (state_of jobID d)\<lparr>js_LastRun := (if sum_ID sm = [] then None else Some sm),
       js_LastSuccessAt := (case nullTime at of None \<Rightarrow> js_LastSuccessAt (state_of jobID d) | Some t \<Rightarrow> Some t),
       js_LastDurationMS := sum_DurationMS sm, js_UpdatedAt := now\<rparr>"
  unfolding SetLastRun_def state_of_def
  by (subst find_upsert [OF assms]) (simp_all split: option.split)

lemma state_of_SetOverdue:
  assumes "find_row job_ID jobID (t_jobs d) \<noteq> None"
  shows "state_of jobID (snd (SetOverdue None now jobID b at d)) =
    (state_of jobID d)\<lparr>js_Overdue := b, js_OverdueNotifiedAt := nullTime at, js_UpdatedAt := now\<rparr>"
  unfolding SetOverdue_def state_of_def
  by (subst find_upsert [OF assms]) (simp_all split: option.split)

lemma finish_run_fields:
  "run_JobID (finish_run st msg now r) = run_JobID r" "run_ID (finish_run st msg now r) = run_ID r"
  "run_Status (finish_run st msg now r) = st" "run_FinishedAt (finish_run st msg now r) = Some now"
  by (simp_all add: finish_run_def)

lemma finish_job_state_db:
  fixes st now
  assumes "sql_ok E" and job: "find_row job_ID (run_JobID run) (t_jobs (sy_db s)) \<noteq> None"
  defines "s' \<equiv> snd (run_state (finish_job_state E st now run) s)"
  shows "t_runs (sy_db s') = t_runs (sy_db s)"
    and "js_LastRun (state_of (run_JobID run) (sy_db s')) = (if run_ID run = [] then None else Some (Summary run))"
    and "js_LastSuccessAt (state_of (run_JobID run) (sy_db s')) =
      (if succeeded st \<and> now \<noteq> 0 then Some now else js_LastSuccessAt (state_of (run_JobID run) (sy_db s)))"
    and "js_Overdue (state_of (run_JobID run) (sy_db s')) \<longleftrightarrow>
      \<not> succeeded st \<and> js_Overdue (state_of (run_JobID run) (sy_db s))"
proof -
  have pub: "sy_db (snd (run_state (case j of Inl e \<Rightarrow> return () | Inr job \<Rightarrow> publish (JobUpdated job)) t)) = sy_db t"
    for j :: "error + Job" and t :: "'a sys"
    by (cases j) simp_all
  show "t_runs (sy_db s') = t_runs (sy_db s)"
    unfolding s'_def finish_job_state_def using assms(1)
    by (simp add: run_simps pub)
  show "js_LastRun (state_of (run_JobID run) (sy_db s')) = (if run_ID run = [] then None else Some (Summary run))"
    and "js_LastSuccessAt (state_of (run_JobID run) (sy_db s')) =
      (if succeeded st \<and> now \<noteq> 0 then Some now else js_LastSuccessAt (state_of (run_JobID run) (sy_db s)))"
    and "js_Overdue (state_of (run_JobID run) (sy_db s')) \<longleftrightarrow>
      \<not> succeeded st \<and> js_Overdue (state_of (run_JobID run) (sy_db s))"
    unfolding s'_def finish_job_state_def using assms(1) job
    by (simp_all add: run_simps pub state_of_SetLastRun state_of_SetOverdue Summary_def nullTime_def)
qed

section \<open>Properties\<close>

text \<open>C29 (invariant): a finished run is finished. Whatever the run did and however its context ended,
  \<open>finish\<close> gives it a terminal status and an end time and leaves no stage running; and the run counts
  as successful exactly when its function returned no error and the context was neither canceled nor
  timed out when it was asked.\<close>

theorem finish_closes_run:
  "Terminal (run_Status (rs_run (sy_rs (snd (run_state (finish E err) s)))))
   \<and> run_FinishedAt (rs_run (sy_rs (snd (run_state (finish E err) s)))) = Some (fst (env_now E (sy_world s)))
   \<and> StageRunning \<notin> stg_Status ` set (run_Stages (rs_run (sy_rs (snd (run_state (finish E err) s)))))
   \<and> (succeeded (run_Status (rs_run (sy_rs (snd (run_state (finish E err) s))))) \<longleftrightarrow>
        err = None
        \<and> \<not> errIsOpt (fst (env_ctx E (snd (env_now E (sy_world s))))) Canceled
        \<and> \<not> errIsOpt (fst (env_ctx E (snd (env_ctx E (snd (env_now E (sy_world s))))))) DeadlineExceeded)"
proof -
  have "stg_Status x \<noteq> StageRunning" if "x \<in> set (map (close_stage now msg) xs)" for x now msg xs
    using that close_stage_closed by auto
  then have "StageRunning \<notin> stg_Status ` set (map (close_stage now msg) xs)" for now msg xs
    by (metis imageE)
  then show ?thesis
    unfolding finish_run_record
    by (simp add: finish_run_def finish_outcome_def outcome_terminal outcome_succeeded Let_def)
qed

text \<open>What a finished run of any kind leaves in the database when no statement fails:
  its row is the final record; the state of its job shows it as the last run; and exactly if it
  succeeded, its end becomes the last success and the job is no longer overdue.\<close>

theorem finish_records_run:
  fixes s :: "'w sys"
  assumes "sql_ok E" and "run_JobID (rs_run (sy_rs s)) \<noteq> []" and "run_ID (rs_run (sy_rs s)) \<noteq> []"
    and "find_row run_ID (run_ID (rs_run (sy_rs s))) (t_runs (sy_db s)) \<noteq> None"
    and "find_row job_ID (run_JobID (rs_run (sy_rs s))) (t_jobs (sy_db s)) \<noteq> None"
    and "fst (env_now E (sy_world s)) \<noteq> 0"
  shows "\<exists>run st d'. run = rs_run (sy_rs (snd (run_state (finish E err) s)))
    \<and> d' = sy_db (snd (run_state (finish E err) s))
    \<and> st = state_of (run_JobID (rs_run (sy_rs s))) (sy_db s)
    \<and> find_row run_ID (run_ID run) (t_runs d') = Some (run_row run)
    \<and> js_LastRun (state_of (run_JobID run) d') = Some (Summary run)
    \<and> js_LastSuccessAt (state_of (run_JobID run) d')
        = (if succeeded (run_Status run) then run_FinishedAt run else js_LastSuccessAt st)
    \<and> (js_Overdue (state_of (run_JobID run) d') \<longleftrightarrow> \<not> succeeded (run_Status run) \<and> js_Overdue st)"
proof -
  let ?o = "finish_outcome E err s" and ?now = "fst (env_now E (sy_world s))"
  let ?run = "finish_run (fst ?o) (snd ?o) ?now (rs_run (sy_rs s))"
  have ids: "run_JobID ?run = run_JobID (rs_run (sy_rs s))" "run_ID ?run = run_ID (rs_run (sy_rs s))"
    "run_Status ?run = fst ?o" "run_FinishedAt ?run = Some ?now"
    by (simp_all add: finish_run_fields)
  define t where "t = (let w = snd (env_ctx E (snd (env_ctx E (snd (env_now E (sy_world s)))))) in
     s\<lparr>sy_rs := (sy_rs s)\<lparr>rs_run := ?run\<rparr>, sy_world := snd (env_sql E ''save run'' w),
       sy_db := snd (Runs_Save None ?run (sy_db s)), sy_events := sy_events s @ [RunUpdated ?run]\<rparr>)"
  have fin: "run_state (finish E err) s = run_state (finish_job_state E (fst ?o) ?now ?run) t"
    using assms(1,2) unfolding t_def
    by (simp add: finish_def finish_outcome_def run_ask_eq run_update Let_def finish_run_fields)
  have db: "t_jobs (sy_db t) = t_jobs (sy_db s)" "t_job_state (sy_db t) = t_job_state (sy_db s)"
    "t_runs (sy_db t) = update_rows (\<lambda>r. run_ID r = run_ID ?run) (\<lambda>_. run_row ?run) (t_runs (sy_db s))"
    by (simp_all add: t_def Let_def Runs_Save_def)
  have row: "find_row run_ID (run_ID ?run) (t_runs (sy_db t)) = Some (run_row ?run)"
    using assms(4) unfolding db save.find_same by (auto simp: ids)
  have job: "find_row job_ID (run_JobID ?run) (t_jobs (sy_db t)) \<noteq> None"
    using assms(5) by (simp add: db ids)
  note js = finish_job_state_db [OF assms(1) job, of "fst ?o" ?now]
  have "state_of (run_JobID ?run) (sy_db t) = state_of (run_JobID (rs_run (sy_rs s))) (sy_db s)"
    by (simp add: state_of_def db ids)
  with js row assms(3,6) show ?thesis
    unfolding finish_run_record unfolding fin by (cases "succeeded (fst ?o)") (simp_all add: ids)
qed

text \<open>A world that works, for the witnesses: a counter as the clock, no fault anywhere.\<close>

definition demo_env :: "nat env" where
  "demo_env = \<lparr>env_now = (\<lambda>w. (int w + 1, w + 1)), env_ctx = (\<lambda>w. (None, w)), env_sql = (\<lambda>_ w. (None, w)),
     env_id = (\<lambda>w. (digits_of w, w + 1)), env_cipher = demo_cipher, env_codecs = demo_codecs,
     env_source_spec = (\<lambda>k. Some \<lparr>spec_Kind = k, spec_Label = k, spec_Fields = [], spec_Capabilities = [], spec_Tools = []\<rparr>),
     env_validate = (\<lambda>_ _. None),
     env_backup = (\<lambda>_ _ w. (Inr \<lparr>ds_Extension = ''sql'', ds_Chunks = [''data''], ds_ReadErr = None, ds_CloseErr = None\<rparr>, w)),
     env_host = (\<lambda>_ w. (Inr zero_host, w)),
     env_dest_spec = (\<lambda>k. Some \<lparr>spec_Kind = k, spec_Label = k, spec_Fields = [], spec_Capabilities = [], spec_Tools = []\<rparr>),
     env_open = (\<lambda>_ _ w. (None, w)), env_put = (\<lambda>_ _ _ _ w. (None, w)),
     env_stat = (\<lambda>_ _ _ w. (Inr (Some 4), w)), env_delete = (\<lambda>_ _ _ w. (None, w)),
     env_wait = (\<lambda>_ w. (None, w)), env_hook = (\<lambda>_ w. (None, w)),
     env_spool = (\<lambda>w. ((\<lambda>_. None, \<lambda>_. None), w)), env_spool_open = (\<lambda>w. (None, w)), env_workDir = ''/work''\<rparr>"

definition demo_run :: Run where
  "demo_run = zero_run\<lparr>run_ID := ''r'', run_JobID := ''j'', run_Kind := RunPrune, run_StartedAt := Some 1\<rparr>"

definition demo_sys :: "nat sys" where
  "demo_sys = \<lparr>sy_world = 0,
     sy_db = empty_db\<lparr>t_jobs := [zero_job\<lparr>job_ID := ''j'', job_SourceID := ''s'', job_Slug := ''db''\<rparr>], t_runs := [demo_run]\<rparr>,
     sy_rs = newRunState demo_run, sy_events = [], sy_calls = [], sy_dest_errors = []\<rparr>"

theorem finish_records_run_witness:
  "\<exists>run d'. d' = sy_db (snd (run_state (finish demo_env None) demo_sys))
     \<and> find_row run_ID (run_ID run) (t_runs d') = Some (run_row run)
     \<and> js_LastRun (state_of (run_JobID run) d') = Some (Summary run)"
proof -
  have "sql_ok demo_env" by (simp add: sql_ok_def demo_env_def)
  moreover have "run_JobID (rs_run (sy_rs demo_sys)) = ''j''" "run_ID (rs_run (sy_rs demo_sys)) = ''r''"
    by (simp_all add: demo_sys_def demo_run_def newRunState_def)
  moreover have "find_row run_ID ''r'' (t_runs (sy_db demo_sys)) \<noteq> None" "find_row job_ID ''j'' (t_jobs (sy_db demo_sys)) \<noteq> None"
    by (simp_all add: demo_sys_def demo_run_def find_row_def empty_db_def zero_job_def)
  moreover have "fst (env_now demo_env (sy_world demo_sys)) \<noteq> 0" by (simp add: demo_env_def)
  ultimately show ?thesis
    using finish_records_run [of demo_env demo_sys None] by auto
qed

end
