(* ===== verification/Pipeline.thy ===== *)
theory Pipeline
  imports Run_State Retention
begin

text \<open>
  What a run does (package \<open>internal/engine\<close>: runner.go, prune.go, ingest.go, and the driver
  lookups of drivers.go and hosts.go): the backup, prune, verify and ingest runs with all their
  stages, the upload with its retries, verification, retention, and the hooks. Errors are values:
  a Go function that returns \<open>error\<close> returns an \<^typ>\<open>error option\<close> here.
\<close>

section \<open>Drivers\<close>

definition DestinationConfig :: "'w env \<Rightarrow> Destination \<Rightarrow> Config result" where
  "DestinationConfig E d =
     (case env_dest_spec E (dst_Kind d) of
        None \<Rightarrow> Inl (errNew (''unknown destination driver \"'' @ dst_Kind d @ [CHR 0x22]))
      | Some spec \<Rightarrow> DecryptConfig (env_cipher E) (dst_Config d) (SecretFields spec))"

text \<open>A client is the configuration it was opened with.\<close>

definition OpenDestination :: "'w env \<Rightarrow> Destination \<Rightarrow> ('w, Config result) run" where
  "OpenDestination E d =
     (case DestinationConfig E d of
        Inl e \<Rightarrow> return (Inl e)
      | Inr cfg \<Rightarrow> do {
          r \<leftarrow> ask (env_open E (dst_Kind d) cfg);
          return (case r of Some e \<Rightarrow> Inl (wrapf (''open destination '' @ dst_Name d) e) | None \<Rightarrow> Inr cfg) })"

definition LoadHost :: "'w env \<Rightarrow> string \<Rightarrow> ('w, Host result) run" where
  "LoadHost E hostID = do {
     r \<leftarrow> ask (env_host E hostID);
     return (case r of
       Inl e \<Rightarrow> Inl (wrapf ''load host'' e)
     | Inr stored \<Rightarrow>
         (case DecryptHost (env_cipher E) stored of
            Inl e \<Rightarrow> Inl (wrapf (''load host '' @ host_Name stored) e)
          | Inr host \<Rightarrow> Inr host)) }"

definition attachHost :: "'w env \<Rightarrow> DriverSpec \<Rightarrow> string \<Rightarrow> Config \<Rightarrow> ('w, Config result) run" where
  "attachHost E spec hostID cfg =
     (if TrimSpace hostID = [] then return (Inr cfg)
      else if \<not> DriverSpec_Has spec CapRemote
      then return (Inl (errNew (''source driver '' @ spec_Kind spec @ '' cannot run on a host'')))
      else do {
        r \<leftarrow> LoadHost E hostID;
        return (case r of Inl e \<Rightarrow> Inl e | Inr host \<Rightarrow> Inr (Config_WithHost cfg (Some host) [])) })"

definition SourceRuntime :: "'w env \<Rightarrow> Source \<Rightarrow> ('w, Config result) run" where
  "SourceRuntime E src =
     (case env_source_spec E (src_Kind src) of
        None \<Rightarrow> return (Inl (errNew (''unknown source driver \"'' @ src_Kind src @ [CHR 0x22])))
      | Some spec \<Rightarrow>
          (case DecryptConfig (env_cipher E) (src_Config src) (SecretFields spec) of
             Inl e \<Rightarrow> return (Inl e)
           | Inr cfg \<Rightarrow> attachHost E spec (src_HostID src) cfg))"

section \<open>Loading\<close>

definition get_job :: "'w env \<Rightarrow> string \<Rightarrow> ('w, Job result) run" where
  "get_job E jobID = do {
     flt_join \<leftarrow> ask (env_sql E ''join'');
     query E ''get job'' (\<lambda>flt. Jobs_Get flt flt_join jobID) }"

definition get_destination :: "'w env \<Rightarrow> string \<Rightarrow> ('w, Destination result) run" where
  "get_destination E rid = do {
     flt_usage \<leftarrow> ask (env_sql E ''usage'');
     flt_counts \<leftarrow> ask (env_sql E ''counts'');
     query E ''get destination'' (\<lambda>flt. Destinations_Get flt flt_usage flt_counts rid) }"

definition get_source :: "'w env \<Rightarrow> string \<Rightarrow> ('w, Source result) run" where
  "get_source E rid = do {
     flt_counts \<leftarrow> ask (env_sql E ''counts'');
     query E ''get source'' (\<lambda>flt. Sources_Get flt flt_counts rid) }"

fun load_loop :: "'w env \<Rightarrow> Destination list \<Rightarrow> string list \<Rightarrow> ('w, Destination list result) run" where
  "load_loop E out [] = return (Inr out)"
| "load_loop E out (i # is) = do {
     r \<leftarrow> get_destination E i;
     (case r of
        Inl e \<Rightarrow> return (Inl (wrapf (''load destination '' @ i) e))
      | Inr d \<Rightarrow> load_loop E (out @ [d]) is) }"

definition loadDestinations :: "'w env \<Rightarrow> Job \<Rightarrow> ('w, Destination list result) run" where
  "loadDestinations E job = load_loop E [] (job_DestinationIDs job)"

definition jobPassphrase :: "'w env \<Rightarrow> Job \<Rightarrow> string result" where
  "jobPassphrase E job =
     (if job_EncryptionPassphrase job = [] then Inr []
      else (case Decrypt (env_cipher E) (job_EncryptionPassphrase job) of
              Inl e \<Rightarrow> Inl (wrapf ''read job passphrase'' e)
            | Inr p \<Rightarrow> Inr p))"

definition settings :: "'w env \<Rightarrow> ('w, Settings) run" where
  "settings E = do {
     r \<leftarrow> query E ''get settings'' (\<lambda>flt. Settings_Get flt);
     return (case r of (st, None) \<Rightarrow> st | (_, Some _) \<Rightarrow> DefaultSettings) }"

section \<open>Upload with retries\<close>

definition maxRetryBackoff :: duration where
  "maxRetryBackoff = 10 * Minute"

text \<open>The loop of \<open>backoff\<close> runs \<open>step - 1\<close> times; the duration is an \<open>int64\<close>.\<close>

fun backoff_loop :: "nat \<Rightarrow> duration \<Rightarrow> duration" where
  "backoff_loop 0 wait = (if wait > maxRetryBackoff then maxRetryBackoff else wait)"
| "backoff_loop (Suc n) wait =
     (let wait' = wrap64 (wait * 2)
      in if wait' \<ge> maxRetryBackoff then maxRetryBackoff else backoff_loop n wait')"

definition backoff :: "duration \<Rightarrow> int \<Rightarrow> duration" where
  "backoff base step = backoff_loop (nat (step - 1)) base"

definition putOnce :: "'w env \<Rightarrow> Destination \<Rightarrow> string \<Rightarrow> string \<Rightarrow> ('w, error option) run" where
  "putOnce E d content path = do {
     c \<leftarrow> OpenDestination E d;
     (case c of
        Inl e \<Rightarrow> return (Some e)
      | Inr cfg \<Rightarrow> do {
          f \<leftarrow> ask (env_spool_open E);
          (case f of
             Some e \<Rightarrow> return (Some (wrapf ''open spool file'' e))
           | None \<Rightarrow> do {
               r \<leftarrow> ask (env_put E (dst_Kind d) cfg path content);
               called (CallPut d path content r);
               return (map_option (wrapf (''upload to '' @ dst_Name d)) r) }) }) }"

text \<open>The loop over the attempts: \<open>n\<close> are left, \<open>attempt\<close> is the number of the next.\<close>

fun upload_loop ::
  "'w env \<Rightarrow> Destination \<Rightarrow> string \<Rightarrow> string \<Rightarrow> duration \<Rightarrow> nat \<Rightarrow> int \<Rightarrow> error option \<Rightarrow> ('w, error option) run" where
  "upload_loop E d content path delay 0 attempt lastErr = return lastErr"
| "upload_loop E d content path delay (Suc n) attempt lastErr = do {
     c \<leftarrow> ask (env_ctx E);
     (case c of
        Some e \<Rightarrow> return (Some e)
      | None \<Rightarrow> do {
          w \<leftarrow> (if attempt > 1
                then do { called (CallWait (backoff delay (attempt - 1))); ask (env_wait E (backoff delay (attempt - 1))) }
                else return None);
          (case w of
             Some e \<Rightarrow> return (Some e)
           | None \<Rightarrow> do {
               r \<leftarrow> putOnce E d content path;
               (case r of
                  None \<Rightarrow> return None
                | Some e \<Rightarrow>
                    if errIs e Canceled \<or> errIs e DeadlineExceeded then return (Some e)
                    else upload_loop E d content path delay n (attempt + 1) (Some e)) }) }) }"

definition attempts_of :: "Job \<Rightarrow> int" where
  "attempts_of job = (let n = wrap64 (job_Retries job + 1) in if n < 1 then 1 else n)"

definition retry_delay :: "Job \<Rightarrow> duration" where
  "retry_delay job =
     (let d = wrap64 (job_RetryDelaySeconds job * Second) in if d \<le> 0 then 5 * Second else d)"

definition uploadOne :: "'w env \<Rightarrow> Job \<Rightarrow> Destination \<Rightarrow> string \<Rightarrow> string \<Rightarrow> ('w, error option) run" where
  "uploadOne E job d content path =
     upload_loop E d content path (retry_delay job) (nat (attempts_of job)) 1 None"

definition extensionOf :: "string \<Rightarrow> string" where
  "extensionOf filename = snd (snd (DetectPack filename))"

definition dest_error :: "string \<Rightarrow> ('w, unit) run" where
  "dest_error name = modify (\<lambda>s. s\<lparr>sy_dest_errors := sy_dest_errors s @ [name]\<rparr>)"

definition new_artifact ::
  "Job \<Rightarrow> Source \<Rightarrow> string \<Rightarrow> Destination \<Rightarrow> spool \<Rightarrow> string \<Rightarrow> string \<Rightarrow> PackOptions \<Rightarrow> time \<Rightarrow> Artifact" where
  "new_artifact job src runID d sp path filename opts now =
     zero_artifact\<lparr>art_JobID := job_ID job, art_JobSlug := job_Slug job, art_JobName := job_Name job,
       art_RunID := runID, art_DestinationID := dst_ID d, art_DestinationName := dst_Name d,
       art_DestinationKind := dst_Kind d, art_Path := path, art_Filename := filename,
       art_Size := sp_PackedBytes sp, art_SHA256 := sp_SHA256 sp, art_Compression := po_Compression opts,
       art_Encryption := po_Encryption opts, art_SourceKind := src_Kind src,
       art_Extension := extensionOf filename, art_Status := ArtifactPresent, art_CreatedAt := now\<rparr>"

definition count_msg :: "int \<Rightarrow> string \<Rightarrow> string" where
  "count_msg n rest = Itoa n @ rest"

definition record_upload ::
  "'w env \<Rightarrow> Job \<Rightarrow> Source \<Rightarrow> spool \<Rightarrow> string \<Rightarrow> string \<Rightarrow> PackOptions
   \<Rightarrow> Artifact list \<times> nat \<Rightarrow> Destination \<Rightarrow> ('w, Artifact list \<times> nat) run" where
  "record_upload E job src sp path filename opts acc d = do {
     let name = ''upload:'' @ dst_Name d;
     run \<leftarrow> the_run;
     now \<leftarrow> ask (env_now E);
     newID \<leftarrow> ask (env_id E);
     saved \<leftarrow> exec E ''create artifact''
       (\<lambda>flt. Artifacts_Create flt newID now (new_artifact job src (run_ID run) d sp path filename opts now));
     (case saved of
        Inl e \<Rightarrow> do { set_stage E name StageFailed (Error e); return (fst acc, snd acc + 1) }
      | Inr a \<Rightarrow> do {
          addArtifact E a;
          stage_Done E name (count_msg (sp_PackedBytes sp) '' bytes'');
          return (fst acc @ [a], snd acc) }) }"

definition upload_dest ::
  "'w env \<Rightarrow> Job \<Rightarrow> Source \<Rightarrow> spool \<Rightarrow> string \<Rightarrow> string \<Rightarrow> string \<Rightarrow> PackOptions
   \<Rightarrow> Artifact list \<times> nat \<Rightarrow> Destination \<Rightarrow> ('w, Artifact list \<times> nat) run" where
  "upload_dest E job src sp content path filename opts acc d = do {
     stage E (''upload:'' @ dst_Name d);
     err \<leftarrow> uploadOne E job d content path;
     (case err of
        Some e \<Rightarrow> do {
          dest_error (dst_Name d);
          set_stage E (''upload:'' @ dst_Name d) StageFailed (Error e);
          return (fst acc, snd acc + 1) }
      | None \<Rightarrow> record_upload E job src sp path filename opts acc d) }"

definition uploadAll ::
  "'w env \<Rightarrow> Job \<Rightarrow> Source \<Rightarrow> Destination list \<Rightarrow> spool \<Rightarrow> string \<Rightarrow> string \<Rightarrow> string \<Rightarrow> PackOptions
   \<Rightarrow> ('w, Artifact list result) run" where
  "uploadAll E job src destinations sp content path filename opts = do {
     acc \<leftarrow> foldM (upload_dest E job src sp content path filename opts) ([], 0) destinations;
     let artifacts = fst acc;
     let failures = snd acc;
     (if 0 < failures \<and> artifacts = []
      then return (Inl (errNew (''all '' @ digits_of failures @ '' destination(s) failed'')))
      else do {
        (if 0 < failures
         then Warn (digits_of failures @ '' of '' @ digits_of (length destinations) @ '' destinations failed'')
         else return ());
        return (Inr artifacts) }) }"

section \<open>Verification\<close>

definition mark_missing :: "'w env \<Rightarrow> Artifact \<Rightarrow> ('w, unit) run" where
  "mark_missing E a = do {
     now \<leftarrow> ask (env_now E);
     _ \<leftarrow> exec E ''set artifact status'' (\<lambda>flt. Artifacts_SetStatus flt (art_ID a) ArtifactMissing now);
     publish (ArtifactUpdated (a\<lparr>art_Status := ArtifactMissing\<rparr>)) }"

definition verifyOne :: "'w env \<Rightarrow> Destination \<Rightarrow> Artifact \<Rightarrow> ('w, error option) run" where
  "verifyOne E d a = do {
     c \<leftarrow> OpenDestination E d;
     (case c of
        Inl e \<Rightarrow> return (Some e)
      | Inr cfg \<Rightarrow> do {
          obj \<leftarrow> ask (env_stat E (dst_Kind d) cfg (art_Path a));
          called (CallStat d (art_Path a) obj);
          (case obj of
             Inl e \<Rightarrow> do { mark_missing E a; return (Some e) }
           | Inr None \<Rightarrow> do { mark_missing E a; return (Some (errNew ''object not found on destination'')) }
           | Inr (Some found) \<Rightarrow>
               if found \<noteq> art_Size a then do {
                 mark_missing E a;
                 return (Some (errNew (''size mismatch: expected '' @ Itoa (art_Size a) @ '', found '' @ Itoa found))) }
               else do {
                 now \<leftarrow> ask (env_now E);
                 err \<leftarrow> exec E ''set artifact verified'' (\<lambda>flt. Artifacts_SetVerified flt (art_ID a) now);
                 (case err of
                    Some e \<Rightarrow> return (Some e)
                  | None \<Rightarrow> do { publish (ArtifactUpdated (a\<lparr>art_VerifiedAt := Some now\<rparr>)); return None }) }) }) }"

text \<open>The map \<open>byID\<close>: the last destination with an identifier counts.\<close>

definition byID :: "Destination list \<Rightarrow> string \<Rightarrow> Destination option" where
  "byID destinations i = find (\<lambda>d. dst_ID d = i) (rev destinations)"

definition verify_step :: "'w env \<Rightarrow> Destination list \<Rightarrow> nat \<Rightarrow> Artifact \<Rightarrow> ('w, nat) run" where
  "verify_step E destinations problems a =
     (case byID destinations (art_DestinationID a) of
        None \<Rightarrow> return problems
      | Some d \<Rightarrow> do {
          err \<leftarrow> verifyOne E d a;
          (case err of
             None \<Rightarrow> return problems
           | Some e \<Rightarrow> do { dest_error (dst_Name d); return (problems + 1) }) })"

definition verifyArtifacts :: "'w env \<Rightarrow> Destination list \<Rightarrow> Artifact list \<Rightarrow> ('w, unit) run" where
  "verifyArtifacts E destinations artifacts = do {
     stage E ''verify'';
     problems \<leftarrow> foldM (verify_step E destinations) 0 artifacts;
     (if 0 < problems then do {
        Warn (digits_of problems @ '' artifact(s) failed verification'');
        set_stage E ''verify'' StageFailed (digits_of problems @ '' artifact(s) failed verification'') }
      else stage_Done E ''verify'' (digits_of (length artifacts) @ '' artifact(s) verified'')) }"

section \<open>Retention\<close>

text \<open>The loop stops with an error when the context has ended; other errors skip the artifact.\<close>

fun prune_loop ::
  "'w env \<Rightarrow> Destination \<Rightarrow> Config \<Rightarrow> nat \<Rightarrow> error option \<Rightarrow> Artifact list \<Rightarrow> ('w, nat \<times> error option) run" where
  "prune_loop E d cfg removed lastErr [] = return (removed, lastErr)"
| "prune_loop E d cfg removed lastErr (a # as) = do {
     c \<leftarrow> ask (env_ctx E);
     (case c of
        Some e \<Rightarrow> return (removed, Some e)
      | None \<Rightarrow> do {
          r \<leftarrow> ask (env_delete E (dst_Kind d) cfg (art_Path a));
          called (CallDelete d (art_Path a) r);
          (case r of
             Some e \<Rightarrow> prune_loop E d cfg removed (Some (wrapf (''delete '' @ art_Path a @ '' on '' @ dst_Name d) e)) as
           | None \<Rightarrow> do {
               now \<leftarrow> ask (env_now E);
               err \<leftarrow> exec E ''set artifact status'' (\<lambda>flt. Artifacts_SetStatus flt (art_ID a) ArtifactPruned now);
               (case err of
                  Some e \<Rightarrow> prune_loop E d cfg removed (Some e) as
                | None \<Rightarrow> do {
                    publish (ArtifactUpdated (a\<lparr>art_Status := ArtifactPruned\<rparr>));
                    prune_loop E d cfg (removed + 1) lastErr as }) }) }) }"

definition pruneArtifacts :: "'w env \<Rightarrow> Destination \<Rightarrow> Artifact list \<Rightarrow> ('w, nat \<times> error option) run" where
  "pruneArtifacts E d remove = do {
     c \<leftarrow> OpenDestination E d;
     (case c of
        Inl e \<Rightarrow> return (0, Some e)
      | Inr cfg \<Rightarrow> prune_loop E d cfg 0 None remove) }"

definition retention_step :: "'w env \<Rightarrow> Job \<Rightarrow> Retention \<Rightarrow> nat \<times> nat \<Rightarrow> Destination \<Rightarrow> ('w, nat \<times> nat) run" where
  "retention_step E job retention acc d = do {
     r \<leftarrow> query E ''list job artifacts''
       (\<lambda>flt. Artifacts_ForJobDestination flt (job_ID job) (dst_ID d) ArtifactPresent);
     (case r of
        Inl e \<Rightarrow> return (fst acc, snd acc + 1)
      | Inr items \<Rightarrow> do {
          now \<leftarrow> ask (env_now E);
          let remove = snd (Plan items retention now);
          (if remove = [] then return acc
           else do {
             p \<leftarrow> pruneArtifacts E d remove;
             return (fst acc + fst p, if snd p \<noteq> None then snd acc + 1 else snd acc) }) }) }"

definition applyRetention :: "'w env \<Rightarrow> Job \<Rightarrow> Destination list \<Rightarrow> ('w, unit) run" where
  "applyRetention E job destinations = do {
     stage E ''retention'';
     st \<leftarrow> settings E;
     let retention = EffectiveRetention job st;
     (if Retention_IsZero retention then stage_Done E ''retention'' ''no retention configured''
      else do {
        acc \<leftarrow> foldM (retention_step E job retention) (0, 0) destinations;
        let removed = fst acc;
        let problems = snd acc;
        (if 0 < problems then do {
           Warn ''retention encountered errors'';
           set_stage E ''retention'' StageFailed
             (digits_of problems @ '' destination(s) failed, '' @ digits_of removed @ '' artifact(s) removed'') }
         else stage_Done E ''retention'' (digits_of removed @ '' artifact(s) removed'')) }) }"

section \<open>Hooks and the runs\<close>

definition runHook :: "'w env \<Rightarrow> string \<Rightarrow> string \<Rightarrow> ('w, error option) run" where
  "runHook E name command =
     (if TrimSpace command = [] then do { skippedStage E name ''not configured''; return None }
      else do {
        stage E name;
        err \<leftarrow> ask (env_hook E command);
        called (CallHook command err);
        (case err of
           Some e \<Rightarrow> stage_Fail E name (wrapf (name @ '' failed'') e)
         | None \<Rightarrow> do { stage_Done E name ''ok''; return None }) })"

definition orNone :: "string \<Rightarrow> string" where
  "orNone v = (if v = [] then ''none'' else v)"

definition Encryption_str :: "Encryption \<Rightarrow> string" where
  "Encryption_str e = (case e of EncryptionEmpty \<Rightarrow> [] | EncryptionNone \<Rightarrow> ''none'' | EncryptionAge \<Rightarrow> ''age''
     | EncryptionOther s \<Rightarrow> s)"

definition pack_message :: "PackOptions \<Rightarrow> string" where
  "pack_message opts =
     (if passthrough opts then ''pass-through''
      else ''compression='' @ orNone (Compression_str (po_Compression opts))
           @ '' encryption='' @ orNone (Encryption_str (po_Encryption opts)))"

definition dests_msg :: "Destination list \<Rightarrow> string" where
  "dests_msg ds = digits_of (length ds) @ '' destination(s)''"

text \<open>The part of a backup after the spool was created; \<open>content\<close> is what the spool file holds.\<close>

definition upload_and_prune ::
  "'w env \<Rightarrow> Job \<Rightarrow> Source \<Rightarrow> Destination list \<Rightarrow> spool \<Rightarrow> string \<Rightarrow> string \<Rightarrow> PackOptions \<Rightarrow> ('w, error option) run" where
  "upload_and_prune E job src destinations sp content filename opts = do {
     r \<leftarrow> uploadAll E job src destinations sp content (BuildPath (job_Slug job) filename) filename opts;
     (case r of
        Inl e \<Rightarrow> return (Some e)
      | Inr artifacts \<Rightarrow> do {
          (if job_VerifyAfterUpload job then verifyArtifacts E destinations artifacts
           else skippedStage E ''verify'' ''disabled'');
          applyRetention E job destinations;
          return None }) }"

definition notify_stage :: "'w env \<Rightarrow> ('w, unit) run" where
  "notify_stage E = do { stage E ''notify''; stage_Done E ''notify'' ''queued'' }"

definition backup_body ::
  "'w env \<Rightarrow> Job \<Rightarrow> Source \<Rightarrow> Destination list \<Rightarrow> PackOptions \<Rightarrow> dump_stream \<Rightarrow> spool \<Rightarrow> string \<Rightarrow> ('w, error option) run" where
  "backup_body E job src destinations opts stream sp0 filename = do {
     faults \<leftarrow> ask (env_spool E);
     (case Fill (env_codecs E) (fst faults) (snd faults) (ds_Chunks stream) (ds_ReadErr stream) opts sp0 of
        Inl e \<Rightarrow> stage_Fail E ''dump'' (wrapf ''dump failed'' e)
      | Inr (sp, content) \<Rightarrow>
          (case ds_CloseErr stream of
             Some e \<Rightarrow> stage_Fail E ''dump'' (wrapf ''dump did not complete'' e)
           | None \<Rightarrow> do {
               stage_Done E ''dump'' (count_msg (sp_RawBytes sp) '' bytes read'');
               stage E ''pack'';
               setResult E filename (sp_SHA256 sp) (sp_RawBytes sp) (sp_PackedBytes sp);
               stage_Done E ''pack'' (pack_message opts @ '', '' @ count_msg (sp_PackedBytes sp) '' bytes'');
               err \<leftarrow> upload_and_prune E job src destinations sp content filename opts;
               (case err of
                  Some e \<Rightarrow> return (Some e)
                | None \<Rightarrow> do {
                    hook \<leftarrow> runHook E ''post-command'' (job_PostCommand job);
                    (case hook of
                       Some e \<Rightarrow> return (Some e)
                     | None \<Rightarrow> do { notify_stage E; return None }) }) })) }"

definition backup_dump ::
  "'w env \<Rightarrow> Job \<Rightarrow> Source \<Rightarrow> Config \<Rightarrow> Destination list \<Rightarrow> PackOptions \<Rightarrow> ('w, error option) run" where
  "backup_dump E job src srcCfg destinations opts = do {
     pre \<leftarrow> runHook E ''pre-command'' (job_PreCommand job);
     (case pre of
        Some e \<Rightarrow> return (Some e)
      | None \<Rightarrow> do {
          stage E ''dump'';
          dump \<leftarrow> ask (env_backup E (src_Kind src) srcCfg);
          (case dump of
             Inl e \<Rightarrow> stage_Fail E ''dump'' (wrapf ''dump failed'' e)
           | Inr stream \<Rightarrow> do {
               now \<leftarrow> ask (env_now E);
               let filename = BuildFilename (job_Slug job) (ds_Extension stream) now opts;
               run \<leftarrow> the_run;
               faults \<leftarrow> ask (env_spool E);
               (case newSpool (snd faults) (env_workDir E) (run_ID run) filename of
                  Inl e \<Rightarrow> stage_Fail E ''dump'' e
                | Inr sp \<Rightarrow> do {
                    err \<leftarrow> backup_body E job src destinations opts stream sp filename;
                    called (CallCleanup (sp_dir sp));
                    return err }) }) }) }"

definition job_options :: "Job \<Rightarrow> string \<Rightarrow> PackOptions" where
  "job_options job passphrase = \<lparr>po_Compression = job_Compression job, po_Level = job_CompressionLevel job,
     po_Encryption = job_Encryption job, po_Passphrase = passphrase\<rparr>"

definition no_destinations :: error where
  "no_destinations = errNew ''job has no destinations''"

definition passphrase_missing :: error where
  "passphrase_missing = errNew ''encryption passphrase is required for age encryption''"

definition runBackup :: "'w env \<Rightarrow> string \<Rightarrow> ('w, error option) run" where
  "runBackup E jobID = do {
     stage E ''prepare'';
     rj \<leftarrow> get_job E jobID;
     (case rj of Inl e \<Rightarrow> stage_Fail E ''prepare'' e | Inr job \<Rightarrow> do {
     rsrc \<leftarrow> get_source E (job_SourceID job);
     (case rsrc of Inl e \<Rightarrow> stage_Fail E ''prepare'' (wrapf ''load source'' e) | Inr src \<Rightarrow> do {
     rcfg \<leftarrow> SourceRuntime E src;
     (case rcfg of Inl e \<Rightarrow> stage_Fail E ''prepare'' e | Inr srcCfg \<Rightarrow>
     (case env_validate E (src_Kind src) srcCfg of
        Some e \<Rightarrow> stage_Fail E ''prepare'' (wrapf (''source '' @ src_Name src) e)
      | None \<Rightarrow> do {
     rds \<leftarrow> loadDestinations E job;
     (case rds of Inl e \<Rightarrow> stage_Fail E ''prepare'' e | Inr destinations \<Rightarrow>
     (if destinations = [] then stage_Fail E ''prepare'' no_destinations
      else (case jobPassphrase E job of Inl e \<Rightarrow> stage_Fail E ''prepare'' e | Inr passphrase \<Rightarrow>
     (let opts = job_options job passphrase in
      if po_Encryption opts = EncryptionAge \<and> po_Passphrase opts = []
      then stage_Fail E ''prepare'' passphrase_missing
      else do {
        stage_Done E ''prepare'' (dests_msg destinations);
        backup_dump E job src srcCfg destinations opts })))) })) }) }) }"

definition runPrune :: "'w env \<Rightarrow> string \<Rightarrow> ('w, error option) run" where
  "runPrune E jobID = do {
     stage E ''prepare'';
     rj \<leftarrow> get_job E jobID;
     (case rj of Inl e \<Rightarrow> stage_Fail E ''prepare'' e | Inr job \<Rightarrow> do {
     rds \<leftarrow> loadDestinations E job;
     (case rds of Inl e \<Rightarrow> stage_Fail E ''prepare'' e | Inr destinations \<Rightarrow> do {
        stage_Done E ''prepare'' (dests_msg destinations);
        applyRetention E job destinations;
        return None }) }) }"

definition runVerify :: "'w env \<Rightarrow> string \<Rightarrow> ('w, error option) run" where
  "runVerify E artifactID = do {
     stage E ''prepare'';
     ra \<leftarrow> query E ''get artifact'' (\<lambda>flt. Artifacts_Get flt artifactID);
     (case ra of Inl e \<Rightarrow> stage_Fail E ''prepare'' e | Inr artifact \<Rightarrow> do {
     rd \<leftarrow> get_destination E (art_DestinationID artifact);
     (case rd of Inl e \<Rightarrow> stage_Fail E ''prepare'' (wrapf ''load destination'' e) | Inr d \<Rightarrow> do {
        stage_Done E ''prepare'' (art_Filename artifact);
        stage E ''verify'';
        err \<leftarrow> verifyOne E d artifact;
        (case err of
           Some e \<Rightarrow> do { Warn (Error e); set_stage E ''verify'' StageFailed (Error e); return None }
         | None \<Rightarrow> do {
             setResult E (art_Filename artifact) (art_SHA256 artifact) 0 (art_Size artifact);
             stage_Done E ''verify'' ''artifact present and the size matches'';
             return None }) }) }) }"

section \<open>Ingest\<close>

record IngestOptions =
  io_Filename :: string
  io_SHA256 :: string
  io_Packed :: bool
  io_Size :: int
  io_CreatedBy :: string

definition original_name :: "string \<Rightarrow> string" where
  "original_name filename = (let b = Base (TrimSpace filename) in if b = ''.'' \<or> b = ''/'' then [] else b)"

definition ingest_options :: "Job \<Rightarrow> IngestOptions \<Rightarrow> string \<Rightarrow> PackOptions \<times> string" where
  "ingest_options job opts passphrase =
     (let original = original_name (io_Filename opts);
          (compression, encryption, detected) = DetectPack original;
          ext = (if detected = [] then ''bin'' else detected)
      in if io_Packed opts
         then (\<lparr>po_Compression = compression, po_Level = 0, po_Encryption = encryption, po_Passphrase = passphrase\<rparr>, ext)
         else (job_options job passphrase, ext))"

definition zero_options :: PackOptions where
  "zero_options = \<lparr>po_Compression = CompressionEmpty, po_Level = 0, po_Encryption = EncryptionEmpty, po_Passphrase = []\<rparr>"

text \<open>\<open>io.TeeReader\<close> hashes the bytes that were read, so on success all of them.\<close>

definition checksum_mismatch :: "'w env \<Rightarrow> IngestOptions \<Rightarrow> string list \<Rightarrow> spool \<Rightarrow> error option" where
  "checksum_mismatch E opts chunks sp =
     (let want = ToLower (TrimSpace (io_SHA256 opts));
          got = (if io_Packed opts then sp_SHA256 sp else hex_encode (sha256 (env_codecs E) (concat chunks)))
      in if want \<noteq> [] \<and> want \<noteq> got
         then Some (errNew (''sha256 mismatch: expected '' @ want @ '', received '' @ got))
         else None)"

definition ingest_body ::
  "'w env \<Rightarrow> Job \<Rightarrow> Source \<Rightarrow> Destination list \<Rightarrow> IngestOptions \<Rightarrow> PackOptions \<Rightarrow> string list \<Rightarrow> error option
   \<Rightarrow> spool \<Rightarrow> string \<Rightarrow> ('w, error option) run" where
  "ingest_body E job src destinations opts packOpts chunks body_err sp0 filename = do {
     faults \<leftarrow> ask (env_spool E);
     (case Fill (env_codecs E) (fst faults) (snd faults) chunks body_err
             (if io_Packed opts then zero_options else packOpts) sp0 of
        Inl e \<Rightarrow> stage_Fail E ''receive'' e
      | Inr (sp, content) \<Rightarrow>
          (case checksum_mismatch E opts chunks sp of
             Some e \<Rightarrow> stage_Fail E ''receive'' e
           | None \<Rightarrow> do {
               stage_Done E ''receive'' (count_msg (sp_PackedBytes sp) '' bytes received'');
               stage E ''pack'';
               setResult E filename (sp_SHA256 sp) (sp_RawBytes sp) (sp_PackedBytes sp);
               stage_Done E ''pack''
                 (if io_Packed opts then ''already packed by the client''
                  else if passthrough packOpts then ''pass-through''
                  else pack_message packOpts @ '', '' @ count_msg (sp_PackedBytes sp) '' bytes'');
               err \<leftarrow> upload_and_prune E job src destinations sp content filename packOpts;
               (case err of
                  Some e \<Rightarrow> return (Some e)
                | None \<Rightarrow> do { notify_stage E; return None }) })) }"

definition runIngest ::
  "'w env \<Rightarrow> Job \<Rightarrow> string list \<Rightarrow> error option \<Rightarrow> IngestOptions \<Rightarrow> ('w, error option) run" where
  "runIngest E job chunks body_err opts = do {
     stage E ''prepare'';
     rsrc \<leftarrow> get_source E (job_SourceID job);
     (case rsrc of Inl e \<Rightarrow> stage_Fail E ''prepare'' (wrapf ''load source'' e) | Inr src \<Rightarrow> do {
     rds \<leftarrow> loadDestinations E job;
     (case rds of Inl e \<Rightarrow> stage_Fail E ''prepare'' e | Inr destinations \<Rightarrow>
     (if destinations = [] then stage_Fail E ''prepare'' no_destinations
      else (case jobPassphrase E job of Inl e \<Rightarrow> stage_Fail E ''prepare'' e | Inr passphrase \<Rightarrow>
     (let (packOpts, ext) = ingest_options job opts passphrase in
      if \<not> io_Packed opts \<and> po_Encryption packOpts = EncryptionAge \<and> passphrase = []
      then stage_Fail E ''prepare'' passphrase_missing
      else do {
        now \<leftarrow> ask (env_now E);
        let filename = BuildFilename (job_Slug job) ext now packOpts;
        stage_Done E ''prepare'' (dests_msg destinations);
        stage E ''receive'';
        run \<leftarrow> the_run;
        faults \<leftarrow> ask (env_spool E);
        (case newSpool (snd faults) (env_workDir E) (run_ID run) filename of
           Inl e \<Rightarrow> stage_Fail E ''receive'' e
         | Inr sp \<Rightarrow> do {
             err \<leftarrow> ingest_body E job src destinations opts packOpts chunks body_err sp filename;
             called (CallCleanup (sp_dir sp));
             return err }) })))) }) }"

end
