(* ===== verification/Pipeline_Calls.thy ===== *)
theory Pipeline_Calls
  imports Pipeline
begin

text \<open>
  What the runs of Pipeline.thy do to the outside: a small logic for the calls a computation makes,
  and with it the retry discipline of the upload, the order of uploads and deletions in a backup,
  and the checksum gate of an ingest.
\<close>

section \<open>Calls made by a computation\<close>

text \<open>\<open>emits m R\<close>: \<open>m\<close> appends calls \<open>cs\<close> to the history, and its result and \<open>cs\<close> satisfy
  \<open>R\<close>. The rules below are collected in \<open>emit\<close> and follow the code top down.\<close>

named_theorems emit \<open>rules for the calls of a computation\<close>

definition emits :: "('w, 'a) run \<Rightarrow> ('a \<Rightarrow> call list \<Rightarrow> bool) \<Rightarrow> bool" where
  "emits m R \<longleftrightarrow> (\<forall>s. \<exists>cs. sy_calls (snd (run_state m s)) = sy_calls s @ cs \<and> R (fst (run_state m s)) cs)"

lemma emitsD: "emits m R \<Longrightarrow> \<exists>cs. sy_calls (snd (run_state m s)) = sy_calls s @ cs \<and> R (fst (run_state m s)) cs"
  by (simp add: emits_def)

lemma emits_weaken: "emits m R \<Longrightarrow> (\<And>x cs. R x cs \<Longrightarrow> Q x cs) \<Longrightarrow> emits m Q"
  unfolding emits_def by meson

lemma emits_return [emit]: "R x [] \<Longrightarrow> emits (return x) R"
  by (simp add: emits_def)

lemma emits_bind:
  assumes "emits m R" and "\<And>x a. R x a \<Longrightarrow> emits (f x) (\<lambda>y b. Q y (a @ b))"
  shows "emits (m \<bind> f) Q"
  unfolding emits_def
proof
  fix s
  obtain x s1 where m: "run_state m s = (x, s1)" by (cases "run_state m s")
  with emitsD [OF assms(1), of s] obtain a where a: "sy_calls s1 = sy_calls s @ a" "R x a" by auto
  from emitsD [OF assms(2) [OF a(2)], of s1] obtain b
    where "sy_calls (snd (run_state (f x) s1)) = sy_calls s1 @ b" "Q (fst (run_state (f x) s1)) (a @ b)" by auto
  with m a show "\<exists>cs. sy_calls (snd (run_state (m \<bind> f) s)) = sy_calls s @ cs \<and> Q (fst (run_state (m \<bind> f) s)) cs"
    by (simp add: case_prod_beta)
qed

text \<open>Computations that make no call; what they return is unconstrained.\<close>

definition silent :: "('w, 'a) run \<Rightarrow> bool" where
  "silent m \<longleftrightarrow> (\<forall>c. keeps (\<lambda>s. sy_calls s = c) m)"

lemma emits_silent_bind [emit]:
  assumes "silent m" and "\<And>x. emits (f x) Q"
  shows "emits (m \<bind> f) Q"
proof (rule emits_bind)
  show "emits m (\<lambda>_ cs. cs = [])"
    unfolding emits_def using assms(1) keepsD [of "\<lambda>s. sy_calls s = c" m for c]
    by (fastforce simp: silent_def)
qed (use assms(2) in simp)

lemma silentI: "(\<And>c. keeps (\<lambda>s. sy_calls s = c) m) \<Longrightarrow> silent m"
  by (simp add: silent_def)

lemma silent_bind: "silent m \<Longrightarrow> (\<And>x. silent (f x)) \<Longrightarrow> silent (m \<bind> f)"
  by (simp add: silent_def keeps_bind)

lemma frame_calls: "frame (\<lambda>s. sy_calls s = c)"
  by (simp add: frame_def)

lemma silent_return: "silent (return x)"
  by (simp add: silent_def keeps_return)

lemma silent_ask: "silent (ask f)"
  by (simp add: silent_def keeps_ask_frame frame_calls)

lemma silent_exec: "silent (exec E what f)"
  unfolding silent_def by (intro allI keeps_exec) simp_all

lemma silent_query: "silent (query E what f)"
  by (simp add: silent_def keeps_query_frame frame_calls)

lemma silent_run_state:
  "silent (update E fn)" "silent (stage E name)" "silent (skippedStage E name msg)" "silent (set_stage E name st msg)"
  "silent (stage_Done E name msg)" "silent (stage_Fail E name err)" "silent (Warn msg)" "silent (addArtifact E a)"
  "silent (setResult E f sha rb pb)" "silent (publish ev)" "silent the_run"
  by (simp_all add: silent_def keeps_update keeps_stage keeps_skippedStage keeps_set_stage keeps_stage_Done
      keeps_stage_Fail keeps_Warn keeps_addArtifact keeps_setResult keeps_publish_frame keeps_the_run frame_calls)

lemma silent_dest_error: "silent (dest_error name)"
  unfolding dest_error_def silent_def by (intro allI keeps_modify) simp

lemma silent_OpenDestination: "silent (OpenDestination E d)"
  unfolding OpenDestination_def by (auto split: sum.split intro: silent_bind silent_ask silent_return)

lemma silent_LoadHost: "silent (LoadHost E h)"
  unfolding LoadHost_def by (intro silent_bind silent_ask silent_return)

lemma silent_attachHost: "silent (attachHost E spec h cfg)"
  unfolding attachHost_def by (auto intro: silent_bind silent_LoadHost silent_return)

lemma silent_SourceRuntime: "silent (SourceRuntime E src)"
  unfolding SourceRuntime_def
  by (auto split: option.split sum.split intro: silent_return silent_attachHost)

lemma silent_get_job: "silent (get_job E j)"
  unfolding get_job_def by (intro silent_bind silent_ask silent_query)

lemma silent_get_destination: "silent (get_destination E j)"
  unfolding get_destination_def by (intro silent_bind silent_ask silent_query)

lemma silent_get_source: "silent (get_source E j)"
  unfolding get_source_def by (intro silent_bind silent_ask silent_query)

lemma silent_load_loop: "silent (load_loop E out is)"
proof (induction "is" arbitrary: out)
  case (Cons i "is")
  show ?case unfolding load_loop.simps
    by (rule silent_bind [OF silent_get_destination]) (auto split: sum.split intro: silent_return Cons)
qed (simp add: silent_return)

lemma silent_loadDestinations: "silent (loadDestinations E job)"
  unfolding loadDestinations_def by (rule silent_load_loop)

lemma silent_settings: "silent (settings E)"
  unfolding settings_def by (intro silent_bind silent_query silent_return)

lemma silent_mark_missing: "silent (mark_missing E a)"
  unfolding mark_missing_def by (intro silent_bind silent_ask silent_exec silent_run_state)

lemma silent_notify_stage: "silent (notify_stage E)"
  unfolding notify_stage_def by (intro silent_bind silent_run_state)

lemmas silent_rules = silent_return silent_ask silent_exec silent_query silent_run_state silent_dest_error
  silent_OpenDestination silent_LoadHost silent_attachHost silent_SourceRuntime silent_get_job
  silent_get_destination silent_get_source
  silent_loadDestinations silent_settings silent_mark_missing silent_notify_stage

text \<open>A silent computation at the end of a body.\<close>

lemma emits_silent: "silent m \<Longrightarrow> (\<And>x. R x []) \<Longrightarrow> emits m R"
  unfolding emits_def using keepsD [of "\<lambda>s. sy_calls s = c" m for c] by (fastforce simp: silent_def)

lemma emits_Fail: "R (Some e) [] \<Longrightarrow> emits (stage_Fail E name e) R"
  unfolding stage_Fail_def
  by (rule emits_silent_bind [OF silent_run_state(4)]) (rule emits_return)

lemma emits_called [emit]: "R () [c] \<Longrightarrow> emits (called c) R"
  by (simp add: emits_def)

lemma emits_called_bind [emit]: "emits (f ()) (\<lambda>y b. Q y (c # b)) \<Longrightarrow> emits (called c \<bind> f) Q"
  by (rule emits_bind [of _ "\<lambda>_ cs. cs = [c]"]) (simp_all add: emits_called)

lemma emits_if [emit]: "(b \<Longrightarrow> emits m R) \<Longrightarrow> (\<not> b \<Longrightarrow> emits n R) \<Longrightarrow> emits (if b then m else n) R"
  by simp

lemma emits_option [emit]:
  "(v = None \<Longrightarrow> emits m R) \<Longrightarrow> (\<And>x. v = Some x \<Longrightarrow> emits (f x) R) \<Longrightarrow>
   emits (case v of None \<Rightarrow> m | Some x \<Rightarrow> f x) R"
  by (cases v) auto

lemma emits_sum [emit]:
  "(\<And>e. v = Inl e \<Longrightarrow> emits (f e) R) \<Longrightarrow> (\<And>x. v = Inr x \<Longrightarrow> emits (g x) R) \<Longrightarrow>
   emits (case v of Inl e \<Rightarrow> f e | Inr x \<Rightarrow> g x) R"
  by (cases v) auto

lemma emits_prod [emit]: "(\<And>x y. v = (x, y) \<Longrightarrow> emits (f x y) R) \<Longrightarrow> emits (case v of (x, y) \<Rightarrow> f x y) R"
  by (cases v) auto

lemma emits_let [emit]: "(\<And>x. x = v \<Longrightarrow> emits (f x) R) \<Longrightarrow> emits (let x = v in f x) R"
  by simp

text \<open>A loop: an invariant on the elements done, the accumulator and the calls so far.\<close>

lemma emits_foldM_prefix:
  assumes "I [] b []"
    and "\<And>ys b cs x. x \<in> set xs \<Longrightarrow> I ys b cs \<Longrightarrow> emits (f b x) (\<lambda>b' cs'. I (ys @ [x]) b' (cs @ cs'))"
  shows "emits (foldM f b xs) (I xs)"
proof -
  have "emits (foldM f b zs) (\<lambda>b' cs'. I (ys @ zs) b' (cs @ cs'))" if "I ys b cs" "set zs \<subseteq> set xs" for b cs ys zs
    using that
  proof (induction zs arbitrary: b cs ys)
    case Nil
    then show ?case by (simp add: emits_return)
  next
    case (Cons z zs)
    have z: "emits (f b z) (\<lambda>b' cs'. I (ys @ [z]) b' (cs @ cs'))" using assms(2) Cons.prems by simp
    show ?case
      unfolding foldM.simps
    proof (rule emits_bind [OF z])
      fix b' a
      assume "I (ys @ [z]) b' (cs @ a)"
      from Cons.IH [OF this] Cons.prems(2)
      show "emits (foldM f b' zs) (\<lambda>y b. I (ys @ z # zs) y (cs @ a @ b))" by simp
    qed
  qed
  from this [of "[]" b "[]" xs] assms(1) show ?thesis by simp
qed

lemma emits_foldM:
  assumes "I b []" and "\<And>b cs x. x \<in> set xs \<Longrightarrow> I b cs \<Longrightarrow> emits (f b x) (\<lambda>b' cs'. I b' (cs @ cs'))"
  shows "emits (foldM f b xs) I"
  by (rule emits_foldM_prefix [of "\<lambda>_. I"]) (use assms in auto)

text \<open>A predicate that only looks at the calls one by one.\<close>

lemma emits_foldM_all:
  assumes "\<And>b x. x \<in> set xs \<Longrightarrow> emits (f b x) (\<lambda>_. list_all P)"
  shows "emits (foldM f b xs) (\<lambda>_. list_all P)"
  by (rule emits_foldM) (use assms in \<open>auto elim: emits_weaken\<close>)

section \<open>Backoff\<close>

lemma backoff_loop_min:
  "0 < d \<Longrightarrow> d < 2 ^ 62 \<Longrightarrow> backoff_loop n d = min maxRetryBackoff (d * 2 ^ n)"
proof (induction n arbitrary: d)
  case 0
  then show ?case by (simp add: min_def)
next
  case (Suc n)
  have w: "wrap64 (d * 2) = d * 2" using Suc.prems by (intro wrap64_id) simp_all
  show ?case
  proof (cases "maxRetryBackoff \<le> d * 2")
    case True
    have "d * 2 \<le> d * 2 * 2 ^ n" using Suc.prems by (simp add: mult_le_cancel_left1)
    with True w show ?thesis by (simp add: mult.assoc)
  next
    case False
    then have "d * 2 < 2 ^ 62" by (simp add: maxRetryBackoff_def)
    with Suc.IH [of "d * 2"] Suc.prems False w show ?thesis by (simp add: mult.assoc)
  qed
qed

end
