(* ===== verification/Pipeline_Props.thy ===== *)
theory Pipeline_Props
  imports Pipeline_Calls
begin

text \<open>
  Properties of the runs of Pipeline.thy, by the calls they make: the retry discipline of the upload,
  the order of uploads and deletions in a backup, the checksum gate of an ingest, and what
  verification and retention leave in the database.
\<close>

section \<open>Reading a history of calls\<close>

fun puts_of :: "call list \<Rightarrow> (Destination \<times> string \<times> string \<times> error option) list" where
  "puts_of [] = []"
| "puts_of (CallPut d path content r # cs) = (d, path, content, r) # puts_of cs"
| "puts_of (_ # cs) = puts_of cs"

fun waits_of :: "call list \<Rightarrow> duration list" where
  "waits_of [] = []"
| "waits_of (CallWait w # cs) = w # waits_of cs"
| "waits_of (_ # cs) = waits_of cs"

fun is_delete :: "call \<Rightarrow> bool" where
  "is_delete (CallDelete d path r) = True"
| "is_delete _ = False"

fun put_ok :: "call \<Rightarrow> bool" where
  "put_ok (CallPut d path content None) = True"
| "put_ok _ = False"

lemma puts_of_append [simp]: "puts_of (as @ bs) = puts_of as @ puts_of bs"
  by (induction "as" rule: puts_of.induct) simp_all

lemma waits_of_append [simp]: "waits_of (as @ bs) = waits_of as @ waits_of bs"
  by (induction "as" rule: waits_of.induct) simp_all

section \<open>Upload\<close>

text \<open>What at most \<open>n\<close> attempts from number \<open>k\<close> on do, and how their result shows in it: only puts and
  waits, the same put each time, all refused except the last one of a successful upload, and the
  waits in the order of the backoff schedule.\<close>

definition upload_calls ::
  "Destination \<Rightarrow> string \<Rightarrow> string \<Rightarrow> duration \<Rightarrow> nat \<Rightarrow> int \<Rightarrow> error option \<Rightarrow> call list \<Rightarrow> bool" where
  "upload_calls d path content delay n k r cs \<longleftrightarrow>
     length cs = length (puts_of cs) + length (waits_of cs)
     \<and> length (puts_of cs) \<le> n
     \<and> length (waits_of cs) \<le> n - (if k = 1 then 1 else 0)
     \<and> map (\<lambda>(d, p, c, e). (d, p, c)) (puts_of cs) = replicate (length (puts_of cs)) (d, path, content)
     \<and> list_all (\<lambda>(d, p, c, e). e \<noteq> None) (if r = None then butlast (puts_of cs) else puts_of cs)
     \<and> (r = None \<longrightarrow> cs \<noteq> [] \<and> last cs = CallPut d path content None)
     \<and> waits_of cs = map (backoff delay) [max 1 (k - 1) .. max 1 (k - 1) + int (length (waits_of cs)) - 1]"

lemma putOnce_emits:
  "emits (putOnce E d content path)
     (\<lambda>r cs. (cs = [] \<and> r \<noteq> None) \<or> (\<exists>e. cs = [CallPut d path content e] \<and> (r = None \<longleftrightarrow> e = None)))"
  unfolding putOnce_def
  by (intro emit silent_rules) auto

lemma upload_calls_stop: "1 \<le> k \<Longrightarrow> upload_calls d path content delay (Suc n) k (Some e) []"
  by (simp add: upload_calls_def)

lemma upload_calls_wait:
  "2 \<le> k \<Longrightarrow> upload_calls d path content delay (Suc n) k (Some e) [CallWait (backoff delay (k - 1))]"
  by (simp add: upload_calls_def)

lemma upload_loop_emits:
  "1 \<le> k \<Longrightarrow> (n = 0 \<Longrightarrow> lastErr \<noteq> None) \<Longrightarrow>
   emits (upload_loop E d content path delay n k lastErr) (upload_calls d path content delay n k)"
proof (induction n arbitrary: k lastErr)
  case 0
  then show ?case by (auto simp: upload_calls_def intro!: emits_return)
next
  case (Suc n)
  define w where "w = (if k > 1 then [CallWait (backoff delay (k - 1))] else [])"
  have w: "upload_calls d path content delay (Suc n) k (Some e) w" for e
    using Suc.prems(1) by (simp add: w_def upload_calls_stop upload_calls_wait)
  have put: "emits (putOnce E d content path \<bind> (\<lambda>r. case r of
                  None \<Rightarrow> return None
                | Some e \<Rightarrow>
                    if errIs e Canceled \<or> errIs e DeadlineExceeded then return (Some e)
                    else upload_loop E d content path delay n (k + 1) (Some e)))
        (\<lambda>r cs. upload_calls d path content delay (Suc n) k r (w @ cs))" (is "emits (_ \<bind> ?f) ?Q")
  proof (rule emits_bind [OF putOnce_emits])
    fix r :: "error option" and a
    assume a: "(a = [] \<and> r \<noteq> None) \<or> (\<exists>e. a = [CallPut d path content e] \<and> (r = None \<longleftrightarrow> e = None))"
    show "emits (?f r) (\<lambda>y b. ?Q y (a @ b))"
    proof (cases r)
      case None
      with a Suc.prems(1) show ?thesis
        by (auto simp: w_def upload_calls_def intro!: emits_return)
    next
      case (Some e)
      have "?Q (Some e) a"
        using a Some Suc.prems(1) by (auto simp: w_def upload_calls_def)
      moreover have "?Q y (a @ b)" if b: "upload_calls d path content delay n (k + 1) y b" for y b
      proof (cases "k = 1")
        case True
        then show ?thesis
          using a Some b by (auto simp: w_def upload_calls_def)
      next
        case False
        then have "[max 1 (k - 1) .. max 1 (k - 1) + (1 + int (length (waits_of b))) - 1]
            = (k - 1) # [k .. k + int (length (waits_of b)) - 1]"
          using Suc.prems(1) by (simp add: upto_rec1)
        then show ?thesis
          using a Some b False Suc.prems(1) by (auto simp: w_def upload_calls_def)
      qed
      ultimately show ?thesis
        using Some Suc.IH [of "k + 1" "Some e"] Suc.prems(1)
        by (auto intro!: emits_return elim: emits_weaken)
    qed
  qed
  have stop: "upload_calls d path content delay (Suc n) k (Some e) []" for e
    using Suc.prems(1) by (rule upload_calls_stop)
  show ?case
  proof (cases "k > 1")
    case True
    with put w have "emits (called (CallWait (backoff delay (k - 1))) \<bind> (\<lambda>_. ask (env_wait E (backoff delay (k - 1))) \<bind> case_option (putOnce E d content path \<bind> ?f) (\<lambda>e. return (Some e))))
        (upload_calls d path content delay (Suc n) k)"
      by (intro emits_called_bind emits_silent_bind silent_ask)
         (auto simp: w_def split: option.split intro!: emits_return)
    with True stop show ?thesis
      unfolding upload_loop.simps
      by (intro emits_silent_bind silent_ask) (auto split: option.split intro!: emits_return)
  next
    case False
    with put have "emits (putOnce E d content path \<bind> ?f) (upload_calls d path content delay (Suc n) k)"
      by (simp add: w_def)
    with False stop show ?thesis
      unfolding upload_loop.simps
      by (intro emits_silent_bind silent_ask) (auto split: option.split intro!: emits_return)
  qed
qed

lemma upload_calls_last:
  "upload_calls d path content delay n k r cs \<Longrightarrow>
   r = None \<longleftrightarrow> cs \<noteq> [] \<and> last cs = CallPut d path content None"
  by (cases r; cases cs rule: rev_exhaust) (auto simp: upload_calls_def)

text \<open>C32 (bounds): the wait before a retry. It never exceeds ten minutes. For a delay below 2 to the 62
  nanoseconds (146 years) it doubles with each attempt up to that limit, without overflow for any step. From there
  on, and no check of a job excludes such a delay, doubling overflows the 64-bit duration: the second
  retry gets a negative wait, which is none.\<close>

theorem backoff_schedule:
  "backoff base step \<le> 10 * Minute
   \<and> (0 < base \<and> base < 2 ^ 62 \<longrightarrow>
        backoff base step = min maxRetryBackoff (base * 2 ^ nat (step - 1)) \<and> 0 < backoff base step)
   \<and> (2 ^ 62 \<le> base \<and> base < 2 ^ 63 \<longrightarrow> backoff base 2 = 2 * base - 2 ^ 64 \<and> backoff base 2 < 0)"
proof (intro conjI impI)
  have "backoff_loop n w \<le> maxRetryBackoff" for n w
    by (induction n arbitrary: w) (simp_all add: Let_def)
  then show "backoff base step \<le> 10 * Minute" by (simp add: backoff_def maxRetryBackoff_def)
next
  assume "0 < base \<and> base < 2 ^ 62"
  then have b: "0 < base" "base < 2 ^ 62" by auto
  show "backoff base step = min maxRetryBackoff (base * 2 ^ nat (step - 1))"
    by (simp add: backoff_def backoff_loop_min [OF b])
  then show "0 < backoff base step" using b(1) by (simp add: maxRetryBackoff_def)
next
  assume b: "2 ^ 62 \<le> base \<and> base < 2 ^ 63"
  then have "(base * 2 + 2 ^ 63 - 2 ^ 64) mod 2 ^ 64 = base * 2 + 2 ^ 63 - (2 ^ 64 :: int)"
    by (intro mod_pos_pos_trivial) simp_all
  then have "(base * 2 + 2 ^ 63) mod 2 ^ 64 = base * 2 + 2 ^ 63 - (2 ^ 64 :: int)"
    using minus_mod_self2 [of "base * 2 + 2 ^ 63" "2 ^ 64"] by (simp only:)
  then have "wrap64 (base * 2) = 2 * base - 2 ^ 64" by (simp add: wrap64_def)
  then show "backoff base 2 = 2 * base - 2 ^ 64" and "backoff base 2 < 0"
    using b by (simp_all add: backoff_def maxRetryBackoff_def Let_def)
qed

theorem backoff_schedule_witness:
  "backoff (5 * Second) 3 = 20 * Second \<and> backoff (5 * Second) 1000 = 10 * Minute \<and> backoff (2 ^ 62) 2 = - (2 ^ 63)"
proof (intro conjI)
  show "backoff (5 * Second) 3 = 20 * Second"
    using backoff_schedule [of "5 * Second" 3] by (simp add: maxRetryBackoff_def)
  have "(2::int) ^ 7 \<le> 2 ^ nat (1000 - 1)" by (rule power_increasing) simp_all
  then show "backoff (5 * Second) 1000 = 10 * Minute"
    using backoff_schedule [of "5 * Second" 1000] by (simp add: maxRetryBackoff_def min_def)
  show "backoff (2 ^ 62) 2 = - (2 ^ 63)" using backoff_schedule [of "2 ^ 62" 2] by simp
qed

lemma uploadOne_trace:
  "emits (uploadOne E job d content path)
     (upload_calls d path content (retry_delay job) (nat (attempts_of job)) 1)"
proof -
  have "1 \<le> attempts_of job" by (simp add: attempts_of_def Let_def)
  then show ?thesis unfolding uploadOne_def by (intro upload_loop_emits) simp_all
qed

text \<open>C31 (functional): the retry discipline of an upload, for every destination, clock and context. The
  calls it makes are puts of the spooled content to the given path of that destination, at most one
  more than the retries of the job, and waits following the backoff schedule, one fewer than the attempts at most; every
  put but the last was refused, and the upload succeeds exactly when its last call is a put that was
  accepted.\<close>

theorem uploadOne_retries:
  "\<exists>cs. sy_calls (snd (run_state (uploadOne E job d content path) s)) = sy_calls s @ cs
    \<and> length cs = length (puts_of cs) + length (waits_of cs)
    \<and> int (length (puts_of cs)) \<le> max 1 (wrap64 (job_Retries job + 1))
    \<and> int (length (waits_of cs)) < max 1 (wrap64 (job_Retries job + 1))
    \<and> map (\<lambda>(d, p, c, e). (d, p, c)) (puts_of cs) = replicate (length (puts_of cs)) (d, path, content)
    \<and> list_all (\<lambda>(d, p, c, e). e \<noteq> None) (butlast (puts_of cs))
    \<and> waits_of cs = map (backoff (retry_delay job)) [1 .. int (length (waits_of cs))]
    \<and> (fst (run_state (uploadOne E job d content path) s) = None
        \<longleftrightarrow> cs \<noteq> [] \<and> last cs = CallPut d path content None)"
proof -
  have max: "max 1 (wrap64 (job_Retries job + 1)) = attempts_of job" by (simp add: attempts_of_def Let_def)
  have n: "1 \<le> attempts_of job" by (simp add: attempts_of_def Let_def)
  from emitsD [OF uploadOne_trace, of E job d content path s] obtain cs where "sy_calls (snd (run_state (uploadOne E job d content path) s)) = sy_calls s @ cs"
    and cs: "upload_calls d path content (retry_delay job) (nat (attempts_of job)) 1
      (fst (run_state (uploadOne E job d content path) s)) cs" by blast
  moreover from cs have "list_all (\<lambda>(d, p, c, e). e \<noteq> None) (butlast (puts_of cs))"
    by (auto simp: upload_calls_def list_all_iff split: if_splits dest: in_set_butlastD)
  ultimately show ?thesis
    unfolding max using n cs upload_calls_last [OF cs] by (auto simp: upload_calls_def)
qed

section \<open>The order of uploads and deletions\<close>

fun no_delete :: "call \<Rightarrow> bool" where
  "no_delete (CallDelete d path r) = False"
| "no_delete _ = True"

fun no_put :: "call \<Rightarrow> bool" where
  "no_put (CallPut d path content r) = False"
| "no_put _ = True"

lemma emits_all_bind:
  assumes "emits m (\<lambda>_. list_all P)" and "\<And>x. emits (f x) (\<lambda>_. list_all P)"
  shows "emits (m \<bind> f) (\<lambda>_. list_all P)"
  by (rule emits_bind [OF assms(1)]) (auto intro: emits_weaken [OF assms(2)])

lemma emits_all_silent: "silent m \<Longrightarrow> emits m (\<lambda>_. list_all P)"
  by (rule emits_silent) simp_all

lemma puts_waits_le: "length (puts_of cs) + length (waits_of cs) \<le> length cs"
  by (induction cs rule: puts_of.induct) auto

lemma puts_waits_only: "length cs = length (puts_of cs) + length (waits_of cs) \<Longrightarrow> list_all no_delete cs"
  by (induction cs rule: puts_of.induct) (auto, (metis puts_waits_le Suc_n_not_le_n)+)

lemma verifyOne_stats: "emits (verifyOne E d a) (\<lambda>_ cs. list_all no_delete cs \<and> list_all no_put cs)"
  unfolding verifyOne_def by (intro emit silent_rules) auto

lemma uploadOne_emits:
  "emits (uploadOne E job d content path) (\<lambda>r cs. list_all no_delete cs \<and> (r = None \<longrightarrow> list_ex put_ok cs))"
proof (rule emits_weaken [OF uploadOne_trace])
  fix r cs
  assume cs: "upload_calls d path content (retry_delay job) (nat (attempts_of job)) 1 r cs"
  then have "list_all no_delete cs" by (intro puts_waits_only) (simp add: upload_calls_def)
  moreover have "r = None \<longrightarrow> list_ex put_ok cs"
    using upload_calls_last [OF cs] by (cases cs rule: rev_exhaust) auto
  ultimately show "list_all no_delete cs \<and> (r = None \<longrightarrow> list_ex put_ok cs)" ..
qed

lemma upload_dest_emits:
  "emits (upload_dest E job src sp content path filename opts acc d)
     (\<lambda>acc' cs. list_all no_delete cs \<and> length (fst acc') + snd acc' = Suc (length (fst acc) + snd acc)
        \<and> length (fst acc') \<le> length (fst acc) + length (filter put_ok cs))"
  unfolding upload_dest_def record_upload_def Let_def
  by (rule emits_silent_bind, intro silent_rules, rule emits_bind [OF uploadOne_emits], intro emit silent_rules)
     (auto simp: list_ex_iff filter_empty_conv Suc_le_eq)

lemma prune_loop_no_put: "emits (prune_loop E d cfg n err as) (\<lambda>_. list_all no_put)"
proof (induction "as" arbitrary: n err)
  case (Cons a "as")
  then show ?case
    unfolding prune_loop.simps by (intro emit silent_rules) (auto elim: emits_weaken)
qed (simp add: emits_return)

lemma silent_if: "(b \<Longrightarrow> silent m) \<Longrightarrow> (\<not> b \<Longrightarrow> silent n) \<Longrightarrow> silent (if b then m else n)"
  by simp

lemma uploadAll_emits:
  "emits (uploadAll E job src destinations sp content path filename opts)
     (\<lambda>r cs. list_all no_delete cs \<and>
        (\<forall>as. r = Inr as \<longrightarrow> length as \<le> length (filter put_ok cs) \<and> (destinations \<noteq> [] \<longrightarrow> as \<noteq> [])))"
proof -
  have "emits (foldM (upload_dest E job src sp content path filename opts) ([], 0) destinations)
     (\<lambda>acc cs. list_all no_delete cs \<and> length (fst acc) + snd acc = length destinations
        \<and> length (fst acc) \<le> length (filter put_ok cs))"
    by (rule emits_foldM_prefix [of "\<lambda>ys acc cs. list_all no_delete cs \<and> length (fst acc) + snd acc = length ys
          \<and> length (fst acc) \<le> length (filter put_ok cs)"])
       (auto intro: emits_weaken [OF upload_dest_emits])
  then show ?thesis
    unfolding uploadAll_def Let_def
    by (rule emits_bind) (intro emit silent_rules silent_if, auto)
qed

abbreviation quiet :: "call \<Rightarrow> bool" where
  "quiet c \<equiv> no_put c \<and> no_delete c"

lemma quiet_all: "list_all quiet cs \<longleftrightarrow> list_all no_put cs \<and> list_all no_delete cs"
  by (auto simp: list_all_iff)

lemma runHook_quiet: "emits (runHook E name command) (\<lambda>_. list_all quiet)"
  unfolding runHook_def by (intro emit silent_rules emits_all_silent emits_Fail) auto

lemma verifyArtifacts_quiet: "emits (verifyArtifacts E destinations artifacts) (\<lambda>_. list_all quiet)"
proof -
  have "emits (verify_step E destinations n a) (\<lambda>_. list_all quiet)" for n a
    unfolding verify_step_def
    by (intro emits_option emits_all_bind [OF emits_weaken [OF verifyOne_stats]] emits_return emit silent_rules)
       (simp_all add: quiet_all)
  then have "emits (foldM (verify_step E destinations) 0 artifacts) (\<lambda>_. list_all quiet)"
    by (intro emits_foldM_all)
  then show ?thesis
    unfolding verifyArtifacts_def
    by (intro emits_silent_bind [OF silent_run_state(2)] emits_all_bind [OF _ emits_all_silent] silent_if
        silent_rules silent_bind)
qed

lemma applyRetention_no_put: "emits (applyRetention E job destinations) (\<lambda>_. list_all no_put)"
proof -
  have prune: "emits (pruneArtifacts E d as) (\<lambda>_. list_all no_put)" for d "as"
    unfolding pruneArtifacts_def by (intro emit silent_rules prune_loop_no_put) auto
  have "emits (retention_step E job r acc d) (\<lambda>_. list_all no_put)" for r acc d
    unfolding retention_step_def Let_def
    by (intro emits_all_bind [OF emits_all_silent [OF silent_query]] emits_sum emits_if prune
        emits_all_bind [OF emits_all_silent [OF silent_ask]] emits_all_bind [OF prune] emits_return) simp_all
  then have all: "emits (foldM (retention_step E job r) acc destinations) (\<lambda>_. list_all no_put)" for r acc
    by (intro emits_foldM_all)
  show ?thesis
    unfolding applyRetention_def Let_def
    by (intro emits_silent_bind [OF silent_run_state(2)] emits_silent_bind [OF silent_settings] emits_if
        emits_all_bind [OF all]) (intro emits_all_silent silent_if silent_rules silent_bind)+
qed

text \<open>The calls of a run that uploads: up to some point no deletion, from there no upload; and either
  something was uploaded, or the run failed and deleted nothing.\<close>

definition uploads_first :: "error option \<Rightarrow> call list \<Rightarrow> bool" where
  "uploads_first r cs \<longleftrightarrow> (\<exists>as bs. cs = as @ bs \<and> list_all no_delete as \<and> list_all no_put bs
     \<and> (list_ex put_ok as \<or> r \<noteq> None \<and> list_all no_delete bs))"

lemma uploads_first_failed: "list_all no_delete cs \<Longrightarrow> uploads_first (Some e) cs"
  unfolding uploads_first_def by (rule exI [of _ cs], rule exI [of _ "[]"]) simp

lemma uploads_first_before: "list_all quiet as \<Longrightarrow> uploads_first r cs \<Longrightarrow> uploads_first r (as @ cs)"
  unfolding uploads_first_def by (metis append.assoc list_all_append list_ex_append quiet_all)

lemma uploads_first_after:
  "uploads_first r cs \<Longrightarrow> list_all quiet bs \<Longrightarrow> (r \<noteq> None \<Longrightarrow> r' \<noteq> None) \<Longrightarrow> uploads_first r' (cs @ bs)"
  unfolding uploads_first_def by (metis append.assoc list_all_append quiet_all)

lemma emits_uploads_before:
  "emits m (\<lambda>_. list_all quiet) \<Longrightarrow> (\<And>x. emits (f x) uploads_first) \<Longrightarrow> emits (m \<bind> f) uploads_first"
  by (rule emits_bind [where R = "\<lambda>_. list_all quiet"]) (auto intro: emits_weaken uploads_first_before)

lemma emits_uploads_failed: "emits (stage_Fail E name e) uploads_first"
  by (rule emits_Fail) (simp add: uploads_first_failed)

lemma upload_and_prune_emits:
  assumes "destinations \<noteq> []"
  shows "emits (upload_and_prune E job src destinations sp content filename opts) uploads_first"
  unfolding upload_and_prune_def
proof (rule emits_bind [OF uploadAll_emits])
  fix r :: "Artifact list result" and cs :: "call list"
  assume cs: "list_all no_delete cs \<and> (\<forall>as. r = Inr as \<longrightarrow>
      length as \<le> length (filter put_ok cs) \<and> (destinations \<noteq> [] \<longrightarrow> as \<noteq> []))"
  have rest: "emits (do {
          (if job_VerifyAfterUpload job then verifyArtifacts E destinations artifacts
           else skippedStage E ''verify'' ''disabled'');
          applyRetention E job destinations;
          return None }) (\<lambda>_. list_all no_put)" for artifacts
    by (intro emits_all_bind [OF emits_if] emits_all_bind [OF applyRetention_no_put]
        emits_weaken [OF verifyArtifacts_quiet] emits_all_silent silent_rules) (simp add: quiet_all)
  show "emits (case r of Inl e \<Rightarrow> return (Some e) | Inr artifacts \<Rightarrow> do {
          (if job_VerifyAfterUpload job then verifyArtifacts E destinations artifacts
           else skippedStage E ''verify'' ''disabled'');
          applyRetention E job destinations;
          return None }) (\<lambda>y b. uploads_first y (cs @ b))"
  proof (cases r)
    case (Inl e)
    with cs show ?thesis
      by (auto intro!: emits_return uploads_first_failed)
  next
    case (Inr artifacts)
    with cs assms have "filter put_ok cs \<noteq> []" by auto
    then have "list_ex put_ok cs" by (simp add: list_ex_iff filter_empty_conv)
    with cs show ?thesis
      unfolding Inr sum.case by (intro emits_weaken [OF rest]) (auto simp: uploads_first_def)
  qed
qed

lemma silent_setResult_stage: "silent (do { setResult E f sha rb pb; stage_Done E name msg })"
  by (intro silent_bind silent_run_state)

lemma emits_after_uploads:
  assumes "emits m uploads_first"
    and "emits (f None) (\<lambda>r cs. list_all quiet cs)" and "\<And>e. emits (f (Some e)) (\<lambda>r cs. list_all quiet cs \<and> r \<noteq> None)"
  shows "emits (m \<bind> f) uploads_first"
proof (rule emits_bind [OF assms(1)])
  fix r a assume "uploads_first r a"
  then show "emits (f r) (\<lambda>y b. uploads_first y (a @ b))"
    by (cases r) (auto intro!: emits_weaken [OF assms(2)] emits_weaken [OF assms(3)] intro: uploads_first_after)
qed

lemma backup_body_emits:
  assumes "destinations \<noteq> []"
  shows "emits (backup_body E job src destinations opts stream sp filename) uploads_first"
  unfolding backup_body_def
  by (intro emits_silent_bind [OF silent_ask] emits_sum emits_prod emits_option emits_uploads_failed
      emits_silent_bind [OF silent_run_state(5)] emits_silent_bind [OF silent_run_state(2)]
      emits_silent_bind [OF silent_run_state(9)] emits_after_uploads [OF upload_and_prune_emits [OF assms]])
     (auto intro!: emits_return emits_all_bind [OF runHook_quiet] emits_silent_bind [OF silent_notify_stage]
      split: option.split)

lemma backup_dump_emits:
  assumes "destinations \<noteq> []"
  shows "emits (backup_dump E job src srcCfg destinations opts) uploads_first"
  unfolding backup_dump_def Let_def
  by (intro emits_uploads_before [OF runHook_quiet] emits_silent_bind [OF silent_ask] emits_sum emits_option
      emits_uploads_failed emits_silent_bind [OF silent_run_state(11)] 
      emits_silent_bind [OF silent_run_state(2)] emits_after_uploads [OF backup_body_emits [OF assms]])
     (auto intro!: emits_return emits_called_bind uploads_first_failed)

lemmas upload_rules = emits_sum emits_prod emits_option emits_if emits_let emits_uploads_failed
  emits_silent_bind [OF silent_ask] emits_silent_bind [OF silent_query] emits_silent_bind [OF silent_get_job]
  emits_silent_bind [OF silent_get_destination] emits_silent_bind [OF silent_get_source]
  emits_silent_bind [OF silent_SourceRuntime] emits_silent_bind [OF silent_loadDestinations]
  emits_silent_bind [OF silent_run_state(2)] emits_silent_bind [OF silent_run_state(5)]
  emits_silent_bind [OF silent_run_state(9)] emits_silent_bind [OF silent_run_state(11)]

lemma runBackup_emits: "emits (runBackup E jobID) uploads_first"
  unfolding runBackup_def by (intro upload_rules backup_dump_emits) simp_all

lemma ingest_body_emits:
  assumes "destinations \<noteq> []"
  shows "emits (ingest_body E job src destinations opts packOpts chunks body_err sp filename) uploads_first"
  unfolding ingest_body_def
  by (intro upload_rules emits_after_uploads [OF upload_and_prune_emits [OF assms]])
     (auto intro!: emits_return emits_silent_bind [OF silent_notify_stage])

lemma runIngest_emits: "emits (runIngest E job chunks body_err opts) uploads_first"
  unfolding runIngest_def
  by (intro upload_rules emits_after_uploads [OF ingest_body_emits])
     (auto intro!: emits_return emits_called_bind uploads_first_failed)

text \<open>C3 (safety): a backup never deletes before it has uploaded. Whatever the drivers, the database and
  the clock do, the calls of a backup split into a part without deletions and a part without uploads;
  and unless the first part holds an accepted upload, the run fails and deletes nothing. So a run that
  reports success stored its dump somewhere.\<close>

theorem backup_uploads_first:
  "\<exists>as bs. sy_calls (snd (run_state (runBackup E jobID) s)) = sy_calls s @ as @ bs
    \<and> list_all no_delete as \<and> list_all no_put bs
    \<and> (list_ex put_ok as \<or> fst (run_state (runBackup E jobID) s) \<noteq> None \<and> list_all no_delete bs)"
  using emitsD [OF runBackup_emits, of E jobID s] unfolding uploads_first_def by blast

text \<open>The same for the data a client pushes.\<close>

theorem ingest_uploads_first:
  "\<exists>as bs. sy_calls (snd (run_state (runIngest E job chunks body_err opts) s)) = sy_calls s @ as @ bs
    \<and> list_all no_delete as \<and> list_all no_put bs
    \<and> (list_ex put_ok as
       \<or> fst (run_state (runIngest E job chunks body_err opts) s) \<noteq> None \<and> list_all no_delete bs)"
  using emitsD [OF runIngest_emits, of E job chunks body_err opts s] unfolding uploads_first_def by blast

end
