(* ===== verification/Pipeline_Safety.thy ===== *)
theory Pipeline_Safety
  imports Pipeline_Props
begin

text \<open>
  What the runs of Pipeline.thy leave in the database: every new artifact record describes bytes that a
  destination accepted, and retention keeps the newest artifact of each job and destination.
\<close>

section \<open>Records of what was uploaded\<close>

text \<open>What an artifact record says about its file, and the files the puts of a history stored.\<close>

definition file_of :: "Artifact \<Rightarrow> string \<times> string \<times> int \<times> string" where
  "file_of a = (art_DestinationID a, art_Path a, art_Size a, art_SHA256 a)"

fun stored :: "codecs \<Rightarrow> call list \<Rightarrow> (string \<times> string \<times> int \<times> string) set" where
  "stored k [] = {}"
| "stored k (CallPut d path content None # cs) =
     insert (dst_ID d, path, int (length content), hex_encode (sha256 k content)) (stored k cs)"
| "stored k (_ # cs) = stored k cs"

definition recorded :: "'w env \<Rightarrow> (string \<times> string \<times> int \<times> string) set \<Rightarrow> call list \<Rightarrow> 'w sys \<Rightarrow> bool" where
  "recorded E old before s \<longleftrightarrow> (\<exists>cs. sy_calls s = before @ cs
     \<and> file_of ` set (t_artifacts (sy_db s)) \<subseteq> old \<union> stored (env_codecs E) cs)"

lemma stored_append: "stored k (as @ bs) = stored k as \<union> stored k bs"
  by (induction k "as" rule: stored.induct) auto

lemma frame_recorded: "frame (recorded E old before)"
  by (simp add: frame_def recorded_def)

lemma keeps_called: "keeps (recorded E old before) (called c)"
proof (rule keepsI)
  fix s :: "'a sys"
  assume "recorded E old before s"
  then obtain cs where "sy_calls s = before @ cs"
    and "file_of ` set (t_artifacts (sy_db s)) \<subseteq> old \<union> stored (env_codecs E) cs"
    by (auto simp: recorded_def)
  then show "recorded E old before (snd (run_state (called c) s))"
    by (auto simp: recorded_def stored_append intro!: exI [of _ "cs @ [c]"])
qed

lemma keeps_recorded_exec:
  assumes "\<And>flt d. file_of ` set (t_artifacts (snd (f flt d))) \<subseteq> file_of ` set (t_artifacts d)"
  shows "keeps (recorded E old before) (exec E what f)"
proof (rule keeps_exec)
  show "recorded E old before (s\<lparr>sy_db := snd (f flt (sy_db s))\<rparr>)" if "recorded E old before s" for s and flt
    using that assms [of flt "sy_db s"] by (fastforce simp: recorded_def)
qed (simp add: recorded_def)

lemma files_update_rows: "(\<And>a. file_of (g a) = file_of a) \<Longrightarrow> file_of ` set (update_rows p g as) = file_of ` set as"
  unfolding update_rows_def set_map image_image by (intro image_cong) simp_all

lemma files_SetStatus: "file_of ` set (t_artifacts (snd (Artifacts_SetStatus flt i st at d))) = file_of ` set (t_artifacts d)"
  by (cases flt) (simp_all add: Artifacts_SetStatus_def, rule files_update_rows, simp add: file_of_def set_status_row_def)

lemma files_SetVerified: "file_of ` set (t_artifacts (snd (Artifacts_SetVerified flt i at d))) = file_of ` set (t_artifacts d)"
  by (cases flt) (simp_all add: Artifacts_SetVerified_def, rule files_update_rows, simp add: file_of_def)

lemma keeps_dest_error: "keeps (recorded E old before) (dest_error name)"
  unfolding dest_error_def by (rule keeps_modify) (simp add: recorded_def)

lemma keeps_OpenDestination: "frame P \<Longrightarrow> keeps P (OpenDestination E d)"
  unfolding OpenDestination_def by (intro wp)

lemma keeps_get_row [wp]:
  assumes "frame P"
  shows "keeps P (get_destination E i)" "keeps P (get_source E i)"
  using assms unfolding get_destination_def get_source_def by (intro wp | assumption)+

lemma keeps_load_loop: "frame P \<Longrightarrow> keeps P (load_loop E out is)"
proof (induction "is" arbitrary: out)
  case (Cons i "is")
  then show ?case unfolding load_loop.simps by (intro wp)
qed (simp add: keeps_return)

lemma keeps_reads:
  assumes "frame P"
  shows "keeps P (loadDestinations E job)" "keeps P (SourceRuntime E src)" "keeps P (get_job E i)" "keeps P (settings E)"
  using assms unfolding loadDestinations_def SourceRuntime_def attachHost_def LoadHost_def get_job_def settings_def
  by (intro wp keeps_load_loop | assumption)+

lemmas recorded_rules = keeps_called keeps_dest_error keeps_OpenDestination [OF frame_recorded]
  keeps_reads [OF frame_recorded] keeps_get_row [OF frame_recorded] keeps_return keeps_bind keeps_if keeps_option keeps_sum keeps_prod keeps_let keeps_foldM
  keeps_ask_frame [OF frame_recorded] keeps_query_frame [OF frame_recorded] keeps_publish_frame [OF frame_recorded]
  keeps_stage [OF frame_recorded] keeps_skippedStage [OF frame_recorded] keeps_set_stage [OF frame_recorded]
  keeps_stage_Done [OF frame_recorded] keeps_stage_Fail [OF frame_recorded] keeps_Warn [OF frame_recorded]
  keeps_addArtifact [OF frame_recorded] keeps_setResult [OF frame_recorded] keeps_the_run

lemma keeps_recorded_verifyOne: "keeps (recorded E old before) (verifyOne E d a)"
  unfolding verifyOne_def mark_missing_def
  by (intro recorded_rules keeps_recorded_exec) (simp_all add: files_SetStatus files_SetVerified)

lemma keeps_recorded_verifyArtifacts: "keeps (recorded E old before) (verifyArtifacts E destinations artifacts)"
  unfolding verifyArtifacts_def verify_step_def by (intro recorded_rules keeps_recorded_verifyOne)

lemma keeps_recorded_prune: "keeps (recorded E old before) (prune_loop E d cfg n err as)"
proof (induction "as" arbitrary: n err)
  case (Cons a "as")
  then show ?case
    unfolding prune_loop.simps by (intro recorded_rules keeps_recorded_exec) (simp_all add: files_SetStatus)
qed (simp add: keeps_return)

lemma keeps_recorded_applyRetention: "keeps (recorded E old before) (applyRetention E job destinations)"
  unfolding applyRetention_def retention_step_def pruneArtifacts_def
  by (intro recorded_rules keeps_recorded_prune)

lemma keeps_recorded_runHook: "keeps (recorded E old before) (runHook E name command)"
  unfolding runHook_def by (intro recorded_rules)

lemma keeps_recorded_upload_loop: "keeps (recorded E old before) (upload_loop E d content path delay n k err)"
proof (induction n arbitrary: k err)
  case (Suc n)
  then show ?case
    unfolding upload_loop.simps putOnce_def by (intro recorded_rules)
qed (simp add: keeps_return)

text \<open>An accepted upload stores the file its record will describe.\<close>

definition uploaded ::
  "'w env \<Rightarrow> (string \<times> string \<times> int \<times> string) set \<Rightarrow> call list \<Rightarrow> string \<times> string \<times> int \<times> string \<Rightarrow> 'w sys \<Rightarrow> bool" where
  "uploaded E old before x s \<longleftrightarrow> (\<exists>cs. sy_calls s = before @ cs \<and> x \<in> stored (env_codecs E) cs
     \<and> file_of ` set (t_artifacts (sy_db s)) \<subseteq> old \<union> stored (env_codecs E) cs)"

lemma uploaded_recorded: "uploaded E old before x s \<Longrightarrow> recorded E old before s"
  by (auto simp: uploaded_def recorded_def)

lemma frame_uploaded: "frame (uploaded E old before x)"
  by (simp add: frame_def uploaded_def)

definition file_at :: "'w env \<Rightarrow> Destination \<Rightarrow> string \<Rightarrow> string \<Rightarrow> string \<times> string \<times> int \<times> string" where
  "file_at E d path content = (dst_ID d, path, int (length content), hex_encode (sha256 (env_codecs E) content))"

lemma uploadOne_stores:
  "valid (recorded E old before) (uploadOne E job d content path)
     (\<lambda>r. if r = None then uploaded E old before (file_at E d path content) else recorded E old before)"
proof (rule validI)
  fix s r s'
  assume rec: "recorded E old before s" and run: "run_state (uploadOne E job d content path) s = (r, s')"
  obtain ds where ds: "sy_calls s' = sy_calls s @ ds" "r = None \<longleftrightarrow> ds \<noteq> [] \<and> last ds = CallPut d path content None"
    using emitsD [OF uploadOne_trace, of E job d content path s] run by (auto simp: upload_calls_last)
  have "keeps (recorded E old before) (uploadOne E job d content path)"
    unfolding uploadOne_def by (rule keeps_recorded_upload_loop)
  from keeps_run [OF this rec run] obtain cs where cs: "sy_calls s' = before @ cs"
    "file_of ` set (t_artifacts (sy_db s')) \<subseteq> old \<union> stored (env_codecs E) cs"
    by (auto simp: recorded_def)
  from rec obtain cs0 where "sy_calls s = before @ cs0" by (auto simp: recorded_def)
  with ds cs have "cs = cs0 @ ds" by simp
  with ds have "r = None \<Longrightarrow> file_at E d path content \<in> stored (env_codecs E) cs"
    by (cases ds rule: rev_exhaust) (auto simp: stored_append file_at_def)
  with cs show "(if r = None then uploaded E old before (file_at E d path content) else recorded E old before) s'"
    by (auto simp: uploaded_def recorded_def)
qed

lemma keeps_recorded_upload_dest:
  assumes "sp_PackedBytes sp = int (length content)" and "sp_SHA256 sp = hex_encode (sha256 (env_codecs E) content)"
  shows "keeps (recorded E old before) (upload_dest E job src sp content path filename opts acc d)"
proof -
  let ?P = "uploaded E old before (file_at E d path content)" and ?name = "''upload:'' @ dst_Name d"
  have "keeps ?P (exec E ''create artifact''
      (\<lambda>flt. Artifacts_Create flt newID now (new_artifact job src runID d sp path filename opts now)))"
    for newID now runID
  proof (rule keeps_exec)
    fix s :: "'a sys" and flt
    let ?a = "new_artifact job src runID d sp path filename opts now"
    have "set (t_artifacts (snd (Artifacts_Create flt newID now ?a (sy_db s))))
        \<subseteq> set (t_artifacts (sy_db s)) \<union> {a. file_of a = file_at E d path content}"
      by (auto simp: Artifacts_Create_def Let_def artifact_row_def file_of_def file_at_def new_artifact_def assms
          split: option.splits)
    then show "?P s \<Longrightarrow> ?P (s\<lparr>sy_db := snd (Artifacts_Create flt newID now ?a (sy_db s))\<rparr>)"
      by (fastforce simp: uploaded_def)
  qed (simp add: uploaded_def)
  then have recording: "keeps ?P (record_upload E job src sp path filename opts acc d)"
    unfolding record_upload_def Let_def
    by (intro keeps_bind keeps_the_run keeps_ask_frame keeps_sum keeps_set_stage keeps_return
        keeps_addArtifact keeps_stage_Done frame_uploaded)
  show ?thesis
    unfolding upload_dest_def
  proof (rule keeps_bind [OF keeps_stage [OF frame_recorded]], unfold keeps_def, rule valid_bind [OF uploadOne_stores])
    fix err :: "error option"
    show "valid (if err = None then ?P else recorded E old before) (case err of
        Some e \<Rightarrow> do { dest_error (dst_Name d); set_stage E ?name StageFailed (Error e); return (fst acc, snd acc + 1) }
      | None \<Rightarrow> record_upload E job src sp path filename opts acc d) (\<lambda>_. recorded E old before)"
    proof (cases err)
      case None
      with recording show ?thesis
        by (auto simp: keeps_def intro: valid_conseq [where Q' = "\<lambda>_. ?P"] dest: uploaded_recorded)
    next
      case (Some e)
      have "keeps (recorded E old before) (do {
          dest_error (dst_Name d); set_stage E ?name StageFailed (Error e); return (fst acc, snd acc + 1) })"
        by (intro recorded_rules)
      then show ?thesis by (simp add: Some keeps_def)
    qed
  qed
qed

lemma Fill_content:
  "Fill c ctx_err flt chunks src_err opts s = Inr (sp, content) \<Longrightarrow>
   sp_PackedBytes sp = int (length content) \<and> sp_SHA256 sp = hex_encode (sha256 c content)"
  by (auto simp: Fill_def split: option.splits sum.splits prod.splits)

lemma keeps_recorded_upload_and_prune:
  assumes "sp_PackedBytes sp = int (length content)" and "sp_SHA256 sp = hex_encode (sha256 (env_codecs E) content)"
  shows "keeps (recorded E old before) (upload_and_prune E job src destinations sp content filename opts)"
  unfolding upload_and_prune_def uploadAll_def
  by (intro recorded_rules keeps_recorded_upload_dest assms keeps_recorded_verifyArtifacts keeps_recorded_applyRetention)

lemma keeps_sum_eq:
  "(\<And>e. v = Inl e \<Longrightarrow> keeps P (f e)) \<Longrightarrow> (\<And>x. v = Inr x \<Longrightarrow> keeps P (g x)) \<Longrightarrow>
   keeps P (case v of Inl e \<Rightarrow> f e | Inr x \<Rightarrow> g x)"
  by (cases v) auto

lemma keeps_recorded_Fill:
  assumes "\<And>e. keeps (recorded E old before) (f e)"
    and "\<And>sp content. sp_PackedBytes sp = int (length content) \<Longrightarrow>
      sp_SHA256 sp = hex_encode (sha256 (env_codecs E) content) \<Longrightarrow> keeps (recorded E old before) (g sp content)"
  shows "keeps (recorded E old before) (case Fill (env_codecs E) ctx_err flt chunks src_err opts s of
    Inl e \<Rightarrow> f e | Inr (sp, content) \<Rightarrow> g sp content)"
  using assms by (auto dest: Fill_content split: sum.split)

lemma keeps_recorded_backup_body:
  "keeps (recorded E old before) (backup_body E job src destinations opts stream sp filename)"
  unfolding backup_body_def notify_stage_def
  by (intro keeps_bind [OF keeps_ask_frame [OF frame_recorded]] keeps_recorded_Fill)
     (intro recorded_rules keeps_recorded_upload_and_prune keeps_recorded_runHook; assumption)+

lemma keeps_recorded_runBackup: "keeps (recorded E old before) (runBackup E jobID)"
  unfolding runBackup_def backup_dump_def
  by (intro recorded_rules keeps_recorded_backup_body keeps_recorded_runHook)

lemma keeps_recorded_ingest_body:
  "keeps (recorded E old before) (ingest_body E job src destinations opts packOpts chunks body_err sp filename)"
  unfolding ingest_body_def notify_stage_def
  by (intro keeps_bind [OF keeps_ask_frame [OF frame_recorded]] keeps_recorded_Fill)
     (intro recorded_rules keeps_recorded_upload_and_prune; assumption)+

lemma keeps_recorded_runIngest: "keeps (recorded E old before) (runIngest E job chunks body_err opts)"
  unfolding runIngest_def by (intro recorded_rules keeps_recorded_ingest_body)

lemma recorded_run:
  assumes "keeps (recorded E (file_of ` set (t_artifacts (sy_db s))) (sy_calls s)) m"
  shows "\<exists>cs. sy_calls (snd (run_state m s)) = sy_calls s @ cs
    \<and> file_of ` set (t_artifacts (sy_db (snd (run_state m s))))
        \<subseteq> file_of ` set (t_artifacts (sy_db s)) \<union> stored (env_codecs E) cs"
  using keepsD [OF assms, of s] by (auto simp: recorded_def)

text \<open>C1 (safety): no backup is recorded that was not stored. After a backup, and after an ingest,
  whatever failed in them, every artifact record that was not there before names a destination, a path,
  a size and a checksum that some put of this very run stored there successfully.\<close>

theorem records_are_stored:
  "\<exists>cs. sy_calls (snd (run_state (runBackup E jobID) s)) = sy_calls s @ cs
    \<and> file_of ` set (t_artifacts (sy_db (snd (run_state (runBackup E jobID) s))))
        \<subseteq> file_of ` set (t_artifacts (sy_db s)) \<union> stored (env_codecs E) cs"
  by (rule recorded_run [OF keeps_recorded_runBackup])

text \<open>The same for the data a client pushes.\<close>

theorem ingest_records_are_stored:
  "\<exists>cs. sy_calls (snd (run_state (runIngest E job chunks body_err opts) s)) = sy_calls s @ cs
    \<and> file_of ` set (t_artifacts (sy_db (snd (run_state (runIngest E job chunks body_err opts) s))))
        \<subseteq> file_of ` set (t_artifacts (sy_db s)) \<union> stored (env_codecs E) cs"
  by (rule recorded_run [OF keeps_recorded_runIngest])

section \<open>The checksum of pushed data\<close>

text \<open>A predicate that holds of everything but some puts, and of every put of \<open>content\<close>, holds of all
  calls of the stages that upload \<open>content\<close>.\<close>

definition allows :: "(call \<Rightarrow> bool) \<Rightarrow> string \<Rightarrow> bool" where
  "allows P content \<longleftrightarrow> (\<forall>c. no_put c \<longrightarrow> P c) \<and> (\<forall>d path r. P (CallPut d path content r))"

lemma allowsD: "allows P content \<Longrightarrow> P (CallPut d path content r)" "allows P content \<Longrightarrow> no_put c \<Longrightarrow> P c"
  by (auto simp: allows_def)

lemma emits_no_put: "emits m (\<lambda>_. list_all no_put) \<Longrightarrow> allows P content \<Longrightarrow> emits m (\<lambda>_. list_all P)"
  by (erule emits_weaken) (auto simp: list_all_iff allows_def)

lemma upload_loop_allows:
  "allows P content \<Longrightarrow> emits (upload_loop E d content path delay n k err) (\<lambda>_. list_all P)"
proof (induction n arbitrary: k err)
  case (Suc n)
  have put: "emits (putOnce E d content path) (\<lambda>_. list_all P)"
    using Suc.prems by (auto intro!: emits_weaken [OF putOnce_emits] simp: allows_def)
  have wait: "emits (called (CallWait w)) (\<lambda>_. list_all P)" for w
    using Suc.prems by (auto intro!: emits_called simp: allows_def)
  show ?case
    unfolding upload_loop.simps
    by (intro emits_all_bind [OF put] emits_all_bind [OF wait] emits_silent_bind [OF silent_ask] emits_option emits_if
        emits_return emits_all_bind [OF emits_if] Suc.IH Suc.prems)
       (simp_all add: emits_all_silent silent_rules)
qed (simp add: emits_return)

lemma upload_dest_allows:
  assumes "allows P content"
  shows "emits (upload_dest E job src sp content path filename opts acc d) (\<lambda>_. list_all P)"
proof -
  have one: "emits (uploadOne E job d content path) (\<lambda>_. list_all P)"
    unfolding uploadOne_def using assms by (rule upload_loop_allows)
  show ?thesis
    unfolding upload_dest_def record_upload_def Let_def
    by (rule emits_silent_bind [OF silent_run_state(2)], rule emits_all_bind [OF one], rule emits_all_silent)
       (auto split: option.split sum.split intro!: silent_bind intro: silent_rules)
qed

lemma upload_and_prune_allows:
  assumes "allows P content"
  shows "emits (upload_and_prune E job src destinations sp content filename opts) (\<lambda>_. list_all P)"
proof -
  have all: "emits (uploadAll E job src destinations sp content path filename opts) (\<lambda>_. list_all P)" for path
    unfolding uploadAll_def Let_def
    by (rule emits_all_bind, rule emits_foldM_all, rule upload_dest_allows [OF assms])
       (intro emits_if emits_all_silent silent_bind silent_if silent_rules)
  have verify: "emits (verifyArtifacts E destinations as) (\<lambda>_. list_all P)" for "as"
    by (rule emits_no_put [OF _ assms], rule emits_weaken [OF verifyArtifacts_quiet]) (simp add: quiet_all)
  show ?thesis
    unfolding upload_and_prune_def
    by (rule emits_all_bind [OF all])
       (intro emits_sum emits_all_bind [OF emits_if [OF verify]] emits_all_bind
        emits_no_put [OF applyRetention_no_put assms] emits_return emits_all_silent silent_rules, simp_all)
qed

lemma emits_Fill_sum:
  assumes "\<And>e. emits (f e) R"
    and "\<And>sp content. sp_PackedBytes sp = int (length content) \<Longrightarrow>
      sp_SHA256 sp = hex_encode (sha256 k content) \<Longrightarrow> emits (g sp content) R"
  shows "emits (case Fill k ctx_err flt chunks src_err opts s of Inl e \<Rightarrow> f e | Inr (sp, content) \<Rightarrow> g sp content) R"
  using assms by (auto dest: Fill_content split: sum.split)

text \<open>The digest a client declared, and the calls that respect it.\<close>

definition declared :: "IngestOptions \<Rightarrow> string" where
  "declared opts = ToLower (TrimSpace (io_SHA256 opts))"

fun put_matches :: "codecs \<Rightarrow> IngestOptions \<Rightarrow> string list \<Rightarrow> call \<Rightarrow> bool" where
  "put_matches k opts chunks (CallPut d path content r) =
     (declared opts = [] \<or> declared opts = hex_encode (sha256 k (if io_Packed opts then content else concat chunks)))"
| "put_matches k opts chunks _ = True"

lemma ingest_body_matches:
  "emits (ingest_body E job src destinations opts packOpts chunks body_err sp filename)
     (\<lambda>_. list_all (put_matches (env_codecs E) opts chunks))"
  unfolding ingest_body_def
proof (rule emits_silent_bind [OF silent_ask], rule emits_Fill_sum)
  fix faults and sp :: spool and content
  assume sp: "sp_SHA256 sp = hex_encode (sha256 (env_codecs E) content)"
  show "emits (case checksum_mismatch E opts chunks sp of
             Some e \<Rightarrow> stage_Fail E ''receive'' e
           | None \<Rightarrow> do {
               stage_Done E ''receive'' (count_msg (sp_PackedBytes sp) '' bytes received'');
               stage E ''pack'';
               setResult E filename (sp_SHA256 sp) (sp_RawBytes sp) (sp_PackedBytes sp);
               stage_Done E ''pack''
                 (if io_Packed opts then ''already packed by the client''
                  else if passthrough packOpts then ''pass-through''
                  else pack_message packOpts @ '', '' @ count_msg (sp_PackedBytes sp) '' bytes'');
               err \<leftarrow> upload_and_prune E job src destinations sp content filename packOpts;
               (case err of
                  Some e \<Rightarrow> return (Some e)
                | None \<Rightarrow> do { notify_stage E; return None }) })
     (\<lambda>_. list_all (put_matches (env_codecs E) opts chunks))" (is "emits (case _ of Some e \<Rightarrow> _ | None \<Rightarrow> ?rest) _")
  proof (cases "checksum_mismatch E opts chunks sp")
    case None
    then have "allows (put_matches (env_codecs E) opts chunks) content"
      unfolding allows_def by (auto simp: checksum_mismatch_def declared_def Let_def sp elim!: no_put.elims split: if_splits)
    then have "emits ?rest (\<lambda>_. list_all (put_matches (env_codecs E) opts chunks))"
      by (intro emits_silent_bind [OF silent_run_state(5)] emits_silent_bind [OF silent_run_state(2)]
        emits_silent_bind [OF silent_run_state(9)] emits_all_bind [OF upload_and_prune_allows] emits_all_silent)
        (auto split: option.split intro!: silent_bind intro: silent_rules)
    with None show ?thesis by simp
  qed (auto intro: emits_Fail)
qed (auto intro: emits_Fail)

text \<open>C33 (safety): pushed data is checked before it is stored. When the client declares a SHA-256, every
  upload of the ingest carries data that matches it: the uploaded bytes for a packed body, the received
  bytes for a body the server packs.\<close>

theorem ingest_respects_checksum:
  "\<exists>cs. sy_calls (snd (run_state (runIngest E job chunks body_err opts) s)) = sy_calls s @ cs
    \<and> list_all (put_matches (env_codecs E) opts chunks) cs"
proof -
  have "emits (runIngest E job chunks body_err opts) (\<lambda>_. list_all (put_matches (env_codecs E) opts chunks))"
    unfolding runIngest_def
    by (intro emits_sum emits_prod emits_option emits_if emits_let emits_silent_bind [OF silent_ask]
        emits_silent_bind [OF silent_query] emits_silent_bind [OF silent_loadDestinations]
        emits_silent_bind [OF silent_get_source] emits_silent_bind [OF silent_run_state(2)] emits_silent_bind [OF silent_run_state(5)]
        emits_silent_bind [OF silent_run_state(11)] emits_all_bind [OF ingest_body_matches] emits_Fail)
       (simp_all add: emits_called_bind emits_return)
  from emitsD [OF this, of s] show ?thesis by blast
qed

section \<open>What retention keeps\<close>

definition present :: "string \<Rightarrow> string \<Rightarrow> Artifact list \<Rightarrow> Artifact list" where
  "present jobID destID rows = sort_key (\<lambda>a. - art_CreatedAt a)
     (filter (\<lambda>a. art_JobID a = jobID \<and> art_DestinationID a = destID \<and> art_Status a = ArtifactPresent) rows)"

definition newest_stays :: "string \<Rightarrow> string \<Rightarrow> Artifact \<Rightarrow> 'w sys \<Rightarrow> bool" where
  "newest_stays jobID destID a s \<longleftrightarrow> distinct (map art_ID (t_artifacts (sy_db s)))
     \<and> (\<exists>as. present jobID destID (t_artifacts (sy_db s)) = a # as)"

lemma ForJobDestination_present:
  "Artifacts_ForJobDestination None jobID destID ArtifactPresent d = Inr (present jobID destID (t_artifacts d))"
  by (simp add: Artifacts_ForJobDestination_def present_def)

lemma set_present: "set (present jobID destID rows) =
    {a \<in> set rows. art_JobID a = jobID \<and> art_DestinationID a = destID \<and> art_Status a = ArtifactPresent}"
  by (auto simp: present_def)

lemma present_prune:
  "present jobID destID (update_rows (\<lambda>r. art_ID r = rid) (set_status_row ArtifactPruned at) rows)
     = filter (\<lambda>r. art_ID r \<noteq> rid) (present jobID destID rows)"
proof -
  let ?Q = "\<lambda>a. art_JobID a = jobID \<and> art_DestinationID a = destID \<and> art_Status a = ArtifactPresent"
  have "filter ?Q (update_rows (\<lambda>r. art_ID r = rid) (set_status_row ArtifactPruned at) rows)
      = filter (\<lambda>r. art_ID r \<noteq> rid) (filter ?Q rows)"
    unfolding update_rows_def by (induction rows) (auto simp: set_status_row_def)
  then show ?thesis by (simp add: present_def filter_sort)
qed

lemma frame_newest_stays: "frame (newest_stays jobID destID a)"
  by (simp add: frame_def newest_stays_def)

lemma newest_stays_prune:
  assumes "newest_stays jobID destID a s" and "rid \<noteq> art_ID a"
  shows "newest_stays jobID destID a (s\<lparr>sy_db := snd (Artifacts_SetStatus flt rid ArtifactPruned at (sy_db s))\<rparr>)"
  using assms by (cases flt) (auto simp: newest_stays_def Artifacts_SetStatus_def present_prune map_update_rows set_status_row_def)

text \<open>What the planner deletes of a destination is never the newest artifact of any.\<close>

lemma Plan_spares_newest:
  assumes "newest_stays jobID destID a s" and "x \<in> set (snd (Plan (present jobID i (t_artifacts (sy_db s))) r now))"
  shows "art_ID x \<noteq> art_ID a"
proof -
  let ?rows = "t_artifacts (sy_db s)" and ?items = "present jobID i (t_artifacts (sy_db s))"
  from assms(1) obtain "as" where rows: "distinct (map art_ID ?rows)" "present jobID destID ?rows = a # as"
    by (auto simp: newest_stays_def)
  have parts: "mset (fst (Plan ?items r now)) + mset (snd (Plan ?items r now)) = mset ?items" by (rule Plan_parts)
  then have x: "x \<in> set ?items" using assms(2) by (metis UnCI set_mset_mset set_mset_union)
  have a: "a \<in> set ?rows" "art_DestinationID a = destID" using rows(2) set_present [of jobID destID ?rows] by auto
  show ?thesis
  proof (cases "i = destID")
    case False
    with x a rows(1) show ?thesis by (auto simp: set_present dest: inj_onD simp: distinct_map)
  next
    case True
    have "sorted (map (\<lambda>a. - art_CreatedAt a) ?items)" by (simp add: present_def)
    then have "newest_first ?items = ?items" by (rule newest_first_id)
    with rows(2) True have keep: "fst (Plan ?items r now) \<noteq> []" "hd (fst (Plan ?items r now)) = a"
      using Plan_hd [of ?items r now] by auto
    have "distinct (map art_ID ?items)"
      using rows(1) by (auto simp: present_def distinct_map intro: inj_on_subset)
    moreover have "mset (map art_ID (fst (Plan ?items r now) @ snd (Plan ?items r now))) = mset (map art_ID ?items)"
      by (simp flip: parts)
    ultimately have "distinct (map art_ID (fst (Plan ?items r now) @ snd (Plan ?items r now)))"
      by (metis mset_eq_imp_distinct_iff)
    then show ?thesis
      using keep assms(2) by (auto dest!: hd_in_set)
  qed
qed

text \<open>The artifacts planned for deletion are read before the loop; those that the loop has not reached
  yet stay different from the newest.\<close>

lemma keeps_newest_prune_loop:
  "(\<And>x. x \<in> set as \<Longrightarrow> art_ID x \<noteq> art_ID a) \<Longrightarrow> keeps (newest_stays jobID destID a) (prune_loop E d cfg n err as)"
proof (induction "as" arbitrary: n err)
  case (Cons x "as")
  have exec: "keeps (newest_stays jobID destID a)
      (exec E ''set artifact status'' (\<lambda>flt. Artifacts_SetStatus flt (art_ID x) ArtifactPruned at))" for at
  proof (rule keeps_exec)
    show "newest_stays jobID destID a s \<Longrightarrow> newest_stays jobID destID a
        (s\<lparr>sy_db := snd (Artifacts_SetStatus flt (art_ID x) ArtifactPruned at (sy_db s))\<rparr>)" for s :: "'a sys" and flt
      by (rule newest_stays_prune) (use Cons.prems in auto)
  qed (simp add: newest_stays_def)
  have "keeps (newest_stays jobID destID a) (called c)" for c
    by (rule keepsI) (simp add: newest_stays_def)
  with exec Cons show ?case
    unfolding prune_loop.simps
    by (intro keeps_bind keeps_ask_frame keeps_option keeps_return keeps_publish_frame frame_newest_stays) auto
qed (simp add: keeps_return)

lemma valid_query:
  "frame P \<Longrightarrow> valid P (query E what f) (\<lambda>r s. P s \<and> (\<exists>flt. r = f flt (sy_db s)))"
  by (rule validI) (auto simp: run_query_eq dest: frameD)

lemma valid_fact: "(\<And>s. P s \<Longrightarrow> valid P m Q) \<Longrightarrow> valid P m Q"
  by (auto simp: valid_def)

lemma keeps_newest_retention_step: "keeps (newest_stays (job_ID job) destID a) (retention_step E job r acc d)"
  unfolding retention_step_def keeps_def
proof (rule valid_bind, rule valid_query [OF frame_newest_stays], rule valid_fact)
  let ?P = "newest_stays (job_ID job) destID a"
  let ?f = "\<lambda>flt. Artifacts_ForJobDestination flt (job_ID job) (dst_ID d) ArtifactPresent"
  fix res :: "Artifact list result" and s :: "'a sys"
  assume pre: "?P s \<and> (\<exists>flt. res = ?f flt (sy_db s))"
  have "keeps ?P (case res of
        Inl e \<Rightarrow> return (fst acc, snd acc + 1)
      | Inr items \<Rightarrow> do {
          now \<leftarrow> ask (env_now E);
          let remove = snd (Plan items r now);
          (if remove = [] then return acc
           else do {
             p \<leftarrow> pruneArtifacts E d remove;
             return (fst acc + fst p, if snd p \<noteq> None then snd acc + 1 else snd acc) }) })" (is "keeps _ ?m")
  proof (cases res)
    case (Inr items)
    with pre have items: "items = present (job_ID job) (dst_ID d) (t_artifacts (sy_db s))"
      by (auto simp: ForJobDestination_present Artifacts_ForJobDestination_def present_def split: option.splits)
    have "art_ID x \<noteq> art_ID a" if "x \<in> set (snd (Plan items r now))" for x now
      using Plan_spares_newest [of "job_ID job" destID a s x "dst_ID d" r now] pre that items by blast
    then show ?thesis
      unfolding Inr sum.case Let_def pruneArtifacts_def
      by (intro keeps_bind keeps_ask_frame keeps_if keeps_return keeps_sum keeps_OpenDestination
          keeps_newest_prune_loop frame_newest_stays)
  qed (simp add: keeps_return)
  then show "valid (\<lambda>s. ?P s \<and> (\<exists>flt. res = ?f flt (sy_db s))) ?m (\<lambda>_. ?P)"
    by (auto simp: keeps_def elim: valid_conseq)
qed

lemma keeps_newest_applyRetention:
  "keeps (newest_stays (job_ID job) destID a) (applyRetention E job destinations)"
  unfolding applyRetention_def
  by (intro keeps_bind keeps_stage keeps_reads keeps_let keeps_if keeps_stage_Done keeps_foldM keeps_Warn keeps_set_stage
      keeps_newest_retention_step frame_newest_stays)

text \<open>C2 (safety): retention never deletes the last backup. Applying retention to a job, on whatever
  destinations, with whatever settings and failures, leaves the newest present artifact of the job on
  every destination in place: it is still present, and still the newest.\<close>

theorem retention_keeps_newest:
  assumes "db_ok (sy_db s)"
    and "Artifacts_ForJobDestination None (job_ID job) destID ArtifactPresent (sy_db s) = Inr (a # as)"
  shows "\<exists>as'. Artifacts_ForJobDestination None (job_ID job) destID ArtifactPresent
      (sy_db (snd (run_state (applyRetention E job destinations) s))) = Inr (a # as')"
proof -
  have "newest_stays (job_ID job) destID a s"
    using assms by (simp add: newest_stays_def db_ok_def ForJobDestination_present)
  from keepsD [OF keeps_newest_applyRetention this] show ?thesis
    by (auto simp: newest_stays_def ForJobDestination_present)
qed

definition demo_backups :: "nat sys" where
  "demo_backups = demo_sys\<lparr>sy_db := (sy_db demo_sys)\<lparr>t_artifacts :=
     [zero_artifact\<lparr>art_ID := ''old'', art_JobID := ''j'', art_DestinationID := ''d'', art_Status := ArtifactPresent,
        art_CreatedAt := 10\<rparr>,
      zero_artifact\<lparr>art_ID := ''new'', art_JobID := ''j'', art_DestinationID := ''d'', art_Status := ArtifactPresent,
        art_CreatedAt := 20\<rparr>]\<rparr>\<rparr>"

theorem retention_keeps_newest_witness:
  "\<exists>a as'. art_ID a = ''new'' \<and> Artifacts_ForJobDestination None ''j'' ''d'' ArtifactPresent
      (sy_db (snd (run_state (applyRetention demo_env
        (zero_job\<lparr>job_ID := ''j'', job_Retention := zero_retention\<lparr>KeepLast := 1\<rparr>\<rparr>) [zero_destination\<lparr>dst_ID := ''d''\<rparr>])
        demo_backups))) = Inr (a # as')"
proof -
  let ?job = "zero_job\<lparr>job_ID := ''j'', job_Retention := zero_retention\<lparr>KeepLast := 1\<rparr>\<rparr>"
  have "db_ok (sy_db demo_backups)"
    by (simp add: db_ok_def demo_backups_def demo_sys_def empty_db_def zero_artifact_def)
  moreover have "Artifacts_ForJobDestination None (job_ID ?job) ''d'' ArtifactPresent (sy_db demo_backups)
      = Inr (rev (t_artifacts (sy_db demo_backups)))"
    by (simp add: Artifacts_ForJobDestination_def demo_backups_def zero_artifact_def)
  then have "Artifacts_ForJobDestination None (job_ID ?job) ''d'' ArtifactPresent (sy_db demo_backups)
      = Inr (t_artifacts (sy_db demo_backups) ! 1 # [t_artifacts (sy_db demo_backups) ! 0])"
    by (simp add: demo_backups_def)
  ultimately have "\<exists>as'. Artifacts_ForJobDestination None (job_ID ?job) ''d'' ArtifactPresent
      (sy_db (snd (run_state (applyRetention demo_env ?job [zero_destination\<lparr>dst_ID := ''d''\<rparr>]) demo_backups)))
      = Inr (t_artifacts (sy_db demo_backups) ! 1 # as')"
    by (rule retention_keeps_newest)
  then show ?thesis by (auto simp: demo_backups_def)
qed

text \<open>What verification concludes. When the destination opens and no statement fails, an
  artifact verifies exactly if the destination reports an object of the recorded size; its row then
  gets a verification time. In every other case, an object of another size, no object, or any error of
  the destination, the artifact is marked missing.\<close>

theorem verifyOne_outcome:
  fixes s :: "'w sys"
  assumes "sql_ok E" and "DestinationConfig E d = Inr cfg"
    and "env_open E (dst_Kind d) cfg (sy_world s) = (None, w)" and "env_stat E (dst_Kind d) cfg (art_Path a) w = (obj, w')"
  shows "(fst (run_state (verifyOne E d a) s) = None \<longleftrightarrow> obj = Inr (Some (art_Size a)))
    \<and> find_row art_ID (art_ID a) (t_artifacts (sy_db (snd (run_state (verifyOne E d a) s))))
        = map_option (if obj = Inr (Some (art_Size a)) then (\<lambda>r. r\<lparr>art_VerifiedAt := Some (fst (env_now E w'))\<rparr>)
                      else set_status_row ArtifactMissing (fst (env_now E w')))
            (find_row art_ID (art_ID a) (t_artifacts (sy_db s)))"
proof -
  have "run_state (OpenDestination E d) s = (Inr cfg, s\<lparr>sy_world := w\<rparr>)"
    using assms(2,3) by (simp add: OpenDestination_def run_ask_eq)
  then show ?thesis
    using assms(1,4)
    by (cases obj) (auto simp: verifyOne_def mark_missing_def run_simps Artifacts_SetStatus_def Artifacts_SetVerified_def
        status.find_same verified.find_same Let_def split: option.splits)
qed

theorem verifyOne_outcome_witness:
  "\<exists>r. find_row art_ID ''new'' (t_artifacts (sy_db (snd (run_state
        (verifyOne (demo_env\<lparr>env_stat := \<lambda>_ _ _ w. (Inl (errNew ''timeout''), w)\<rparr>) zero_destination
          (t_artifacts (sy_db demo_backups) ! 1)) demo_backups)))) = Some r
     \<and> art_Status r = ArtifactMissing"
proof -
  let ?E = "demo_env\<lparr>env_stat := \<lambda>_ _ _ w. (Inl (errNew ''timeout''), w)\<rparr>"
  let ?a = "t_artifacts (sy_db demo_backups) ! 1"
  have "sql_ok ?E" by (simp add: sql_ok_def demo_env_def)
  moreover have "DestinationConfig ?E zero_destination = Inr (dst_Config zero_destination)"
    by (simp add: DestinationConfig_def demo_env_def DecryptConfig_def SecretFields_def Config_Clone_def fun_eq_iff zero_destination_def)
  moreover have "env_open ?E (dst_Kind zero_destination) (dst_Config zero_destination) (sy_world demo_backups) = (None, 0)"
    by (simp add: demo_env_def demo_backups_def demo_sys_def)
  moreover have "env_stat ?E (dst_Kind zero_destination) (dst_Config zero_destination) (art_Path ?a) 0 = (Inl (errNew ''timeout''), 0)" by simp
  ultimately show ?thesis
    using verifyOne_outcome [of ?E zero_destination "dst_Config zero_destination" demo_backups 0 ?a "Inl (errNew ''timeout'')" 0]
    by (simp add: demo_backups_def find_row_def set_status_row_def)
qed

end
