(* ===== verification/Engine.thy ===== *)
theory Engine
  imports Run_State
begin

text \<open>
  The engine that accepts and executes runs (package \<open>internal/engine\<close>: engine.go, and the
  enqueueing functions of runner.go, prune.go, ingest.go and restore.go): the lock of each job, the
  queue, the dispatcher with its worker slots, the registration of running contexts, shutdown and the
  recovery after a restart. Goroutines interleave: every access under \<open>e.mu\<close>, every channel
  operation and every statement is one step of a transition relation. A task is named by the
  identifier of its run.
\<close>

section \<open>State\<close>

text \<open>Where a run is, from the request that created it to the release of everything it held. The
  number is the semaphore its slot belongs to; \<open>setConcurrency\<close> makes new ones. The phases
  with \<open>Ing\<close> are those of \<open>Ingest\<close>, which runs in the goroutine of its request.\<close>

datatype phase =
    Fresh
  | Locked | Created | Checked | Refused
  | Queued | Taken | Waiting nat | Abandoned
  | Started nat | Running nat | Finished nat | Unregistered nat | Released nat
  | IngLocked | IngCreated | IngWaiting nat | IngStarted nat | IngRunning nat | IngFinished nat
  | IngUnregistered nat | IngReleasing
  | Done

record engine =
  eg_running :: bool
  eg_stopped :: bool
  eg_dispatching :: bool
  eg_tasks :: "string list"
  eg_queued :: int
  eg_adds :: nat
  eg_sem :: nat
  eg_caps :: "nat list"
  eg_held :: "nat \<Rightarrow> nat"
  eg_locks :: "string \<Rightarrow> string option"
  eg_cancels :: "string set"
  eg_phase :: "string \<Rightarrow> phase"
  eg_job :: "string \<Rightarrow> string"
  eg_locking :: "string \<Rightarrow> bool"

definition queueCapacity :: nat where "queueCapacity = 256"

definition engine_New :: engine where
  "engine_New = \<lparr>eg_running = False, eg_stopped = False, eg_dispatching = False, eg_tasks = [], eg_queued = 0,
     eg_adds = 0, eg_sem = 0, eg_caps = [2], eg_held = (\<lambda>_. 0), eg_locks = (\<lambda>_. None), eg_cancels = {},
     eg_phase = (\<lambda>_. Fresh), eg_job = (\<lambda>_. []), eg_locking = (\<lambda>_. False)\<rparr>"

section \<open>Operations under the mutex\<close>

definition tryLockJob :: "string \<Rightarrow> string \<Rightarrow> engine \<Rightarrow> bool \<times> engine" where
  "tryLockJob jobID runID e =
     (if jobID = [] then (True, e)
      else (case eg_locks e jobID of
              Some _ \<Rightarrow> (False, e)
            | None \<Rightarrow> (True, e\<lparr>eg_locks := (eg_locks e)(jobID \<mapsto> runID)\<rparr>)))"

definition releaseJob :: "string \<Rightarrow> string \<Rightarrow> engine \<Rightarrow> engine" where
  "releaseJob jobID runID e =
     (if jobID = [] then e
      else (case eg_locks e jobID of
              None \<Rightarrow> e
            | Some cur \<Rightarrow> if cur = runID then e\<lparr>eg_locks := (eg_locks e)(jobID := None)\<rparr> else e))"

definition JobBusy :: "string \<Rightarrow> engine \<Rightarrow> bool" where
  "JobBusy jobID e \<longleftrightarrow> eg_locks e jobID \<noteq> None"

definition IsRunning :: "string \<Rightarrow> engine \<Rightarrow> bool" where
  "IsRunning runID e \<longleftrightarrow> runID \<in> eg_cancels e"

definition setConcurrency :: "int \<Rightarrow> engine \<Rightarrow> engine" where
  "setConcurrency n e =
     (let c = (if n \<le> 0 then 2 else nat n)
      in if eg_caps e ! eg_sem e = c then e
         else e\<lparr>eg_sem := length (eg_caps e), eg_caps := eg_caps e @ [c]\<rparr>)"

text \<open>\<open>enqueue\<close> tests \<open>running\<close>, releases the mutex and then tries to send; the counter is
  increased after the send.\<close>

definition send_task :: "string \<Rightarrow> engine \<Rightarrow> error option \<times> engine" where
  "send_task r e =
     (if length (eg_tasks e) < queueCapacity
      then (None, e\<lparr>eg_tasks := eg_tasks e @ [r], eg_adds := eg_adds e + 1\<rparr>)
      else (Some (GoErr (Some ErrQueueFull) ''run queue is full''), e))"

definition enqueue :: "string \<Rightarrow> engine \<Rightarrow> error option \<times> engine" where
  "enqueue r e =
     (if \<not> eg_running e then (Some (GoErr (Some ErrNotRunning) ''engine is not running''), e)
      else send_task r e)"

definition QueuedRuns :: "engine \<Rightarrow> int" where
  "QueuedRuns e = (if eg_queued e < 0 then 0 else eg_queued e)"

definition set_phase :: "string \<Rightarrow> phase \<Rightarrow> engine \<Rightarrow> engine" where
  "set_phase r p e = e\<lparr>eg_phase := (eg_phase e)(r := p)\<rparr>"

definition take_slot :: "nat \<Rightarrow> engine \<Rightarrow> engine" where
  "take_slot k e = e\<lparr>eg_held := (eg_held e)(k := eg_held e k + 1)\<rparr>"

definition free_slot :: "nat \<Rightarrow> engine \<Rightarrow> engine" where
  "free_slot k e = e\<lparr>eg_held := (eg_held e)(k := eg_held e k - 1)\<rparr>"

definition slot_free :: "nat \<Rightarrow> engine \<Rightarrow> bool" where
  "slot_free k e \<longleftrightarrow> eg_held e k < eg_caps e ! k"

definition add_queued :: "int \<Rightarrow> engine \<Rightarrow> engine" where
  "add_queued n e = e\<lparr>eg_queued := eg_queued e + n\<rparr>"

definition register_run :: "string \<Rightarrow> engine \<Rightarrow> engine" where
  "register_run r e = e\<lparr>eg_cancels := insert r (eg_cancels e)\<rparr>"

definition unregister_run :: "string \<Rightarrow> engine \<Rightarrow> engine" where
  "unregister_run r e = e\<lparr>eg_cancels := eg_cancels e - {r}\<rparr>"

definition new_request :: "string \<Rightarrow> string \<Rightarrow> bool \<Rightarrow> phase \<Rightarrow> engine \<Rightarrow> engine" where
  "new_request r j locking p e =
     set_phase r p (e\<lparr>eg_job := (eg_job e)(r := j), eg_locking := (eg_locking e)(r := locking)\<rparr>)"

text \<open>The dispatcher is one goroutine; it holds at most one task.\<close>

fun holding :: "phase \<Rightarrow> bool" where
  "holding Taken = True" | "holding (Waiting k) = True" | "holding _ = False"

definition dispatcher_idle :: "engine \<Rightarrow> bool" where
  "dispatcher_idle e \<longleftrightarrow> eg_dispatching e \<and> (\<forall>r. \<not> holding (eg_phase e r))"

section \<open>Steps\<close>

text \<open>The environment: requests, the settings, start and stop. \<open>store.NewID\<close> draws a new
  identifier. Backup and prune requests lock their job, verify and restore requests do not
  (\<open>EnqueueVerify\<close> and \<open>EnqueueRestore\<close> start with the statement that creates the run), and an
  ingest locks it for the whole request. The engine is started once and stopped at the end of the process, as
  \<open>serve.go\<close>, its only caller, does; a start after a stop is not a step.\<close>

inductive request :: "engine \<Rightarrow> engine \<Rightarrow> bool" where
  lock: "eg_phase e r = Fresh \<Longrightarrow> tryLockJob j r e = (True, e') \<Longrightarrow> request e (new_request r j True Locked e')"
| lock_ingest: "eg_phase e r = Fresh \<Longrightarrow> tryLockJob j r e = (True, e') \<Longrightarrow> request e (new_request r j True IngLocked e')"
| create_unlocked: "eg_phase e r = Fresh \<Longrightarrow> request e (new_request r j False Created e)"
| settings: "request e (setConcurrency n e)"
| start: "\<not> eg_running e \<Longrightarrow> \<not> eg_stopped e \<Longrightarrow> request e (e\<lparr>eg_running := True\<rparr>)"
| start_dispatch: "eg_running e \<Longrightarrow> \<not> eg_dispatching e \<Longrightarrow> request e (e\<lparr>eg_dispatching := True\<rparr>)"
| stop: "eg_running e \<Longrightarrow> request e (e\<lparr>eg_running := False, eg_stopped := True\<rparr>)"

text \<open>What the code does with a run once it was requested. \<open>create\<close> may fail; \<open>enqueue\<close> may refuse.
  \<open>finish\<close> is possible at any time: it stands for an execution that ends by itself, by its timeout or by
  cancellation, and so takes the drivers to return once their context is done.\<close>

inductive serve :: "engine \<Rightarrow> engine \<Rightarrow> bool" where
  create: "eg_phase e r = Locked \<Longrightarrow> serve e (set_phase r Created e)"
| create_failed: "eg_phase e r = Locked \<Longrightarrow> serve e (set_phase r Refused e)"
| check: "eg_phase e r = Created \<Longrightarrow> eg_running e \<Longrightarrow> serve e (set_phase r Checked e)"
| check_failed: "eg_phase e r = Created \<Longrightarrow> \<not> eg_running e \<Longrightarrow>
    serve e (set_phase r (if eg_locking e r then Refused else Done) e)"
| send: "eg_phase e r = Checked \<Longrightarrow> send_task r e = (None, e') \<Longrightarrow> serve e (set_phase r Queued e')"
| send_failed: "eg_phase e r = Checked \<Longrightarrow> send_task r e = (Some err, e') \<Longrightarrow>
    serve e (set_phase r (if eg_locking e r then Refused else Done) e')"
| refuse: "eg_phase e r = Refused \<Longrightarrow> serve e (set_phase r Done (releaseJob (eg_job e r) r e))"
| add: "0 < eg_adds e \<Longrightarrow> serve e (add_queued 1 (e\<lparr>eg_adds := eg_adds e - 1\<rparr>))"
| take: "dispatcher_idle e \<Longrightarrow> eg_tasks e = r # rs \<Longrightarrow> serve e (set_phase r Taken (e\<lparr>eg_tasks := rs\<rparr>))"
| take_sem: "eg_phase e r = Taken \<Longrightarrow> serve e (set_phase r (Waiting (eg_sem e)) e)"
| slot: "eg_phase e r = Waiting k \<Longrightarrow> slot_free k e \<Longrightarrow>
    serve e (set_phase r (Started k) (add_queued (- 1) (take_slot k e)))"
| shutdown: "eg_phase e r = Waiting k \<Longrightarrow> eg_stopped e \<Longrightarrow>
    serve e (set_phase r Abandoned (add_queued (- 1) (e\<lparr>eg_dispatching := False\<rparr>)))"
| abandon: "eg_phase e r = Abandoned \<Longrightarrow> serve e (set_phase r Done (releaseJob (eg_job e r) r e))"
| dispatch_stop: "dispatcher_idle e \<Longrightarrow> eg_stopped e \<Longrightarrow> serve e (e\<lparr>eg_dispatching := False\<rparr>)"
| register: "eg_phase e r = Started k \<Longrightarrow> serve e (set_phase r (Running k) (register_run r e))"
| finish: "eg_phase e r = Running k \<Longrightarrow> serve e (set_phase r (Finished k) e)"
| unregister: "eg_phase e r = Finished k \<Longrightarrow> serve e (set_phase r (Unregistered k) (unregister_run r e))"
| release: "eg_phase e r = Unregistered k \<Longrightarrow> serve e (set_phase r (Released k) (releaseJob (eg_job e r) r e))"
| free: "eg_phase e r = Released k \<Longrightarrow> serve e (set_phase r Done (free_slot k e))"
| ing_create: "eg_phase e r = IngLocked \<Longrightarrow> serve e (set_phase r IngCreated e)"
| ing_create_failed: "eg_phase e r = IngLocked \<Longrightarrow> serve e (set_phase r IngReleasing e)"
| ing_sem: "eg_phase e r = IngCreated \<Longrightarrow> serve e (set_phase r (IngWaiting (eg_sem e)) e)"
| ing_slot: "eg_phase e r = IngWaiting k \<Longrightarrow> slot_free k e \<Longrightarrow> serve e (set_phase r (IngStarted k) (take_slot k e))"
| ing_canceled: "eg_phase e r = IngWaiting k \<Longrightarrow> serve e (set_phase r IngReleasing e)"
| ing_register: "eg_phase e r = IngStarted k \<Longrightarrow> serve e (set_phase r (IngRunning k) (register_run r e))"
| ing_finish: "eg_phase e r = IngRunning k \<Longrightarrow> serve e (set_phase r (IngFinished k) e)"
| ing_unregister: "eg_phase e r = IngFinished k \<Longrightarrow> serve e (set_phase r (IngUnregistered k) (unregister_run r e))"
| ing_free: "eg_phase e r = IngUnregistered k \<Longrightarrow> serve e (set_phase r IngReleasing (free_slot k e))"
| ing_release: "eg_phase e r = IngReleasing \<Longrightarrow> serve e (set_phase r Done (releaseJob (eg_job e r) r e))"

inductive reachable :: "engine \<Rightarrow> bool" where
  init: "reachable engine_New"
| request: "reachable e \<Longrightarrow> request e e' \<Longrightarrow> reachable e'"
| serve: "reachable e \<Longrightarrow> serve e e' \<Longrightarrow> reachable e'"

section \<open>What a phase holds\<close>

fun holds_lock :: "phase \<Rightarrow> bool" where
  "holds_lock Fresh = False" | "holds_lock Done = False" | "holds_lock (Released k) = False"
| "holds_lock _ = True"

fun slot_of :: "phase \<Rightarrow> nat option" where
  "slot_of (Started k) = Some k" | "slot_of (Running k) = Some k" | "slot_of (Finished k) = Some k"
| "slot_of (Unregistered k) = Some k" | "slot_of (Released k) = Some k"
| "slot_of (IngStarted k) = Some k" | "slot_of (IngRunning k) = Some k" | "slot_of (IngFinished k) = Some k"
| "slot_of (IngUnregistered k) = Some k" | "slot_of _ = None"

fun registered :: "phase \<Rightarrow> bool" where
  "registered (Running k) = True" | "registered (Finished k) = True"
| "registered (IngRunning k) = True" | "registered (IngFinished k) = True" | "registered _ = False"

fun executing :: "phase \<Rightarrow> bool" where
  "executing (Running k) = True" | "executing (IngRunning k) = True" | "executing _ = False"

section \<open>Invariants\<close>

definition inv_lock :: "engine \<Rightarrow> bool" where
  "inv_lock e \<longleftrightarrow>
     (\<forall>r. eg_job e r \<noteq> [] \<longrightarrow> eg_locking e r \<longrightarrow> holds_lock (eg_phase e r) \<longrightarrow> eg_locks e (eg_job e r) = Some r)
     \<and> (\<forall>j r. eg_locks e j = Some r \<longrightarrow> eg_job e r = j \<and> j \<noteq> [] \<and> eg_locking e r \<and> holds_lock (eg_phase e r))"

lemma inv_lock_init: "inv_lock engine_New"
  by (simp add: inv_lock_def engine_New_def)

lemmas engine_ops = set_phase_def take_slot_def free_slot_def add_queued_def register_run_def unregister_run_def
  new_request_def

lemma inv_lock_request: "request e e' \<Longrightarrow> inv_lock e \<Longrightarrow> inv_lock e'"
  by (induction rule: request.induct)
     (force simp: inv_lock_def engine_ops tryLockJob_def setConcurrency_def Let_def split: if_splits option.splits)+

lemma releaseJob_sel [simp]:
  "eg_phase (releaseJob j r e) = eg_phase e" "eg_job (releaseJob j r e) = eg_job e"
  "eg_locking (releaseJob j r e) = eg_locking e" "eg_tasks (releaseJob j r e) = eg_tasks e"
  "eg_queued (releaseJob j r e) = eg_queued e" "eg_adds (releaseJob j r e) = eg_adds e"
  "eg_sem (releaseJob j r e) = eg_sem e" "eg_caps (releaseJob j r e) = eg_caps e"
  "eg_held (releaseJob j r e) = eg_held e" "eg_cancels (releaseJob j r e) = eg_cancels e"
  "eg_running (releaseJob j r e) = eg_running e" "eg_stopped (releaseJob j r e) = eg_stopped e"
  "eg_dispatching (releaseJob j r e) = eg_dispatching e"
  by (simp_all add: releaseJob_def split: option.splits)

text \<open>A step that moves one run between phases that both hold the lock, or both do not, and one that
  gives the lock up.\<close>

lemma inv_lock_move:
  assumes "inv_lock e" and "eg_locks e' = eg_locks e" and "eg_job e' = eg_job e" and "eg_locking e' = eg_locking e"
    and "eg_phase e' = (eg_phase e)(r := p)" and "eg_locking e r \<Longrightarrow> holds_lock p = holds_lock (eg_phase e r)"
  shows "inv_lock e'"
proof -
  have "eg_locking e q \<Longrightarrow> holds_lock (eg_phase e' q) = holds_lock (eg_phase e q)" for q
    using assms(5,6) by (cases "q = r") auto
  then show ?thesis using assms(1-4) unfolding inv_lock_def by metis
qed

lemma inv_lock_release:
  assumes "inv_lock e" and "\<not> holds_lock p"
  shows "inv_lock (set_phase r p (releaseJob (eg_job e r) r e))"
  unfolding inv_lock_def
proof (intro conjI allI impI)
  let ?e = "set_phase r p (releaseJob (eg_job e r) r e)"
  fix q
  assume q: "eg_job ?e q \<noteq> []" "eg_locking ?e q" "holds_lock (eg_phase ?e q)"
  with assms(2) have "q \<noteq> r" by (auto simp: set_phase_def)
  moreover from this q have "eg_locks e (eg_job e q) = Some q"
    using assms(1) by (auto simp: inv_lock_def set_phase_def)
  ultimately show "eg_locks ?e (eg_job ?e q) = Some q"
    by (auto simp: set_phase_def releaseJob_def split: option.splits)
next
  let ?e = "set_phase r p (releaseJob (eg_job e r) r e)"
  fix j q
  assume "eg_locks ?e j = Some q"
  moreover from assms(1) have "eg_locks e [] \<noteq> Some q" by (auto simp: inv_lock_def)
  ultimately have q: "eg_locks e j = Some q" "\<not> (j = eg_job e r \<and> q = r)"
    by (auto simp: set_phase_def releaseJob_def split: option.splits if_splits)
  with assms(1) have "eg_job e q = j" "j \<noteq> []" "eg_locking e q" "holds_lock (eg_phase e q)"
    by (auto simp: inv_lock_def)
  with q show "eg_job ?e q = j" "j \<noteq> []" "eg_locking ?e q" "holds_lock (eg_phase ?e q)"
    by (auto simp: set_phase_def)
qed

lemma inv_lock_frame:
  assumes "inv_lock e" and "eg_locks e' = eg_locks e" and "eg_job e' = eg_job e" and "eg_locking e' = eg_locking e"
    and "eg_phase e' = eg_phase e"
  shows "inv_lock e'"
  using assms by (simp add: inv_lock_def)

text \<open>The queue holds exactly the queued runs, each once, and never overflows.\<close>

definition inv_queue :: "engine \<Rightarrow> bool" where
  "inv_queue e \<longleftrightarrow> distinct (eg_tasks e) \<and> set (eg_tasks e) = {r. eg_phase e r = Queued}
     \<and> length (eg_tasks e) \<le> queueCapacity"

lemma inv_queue_init: "inv_queue engine_New"
  by (simp add: inv_queue_def engine_New_def)

lemma tryLockJob_sel:
  assumes "tryLockJob j r e = (b, e')"
  shows "eg_phase e' = eg_phase e" "eg_tasks e' = eg_tasks e" "eg_held e' = eg_held e" "eg_caps e' = eg_caps e"
    "eg_sem e' = eg_sem e" "eg_cancels e' = eg_cancels e" "eg_queued e' = eg_queued e" "eg_adds e' = eg_adds e"
    "eg_dispatching e' = eg_dispatching e" "eg_stopped e' = eg_stopped e" "eg_running e' = eg_running e"
  using assms by (auto simp: tryLockJob_def split: if_splits option.splits)

lemma inv_queue_request: "request e e' \<Longrightarrow> inv_queue e \<Longrightarrow> inv_queue e'"
  by (induction rule: request.induct)
     (auto simp: inv_queue_def engine_ops setConcurrency_def Let_def tryLockJob_sel)

lemma inv_queue_move:
  assumes "inv_queue e" and "eg_tasks e' = eg_tasks e" and "eg_phase e' = (eg_phase e)(r := p)"
    and "p \<noteq> Queued" and "eg_phase e r \<noteq> Queued"
  shows "inv_queue e'"
  using assms by (auto simp: inv_queue_def)

lemma inv_queue_serve: "serve e e' \<Longrightarrow> inv_queue e \<Longrightarrow> inv_queue e'"
proof (induction rule: serve.induct)
  case (send e r e')
  then have "r \<notin> set (eg_tasks e)" by (auto simp: inv_queue_def)
  with send show ?case by (auto simp: inv_queue_def send_task_def set_phase_def split: if_splits)
next
  case (take e r rs)
  then show ?case by (auto simp: inv_queue_def set_phase_def)
next
  case (add e)
  then show ?case by (simp add: inv_queue_def add_queued_def)
next
  case (dispatch_stop e)
  then show ?case by (simp add: inv_queue_def)
qed (auto elim!: inv_queue_move simp: engine_ops send_task_def split: if_splits)

lemma inv_lock_serve: "serve e e' \<Longrightarrow> inv_queue e \<Longrightarrow> inv_lock e \<Longrightarrow> inv_lock e'"
proof (induction rule: serve.induct)
  case (take e r rs)
  then have "eg_phase e r = Queued" by (auto simp: inv_queue_def)
  with take.prems(2) show ?case by (elim inv_lock_move [where r = r and p = Taken]) (simp_all add: set_phase_def)
next
  case (refuse e r)
  then show ?case by (simp add: inv_lock_release)
next
  case (abandon e r)
  then show ?case by (simp add: inv_lock_release)
next
  case (release e r k)
  then show ?case by (simp add: inv_lock_release)
next
  case (ing_release e r)
  then show ?case by (simp add: inv_lock_release)
next
  case (add e)
  then show ?case by (elim inv_lock_frame) (simp_all add: engine_ops)
next
  case (dispatch_stop e)
  then show ?case by (elim inv_lock_frame) simp_all
qed (auto elim!: inv_lock_move simp: engine_ops send_task_def split: if_splits)

lemma reachable_inv_lock: "reachable e \<Longrightarrow> inv_queue e \<and> inv_lock e"
  by (induction rule: reachable.induct)
     (blast intro: inv_lock_init inv_lock_request inv_lock_serve inv_queue_init inv_queue_request inv_queue_serve)+

section \<open>Slots\<close>

text \<open>Only finitely many runs were requested, so the runs in some phase can be counted.\<close>

definition inv_fin :: "engine \<Rightarrow> bool" where
  "inv_fin e \<longleftrightarrow> finite {r. eg_phase e r \<noteq> Fresh}"

lemma inv_fin_upd: "inv_fin e \<Longrightarrow> eg_phase e' = (eg_phase e)(r := p) \<Longrightarrow> inv_fin e'"
  unfolding inv_fin_def by (erule rev_finite_subset [OF finite.insertI [of _ r]]) auto

lemma setConcurrency_sel [simp]:
  "eg_phase (setConcurrency n e) = eg_phase e" "eg_tasks (setConcurrency n e) = eg_tasks e"
  "eg_locks (setConcurrency n e) = eg_locks e" "eg_held (setConcurrency n e) = eg_held e"
  "eg_cancels (setConcurrency n e) = eg_cancels e" "eg_queued (setConcurrency n e) = eg_queued e"
  "eg_adds (setConcurrency n e) = eg_adds e" "eg_dispatching (setConcurrency n e) = eg_dispatching e"
  by (simp_all add: setConcurrency_def Let_def)

lemma inv_fin_request: "request e e' \<Longrightarrow> inv_fin e \<Longrightarrow> inv_fin e'"
proof (induction rule: request.induct)
  case (settings e n)
  then show ?case by (simp add: inv_fin_def)
next
  case (start e)
  then show ?case by (simp add: inv_fin_def)
next
  case (start_dispatch e)
  then show ?case by (simp add: inv_fin_def)
next
  case (stop e)
  then show ?case by (simp add: inv_fin_def)
qed (auto elim!: inv_fin_upd simp: engine_ops tryLockJob_sel)

lemma inv_fin_serve: "serve e e' \<Longrightarrow> inv_fin e \<Longrightarrow> inv_fin e'"
proof (induction rule: serve.induct)
  case (add e)
  then show ?case by (simp add: inv_fin_def add_queued_def)
next
  case (dispatch_stop e)
  then show ?case by (simp add: inv_fin_def)
qed (auto elim!: inv_fin_upd simp: engine_ops send_task_def split: if_splits)

lemma card_phase_upd:
  assumes "finite {r. f r \<noteq> Fresh}" and "\<not> P Fresh"
  shows "card {q. P ((f(r := p)) q)} + (if P (f r) then 1 else 0) = card {q. P (f q)} + (if P p then 1 else (0::nat))"
proof -
  have fin: "finite {q. P (f q)}"
    by (rule finite_subset [OF _ assms(1)]) (use assms(2) in auto)
  let ?A = "{q. P (f q)} - {r}"
  have "{q. P ((f(r := p)) q)} = (if P p then insert r ?A else ?A)" by auto
  moreover have "{q. P (f q)} = (if P (f r) then insert r ?A else ?A)" by auto
  moreover have "card (insert r ?A) = Suc (card ?A)" by (rule card_insert_disjoint) (use fin in simp_all)
  ultimately show ?thesis by (smt (verit) add.commute add.right_neutral plus_1_eq_Suc)
qed

fun sem_of :: "phase \<Rightarrow> nat option" where
  "sem_of (Waiting k) = Some k" | "sem_of (IngWaiting k) = Some k" | "sem_of p = slot_of p"

definition inv_slots :: "engine \<Rightarrow> bool" where
  "inv_slots e \<longleftrightarrow> inv_fin e \<and> eg_sem e < length (eg_caps e) \<and> (\<forall>c\<in>set (eg_caps e). 0 < c)
     \<and> (\<forall>r k. sem_of (eg_phase e r) = Some k \<longrightarrow> k < length (eg_caps e))
     \<and> (\<forall>k. eg_held e k = card {r. slot_of (eg_phase e r) = Some k})
     \<and> (\<forall>k < length (eg_caps e). eg_held e k \<le> eg_caps e ! k)"

lemma inv_slots_init: "inv_slots engine_New"
  by (simp add: inv_slots_def inv_fin_def engine_New_def)

lemma card_slot_upd:
  assumes "inv_fin e" and "eg_phase e' = (eg_phase e)(r := p)"
  shows "card {q. slot_of (eg_phase e' q) = Some k} + (if slot_of (eg_phase e r) = Some k then 1 else 0)
    = card {q. slot_of (eg_phase e q) = Some k} + (if slot_of p = Some k then 1 else 0)"
  unfolding assms(2)
  by (rule card_phase_upd [where P = "\<lambda>p. slot_of p = Some k"]) (use assms(1) in \<open>simp_all add: inv_fin_def\<close>)

lemma inv_slotsD:
  assumes "inv_slots e"
  shows "inv_fin e" "eg_held e k = card {r. slot_of (eg_phase e r) = Some k}"
    "k < length (eg_caps e) \<Longrightarrow> eg_held e k \<le> eg_caps e ! k" "sem_of (eg_phase e r) = Some k \<Longrightarrow> k < length (eg_caps e)"
    "eg_sem e < length (eg_caps e)" "c \<in> set (eg_caps e) \<Longrightarrow> 0 < c"
  using assms unfolding inv_slots_def by blast+

lemma inv_slotsI:
  assumes "inv_slots e" and "eg_caps e' = eg_caps e" and "eg_sem e' = eg_sem e" and "eg_phase e' = (eg_phase e)(r := p)"
    and "\<And>k. sem_of p = Some k \<Longrightarrow> k < length (eg_caps e)"
    and "\<And>k. eg_held e' k = card {r. slot_of (eg_phase e' r) = Some k}"
    and "\<And>k. k < length (eg_caps e) \<Longrightarrow> eg_held e' k \<le> eg_caps e ! k"
  shows "inv_slots e'"
proof -
  have "sem_of (eg_phase e' q) = Some k \<Longrightarrow> k < length (eg_caps e)" for q k
    using assms(4,5) inv_slotsD(4) [OF assms(1), of q k] by (cases "q = r") auto
  then show ?thesis
    using assms(2,3,6,7) inv_slotsD(5,6) [OF assms(1)] inv_fin_upd [OF inv_slotsD(1) [OF assms(1)] assms(4)]
    unfolding inv_slots_def by simp
qed

lemma inv_slots_move:
  assumes "inv_slots e" and "eg_caps e' = eg_caps e" and "eg_sem e' = eg_sem e" and "eg_held e' = eg_held e"
    and "eg_phase e' = (eg_phase e)(r := p)" and "slot_of p = slot_of (eg_phase e r)"
    and "\<And>k. sem_of p = Some k \<Longrightarrow> sem_of (eg_phase e r) = Some k \<or> k = eg_sem e"
  shows "inv_slots e'"
proof (rule inv_slotsI [OF assms(1,2,3,5)])
  show "k < length (eg_caps e)" if "sem_of p = Some k" for k
    using assms(7) [OF that] inv_slotsD(4,5) [OF assms(1)] by auto
  show "eg_held e' k = card {r. slot_of (eg_phase e' r) = Some k}" for k
    using card_slot_upd [OF inv_slotsD(1) [OF assms(1)] assms(5), of k] inv_slotsD(2) [OF assms(1), of k] assms(4,6)
    by (simp split: if_splits)
qed (use inv_slotsD(3) [OF assms(1)] assms(4) in simp_all)

lemma inv_slots_take:
  assumes "inv_slots e" and "eg_caps e' = eg_caps e" and "eg_sem e' = eg_sem e"
    and "eg_held e' = (eg_held e)(k := eg_held e k + 1)"
    and "eg_phase e' = (eg_phase e)(r := p)" and "slot_of (eg_phase e r) = None" and "slot_of p = Some k" "sem_of p = Some k"
    and "k < length (eg_caps e)" and "slot_free k e"
  shows "inv_slots e'"
proof (rule inv_slotsI [OF assms(1,2,3,5)])
  show "eg_held e' j = card {r. slot_of (eg_phase e' r) = Some j}" for j
    using card_slot_upd [OF inv_slotsD(1) [OF assms(1)] assms(5), of j] inv_slotsD(2) [OF assms(1), of j] assms(4,6,7)
    by (simp split: if_splits)
  show "eg_held e' j \<le> eg_caps e ! j" if "j < length (eg_caps e)" for j
    using inv_slotsD(3) [OF assms(1) that] assms(4,10) by (simp add: slot_free_def)
qed (use assms(8,9) in simp)

lemma inv_slots_free:
  assumes "inv_slots e" and "eg_caps e' = eg_caps e" and "eg_sem e' = eg_sem e"
    and "eg_held e' = (eg_held e)(k := eg_held e k - 1)"
    and "eg_phase e' = (eg_phase e)(r := p)" and "slot_of (eg_phase e r) = Some k" and "sem_of p = None" and "slot_of p = None"
  shows "inv_slots e'"
proof (rule inv_slotsI [OF assms(1,2,3,5)])
  show "eg_held e' j = card {r. slot_of (eg_phase e' r) = Some j}" for j
    using card_slot_upd [OF inv_slotsD(1) [OF assms(1)] assms(5), of j] inv_slotsD(2) [OF assms(1), of j] assms(4,6,8)
    by (simp split: if_splits)
  show "eg_held e' j \<le> eg_caps e ! j" if "j < length (eg_caps e)" for j
    using inv_slotsD(3) [OF assms(1) that] assms(4) by (cases "j = k") auto
qed (use assms(7) in simp)

lemma inv_slots_frame:
  assumes "inv_slots e" and "eg_caps e' = eg_caps e" and "eg_sem e' = eg_sem e" and "eg_held e' = eg_held e"
    and "eg_phase e' = eg_phase e"
  shows "inv_slots e'"
proof -
  have "inv_slots e' = inv_slots e" by (simp add: inv_slots_def inv_fin_def assms(2-))
  with assms(1) show ?thesis by simp
qed

lemma slot_of_sem: "slot_of p = Some k \<Longrightarrow> sem_of p = Some k"
  by (cases p) simp_all

lemma inv_slots_request: "request e e' \<Longrightarrow> inv_slots e \<Longrightarrow> inv_slots e'"
proof (induction rule: request.induct)
  case (settings e n)
  let ?k = "length (eg_caps e)" and ?e = "setConcurrency n e"
  have "{r. slot_of (eg_phase e r) = Some ?k} = {}"
    using inv_slotsD(4) [OF settings] slot_of_sem by blast
  then have "eg_held e ?k = 0" using inv_slotsD(2) [OF settings, of ?k] by simp
  then have "k < length (eg_caps ?e) \<Longrightarrow> eg_held e k \<le> eg_caps ?e ! k" for k
    using inv_slotsD(3) [OF settings, of k]
    by (cases "k = ?k") (auto simp: setConcurrency_def Let_def nth_append split: if_splits)
  moreover have "eg_sem ?e < length (eg_caps ?e)" "\<forall>c\<in>set (eg_caps ?e). 0 < c" "?k \<le> length (eg_caps ?e)"
    using inv_slotsD(5,6) [OF settings] by (auto simp: setConcurrency_def Let_def)
  moreover have "sem_of (eg_phase e r) = Some k \<Longrightarrow> k < length (eg_caps ?e)" for r k
    using inv_slotsD(4) [OF settings, of r k] calculation(4) by simp
  ultimately show ?case
    using inv_slotsD(1,2) [OF settings] by (simp add: inv_slots_def inv_fin_def)
next
  case (start e)
  then show ?case by (elim inv_slots_frame) simp_all
next
  case (start_dispatch e)
  then show ?case by (elim inv_slots_frame) simp_all
next
  case (stop e)
  then show ?case by (elim inv_slots_frame) simp_all
qed (auto elim!: inv_slots_move simp: engine_ops tryLockJob_sel)

lemma inv_slots_serve: "serve e e' \<Longrightarrow> inv_slots e \<Longrightarrow> inv_queue e \<Longrightarrow> inv_slots e'"
proof (induction rule: serve.induct)
  case (take e r rs)
  then have "eg_phase e r = Queued" by (auto simp: inv_queue_def)
  with take.prems(1) show ?case by (elim inv_slots_move [where r = r and p = Taken]) (simp_all add: set_phase_def)
next
  case (slot e r k)
  then show ?case
    by (elim inv_slots_take [where k = k and r = r and p = "Started k"])
       (simp_all add: engine_ops inv_slotsD(4) [OF slot.prems(1), of r])
next
  case (ing_slot e r k)
  then show ?case
    by (elim inv_slots_take [where k = k and r = r and p = "IngStarted k"])
       (simp_all add: engine_ops inv_slotsD(4) [OF ing_slot.prems(1), of r])
next
  case (free e r k)
  then show ?case
    by (elim inv_slots_free [where k = k and r = r and p = Done]) (simp_all add: engine_ops)
next
  case (ing_free e r k)
  then show ?case
    by (elim inv_slots_free [where k = k and r = r and p = IngReleasing]) (simp_all add: engine_ops)
next
  case (add e)
  then show ?case by (elim inv_slots_frame) (simp_all add: add_queued_def)
next
  case (dispatch_stop e)
  then show ?case by (elim inv_slots_frame) simp_all
qed (auto elim!: inv_slots_move simp: engine_ops send_task_def split: if_splits)

section \<open>Registered runs and the counter of queued runs\<close>

definition inv_cancels :: "engine \<Rightarrow> bool" where
  "inv_cancels e \<longleftrightarrow> eg_cancels e = {r. registered (eg_phase e r)}"

lemma inv_cancels_request: "request e e' \<Longrightarrow> inv_cancels e \<Longrightarrow> inv_cancels e'"
  by (induction rule: request.induct) (auto simp: inv_cancels_def engine_ops tryLockJob_sel)

lemma inv_cancels_move:
  assumes "inv_cancels e" and "eg_phase e' = (eg_phase e)(r := p)"
    and "eg_cancels e' = eg_cancels e" and "registered p = registered (eg_phase e r)"
  shows "inv_cancels e'"
proof -
  have "registered (eg_phase e' q) = registered (eg_phase e q)" for q using assms(2,4) by (cases "q = r") auto
  with assms(1,3) show ?thesis by (simp add: inv_cancels_def)
qed

lemma inv_cancels_register: "inv_cancels e \<Longrightarrow> registered p \<Longrightarrow> inv_cancels (set_phase r p (register_run r e))"
  by (auto simp: inv_cancels_def engine_ops)

lemma inv_cancels_unregister: "inv_cancels e \<Longrightarrow> \<not> registered p \<Longrightarrow> inv_cancels (set_phase r p (unregister_run r e))"
  by (auto simp: inv_cancels_def engine_ops)

lemma inv_cancels_serve: "serve e e' \<Longrightarrow> inv_queue e \<Longrightarrow> inv_cancels e \<Longrightarrow> inv_cancels e'"
proof (induction rule: serve.induct)
  case (add e)
  then show ?case by (simp add: inv_cancels_def add_queued_def)
next
  case (dispatch_stop e)
  then show ?case by (simp add: inv_cancels_def)
next
  case (take e r rs)
  then have "eg_phase e r = Queued" by (auto simp: inv_queue_def)
  with take.prems(2) show ?case by (elim inv_cancels_move [where r = r and p = Taken]) (simp_all add: set_phase_def)
next
  case (register e r k)
  then show ?case by (simp add: inv_cancels_register)
next
  case (unregister e r k)
  then show ?case by (simp add: inv_cancels_unregister)
next
  case (ing_register e r k)
  then show ?case by (simp add: inv_cancels_register)
next
  case (ing_unregister e r k)
  then show ?case by (simp add: inv_cancels_unregister)
qed (auto elim!: inv_cancels_move simp: engine_ops send_task_def split: if_splits)

definition inv_count :: "engine \<Rightarrow> bool" where
  "inv_count e \<longleftrightarrow> inv_fin e
     \<and> eg_queued e + int (eg_adds e) = int (length (eg_tasks e)) + int (card {r. holding (eg_phase e r)})
     \<and> card {r. holding (eg_phase e r)} \<le> (if eg_dispatching e then 1 else 0)"

lemma card_holding_upd:
  assumes "inv_fin e" and "eg_phase e' = (eg_phase e)(r := p)"
  shows "card {q. holding (eg_phase e' q)} + (if holding (eg_phase e r) then 1 else 0)
    = card {q. holding (eg_phase e q)} + (if holding p then 1 else 0)"
  unfolding assms(2) by (rule card_phase_upd) (use assms(1) in \<open>simp_all add: inv_fin_def\<close>)

lemma inv_count_move:
  assumes "inv_count e" and "eg_phase e' = (eg_phase e)(r := p)" and "eg_dispatching e' = eg_dispatching e"
    and "eg_queued e' = eg_queued e" and "eg_adds e' = eg_adds e" and "eg_tasks e' = eg_tasks e"
    and "holding p = holding (eg_phase e r)"
  shows "inv_count e'"
proof -
  from assms(1) have fin: "inv_fin e" by (simp add: inv_count_def)
  with card_holding_upd [OF fin assms(2)] inv_fin_upd [OF fin assms(2)] assms show ?thesis
    by (simp add: inv_count_def split: if_splits)
qed

lemma inv_count_frame:
  assumes "inv_count e" and "eg_phase e' = eg_phase e" and "eg_dispatching e' = eg_dispatching e"
    and "eg_queued e' = eg_queued e" and "eg_adds e' = eg_adds e" and "eg_tasks e' = eg_tasks e"
  shows "inv_count e'"
  using assms by (simp add: inv_count_def inv_fin_def)

lemma inv_count_request: "request e e' \<Longrightarrow> inv_count e \<Longrightarrow> inv_count e'"
proof (induction rule: request.induct)
  case (settings e n)
  then show ?case by (elim inv_count_frame) simp_all
next
  case (start e)
  then show ?case by (elim inv_count_frame) simp_all
next
  case (start_dispatch e)
  then show ?case by (simp add: inv_count_def inv_fin_def)
next
  case (stop e)
  then show ?case by (elim inv_count_frame) simp_all
qed (auto elim!: inv_count_move simp: engine_ops tryLockJob_sel)

lemma dispatcher_idle_card: "dispatcher_idle e \<Longrightarrow> card {r. holding (eg_phase e r)} = 0"
  by (simp add: dispatcher_idle_def)

lemma inv_count_release:
  assumes "inv_count e" and "eg_phase e' = (eg_phase e)(r := p)" and "holding (eg_phase e r)" and "\<not> holding p"
    and "eg_queued e' = eg_queued e - 1" and "eg_adds e' = eg_adds e" and "eg_tasks e' = eg_tasks e"
  shows "inv_count e'"
proof -
  from assms(1) have fin: "inv_fin e" by (simp add: inv_count_def)
  have "card {q. holding (eg_phase e' q)} + 1 = card {q. holding (eg_phase e q)}"
    using card_holding_upd [OF fin assms(2)] unfolding if_P [OF assms(3)] if_not_P [OF assms(4)] by simp
  with inv_fin_upd [OF fin assms(2)] assms(1,5-7) show ?thesis
    by (auto simp: inv_count_def split: if_splits)
qed

lemma inv_count_serve: "serve e e' \<Longrightarrow> inv_queue e \<Longrightarrow> inv_count e \<Longrightarrow> inv_count e'"
proof (induction rule: serve.induct)
  case (send e r e')
  from send.hyps(2) send.prems(2) have "inv_count e'"
    by (auto simp: send_task_def inv_count_def inv_fin_def split: if_splits)
  with send.hyps show ?case
    by (elim inv_count_move [where e = e' and r = r and p = Queued]) (auto simp: set_phase_def send_task_def split: if_splits)
next
  case (add e)
  then show ?case by (simp add: inv_count_def inv_fin_def add_queued_def)
next
  case (take e r rs)
  then have r: "eg_phase e r = Queued" by (auto simp: inv_queue_def)
  let ?e = "set_phase r Taken (e\<lparr>eg_tasks := rs\<rparr>)"
  have fin: "inv_fin e" using take.prems by (simp add: inv_count_def)
  have upd: "eg_phase ?e = (eg_phase e)(r := Taken)" by (simp add: set_phase_def)
  have "eg_dispatching e" using take.hyps by (simp add: dispatcher_idle_def)
  with card_holding_upd [OF fin upd] inv_fin_upd [OF fin upd] dispatcher_idle_card [OF take.hyps(1)] take.prems(2) take.hyps(2) r
  show ?case by (simp add: inv_count_def) (simp add: set_phase_def)
next
  case (slot e r k)
  then show ?case by (elim inv_count_release [where r = r and p = "Started k"]) (simp_all add: engine_ops)
next
  case (shutdown e r k)
  then show ?case by (elim inv_count_release [where r = r and p = Abandoned]) (simp_all add: engine_ops)
next
  case (dispatch_stop e)
  then show ?case using dispatcher_idle_card [of e] by (simp add: inv_count_def inv_fin_def)
qed (auto elim!: inv_count_move simp: engine_ops send_task_def split: if_splits)

end
