(* ===== verification/Engine_Props.thy ===== *)
theory Engine_Props
  imports Engine
begin

text \<open>
  What the transition relation of Engine.thy guarantees in every reachable state, for every
  interleaving of requests, dispatcher, workers, changes of the settings and shutdown; that accepted
  runs end; and a counterexample to the documented limit on concurrent runs.
\<close>

section \<open>Reachable states\<close>

definition engine_ok :: "engine \<Rightarrow> bool" where
  "engine_ok e \<longleftrightarrow> inv_queue e \<and> inv_lock e \<and> inv_slots e \<and> inv_cancels e \<and> inv_count e"

lemma engine_ok_init: "engine_ok engine_New"
  by (simp add: engine_ok_def inv_lock_init inv_queue_init inv_slots_init)
     (simp add: inv_cancels_def inv_count_def inv_fin_def engine_New_def)

lemma engine_ok_serve: "serve e e' \<Longrightarrow> engine_ok e \<Longrightarrow> engine_ok e'"
  unfolding engine_ok_def
  by (blast intro: inv_queue_serve inv_lock_serve inv_slots_serve inv_cancels_serve inv_count_serve)

lemma reachable_ok: "reachable e \<Longrightarrow> engine_ok e"
proof (induction rule: reachable.induct)
  case (request e e')
  then show ?case
    unfolding engine_ok_def
    by (blast intro: inv_queue_request inv_lock_request inv_slots_request inv_cancels_request inv_count_request)
qed (blast intro: engine_ok_init engine_ok_serve)+

section \<open>Every run ends\<close>

fun rank :: "phase \<Rightarrow> nat" where
  "rank Locked = 13" | "rank Created = 12" | "rank Checked = 11" | "rank Queued = 9" | "rank Taken = 8"
| "rank (Waiting k) = 7" | "rank (Started k) = 6" | "rank (Running k) = 5" | "rank (Finished k) = 4"
| "rank (Unregistered k) = 3" | "rank (Released k) = 2" | "rank Refused = 1" | "rank Abandoned = 1"
| "rank IngLocked = 8" | "rank IngCreated = 7" | "rank (IngWaiting k) = 6" | "rank (IngStarted k) = 5"
| "rank (IngRunning k) = 4" | "rank (IngFinished k) = 3" | "rank (IngUnregistered k) = 2" | "rank IngReleasing = 1"
| "rank Fresh = 0" | "rank Done = 0"

definition work_left :: "engine \<Rightarrow> nat" where
  "work_left e = (\<Sum>r | eg_phase e r \<noteq> Fresh. rank (eg_phase e r)) + eg_adds e + (if eg_dispatching e then 1 else 0)"

lemma rank_sum_upd:
  assumes "finite {r. f r \<noteq> Fresh}" and "f r \<noteq> Fresh" and "p \<noteq> Fresh"
  shows "(\<Sum>q | (f(r := p)) q \<noteq> Fresh. rank ((f(r := p)) q)) + rank (f r) = (\<Sum>q | f q \<noteq> Fresh. rank (f q)) + rank p"
proof -
  let ?S = "{q. f q \<noteq> Fresh}"
  have S: "{q. (f(r := p)) q \<noteq> Fresh} = ?S" using assms(2,3) by auto
  have "(\<Sum>q\<in>?S. rank ((f(r := p)) q)) = rank p + (\<Sum>q\<in>?S - {r}. rank (f q))"
    using assms(1,2) by (subst sum.remove [of _ r]) (auto intro: sum.cong)
  moreover have "(\<Sum>q\<in>?S. rank (f q)) = rank (f r) + (\<Sum>q\<in>?S - {r}. rank (f q))"
    using assms(1,2) by (subst sum.remove [of _ r]) auto
  ultimately show ?thesis unfolding S by linarith
qed

lemma work_left_move:
  assumes "inv_fin e" and "eg_phase e' = (eg_phase e)(r := p)" and "eg_phase e r \<noteq> Fresh" and "p \<noteq> Fresh"
    and "rank p + eg_adds e' + (if eg_dispatching e' then 1 else 0)
      < rank (eg_phase e r) + eg_adds e + (if eg_dispatching e then 1 else (0::nat))"
  shows "work_left e' < work_left e"
  using rank_sum_upd [of "eg_phase e" r p] assms by (simp add: work_left_def inv_fin_def)

lemma serve_work_left: "serve e e' \<Longrightarrow> inv_fin e \<Longrightarrow> inv_queue e \<Longrightarrow> work_left e' < work_left e"
proof (induction rule: serve.induct)
  case (add e)
  then show ?case by (simp add: work_left_def add_queued_def)
next
  case (dispatch_stop e)
  then show ?case by (simp add: work_left_def dispatcher_idle_def)
next
  case (take e r rs)
  then have "eg_phase e r = Queued" by (auto simp: inv_queue_def)
  with take show ?case by (elim work_left_move [where r = r and p = Taken]) (simp_all add: set_phase_def)
next
  case (shutdown e r k)
  then show ?case by (elim work_left_move [where r = r and p = Abandoned]) (simp_all add: engine_ops)
qed (auto elim!: work_left_move simp: engine_ops send_task_def split: if_splits)

text \<open>While the dispatcher runs, a run that has not ended can move: either its own goroutine can, or,
  if all wait, no slot is taken and the next one is free.\<close>

definition ended :: "engine \<Rightarrow> bool" where
  "ended e \<longleftrightarrow> (\<forall>r. eg_phase e r = Fresh \<or> eg_phase e r = Done)"

fun waits :: "phase \<Rightarrow> bool" where
  "waits Fresh = True" | "waits Done = True" | "waits Queued = True" | "waits (Waiting k) = True"
| "waits (IngWaiting k) = True" | "waits _ = False"

lemma at_rest:
  "p = Fresh \<or> p = Done \<Longrightarrow> \<not> holds_lock p \<and> slot_of p = None \<and> \<not> registered p \<and> p \<noteq> Queued"
  by auto

lemma moves: "\<not> waits (eg_phase e r) \<Longrightarrow> \<exists>e'. serve e e'"
proof (cases "eg_phase e r")
  case Created
  then show ?thesis by (cases "eg_running e") (blast intro: serve.check serve.check_failed)+
next
  case Checked
  then show ?thesis by (cases "send_task r e"; cases "fst (send_task r e)") (auto intro: serve.send serve.send_failed)
qed (auto intro: serve.intros)

lemma free_when_waiting:
  assumes "inv_slots e" and "\<And>r. waits (eg_phase e r)" and "k < length (eg_caps e)"
  shows "slot_free k e"
proof -
  have "slot_of (eg_phase e r) = None" for r using assms(2) [of r] by (cases "eg_phase e r") auto
  then have "eg_held e k = 0" using inv_slotsD(2) [OF assms(1), of k] by simp
  then show ?thesis using inv_slotsD(6) [OF assms(1), of "eg_caps e ! k"] assms(3) by (simp add: slot_free_def)
qed

lemma progress:
  assumes "engine_ok e" and "eg_dispatching e" and "\<not> ended e"
  shows "\<exists>e'. serve e e'"
proof (cases "\<forall>r. waits (eg_phase e r)")
  case False
  then show ?thesis using moves by blast
next
  case True
  from assms(1) have slots: "inv_slots e" and queue: "inv_queue e" by (auto simp: engine_ok_def)
  have free: "slot_free k e" if "sem_of (eg_phase e r) = Some k" for r k
    using free_when_waiting [OF slots] True inv_slotsD(4) [OF slots that] by simp
  show ?thesis
  proof (cases "\<exists>r k. eg_phase e r = Waiting k \<or> eg_phase e r = IngWaiting k")
    case True
    then show ?thesis using free by (metis sem_of.simps(1,2) serve.slot serve.ing_slot)
  next
    case none: False
    from assms(3) obtain r where "eg_phase e r \<noteq> Fresh" "eg_phase e r \<noteq> Done" by (auto simp: ended_def)
    moreover from True have "waits (eg_phase e r)" ..
    ultimately have "eg_phase e r = Queued" using none by (cases "eg_phase e r") auto
    then obtain x xs where "eg_tasks e = x # xs" using queue by (cases "eg_tasks e") (auto simp: inv_queue_def)
    moreover have "\<not> holding (eg_phase e q)" for q
      using True [rule_format, of q] none by (cases "eg_phase e q") auto
    ultimately show ?thesis using assms(2) by (meson dispatcher_idle_def serve.take)
  qed
qed

section \<open>Properties\<close>

text \<open>C4 (invariant): one run per job at a time. In every reachable state, whatever the interleaving,
  the runs that were requested under the lock of a job (backups, prunes and ingests) and have not
  given it up are exactly the one that the lock names, if any; so no two of them are ever queued or
  executing together.\<close>

theorem one_run_per_job:
  assumes "reachable e" and "j \<noteq> []"
  shows "{r. eg_job e r = j \<and> eg_locking e r \<and> holds_lock (eg_phase e r)} = set_option (eg_locks e j)"
proof -
  have "inv_lock e" using reachable_ok [OF assms(1)] by (simp add: engine_ok_def)
  with assms(2) show ?thesis by (auto simp: inv_lock_def)
qed

text \<open>The queue never holds more than 256 runs, each once, and on each semaphore at most as
  many runs hold a slot as it has.\<close>

theorem queue_and_slots_bounded:
  assumes "reachable e" and "k < length (eg_caps e)"
  shows "length (eg_tasks e) \<le> 256 \<and> distinct (eg_tasks e)
    \<and> card {r. slot_of (eg_phase e r) = Some k} \<le> eg_caps e ! k"
proof -
  have ok: "inv_queue e" "inv_slots e" using reachable_ok [OF assms(1)] by (simp_all add: engine_ok_def)
  then show ?thesis
    using inv_slotsD(2,3) [OF ok(2), of k] assms(2) by (simp add: inv_queue_def queueCapacity_def)
qed

text \<open>The gauge of queued runs. When no sender is between its send and its increment, the
  counter is the length of the queue plus the run the dispatcher holds, so \<open>QueuedRuns\<close> reports it
  exactly; and the runs that can be canceled are exactly the executing ones.\<close>

theorem queued_gauge_exact:
  assumes "reachable e" and "eg_adds e = 0"
  shows "QueuedRuns e = int (length (eg_tasks e)) + int (card {r. holding (eg_phase e r)})
    \<and> card {r. holding (eg_phase e r)} \<le> 1
    \<and> {r. IsRunning r e} = {r. registered (eg_phase e r)}"
proof -
  have "inv_count e" "inv_cancels e" using reachable_ok [OF assms(1)] by (simp_all add: engine_ok_def)
  with assms(2) show ?thesis
    by (auto simp: inv_count_def inv_cancels_def QueuedRuns_def IsRunning_def split: if_splits)
qed

text \<open>C6 (termination): without new requests the engine comes to rest: there is no infinite sequence of
  steps of dispatcher and workers from a reachable state.\<close>

theorem serve_terminates: "\<not> (\<exists>f. reachable (f 0) \<and> (\<forall>i. serve (f i) (f (Suc i))))"
proof
  assume "\<exists>f. reachable (f 0) \<and> (\<forall>i. serve (f i) (f (Suc i)))"
  then obtain f where f: "reachable (f 0)" "\<And>i. serve (f i) (f (Suc i))" by blast
  have "engine_ok (f i)" for i
    by (induction i) (use f reachable_ok engine_ok_serve in blast)+
  then have "work_left (f (Suc i)) < work_left (f i)" for i
    using serve_work_left [OF f(2)] by (simp add: engine_ok_def inv_slots_def)
  moreover obtain i where "(f (Suc i), f i) \<notin> measure work_left"
    using wf_no_infinite_down_chainE [OF wf_measure] by metis
  ultimately show False by simp
qed

text \<open>C5 (liveness): no run is stuck. Where the engine comes to rest while its dispatcher runs, every
  requested run has ended, no job is locked, the queue is empty, no slot is taken and nothing is
  registered.\<close>

theorem rest_means_ended:
  assumes "reachable e" and "eg_dispatching e" and "\<nexists>e'. serve e e'"
  shows "ended e \<and> eg_locks e = (\<lambda>_. None) \<and> eg_tasks e = [] \<and> eg_held e = (\<lambda>_. 0) \<and> eg_cancels e = {}"
proof -
  from reachable_ok [OF assms(1)] have ok: "engine_ok e" .
  with assms(2,3) have "ended e" using progress by blast
  then have phase: "\<not> holds_lock (eg_phase e r)" "slot_of (eg_phase e r) = None" "\<not> registered (eg_phase e r)"
      "eg_phase e r \<noteq> Queued" for r
    using at_rest [of "eg_phase e r"] by (auto simp: ended_def)
  have "eg_locks e j = None" for j
    using ok phase(1) by (cases "eg_locks e j") (auto simp: engine_ok_def inv_lock_def)
  moreover have "eg_tasks e = []" using ok phase(4) by (auto simp: engine_ok_def inv_queue_def)
  moreover have "eg_held e k = 0" for k using ok phase(2) inv_slotsD(2) [of e k] by (simp add: engine_ok_def)
  moreover have "eg_cancels e = {}" using ok phase(3) by (simp add: engine_ok_def inv_cancels_def)
  ultimately show ?thesis using \<open>ended e\<close> by auto
qed

section \<open>Witnesses\<close>

text \<open>A reachable state: an ingest of job \<open>j\<close> executes in the second semaphore while run \<open>a\<close>
  of another job still executes in the first.\<close>

lemma reach_ingest:
  assumes "reachable e" and "eg_phase e r = Fresh" and "j \<noteq> []" and "eg_locks e j = None"
    and "k = eg_sem e" and "eg_held e k < eg_caps e ! k"
  shows "reachable (e\<lparr>eg_locks := (eg_locks e)(j \<mapsto> r), eg_job := (eg_job e)(r := j),
    eg_locking := (eg_locking e)(r := True), eg_held := (eg_held e)(k := eg_held e k + 1),
    eg_cancels := insert r (eg_cancels e), eg_phase := (eg_phase e)(r := IngRunning k)\<rparr>)"
proof -
  define e1 where "e1 = new_request r j True IngLocked (snd (tryLockJob j r e))"
  have "tryLockJob j r e = (True, snd (tryLockJob j r e))" using assms(3,4) by (simp add: tryLockJob_def)
  then have "reachable e1"
    unfolding e1_def by (rule reachable.request [OF assms(1) request.lock_ingest [of e r j, OF assms(2)]])
  then have "reachable (set_phase r IngCreated e1)"
    by (rule reachable.serve, intro serve.ing_create) (simp add: e1_def engine_ops)
  then have "reachable (set_phase r (IngWaiting (eg_sem (set_phase r IngCreated e1))) (set_phase r IngCreated e1))"
    by (rule reachable.serve, intro serve.ing_sem) (simp add: engine_ops)
  then have "reachable (set_phase r (IngWaiting k) e1)"
    using assms(3-5) by (simp add: e1_def engine_ops tryLockJob_def)
  then have "reachable (set_phase r (IngStarted k) (take_slot k (set_phase r (IngWaiting k) e1)))"
    by (rule reachable.serve, intro serve.ing_slot)
       (use assms(3-6) in \<open>simp_all add: e1_def engine_ops slot_free_def tryLockJob_def\<close>)
  then have "reachable (set_phase r (IngRunning k) (register_run r (set_phase r (IngStarted k) (take_slot k (set_phase r (IngWaiting k) e1)))))"
    by (rule reachable.serve, intro serve.ing_register) (simp add: engine_ops)
  then show ?thesis
    using assms(3,4) by (simp add: e1_def engine_ops tryLockJob_def)
qed

definition demo_engine :: engine where
  "demo_engine = engine_New\<lparr>eg_locks := [''i'' \<mapsto> ''a''], eg_job := (\<lambda>_. [])(''a'' := ''i''),
    eg_locking := (\<lambda>_. False)(''a'' := True), eg_held := (\<lambda>_. 0)(0 := 1), eg_cancels := {''a''},
    eg_phase := (\<lambda>_. Fresh)(''a'' := IngRunning 0)\<rparr>"

lemma demo_engine_reachable: "reachable demo_engine"
  using reach_ingest [of engine_New "''a''" "''i''" 0] reachable.init
  by (simp add: engine_New_def demo_engine_def)

theorem one_run_per_job_witness:
  "{r. eg_job demo_engine r = ''i'' \<and> eg_locking demo_engine r \<and> holds_lock (eg_phase demo_engine r)} = {''a''}"
  using one_run_per_job [OF demo_engine_reachable, of "''i''"] by (simp add: demo_engine_def engine_New_def)

theorem queue_and_slots_bounded_witness:
  "card {r. slot_of (eg_phase demo_engine r) = Some 0} \<le> eg_caps demo_engine ! 0 \<and> eg_caps demo_engine ! 0 = 2"
  using queue_and_slots_bounded [OF demo_engine_reachable, of 0] by (simp add: demo_engine_def engine_New_def)

theorem queued_gauge_exact_witness:
  "QueuedRuns demo_engine = 0 \<and> {r. IsRunning r demo_engine} = {''a''}"
  using queued_gauge_exact [OF demo_engine_reachable]
  by (simp add: demo_engine_def engine_New_def QueuedRuns_def IsRunning_def)

inductive_cases serve_step: "serve e e'"

theorem rest_means_ended_witness:
  "reachable (engine_New\<lparr>eg_running := True, eg_dispatching := True\<rparr>)
   \<and> ended (engine_New\<lparr>eg_running := True, eg_dispatching := True\<rparr>)"
proof -
  let ?e = "engine_New\<lparr>eg_running := True, eg_dispatching := True\<rparr>"
  have "reachable (engine_New\<lparr>eg_running := True\<rparr>)"
    by (rule reachable.request [OF reachable.init request.start]) (simp_all add: engine_New_def)
  then have reach: "reachable ?e"
    by (rule reachable.request, intro request.start_dispatch [where e = "engine_New\<lparr>eg_running := True\<rparr>", simplified])
       (simp add: engine_New_def)
  moreover have "\<nexists>e'. serve ?e e'"
    by (auto elim!: serve_step simp: engine_New_def)
  ultimately show ?thesis
    using rest_means_ended [of ?e] by simp
qed

text \<open>The limit on concurrent runs binds each semaphore only. When it is lowered while runs
  execute, the new semaphore starts empty, and more runs than the setting allows execute at once.\<close>

theorem concurrency_limit_exceeded:
  "\<exists>e. reachable e \<and> eg_caps e ! eg_sem e < card {r. executing (eg_phase e r)}"
proof -
  let ?e = "setConcurrency 1 demo_engine"
  have "reachable ?e" using demo_engine_reachable request.settings by (rule reachable.request)
  moreover have e: "eg_sem ?e = 1" "eg_caps ?e = [2, 1]" "eg_held ?e = (\<lambda>_. 0)(0 := 1)"
      "eg_phase ?e = (\<lambda>_. Fresh)(''a'' := IngRunning 0)" "eg_locks ?e = [''i'' \<mapsto> ''a'']"
    by (simp_all add: setConcurrency_def demo_engine_def engine_New_def)
  ultimately obtain e' where e': "reachable e'" "eg_sem e' = 1" "eg_caps e' = [2, 1]"
      "eg_phase e' = (\<lambda>_. Fresh)(''a'' := IngRunning 0, ''b'' := IngRunning 1)"
    using reach_ingest [of ?e "''b''" "''j''" 1] by simp
  have "{r. executing (eg_phase e' r)} = {''a'', ''b''}" unfolding e'(4) by auto
  then show ?thesis using e' by (intro exI [of _ e']) simp
qed

end
