(* ===== verification/Engine_Runs.thy ===== *)
theory Engine_Runs
  imports Engine Pipeline Store_Jobs
begin

text \<open>
  The functions of the engine that touch both its own state and the database (engine.go, and the
  enqueueing functions of runner.go, prune.go, restore.go and ingest.go), as one caller sees them:
  the creation of a run, the requests, the execution of a task, the abandonment of a run at shutdown,
  the recovery after a restart, and the cleanup. A function takes the errors its statements get,
  the identifier and the clock as arguments, and the engine and the database as state.
\<close>

definition newRun :: "string \<Rightarrow> time \<Rightarrow> Job \<Rightarrow> RunKind \<Rightarrow> RunTrigger \<Rightarrow> string \<Rightarrow> Run" where
  "newRun newID now job kind trigger createdBy =
     zero_run\<lparr>run_ID := newID, run_JobID := job_ID job, run_JobSlug := job_Slug job, run_JobName := job_Name job,
       run_Kind := kind, run_Trigger := trigger, run_Status := RunQueued, run_QueuedAt := now,
       run_Meta := (if job_TimeoutMinutes job > 0 then [''timeoutMinutes'' \<mapsto> Itoa (job_TimeoutMinutes job)] else Map.empty),
       run_CreatedBy := createdBy\<rparr>"

definition job_busy :: error where
  "job_busy = GoErr (Some ErrJobBusy) ''job is already running''"

text \<open>\<open>EnqueueBackup\<close> and \<open>EnqueuePrune\<close> differ in the run they make.\<close>

definition enqueue_locked :: "error option \<Rightarrow> time \<Rightarrow> Run \<Rightarrow> engine \<times> db \<Rightarrow> Run result \<times> engine \<times> db" where
  "enqueue_locked flt now run = (\<lambda>(e, d).
     let (locked, e1) = tryLockJob (run_JobID run) (run_ID run) e
     in if \<not> locked then (Inl job_busy, e, d)
        else (case Runs_Create flt (run_ID run) now run d of
                (Inl err, d1) \<Rightarrow> (Inl err, releaseJob (run_JobID run) (run_ID run) e1, d1)
              | (Inr saved, d1) \<Rightarrow>
                  (case enqueue (run_ID saved) e1 of
                     (Some err, e2) \<Rightarrow> (Inl err, releaseJob (run_JobID run) (run_ID run) e2, d1)
                   | (None, e2) \<Rightarrow> (Inr saved, e2, d1))))"

definition EnqueueBackup ::
  "error option \<Rightarrow> string \<Rightarrow> time \<Rightarrow> Job \<Rightarrow> RunTrigger \<Rightarrow> string \<Rightarrow> engine \<times> db \<Rightarrow> Run result \<times> engine \<times> db" where
  "EnqueueBackup flt newID now job trigger createdBy =
     enqueue_locked flt now (newRun newID now job RunBackup trigger createdBy)"

definition EnqueuePrune ::
  "error option \<Rightarrow> string \<Rightarrow> time \<Rightarrow> Job \<Rightarrow> string \<Rightarrow> engine \<times> db \<Rightarrow> Run result \<times> engine \<times> db" where
  "EnqueuePrune flt newID now job createdBy =
     enqueue_locked flt now (newRun newID now job RunPrune TriggerManual createdBy)"

definition enqueue_unlocked :: "error option \<Rightarrow> time \<Rightarrow> Run \<Rightarrow> engine \<times> db \<Rightarrow> Run result \<times> engine \<times> db" where
  "enqueue_unlocked flt now run = (\<lambda>(e, d).
     case Runs_Create flt (run_ID run) now run d of
       (Inl err, d1) \<Rightarrow> (Inl err, e, d1)
     | (Inr saved, d1) \<Rightarrow>
         (case enqueue (run_ID saved) e of
            (Some err, e1) \<Rightarrow> (Inl err, e1, d1)
          | (None, e1) \<Rightarrow> (Inr saved, e1, d1)))"

definition artifact_job :: "Artifact \<Rightarrow> Job" where
  "artifact_job a = zero_job\<lparr>job_ID := art_JobID a, job_Slug := art_JobSlug a, job_Name := art_JobName a\<rparr>"

definition EnqueueVerify ::
  "error option \<Rightarrow> string \<Rightarrow> time \<Rightarrow> Artifact \<Rightarrow> string \<Rightarrow> engine \<times> db \<Rightarrow> Run result \<times> engine \<times> db" where
  "EnqueueVerify flt newID now artifact createdBy =
     (let run = newRun newID now (artifact_job artifact) RunVerify TriggerManual createdBy
      in enqueue_unlocked flt now (run\<lparr>run_Meta := (run_Meta run)(''artifactId'' \<mapsto> art_ID artifact)\<rparr>))"

text \<open>The execution of a task in a worker: the timeout of its context, and the run from start to finish.
  \<open>newRun\<close> writes only decimal numbers into \<open>timeoutMinutes\<close>; \<open>time.ParseDuration\<close> fails
  on those that exceed 64 bits of nanoseconds.\<close>

definition parse_minutes :: "string \<Rightarrow> duration option" where
  "parse_minutes v = (case Atoi v of None \<Rightarrow> None | Some n \<Rightarrow> if n * Minute < 2 ^ 63 then Some (n * Minute) else None)"

definition run_timeout :: "Run \<Rightarrow> duration" where
  "run_timeout run =
     (case run_Meta run ''timeoutMinutes'' of
        None \<Rightarrow> defaultTimeout
      | Some v \<Rightarrow> (case parse_minutes v of Some d \<Rightarrow> if d > 0 then d else defaultTimeout | None \<Rightarrow> defaultTimeout))"

definition execute :: "'w env \<Rightarrow> Run \<Rightarrow> ('w, error option) run \<Rightarrow> ('w, unit) run" where
  "execute E run body = do {
     set_rs (\<lambda>_. newRunState run);
     start E;
     err \<leftarrow> body;
     finish E err }"

definition abandoned_run :: "time \<Rightarrow> string \<Rightarrow> Run \<Rightarrow> Run" where
  "abandoned_run now reason run = run\<lparr>run_Status := RunFailed, run_Error := reason, run_FinishedAt := Some now\<rparr>"

definition abandon :: "error option \<Rightarrow> time \<Rightarrow> Run \<Rightarrow> string \<Rightarrow> engine \<times> db \<Rightarrow> engine \<times> db" where
  "abandon flt now run reason = (\<lambda>(e, d).
     (releaseJob (run_JobID run) (run_ID run) e, snd (Runs_Save flt (abandoned_run now reason run) d)))"

text \<open>\<open>Ingest\<close> runs in the goroutine of its request. \<open>canceled\<close> is the error of the request's context
  while the call waits for a slot, \<open>None\<close> if it gets one. The lock of the job is released on every
  path.\<close>

definition slot_canceled :: "time \<Rightarrow> Run \<Rightarrow> Run" where
  "slot_canceled now run = abandoned_run now ''ingest was canceled while waiting for a worker slot'' run"

definition Ingest ::
  "'w env \<Rightarrow> engine \<Rightarrow> Job \<Rightarrow> string list \<Rightarrow> error option \<Rightarrow> IngestOptions
   \<Rightarrow> ('w, (Run option \<times> Artifact list \<times> error option) \<times> engine) run" where
  "Ingest E e job chunks body_err opts = do {
     newID \<leftarrow> ask (env_id E);
     now \<leftarrow> ask (env_now E);
     let run = newRun newID now job RunIngest TriggerIngest (io_CreatedBy opts);
     (case tryLockJob (job_ID job) newID e of
        (False, _) \<Rightarrow> return ((None, [], Some job_busy), e)
      | (True, e1) \<Rightarrow> do {
          created \<leftarrow> exec E ''create run'' (\<lambda>flt. Runs_Create flt newID now run);
          (case created of
             Inl err \<Rightarrow> return ((None, [], Some err), releaseJob (job_ID job) newID e1)
           | Inr saved \<Rightarrow> do {
               publish (RunUpdated saved);
               canceled \<leftarrow> ask (env_ctx E);
               (case canceled of
                  Some err \<Rightarrow> do {
                    at \<leftarrow> ask (env_now E);
                    _ \<leftarrow> exec E ''save run'' (\<lambda>flt. Runs_Save flt (slot_canceled at saved));
                    publish (RunUpdated (slot_canceled at saved));
                    return ((None, [], Some err), releaseJob (job_ID job) newID e1) }
                | None \<Rightarrow> do {
                    set_rs (\<lambda>_. newRunState saved);
                    start E;
                    err \<leftarrow> runIngest E job chunks body_err opts;
                    finish E err;
                    final \<leftarrow> the_run;
                    listed \<leftarrow> query E ''list run artifacts'' (\<lambda>flt. Artifacts_ForRun flt (run_ID final));
                    (case listed of
                       Inl le \<Rightarrow> return ((Some final, [], Some le), releaseJob (job_ID job) newID e1)
                     | Inr artifacts \<Rightarrow> return ((Some final, artifacts, err), releaseJob (job_ID job) newID e1)) }) }) }) }"

section \<open>Recovery and cleanup\<close>

definition interrupt_stage :: "time \<Rightarrow> Stage \<Rightarrow> Stage" where
  "interrupt_stage now x =
     (if stg_Status x = StageRunning
      then x\<lparr>stg_Status := StageFailed, stg_FinishedAt := Some now, stg_Message := ''interrupted''\<rparr> else x)"

definition interrupt_run :: "time \<Rightarrow> Run \<Rightarrow> Run" where
  "interrupt_run now run =
     run\<lparr>run_Status := RunFailed, run_Error := ''run was interrupted by a server restart'',
         run_FinishedAt := Some now,
         run_DurationMS := (case run_StartedAt run of Some t \<Rightarrow> millis (Sub now t) | None \<Rightarrow> run_DurationMS run),
         run_Stages := map (interrupt_stage now) (run_Stages run)\<rparr>"

text \<open>The loop stops at the first error; \<open>flts\<close> gives the error of the save of each run.\<close>

fun recover_loop :: "(string \<Rightarrow> error option) \<Rightarrow> time \<Rightarrow> Run list \<Rightarrow> db \<Rightarrow> error option \<times> db" where
  "recover_loop flts now [] d = (None, d)"
| "recover_loop flts now (r # rs) d =
     (case Runs_Save (flts (run_ID r)) (interrupt_run now r) d of
        (Some err, d1) \<Rightarrow> (Some err, d1)
      | (None, d1) \<Rightarrow> recover_loop flts now rs d1)"

definition recoverInterruptedRuns :: "error option \<Rightarrow> (string \<Rightarrow> error option) \<Rightarrow> time \<Rightarrow> db \<Rightarrow> error option \<times> db" where
  "recoverInterruptedRuns flt flts now d =
     (case Runs_Unfinished flt d of Inl err \<Rightarrow> (Some err, d) | Inr runs \<Rightarrow> recover_loop flts now runs d)"

definition cleanupOnce ::
  "error option \<Rightarrow> error option \<Rightarrow> error option \<Rightarrow> error option \<Rightarrow> time \<Rightarrow> db \<Rightarrow> db" where
  "cleanupOnce flt flt1 flt2 flt3 now d =
     (case Settings_Get flt d of (st, None) \<Rightarrow> snd (Cleanup flt1 flt2 flt3 st now d) | (_, Some _) \<Rightarrow> d)"

section \<open>Lemmas\<close>

lemma tryLock_release:
  "tryLockJob j r e = (True, e1) \<Longrightarrow> releaseJob j r e1 = e"
  by (auto simp: tryLockJob_def releaseJob_def fun_upd_idem split: if_splits option.splits)

lemma tryLockJob_busy: "fst (tryLockJob j r e) \<longleftrightarrow> j = [] \<or> \<not> JobBusy j e"
  by (simp add: tryLockJob_def JobBusy_def split: option.split)

lemma enqueue_error: "enqueue r e = (Some err, e') \<Longrightarrow> e' = e"
  by (auto simp: enqueue_def send_task_def split: if_splits)

lemma enqueue_sent: "enqueue r e = (None, e') \<Longrightarrow> eg_tasks e' = eg_tasks e @ [r] \<and> eg_locks e' = eg_locks e"
  by (auto simp: enqueue_def send_task_def split: if_splits)

lemma Runs_Create_row:
  "Runs_Create flt newID now run d = (Inr saved, d') \<Longrightarrow> t_runs d' = t_runs d @ [run_row saved]"
  "Runs_Create flt newID now run d = (Inr saved, d') \<Longrightarrow> run_ID run \<noteq> [] \<Longrightarrow> run_ID saved = run_ID run"
  "Runs_Create flt newID now run d = (Inr saved, d') \<Longrightarrow> run_Status saved = run_Status run"
  "Runs_Create flt newID now run d = (Inl err, d') \<Longrightarrow> d' = d"
  by (auto simp: Runs_Create_def Let_def split: option.splits if_splits)

lemma find_row_snoc: "find_row key i rows = None \<Longrightarrow> key r = i \<Longrightarrow> find_row key i (rows @ [r]) = Some r"
  by (induction rows) (auto simp: find_row_def split: if_splits)

lemma Runs_Create_fresh:
  "run_ID run \<noteq> [] \<Longrightarrow> find_row run_ID (run_ID run) (t_runs d) = None \<Longrightarrow>
   \<exists>saved d'. Runs_Create None newID now run d = (Inr saved, d')"
  by (cases "IsZero (run_QueuedAt run)") (simp_all add: Runs_Create_def exec_err_def Let_def)

lemma recover_loop_rows:
  assumes "fst (recover_loop flts now rs d) = None" and "distinct (map run_ID rs)" and "now \<noteq> 0"
  shows "t_runs (snd (recover_loop flts now rs d)) =
    map (\<lambda>q. case find (\<lambda>r. run_ID r = run_ID q) rs of None \<Rightarrow> q | Some r \<Rightarrow> run_row (interrupt_run now r)) (t_runs d)"
  using assms(1,2)
proof (induction rs arbitrary: d)
  case Nil
  then show ?case by simp
next
  case (Cons r rs)
  from Cons.prems(1) have flt: "flts (run_ID r) = None"
    by (cases "flts (run_ID r)") (auto simp: Runs_Save_def)
  let ?d = "snd (Runs_Save None (interrupt_run now r) d)"
  have rows: "t_runs ?d = map (\<lambda>q. if run_ID q = run_ID r then run_row (interrupt_run now r) else q) (t_runs d)"
    by (simp add: Runs_Save_def update_rows_def interrupt_run_def)
  from Cons.prems(1) flt have "recover_loop flts now (r # rs) d = recover_loop flts now rs ?d"
    by (auto split: option.splits prod.splits)
  with Cons.prems Cons.IH [of ?d] have "t_runs (snd (recover_loop flts now (r # rs) d)) =
      map (\<lambda>q. case find (\<lambda>r. run_ID r = run_ID q) rs of None \<Rightarrow> q | Some r \<Rightarrow> run_row (interrupt_run now r)) (t_runs ?d)"
    by simp
  moreover have "find (\<lambda>q. run_ID q = run_ID r) rs = None"
    unfolding find_None_iff using Cons.prems(2) by (metis distinct.simps(2) image_eqI list.set_map list.simps(9))
  ultimately show ?case
    unfolding rows by (auto simp: run_row_def interrupt_run_def)
qed

section \<open>Properties\<close>

text \<open>C35 (functional): a request for a backup. If the job is locked it is refused and nothing changes; if
  the run cannot be created or queued, the engine is as before; otherwise the run is the last in the
  queue, holds the lock of its job, and is stored as queued.\<close>

theorem EnqueueBackup_outcome:
  assumes "job_ID job \<noteq> []" and "newID \<noteq> []"
  shows "if JobBusy (job_ID job) e
    then EnqueueBackup flt newID now job trigger createdBy (e, d) = (Inl job_busy, e, d)
    else (case EnqueueBackup flt newID now job trigger createdBy (e, d) of
        (Inl err, e', d') \<Rightarrow> e' = e
      | (Inr saved, e', d') \<Rightarrow> eg_tasks e' = eg_tasks e @ [newID]
          \<and> eg_locks e' = (eg_locks e)(job_ID job \<mapsto> newID)
          \<and> t_runs d' = t_runs d @ [run_row saved] \<and> run_ID saved = newID \<and> run_Status saved = RunQueued)"
proof (cases "JobBusy (job_ID job) e")
  case True
  then show ?thesis
    using assms(1) by (auto simp: EnqueueBackup_def enqueue_locked_def newRun_def tryLockJob_def JobBusy_def)
next
  case False
  let ?run = "newRun newID now job RunBackup trigger createdBy"
  have run: "run_JobID ?run = job_ID job" "run_ID ?run = newID" "run_Status ?run = RunQueued" by (simp_all add: newRun_def)
  from False assms(1) obtain e1 where lock: "tryLockJob (job_ID job) newID e = (True, e1)"
    and e1: "eg_locks e1 = (eg_locks e)(job_ID job \<mapsto> newID)" "eg_tasks e1 = eg_tasks e"
    by (auto simp: tryLockJob_def JobBusy_def)
  show ?thesis
  proof (cases "Runs_Create flt newID now ?run d")
    case (Pair res d1)
    show ?thesis
    proof (cases res)
      case (Inl err)
      with Pair False lock show ?thesis
        by (simp add: EnqueueBackup_def enqueue_locked_def run tryLock_release)
    next
      case (Inr saved)
      with Pair have saved: "run_ID saved = newID" "run_Status saved = RunQueued" "t_runs d1 = t_runs d @ [run_row saved]"
        using Runs_Create_row(1-3) [of flt newID now ?run d saved d1] run assms(2) by auto
      show ?thesis
      proof (cases "enqueue newID e1")
        case sent: (Pair r e2)
        show ?thesis
        proof (cases r)
          case (Some err)
          with sent have "e2 = e1" by (auto dest: enqueue_error)
          with Some sent Pair Inr False lock saved show ?thesis
            by (simp add: EnqueueBackup_def enqueue_locked_def run tryLock_release)
        next
          case None
          with sent have "eg_tasks e2 = eg_tasks e1 @ [newID]" "eg_locks e2 = eg_locks e1" by (auto dest: enqueue_sent)
          with None sent Pair Inr False lock saved e1 show ?thesis
            by (simp add: EnqueueBackup_def enqueue_locked_def run)
        qed
      qed
    qed
  qed
qed

definition demo_queue :: engine where
  "demo_queue = engine_New\<lparr>eg_running := True\<rparr>"

theorem EnqueueBackup_outcome_witness:
  "\<exists>saved e' d'. EnqueueBackup None ''r1'' 5 (zero_job\<lparr>job_ID := ''j''\<rparr>) TriggerManual ''me'' (demo_queue, empty_db) = (Inr saved, e', d')
    \<and> eg_tasks e' = [''r1''] \<and> eg_locks e' = [''j'' \<mapsto> ''r1''] \<and> run_Status saved = RunQueued"
proof -
  let ?job = "zero_job\<lparr>job_ID := ''j''\<rparr>"
  obtain saved e' d' where r: "EnqueueBackup None ''r1'' 5 ?job TriggerManual ''me'' (demo_queue, empty_db) = (Inr saved, e', d')"
    by (simp add: EnqueueBackup_def enqueue_locked_def newRun_def tryLockJob_def demo_queue_def engine_New_def
        Runs_Create_def exec_err_def find_row_def empty_db_def enqueue_def send_task_def queueCapacity_def Let_def IsZero_def)
  have "\<not> JobBusy (job_ID ?job) demo_queue" by (simp add: JobBusy_def demo_queue_def engine_New_def)
  with EnqueueBackup_outcome [of ?job "''r1''" demo_queue None 5 TriggerManual "''me''" empty_db] r show ?thesis
    by (simp add: demo_queue_def engine_New_def)
qed

text \<open>A run that cannot be queued is left behind. When the queue is full, a request for a
  backup that was created returns the error and gives the lock back, but the database keeps its run
  with status queued although no queue holds it.\<close>

theorem full_queue_orphans_run:
  assumes "job_ID job \<noteq> []" and "newID \<noteq> []" and "\<not> JobBusy (job_ID job) e" and "eg_running e"
    and "length (eg_tasks e) = queueCapacity" and "newID \<notin> set (eg_tasks e)"
    and "find_row run_ID newID (t_runs d) = None"
  shows "\<exists>err d'. EnqueueBackup None newID now job trigger createdBy (e, d) = (Inl err, e, d')
    \<and> errIs err ErrQueueFull
    \<and> (\<exists>row. find_row run_ID newID (t_runs d') = Some row \<and> run_Status row = RunQueued)"
proof -
  let ?run = "newRun newID now job RunBackup trigger createdBy"
  have run: "run_JobID ?run = job_ID job" "run_ID ?run = newID" "run_Status ?run = RunQueued" by (simp_all add: newRun_def)
  from assms(1,3) obtain e1 where lock: "tryLockJob (job_ID job) newID e = (True, e1)"
    and e1: "eg_tasks e1 = eg_tasks e" "eg_running e1 = eg_running e"
    by (auto simp: tryLockJob_def JobBusy_def)
  obtain saved d1 where created: "Runs_Create None newID now ?run d = (Inr saved, d1)"
    using assms(2,7) Runs_Create_fresh [of ?run d newID now] by (auto simp: run)
  then have row: "t_runs d1 = t_runs d @ [run_row saved]" "run_ID saved = newID" "run_Status saved = RunQueued"
    using Runs_Create_row(1-3) [of None newID now ?run d saved d1] run assms(2) by auto
  have "enqueue newID e1 = (Some (GoErr (Some ErrQueueFull) ''run queue is full''), e1)"
    using assms(4,5) e1 by (simp add: enqueue_def send_task_def)
  moreover have "find_row run_ID newID (t_runs d1) = Some (run_row saved)"
    using assms(7) row by (simp add: find_row_snoc run_row_def)
  ultimately show ?thesis
    using lock created row by (simp add: EnqueueBackup_def enqueue_locked_def run tryLock_release errIs_def run_row_def)
qed

theorem full_queue_orphans_run_witness:
  "\<exists>err d'. EnqueueBackup None ''r'' 5 (zero_job\<lparr>job_ID := ''j''\<rparr>) TriggerManual ''me''
      (demo_queue\<lparr>eg_tasks := replicate queueCapacity ''x''\<rparr>, empty_db) = (Inl err, demo_queue\<lparr>eg_tasks := replicate queueCapacity ''x''\<rparr>, d')
    \<and> errIs err ErrQueueFull"
proof -
  have "\<exists>err d'. EnqueueBackup None ''r'' 5 (zero_job\<lparr>job_ID := ''j''\<rparr>) TriggerManual ''me''
      (demo_queue\<lparr>eg_tasks := replicate queueCapacity ''x''\<rparr>, empty_db) = (Inl err, demo_queue\<lparr>eg_tasks := replicate queueCapacity ''x''\<rparr>, d')
    \<and> errIs err ErrQueueFull
    \<and> (\<exists>row. find_row run_ID ''r'' (t_runs d') = Some row \<and> run_Status row = RunQueued)"
    by (rule full_queue_orphans_run)
       (simp_all add: JobBusy_def demo_queue_def engine_New_def find_row_def empty_db_def)
  then show ?thesis by blast
qed

lemma find_unfinished:
  assumes "distinct (map run_ID rows)" and "q \<in> set rows"
  shows "find (\<lambda>r. run_ID r = run_ID q) (sort_key f (filter unfinished rows)) = (if unfinished q then Some q else None)"
proof -
  have same: "r \<in> set rows \<Longrightarrow> run_ID r = run_ID q \<longleftrightarrow> r = q" for r
    using assms by (auto simp: distinct_map dest: inj_onD)
  show ?thesis
  proof (cases "find (\<lambda>r. run_ID r = run_ID q) (sort_key f (filter unfinished rows))")
    case None
    then show ?thesis using assms(2) by (auto simp: find_None_iff)
  next
    case (Some x)
    then have "x \<in> set (sort_key f (filter unfinished rows))" "run_ID x = run_ID q"
      unfolding find_Some_iff by (metis nth_mem, metis)
    then have "x = q" "unfinished q" using same [of x] by auto
    with Some show ?thesis by simp
  qed
qed

text \<open>What a restart makes of a stored run, field by field: a run that was queued or running has failed as
  interrupted, with its running stages; another is untouched.\<close>

definition interrupted_stage :: "time \<Rightarrow> Stage \<Rightarrow> Stage \<Rightarrow> bool" where
  "interrupted_stage now x y \<longleftrightarrow>
     (if stg_Status x = StageRunning
      then stg_Status y = StageFailed \<and> stg_FinishedAt y = Some now \<and> stg_Message y = ''interrupted''
        \<and> stg_Name y = stg_Name x \<and> stg_StartedAt y = stg_StartedAt x
      else y = x)"

definition after_restart :: "time \<Rightarrow> Run \<Rightarrow> Run \<Rightarrow> bool" where
  "after_restart now r r' \<longleftrightarrow>
     (case run_Status r of
        RunSuccess \<Rightarrow> r' = r | RunWarning \<Rightarrow> r' = r | RunFailed \<Rightarrow> r' = r | RunCanceled \<Rightarrow> r' = r
      | _ \<Rightarrow>
          run_Status r' = RunFailed \<and> run_Error r' = ''run was interrupted by a server restart''
          \<and> run_FinishedAt r' = Some now
          \<and> (\<forall>t. run_StartedAt r = Some t \<and> t \<le> now \<and> now - t < 2 ^ 63 \<longrightarrow> run_DurationMS r' = (now - t) div 1000000)
          \<and> (run_StartedAt r = None \<longrightarrow> run_DurationMS r' = run_DurationMS r)
          \<and> list_all2 (interrupted_stage now) (run_Stages r) (run_Stages r')
          \<and> run_StartedAt r' = (if run_StartedAt r = Some 0 then None else run_StartedAt r)
          \<and> (run_ID r', run_JobID r', run_JobSlug r', run_JobName r', run_Kind r', run_Trigger r', run_QueuedAt r')
            = (run_ID r, run_JobID r, run_JobSlug r, run_JobName r, run_Kind r, run_Trigger r, run_QueuedAt r)
          \<and> (run_Bytes r', run_RawBytes r', run_SHA256 r', run_Filename r', run_ArtifactIDs r', run_Attempt r', run_Meta r',
              run_CreatedBy r')
            = (run_Bytes r, run_RawBytes r, run_SHA256 r, run_Filename r, run_ArtifactIDs r, run_Attempt r, run_Meta r,
               run_CreatedBy r))"

lemma interrupted_stages: "list_all2 (interrupted_stage now) xs (map (interrupt_stage now) xs)"
  by (induction xs) (simp_all add: interrupted_stage_def interrupt_stage_def)

lemma millis_elapsed: "t \<le> now \<Longrightarrow> now - t < 2 ^ 63 \<Longrightarrow> millis (Sub now t) = (now - t) div 1000000"
  by (cases "now = t") (simp_all add: millis_def quot_def Sub_small)

lemma unfinished_after: "unfinished r \<Longrightarrow> now \<noteq> 0 \<Longrightarrow> after_restart now r (run_row (interrupt_run now r))"
  by (auto simp: unfinished_def after_restart_def run_row_def interrupt_run_def interrupted_stages millis_elapsed nullTime_def)

lemma finished_after: "\<not> unfinished r \<Longrightarrow> after_restart now r r"
  by (cases "run_Status r") (simp_all add: unfinished_def after_restart_def)

text \<open>C34 (functional): recovery after a restart. If the stored runs can be read and saved, every run that was
  queued or running is then failed as interrupted at this time, with its running stages and its duration so far, and
  with everything else it recorded kept; every other run is as it was, and none was added, removed or moved.\<close>

theorem recovery_closes_interrupted:
  assumes "fst (recoverInterruptedRuns None flts now d) = None" and "db_ok d" and "now \<noteq> 0"
  shows "list_all2 (after_restart now) (t_runs d) (t_runs (snd (recoverInterruptedRuns None flts now d)))
    \<and> (\<forall>r\<in>set (t_runs (snd (recoverInterruptedRuns None flts now d))). run_Status r \<noteq> RunQueued \<and> run_Status r \<noteq> RunRunning)"
proof -
  let ?runs = "sort_key run_QueuedAt (filter unfinished (t_runs d))"
  have ids: "distinct (map run_ID (t_runs d))" using assms(2) by (simp add: db_ok_def)
  then have "distinct (map run_ID ?runs)" by (auto simp: distinct_map intro: inj_on_subset)
  moreover have loop: "recoverInterruptedRuns None flts now d = recover_loop flts now ?runs d"
    by (simp add: recoverInterruptedRuns_def Runs_Unfinished_def)
  ultimately have rows: "t_runs (snd (recoverInterruptedRuns None flts now d))
      = map (\<lambda>q. case find (\<lambda>r. run_ID r = run_ID q) ?runs of None \<Rightarrow> q | Some r \<Rightarrow> run_row (interrupt_run now r)) (t_runs d)"
    using assms(1,3) recover_loop_rows [of flts now ?runs d] by simp
  also have "\<dots> = map (\<lambda>r. if unfinished r then run_row (interrupt_run now r) else r) (t_runs d)"
    by (intro map_cong) (auto simp: find_unfinished [OF ids])
  finally have rows: "t_runs (snd (recoverInterruptedRuns None flts now d))
      = map (\<lambda>r. if unfinished r then run_row (interrupt_run now r) else r) (t_runs d)" .
  have "list_all2 (after_restart now) rs (map (\<lambda>r. if unfinished r then run_row (interrupt_run now r) else r) rs)" for rs
    using assms(3) by (induction rs) (simp_all add: unfinished_after finished_after)
  moreover have "\<forall>r\<in>set (map (\<lambda>r. if unfinished r then run_row (interrupt_run now r) else r) rs).
      run_Status r \<noteq> RunQueued \<and> run_Status r \<noteq> RunRunning" for rs
    by (auto simp: unfinished_def run_row_def interrupt_run_def)
  ultimately show ?thesis unfolding rows by blast
qed

theorem recovery_closes_interrupted_witness:
  "map (\<lambda>r. (run_Status r, run_Error r)) (t_runs (snd (recoverInterruptedRuns None (\<lambda>_. None) 7
     (empty_db\<lparr>t_runs := [zero_run\<lparr>run_ID := ''r'', run_Status := RunQueued\<rparr>]\<rparr>))))
   = [(RunFailed, ''run was interrupted by a server restart'')]"
proof -
  let ?d = "empty_db\<lparr>t_runs := [zero_run\<lparr>run_ID := ''r'', run_Status := RunQueued\<rparr>]\<rparr>"
  have "fst (recoverInterruptedRuns None (\<lambda>_. None) 7 ?d) = None"
    by (simp add: recoverInterruptedRuns_def Runs_Unfinished_def unfinished_def Runs_Save_def affected_def count_rows_def
        interrupt_run_def zero_run_def)
  moreover have "db_ok ?d" by (simp add: db_ok_def empty_db_def)
  ultimately have "list_all2 (after_restart 7) (t_runs ?d) (t_runs (snd (recoverInterruptedRuns None (\<lambda>_. None) 7 ?d)))"
    using recovery_closes_interrupted [of "\<lambda>_. None" 7 ?d] by simp
  then show ?thesis by (auto simp: list_all2_Cons1 after_restart_def)
qed

end
