(* ===== verification/Scheduler.thy ===== *)
theory Scheduler
  imports Engine_Runs Go_Time
begin

text \<open>
  Schedules, missed runs and overdue jobs (package \<open>internal/engine\<close>: scheduler.go, overdue.go).
  The cron library and the time zone database are not part of the sources: \<open>clockwork\<close> holds what
  they answer, the parsed schedule being the specification and the zone it is evaluated in.
\<close>

section \<open>Schedules\<close>

record clockwork =
  cw_parse :: "string \<Rightarrow> error option"
  cw_zone :: "string \<Rightarrow> error option"
  cw_next :: "string \<Rightarrow> string \<Rightarrow> time \<Rightarrow> time"

definition ParseSchedule :: "clockwork \<Rightarrow> string \<Rightarrow> string result" where
  "ParseSchedule C spec =
     (let s = TrimSpace spec
      in if s = [] then Inl (errNew ''schedule is empty'')
         else (case cw_parse C s of
                 Some e \<Rightarrow> Inl (wrapf (''invalid cron expression \"'' @ s @ [CHR 0x22]) e)
               | None \<Rightarrow> Inr s))"

definition LoadLocation :: "clockwork \<Rightarrow> string \<Rightarrow> string result" where
  "LoadLocation C name =
     (let n = TrimSpace name
      in if n = [] then Inr ''UTC''
         else (case cw_zone C n of
                 Some e \<Rightarrow> Inl (wrapf (''unknown timezone \"'' @ n @ [CHR 0x22]) e)
               | None \<Rightarrow> Inr n))"

definition job_zone :: "Job \<Rightarrow> string \<Rightarrow> string" where
  "job_zone job defaultTimezone = (if TrimSpace (job_Timezone job) = [] then defaultTimezone else job_Timezone job)"

text \<open>Schedule and zone of a job, in the order in which the code reads them.\<close>

definition job_schedule :: "clockwork \<Rightarrow> Job \<Rightarrow> string \<Rightarrow> (string \<times> string) result" where
  "job_schedule C job defaultTimezone =
     (case ParseSchedule C (job_Schedule job) of
        Inl e \<Rightarrow> Inl e
      | Inr sched \<Rightarrow>
          (case LoadLocation C (job_zone job defaultTimezone) of Inl e \<Rightarrow> Inl e | Inr loc \<Rightarrow> Inr (sched, loc)))"

definition NextRun :: "clockwork \<Rightarrow> Job \<Rightarrow> string \<Rightarrow> time \<Rightarrow> time option result" where
  "NextRun C job defaultTimezone from_t =
     (if TrimSpace (job_Schedule job) = [] \<or> \<not> job_Enabled job then Inr None
      else (case job_schedule C job defaultTimezone of
              Inl e \<Rightarrow> Inl e
            | Inr (sched, loc) \<Rightarrow>
                (let nxt = cw_next C sched loc from_t in Inr (if IsZero nxt then None else Some nxt))))"

fun next_loop :: "(time \<Rightarrow> time) \<Rightarrow> nat \<Rightarrow> time \<Rightarrow> time list" where
  "next_loop nxt 0 cursor = []"
| "next_loop nxt (Suc n) cursor =
     (let c = nxt cursor in if IsZero c then [] else c # next_loop nxt n c)"

definition NextRuns :: "clockwork \<Rightarrow> Job \<Rightarrow> string \<Rightarrow> time \<Rightarrow> int \<Rightarrow> time list result" where
  "NextRuns C job defaultTimezone from_t cnt =
     (if TrimSpace (job_Schedule job) = [] then Inr []
      else (case job_schedule C job defaultTimezone of
              Inl e \<Rightarrow> Inl e
            | Inr (sched, loc) \<Rightarrow> Inr (next_loop (cw_next C sched loc) (nat cnt) from_t)))"

text \<open>\<open>previousSlot\<close> walks from slot to slot, at most 2000 times.\<close>

fun slot_loop :: "(time \<Rightarrow> time) \<Rightarrow> nat \<Rightarrow> time \<Rightarrow> time \<Rightarrow> time \<Rightarrow> time" where
  "slot_loop nxt 0 cursor until prev = prev"
| "slot_loop nxt (Suc n) cursor until prev =
     (let c = nxt cursor in if IsZero c \<or> until < c then prev else slot_loop nxt n c until c)"

definition previousSlot :: "clockwork \<Rightarrow> Job \<Rightarrow> string \<Rightarrow> time \<Rightarrow> time \<Rightarrow> time result" where
  "previousSlot C job defaultTimezone from_t until =
     (case job_schedule C job defaultTimezone of
        Inl e \<Rightarrow> Inl e
      | Inr (sched, loc) \<Rightarrow> Inr (slot_loop (cw_next C sched loc) 2000 from_t until 0))"

definition equalTimePtr :: "time option \<Rightarrow> time option \<Rightarrow> bool" where
  "equalTimePtr a b = (case (a, b) of (None, None) \<Rightarrow> True | (Some x, Some y) \<Rightarrow> x = y | _ \<Rightarrow> False)"

section \<open>The scheduler\<close>

text \<open>The jobs \<open>apply\<close> hands to the cron runners, grouped by zone there; a job with a zone or a
  schedule that cannot be read is skipped.\<close>

definition schedulable :: "Job \<Rightarrow> bool" where
  "schedulable job \<longleftrightarrow> job_Enabled job \<and> TrimSpace (job_Schedule job) \<noteq> [] \<and> job_SourceKind job \<noteq> ''push''"

definition apply_entries :: "clockwork \<Rightarrow> Settings \<Rightarrow> Job list \<Rightarrow> (string \<times> string) list" where
  "apply_entries C st jobs =
     map (\<lambda>job. (job_ID job, job_zone job (set_DefaultTimezone st)))
       (filter (\<lambda>job. schedulable job \<and> \<not> isl (LoadLocation C (job_zone job (set_DefaultTimezone st)))
                 \<and> cw_parse C (job_Schedule job) = None) jobs)"

definition trigger ::
  "error option \<Rightarrow> error option \<Rightarrow> error option \<Rightarrow> string \<Rightarrow> time \<Rightarrow> string \<Rightarrow> engine \<times> db \<Rightarrow> engine \<times> db" where
  "trigger flt flt_join flt_run newID now jobID = (\<lambda>(e, d).
     case Jobs_Get flt flt_join jobID d of
       Inl err \<Rightarrow> (e, d)
     | Inr job \<Rightarrow>
         if \<not> job_Enabled job then (e, d)
         else snd (EnqueueBackup flt_run newID now job TriggerSchedule ''scheduler'' (e, d)))"

fun refresh_loop :: "clockwork \<Rightarrow> Settings \<Rightarrow> time \<Rightarrow> (string \<Rightarrow> error option) \<Rightarrow> Job list \<Rightarrow> db \<Rightarrow> error option \<times> db" where
  "refresh_loop C st now flts [] d = (None, d)"
| "refresh_loop C st now flts (job # jobs) d =
     (let nxt = (case NextRun C job (set_DefaultTimezone st) now of Inl e \<Rightarrow> None | Inr t \<Rightarrow> t)
      in if equalTimePtr (job_NextRunAt job) nxt then refresh_loop C st now flts jobs d
         else (case SetNextRun (flts (job_ID job)) now (job_ID job) nxt d of
                 (Some e, d') \<Rightarrow> (Some e, d')
               | (None, d') \<Rightarrow> refresh_loop C st now flts jobs d'))"

definition refreshNextRuns ::
  "clockwork \<Rightarrow> error option \<Rightarrow> error option \<Rightarrow> (string \<Rightarrow> error option) \<Rightarrow> Settings \<Rightarrow> time \<Rightarrow> db \<Rightarrow> error option \<times> db" where
  "refreshNextRuns C flt flt_join flts st now d =
     (case Jobs_All flt flt_join d of Inl e \<Rightarrow> (Some e, d) | Inr jobs \<Rightarrow> refresh_loop C st now flts jobs d)"

text \<open>At the start, a job whose last slot of the past 24 hours has no run is started once.\<close>

definition missed :: "clockwork \<Rightarrow> Settings \<Rightarrow> time \<Rightarrow> Job \<Rightarrow> bool" where
  "missed C st now job \<longleftrightarrow> schedulable job
     \<and> (case previousSlot C job (set_DefaultTimezone st) (now - 24 * Hour) now of
          Inl e \<Rightarrow> False
        | Inr slot \<Rightarrow> \<not> IsZero slot
            \<and> (case job_LastRun job of
                 None \<Rightarrow> True
               | Some r \<Rightarrow> (case sum_StartedAt r of None \<Rightarrow> True | Some t \<Rightarrow> t < slot)))"

definition missed_step ::
  "clockwork \<Rightarrow> Settings \<Rightarrow> time \<Rightarrow> (string \<Rightarrow> error option) \<Rightarrow> (string \<Rightarrow> string) \<Rightarrow> Job \<Rightarrow> engine \<times> db \<Rightarrow> engine \<times> db" where
  "missed_step C st now flts ids job s =
     (if missed C st now job
      then snd (EnqueueBackup (flts (job_ID job)) (ids (job_ID job)) now job TriggerSchedule ''missed-run'' s) else s)"

definition runMissed ::
  "clockwork \<Rightarrow> error option \<Rightarrow> error option \<Rightarrow> Settings \<Rightarrow> time \<Rightarrow> (string \<Rightarrow> error option) \<Rightarrow> (string \<Rightarrow> string)
   \<Rightarrow> engine \<times> db \<Rightarrow> engine \<times> db" where
  "runMissed C flt flt_join st now flts ids s =
     (case Jobs_All flt flt_join (snd s) of Inl e \<Rightarrow> s | Inr jobs \<Rightarrow> fold (missed_step C st now flts ids) jobs s)"

section \<open>Overdue jobs\<close>

text \<open>\<open>Duration.Round(time.Minute)\<close> and \<open>String\<close> of its result.\<close>

definition round_minute :: "duration \<Rightarrow> duration" where
  "round_minute d = sgn d * (let a = \<bar>d\<bar>; r = a mod Minute in if r + r < Minute then a - r else a + Minute - r)"

definition minutes_str :: "duration \<Rightarrow> string" where
  "minutes_str d =
     (if d = 0 then ''0s''
      else (let m = \<bar>d\<bar> div Minute
            in (if d < 0 then ''-'' else []) @ (if 60 \<le> m then Itoa (m div 60) @ ''h'' else []) @ Itoa (m mod 60) @ ''m0s''))"

definition rfc3339 :: "time \<Rightarrow> string" where
  "rfc3339 t = Format_2006_01_02 t @ ''T'' @ pad 2 (nat (hour_of t)) @ '':'' @ pad 2 (nat (minute_of t)) @ '':'' @ pad 2 (nat (second_of t)) @ ''Z''"

definition overdue_grace :: "JobState \<Rightarrow> duration" where
  "overdue_grace state =
     (let expected = wrap64 (2 * wrap64 (js_LastDurationMS state * Millisecond))
      in if 0 < js_LastDurationMS state \<and> 30 * Minute < expected then expected else 30 * Minute)"

definition jobIsOverdue :: "clockwork \<Rightarrow> Job \<Rightarrow> JobState \<Rightarrow> Settings \<Rightarrow> time \<Rightarrow> bool \<times> string" where
  "jobIsOverdue C job state st now =
     (if job_SourceKind job = ''push'' \<or> TrimSpace (job_Schedule job) = []
      then if job_ExpectedIntervalMinutes job \<le> 0 then (False, [])
           else (let deadline = wrap64 (job_ExpectedIntervalMinutes job * Minute)
                 in case js_LastSuccessAt state of
                      None \<Rightarrow>
                        if IsZero (job_CreatedAt job) \<or> Sub now (job_CreatedAt job) \<le> deadline then (False, [])
                        else (True, ''no successful run has ever been received'')
                    | Some t \<Rightarrow>
                        if deadline < Sub now t
                        then (True, ''last successful run was '' @ minutes_str (round_minute (Sub now t)) @ '' ago'')
                        else (False, []))
      else (case previousSlot C job (set_DefaultTimezone st) (now - 25 * Hour) (now - overdue_grace state) of
              Inl e \<Rightarrow> (False, [])
            | Inr slot \<Rightarrow>
                if IsZero slot then (False, [])
                else if (case js_LastRun state of
                           None \<Rightarrow> False
                         | Some r \<Rightarrow> (case sum_StartedAt r of None \<Rightarrow> False | Some t \<Rightarrow> slot \<le> t))
                then (False, [])
                else (True, ''scheduled run at '' @ rfc3339 slot @ '' did not happen'')))"

text \<open>One job of \<open>checkOverdue\<close>; the notifications sent are a list of job identifiers and reasons, the
  events that of the published jobs.\<close>

record watch =
  wt_db :: db
  wt_events :: "event list"
  wt_notified :: "(string \<times> string) list"

definition overdue_step ::
  "clockwork \<Rightarrow> Settings \<Rightarrow> time \<Rightarrow> (string \<Rightarrow> error option) \<Rightarrow> (string \<rightharpoonup> JobState) \<Rightarrow> Job \<Rightarrow> watch \<Rightarrow> watch" where
  "overdue_step C st now flts states job w =
     (if \<not> job_Enabled job then w
      else (let state = (case states (job_ID job) of None \<Rightarrow> zero_job_state [] | Some x \<Rightarrow> x);
                (overdue, reason) = jobIsOverdue C job state st now
            in if overdue = js_Overdue state \<and> (\<not> overdue \<or> js_OverdueNotifiedAt state \<noteq> None) then w
               else (case SetOverdue (flts (job_ID job)) now (job_ID job) overdue (if overdue then Some now else None) (wt_db w) of
                       (Some e, d) \<Rightarrow> w\<lparr>wt_db := d\<rparr>
                     | (None, d) \<Rightarrow>
                         w\<lparr>wt_db := d, wt_events := wt_events w @ [JobUpdated (job\<lparr>job_Overdue := overdue\<rparr>)],
                           wt_notified := wt_notified w @ (if overdue then [(job_ID job, reason)] else [])\<rparr>)))"

definition checkOverdue ::
  "clockwork \<Rightarrow> error option \<Rightarrow> error option \<Rightarrow> error option \<Rightarrow> (string \<Rightarrow> error option) \<Rightarrow> Settings \<Rightarrow> time \<Rightarrow> watch \<Rightarrow> watch" where
  "checkOverdue C flt flt_join flt_states flts st now w =
     (case Jobs_All flt flt_join (wt_db w) of
        Inl e \<Rightarrow> w
      | Inr jobs \<Rightarrow>
          (case JobStates_All flt_states (wt_db w) of
             Inl e \<Rightarrow> w
           | Inr states \<Rightarrow> fold (overdue_step C st now flts states) jobs w))"

text \<open>The interval of the watcher.\<close>

definition watch_interval :: "Settings \<Rightarrow> duration" where
  "watch_interval st =
     (let i = wrap64 (set_OverdueCheckMinutes st * Minute) in if i \<le> 0 then 15 * Minute else i)"

section \<open>Slots\<close>

lemma slot_loop_last:
  "slot_loop nxt n cursor until prev = last (prev # takeWhile (\<lambda>t. t \<le> until) (next_loop nxt n cursor))"
proof (induction n arbitrary: cursor prev)
  case (Suc n)
  show ?case
    using Suc.IH [of "nxt cursor" "nxt cursor"] by (auto simp: Let_def not_less)
qed simp

text \<open>The last slot before a moment. \<open>previousSlot\<close> is the last of the slots that
  \<open>NextRuns\<close> lists from the start of the window and that are not after its end, among the first 2000.\<close>

theorem previousSlot_last_listed:
  assumes "TrimSpace (job_Schedule job) \<noteq> []"
  shows "previousSlot C job tz from_t until =
    map_sum id (\<lambda>slots. last (0 # takeWhile (\<lambda>t. t \<le> until) slots)) (NextRuns C job tz from_t 2000)"
  using assms by (simp add: previousSlot_def NextRuns_def slot_loop_last split: sum.split prod.split)

definition demo_clock :: "duration \<Rightarrow> clockwork" where
  "demo_clock d = \<lparr>cw_parse = (\<lambda>_. None), cw_zone = (\<lambda>_. None), cw_next = (\<lambda>_ _ t. t + d)\<rparr>"

theorem previousSlot_last_listed_witness:
  "previousSlot (demo_clock Hour) (zero_job\<lparr>job_Schedule := ''hourly''\<rparr>) ''UTC'' 1 (3 * Hour)
     = map_sum id (\<lambda>slots. last (0 # takeWhile (\<lambda>t. t \<le> 3 * Hour) slots))
         (NextRuns (demo_clock Hour) (zero_job\<lparr>job_Schedule := ''hourly''\<rparr>) ''UTC'' 1 2000)"
  by (rule previousSlot_last_listed) code_simp

section \<open>The overdue check\<close>

text \<open>The verdict depends on the stored history of the job only, not on its overdue flag.\<close>

definition same_history :: "JobState \<Rightarrow> JobState \<Rightarrow> bool" where
  "same_history a b \<longleftrightarrow> js_LastRun a = js_LastRun b \<and> js_LastSuccessAt a = js_LastSuccessAt b
     \<and> js_LastDurationMS a = js_LastDurationMS b"

lemma jobIsOverdue_cong:
  assumes "same_history a b" and "job_SourceKind i = job_SourceKind j" and "job_Schedule i = job_Schedule j"
    and "job_Timezone i = job_Timezone j" and "job_CreatedAt i = job_CreatedAt j"
    and "job_ExpectedIntervalMinutes i = job_ExpectedIntervalMinutes j"
  shows "jobIsOverdue C i a st now = jobIsOverdue C j b st now"
proof -
  have "previousSlot C i tz from_t until = previousSlot C j tz from_t until" for tz from_t until
    unfolding previousSlot_def job_schedule_def job_zone_def by (simp only: assms(2-6))
  moreover have "overdue_grace a = overdue_grace b"
    using assms(1) unfolding overdue_grace_def same_history_def by (simp only:)
  ultimately show ?thesis
    using assms(1) unfolding jobIsOverdue_def same_history_def by (simp only: assms(2-6))
qed

lemma enrichJob_fields:
  "job_ID (enrichJob d j) = job_ID j" "job_Enabled (enrichJob d j) = job_Enabled j"
  "job_Schedule (enrichJob d j) = job_Schedule j" "job_Timezone (enrichJob d j) = job_Timezone j"
  "job_CreatedAt (enrichJob d j) = job_CreatedAt j"
  "job_ExpectedIntervalMinutes (enrichJob d j) = job_ExpectedIntervalMinutes j"
  by (simp_all add: enrichJob_def Let_def split: option.split list.split)

lemma enrichJob_kind:
  "t_sources d' = t_sources d \<Longrightarrow> job_SourceKind (enrichJob d' j) = job_SourceKind (enrichJob d j)"
  by (simp add: enrichJob_def Let_def split: option.split list.split)

lemma SetOverdue_other:
  assumes "k \<noteq> jobID"
  shows "find_row js_JobID k (t_job_state (snd (SetOverdue flt now jobID b at d))) = find_row js_JobID k (t_job_state d)"
proof -
  have "find_row js_JobID k (update_rows (\<lambda>r. js_JobID r = jobID) f rows) = find_row js_JobID k rows"
    if "\<And>r. js_JobID (f r) = js_JobID r" for f and rows :: "JobState list"
    using assms that by (induction rows) (auto simp: find_row_def update_rows_def)
  moreover have "find_row js_JobID k (rows @ [r]) = find_row js_JobID k rows" if "js_JobID r \<noteq> k" for rows and r :: JobState
    using that by (induction rows) (auto simp: find_row_def)
  ultimately show ?thesis
    using assms by (auto simp: SetOverdue_def upsert_state_def zero_job_state_def split: option.split)
qed

definition looked_up :: "(string \<rightharpoonup> JobState) \<Rightarrow> Job \<Rightarrow> JobState" where
  "looked_up states job = (case states (job_ID job) of None \<Rightarrow> zero_job_state [] | Some x \<Rightarrow> x)"

definition states_in :: "db \<Rightarrow> string \<rightharpoonup> JobState" where
  "states_in d = (\<lambda>k. find_row js_JobID k (t_job_state d))"

text \<open>A job whose flag says what the check would find, and whose incident was notified.\<close>

definition settled :: "clockwork \<Rightarrow> Settings \<Rightarrow> time \<Rightarrow> Job \<Rightarrow> JobState \<Rightarrow> bool" where
  "settled C st now job state \<longleftrightarrow>
     fst (jobIsOverdue C job state st now) = js_Overdue state
     \<and> (fst (jobIsOverdue C job state st now) \<longrightarrow> js_OverdueNotifiedAt state \<noteq> None)"

lemma overdue_step_settled:
  "\<not> job_Enabled job \<or> settled C st now job (looked_up states job) \<Longrightarrow> overdue_step C st now flts states job w = w"
  by (auto simp: overdue_step_def settled_def looked_up_def Let_def split: prod.split)

lemma overdue_step_frame:
  "t_jobs (wt_db (overdue_step C st now flts states job w)) = t_jobs (wt_db w)
   \<and> t_sources (wt_db (overdue_step C st now flts states job w)) = t_sources (wt_db w)
   \<and> (k \<noteq> job_ID job \<longrightarrow> states_in (wt_db (overdue_step C st now flts states job w)) k = states_in (wt_db w) k)"
proof -
  have db: "wt_db (overdue_step C st now flts states job w) = wt_db w
      \<or> (\<exists>b at. wt_db (overdue_step C st now flts states job w) = snd (SetOverdue (flts (job_ID job)) now (job_ID job) b at (wt_db w)))"
    unfolding overdue_step_def Let_def by (auto split: prod.split option.split) (metis snd_conv)+
  have "t_sources (snd (SetOverdue flt now j b at d)) = t_sources d" for flt j b at d
    by (simp add: SetOverdue_def upsert_state_def split: option.split)
  with db show ?thesis
    using SetOverdue_other [of k "job_ID job"] by (auto simp: states_in_def)
qed

lemma settled_state_of: "settled C st now job (looked_up (states_in d) job) = settled C st now job (state_of (job_ID job) d)"
proof (cases "find_row js_JobID (job_ID job) (t_job_state d)")
  case None
  then show ?thesis
    using jobIsOverdue_cong [of "zero_job_state []" "zero_job_state (job_ID job)" job job C st now]
    by (simp add: settled_def looked_up_def states_in_def state_of_def same_history_def zero_job_state_def)
next
  case (Some x)
  then show ?thesis by (simp add: looked_up_def states_in_def state_of_def)
qed

lemma overdue_looked_up: "jobIsOverdue C job (looked_up (states_in d) job) st now = jobIsOverdue C job (state_of (job_ID job) d) st now"
  by (intro jobIsOverdue_cong)
     (simp_all add: looked_up_def states_in_def state_of_def same_history_def zero_job_state_def split: option.split)

lemma overdue_step_settles:
  assumes job: "find_row job_ID (job_ID job) (t_jobs (wt_db w)) \<noteq> None" and "now \<noteq> 0"
    and states: "states (job_ID job) = states_in (wt_db w) (job_ID job)"
  shows "\<not> job_Enabled job
    \<or> settled C st now job (looked_up (states_in (wt_db (overdue_step C st now (\<lambda>_. None) states job w))) job)"
proof (cases "\<not> job_Enabled job \<or> settled C st now job (looked_up states job)")
  case True
  then have "overdue_step C st now (\<lambda>_. None) states job w = w" by (rule overdue_step_settled)
  with True states show ?thesis by (simp add: looked_up_def)
next
  case False
  have lu: "looked_up states job = looked_up (states_in (wt_db w)) job" using states by (simp add: looked_up_def)
  let ?ov = "fst (jobIsOverdue C job (looked_up states job) st now)"
  let ?d = "snd (SetOverdue None now (job_ID job) ?ov (if ?ov then Some now else None) (wt_db w))"
  have ok: "fst (SetOverdue None now (job_ID job) b at (wt_db w)) = None" for b at
    using job by (simp add: SetOverdue_def upsert_state_def exec_err_def)
  have "wt_db (overdue_step C st now (\<lambda>_. None) states job w) = ?d"
    using False ok by (auto simp: overdue_step_def settled_def looked_up_def Let_def split: prod.split option.split)
  moreover have "settled C st now job (state_of (job_ID job) ?d)"
  proof -
    let ?s = "state_of (job_ID job) (wt_db w)"
    have s: "state_of (job_ID job) ?d = ?s\<lparr>js_Overdue := ?ov,
        js_OverdueNotifiedAt := nullTime (if ?ov then Some now else None), js_UpdatedAt := now\<rparr>"
      by (rule state_of_SetOverdue [OF job])
    have "jobIsOverdue C job (state_of (job_ID job) ?d) st now = jobIsOverdue C job ?s st now"
      unfolding s by (rule jobIsOverdue_cong) (simp_all add: same_history_def)
    also have "\<dots> = jobIsOverdue C job (looked_up states job) st now" by (simp add: lu overdue_looked_up)
    finally show ?thesis using assms(2) by (simp add: settled_def s nullTime_def)
  qed
  ultimately show ?thesis by (simp add: settled_state_of)
qed

text \<open>After the loop every job of it is settled, the steps of the other jobs leaving it so.\<close>

lemma overdue_fold_settles:
  assumes "distinct (map job_ID jobs)" and "now \<noteq> 0"
    and "\<And>job. job \<in> set jobs \<Longrightarrow> find_row job_ID (job_ID job) (t_jobs (wt_db w)) \<noteq> None"
    and "\<And>job. job \<in> set jobs \<Longrightarrow> states (job_ID job) = states_in (wt_db w) (job_ID job)"
    and "job \<in> set jobs"
  shows "\<not> job_Enabled job
    \<or> settled C st now job (looked_up (states_in (wt_db (fold (overdue_step C st now (\<lambda>_. None) states) jobs w))) job)"
  using assms
proof (induction jobs arbitrary: w)
  case (Cons j jobs)
  let ?w = "overdue_step C st now (\<lambda>_. None) states j w"
  have frame: "k \<noteq> job_ID j \<Longrightarrow> states_in (wt_db ?w) k = states_in (wt_db w) k" "t_jobs (wt_db ?w) = t_jobs (wt_db w)" for k
    using overdue_step_frame by blast+
  have rest: "k \<notin> job_ID ` set js \<Longrightarrow> states_in (wt_db (fold (overdue_step C st now (\<lambda>_. None) states) js v)) k = states_in (wt_db v) k"
    for k js v
    by (induction js arbitrary: v) (use overdue_step_frame in auto)
  show ?case
  proof (cases "job = j")
    case True
    then have "job_ID job \<notin> job_ID ` set jobs" using Cons.prems(1) by simp
    with rest [of "job_ID job" jobs ?w] show ?thesis
      using overdue_step_settles [of job w now states C st] Cons.prems(2-5) True by (simp add: looked_up_def)
  next
    case False
    then have mem: "job \<in> set jobs" using Cons.prems(5) by simp
    have "job_ID q \<noteq> job_ID j" if "q \<in> set jobs" for q
      using Cons.prems(1) that by (metis distinct.simps(2) imageI list.set_map list.simps(9))
    with Cons.IH [of ?w] Cons.prems mem frame show ?thesis by simp
  qed
qed simp

lemma overdue_fold_frame:
  "t_jobs (wt_db (fold (overdue_step C st now flts states) jobs w)) = t_jobs (wt_db w)
   \<and> t_sources (wt_db (fold (overdue_step C st now flts states) jobs w)) = t_sources (wt_db w)"
  by (induction jobs arbitrary: w) (use overdue_step_frame in auto)

text \<open>One notification per incident. When no statement fails, a second check at the same
  moment does nothing: no job is notified again, no event is published, no flag changes.\<close>

theorem checkOverdue_settles:
  assumes "db_ok (wt_db w)" and "now \<noteq> 0"
  shows "checkOverdue C None None None (\<lambda>_. None) st now (checkOverdue C None None None (\<lambda>_. None) st now w)
    = checkOverdue C None None None (\<lambda>_. None) st now w"
proof -
  define rows where "rows = sort_key job_Name (t_jobs (wt_db w))"
  define w1 where "w1 = checkOverdue C None None None (\<lambda>_. None) st now w"
  have check: "checkOverdue C None None None (\<lambda>_. None) st now v
      = fold (overdue_step C st now (\<lambda>_. None) (states_in (wt_db v))) (map (enrichJob (wt_db v)) (sort_key job_Name (t_jobs (wt_db v)))) v" for v
    by (auto simp: checkOverdue_def Jobs_All_def JobStates_All_def states_in_def Let_def)
  have w1: "t_jobs (wt_db w1) = t_jobs (wt_db w)" "t_sources (wt_db w1) = t_sources (wt_db w)"
    unfolding w1_def check using overdue_fold_frame by auto
  have "distinct (map job_ID rows)"
    using assms(1) by (auto simp: rows_def db_ok_def distinct_map intro: inj_on_subset)
  then have ids: "distinct (map job_ID (map (enrichJob (wt_db w)) rows))" by (simp add: enrichJob_fields comp_def)
  have found: "find_row job_ID (job_ID r) (t_jobs (wt_db w)) \<noteq> None" if "r \<in> set rows" for r
    using that by (auto simp: rows_def find_row_def find_None_iff)
  then have found': "find_row job_ID (job_ID q) (t_jobs (wt_db w)) \<noteq> None"
    if "q \<in> set (map (enrichJob (wt_db w)) rows)" for q
  proof -
    from that obtain r where r: "r \<in> set rows" "q = enrichJob (wt_db w) r" by auto
    show ?thesis using found [OF r(1)] unfolding r(2) enrichJob_fields .
  qed
  have settled: "\<not> job_Enabled r \<or> settled C st now (enrichJob (wt_db w) r) (looked_up (states_in (wt_db w1)) r)"
    if "r \<in> set rows" for r
  proof -
    have mem: "enrichJob (wt_db w) r \<in> set (map (enrichJob (wt_db w)) rows)" using that by simp
    show ?thesis
      using overdue_fold_settles [OF ids assms(2) found' refl mem, of C st]
      unfolding w1_def check rows_def [symmetric] looked_up_def enrichJob_fields .
  qed
  have "overdue_step C st now (\<lambda>_. None) (states_in (wt_db w1)) (enrichJob (wt_db w1) r) v = v" if "r \<in> set rows" for r v
  proof (rule overdue_step_settled)
    have "jobIsOverdue C (enrichJob (wt_db w1) r) x st now = jobIsOverdue C (enrichJob (wt_db w) r) x st now" for x
      by (rule jobIsOverdue_cong) (simp_all only: same_history_def enrichJob_fields enrichJob_kind [OF w1(2)])
    with settled [OF that]
    show "\<not> job_Enabled (enrichJob (wt_db w1) r)
      \<or> settled C st now (enrichJob (wt_db w1) r) (looked_up (states_in (wt_db w1)) (enrichJob (wt_db w1) r))"
      by (simp add: enrichJob_fields looked_up_def settled_def)
  qed
  then have "fold (overdue_step C st now (\<lambda>_. None) (states_in (wt_db w1))) (map (enrichJob (wt_db w1)) js) v = v"
    if "set js \<subseteq> set rows" for js v
    using that by (induction js) auto
  from this [of rows w1] have "checkOverdue C None None None (\<lambda>_. None) st now w1 = w1"
    by (simp add: check w1 rows_def)
  then show ?thesis by (simp add: w1_def)
qed

definition demo_watch :: watch where
  "demo_watch = \<lparr>wt_db = empty_db\<lparr>t_jobs := [zero_job\<lparr>job_ID := ''j'', job_Enabled := True, job_CreatedAt := 1,
       job_ExpectedIntervalMinutes := 60\<rparr>]\<rparr>, wt_events = [], wt_notified = []\<rparr>"

theorem checkOverdue_settles_witness:
  "checkOverdue (demo_clock 1) None None None (\<lambda>_. None) DefaultSettings (3 * Hour)
     (checkOverdue (demo_clock 1) None None None (\<lambda>_. None) DefaultSettings (3 * Hour) demo_watch)
   = checkOverdue (demo_clock 1) None None None (\<lambda>_. None) DefaultSettings (3 * Hour) demo_watch
   \<and> wt_notified (checkOverdue (demo_clock 1) None None None (\<lambda>_. None) DefaultSettings (3 * Hour) demo_watch)
     = [(''j'', ''no successful run has ever been received'')]"
proof
  show "checkOverdue (demo_clock 1) None None None (\<lambda>_. None) DefaultSettings (3 * Hour)
     (checkOverdue (demo_clock 1) None None None (\<lambda>_. None) DefaultSettings (3 * Hour) demo_watch)
   = checkOverdue (demo_clock 1) None None None (\<lambda>_. None) DefaultSettings (3 * Hour) demo_watch"
    by (rule checkOverdue_settles) (simp_all add: demo_watch_def db_ok_def empty_db_def)
  show "wt_notified (checkOverdue (demo_clock 1) None None None (\<lambda>_. None) DefaultSettings (3 * Hour) demo_watch)
     = [(''j'', ''no successful run has ever been received'')]"
    by code_simp
qed

text \<open>The verdict on scheduled jobs looks back 25 hours only. If the schedule has no
  slot from 25 hours ago to the end of the grace period, a job is never overdue, however long ago its
  last run was: a weekly job that missed its slot stops being overdue a day later.\<close>

theorem overdue_forgets_old_slots:
  assumes "job_SourceKind job \<noteq> ''push''" and "TrimSpace (job_Schedule job) \<noteq> []"
    and "job_schedule C job (set_DefaultTimezone st) = Inr (sched, loc)"
    and "now - overdue_grace state < cw_next C sched loc (now - 25 * Hour)"
  shows "jobIsOverdue C job state st now = (False, [])"
proof -
  have "previousSlot C job (set_DefaultTimezone st) (now - 25 * Hour) (now - overdue_grace state) = Inr 0"
    using assms(3,4) by (simp add: previousSlot_def slot_loop_last numeral_eq_Suc Let_def)
  with assms(1,2) show ?thesis by (simp add: jobIsOverdue_def IsZero_def)
qed

theorem overdue_forgets_old_slots_witness:
  "jobIsOverdue (demo_clock (168 * Hour)) (zero_job\<lparr>job_Schedule := ''weekly''\<rparr>) (zero_job_state ''j'') DefaultSettings (1000 * Hour)
     = (False, [])"
proof (rule overdue_forgets_old_slots)
  show "job_schedule (demo_clock (168 * Hour)) (zero_job\<lparr>job_Schedule := ''weekly''\<rparr>) (set_DefaultTimezone DefaultSettings)
      = Inr (''weekly'', ''UTC'')"
    by code_simp
  show "TrimSpace (job_Schedule (zero_job\<lparr>job_Schedule := ''weekly''\<rparr>)) \<noteq> []" by code_simp
qed (simp_all add: zero_job_def demo_clock_def overdue_grace_def zero_job_state_def)

end
