(* ===== verification/Safe_Path.thy ===== *)
theory Safe_Path
  imports Go_Path "HOL-Library.Sublist"
begin

text \<open>
  The path checks that keep archive entries and stored objects inside their directory: \<open>safeJoin\<close> of
  the engine (internal/engine/restore.go), \<open>safeJoin\<close>, \<open>within\<close> and \<open>checkLinkTarget\<close> of
  the files driver (internal/source/files), and \<open>resolve\<close> of the local destination
  (internal/dest/local). All of them are lexical. They are compared with one specification, \<open>inside\<close>:
  the elements of the root are a prefix of the elements of the path.
\<close>

section \<open>Package path/filepath\<close>

definition NUL :: char where "NUL = CHR 0x00"

text \<open>\<open>filepath.Abs\<close> in the working directory \<open>cwd\<close>.\<close>

definition Abs :: "string \<Rightarrow> string \<Rightarrow> string" where
  "Abs cwd p = (if IsAbs p then Clean p else path_Join [cwd, p])"

fun strip_common :: "'a list \<Rightarrow> 'a list \<Rightarrow> 'a list \<times> 'a list" where
  "strip_common (b # bs) (t # ts) = (if b = t then strip_common bs ts else (b # bs, t # ts))"
| "strip_common bs ts = (bs, ts)"

definition Rel :: "string \<Rightarrow> string \<Rightarrow> string result" where
  "Rel basepath targpath =
     (if Clean targpath = Clean basepath then Inr ''.''
      else if IsAbs basepath \<noteq> IsAbs targpath
      then Inl (errNew (''Rel: can't make '' @ targpath @ '' relative to '' @ basepath))
      else (case strip_common (clean_elems (IsAbs basepath) basepath) (clean_elems (IsAbs targpath) targpath) of
              (bs, ts) \<Rightarrow>
                if bs \<noteq> [] \<and> hd bs = ''..''
                then Inl (errNew (''Rel: can't make '' @ targpath @ '' relative to '' @ basepath))
                else Inr (Join (replicate (length bs) ''..'' @ ts) [slash])))"

section \<open>The checks of the program\<close>

definition climbs :: "string \<Rightarrow> bool" where
  "climbs p \<longleftrightarrow> p = ''..'' \<or> HasPrefix p ''../''"

definition quoted :: "string \<Rightarrow> string" where
  "quoted s = [CHR 0x22] @ s @ [CHR 0x22]"

definition safeJoin :: "string \<Rightarrow> string \<Rightarrow> string result" where
  "safeJoin root name =
     (if HasPrefix name [slash] \<or> NUL \<in> set name
      then Inl (errNew (''refusing unsafe archive entry '' @ quoted name))
      else let clean = Clean (path_Join [root, name]) in
        if clean \<noteq> root \<and> \<not> HasPrefix clean (root @ [slash])
        then Inl (errNew (''refusing archive entry '' @ quoted name @ '' outside the target directory''))
        else Inr clean)"

definition within :: "string \<Rightarrow> string \<Rightarrow> bool" where
  "within base target = (case Rel base target of Inl _ \<Rightarrow> False | Inr rel \<Rightarrow> \<not> climbs rel)"

definition path_escapes :: error where
  "path_escapes = errNew ''path escapes the target directory''"

definition files_safeJoin :: "string \<Rightarrow> string \<Rightarrow> string result" where
  "files_safeJoin root name =
     (let clean = Clean name in
      if IsAbs clean then Inl (errNew ''absolute paths are not allowed'')
      else if climbs clean then Inl path_escapes
      else let joined = path_Join [root, clean] in
        if \<not> within root joined then Inl path_escapes else Inr joined)"

definition checkLinkTarget :: "string \<Rightarrow> string \<Rightarrow> string \<Rightarrow> error option" where
  "checkLinkTarget root linkPath linkname =
     (let resolved = (if IsAbs linkname then linkname else path_Join [Dir linkPath, linkname]) in
      if \<not> within root (Clean resolved) then Some (errNew ''link target escapes the target directory'')
      else None)"

text \<open>\<open>resolve\<close> of the client of the local destination, whose root was cleaned when it was opened.\<close>

definition local_resolve :: "string \<Rightarrow> string \<Rightarrow> string result" where
  "local_resolve root p =
     (let clean = Clean (TrimPrefix p [slash]);
          escapes = errNew (''path '' @ quoted p @ '' escapes the destination directory'') in
      if clean = ''.'' then Inr root
      else if IsAbs clean \<or> climbs clean then Inl escapes
      else let full = path_Join [root, clean] in
        (case Rel root full of
           Inl _ \<Rightarrow> Inl escapes
         | Inr rel \<Rightarrow> if climbs rel then Inl escapes else Inr full))"

section \<open>Specification\<close>

text \<open>The elements of an absolute path, and the path of a list of plain elements.\<close>

definition elems :: "string \<Rightarrow> string list" where
  "elems p = clean_elems True p"

definition abs_path :: "string list \<Rightarrow> string" where
  "abs_path es = slash # Join es [slash]"

text \<open>A cleaned absolute path at or below the directory \<open>root\<close>.\<close>

definition inside :: "string \<Rightarrow> string \<Rightarrow> bool" where
  "inside root p \<longleftrightarrow> IsAbs p \<and> Clean p = p \<and> prefix (elems root) (elems p)"

text \<open>A directory as \<open>filepath.Abs\<close>, \<open>EvalSymlinks\<close> and \<open>Clean\<close> return it.\<close>

definition clean_root :: "string \<Rightarrow> bool" where
  "clean_root root \<longleftrightarrow> IsAbs root \<and> Clean root = root"

text \<open>Where a name leads from the directory with elements \<open>es\<close>.\<close>

definition walk_from :: "string list \<Rightarrow> string \<Rightarrow> string list" where
  "walk_from es name = rev (fold (clean_elem True) (split_slash name) (rev es))"

section \<open>Lemmas on elements\<close>

lemma elems_plain [simp]: "list_all plain (elems p)"
  by (simp add: elems_def clean_elems_rooted_plain)

lemma elems_abs_path [simp]: "list_all plain es \<Longrightarrow> elems (abs_path es) = es"
  by (simp add: elems_def abs_path_def clean_elems_Join)

lemma IsAbs_abs_path [simp]: "IsAbs (abs_path es)"
  by (simp add: abs_path_def)

lemma Clean_abs_path [simp]: "list_all plain es \<Longrightarrow> Clean (abs_path es) = abs_path es"
  by (simp add: abs_path_def Clean_abs_plain)

lemma Clean_elems: "IsAbs p \<Longrightarrow> Clean p = abs_path (elems p)"
  by (simp add: Clean_def abs_path_def elems_def Let_def)

lemma clean_rootE:
  assumes "clean_root root"
  obtains "root = abs_path (elems root)" "list_all plain (elems root)"
  using assms Clean_elems [of root] by (metis clean_root_def elems_plain)

lemma abs_path_inject: "list_all plain es \<Longrightarrow> list_all plain fs \<Longrightarrow> abs_path es = abs_path fs \<longleftrightarrow> es = fs"
  by (simp add: abs_path_def Join_inject)

lemma walk_from_plain: "list_all plain es \<Longrightarrow> list_all plain (walk_from es name)"
  unfolding walk_from_def list_all_rev
  by (rule fold_clean_rooted_plain) (auto dest: split_slash_parts)

lemma fold_clean_abs_path:
  assumes "list_all plain es"
  shows "fold (clean_elem True) (split_slash (abs_path es)) [] = rev es"
  using clean_elems_Join(1) [OF assms, of True] by (simp add: abs_path_def clean_elems_def rev_swap)

lemma elems_below:
  assumes "list_all plain es"
  shows "elems (abs_path es @ slash # name) = walk_from es name"
  by (simp add: elems_def clean_elems_def walk_from_def split_slash_append2 fold_clean_abs_path [OF assms])

lemma walk_from_Nil [simp]: "walk_from es [] = es"
  by (simp add: walk_from_def clean_elem_def)

lemma path_Join_below:
  assumes "list_all plain es"
  shows "path_Join [abs_path es, name] = abs_path (walk_from es name)"
proof (cases "name = []")
  case True
  then show ?thesis using assms by (simp add: path_Join_def abs_path_def Clean_abs_plain)
next
  case False
  have "IsAbs (abs_path es @ slash # name)" by (simp add: abs_path_def)
  from Clean_elems [OF this] False show ?thesis
    by (simp add: path_Join_def elems_below [OF assms]) (simp add: abs_path_def)
qed

lemma split_abs_path:
  assumes "list_all plain es" and "es \<noteq> []"
  shows "split_slash (abs_path es) = [] # es"
proof -
  have "slash \<notin> set e" if "e \<in> set es" for e
    using assms(1) that by (auto simp: list_all_iff plain_def)
  with split_slash_Join [OF assms(2)] show ?thesis by (simp add: abs_path_def)
qed

text \<open>The string test of the engine agrees with the prefix order on elements, unless the directory is
  the root of the file system.\<close>

lemma string_prefix_elems:
  assumes es: "list_all plain es" "es \<noteq> []" and fs: "list_all plain fs"
  shows "abs_path fs = abs_path es \<or> HasPrefix (abs_path fs) (abs_path es @ [slash]) \<longleftrightarrow> prefix es fs"
proof
  assume "abs_path fs = abs_path es \<or> HasPrefix (abs_path fs) (abs_path es @ [slash])"
  then show "prefix es fs"
  proof
    assume "abs_path fs = abs_path es"
    with es fs show ?thesis by (simp add: abs_path_inject)
  next
    assume "HasPrefix (abs_path fs) (abs_path es @ [slash])"
    then obtain t where t: "abs_path fs = abs_path es @ slash # t" by (auto simp: HasPrefix_iff)
    then have sp: "split_slash (abs_path fs) = ([] # es) @ split_slash t"
      by (simp add: split_slash_append2 split_abs_path [OF es])
    have "fs \<noteq> []"
    proof
      assume "fs = []"
      with t es have "length (Join es [slash]) = 0" by (simp add: abs_path_def)
      with es show False by (simp add: Join_nonempty)
    qed
    with sp fs show ?thesis by (simp add: split_abs_path)
  qed
next
  assume "prefix es fs"
  then obtain gs where gs: "fs = es @ gs" by (auto simp: prefix_def)
  show "abs_path fs = abs_path es \<or> HasPrefix (abs_path fs) (abs_path es @ [slash])"
  proof (cases "gs = []")
    case False
    then have "abs_path fs = (abs_path es @ [slash]) @ Join gs [slash]"
      using gs es by (simp add: abs_path_def Join_append_elems)
    then show ?thesis by (metis HasPrefix_append)
  qed (simp add: gs)
qed

text \<open>So does \<open>within\<close>, everywhere.\<close>

lemma strip_common_eq:
  "strip_common bs ts = (b, t) \<Longrightarrow> \<exists>c. bs = c @ b \<and> ts = c @ t \<and> (b = [] \<or> t = [] \<or> hd b \<noteq> hd t)"
proof (induction bs ts rule: strip_common.induct)
  case (1 x bs y ts)
  show ?case
  proof (cases "x = y")
    case True
    with 1 obtain c where "bs = c @ b \<and> ts = c @ t \<and> (b = [] \<or> t = [] \<or> hd b \<noteq> hd t)" by auto
    with True show ?thesis by (intro exI [of _ "x # c"]) simp
  qed (use "1.prems" in auto)
qed auto

lemma climbs_Join_plain:
  assumes "list_all plain ts"
  shows "\<not> climbs (Join ts [slash])"
proof
  assume c: "climbs (Join ts [slash])"
  then have ne: "ts \<noteq> []" by (auto simp: climbs_def HasPrefix_def)
  have sp: "split_slash (Join ts [slash]) = ts"
    by (rule split_slash_Join [OF ne]) (use assms in \<open>auto simp: list_all_iff plain_def\<close>)
  from c obtain rest where "ts = ''..'' # rest"
  proof (cases "Join ts [slash] = ''..''")
    case True
    with sp that [of "[]"] show ?thesis by simp
  next
    case False
    with c obtain t where "Join ts [slash] = ''..'' @ slash # t" by (auto simp: climbs_def HasPrefix_iff)
    with sp that [of "split_slash t"] show ?thesis by simp
  qed
  with assms show False by (simp add: plain_def)
qed

lemma climbs_up: "climbs (Join (''..'' # es) [slash])"
proof (cases es)
  case (Cons e r)
  then have "Join (''..'' # es) [slash] = ''../'' @ Join es [slash]" by simp
  then show ?thesis unfolding climbs_def by (metis HasPrefix_append)
qed (simp add: climbs_def)

lemma Rel_abs:
  assumes "IsAbs base" and "IsAbs target"
  shows "case Rel base target of Inl _ \<Rightarrow> False
    | Inr rel \<Rightarrow> (\<not> climbs rel \<longleftrightarrow> prefix (elems base) (elems target))
        \<and> (prefix (elems base) (elems target) \<longrightarrow> elems target \<noteq> elems base
            \<longrightarrow> rel = Join (drop (length (elems base)) (elems target)) [slash])
        \<and> (elems target = elems base \<longrightarrow> rel = ''.'')"
proof (cases "elems target = elems base")
  case True
  with assms show ?thesis by (simp add: Rel_def Clean_elems climbs_def HasPrefix_def)
next
  case False
  obtain b t where st: "strip_common (elems base) (elems target) = (b, t)" by (cases "strip_common (elems base) (elems target)")
  from strip_common_eq [OF this] obtain c where c: "elems base = c @ b" "elems target = c @ t"
    and d: "b = [] \<or> t = [] \<or> hd b \<noteq> hd t" by blast
  have pl: "list_all plain b" "list_all plain t"
    using elems_plain [of base] elems_plain [of target] unfolding c by simp_all
  have nd: "\<not> (b \<noteq> [] \<and> hd b = ''..'')" using pl(1) by (cases b) (auto simp: plain_def)
  have rel: "Rel base target = Inr (Join (replicate (length b) ''..'' @ t) [slash])"
    using assms False st nd
    by (simp add: Rel_def Clean_elems abs_path_inject elems_def [symmetric])
  show ?thesis
  proof (cases b)
    case Nil
    with rel c climbs_Join_plain [OF pl(2)] False show ?thesis by simp
  next
    case (Cons x xs)
    with d have np: "\<not> prefix (elems base) (elems target)" unfolding c by (cases t) auto
    from Cons climbs_up [of "replicate (length xs) ''..'' @ t"] rel np False show ?thesis by simp
  qed
qed

lemma within_elems:
  assumes "IsAbs base" and "IsAbs target"
  shows "within base target \<longleftrightarrow> prefix (elems base) (elems target)"
  using Rel_abs [OF assms] by (simp add: within_def split: sum.splits)

section \<open>What the checks accept\<close>

text \<open>The two joins in terms of where the name leads.\<close>

lemma safeJoin_elems:
  assumes "clean_root root"
  shows "safeJoin root name =
    (if HasPrefix name [slash] \<or> NUL \<in> set name
     then Inl (errNew (''refusing unsafe archive entry '' @ quoted name))
     else if (if elems root = [] then walk_from [] name = [] else prefix (elems root) (walk_from (elems root) name))
     then Inr (abs_path (walk_from (elems root) name))
     else Inl (errNew (''refusing archive entry '' @ quoted name @ '' outside the target directory'')))"
proof -
  define es where "es = elems root"
  from assms have root: "root = abs_path es" and pl: "list_all plain es"
    unfolding es_def by (auto elim: clean_rootE)
  define fs where "fs = walk_from es name"
  have fs: "list_all plain fs" unfolding fs_def by (rule walk_from_plain [OF pl])
  have cl: "Clean (path_Join [root, name]) = abs_path fs"
    by (simp add: root path_Join_below [OF pl] fs_def [symmetric] fs)
  have key: "(abs_path fs = root \<or> HasPrefix (abs_path fs) (root @ [slash])) \<longleftrightarrow>
      (if es = [] then fs = [] else prefix es fs)"
  proof (cases "es = []")
    case True
    have "\<not> HasPrefix (abs_path fs) ''//''"
    proof (cases fs)
      case (Cons f r)
      with fs obtain ch f' where "f = ch # f'" "ch \<noteq> slash" by (cases f) (auto simp: plain_def)
      with Cons show ?thesis by (cases r) (auto simp: abs_path_def HasPrefix_def)
    qed (simp add: abs_path_def HasPrefix_def)
    moreover have "abs_path fs = abs_path [] \<longleftrightarrow> fs = []" using abs_path_inject [OF fs, of "[]"] by simp
    ultimately show ?thesis using True by (simp add: root) (simp add: abs_path_def)
  next
    case False
    then show ?thesis using string_prefix_elems [OF pl False fs] by (simp add: root)
  qed
  show ?thesis
    unfolding safeJoin_def Let_def cl es_def [symmetric]
    using key by (auto simp: fs_def)
qed

text \<open>Cleaning a relative name first does not change where it leads.\<close>

lemma fold_clean_relative:
  assumes "list_all (\<lambda>x. plain x \<or> x = ''..'') st" and "\<And>e. e \<in> set es \<Longrightarrow> slash \<notin> set e"
  shows "fold (clean_elem True) (rev (fold (clean_elem False) es st)) X
       = fold (clean_elem True) es (fold (clean_elem True) (rev st) X)
    \<and> list_all (\<lambda>x. plain x \<or> x = ''..'') (fold (clean_elem False) es st)"
  using assms
proof (induction es arbitrary: st)
  case (Cons e es)
  let ?st = "clean_elem False e st"
  have pl: "list_all (\<lambda>x. plain x \<or> x = ''..'') ?st"
    using Cons.prems by (auto simp: clean_elem_def plain_def split: list.split)
  have step: "fold (clean_elem True) (rev ?st) X = clean_elem True e (fold (clean_elem True) (rev st) X)"
  proof (cases st)
    case (Cons x xs)
    with Cons.prems(1) show ?thesis by (auto simp: clean_elem_def plain_def)
  qed (auto simp: clean_elem_def)
  show ?case using Cons.IH [OF pl] Cons.prems(2) step by simp
qed simp

text \<open>In a cleaned relative path the climbing elements come first.\<close>

lemma climbing_first:
  assumes "''..'' \<in> set (fold (clean_elem False) es [])"
  shows "\<exists>r. rev (fold (clean_elem False) es []) = ''..'' # r"
proof -
  define good :: "string list \<Rightarrow> bool" where
    "good st \<longleftrightarrow> (\<exists>ps k. st = ps @ replicate k ''..'' \<and> ''..'' \<notin> set ps)" for st
  have step: "good (clean_elem False e st)" if g: "good st" for e st
  proof -
    from g obtain ps k where st: "st = ps @ replicate k ''..''" "''..'' \<notin> set ps" by (auto simp: good_def)
    have up: "good (''..'' # replicate k ''..'')"
      unfolding good_def by (rule exI [of _ "[]"], rule exI [of _ "Suc k"]) simp
    show ?thesis
    proof (cases "e = [] \<or> e = ''.'' \<or> e = ''..''")
      case False
      with st have "clean_elem False e st = (e # ps) @ replicate k ''..'' \<and> ''..'' \<notin> set (e # ps)"
        by (auto simp: clean_elem_def)
      then show ?thesis unfolding good_def by blast
    next
      case True
      show ?thesis
      proof (cases ps)
        case Nil
        with True st g up show ?thesis by (cases k) (auto simp: clean_elem_def)
      next
        case (Cons x xs)
        with st have "good xs \<Longrightarrow> good xs" "good (xs @ replicate k ''..'')" by (auto simp: good_def)
        with True st g Cons show ?thesis by (auto simp: clean_elem_def)
      qed
    qed
  qed
  have "good (fold (clean_elem False) es st)" if "good st" for st
    using that by (induction es arbitrary: st) (auto intro: step)
  moreover have "good []" by (auto simp: good_def)
  ultimately obtain ps k where "fold (clean_elem False) es [] = ps @ replicate k ''..''" "''..'' \<notin> set ps"
    by (metis good_def)
  with assms show ?thesis by (cases k) (auto simp: replicate_app_Cons_same)
qed

lemma walk_from_Clean:
  assumes "\<not> IsAbs name"
  shows "walk_from es (Clean name) = walk_from es name"
    and "\<not> climbs (Clean name) \<Longrightarrow> prefix es (walk_from es name)"
proof -
  define fs where "fs = clean_elems False name"
  have f: "fold (clean_elem True) (rev (fold (clean_elem False) (split_slash name) [])) (rev es)
       = fold (clean_elem True) (split_slash name) (rev es)
    \<and> list_all (\<lambda>x. plain x \<or> x = ''..'') (fold (clean_elem False) (split_slash name) [])"
    using fold_clean_relative [of "[]" "split_slash name" "rev es"] split_slash_parts by simp
  then have walk: "walk_from es name = rev (fold (clean_elem True) fs (rev es))"
    and el: "list_all (\<lambda>x. plain x \<or> x = ''..'') fs"
    by (simp_all add: walk_from_def fs_def clean_elems_def)
  have cl: "Clean name = (if fs = [] then ''.'' else Join fs [slash])"
    using assms by (simp add: Clean_def fs_def Let_def)
  have ns: "slash \<notin> set e" if "e \<in> set fs" for e
  proof -
    from el that have "plain e \<or> e = ''..''" by (simp add: list_all_iff)
    then show ?thesis by (auto simp: plain_def)
  qed
  have sp: "split_slash (Join fs [slash]) = fs" if "fs \<noteq> []"
    using that ns by (rule split_slash_Join)
  show "walk_from es (Clean name) = walk_from es name"
  proof (cases "fs = []")
    case True
    then show ?thesis by (simp add: cl walk) (simp add: walk_from_def clean_elem_def)
  next
    case False
    then show ?thesis unfolding walk by (simp add: cl walk_from_def sp)
  qed
  assume nc: "\<not> climbs (Clean name)"
  have "fold (clean_elem False) (split_slash name) [] = rev fs" by (simp add: fs_def clean_elems_def)
  have "''..'' \<notin> set fs"
  proof
    assume "''..'' \<in> set fs"
    with climbing_first [of "split_slash name"] obtain r where "fs = ''..'' # r"
      by (auto simp: fs_def clean_elems_def dest: split_slash_parts)
    with nc climbs_up [of r] show False by (simp add: cl)
  qed
  with el have "list_all plain fs" by (auto simp: list_all_iff)
  then show "prefix es (walk_from es name)"
    by (simp add: walk fold_clean_plain)
qed

lemma inside_abs_path:
  "list_all plain es \<Longrightarrow> inside root (abs_path es) \<longleftrightarrow> prefix (elems root) es"
  by (simp add: inside_def)

lemma inside_root: "clean_root root \<Longrightarrow> inside root root"
  by (simp add: inside_def clean_root_def)

lemma inside_below:
  assumes "list_all plain fs" and "prefix (elems root) fs" and "list_all plain gs"
  shows "inside root (abs_path (fs @ gs))"
  using assms by (simp add: inside_abs_path prefix_def) (metis append_assoc)

text \<open>The checks of the local destination come down to one: a name is refused exactly when it is absolute or
  climbs above its start after cleaning. The second test, on the joined path, never fires.\<close>

lemma relative_Clean:
  assumes "\<not> IsAbs name"
  shows "\<not> IsAbs (Clean name)"
proof -
  define fs where "fs = clean_elems False name"
  have el: "list_all (\<lambda>x. plain x \<or> x = ''..'') fs"
    using fold_clean_relative [of "[]" "split_slash name" "[]"] split_slash_parts by (simp add: fs_def clean_elems_def)
  have cl: "Clean name = (if fs = [] then ''.'' else Join fs [slash])"
    using assms by (simp add: Clean_def fs_def Let_def)
  show ?thesis
  proof (cases fs)
    case (Cons f r)
    with el obtain ch f' where f: "f = ch # f'" "ch \<noteq> slash" by (cases f) (auto simp: plain_def)
    with Cons cl show ?thesis by (cases r) (auto simp: IsAbs_def HasPrefix_def)
  qed (simp add: cl IsAbs_def HasPrefix_def)
qed

lemma IsAbs_Clean [simp]: "IsAbs (Clean p) \<longleftrightarrow> IsAbs p"
  using relative_Clean [of p] by (auto simp: Clean_elems)

lemma local_resolve_elems:
  assumes "clean_root root"
  shows "local_resolve root p =
    (let name = TrimPrefix p [slash] in
     if IsAbs name \<or> climbs (Clean name)
     then Inl (errNew (''path '' @ quoted p @ '' escapes the destination directory''))
     else Inr (abs_path (walk_from (elems root) name)))"
proof -
  define name es where "name = TrimPrefix p [slash]" and "es = elems root"
  from assms have root: "root = abs_path es" and pl: "list_all plain es"
    unfolding es_def by (auto elim: clean_rootE)
  show ?thesis
  proof (cases "IsAbs name \<or> climbs (Clean name)")
    case True
    have "Clean name \<noteq> ''.''"
    proof
      assume "Clean name = ''.''"
      with True IsAbs_Clean [of name] show False
        by (auto simp: climbs_def HasPrefix_def IsAbs_def simp del: IsAbs_Clean)
    qed
    with True show ?thesis by (simp add: local_resolve_def name_def [symmetric] Let_def)
  next
    case False
    then have w: "walk_from es (Clean name) = walk_from es name" and pre: "prefix es (walk_from es name)"
      using walk_from_Clean by blast+
    show ?thesis
    proof (cases "Clean name = ''.''")
      case True
      have "walk_from es name = es" using w by (simp add: True) (simp add: walk_from_def clean_elem_def)
      with True False show ?thesis
        by (simp add: local_resolve_def name_def [symmetric] Let_def es_def [symmetric]) (simp add: root)
    next
      case False2: False
      have full: "path_Join [root, Clean name] = abs_path (walk_from es name)"
        by (simp add: root path_Join_below [OF pl] w)
      have rel: "case Rel root (abs_path (walk_from es name)) of Inl _ \<Rightarrow> False | Inr rel \<Rightarrow> \<not> climbs rel"
        using Rel_abs [of root "abs_path (walk_from es name)"] pre
        by (simp add: root walk_from_plain [OF pl] pl split: sum.splits)
      then show ?thesis using False False2 full
        by (cases "Rel root (abs_path (walk_from es name))")
          (simp_all add: local_resolve_def name_def [symmetric] Let_def es_def [symmetric])
    qed
  qed
qed

lemma files_safeJoin_elems:
  assumes "clean_root root"
  shows "files_safeJoin root name =
    (if IsAbs name then Inl (errNew ''absolute paths are not allowed'')
     else if climbs (Clean name) then Inl path_escapes
     else Inr (abs_path (walk_from (elems root) name)))"
proof -
  define es where "es = elems root"
  from assms have root: "root = abs_path es" and pl: "list_all plain es"
    unfolding es_def by (auto elim: clean_rootE)
  show ?thesis
  proof (cases "IsAbs name \<or> climbs (Clean name)")
    case True
    then show ?thesis by (auto simp: files_safeJoin_def Let_def)
  next
    case False
    then have full: "path_Join [root, Clean name] = abs_path (walk_from es name)"
      by (simp add: root path_Join_below [OF pl] walk_from_Clean)
    have "within root (abs_path (walk_from es name))"
      using False walk_from_Clean(2) [of name es]
      by (simp add: within_elems root pl walk_from_plain)
    with False full show ?thesis
      by (simp add: files_safeJoin_def Let_def es_def)
  qed
qed

section \<open>The directory above\<close>

lemma Dir_abs_path:
  assumes "list_all plain (es @ [e])"
  shows "Dir (abs_path (es @ [e])) = abs_path es"
proof -
  have e: "slash \<notin> set e" and es: "list_all plain es" using assms by (auto simp: plain_def)
  have split: "\<exists>q. abs_path (es @ [e]) = q @ slash # e \<and> Clean (q @ [slash]) = abs_path es"
  proof (cases "es = []")
    case True
    then show ?thesis by (intro exI [of _ "[]"]) (simp add: abs_path_def Clean_def clean_elems_def clean_elem_def Let_def)
  next
    case False
    have "elems (abs_path es @ slash # []) = es" using elems_below [OF es, of "[]"] by simp
    moreover have "IsAbs (abs_path es @ [slash])" by (simp add: abs_path_def)
    ultimately have "Clean (abs_path es @ [slash]) = abs_path es" by (simp add: Clean_elems)
    moreover have "abs_path (es @ [e]) = abs_path es @ slash # e"
      using False by (simp add: abs_path_def Join_append_elems)
    ultimately show ?thesis by blast
  qed
  then obtain q where q: "abs_path (es @ [e]) = q @ slash # e" "Clean (q @ [slash]) = abs_path es" by blast
  have "last_index slash (q @ slash # e) = Some (length q)" using last_index_append [OF e] .
  with q show ?thesis by (simp add: Dir_def)
qed

lemma Dir_inside:
  assumes "clean_root root" and "inside root p"
  shows "inside root (Dir p) \<or> Dir p = Dir root"
proof -
  have p: "p = abs_path (elems p)" and pre: "prefix (elems root) (elems p)"
    using assms(2) Clean_elems [of p] by (auto simp: inside_def)
  show ?thesis
  proof (cases "elems p = elems root")
    case True
    with p have "p = root" using assms(1) by (metis clean_rootE)
    then show ?thesis by simp
  next
    case False
    with pre obtain fs e where fs: "elems p = fs @ [e]" "prefix (elems root) fs"
      by (metis prefix_snoc rev_exhaust prefix_Nil)
    have pl: "list_all plain (fs @ [e])" using elems_plain [of p] unfolding fs(1) .
    have "Dir p = abs_path fs" using p Dir_abs_path [OF pl] unfolding fs(1) by simp
    then show ?thesis using fs pl by (simp add: inside_abs_path)
  qed
qed

section \<open>Properties\<close>

text \<open>the engine's \<open>safeJoin\<close> accepts only paths inside the directory: for a clean absolute
  directory, an accepted name leads to a cleaned absolute path whose elements extend those of the
  directory, namely where walking the elements of the name from the directory leads.\<close>

theorem safeJoin_inside:
  assumes "clean_root root" and "safeJoin root name = Inr p"
  shows "inside root p \<and> p = abs_path (walk_from (elems root) name)"
  using assms elems_plain [of root]
  by (auto simp: safeJoin_elems inside_abs_path walk_from_plain split: if_splits)

theorem safeJoin_inside_witness: "inside ''/srv/out'' ''/srv/out/b/c''"
proof -
  have "clean_root ''/srv/out''" by code_simp
  moreover have "safeJoin ''/srv/out'' ''a/../b//./c'' = Inr ''/srv/out/b/c''" by code_simp
  ultimately show ?thesis by (rule safeJoin_inside [THEN conjunct1])
qed

text \<open>the two extraction routines agree where the stricter one accepts: for a directory other than
  the root of the file system, a name without NUL that the files driver accepts is accepted by the engine,
  with the same path, and that path is inside the directory.\<close>

theorem joins_agree:
  assumes "clean_root root" and "root \<noteq> ''/''" and "NUL \<notin> set name" and "files_safeJoin root name = Inr p"
  shows "safeJoin root name = Inr p \<and> inside root p"
proof -
  from assms(1,2) have ne: "elems root \<noteq> []"
    by (metis clean_rootE abs_path_def Join.simps(1))
  from assms(4) have acc: "\<not> IsAbs name" "\<not> climbs (Clean name)" "p = abs_path (walk_from (elems root) name)"
    by (auto simp: files_safeJoin_elems [OF assms(1)] split: if_splits)
  then have "prefix (elems root) (walk_from (elems root) name)" by (simp add: walk_from_Clean)
  with acc ne assms(3) show ?thesis
    by (simp add: safeJoin_elems [OF assms(1)] inside_abs_path walk_from_plain IsAbs_def [symmetric])
qed

theorem joins_agree_witness: "safeJoin ''/srv'' ''a/../b'' = Inr ''/srv/b''"
proof -
  have "clean_root ''/srv''" by code_simp
  moreover have "NUL \<notin> set ''a/../b''" by code_simp
  moreover have "files_safeJoin ''/srv'' ''a/../b'' = Inr ''/srv/b''" by code_simp
  ultimately show ?thesis using joins_agree [of "''/srv''" "''a/../b''" "''/srv/b''"] by simp
qed

text \<open>The engine accepts more: a name that climbs out of the directory and comes back. And it refuses every
  name when the target is the root of the file system.\<close>

lemma joins_differ:
  "safeJoin ''/srv'' ''../srv/x'' = Inr ''/srv/x''" "files_safeJoin ''/srv'' ''../srv/x'' = Inl path_escapes"
  by code_simp+

lemma safeJoin_root_refuses:
  assumes "walk_from [] name \<noteq> []"
  shows "\<exists>e. safeJoin ''/'' name = Inl e"
proof -
  have "clean_root ''/''" by code_simp
  moreover have "elems ''/'' = []" by code_simp
  ultimately show ?thesis using assms by (simp add: safeJoin_elems)
qed

end
