(* ===== verification/Restore.thy ===== *)
theory Restore
  imports Pipeline_Calls Safe_Path Engine_Runs "HOL-Library.Word"
begin

unbundle bit_operations_syntax

text \<open>
  Restoring an artifact (package \<open>internal/engine\<close>: restore.go and download.go): the request, the run
  with its stages, opening and unpacking the stored object, writing it to a path or unpacking a tar archive
  below a directory, and handing it to a source driver. The drivers, the file system and the parsing of tar
  archives are operations of the environment record \<open>renv\<close>; every file system call is recorded in
  the history.
\<close>

section \<open>Environment\<close>

text \<open>Permission bits, written in octal in the code.\<close>

abbreviation perm_777 :: nat where "perm_777 \<equiv> 0x1FF"
abbreviation perm_755 :: nat where "perm_755 \<equiv> 0x1ED"
abbreviation perm_750 :: nat where "perm_750 \<equiv> 0x1E8"
abbreviation perm_700 :: nat where "perm_700 \<equiv> 0x1C0"
abbreviation perm_600 :: nat where "perm_600 \<equiv> 0x180"

text \<open>An entry of a tar archive as \<open>archive/tar\<close> returns it. Its content is a stream: the bytes and
  the error that ends them.\<close>

datatype tartype = TypeDir | TypeReg | TypeSymlink | TypeLink | TypeOther string

record tar_entry =
  te_Name :: string
  te_Type :: tartype
  te_Linkname :: string
  te_Mode :: nat
  te_Uid :: int
  te_Gid :: int
  te_ModTime :: time
  te_Content :: stream

record RestoreOptions =
  ro_Extension :: string
  ro_Size :: int
  ro_Overwrite :: bool
  ro_TargetPath :: string
  ro_Params :: Config

text \<open>\<open>re_get\<close> is \<open>client.Get\<close> and what reading the object delivers. \<open>re_cut\<close> says after
  how many bytes the reader notices that the run was canceled, if it does. \<open>re_tar\<close> parses a stream into
  entries and the error that ends them (\<open>None\<close> for the end of the archive), and says how many bytes it
  consumed. \<open>re_restore\<close> is \<open>Restore\<close> of a source driver and how many bytes it consumed.\<close>

record 'w renv =
  re_get :: "string \<Rightarrow> Config \<Rightarrow> string \<Rightarrow> 'w \<Rightarrow> stream result \<times> 'w"
  re_cut :: "'w \<Rightarrow> (nat \<times> error) option \<times> 'w"
  re_fs :: "fsop \<Rightarrow> 'w \<Rightarrow> error option \<times> 'w"
  re_isdir :: "string \<Rightarrow> 'w \<Rightarrow> bool \<times> 'w"
  re_getwd :: "'w \<Rightarrow> string result \<times> 'w"
  re_evallinks :: "string \<Rightarrow> 'w \<Rightarrow> string result \<times> 'w"
  re_tar :: "stream \<Rightarrow> tar_entry list \<times> error option \<times> int"
  re_restorable :: "string \<Rightarrow> bool"
  re_restore :: "string \<Rightarrow> Config \<Rightarrow> stream \<Rightarrow> RestoreOptions \<Rightarrow> 'w \<Rightarrow> (error option \<times> int) \<times> 'w"

datatype RestoreMode = RestoreToPath | RestoreToSource | RestoreModeOther string

record RestoreRequest =
  rq_Artifact :: Artifact
  rq_Mode :: RestoreMode
  rq_TargetPath :: string
  rq_Extract :: bool
  rq_TargetSourceID :: string
  rq_Passphrase :: string
  rq_Params :: Config
  rq_CreatedBy :: string

section \<open>The request\<close>

definition RestoreMode_str :: "RestoreMode \<Rightarrow> string" where
  "RestoreMode_str m = (case m of RestoreToPath \<Rightarrow> ''path'' | RestoreToSource \<Rightarrow> ''source'' | RestoreModeOther s \<Rightarrow> s)"

definition restore_run :: "string \<Rightarrow> time \<Rightarrow> RestoreRequest \<Rightarrow> Run" where
  "restore_run newID now req =
     (let run = newRun newID now (artifact_job (rq_Artifact req)) RunRestore TriggerManual (rq_CreatedBy req);
          meta = (run_Meta run)(''artifactId'' \<mapsto> art_ID (rq_Artifact req), ''mode'' \<mapsto> RestoreMode_str (rq_Mode req))
      in run\<lparr>run_Meta := (if rq_Mode req = RestoreToPath then meta(''targetPath'' \<mapsto> rq_TargetPath req) else meta)\<rparr>)"

definition EnqueueRestore ::
  "error option \<Rightarrow> string \<Rightarrow> time \<Rightarrow> RestoreRequest \<Rightarrow> engine \<times> db \<Rightarrow> Run result \<times> engine \<times> db" where
  "EnqueueRestore flt newID now req s =
     (case rq_Mode req of
        RestoreModeOther m \<Rightarrow> (Inl (errNew (''unsupported restore mode '' @ quoted m)), s)
      | RestoreToPath \<Rightarrow>
          if TrimSpace (rq_TargetPath req) = []
          then (Inl (errNew ''targetPath is required for a path restore''), s)
          else enqueue_unlocked flt now (restore_run newID now req) s
      | RestoreToSource \<Rightarrow> enqueue_unlocked flt now (restore_run newID now req) s)"

section \<open>Opening an artifact\<close>

definition no_passphrase :: error where
  "no_passphrase = errNew ''artifact is encrypted and no passphrase was provided''"

definition passphraseForArtifact :: "'w env \<Rightarrow> Artifact \<Rightarrow> ('w, string result) run" where
  "passphraseForArtifact E artifact =
     (if art_JobID artifact = [] then return (Inl no_passphrase)
      else do {
        rj \<leftarrow> get_job E (art_JobID artifact);
        return (case rj of
          Inl e \<Rightarrow> Inl (wrapf ''artifact is encrypted and the job is gone'' e)
        | Inr job \<Rightarrow>
            (case jobPassphrase E job of
               Inl e \<Rightarrow> Inl e
             | Inr p \<Rightarrow> if p = [] then Inl no_passphrase else Inr p)) })"

definition artifact_options :: "Artifact \<Rightarrow> string \<Rightarrow> PackOptions" where
  "artifact_options a passphrase =
     \<lparr>po_Compression = art_Compression a, po_Level = 0, po_Encryption = art_Encryption a, po_Passphrase = passphrase\<rparr>"

definition unpack_artifact :: "'w env \<Rightarrow> Artifact \<Rightarrow> string \<Rightarrow> stream \<Rightarrow> ('w, (stream \<times> string) result) run" where
  "unpack_artifact E a given body = do {
     rp \<leftarrow> (if given = [] \<and> art_Encryption a = EncryptionAge then passphraseForArtifact E a else return (Inr given));
     return (case rp of
       Inl e \<Rightarrow> Inl e
     | Inr passphrase \<Rightarrow>
         (case newUnpackReader (env_codecs E) body (artifact_options a passphrase) of
            Inl e \<Rightarrow> Inl e
          | Inr r \<Rightarrow> Inr (r, unpackedName (art_Filename a)))) }"

definition OpenArtifact ::
  "'w env \<Rightarrow> 'w renv \<Rightarrow> Artifact \<Rightarrow> bool \<Rightarrow> string \<Rightarrow> ('w, (stream \<times> string) result) run" where
  "OpenArtifact E R a raw given = do {
     rd \<leftarrow> get_destination E (art_DestinationID a);
     (case rd of Inl e \<Rightarrow> return (Inl (wrapf ''load destination'' e)) | Inr d \<Rightarrow> do {
     rc \<leftarrow> OpenDestination E d;
     (case rc of Inl e \<Rightarrow> return (Inl e) | Inr cfg \<Rightarrow> do {
     rb \<leftarrow> ask (re_get R (dst_Kind d) cfg (art_Path a));
     called (CallGet d (art_Path a) rb);
     (case rb of
        Inl e \<Rightarrow> return (Inl (wrapf (''read '' @ art_Path a @ '' from '' @ dst_Name d) e))
      | Inr body \<Rightarrow>
          if raw \<or> passthrough (artifact_options a []) then return (Inr (body, art_Filename a))
          else unpack_artifact E a given body) }) }) }"

section \<open>Unpacking a tar archive\<close>

definition fs :: "'w renv \<Rightarrow> fsop \<Rightarrow> ('w, error option) run" where
  "fs R op = do { r \<leftarrow> ask (re_fs R op); called (CallFs op r); return r }"

text \<open>A call whose error is wrapped and returned.\<close>

definition check_fs :: "'w renv \<Rightarrow> fsop \<Rightarrow> string \<Rightarrow> ('w, error option) run \<Rightarrow> ('w, error option) run" where
  "check_fs R op msg rest = do {
     r \<leftarrow> fs R op;
     (case r of Some e \<Rightarrow> return (Some (wrapf msg e)) | None \<Rightarrow> rest) }"

text \<open>\<open>io.Copy\<close> writes the bytes the reader delivers and then returns its error. The file is closed
  when copying fails.\<close>

definition copy_to :: "'w renv \<Rightarrow> string \<Rightarrow> stream \<Rightarrow> ('w, error option) run" where
  "copy_to R path st = do {
     w \<leftarrow> fs R (FsCopy path (fst st));
     (case (case w of Some e \<Rightarrow> Some e | None \<Rightarrow> snd st) of
        None \<Rightarrow> return None
      | Some e \<Rightarrow> do { _ \<leftarrow> fs R (FsClose path); return (Some e) }) }"

definition extract_entry :: "'w renv \<Rightarrow> string \<Rightarrow> tar_entry \<Rightarrow> ('w, error option) run" where
  "extract_entry R root h =
     (case safeJoin root (te_Name h) of
        Inl e \<Rightarrow> return (Some e)
      | Inr path \<Rightarrow>
          (case te_Type h of
             TypeDir \<Rightarrow>
               check_fs R (FsMkdirAll path ((te_Mode h AND perm_777) OR perm_700)) (''create directory '' @ te_Name h) (return None)
           | TypeReg \<Rightarrow>
               check_fs R (FsMkdirAll (Dir path) perm_750) (''create directory for '' @ te_Name h) (
               check_fs R (FsCreate path ((te_Mode h AND perm_777) OR perm_600)) (''create file '' @ te_Name h) (do {
                 c \<leftarrow> copy_to R path (te_Content h);
                 (case c of
                    Some e \<Rightarrow> return (Some (wrapf (''write file '' @ te_Name h) e))
                  | None \<Rightarrow> check_fs R (FsClose path) (''close file '' @ te_Name h) (return None)) }))
           | TypeSymlink \<Rightarrow>
               (case safeJoin root (path_Join [Dir (te_Name h), te_Linkname h]) of
                  Inl _ \<Rightarrow> return (Some (errNew (''refusing symlink '' @ te_Name h @ '' pointing outside the target directory'')))
                | Inr _ \<Rightarrow>
                    check_fs R (FsMkdirAll (Dir path) perm_750) (''create directory for '' @ te_Name h) (do {
                      _ \<leftarrow> fs R (FsRemove path);
                      check_fs R (FsSymlink (te_Linkname h) path) (''create symlink '' @ te_Name h) (return None) }))
           | TypeLink \<Rightarrow> return None
           | TypeOther _ \<Rightarrow> return None))"

fun extract_loop :: "'w env \<Rightarrow> 'w renv \<Rightarrow> string \<Rightarrow> tar_entry list \<Rightarrow> error option \<Rightarrow> ('w, error option) run" where
  "extract_loop E R root [] fin = do {
     c \<leftarrow> ask (env_ctx E);
     return (case c of Some e \<Rightarrow> Some e | None \<Rightarrow> map_option (wrapf ''read archive'') fin) }"
| "extract_loop E R root (h # hs) fin = do {
     c \<leftarrow> ask (env_ctx E);
     (case c of
        Some e \<Rightarrow> return (Some e)
      | None \<Rightarrow> do {
          err \<leftarrow> extract_entry R root h;
          (case err of Some e \<Rightarrow> return (Some e) | None \<Rightarrow> extract_loop E R root hs fin) }) }"

text \<open>The working directory, which \<open>filepath.Abs\<close> reads for a relative target.\<close>

definition abs_target :: "'w renv \<Rightarrow> string \<Rightarrow> ('w, string result) run" where
  "abs_target R target =
     (if IsAbs target then return (Inr (Clean target))
      else do {
        cwd \<leftarrow> ask (re_getwd R);
        return (case cwd of Inl e \<Rightarrow> Inl e | Inr d \<Rightarrow> Inr (Abs d target)) })"

definition extractTar :: "'w env \<Rightarrow> 'w renv \<Rightarrow> stream \<Rightarrow> string \<Rightarrow> ('w, error option) run" where
  "extractTar E R st target = do {
     rr \<leftarrow> abs_target R target;
     (case rr of
        Inl e \<Rightarrow> return (Some (wrapf ''resolve target directory'' e))
      | Inr root \<Rightarrow> extract_loop E R root (fst (re_tar R st)) (fst (snd (re_tar R st)))) }"

section \<open>Writing to a path\<close>

definition isTar :: "RestoreRequest \<Rightarrow> Artifact \<Rightarrow> string \<Rightarrow> bool" where
  "isTar req artifact name \<longleftrightarrow> rq_Extract req \<and> (art_Extension artifact = ''tar'' \<or> HasSuffix name ''.tar'')"

text \<open>The part that writes a file next to its target and renames it into place. A failed step removes the
  temporary file.\<close>

definition drop_tmp :: "'w renv \<Rightarrow> string \<Rightarrow> string \<Rightarrow> error \<Rightarrow> ('w, error option) run" where
  "drop_tmp R tmp msg e = do { _ \<leftarrow> fs R (FsRemove tmp); return (Some (wrapf msg e)) }"

definition install_file :: "'w renv \<Rightarrow> stream \<Rightarrow> string \<Rightarrow> ('w, error option) run" where
  "install_file R st target =
     (let tmp = target @ ''.partial'' in
      check_fs R (FsMkdirAll (Dir target) perm_750) ''create target directory'' (
      check_fs R (FsCreate tmp perm_600) ''create target file'' (do {
        c \<leftarrow> copy_to R tmp st;
        (case c of Some e \<Rightarrow> drop_tmp R tmp ''write target file'' e | None \<Rightarrow> do {
        k \<leftarrow> fs R (FsClose tmp);
        (case k of Some e \<Rightarrow> drop_tmp R tmp ''close target file'' e | None \<Rightarrow> do {
        n \<leftarrow> fs R (FsRename tmp target);
        (case n of Some e \<Rightarrow> drop_tmp R tmp ''install target file'' e | None \<Rightarrow> return None) }) }) })))"

text \<open>The number beside the error is the count of bytes read, which the run records on success.\<close>

definition restoreToPath ::
  "'w env \<Rightarrow> 'w renv \<Rightarrow> stream \<Rightarrow> string \<Rightarrow> RestoreRequest \<Rightarrow> Artifact \<Rightarrow> ('w, error option \<times> int) run" where
  "restoreToPath E R st name req artifact =
     (if rq_Extract req \<and> \<not> isTar req artifact name
      then return (Some (errNew (''extract requested but artifact extension '' @ quoted (art_Extension artifact)
                                 @ '' is not tar'')), 0)
      else if isTar req artifact name then do {
        err \<leftarrow> check_fs R (FsMkdirAll (rq_TargetPath req) perm_750) ''create target directory''
                 (extractTar E R st (rq_TargetPath req));
        return (err, snd (snd (re_tar R st))) }
      else do {
        d \<leftarrow> ask (re_isdir R (rq_TargetPath req));
        err \<leftarrow> install_file R st (if d then path_Join [rq_TargetPath req, Base name] else rq_TargetPath req);
        return (err, int (length (fst st))) })"

section \<open>Restoring into a source\<close>

definition restore_options :: "RestoreRequest \<Rightarrow> Artifact \<Rightarrow> RestoreOptions" where
  "restore_options req artifact =
     \<lparr>ro_Extension = art_Extension artifact, ro_Size = art_Size artifact, ro_Overwrite = True,
      ro_TargetPath = rq_TargetPath req, ro_Params = rq_Params req\<rparr>"

definition target_source :: "'w env \<Rightarrow> RestoreRequest \<Rightarrow> Artifact \<Rightarrow> ('w, string result) run" where
  "target_source E req artifact =
     (if rq_TargetSourceID req \<noteq> [] then return (Inr (rq_TargetSourceID req))
      else if art_JobID artifact = [] then return (Inl (errNew ''artifact has no job, targetSourceId is required''))
      else do {
        rj \<leftarrow> get_job E (art_JobID artifact);
        return (case rj of Inl e \<Rightarrow> Inl (wrapf ''load job'' e) | Inr job \<Rightarrow> Inr (job_SourceID job)) })"

definition restoreToSource ::
  "'w env \<Rightarrow> 'w renv \<Rightarrow> stream \<Rightarrow> RestoreRequest \<Rightarrow> Artifact \<Rightarrow> ('w, error option \<times> int) run" where
  "restoreToSource E R st req artifact = do {
     rid \<leftarrow> target_source E req artifact;
     (case rid of Inl e \<Rightarrow> return (Some e, 0) | Inr sourceID \<Rightarrow> do {
     rsrc \<leftarrow> get_source E sourceID;
     (case rsrc of Inl e \<Rightarrow> return (Some (wrapf ''load source'' e), 0) | Inr src \<Rightarrow>
     (if art_SourceKind artifact \<noteq> [] \<and> src_Kind src \<noteq> art_SourceKind artifact
      then return (Some (errNew (''source kind mismatch: artifact was created by '' @ art_SourceKind artifact
                                 @ '', target source is '' @ src_Kind src)), 0)
      else do {
        rcfg \<leftarrow> SourceRuntime E src;
        (case rcfg of Inl e \<Rightarrow> return (Some e, 0) | Inr cfg \<Rightarrow>
        (if \<not> re_restorable R (src_Kind src)
            \<or> (case env_source_spec E (src_Kind src) of None \<Rightarrow> True | Some spec \<Rightarrow> \<not> DriverSpec_Has spec CapRestore)
         then return (Some (errNew (''source driver '' @ src_Kind src @ '' does not support restore'')), 0)
         else do {
           res \<leftarrow> ask (re_restore R (src_Kind src) cfg st (restore_options req artifact));
           called (CallRestore src cfg (fst st) (fst res));
           return (map_option (wrapf (''restore into source '' @ src_Name src)) (fst res), snd res) })) })) }) }"

section \<open>The run\<close>

definition ArtifactStatus_str :: "ArtifactStatus \<Rightarrow> string" where
  "ArtifactStatus_str st = (case st of ArtifactUnset \<Rightarrow> [] | ArtifactPresent \<Rightarrow> ''present''
     | ArtifactMissing \<Rightarrow> ''missing'' | ArtifactPruned \<Rightarrow> ''pruned'' | ArtifactDeleted \<Rightarrow> ''deleted'')"

text \<open>What the counting reader delivers of a stream.\<close>

definition counted :: "'w renv \<Rightarrow> stream \<Rightarrow> ('w, stream) run" where
  "counted R st = do {
     c \<leftarrow> ask (re_cut R);
     return (case c of None \<Rightarrow> st | Some (n, e) \<Rightarrow> (take n (fst st), Some e)) }"

definition restore_stream ::
  "'w env \<Rightarrow> 'w renv \<Rightarrow> stream \<Rightarrow> string \<Rightarrow> RestoreRequest \<Rightarrow> Artifact \<Rightarrow> ('w, error option) run" where
  "restore_stream E R st0 name req artifact = do {
     stage E ''restore'';
     st \<leftarrow> counted R st0;
     res \<leftarrow> (case rq_Mode req of
        RestoreToPath \<Rightarrow> restoreToPath E R st name req artifact
      | RestoreToSource \<Rightarrow> restoreToSource E R st req artifact
      | RestoreModeOther _ \<Rightarrow> return (None, 0));
     (case fst res of
        Some e \<Rightarrow> stage_Fail E ''restore'' e
      | None \<Rightarrow> do {
          setResult E (art_Filename artifact) (art_SHA256 artifact) (snd res) (art_Size artifact);
          stage_Done E ''restore'' (count_msg (snd res) '' bytes restored'');
          return None }) }"

definition runRestore :: "'w env \<Rightarrow> 'w renv \<Rightarrow> RestoreRequest \<Rightarrow> ('w, error option) run" where
  "runRestore E R req = do {
     stage E ''prepare'';
     ra \<leftarrow> query E ''get artifact'' (\<lambda>flt. Artifacts_Get flt (art_ID (rq_Artifact req)));
     (case ra of Inl e \<Rightarrow> stage_Fail E ''prepare'' e | Inr artifact \<Rightarrow>
     (if art_Status artifact \<noteq> ArtifactPresent
      then stage_Fail E ''prepare'' (errNew (''artifact status is '' @ ArtifactStatus_str (art_Status artifact)))
      else do {
        stage_Done E ''prepare'' (art_Filename artifact);
        stage E ''download'';
        ro \<leftarrow> OpenArtifact E R artifact False (rq_Passphrase req);
        (case ro of
           Inl e \<Rightarrow> stage_Fail E ''download'' e
         | Inr (st, name) \<Rightarrow> do {
             stage_Done E ''download'' (''streaming '' @ art_Filename artifact);
             restore_stream E R st name req artifact }) })) }"

end
