(* ===== verification/Restore_Props.thy ===== *)
theory Restore_Props
  imports Restore
begin

text \<open>
  What a restore does to the outside: the paths an extraction touches lie inside its directory, a file is
  put in place only complete, what was packed comes back, and the source driver is called only for a source
  of the right kind.
\<close>

section \<open>Calls of the steps\<close>

lemma emits_fs [emit]: "(\<And>r. R r [CallFs op r]) \<Longrightarrow> emits (fs V op) R"
  unfolding fs_def
  by (rule emits_silent_bind [OF silent_ask], rule emits_called_bind, rule emits_return) simp

lemma emits_fs_bind [emit]:
  "(\<And>r. emits (f r) (\<lambda>y b. Q y (CallFs op r # b))) \<Longrightarrow> emits (fs V op \<bind> f) Q"
  by (rule emits_bind [of _ "\<lambda>r cs. cs = [CallFs op r]"]) (auto intro: emits_fs)

lemma emits_check_fs [emit]:
  assumes "\<And>e. Q (Some (wrapf msg e)) [CallFs op (Some e)]" and "emits rest (\<lambda>y b. Q y (CallFs op None # b))"
  shows "emits (check_fs V op msg rest) Q"
  unfolding check_fs_def
proof (rule emits_fs_bind)
  show "emits (case r of None \<Rightarrow> rest | Some e \<Rightarrow> return (Some (wrapf msg e))) (\<lambda>y b. Q y (CallFs op r # b))" for r
    using assms by (cases r) (auto intro: emits_return)
qed

text \<open>A failing copy makes two calls, a good one makes one.\<close>

lemma emits_copy_to_bind [emit]:
  assumes "snd st = None \<Longrightarrow> emits (f None) (\<lambda>y b. Q y (CallFs (FsCopy path (fst st)) None # b))"
    and "\<And>w e k. emits (f (Some e)) (\<lambda>y b. Q y (CallFs (FsCopy path (fst st)) w # CallFs (FsClose path) k # b))"
  shows "emits (copy_to V path st \<bind> f) Q"
proof (rule emits_bind)
  show "emits (copy_to V path st) (\<lambda>r cs.
     (r = None \<and> snd st = None \<and> cs = [CallFs (FsCopy path (fst st)) None])
     \<or> (\<exists>w e k. r = Some e \<and> cs = [CallFs (FsCopy path (fst st)) w, CallFs (FsClose path) k]))"
    unfolding copy_to_def
  proof (rule emits_fs_bind, rule emits_option)
    fix w assume "(case w of None \<Rightarrow> snd st | Some e \<Rightarrow> Some e) = None"
    then have "w = None \<and> snd st = None" by (auto split: option.splits)
    then show "emits (return None) (\<lambda>y b. (y = None \<and> snd st = None \<and> CallFs (FsCopy path (fst st)) w # b = [CallFs (FsCopy path (fst st)) None])
       \<or> (\<exists>w' e k. y = Some e \<and> CallFs (FsCopy path (fst st)) w # b = [CallFs (FsCopy path (fst st)) w', CallFs (FsClose path) k]))"
      by (auto intro: emits_return)
  next
    fix w e
    show "emits (fs V (FsClose path) \<bind> (\<lambda>_. return (Some e))) (\<lambda>y b. (y = None \<and> snd st = None \<and> CallFs (FsCopy path (fst st)) w # b = [CallFs (FsCopy path (fst st)) None])
       \<or> (\<exists>w' e k. y = Some e \<and> CallFs (FsCopy path (fst st)) w # b = [CallFs (FsCopy path (fst st)) w', CallFs (FsClose path) k]))"
      by (rule emits_fs_bind, rule emits_return) auto
  qed
qed (use assms in auto)

section \<open>Extraction stays inside\<close>

text \<open>The path of the directory above, and the paths a call changes. \<open>os.MkdirAll\<close> of the directory
  above the root is allowed: it exists.\<close>

definition call_inside :: "string \<Rightarrow> call \<Rightarrow> bool" where
  "call_inside root c =
     (case c of
        CallFs (FsMkdirAll p _) _ \<Rightarrow> inside root p \<or> p = Dir root
      | CallFs (FsCreate p _) _ \<Rightarrow> inside root p
      | CallFs (FsCopy p _) _ \<Rightarrow> inside root p
      | CallFs (FsClose p) _ \<Rightarrow> inside root p
      | CallFs (FsRemove p) _ \<Rightarrow> inside root p
      | CallFs (FsSymlink _ p) _ \<Rightarrow> inside root p
      | _ \<Rightarrow> False)"

lemma extract_entry_inside:
  assumes root: "clean_root root"
  shows "emits (extract_entry V root h) (\<lambda>_. list_all (call_inside root))"
proof (cases "safeJoin root (te_Name h)")
  case (Inl e)
  then show ?thesis by (simp add: extract_entry_def emits_return)
next
  case (Inr path)
  then have ins: "inside root path" using safeJoin_elems [OF root, of "te_Name h"] elems_plain [of root]
    by (auto simp: inside_abs_path walk_from_plain split: if_splits)
  note dir = Dir_inside [OF root ins]
  show ?thesis
    unfolding extract_entry_def Inr sum.case
    by (cases "te_Type h"; simp)
      (intro emit; simp add: call_inside_def ins dir split: sum.split; intro emit; simp add: call_inside_def ins dir)+
qed

lemma extract_loop_inside:
  assumes "clean_root root"
  shows "emits (extract_loop E V root hs fin) (\<lambda>_. list_all (call_inside root))"
proof (induction hs)
  case Nil
  show ?case unfolding extract_loop.simps by (rule emits_silent_bind [OF silent_ask], rule emits_return) simp
next
  case (Cons h hs)
  show ?case unfolding extract_loop.simps
  proof (rule emits_silent_bind [OF silent_ask], rule emits_option)
    show "emits (extract_entry V root h \<bind>
        (\<lambda>err. case err of None \<Rightarrow> extract_loop E V root hs fin | Some e \<Rightarrow> return (Some e)))
      (\<lambda>_. list_all (call_inside root))"
    proof (rule emits_bind [OF extract_entry_inside [OF assms]])
      fix err cs assume "list_all (call_inside root) cs"
      then show "emits (case err of None \<Rightarrow> extract_loop E V root hs fin | Some e \<Rightarrow> return (Some e))
          (\<lambda>_ b. list_all (call_inside root) (cs @ b))"
        by (cases err) (auto intro: emits_return emits_weaken [OF Cons])
    qed
  qed (simp add: emits_return)
qed

text \<open>C38 (safety): an extraction below an absolute target directory changes only paths that are, as texts, inside the
  directory: every directory it makes, every file it creates, fills and closes, every link it places or
  removes, whatever the archive contains and whichever calls fail. The one exception is the directory above the
  target, which it may ask to make.\<close>

theorem extractTar_paths_inside:
  assumes "IsAbs target"
  shows "\<exists>cs. sy_calls (snd (run_state (extractTar E V st target) s)) = sy_calls s @ cs
    \<and> list_all (call_inside (Clean target)) cs"
proof -
  have "clean_root (Clean target)" using assms by (simp add: clean_root_def Clean_elems)
  from extract_loop_inside [OF this] emitsD show ?thesis
    unfolding extractTar_def abs_target_def using assms by fastforce
qed

definition demo_renv :: "tar_entry list \<Rightarrow> 'w renv" where
  "demo_renv hs = \<lparr>re_get = (\<lambda>_ _ _ w. (Inr ([], None), w)), re_cut = (\<lambda>w. (None, w)), re_fs = (\<lambda>_ w. (None, w)),
     re_isdir = (\<lambda>_ w. (False, w)), re_getwd = (\<lambda>w. (Inr ''/'', w)), re_evallinks = (\<lambda>p w. (Inr p, w)),
     re_tar = (\<lambda>_. (hs, None, 0)), re_restorable = (\<lambda>_. True), re_restore = (\<lambda>_ _ _ _ w. ((None, 0), w))\<rparr>"

definition tar_file :: "string \<Rightarrow> string \<Rightarrow> tar_entry" where
  "tar_file name content = \<lparr>te_Name = name, te_Type = TypeReg, te_Linkname = [], te_Mode = 0x1A4, te_Uid = 0, te_Gid = 0,
     te_ModTime = 0, te_Content = (content, None)\<rparr>"

definition tar_symlink :: "string \<Rightarrow> string \<Rightarrow> tar_entry" where
  "tar_symlink name target = \<lparr>te_Name = name, te_Type = TypeSymlink, te_Linkname = target, te_Mode = 0x1FF, te_Uid = 0,
     te_Gid = 0, te_ModTime = 0, te_Content = ([], None)\<rparr>"

theorem extractTar_paths_inside_witness:
  "\<exists>cs. sy_calls (snd (run_state (extractTar demo_env (demo_renv [tar_file ''a/b'' ''x'']) ([], None) ''/srv'') demo_sys)) = sy_calls demo_sys @ cs
    \<and> list_all (call_inside ''/srv'') cs"
proof -
  have "IsAbs ''/srv''" and "Clean ''/srv'' = ''/srv''" by code_simp+
  then show ?thesis using extractTar_paths_inside [of "''/srv''" demo_env "demo_renv [tar_file ''a/b'' ''x'']" "([], None)" demo_sys] by simp
qed

section \<open>A file appears only complete\<close>

definition install_calls :: "string \<Rightarrow> string \<Rightarrow> call list" where
  "install_calls target bytes =
     [CallFs (FsMkdirAll (Dir target) perm_750) None, CallFs (FsCreate (target @ ''.partial'') perm_600) None,
      CallFs (FsCopy (target @ ''.partial'') bytes) None, CallFs (FsClose (target @ ''.partial'')) None,
      CallFs (FsRename (target @ ''.partial'') target) None]"

text \<open>A call of a restore that puts no file in place: it changes only a file whose name ends in
  \<open>.partial\<close>, or it is a renaming that failed.\<close>

definition no_install :: "call \<Rightarrow> bool" where
  "no_install c =
     (case c of
        CallGet _ _ _ \<Rightarrow> True
      | CallFs (FsMkdirAll _ _) _ \<Rightarrow> True
      | CallFs (FsCreate p _) _ \<Rightarrow> HasSuffix p ''.partial''
      | CallFs (FsCopy p _) _ \<Rightarrow> HasSuffix p ''.partial''
      | CallFs (FsClose p) _ \<Rightarrow> HasSuffix p ''.partial''
      | CallFs (FsRemove p) _ \<Rightarrow> HasSuffix p ''.partial''
      | CallFs (FsRename _ _) r \<Rightarrow> r \<noteq> None
      | _ \<Rightarrow> False)"

lemma emits_drop_tmp:
  "(\<And>r e. Q (Some e) [CallFs (FsRemove tmp) r]) \<Longrightarrow> emits (drop_tmp V tmp msg e) Q"
  unfolding drop_tmp_def by (intro emit) simp

lemma install_file_calls:
  "emits (install_file V st target) (\<lambda>r cs. case r of
     None \<Rightarrow> snd st = None \<and> cs = install_calls target (fst st)
   | Some _ \<Rightarrow> list_all no_install cs)"
  unfolding install_file_def Let_def
  by (intro emit emits_drop_tmp) (auto simp: install_calls_def no_install_def)

text \<open>What opening an artifact delivers: the stored bytes, or what unpacking them gives.\<close>

definition unpacked_as :: "codecs \<Rightarrow> Artifact \<Rightarrow> string \<Rightarrow> stream \<Rightarrow> stream \<Rightarrow> bool" where
  "unpacked_as c a pass body st \<longleftrightarrow>
     (if passthrough (artifact_options a []) then st = body
      else newUnpackReader c body (artifact_options a pass) = Inr st)"

definition restored_name :: "Artifact \<Rightarrow> string" where
  "restored_name a =
     (if passthrough (artifact_options a []) then art_Filename a else unpackedName (art_Filename a))"

lemma silent_passphrase: "silent (passphraseForArtifact E a)"
  unfolding passphraseForArtifact_def by (auto intro: silent_bind silent_get_job silent_return)

lemma unpack_artifact_calls:
  "emits (unpack_artifact E a given body) (\<lambda>r cs. cs = [] \<and> (case r of Inl _ \<Rightarrow> True
     | Inr (st, name) \<Rightarrow> name = unpackedName (art_Filename a)
         \<and> (\<exists>pass. newUnpackReader (env_codecs E) body (artifact_options a pass) = Inr st)))"
  unfolding unpack_artifact_def
  by (rule emits_silent_bind)
    (auto intro!: silent_return silent_passphrase emits_return split: sum.split)

definition opened :: "codecs \<Rightarrow> Artifact \<Rightarrow> (stream \<times> string) result \<Rightarrow> call list \<Rightarrow> bool" where
  "opened c a r cs \<longleftrightarrow>
     (case r of
        Inl _ \<Rightarrow> list_all no_install cs
      | Inr (st, name) \<Rightarrow> name = restored_name a
          \<and> (\<exists>d body pass. cs = [CallGet d (art_Path a) (Inr body)] \<and> unpacked_as c a pass body st))"

lemma OpenArtifact_calls: "emits (OpenArtifact E V a False given) (opened (env_codecs E) a)"
proof -
  have un: "emits (unpack_artifact E a given body) (\<lambda>y b. opened (env_codecs E) a y (CallGet d (art_Path a) rb # b))"
    if "\<not> (False \<or> passthrough (artifact_options a []))" "rb = Inr body" for d body rb
    by (rule emits_weaken [OF unpack_artifact_calls])
      (use that in \<open>auto simp: opened_def restored_name_def unpacked_as_def no_install_def split: sum.splits\<close>)
  show ?thesis
    unfolding OpenArtifact_def
    by (intro emits_silent_bind [OF silent_get_destination] emits_silent_bind [OF silent_OpenDestination]
        emits_silent_bind [OF silent_ask] emits_sum emits_called_bind emits_if emits_return un)
      (auto simp: opened_def restored_name_def unpacked_as_def no_install_def)
qed

definition restored ::
  "codecs \<Rightarrow> RestoreRequest \<Rightarrow> Artifact \<Rightarrow> error option \<Rightarrow> call list \<Rightarrow> bool" where
  "restored c req a r cs \<longleftrightarrow>
     (case r of
        Some _ \<Rightarrow> list_all no_install cs
      | None \<Rightarrow> \<exists>d pass packed bytes target.
          cs = CallGet d (art_Path a) (Inr packed) # install_calls target bytes
          \<and> unpacked_as c a pass packed (bytes, None)
          \<and> target \<in> {rq_TargetPath req, path_Join [rq_TargetPath req, Base (restored_name a)]})"

lemma emits_counted_bind:
  assumes "emits (f st) Q" and "\<And>n e. emits (f (take n (fst st), Some e)) Q"
  shows "emits (counted V st \<bind> f) Q"
proof (rule emits_bind)
  show "emits (counted V st) (\<lambda>x cs. cs = [] \<and> (x = st \<or> (\<exists>n e. x = (take n (fst st), Some e))))"
    unfolding counted_def
    by (rule emits_silent_bind [OF silent_ask]) (auto intro!: emits_return split: option.split)
qed (use assms in auto)

lemma restoreToPath_file:
  assumes "\<not> rq_Extract req"
  shows "emits (restoreToPath E V st name req a) (\<lambda>x cs. case fst x of
     None \<Rightarrow> \<exists>target. snd st = None \<and> cs = install_calls target (fst st)
       \<and> target \<in> {rq_TargetPath req, path_Join [rq_TargetPath req, Base name]}
   | Some _ \<Rightarrow> list_all no_install cs)"
proof -
  have t: "emits (install_file V st t \<bind> (\<lambda>err. return (err, n))) (\<lambda>x cs. case fst x of
     None \<Rightarrow> snd st = None \<and> cs = install_calls t (fst st) | Some _ \<Rightarrow> list_all no_install cs)" for t n
    by (rule emits_bind [OF install_file_calls]) (auto intro!: emits_return split: option.splits)
  have "emits (ask (re_isdir V (rq_TargetPath req)) \<bind> (\<lambda>d.
      install_file V st (if d then path_Join [rq_TargetPath req, Base name] else rq_TargetPath req) \<bind>
      (\<lambda>err. return (err, int (length (fst st)))))) (\<lambda>x cs. case fst x of
     None \<Rightarrow> \<exists>target. snd st = None \<and> cs = install_calls target (fst st)
       \<and> target \<in> {rq_TargetPath req, path_Join [rq_TargetPath req, Base name]}
   | Some _ \<Rightarrow> list_all no_install cs)"
    by (rule emits_silent_bind [OF silent_ask], rule emits_weaken [OF t]) (auto split: option.splits if_splits)
  with assms show ?thesis by (simp add: restoreToPath_def isTar_def)
qed

lemma restore_stream_file:
  assumes "rq_Mode req = RestoreToPath" and "\<not> rq_Extract req"
  shows "emits (restore_stream E V st (restored_name a) req a) (\<lambda>r cs. case r of
     None \<Rightarrow> \<exists>target. snd st = None \<and> cs = install_calls target (fst st)
       \<and> target \<in> {rq_TargetPath req, path_Join [rq_TargetPath req, Base (restored_name a)]}
   | Some _ \<Rightarrow> list_all no_install cs)"
proof -
  have step: "emits (restoreToPath E V st' (restored_name a) req a \<bind> (\<lambda>res. case fst res of
        Some e \<Rightarrow> stage_Fail E ''restore'' e
      | None \<Rightarrow> do {
          setResult E (art_Filename a) (art_SHA256 a) (snd res) (art_Size a);
          stage_Done E ''restore'' (count_msg (snd res) '' bytes restored'');
          return None })) (\<lambda>r cs. case r of
     None \<Rightarrow> \<exists>target. snd st' = None \<and> cs = install_calls target (fst st')
       \<and> target \<in> {rq_TargetPath req, path_Join [rq_TargetPath req, Base (restored_name a)]}
   | Some _ \<Rightarrow> list_all no_install cs)" for st'
    by (rule emits_bind [OF restoreToPath_file [OF assms(2)]])
      (auto intro!: emits_Fail emits_silent_bind [OF silent_run_state(9)] emits_silent_bind [OF silent_run_state(5)]
        emits_return split: option.splits)
  show ?thesis
    unfolding restore_stream_def assms(1) RestoreMode.case
    by (rule emits_silent_bind [OF silent_run_state(2)], rule emits_counted_bind [OF step], rule emits_weaken [OF step])
      (auto split: option.splits)
qed

lemma restore_tail:
  assumes "rq_Mode req = RestoreToPath" and "\<not> rq_Extract req"
  shows "emits (OpenArtifact E V a False given \<bind> (\<lambda>ro. case ro of
       Inl e \<Rightarrow> stage_Fail E ''download'' e
     | Inr (st, name) \<Rightarrow> do {
         stage_Done E ''download'' (''streaming '' @ art_Filename a);
         restore_stream E V st name req a })) (restored (env_codecs E) req a)"
proof (rule emits_bind [OF OpenArtifact_calls])
  fix ro cs assume o: "opened (env_codecs E) a ro cs"
  show "emits (case ro of Inl e \<Rightarrow> stage_Fail E ''download'' e
     | Inr (st, name) \<Rightarrow> do {
         stage_Done E ''download'' (''streaming '' @ art_Filename a);
         restore_stream E V st name req a }) (\<lambda>y b. restored (env_codecs E) req a y (cs @ b))"
  proof (cases ro)
    case (Inl e)
    with o show ?thesis by (auto simp: opened_def restored_def intro!: emits_Fail)
  next
    case (Inr x)
    obtain st name where x: "x = (st, name)" by (cases x)
    from o obtain d body pass where b: "name = restored_name a" "cs = [CallGet d (art_Path a) (Inr body)]"
      "unpacked_as (env_codecs E) a pass body st" by (auto simp: opened_def Inr x)
    obtain bytes fin where st: "st = (bytes, fin)" by (cases st)
    have "emits (restore_stream E V st name req a) (\<lambda>y b. restored (env_codecs E) req a y (cs @ b))"
      unfolding b(1)
      by (rule emits_weaken [OF restore_stream_file [OF assms]])
        (use b in \<open>auto simp: restored_def st no_install_def split: option.splits\<close>)
    then show ?thesis by (simp add: Inr x emits_silent_bind [OF silent_run_state(5)])
  qed
qed

lemma silentD: "silent m \<Longrightarrow> sy_calls (snd (run_state m s)) = sy_calls s"
  by (rule keepsD [of "\<lambda>t. sy_calls t = sy_calls s" m s]) (simp_all add: silent_def)

lemma frame_artifacts: "frame (\<lambda>s. t_artifacts (sy_db s) = rows)"
  by (simp add: frame_def)

lemma Artifacts_Get_row: "Artifacts_Get flt i d = Inr a \<Longrightarrow> a \<in> set (t_artifacts d) \<and> art_ID a = i"
  by (auto simp: Artifacts_Get_def find_row_def find_Some_iff split: option.splits) 

text \<open>C36 (safety): a restore of a single file to a path, without extraction. When it succeeds it read one object, the one of a
  present artifact with the requested identifier, to its end, and its calls are exactly these: make the directory, create, fill and
  close the file \<open>.partial\<close>, and rename it to the target (or to the name of the artifact in the target,
  if that is a directory), where the bytes written are all the unpacked bytes. When it fails, no file was
  renamed into place and nothing but files named \<open>.partial\<close> was changed.\<close>

theorem restore_installs_complete:
  assumes "rq_Mode req = RestoreToPath" and "\<not> rq_Extract req"
  shows "\<exists>cs a. sy_calls (snd (run_state (runRestore E V req) s)) = sy_calls s @ cs
    \<and> (fst (run_state (runRestore E V req) s) \<noteq> None \<or>
        (a \<in> set (t_artifacts (sy_db s)) \<and> art_ID a = art_ID (rq_Artifact req) \<and> art_Status a = ArtifactPresent))
    \<and> restored (env_codecs E) req a (fst (run_state (runRestore E V req) s)) cs"
proof -
  define s1 where "s1 = snd (run_state (stage E ''prepare'') s)"
  define ra where "ra = fst (run_state (query E ''get artifact'' (\<lambda>flt. Artifacts_Get flt (art_ID (rq_Artifact req)))) s1)"
  define s2 where "s2 = snd (run_state (query E ''get artifact'' (\<lambda>flt. Artifacts_Get flt (art_ID (rq_Artifact req)))) s1)"
  define rest where "rest = (\<lambda>ra. case ra of Inl e \<Rightarrow> stage_Fail E ''prepare'' e | Inr artifact \<Rightarrow>
     (if art_Status artifact \<noteq> ArtifactPresent
      then stage_Fail E ''prepare'' (errNew (''artifact status is '' @ ArtifactStatus_str (art_Status artifact)))
      else do {
        stage_Done E ''prepare'' (art_Filename artifact);
        stage E ''download'';
        ro \<leftarrow> OpenArtifact E V artifact False (rq_Passphrase req);
        (case ro of
           Inl e \<Rightarrow> stage_Fail E ''download'' e
         | Inr (st, name) \<Rightarrow> do {
             stage_Done E ''download'' (''streaming '' @ art_Filename artifact);
             restore_stream E V st name req artifact }) }))"
  have run: "run_state (runRestore E V req) s = run_state (rest ra) s2"
    by (simp add: runRestore_def rest_def ra_def s2_def s1_def case_prod_beta)
  have art: "t_artifacts (sy_db s1) = t_artifacts (sy_db s)"
    unfolding s1_def by (rule keepsD [OF keeps_stage [OF frame_artifacts]]) simp
  have calls: "sy_calls s2 = sy_calls s"
    unfolding s2_def s1_def by (simp only: silentD [OF silent_query] silentD [OF silent_run_state(2)])
  show ?thesis
  proof (cases ra)
    case (Inl e)
    have "emits (rest ra) (\<lambda>r cs. r \<noteq> None \<and> cs = [])" unfolding Inl rest_def sum.case by (rule emits_Fail) simp
    from emitsD [OF this, of s2] obtain e where r: "fst (run_state (rest ra) s2) = Some e"
      "sy_calls (snd (run_state (rest ra) s2)) = sy_calls s2" by auto
    then have "restored (env_codecs E) req a (fst (run_state (rest ra) s2)) []" for a
      by (simp add: restored_def)
    with r calls show ?thesis unfolding run by (intro exI [of _ "[]"]) simp
  next
    case (Inr a)
    then have row: "a \<in> set (t_artifacts (sy_db s))" "art_ID a = art_ID (rq_Artifact req)"
      using Artifacts_Get_row [of _ "art_ID (rq_Artifact req)" "sy_db s1" a] art by (auto simp: ra_def run_query_eq)
    have "emits (rest ra) (\<lambda>r cs. (r \<noteq> None \<or> art_Status a = ArtifactPresent) \<and> restored (env_codecs E) req a r cs)"
    proof (cases "art_Status a = ArtifactPresent")
      case True
      have "emits (rest ra) (restored (env_codecs E) req a)"
        unfolding Inr rest_def sum.case
        by (rule emits_if, use True in simp, intro emits_silent_bind [OF silent_run_state(5)]
            emits_silent_bind [OF silent_run_state(2)] restore_tail [OF assms])
      then show ?thesis by (rule emits_weaken) (use True in simp)
    next
      case False
      then show ?thesis by (simp add: Inr rest_def) (rule emits_Fail, simp add: restored_def)
    qed
    from emitsD [OF this, of s2] obtain cs where cs: "sy_calls (snd (run_state (rest ra) s2)) = sy_calls s2 @ cs"
      "fst (run_state (rest ra) s2) \<noteq> None \<or> art_Status a = ArtifactPresent"
      "restored (env_codecs E) req a (fst (run_state (rest ra) s2)) cs" by blast
    show ?thesis unfolding run using cs row by (intro exI [of _ cs] exI [of _ a]) (simp add: calls)
  qed
qed

definition demo_request :: RestoreRequest where
  "demo_request = \<lparr>rq_Artifact = zero_artifact\<lparr>art_ID := ''a''\<rparr>, rq_Mode = RestoreToPath, rq_TargetPath = ''/tmp/x'',
     rq_Extract = False, rq_TargetSourceID = [], rq_Passphrase = [], rq_Params = Map.empty, rq_CreatedBy = []\<rparr>"

definition demo_stored :: "nat sys" where
  "demo_stored = demo_sys\<lparr>sy_db := (sy_db demo_sys)\<lparr>
     t_destinations := [zero_destination\<lparr>dst_ID := ''d''\<rparr>],
     t_artifacts := [zero_artifact\<lparr>art_ID := ''a'', art_DestinationID := ''d'', art_Status := ArtifactPresent\<rparr>]\<rparr>\<rparr>"

theorem restore_installs_complete_witness:
  "\<exists>cs a. sy_calls (snd (run_state (runRestore demo_env (demo_renv []) demo_request) demo_stored)) = cs
     \<and> restored demo_codecs demo_request a (fst (run_state (runRestore demo_env (demo_renv []) demo_request) demo_stored)) cs"
proof -
  have "rq_Mode demo_request = RestoreToPath" "\<not> rq_Extract demo_request" by (simp_all add: demo_request_def)
  from restore_installs_complete [OF this, of demo_env "demo_renv []" demo_stored] show ?thesis
    by (auto simp: demo_env_def demo_stored_def demo_sys_def)
qed

section \<open>What was packed comes back\<close>

lemma OpenArtifact_given:
  assumes "\<not> (given = [] \<and> art_Encryption a = EncryptionAge)"
  shows "emits (OpenArtifact E V a False given) (\<lambda>r cs. case r of Inl _ \<Rightarrow> True
     | Inr (st, name) \<Rightarrow> name = restored_name a
         \<and> (\<exists>d body. cs = [CallGet d (art_Path a) (Inr body)] \<and> unpacked_as (env_codecs E) a given body st))"
proof -
  let ?R = "\<lambda>r cs. case r of Inl _ \<Rightarrow> True
     | Inr (st, name) \<Rightarrow> name = restored_name a
         \<and> (\<exists>d body. cs = [CallGet d (art_Path a) (Inr body)] \<and> unpacked_as (env_codecs E) a given body st)"
  have un: "emits (unpack_artifact E a given body) (\<lambda>y b. ?R y (CallGet d (art_Path a) rb # b))"
    if "\<not> (False \<or> passthrough (artifact_options a []))" "rb = Inr body" for d body rb
    unfolding unpack_artifact_def using assms that
    by (auto intro!: emits_return simp: restored_name_def unpacked_as_def split: sum.split)
  show ?thesis
    unfolding OpenArtifact_def
    by (intro emits_silent_bind [OF silent_get_destination] emits_silent_bind [OF silent_OpenDestination]
        emits_silent_bind [OF silent_ask] emits_sum emits_called_bind emits_if emits_return un)
      (auto simp: restored_name_def unpacked_as_def)
qed

lemma unpacked_as_options:
  assumes "art_Compression a = po_Compression opts" and "art_Encryption a = po_Encryption opts"
  shows "unpacked_as c a (po_Passphrase opts) body st \<longleftrightarrow> newUnpackReader c body opts = Inr st"
proof -
  have "newUnpackReader c body (artifact_options a (po_Passphrase opts)) = newUnpackReader c body opts"
    unfolding newUnpackReader_def by (simp only: artifact_options_def PackOptions.simps assms)
  moreover have "newUnpackReader c body opts = Inr body" if "passthrough (artifact_options a [])"
    using that assms by (auto simp: newUnpackReader_def passthrough_def artifact_options_def)
  ultimately show ?thesis by (auto simp: unpacked_as_def)
qed

text \<open>C37 (roundtrip): a backup can be opened again. Let a spool have been filled from the chunks of a dump without an
  error, with options the engine supports and codecs that invert each other, and let the artifact carry those
  options. If the destination returns the packed bytes, opening the artifact with the passphrase returns the
  bytes of the dump, complete.\<close>

theorem opened_is_dump:
  assumes "codecs_ok (env_codecs E) pass" and "valid_options opts" and "po_Passphrase opts = pass"
    and "Fill (env_codecs E) (\<lambda>_. None) (\<lambda>_. None) chunks None opts sp = Inr (sp', content)"
    and "art_Compression a = po_Compression opts" and "art_Encryption a = po_Encryption opts"
    and "run_state (OpenArtifact E V a False pass) s = (Inr (st, name), s')"
    and "sy_calls s' = sy_calls s @ [CallGet d (art_Path a) (Inr (content, None))]"
  shows "st = (concat chunks, None) \<and> name = restored_name a"
proof -
  have unpack: "newUnpackReader (env_codecs E) (content, None) opts = Inr (concat chunks, None)"
    using Fill_packed [of "env_codecs E" opts chunks sp] assms(1-4) by auto
  have "\<not> (pass = [] \<and> art_Encryption a = EncryptionAge)"
    using assms(2,3,6) by (auto simp: valid_options_def)
  from emitsD [OF OpenArtifact_given [OF this, where E = E and V = V], where s = s] assms(7,8)
  have "name = restored_name a" "unpacked_as (env_codecs E) a pass (content, None) st" by auto
  with unpack unpacked_as_options [OF assms(5,6)] assms(3) show ?thesis by auto
qed

definition demo_packed :: Artifact where
  "demo_packed = zero_artifact\<lparr>art_ID := ''a'', art_DestinationID := ''d'', art_Filename := ''db.sql.gz.age'',
     art_Compression := CompressionGzip, art_Encryption := EncryptionAge, art_Status := ArtifactPresent\<rparr>"

theorem opened_is_dump_witness:
  "\<exists>content. fst (run_state (OpenArtifact demo_env
        ((demo_renv [])\<lparr>re_get := \<lambda>_ _ _ w. (Inr (content, None), w)\<rparr>) demo_packed False ''pw'') demo_stored)
      = Inr ((''abc'', None), restored_name demo_packed)"
proof -
  let ?opts = "\<lparr>po_Compression = CompressionGzip, po_Level = 0, po_Encryption = EncryptionAge, po_Passphrase = ''pw''\<rparr>"
  let ?sp = "\<lparr>sp_dir = ''w'', sp_path = ''w/f'', sp_Filename = ''f'', sp_RawBytes = 0, sp_PackedBytes = 0, sp_SHA256 = []\<rparr>"
  have ok: "codecs_ok (env_codecs demo_env) ''pw''" and v: "valid_options ?opts"
    by (auto simp: codecs_ok_def demo_env_def demo_codecs_def valid_options_def)
  then obtain sp' content where fill: "Fill (env_codecs demo_env) (\<lambda>_. None) (\<lambda>_. None) [''ab'', ''c''] None ?opts ?sp = Inr (sp', content)"
    and unp: "newUnpackReader (env_codecs demo_env) (content, None) ?opts = Inr (''abc'', None)"
    using Fill_packed [of "env_codecs demo_env" ?opts "[''ab'', ''c'']" ?sp] by auto
  let ?V = "(demo_renv [])\<lparr>re_get := \<lambda>_ _ _ w. (Inr (content, None), w)\<rparr> :: nat renv"
  let ?d = "join_destination (sy_db demo_stored) (zero_destination\<lparr>dst_ID := ''d''\<rparr>)"
  have open_dest: "run_state (OpenDestination demo_env ?d) s = (Inr Map.empty, s)" for s
    by (simp add: join_destination_def OpenDestination_def DestinationConfig_def demo_env_def DecryptConfig_def SecretFields_def Config_Clone_def
        fun_eq_iff zero_destination_def run_ask_eq)
  have un: "newUnpackReader (env_codecs demo_env) (content, None) (artifact_options demo_packed ''pw'') = Inr (''abc'', None)"
    using unp by (simp add: artifact_options_def demo_packed_def)
  have run: "run_state (OpenArtifact demo_env ?V demo_packed False ''pw'') demo_stored
     = (Inr ((''abc'', None), unpackedName ''db.sql.gz.age''),
        demo_stored\<lparr>sy_calls := sy_calls demo_stored @ [CallGet ?d (art_Path demo_packed) (Inr (content, None))]\<rparr>)"
  proof -
    have q: "run_state (get_destination demo_env (art_DestinationID demo_packed)) demo_stored
        = (Inr ?d, demo_stored)"
      by (simp add: get_destination_def run_ask_eq run_query_eq usage_faults_def Destinations_Get_def find_row_def demo_stored_def demo_sys_def demo_env_def demo_packed_def)
    have np: "\<not> passthrough (artifact_options demo_packed [])"
      by (simp add: passthrough_def artifact_options_def demo_packed_def)
    have fn: "art_Filename demo_packed = ''db.sql.gz.age''" by (simp add: demo_packed_def)
    show ?thesis
      using np by (simp add: OpenArtifact_def q open_dest run_ask_eq unpack_artifact_def un fn)
  qed
  have name: "(''abc'', None) = (concat [''ab'', ''c''], None :: error option) \<and> unpackedName ''db.sql.gz.age'' = restored_name demo_packed"
    by (rule opened_is_dump [OF ok v _ fill _ _ run]) (simp_all add: demo_packed_def)
  show ?thesis by (intro exI [of _ content]) (simp only: run fst_conv conjunct2 [OF name])
qed

section \<open>Restoring into a source\<close>

definition right_source :: "'w env \<Rightarrow> 'w renv \<Rightarrow> Artifact \<Rightarrow> string \<Rightarrow> call \<Rightarrow> bool" where
  "right_source E V a bytes c =
     (case c of
        CallRestore src cfg given r \<Rightarrow> given = bytes \<and> (art_SourceKind a = [] \<or> src_Kind src = art_SourceKind a)
          \<and> re_restorable V (src_Kind src)
          \<and> (\<exists>spec. env_source_spec E (src_Kind src) = Some spec \<and> DriverSpec_Has spec CapRestore)
      | _ \<Rightarrow> False)"

lemma silent_target_source: "silent (target_source E req a)"
  unfolding target_source_def by (auto intro: silent_bind silent_get_job silent_return)

text \<open>A restore into a source calls a driver at most once, and only for a source of the kind the artifact
  was made by (when the artifact says), whose driver can restore and advertises it; the driver is given the
  bytes of the stream. A success means that the call was made and that it succeeded.\<close>

theorem restoreToSource_right_kind:
  "\<exists>cs. sy_calls (snd (run_state (restoreToSource E V st req a) s)) = sy_calls s @ cs
    \<and> length cs \<le> 1 \<and> list_all (right_source E V a (fst st)) cs
    \<and> (fst (fst (run_state (restoreToSource E V st req a) s)) = None \<longleftrightarrow>
        (\<exists>src cfg. cs = [CallRestore src cfg (fst st) None]))"
proof -
  have "emits (restoreToSource E V st req a) (\<lambda>x cs. length cs \<le> 1 \<and> list_all (right_source E V a (fst st)) cs
    \<and> (fst x = None \<longleftrightarrow> (\<exists>src cfg. cs = [CallRestore src cfg (fst st) None])))"
    unfolding restoreToSource_def
    by (intro emits_silent_bind [OF silent_target_source]
      emits_silent_bind [OF silent_get_source]
        emits_silent_bind [OF silent_SourceRuntime] emits_silent_bind [OF silent_ask] emits_sum emits_if
        emits_called_bind emits_return)
      (auto simp: right_source_def split: option.splits)
  from emitsD [OF this, of s] show ?thesis by blast
qed

end
