(* ===== verification/Files_Restore.thy ===== *)
theory Files_Restore
  imports Restore_Props "HOL-Library.AList"
begin

text \<open>
  The restore of the files driver on the Backvault host (internal/source/files/restore.go), in the monad
  and with the file system calls of Restore.thy, and what both extraction routines do to a disk on which
  symbolic links are followed. The restore on a remote host is a command run over SSH.
\<close>

section \<open>The restore of the files driver\<close>

text \<open>A directory whose mode and time are set after its contents.\<close>

record deferred =
  df_path :: string
  df_mode :: nat
  df_modTime :: time

definition Perm :: "tar_entry \<Rightarrow> nat" where
  "Perm h = te_Mode h AND perm_777"

definition lchown_entry :: "'w renv \<Rightarrow> bool \<Rightarrow> string \<Rightarrow> tar_entry \<Rightarrow> ('w, unit) run" where
  "lchown_entry V chown target h =
     (if chown \<and> 0 \<le> te_Uid h \<and> 0 \<le> te_Gid h
      then do { _ \<leftarrow> fs V (FsLchown target (te_Uid h) (te_Gid h)); return () }
      else return ())"

definition restore_entry :: "'w renv \<Rightarrow> string \<Rightarrow> bool \<Rightarrow> tar_entry \<Rightarrow> string \<Rightarrow> ('w, error option) run" where
  "restore_entry V realRoot chown h target =
     (case te_Type h of
        TypeDir \<Rightarrow>
          check_fs V (FsMkdirAll target perm_755) (''create directory '' @ target)
            (do { lchown_entry V chown target h; return None })
      | TypeReg \<Rightarrow>
          check_fs V (FsMkdirAll (Dir target) perm_755) (''create directory for '' @ target) (
          check_fs V (FsCreate target (Perm h)) (''create '' @ target) (do {
            c \<leftarrow> copy_to V target (te_Content h);
            (case c of
               Some e \<Rightarrow> return (Some (wrapf (''write '' @ target) e))
             | None \<Rightarrow>
                 check_fs V (FsClose target) (''close '' @ target) (
                 check_fs V (FsChmod target (Perm h)) (''chmod '' @ target) (do {
                   _ \<leftarrow> fs V (FsChtimes target (te_ModTime h));
                   lchown_entry V chown target h;
                   return None }))) }))
      | TypeSymlink \<Rightarrow>
          check_fs V (FsMkdirAll (Dir target) perm_755) (''create directory for '' @ target)
            (case checkLinkTarget realRoot target (te_Linkname h) of
               Some e \<Rightarrow> return (Some (wrapf (''refusing symlink '' @ quoted (te_Name h)) e))
             | None \<Rightarrow> do {
                 _ \<leftarrow> fs V (FsRemove target);
                 check_fs V (FsSymlink (te_Linkname h) target) (''create symlink '' @ target)
                   (do { lchown_entry V chown target h; return None }) })
      | TypeLink \<Rightarrow>
          (case files_safeJoin realRoot (te_Linkname h) of
             Inl e \<Rightarrow> return (Some (wrapf (''refusing hard link '' @ quoted (te_Name h)) e))
           | Inr linkSource \<Rightarrow>
               check_fs V (FsMkdirAll (Dir target) perm_755) (''create directory for '' @ target) (do {
                 _ \<leftarrow> fs V (FsRemove target);
                 check_fs V (FsLink linkSource target) (''create hard link '' @ target)
                   (do { lchown_entry V chown target h; return None }) }))
      | TypeOther _ \<Rightarrow> return None)"

text \<open>The loop over the archive; \<open>fin\<close> is the error that ends it, \<open>dirs\<close> the directories so far.\<close>

fun restore_loop ::
  "'w renv \<Rightarrow> string \<Rightarrow> bool \<Rightarrow> tar_entry list \<Rightarrow> error option \<Rightarrow> deferred list \<Rightarrow> ('w, deferred list result) run" where
  "restore_loop V realRoot chown [] fin dirs =
     return (case fin of Some e \<Rightarrow> Inl (wrapf ''read archive'' e) | None \<Rightarrow> Inr dirs)"
| "restore_loop V realRoot chown (h # hs) fin dirs =
     (case files_safeJoin realRoot (te_Name h) of
        Inl e \<Rightarrow> return (Inl (wrapf (''refusing entry '' @ quoted (te_Name h)) e))
      | Inr target \<Rightarrow> do {
          err \<leftarrow> restore_entry V realRoot chown h target;
          (case err of
             Some e \<Rightarrow> return (Inl e)
           | None \<Rightarrow> restore_loop V realRoot chown hs fin
               (if te_Type h = TypeDir
                then dirs @ [\<lparr>df_path = target, df_mode = Perm h, df_modTime = te_ModTime h\<rparr>] else dirs)) })"

fun restore_modes :: "'w renv \<Rightarrow> deferred list \<Rightarrow> ('w, unit) run" where
  "restore_modes V [] = return ()"
| "restore_modes V (d # ds) = do {
     _ \<leftarrow> fs V (FsChmod (df_path d) (df_mode d));
     _ \<leftarrow> fs V (FsChtimes (df_path d) (df_modTime d));
     restore_modes V ds }"

definition restore_below :: "'w renv \<Rightarrow> string \<Rightarrow> bool \<Rightarrow> stream \<Rightarrow> ('w, error option) run" where
  "restore_below V realRoot chown st = do {
     r \<leftarrow> restore_loop V realRoot chown (fst (re_tar V st)) (fst (snd (re_tar V st))) [];
     (case r of
        Inl e \<Rightarrow> return (Some e)
      | Inr dirs \<Rightarrow> do { restore_modes V (rev dirs); return None }) }"

definition files_Restore :: "'w renv \<Rightarrow> Config \<Rightarrow> stream \<Rightarrow> RestoreOptions \<Rightarrow> ('w, error option) run" where
  "files_Restore V cfg st opts =
     (let root = (if ro_TargetPath opts = [] then Config_String cfg ''base_dir'' else ro_TargetPath opts) in
      if root = [] then return (Some (errNew ''a target directory is required to restore a file archive''))
      else if \<not> IsAbs root then return (Some (errNew ''target directory must be an absolute path''))
      else check_fs V (FsMkdirAll root perm_755) ''create target directory'' (do {
        rr \<leftarrow> ask (re_evallinks V root);
        (case rr of
           Inl e \<Rightarrow> return (Some (wrapf ''resolve target directory'' e))
         | Inr realRoot \<Rightarrow> restore_below V realRoot (Config_Bool cfg ''restore_ownership'' False) st) }))"

section \<open>A disk with symbolic links\<close>

text \<open>
  How the operating system resolves a path: element by element, where a symbolic link is replaced by its
  target, and at most 40 links are followed. A disk is its links and its files by real path; directories are
  not recorded.
\<close>

type_synonym links = "(string list \<times> string) list"

function real :: "nat \<Rightarrow> links \<Rightarrow> string list \<Rightarrow> string list \<Rightarrow> string list option" where
  "real n L done [] = Some done"
| "real n L done (e # es) =
     (if e = [] \<or> e = ''.'' then real n L done es
      else if e = ''..'' then real n L (butlast done) es
      else (case map_of L (done @ [e]) of
              None \<Rightarrow> real n L (done @ [e]) es
            | Some t \<Rightarrow>
                (case n of
                   0 \<Rightarrow> None
                 | Suc m \<Rightarrow> real m L (if IsAbs t then [] else done) (split_slash t @ es))))"
  by pat_completeness auto
termination
  by (relation "measures [\<lambda>(n, L, done, es). n, \<lambda>(n, L, done, es). length es]") auto

record disk =
  dk_links :: links
  dk_files :: "(string list \<times> string) list"

definition real_path :: "disk \<Rightarrow> string \<Rightarrow> string list option" where
  "real_path d p = real 40 (dk_links d) [] (elems p)"

text \<open>The place a path names without following a link at its end.\<close>

definition place :: "disk \<Rightarrow> string \<Rightarrow> string list option" where
  "place d p =
     (if elems p = [] then Some []
      else map_option (\<lambda>q. q @ [List.last (elems p)]) (real 40 (dk_links d) [] (butlast (elems p))))"

definition put_file :: "string list option \<Rightarrow> string \<Rightarrow> disk \<Rightarrow> disk" where
  "put_file q c d = (case q of None \<Rightarrow> d | Some q \<Rightarrow> d\<lparr>dk_files := AList.update q c (dk_files d)\<rparr>)"

definition apply_op :: "fsop \<Rightarrow> disk \<Rightarrow> disk" where
  "apply_op op d =
     (case op of
        FsCreate p _ \<Rightarrow> put_file (real_path d p) [] d
      | FsCopy p c \<Rightarrow> put_file (real_path d p) c d
      | FsSymlink t p \<Rightarrow> (case place d p of None \<Rightarrow> d | Some q \<Rightarrow> d\<lparr>dk_links := AList.update q t (dk_links d)\<rparr>)
      | FsRemove p \<Rightarrow> (case place d p of None \<Rightarrow> d
          | Some q \<Rightarrow> d\<lparr>dk_links := AList.delete q (dk_links d), dk_files := AList.delete q (dk_files d)\<rparr>)
      | FsLink a b \<Rightarrow>
          (case (place d a, place d b) of
             (Some x, Some y) \<Rightarrow>
               (case map_of (dk_files d) x of None \<Rightarrow> d | Some c \<Rightarrow> d\<lparr>dk_files := AList.update y c (dk_files d)\<rparr>)
           | _ \<Rightarrow> d)
      | _ \<Rightarrow> d)"

definition after_calls :: "call list \<Rightarrow> disk \<Rightarrow> disk" where
  "after_calls cs d = fold (\<lambda>c d. case c of CallFs op None \<Rightarrow> apply_op op d | _ \<Rightarrow> d) cs d"

definition empty_disk :: disk where
  "empty_disk = \<lparr>dk_links = [], dk_files = []\<rparr>"

section \<open>Properties\<close>

text \<open>On a file system whose calls succeed.\<close>

lemma demo_fs: "run_state (fs (demo_renv hs) op) s = (None, s\<lparr>sy_calls := sy_calls s @ [CallFs op None]\<rparr>)"
  by (simp add: fs_def run_ask_eq demo_renv_def)

lemma demo_check_fs:
  "run_state (check_fs (demo_renv hs) op msg rest) s = run_state rest (s\<lparr>sy_calls := sy_calls s @ [CallFs op None]\<rparr>)"
  by (simp add: check_fs_def demo_fs)

lemma demo_copy_to:
  "run_state (copy_to (demo_renv hs) path (bytes, None)) s = (None, s\<lparr>sy_calls := sy_calls s @ [CallFs (FsCopy path bytes) None]\<rparr>)"
  by (simp add: copy_to_def demo_fs)

lemma demo_ctx: "run_state (ask (env_ctx demo_env)) s = (None, s)"
  by (simp add: run_ask_eq demo_env_def)

lemma demo_sel: "re_tar (demo_renv hs) st = (hs, None, 0)" "re_evallinks (demo_renv hs) p w = (Inr p, w)"
  "sy_calls demo_sys = []"
  by (simp_all add: demo_renv_def demo_sys_def)

lemmas demo_steps = demo_fs demo_check_fs demo_copy_to demo_ctx

definition absolute_link :: "tar_entry list" where
  "absolute_link = [tar_symlink ''x'' ''/etc'', tar_file ''x/cron'' ''evil'']"

definition link_below_link :: "tar_entry list" where
  "link_below_link = [tar_symlink ''a/b/c'' ''../..'', tar_symlink ''a/b/c/x'' ''../../..'', tar_file ''x/etc/cron'' ''evil'']"

definition engine_run :: "tar_entry list \<Rightarrow> error option \<times> call list" where
  "engine_run hs =
     (let (r, s) = run_state (extractTar demo_env (demo_renv hs) ([], None) ''/srv/out'') demo_sys in (r, sy_calls s))"

definition driver_run :: "tar_entry list \<Rightarrow> error option \<times> call list" where
  "driver_run hs =
     (let (r, s) = run_state (files_Restore (demo_renv hs) Map.empty ([], None)
          \<lparr>ro_Extension = ''tar'', ro_Size = 0, ro_Overwrite = True, ro_TargetPath = ''/srv/out'', ro_Params = Map.empty\<rparr>) demo_sys
      in (r, sy_calls s))"

lemma engine_joins:
  "Clean ''/srv/out'' = ''/srv/out''" "IsAbs ''/srv/out''"
  "safeJoin ''/srv/out'' ''x'' = Inr ''/srv/out/x''"
  "safeJoin ''/srv/out'' (path_Join [Dir ''x'', ''/etc'']) = Inr ''/srv/out/etc''"
  "safeJoin ''/srv/out'' ''x/cron'' = Inr ''/srv/out/x/cron''"
  "safeJoin ''/srv/out'' ''a/b/c'' = Inr ''/srv/out/a/b/c''"
  "safeJoin ''/srv/out'' (path_Join [Dir ''a/b/c'', ''../..'']) = Inr ''/srv/out''"
  "safeJoin ''/srv/out'' ''a/b/c/x'' = Inr ''/srv/out/a/b/c/x''"
  "safeJoin ''/srv/out'' (path_Join [Dir ''a/b/c/x'', ''../../..'']) = Inr ''/srv/out''"
  "safeJoin ''/srv/out'' ''x/etc/cron'' = Inr ''/srv/out/x/etc/cron''"
  by code_simp+

lemma driver_joins:
  "files_safeJoin ''/srv/out'' ''x'' = Inr ''/srv/out/x''"
  "checkLinkTarget ''/srv/out'' ''/srv/out/x'' ''/etc'' = Some (errNew ''link target escapes the target directory'')"
  "files_safeJoin ''/srv/out'' ''a/b/c'' = Inr ''/srv/out/a/b/c''"
  "checkLinkTarget ''/srv/out'' ''/srv/out/a/b/c'' ''../..'' = None"
  "files_safeJoin ''/srv/out'' ''a/b/c/x'' = Inr ''/srv/out/a/b/c/x''"
  "checkLinkTarget ''/srv/out'' ''/srv/out/a/b/c/x'' ''../../..'' = None"
  "files_safeJoin ''/srv/out'' ''x/etc/cron'' = Inr ''/srv/out/x/etc/cron''"
  by code_simp+

lemma engine_absolute:
  "engine_run absolute_link = (None, map (\<lambda>op. CallFs op None)
     [FsMkdirAll (Dir ''/srv/out/x'') perm_750, FsRemove ''/srv/out/x'', FsSymlink ''/etc'' ''/srv/out/x'',
      FsMkdirAll (Dir ''/srv/out/x/cron'') perm_750, FsCreate ''/srv/out/x/cron'' ((0x1A4 AND perm_777) OR perm_600),
      FsCopy ''/srv/out/x/cron'' ''evil'', FsClose ''/srv/out/x/cron''])"
  unfolding engine_run_def extractTar_def abs_target_def
  by (simp add: engine_joins absolute_link_def demo_sel extract_entry_def tar_symlink_def tar_file_def demo_steps)

lemma engine_link_below_link:
  "engine_run link_below_link = (None, map (\<lambda>op. CallFs op None)
     [FsMkdirAll (Dir ''/srv/out/a/b/c'') perm_750, FsRemove ''/srv/out/a/b/c'', FsSymlink ''../..'' ''/srv/out/a/b/c'',
      FsMkdirAll (Dir ''/srv/out/a/b/c/x'') perm_750, FsRemove ''/srv/out/a/b/c/x'', FsSymlink ''../../..'' ''/srv/out/a/b/c/x'',
      FsMkdirAll (Dir ''/srv/out/x/etc/cron'') perm_750, FsCreate ''/srv/out/x/etc/cron'' ((0x1A4 AND perm_777) OR perm_600),
      FsCopy ''/srv/out/x/etc/cron'' ''evil'', FsClose ''/srv/out/x/etc/cron''])"
  unfolding engine_run_def extractTar_def abs_target_def
  by (simp add: engine_joins link_below_link_def demo_sel extract_entry_def tar_symlink_def tar_file_def demo_steps)

lemma driver_absolute: "fst (driver_run absolute_link) \<noteq> None"
  unfolding driver_run_def files_Restore_def restore_below_def
  by (simp add: engine_joins driver_joins absolute_link_def demo_sel restore_entry_def tar_symlink_def tar_file_def demo_steps
      run_ask_eq Let_def)

lemma driver_link_below_link:
  "driver_run link_below_link = (None, map (\<lambda>op. CallFs op None)
     [FsMkdirAll ''/srv/out'' perm_755,
      FsMkdirAll (Dir ''/srv/out/a/b/c'') perm_755, FsRemove ''/srv/out/a/b/c'', FsSymlink ''../..'' ''/srv/out/a/b/c'',
      FsMkdirAll (Dir ''/srv/out/a/b/c/x'') perm_755, FsRemove ''/srv/out/a/b/c/x'', FsSymlink ''../../..'' ''/srv/out/a/b/c/x'',
      FsMkdirAll (Dir ''/srv/out/x/etc/cron'') perm_755, FsCreate ''/srv/out/x/etc/cron'' (0x1A4 AND perm_777),
      FsCopy ''/srv/out/x/etc/cron'' ''evil'', FsClose ''/srv/out/x/etc/cron'', FsChmod ''/srv/out/x/etc/cron'' (0x1A4 AND perm_777),
      FsChtimes ''/srv/out/x/etc/cron'' 0])"
proof -
  have own: "Config_Bool Map.empty ''restore_ownership'' False = False" by (simp add: Config_Bool_def cfg_lookup_def)
  show ?thesis
    unfolding driver_run_def files_Restore_def restore_below_def
    by (simp add: engine_joins driver_joins link_below_link_def demo_sel restore_entry_def tar_symlink_def tar_file_def
        demo_steps run_ask_eq Let_def Perm_def own lchown_entry_def)
qed

text \<open>C39 (error): the checks of links are lexical, and both routines leave their directory. The engine accepts a
  symbolic link with an absolute target as if it were relative to the entry; the files driver refuses that, but
  both accept a link entry below a directory that is itself a link, and judge its target from where the entry
  seems to be. An archive with two entries makes the engine write outside \<open>/srv/out\<close> and one with three
  entries makes either of them do it, without any error.\<close>

theorem symlinks_escape:
  "fst (engine_run absolute_link) = None
   \<and> dk_files (after_calls (snd (engine_run absolute_link)) empty_disk) = [([''etc'', ''cron''], ''evil'')]
   \<and> fst (driver_run absolute_link) \<noteq> None
   \<and> fst (engine_run link_below_link) = None
   \<and> dk_files (after_calls (snd (engine_run link_below_link)) empty_disk) = [([''etc'', ''cron''], ''evil'')]
   \<and> fst (driver_run link_below_link) = None
   \<and> dk_files (after_calls (snd (driver_run link_below_link)) empty_disk) = [([''etc'', ''cron''], ''evil'')]"
  unfolding engine_absolute engine_link_below_link driver_link_below_link fst_conv snd_conv
  by (intro conjI driver_absolute; code_simp)

end
