(* ===== verification/Files_Walk.thy ===== *)
theory Files_Walk
  imports Safe_Path Core_Config Pack "HOL-Library.List_Lexorder" "HOL-Library.Char_ord"
begin

text \<open>
  The backup of the files driver on the Backvault host (internal/source/files/files.go): the walk over
  the configured paths that writes a tar archive. The file system is a record of the calls the walk makes
  (a directory entry comes with the result of its \<open>Info\<close>), as they answer during the walk, and the
  archive is the list of its entries. A walk may run forever only by following links, so it has fuel; \<open>None\<close>
  stands for a walk that used it up.
\<close>

section \<open>Specification and validation\<close>

definition field :: "string \<Rightarrow> string \<Rightarrow> FieldType \<Rightarrow> bool \<Rightarrow> cfgval \<Rightarrow> Field" where
  "field name label ty required dflt =
     \<lparr>fld_Name = name, fld_Label = label, fld_Type = ty, fld_Required = required, fld_Secret = False,
      fld_Default = dflt, fld_ShowIf = [], fld_LocalOnly = False\<rparr>"

definition files_Spec :: DriverSpec where
  "files_Spec =
     \<lparr>spec_Kind = ''files'', spec_Label = ''Files & directories'',
      spec_Fields =
        [field ''paths'' ''Paths'' FieldStringList True VNil,
         field ''base_dir'' ''Base directory'' FieldPath False VNil,
         field ''exclude'' ''Exclude patterns'' FieldStringList False VNil,
         field ''follow_symlinks'' ''Follow symlinks'' FieldBool False (VBool False),
         field ''one_file_system'' ''Stay on one filesystem'' FieldBool False (VBool False),
         field ''strict'' ''Fail on unreadable files'' FieldBool False (VBool False),
         field ''restore_ownership'' ''Restore ownership'' FieldBool False (VBool False)],
      spec_Capabilities = [CapTest, CapRestore, CapRemote], spec_Tools = []\<rparr>"

text \<open>\<open>valid_pattern\<close> is \<open>ValidatePattern\<close> of the glob library.\<close>

definition files_Validate :: "(string \<Rightarrow> bool) \<Rightarrow> Config \<Rightarrow> error option" where
  "files_Validate valid_pattern cfg =
     (case ValidateRequired files_Spec cfg of
        Some e \<Rightarrow> Some e
      | None \<Rightarrow>
          let paths = Config_StringList cfg ''paths''; base = Config_String cfg ''base_dir'' in
          if paths = [] then Some (errNew ''at least one path is required'')
          else (case find (\<lambda>p. \<not> IsAbs p) paths of
            Some p \<Rightarrow> Some (errNew (''path '' @ quoted p @ '' must be absolute''))
          | None \<Rightarrow>
              if base \<noteq> [] \<and> \<not> IsAbs base then Some (errNew ''base directory must be absolute'')
              else map_option (\<lambda>pat. errNew (''exclude pattern '' @ quoted pat @ '' is not valid''))
                     (find (\<lambda>pat. \<not> valid_pattern pat) (Config_StringList cfg ''exclude''))))"

section \<open>The file system and the archive\<close>

datatype fkind = KDir | KSymlink | KSocket | KRegular | KOther

text \<open>\<open>deviceOf\<close> and \<open>hardlinkKey\<close> read the fields \<open>fi_dev\<close>, \<open>fi_ino\<close> and
  \<open>fi_nlink\<close>, which the file system may not have.\<close>

record finfo =
  fi_kind :: fkind
  fi_size :: nat
  fi_stat :: "(nat \<times> nat \<times> nat) option"
  fi_mode :: nat

record host_fs =
  h_ctx :: "string \<Rightarrow> error option"
  h_lstat :: "string \<Rightarrow> finfo result"
  h_stat :: "string \<Rightarrow> finfo result"
  h_eval :: "string \<Rightarrow> string result"
  h_readdir :: "string \<Rightarrow> (string \<times> finfo result) list result"
  h_readlink :: "string \<Rightarrow> string result"
  h_open :: "string \<Rightarrow> stream result"
  h_match :: "string \<Rightarrow> string \<Rightarrow> bool"
  h_header :: "finfo \<Rightarrow> error option"
  h_write :: "string \<Rightarrow> error option"
  h_copy :: "string \<Rightarrow> (nat \<times> error) option"
  h_pad :: "string \<Rightarrow> (nat \<times> error) option"

datatype etype = EFile | ELink | EHard

record oentry =
  oe_Name :: string
  oe_Type :: etype
  oe_Link :: string
  oe_Info :: finfo
  oe_Size :: nat
  oe_Content :: string

record walker =
  wk_exclude :: "string list"
  wk_follow :: bool
  wk_oneFS :: bool
  wk_strict :: bool
  wk_baseDir :: string
  wk_hardlinks :: "string \<Rightarrow> string option"
  wk_visitedDir :: "string list"
  wk_seen :: "string list"
  wk_files :: nat
  wk_bytes :: nat
  wk_skipped :: nat
  wk_out :: "oentry list"

type_synonym wres = "error option \<times> walker"

section \<open>Operations\<close>

definition deviceOf :: "finfo \<Rightarrow> nat option" where
  "deviceOf info = map_option fst (fi_stat info)"

definition hardlinkKey :: "finfo \<Rightarrow> string option" where
  "hardlinkKey info =
     (case fi_stat info of
        None \<Rightarrow> None
      | Some (dev, ino, nlink) \<Rightarrow> if nlink < 2 then None else Some (digits_of dev @ '':'' @ digits_of ino))"

definition skip :: "walker \<Rightarrow> walker" where
  "skip w = w\<lparr>wk_skipped := wk_skipped w + 1\<rparr>"

text \<open>An unreadable thing fails the walk in strict mode and is skipped with a warning otherwise.\<close>

definition unreadable :: "string \<Rightarrow> error \<Rightarrow> walker \<Rightarrow> wres" where
  "unreadable msg e w = (if wk_strict w then (Some (wrapf msg e), w) else (None, skip w))"

definition entryName :: "string \<Rightarrow> string \<Rightarrow> walker \<Rightarrow> string option \<times> walker" where
  "entryName base full w =
     (case Rel base full of
        Inl _ \<Rightarrow> (None, w)
      | Inr rel0 \<Rightarrow>
          if rel0 = ''.'' \<or> rel0 = [] then (None, w)
          else let rel = (if HasPrefix rel0 ''../'' then Base full else rel0) in
            if rel \<in> set (wk_seen w) then (None, w)
            else (Some rel, w\<lparr>wk_seen := rel # wk_seen w\<rparr>))"

definition excluded :: "host_fs \<Rightarrow> walker \<Rightarrow> string \<Rightarrow> bool \<Rightarrow> bool" where
  "excluded H w name isDir =
     list_ex (\<lambda>pattern.
        list_ex (\<lambda>c. h_match H pattern (TrimSuffix c ''/'')) (name # (if isDir then [name @ ''/''] else []))
        \<or> (slash \<notin> set pattern \<and> h_match H pattern (Base name))) (wk_exclude w)"

definition add_entry :: "oentry \<Rightarrow> walker \<Rightarrow> walker" where
  "add_entry x w = w\<lparr>wk_out := wk_out w @ [x], wk_files := wk_files w + 1\<rparr>"

definition writeHeader :: "host_fs \<Rightarrow> string \<Rightarrow> string \<Rightarrow> finfo \<Rightarrow> etype \<Rightarrow> string \<Rightarrow> walker \<Rightarrow> wres" where
  "writeHeader H name full info ty link w =
     (if name = [] \<or> name = ''/'' then (None, w)
      else (case h_header H info of
        Some e \<Rightarrow> (Some (wrapf (''header for '' @ full) e), w)
      | None \<Rightarrow>
          (case h_write H name of
             Some e \<Rightarrow> (Some (wrapf (''write header for '' @ full) e), w)
           | None \<Rightarrow> (None, add_entry \<lparr>oe_Name = name, oe_Type = ty, oe_Link = link, oe_Info = info,
                                       oe_Size = 0, oe_Content = []\<rparr> w))))"

text \<open>A file is stored with the size it had when it was listed: what it has more is cut, what it lacks is
  padded with zeros. The header goes first, so a copy that fails leaves an entry with the bytes that were written
  until then; it is not counted, and the walk ends. \<open>h_copy\<close> and \<open>h_pad\<close> say after how many bytes
  the archive or the context fails, if they do; the read error of the file is that of its stream.\<close>

definition append_entry :: "oentry \<Rightarrow> walker \<Rightarrow> walker" where
  "append_entry x w = w\<lparr>wk_out := wk_out w @ [x]\<rparr>"

definition file_entry :: "string \<Rightarrow> finfo \<Rightarrow> string \<Rightarrow> oentry" where
  "file_entry name info content =
     \<lparr>oe_Name = name, oe_Type = EFile, oe_Link = [], oe_Info = info, oe_Size = fi_size info, oe_Content = content\<rparr>"

definition copy_file :: "host_fs \<Rightarrow> string \<Rightarrow> string \<Rightarrow> finfo \<Rightarrow> string \<Rightarrow> error option \<Rightarrow> walker \<Rightarrow> wres" where
  "copy_file H name full info bytes rerr w =
     (let got = take (fi_size info) bytes; lack = fi_size info - length got in
      case h_copy H full of
        Some (k, e) \<Rightarrow> (Some (wrapf (''read '' @ full) e), append_entry (file_entry name info (take k got)) w)
      | None \<Rightarrow>
          (case (if 0 < lack then rerr else None) of
             Some e \<Rightarrow> (Some (wrapf (''read '' @ full) e), append_entry (file_entry name info got) w)
           | None \<Rightarrow>
               (case (if 0 < lack then h_pad H full else None) of
                  Some (k, e) \<Rightarrow>
                    (Some (wrapf (''pad '' @ full) e),
                     append_entry (file_entry name info (got @ replicate (min k lack) NUL)) w)
                | None \<Rightarrow>
                    (None, (add_entry (file_entry name info (got @ replicate lack NUL)) w)
                             \<lparr>wk_bytes := wk_bytes w + fi_size info\<rparr>))))"

definition writeFile :: "host_fs \<Rightarrow> string \<Rightarrow> string \<Rightarrow> finfo \<Rightarrow> walker \<Rightarrow> wres" where
  "writeFile H name full info w =
     (case h_open H full of
        Inl e \<Rightarrow> unreadable (''open '' @ full) e w
      | Inr (bytes, rerr) \<Rightarrow>
          (case h_header H info of
             Some e \<Rightarrow> (Some (wrapf (''header for '' @ full) e), w)
           | None \<Rightarrow>
               (case h_write H name of
                  Some e \<Rightarrow> (Some (wrapf (''write header for '' @ full) e), w)
                | None \<Rightarrow> copy_file H name full info bytes rerr w)))"

definition writeHardlink :: "host_fs \<Rightarrow> string \<Rightarrow> string \<Rightarrow> string \<Rightarrow> finfo \<Rightarrow> walker \<Rightarrow> wres" where
  "writeHardlink H name target full info w =
     (case h_header H info of
        Some e \<Rightarrow> (Some (wrapf (''header for '' @ full) e), w)
      | None \<Rightarrow>
          (case h_write H name of
             Some e \<Rightarrow> (Some (wrapf (''write header for '' @ full) e), w)
           | None \<Rightarrow> (None, add_entry \<lparr>oe_Name = name, oe_Type = EHard, oe_Link = target, oe_Info = info,
                                       oe_Size = 0, oe_Content = []\<rparr> w)))"

definition writeRegular :: "host_fs \<Rightarrow> string \<Rightarrow> string \<Rightarrow> finfo \<Rightarrow> walker \<Rightarrow> wres" where
  "writeRegular H name full info w =
     (case hardlinkKey info of
        None \<Rightarrow> writeFile H name full info w
      | Some key \<Rightarrow>
          (case wk_hardlinks w key of
             Some first \<Rightarrow> writeHardlink H name first full info w
           | None \<Rightarrow> writeFile H name full info (w\<lparr>wk_hardlinks := (wk_hardlinks w)(key \<mapsto> name)\<rparr>)))"

text \<open>Following a link: the information of its target, or \<open>Inl\<close> where the walk leaves the entry.\<close>

definition follow_link :: "host_fs \<Rightarrow> string \<Rightarrow> finfo \<Rightarrow> walker \<Rightarrow> wres + finfo \<times> walker" where
  "follow_link H full info w =
     (if fi_kind info \<noteq> KSymlink \<or> \<not> wk_follow w then Inr (info, w)
      else (case h_stat H full of
        Inl e \<Rightarrow> Inl (unreadable (''resolve symlink '' @ full) e w)
      | Inr target \<Rightarrow>
          (case h_eval H full of
             Inl _ \<Rightarrow> Inr (target, w)
           | Inr resolved \<Rightarrow>
               if fi_kind target \<noteq> KDir then Inr (target, w)
               else if resolved \<in> set (wk_visitedDir w) then Inl (None, skip w)
               else Inr (target, w\<lparr>wk_visitedDir := resolved # wk_visitedDir w\<rparr>))))"

text \<open>The tests before an entry is stored: \<open>None\<close> where it is left out.\<close>

definition admit :: "host_fs \<Rightarrow> string \<Rightarrow> string \<Rightarrow> finfo \<Rightarrow> nat option \<Rightarrow> walker \<Rightarrow> string option \<times> walker" where
  "admit H base full info rootDev w =
     (case entryName base full w of
        (None, w1) \<Rightarrow> (None, w1)
      | (Some name, w1) \<Rightarrow>
          if name \<noteq> [] \<and> excluded H w1 name (fi_kind info = KDir) then (None, skip w1)
          else if wk_oneFS w1 \<and> rootDev \<noteq> None \<and> name \<noteq> [] \<and> deviceOf info \<noteq> None \<and> deviceOf info \<noteq> rootDev
          then (None, skip w1)
          else (Some name, w1))"

definition leaf :: "host_fs \<Rightarrow> string \<Rightarrow> string \<Rightarrow> finfo \<Rightarrow> walker \<Rightarrow> wres" where
  "leaf H name full info w =
     (case fi_kind info of
        KSymlink \<Rightarrow>
          (case h_readlink H full of
             Inl e \<Rightarrow> unreadable (''read symlink '' @ full) e w
           | Inr link \<Rightarrow> writeHeader H name full info ELink link w)
      | KSocket \<Rightarrow> (None, skip w)
      | KRegular \<Rightarrow> writeRegular H name full info w
      | _ \<Rightarrow> writeHeader H name full info EFile [] w)"

function walk :: "nat \<Rightarrow> host_fs \<Rightarrow> string \<Rightarrow> string \<Rightarrow> finfo \<Rightarrow> nat option \<Rightarrow> walker \<Rightarrow> wres option"
  and walk_entries :: "nat \<Rightarrow> host_fs \<Rightarrow> string \<Rightarrow> string \<Rightarrow> nat option \<Rightarrow> (string \<times> finfo result) list \<Rightarrow> walker \<Rightarrow> wres option"
  where
  "walk 0 H base full info0 rootDev w0 = None"
| "walk (Suc n) H base full info0 rootDev w0 =
     (case h_ctx H full of
        Some e \<Rightarrow> Some (Some e, w0)
      | None \<Rightarrow>
     (case admit H base full info0 rootDev w0 of
        (None, w1) \<Rightarrow> Some (None, w1)
      | (Some name, w1) \<Rightarrow>
     (case follow_link H full info0 w1 of
        Inl r \<Rightarrow> Some r
      | Inr (info, w2) \<Rightarrow>
          if fi_kind info \<noteq> KDir then Some (leaf H name full info w2)
          else (case writeHeader H (name @ ''/'') full info EFile [] w2 of
            (Some e, w3) \<Rightarrow> Some (Some e, w3)
          | (None, w3) \<Rightarrow>
              (case h_readdir H full of
                 Inl e \<Rightarrow> Some (unreadable (''read directory '' @ full) e w3)
               | Inr entries \<Rightarrow> walk_entries n H base full rootDev (sort_key fst entries) w3)))))"
| "walk_entries n H base full rootDev [] w = Some (None, w)"
| "walk_entries n H base full rootDev ((name, ri) # es) w =
     (let child = path_Join [full, name] in
      case (case ri of
              Inl e \<Rightarrow> Some (unreadable (''stat '' @ child) e w)
            | Inr info \<Rightarrow> walk n H base child info rootDev w) of
        None \<Rightarrow> None
      | Some (Some e, w1) \<Rightarrow> Some (Some e, w1)
      | Some (None, w1) \<Rightarrow> walk_entries n H base full rootDev es w1)"
  by pat_completeness auto
termination
  by (relation "measures [\<lambda>x. case x of Inl (n, _) \<Rightarrow> n | Inr (n, _) \<Rightarrow> n,
        \<lambda>x. case x of Inl _ \<Rightarrow> 0 | Inr (n, H, base, full, rd, es, w) \<Rightarrow> Suc (length es)]") auto

definition root_base :: "walker \<Rightarrow> string \<Rightarrow> string" where
  "root_base w root = (if wk_baseDir w = [] \<or> \<not> within (wk_baseDir w) root then Dir root else wk_baseDir w)"

fun run_roots :: "nat \<Rightarrow> host_fs \<Rightarrow> string list \<Rightarrow> walker \<Rightarrow> wres option" where
  "run_roots n H [] w = Some (None, w)"
| "run_roots n H (root # roots) w =
     (case h_ctx H root of
        Some e \<Rightarrow> Some (Some e, w)
      | None \<Rightarrow>
          (case h_lstat H root of
             Inl e \<Rightarrow>
               (case unreadable (''stat '' @ root) e w of
                  (Some e', w1) \<Rightarrow> Some (Some e', w1)
                | (None, w1) \<Rightarrow> run_roots n H roots w1)
           | Inr info \<Rightarrow>
               (case walk n H (root_base w root) root info (if wk_oneFS w then deviceOf info else None) w of
                  None \<Rightarrow> None
                | Some (Some e, w1) \<Rightarrow> Some (Some e, w1)
                | Some (None, w1) \<Rightarrow> run_roots n H roots w1)))"

definition new_walker :: "Config \<Rightarrow> walker" where
  "new_walker cfg =
     \<lparr>wk_exclude = Config_StringList cfg ''exclude'', wk_follow = Config_Bool cfg ''follow_symlinks'' False,
      wk_oneFS = Config_Bool cfg ''one_file_system'' False, wk_strict = Config_Bool cfg ''strict'' False,
      wk_baseDir = (let b = TrimSpace (Config_String cfg ''base_dir'') in if b = [] then [] else Clean b),
      wk_hardlinks = Map.empty, wk_visitedDir = [], wk_seen = [], wk_files = 0, wk_bytes = 0, wk_skipped = 0, wk_out = []\<rparr>"

text \<open>The archive of a backup: the entries, or the error that ends the stream.\<close>

definition archive :: "nat \<Rightarrow> host_fs \<Rightarrow> Config \<Rightarrow> wres option" where
  "archive n H cfg = run_roots n H (map Clean (Config_StringList cfg ''paths'')) (new_walker cfg)"

section \<open>What the archive holds\<close>

text \<open>The stem of an entry is its name without the slash of a directory. An entry is sound when its stem is a
  relative path of plain elements, and complete when its content has the announced size. A walk that ends with an
  error may leave its last entry incomplete.\<close>

definition stem :: "oentry \<Rightarrow> string" where
  "stem x = TrimSuffix (oe_Name x) ''/''"

definition relative :: "string \<Rightarrow> bool" where
  "relative p \<longleftrightarrow> (\<exists>es. es \<noteq> [] \<and> list_all plain es \<and> p = Join es [slash])"

definition sound :: "oentry \<Rightarrow> bool" where
  "sound x \<longleftrightarrow> relative (stem x) \<and> length (oe_Content x) \<le> oe_Size x"

definition complete :: "oentry \<Rightarrow> bool" where
  "complete x \<longleftrightarrow> length (oe_Content x) = oe_Size x"

definition archive_ok :: "walker \<Rightarrow> bool" where
  "archive_ok w \<longleftrightarrow> (wk_baseDir w = [] \<or> IsAbs (wk_baseDir w)) \<and> list_all sound (wk_out w) \<and> list_all complete (wk_out w)
     \<and> distinct (map stem (wk_out w)) \<and> stem ` set (wk_out w) \<subseteq> set (wk_seen w)"

text \<open>What a step of the walk leaves behind.\<close>

definition result_ok :: "wres \<Rightarrow> bool" where
  "result_ok r \<longleftrightarrow> list_all sound (wk_out (snd r)) \<and> distinct (map stem (wk_out (snd r)))
     \<and> list_all complete (butlast (wk_out (snd r))) \<and> (fst r = None \<longrightarrow> archive_ok (snd r))"

lemma archive_ok_result: "archive_ok w \<Longrightarrow> result_ok (e, w)"
  by (auto simp: archive_ok_def result_ok_def list_all_iff dest: in_set_butlastD)

lemma result_okD: "result_ok (None, w) \<Longrightarrow> archive_ok w"
  by (simp add: result_ok_def)

text \<open>Between the admission of a name and its entry.\<close>

definition admitted :: "string \<Rightarrow> walker \<Rightarrow> bool" where
  "admitted name w \<longleftrightarrow> archive_ok w \<and> relative name \<and> name \<in> set (wk_seen w) \<and> name \<notin> stem ` set (wk_out w)"

lemma relative_last: "relative p \<Longrightarrow> \<not> HasSuffix p ''/'' \<and> p \<noteq> []"
proof -
  assume "relative p"
  then obtain es where es: "es \<noteq> []" "list_all plain es" "p = Join es [slash]" by (auto simp: relative_def)
  then obtain fs e where fe: "es = fs @ [e]" by (metis rev_exhaust)
  with es have e: "e \<noteq> []" "slash \<notin> set e" by (auto simp: plain_def)
  have "List.last p = List.last e"
    using es fe e by (cases "fs = []") (auto simp: Join_append_elems)
  moreover have "p \<noteq> []" using es e fe by (cases "fs = []") (auto simp: Join_append_elems)
  moreover have "List.last e \<noteq> slash" using e by (metis last_in_set)
  ultimately show ?thesis by (auto simp: HasSuffix_iff)
qed

lemma stem_name: "relative name \<Longrightarrow> stem (x\<lparr>oe_Name := name\<rparr>) = name" "stem (x\<lparr>oe_Name := name @ ''/''\<rparr>) = name"
  using relative_last [of name] TrimSuffix_append [of name "''/''"] by (simp_all add: stem_def TrimSuffix_def)

lemma add_entry_ok:
  assumes "admitted name w" and "oe_Name x = name \<or> oe_Name x = name @ ''/''" and "complete x"
  shows "archive_ok (add_entry x w)"
proof -
  have "stem x = name"
    using assms(1,2) relative_last [of name] TrimSuffix_append [of name "''/''"]
    by (auto simp: stem_def TrimSuffix_def admitted_def)
  with assms(1,3) show ?thesis
    by (auto simp: admitted_def archive_ok_def add_entry_def sound_def complete_def)
qed

lemma append_entry_ok:
  assumes "admitted name w" and "oe_Name x = name" and "length (oe_Content x) \<le> oe_Size x"
  shows "result_ok (Some e, append_entry x w)"
proof -
  have "stem x = name" using assms(1,2) relative_last [of name] by (simp add: stem_def TrimSuffix_def admitted_def)
  with assms(1,3) show ?thesis
    by (auto simp: admitted_def archive_ok_def append_entry_def sound_def result_ok_def)
qed

lemma archive_ok_upd [simp]:
  "archive_ok (w\<lparr>wk_bytes := b\<rparr>) = archive_ok w" "archive_ok (w\<lparr>wk_hardlinks := h\<rparr>) = archive_ok w"
  "archive_ok (w\<lparr>wk_visitedDir := v\<rparr>) = archive_ok w" "archive_ok (w\<lparr>wk_skipped := k\<rparr>) = archive_ok w"
  "admitted name (w\<lparr>wk_hardlinks := h\<rparr>) = admitted name w" "admitted name (w\<lparr>wk_visitedDir := v\<rparr>) = admitted name w"
  "archive_ok (skip w) = archive_ok w"
  by (simp_all add: archive_ok_def admitted_def skip_def)

lemma admitted_ok: "admitted name w \<Longrightarrow> archive_ok w"
  by (simp add: admitted_def)

lemma unreadable_ok: "archive_ok w \<Longrightarrow> result_ok (unreadable msg e w)"
  by (simp add: unreadable_def archive_ok_result)

lemma writeHeader_ok:
  assumes "admitted stm w" and "name = stm \<or> name = stm @ ''/''"
  shows "archive_ok (snd (writeHeader H name full info ty link w))"
  using assms add_entry_ok [OF assms(1)] admitted_ok [OF assms(1)]
  by (auto simp: writeHeader_def complete_def split: option.split)

lemma writeHeader_result:
  assumes "admitted stm w" and "name = stm \<or> name = stm @ ''/''"
  shows "result_ok (writeHeader H name full info ty link w)"
  using archive_ok_result [OF writeHeader_ok [OF assms]] by (metis prod.collapse)

lemma copy_file_ok:
  assumes "admitted name w"
  shows "result_ok (copy_file H name full info bytes rerr w)"
proof -
  let ?got = "take (fi_size info) bytes"
  have part: "result_ok (Some e, append_entry (file_entry name info c) w)" if "length c \<le> fi_size info" for e c
    by (rule append_entry_ok [OF assms]) (use that in \<open>simp_all add: file_entry_def\<close>)
  have "result_ok (None, (add_entry (file_entry name info (?got @ replicate (fi_size info - length ?got) NUL)) w)\<lparr>wk_bytes := n\<rparr>)" for n
    by (rule archive_ok_result, subst archive_ok_upd(1), rule add_entry_ok [OF assms])
      (simp_all add: file_entry_def complete_def)
  with part show ?thesis by (auto simp: copy_file_def Let_def split: option.split)
qed

lemma writeFile_ok:
  assumes "admitted name w"
  shows "result_ok (writeFile H name full info w)"
  using admitted_ok [OF assms] copy_file_ok [OF assms]
  by (auto simp: writeFile_def unreadable_ok archive_ok_result split: sum.split option.split)

lemma writeRegular_ok:
  assumes "admitted name w"
  shows "result_ok (writeRegular H name full info w)"
  using writeFile_ok [OF assms] writeFile_ok [of name "w\<lparr>wk_hardlinks := h\<rparr>" for h] assms admitted_ok [OF assms]
    add_entry_ok [OF assms]
  by (auto simp: writeRegular_def writeHardlink_def complete_def archive_ok_result split: option.split)

lemma leaf_ok: "admitted name w \<Longrightarrow> result_ok (leaf H name full info w)"
  by (auto simp: leaf_def writeHeader_result writeRegular_ok unreadable_ok admitted_ok archive_ok_result
      split: fkind.split sum.split)

text \<open>A path below the base gives a relative name, and the base itself gives none.\<close>

lemma entryName_below:
  assumes "IsAbs base" and "IsAbs full" and "prefix (elems base) (elems full)" and "archive_ok w"
  shows "case entryName base full w of (None, w') \<Rightarrow> w' = w | (Some name, w') \<Rightarrow> admitted name w'"
proof (cases "elems full = elems base")
  case True
  with Rel_abs [OF assms(1,2)] have "Rel base full = Inr ''.''" by (auto split: sum.splits)
  then show ?thesis by (simp add: entryName_def)
next
  case False
  let ?rel = "Join (drop (length (elems base)) (elems full)) [slash]"
  from Rel_abs [OF assms(1,2)] assms(3) False have rel: "Rel base full = Inr ?rel" "\<not> climbs ?rel"
    by (auto split: sum.splits)
  from assms(3) False obtain fs where fs: "elems full = elems base @ fs" "fs \<noteq> []" by (auto simp: prefix_def)
  have "list_all plain fs" using elems_plain [of full] unfolding fs(1) by simp
  with fs have r: "relative ?rel" by (auto simp: relative_def)
  have "?rel \<noteq> ''.''" proof
    assume d: "?rel = ''.''"
    from \<open>list_all plain fs\<close> have "split_slash (Join fs [slash]) = fs"
      by (intro split_slash_Join fs(2)) (auto simp: list_all_iff plain_def)
    with d fs \<open>list_all plain fs\<close> have "list_all plain [''.'']" by simp
    then show False by (simp add: plain_def)
  qed
  with rel r relative_last [OF r] assms(4) show ?thesis
    by (auto simp: entryName_def climbs_def Let_def admitted_def archive_ok_def)
qed

lemma entryName_base: "IsAbs base \<Longrightarrow> entryName base base w = (None, w)"
  by (simp add: entryName_def Rel_def)

lemma admit_ok:
  assumes "IsAbs base" and "IsAbs full" and "prefix (elems base) (elems full)" and "archive_ok w"
  shows "case admit H base full info rd w of (None, w') \<Rightarrow> archive_ok w' | (Some name, w') \<Rightarrow> admitted name w'"
  using entryName_below [OF assms] assms(4)
  by (auto simp: admit_def admitted_ok split: option.splits prod.splits)

lemma follow_link_ok:
  assumes "admitted name w"
  shows "case follow_link H full info w of Inl r \<Rightarrow> result_ok r | Inr (i, w') \<Rightarrow> admitted name w'"
  using unreadable_ok [OF admitted_ok [OF assms], of "''resolve symlink '' @ full"] assms
  by (auto simp: follow_link_def admitted_ok archive_ok_result split: sum.split) (metis)

text \<open>The names a directory lists are path elements.\<close>

definition plain_dirs :: "host_fs \<Rightarrow> bool" where
  "plain_dirs H \<longleftrightarrow> (\<forall>p es. h_readdir H p = Inr es \<longrightarrow> list_all (\<lambda>x. plain (fst x)) es)"

lemma child_path:
  assumes "clean_root full" and "plain name"
  shows "clean_root (path_Join [full, name])" "elems (path_Join [full, name]) = elems full @ [name]"
proof -
  from assms(1) have full: "full = abs_path (elems full)" by (rule clean_rootE)
  have "walk_from (elems full) name = elems full @ [name]"
    using assms(2) split_slash_noslash [of name] by (auto simp: walk_from_def plain_def clean_elem_def)
  with path_Join_below [OF elems_plain, of full name] full
  have p: "path_Join [full, name] = abs_path (elems full @ [name])" by simp
  have pl: "list_all plain (elems full @ [name])" using assms(2) by simp
  show "clean_root (path_Join [full, name])" "elems (path_Join [full, name]) = elems full @ [name]"
    unfolding p using elems_abs_path [OF pl] Clean_abs_path [OF pl] by (simp_all add: clean_root_def)
qed

lemma walk_ok:
  assumes "plain_dirs H"
  shows "IsAbs base \<Longrightarrow> clean_root full \<Longrightarrow> prefix (elems base) (elems full) \<Longrightarrow> archive_ok w0 \<Longrightarrow>
      walk n H base full info0 rd w0 = Some r \<Longrightarrow> result_ok r"
    and "IsAbs base \<Longrightarrow> clean_root full \<Longrightarrow> prefix (elems base) (elems full) \<Longrightarrow> archive_ok w \<Longrightarrow>
      list_all (\<lambda>x. plain (fst x)) es \<Longrightarrow> walk_entries n H base full rd es w = Some r \<Longrightarrow> result_ok r"
  using assms
proof (induction n H base full info0 rd w0 and n H base full rd es w arbitrary: r and r rule: walk_walk_entries.induct)
  case (1 H base full info0 rd w0)
  then show ?case by simp
next
  case (2 n H base full info0 rd w0)
  have abs: "IsAbs full" using "2.prems"(2) by (simp add: clean_root_def)
  note ad = admit_ok [OF "2.prems"(1) abs "2.prems"(3,4), of H info0 rd]
  show ?case
  proof (cases "h_ctx H full")
    case (Some e)
    with "2.prems" show ?thesis by (auto intro: archive_ok_result)
  next
    case ctx: None
    obtain no w1 where adm: "admit H base full info0 rd w0 = (no, w1)" by (cases "admit H base full info0 rd w0")
    show ?thesis
    proof (cases no)
      case None
      with ad adm ctx "2.prems"(5) show ?thesis by (auto intro: archive_ok_result)
    next
      case (Some name)
      with ad adm have a1: "admitted name w1" by simp
      note fl = follow_link_ok [OF a1, of H full info0]
      show ?thesis
      proof (cases "follow_link H full info0 w1")
        case (Inl x)
        with fl ctx adm Some "2.prems"(5) show ?thesis by auto
      next
        case (Inr y)
        obtain info w2 where y: "y = (info, w2)" by (cases y)
        with fl Inr have a2: "admitted name w2" by simp
        obtain e w3 where wh: "writeHeader H (name @ ''/'') full info EFile [] w2 = (e, w3)"
          by (cases "writeHeader H (name @ ''/'') full info EFile [] w2")
        have w3: "archive_ok w3" using writeHeader_ok [OF a2, of "name @ ''/''" H full info EFile "[]"] wh by simp
        show ?thesis
        proof (cases "fi_kind info \<noteq> KDir \<or> e \<noteq> None")
          case True
          then have "r = leaf H name full info w2 \<or> r = (e, w3)"
            using "2.prems"(5) ctx adm Some Inr y wh by (auto split: if_splits option.splits)
          with archive_ok_result [OF w3] leaf_ok [OF a2, of H full info] show ?thesis by auto
        next
          case False
          show ?thesis
          proof (cases "h_readdir H full")
            case (Inl x)
            with "2.prems"(5) ctx adm Some Inr y wh w3 False unreadable_ok [OF w3] show ?thesis by auto
          next
            case entries: (Inr es)
            have "list_all (\<lambda>x. plain (fst x)) (sort_key fst es)"
              using "2.prems"(6) entries by (auto simp: plain_dirs_def list_all_iff)
            moreover have "walk_entries n H base full rd (sort_key fst es) w3 = Some r"
              using "2.prems"(5) ctx adm Some Inr y wh False entries by simp
            ultimately show ?thesis
              using "2.IH" [OF ctx adm [symmetric] Some Inr y [symmetric] _ wh [symmetric] _ entries] "2.prems" w3 False by auto
          qed
        qed
      qed
    qed
  qed
next
  case (3 n H base full rd w)
  then show ?case by (auto intro: archive_ok_result)
next
  case (4 n H base full rd name ri es w)
  from "4.prems"(5) have pn: "plain name" and pes: "list_all (\<lambda>x. plain (fst x)) es" by auto
  let ?child = "path_Join [full, name]"
  note ch = child_path [OF "4.prems"(2) pn]
  have pre: "prefix (elems base) (elems ?child)" using "4.prems"(3) ch(2) by (simp add: prefix_prefix)
  let ?first = "case ri of Inl e \<Rightarrow> Some (unreadable (''stat '' @ ?child) e w) | Inr info \<Rightarrow> walk n H base ?child info rd w"
  have first: "result_ok x" if "?first = Some x" for x
  proof (cases ri)
    case (Inl e)
    with that unreadable_ok [OF "4.prems"(4)] show ?thesis by auto
  next
    case (Inr info)
    with that have "walk n H base ?child info rd w = Some x" by simp
    from "4.IH"(1) [OF refl Inr "4.prems"(1) ch(1) pre "4.prems"(4) this "4.prems"(7)] show ?thesis .
  qed
  from "4.prems"(6) obtain e w1 where f: "?first = Some (e, w1)" by (auto simp: Let_def split: option.splits)
  then have w1: "result_ok (e, w1)" by (rule first)
  show ?case
  proof (cases e)
    case None
    then have w1: "archive_ok w1" using w1 by (simp add: result_ok_def)
    from None "4.prems"(6) f have "walk_entries n H base full rd es w1 = Some r" by (simp add: Let_def)
    with "4.IH"(2) [OF refl f refl None] "4.prems" pes w1 None show ?thesis by auto
  next
    case (Some e')
    with "4.prems"(6) f w1 show ?thesis by (auto simp: Let_def)
  qed
qed

lemma root_base_abs:
  assumes "clean_root root" and "wk_baseDir w = [] \<or> IsAbs (wk_baseDir w)"
  shows "IsAbs (root_base w root) \<and> prefix (elems (root_base w root)) (elems root)"
proof -
  have root: "root = abs_path (elems root)" using assms(1) by (rule clean_rootE)
  show ?thesis
  proof (cases "wk_baseDir w = [] \<or> \<not> within (wk_baseDir w) root")
    case True
    have "IsAbs (Dir root) \<and> prefix (elems (Dir root)) (elems root)"
    proof (cases "elems root = []")
      case True
      with root have "Dir root = ''/''" by (simp add: abs_path_def Dir_def Clean_def clean_elems_def clean_elem_def Let_def)
      then show ?thesis by (simp add: IsAbs_def HasPrefix_def) (simp add: elems_def clean_elems_def clean_elem_def)
    next
      case False
      then obtain fs e where fs: "elems root = fs @ [e]" by (metis rev_exhaust)
      have pl: "list_all plain (fs @ [e])" using elems_plain [of root] unfolding fs .
      from Dir_abs_path [OF pl] root fs have "Dir root = abs_path fs" by simp
      with pl fs show ?thesis by simp
    qed
    with True show ?thesis by (simp add: root_base_def)
  next
    case False
    with assms have "IsAbs (wk_baseDir w)" "IsAbs root" by (auto simp: clean_root_def)
    with within_elems [OF this] False show ?thesis by (simp add: root_base_def)
  qed
qed

lemma run_roots_ok:
  assumes "plain_dirs H" and "list_all clean_root roots" and "archive_ok w" and "run_roots n H roots w = Some r"
  shows "result_ok r"
  using assms(2-)
proof (induction roots arbitrary: w)
  case Nil
  then show ?case by (auto intro: archive_ok_result)
next
  case (Cons root roots)
  show ?case
  proof (cases "h_ctx H root")
    case (Some e)
    with Cons.prems show ?thesis by (auto intro: archive_ok_result)
  next
    case ctx: None
    let ?rd = "\<lambda>info. if wk_oneFS w then deviceOf info else None"
    let ?first = "case h_lstat H root of Inl e \<Rightarrow> Some (unreadable (''stat '' @ root) e w)
      | Inr info \<Rightarrow> walk n H (root_base w root) root info (?rd info) w"
    have step: "run_roots n H (root # roots) w =
        (case ?first of None \<Rightarrow> None | Some (Some e, w1) \<Rightarrow> Some (Some e, w1) | Some (None, w1) \<Rightarrow> run_roots n H roots w1)"
      by (cases "h_lstat H root") (simp_all add: ctx)
    have first: "result_ok x" if "?first = Some x" for x
    proof (cases "h_lstat H root")
      case (Inl e)
      with that unreadable_ok [OF Cons.prems(2)] show ?thesis by auto
    next
      case (Inr info)
      have cr: "clean_root root" using Cons.prems(1) by simp
      have "IsAbs (root_base w root) \<and> prefix (elems (root_base w root)) (elems root)"
        using root_base_abs [OF cr] Cons.prems(2) by (simp add: archive_ok_def)
      with that Inr walk_ok(1) [OF assms(1) _ cr _ Cons.prems(2), of "root_base w root" n info "?rd info" x] show ?thesis by simp
    qed
    from Cons.prems(3) step obtain e w1 where f: "?first = Some (e, w1)" by (auto split: option.splits)
    then have w1: "result_ok (e, w1)" by (rule first)
    show ?thesis
    proof (cases e)
      case None
      then have w1: "archive_ok w1" using w1 by (simp add: result_ok_def)
      from None Cons.prems(3) step f have "run_roots n H roots w1 = Some r" by simp
      with Cons.IH [OF _ w1] Cons.prems(1) show ?thesis by simp
    next
      case (Some e')
      with Cons.prems(3) step f w1 show ?thesis by auto
    qed
  qed
qed

lemma clean_root_Clean: "IsAbs p \<Longrightarrow> clean_root (Clean p)"
  by (simp add: clean_root_def Clean_elems)

text \<open>What \<open>Validate\<close> guarantees of the paths.\<close>

definition paths_valid :: "Config \<Rightarrow> bool" where
  "paths_valid cfg \<longleftrightarrow> list_all IsAbs (Config_StringList cfg ''paths'')
     \<and> (TrimSpace (Config_String cfg ''base_dir'') = [] \<or> IsAbs (TrimSpace (Config_String cfg ''base_dir'')))"

lemma trim_runes_stops:
  assumes "list_all (\<lambda>r. c \<notin> set r) rs"
  shows "\<exists>u'. trim_runes rs (u @ c # v) = u' @ c # v"
proof (induction u rule: length_induct)
  case (1 u)
  let ?k = "rune_len rs (u @ c # v)"
  show ?case
  proof (cases "?k = 0")
    case True
    then show ?thesis by (subst trim_runes.simps) auto
  next
    case False
    then obtain r where r: "r \<in> set rs" "HasPrefix (u @ c # v) r" "?k = length r"
      by (auto simp: rune_len_def find_Some_iff split: option.splits) (metis nth_mem)
    have "length r \<le> length u"
    proof (rule ccontr)
      assume "\<not> length r \<le> length u"
      moreover from r(2) have "r = take (length r) (u @ c # v)" by (simp add: HasPrefix_def)
      ultimately have "c \<in> set r" by (cases "length r - length u") (auto simp: take_append)
      with assms r(1) show False by (auto simp: list_all_iff)
    qed
    then have d: "drop ?k (u @ c # v) = drop ?k u @ c # v" using r(3) by simp
    have "0 < length r" using False r(3) by simp
    with \<open>length r \<le> length u\<close> have "length u - length r < length u" by linarith
    then have "length (drop ?k u) < length u" using r(3) by simp
    with "1.IH" obtain u' where "trim_runes rs (drop ?k u @ c # v) = u' @ c # v" by blast
    with False d show ?thesis by (subst trim_runes.simps) auto
  qed
qed

lemma TrimSpace_abs:
  assumes "IsAbs p"
  shows "IsAbs (TrimSpace p)"
proof -
  from assms obtain t where p: "p = slash # t" by (auto simp: IsAbs_def HasPrefix_iff)
  have front: "trim_runes space_runes p = p" unfolding p by (rule trim_runes_space) (simp add: printable_def)
  have "list_all (\<lambda>r. slash \<notin> set r) (map rev space_runes)" by code_simp
  from trim_runes_stops [OF this, of "rev t" "[]"] obtain u where
    "trim_runes (map rev space_runes) (rev p) = u @ [slash]" by (auto simp: p)
  then show ?thesis by (simp add: TrimSpace_def front)
qed

lemma Validate_paths:
  assumes "files_Validate vp cfg = None"
  shows "paths_valid cfg"
proof -
  have "TrimSpace [] = []" by code_simp
  then have "TrimSpace (Config_String cfg ''base_dir'') = [] \<or> IsAbs (TrimSpace (Config_String cfg ''base_dir''))"
    if "Config_String cfg ''base_dir'' = [] \<or> IsAbs (Config_String cfg ''base_dir'')"
    using that TrimSpace_abs by auto
  with assms show ?thesis
    by (auto simp: files_Validate_def paths_valid_def Let_def find_None_iff list_all_iff split: option.splits if_splits)
qed

lemma relative_accepted:
  assumes "relative p" and "clean_root root" and "name = p \<or> name = p @ ''/''"
  shows "\<exists>es. es \<noteq> [] \<and> files_safeJoin root name = Inr (abs_path (elems root @ es)) \<and> list_all plain es"
proof -
  from assms(1) obtain es where es: "es \<noteq> []" "list_all plain es" "p = Join es [slash]" by (auto simp: relative_def)
  have ns: "slash \<notin> set e" if "e \<in> set es" for e using es(2) that by (auto simp: list_all_iff plain_def)
  have sp: "split_slash p = es" unfolding es(3) by (rule split_slash_Join [OF es(1) ns])
  have spn: "split_slash name = es \<or> split_slash name = es @ [[]]"
    using assms(3) sp split_slash_append2 [of p "[]"] by auto
  have cl: "clean_elems r name = es" for r
    using spn fold_clean_plain [OF es(2), of r "[]"] by (auto simp: clean_elems_def clean_elem_def)
  have w: "walk_from (elems root) name = elems root @ es"
    using spn fold_clean_plain [OF es(2), of True] by (auto simp: walk_from_def clean_elem_def)
  obtain e r where er: "es = e # r" using es(1) by (cases es) auto
  with es(2) obtain ch e' where e: "e = ch # e'" "ch \<noteq> slash" by (cases e) (auto simp: plain_def)
  have "\<not> IsAbs p" using es(3) er e by (cases r) (auto simp: IsAbs_def HasPrefix_def)
  moreover have "p \<noteq> []" using es(3) er e by (cases r) auto
  ultimately have na: "\<not> IsAbs name" using assms(3) by (cases p) (auto simp: IsAbs_def HasPrefix_def)
  have "Clean name = Join es [slash]" using na cl es(1) by (simp add: Clean_def Let_def)
  with climbs_Join_plain [OF es(2)] have "\<not> climbs (Clean name)" by simp
  with na w files_safeJoin_elems [OF assms(2), of name] es show ?thesis by auto
qed

section \<open>The walk ends\<close>

text \<open>A tree whose directories are nested less than \<open>n\<close> deep, where links are leaves.\<close>

fun shallow :: "nat \<Rightarrow> host_fs \<Rightarrow> string \<Rightarrow> finfo \<Rightarrow> bool" where
  "shallow 0 H p info = False"
| "shallow (Suc n) H p info =
     (fi_kind info \<noteq> KDir \<or>
      (case h_readdir H p of
         Inl _ \<Rightarrow> True
       | Inr es \<Rightarrow> list_all (\<lambda>(name, ri). case ri of Inl _ \<Rightarrow> True | Inr i \<Rightarrow> shallow n H (path_Join [p, name]) i) es))"

definition children_shallow :: "nat \<Rightarrow> host_fs \<Rightarrow> string \<Rightarrow> (string \<times> finfo result) list \<Rightarrow> bool" where
  "children_shallow n H p es \<longleftrightarrow>
     list_all (\<lambda>(name, ri). case ri of Inl _ \<Rightarrow> True | Inr i \<Rightarrow> shallow n H (path_Join [p, name]) i) es"

text \<open>A file system that is finite: directories are nested less than \<open>k\<close> deep, counted without links, and the
  links to directories resolve to the finitely many directories \<open>V\<close>. Links may form cycles.\<close>

definition finite_tree :: "nat \<Rightarrow> string set \<Rightarrow> host_fs \<Rightarrow> bool" where
  "finite_tree k V H \<longleftrightarrow>
     (\<forall>p info. shallow k H p info) \<and> finite V
     \<and> (\<forall>p info. h_stat H p = Inr info \<and> fi_kind info = KDir \<longrightarrow> (\<exists>r\<in>V. h_eval H p = Inr r))"

definition unvisited :: "string set \<Rightarrow> walker \<Rightarrow> nat" where
  "unvisited V w = card (V - set (wk_visitedDir w))"

definition ended :: "walker \<Rightarrow> wres option \<Rightarrow> bool" where
  "ended w r \<longleftrightarrow> (\<exists>e w'. r = Some (e, w') \<and> set (wk_visitedDir w) \<subseteq> set (wk_visitedDir w'))"

lemma ended_Some: "wk_visitedDir (snd r) = wk_visitedDir w \<Longrightarrow> ended w (Some r)"
  by (cases r) (simp add: ended_def)

lemma ended_mono: "ended w' r \<Longrightarrow> set (wk_visitedDir w) \<subseteq> set (wk_visitedDir w') \<Longrightarrow> ended w r"
  by (auto simp: ended_def)

lemma unvisited_mono:
  "finite V \<Longrightarrow> set (wk_visitedDir w) \<subseteq> set (wk_visitedDir w') \<Longrightarrow> unvisited V w' \<le> unvisited V w"
  unfolding unvisited_def by (rule card_mono) auto

lemma visited_unreadable [simp]: "wk_visitedDir (snd (unreadable msg e w)) = wk_visitedDir w"
  by (simp add: unreadable_def skip_def)

lemma visited_header [simp]: "wk_visitedDir (snd (writeHeader H name full info ty link w)) = wk_visitedDir w"
  by (simp add: writeHeader_def add_entry_def split: option.split)

lemma visited_entryName: "entryName base full w = (no, w') \<Longrightarrow> wk_visitedDir w' = wk_visitedDir w"
  by (auto simp: entryName_def Let_def split: sum.splits if_splits)

lemma visited_admit: "wk_visitedDir (snd (admit H base full info rd w)) = wk_visitedDir w"
proof -
  obtain no w' where e: "entryName base full w = (no, w')" by (cases "entryName base full w")
  from visited_entryName [OF this] show ?thesis
    by (cases no) (simp_all add: admit_def skip_def e)
qed

lemma visited_copy: "wk_visitedDir (snd (copy_file H name full info bytes rerr w)) = wk_visitedDir w"
  by (simp add: copy_file_def Let_def append_entry_def add_entry_def split: option.split)

lemma visited_file: "wk_visitedDir (snd (writeFile H name full info w)) = wk_visitedDir w"
  by (simp add: writeFile_def visited_copy split: sum.split option.split)

lemma visited_leaf: "wk_visitedDir (snd (leaf H name full info w)) = wk_visitedDir w"
  by (simp add: leaf_def writeRegular_def writeHardlink_def visited_file skip_def add_entry_def
      split: fkind.split sum.split option.split)

lemma visited_follow_Inl: "follow_link H full info w = Inl r \<Longrightarrow> wk_visitedDir (snd r) = wk_visitedDir w"
  by (auto simp: follow_link_def skip_def split: sum.splits if_splits)

text \<open>The budget of a node pays for its children: a directory of the tree uses one level, a link to a directory
  one of the directories that no link led to before.\<close>

lemma follow_budget:
  assumes "finite_tree k V H" and "shallow j H full info0" and "j + unvisited V w * k \<le> Suc n"
    and "follow_link H full info0 w = Inr (info, w')" and "fi_kind info = KDir" and "h_readdir H full = Inr es"
  shows "set (wk_visitedDir w) \<subseteq> set (wk_visitedDir w') \<and> (\<exists>i. children_shallow i H full es \<and> i + unvisited V w' * k \<le> n)"
proof (cases "info = info0 \<and> w' = w")
  case True
  with assms(2,5,6) obtain i where "j = Suc i" "children_shallow i H full es" by (cases j) (auto simp: children_shallow_def)
  with True assms(3) show ?thesis by (intro conjI exI [of _ i]) simp_all
next
  case False
  then have stat: "h_stat H full = Inr info" using assms(4) by (auto simp: follow_link_def split: if_splits sum.splits)
  then obtain r where r: "r \<in> V" "h_eval H full = Inr r" using assms(1,5) by (auto simp: finite_tree_def)
  with False assms(4,5) stat have new: "r \<notin> set (wk_visitedDir w)" "w' = w\<lparr>wk_visitedDir := r # wk_visitedDir w\<rparr>"
    by (auto simp: follow_link_def split: if_splits)
  have fin: "finite (V - set (wk_visitedDir w))" using assms(1) by (simp add: finite_tree_def)
  have "V - set (wk_visitedDir w') = (V - set (wk_visitedDir w)) - {r}" using new by auto
  then have u: "unvisited V w = Suc (unvisited V w')"
    using card_Suc_Diff1 [OF fin, of r] r(1) new(1) by (simp add: unvisited_def)
  have "shallow k H full info" using assms(1) by (simp add: finite_tree_def)
  with assms(5,6) obtain i where i: "k = Suc i" "children_shallow i H full es" by (cases k) (auto simp: children_shallow_def)
  with assms(3) u have "i + unvisited V w' * k \<le> n" by simp
  with i new show ?thesis by auto
qed

lemma walk_ends:
  assumes "finite_tree k V H"
  shows "shallow j H full info \<Longrightarrow> j + unvisited V w * k \<le> n \<Longrightarrow> ended w (walk n H base full info rd w)"
    and "children_shallow i H full es \<Longrightarrow> i + unvisited V w * k \<le> n \<Longrightarrow> ended w (walk_entries n H base full rd es w)"
  using assms
proof (induction n H base full info rd w and n H base full rd es w arbitrary: j and i rule: walk_walk_entries.induct)
  case (1 H base full info0 rd w0)
  then show ?case by (cases j) auto
next
  case (2 n H base full info0 rd w0)
  obtain no w1 where adm: "admit H base full info0 rd w0 = (no, w1)" by (cases "admit H base full info0 rd w0")
  have v1: "wk_visitedDir w1 = wk_visitedDir w0" using visited_admit [of H base full info0 rd w0] adm by simp
  then have u1: "unvisited V w1 = unvisited V w0" by (simp add: unvisited_def)
  show ?case
  proof (cases "h_ctx H full \<noteq> None \<or> no = None")
    case True
    with adm v1 show ?thesis by (auto intro!: ended_Some split: option.split)
  next
    case False
    then obtain name where ctx: "h_ctx H full = None" and no: "no = Some name" by auto
    show ?thesis
    proof (cases "follow_link H full info0 w1")
      case (Inl r)
      with ctx adm no v1 visited_follow_Inl [OF Inl] show ?thesis by (auto intro: ended_Some)
    next
      case (Inr y)
      obtain info w2 where y: "y = (info, w2)" by (cases y)
      have v2: "set (wk_visitedDir w0) \<subseteq> set (wk_visitedDir w2)"
        using Inr v1 by (auto simp: y follow_link_def split: sum.splits if_splits)
      obtain e w3 where wh: "writeHeader H (name @ ''/'') full info EFile [] w2 = (e, w3)"
        by (cases "writeHeader H (name @ ''/'') full info EFile [] w2")
      have v3: "wk_visitedDir w3 = wk_visitedDir w2" using visited_header [of H "name @ ''/''" full info EFile "[]" w2] wh by simp
      show ?thesis
      proof (cases "fi_kind info \<noteq> KDir \<or> e \<noteq> None \<or> (\<exists>x. h_readdir H full = Inl x)")
        case True
        then have "walk (Suc n) H base full info0 rd w0 = Some (leaf H name full info w2)
            \<or> walk (Suc n) H base full info0 rd w0 = Some (e, w3)
            \<or> (\<exists>x. walk (Suc n) H base full info0 rd w0 = Some (unreadable (''read directory '' @ full) x w3))"
          using ctx adm no Inr y wh by (cases e) auto
        moreover have "ended w2 (Some (leaf H name full info w2))" "ended w2 (Some (e, w3))"
          "ended w2 (Some (unreadable (''read directory '' @ full) x w3))" for x
          using v3 visited_leaf [of H name full info w2] by (auto intro!: ended_Some)
        ultimately show ?thesis using ended_mono [OF _ v2] by metis
      next
        case False
        then obtain es where es: "h_readdir H full = Inr es" "e = None" "fi_kind info = KDir"
          by (cases "h_readdir H full") auto
        from follow_budget [OF "2.prems"(3,1) _ Inr [unfolded y] es(3,1), of n] "2.prems"(2) u1
        obtain i where i: "children_shallow i H full es" "i + unvisited V w2 * k \<le> n" by auto
        have u3: "unvisited V w3 = unvisited V w2" using v3 by (simp add: unvisited_def)
        have "children_shallow i H full (sort_key fst es)" using i(1) by (simp add: children_shallow_def list_all_iff)
        from "2.IH" [OF ctx adm [symmetric] no Inr y [symmetric] _ _ _ es(1) this, of None w3] es wh i(2) u3 "2.prems"(3)
        have "ended w3 (walk_entries n H base full rd (sort_key fst es) w3)" by simp
        then have "ended w0 (walk_entries n H base full rd (sort_key fst es) w3)" by (rule ended_mono) (use v2 v3 in simp)
        with es wh ctx adm no Inr y show ?thesis by simp
      qed
    qed
  qed
next
  case (3 n H base full rd w)
  then show ?case by (simp add: ended_Some)
next
  case (4 n H base full rd name ri es w)
  let ?child = "path_Join [full, name]"
  let ?first = "case ri of Inl e \<Rightarrow> Some (unreadable (''stat '' @ ?child) e w) | Inr info \<Rightarrow> walk n H base ?child info rd w"
  have "ended w ?first"
  proof (cases ri)
    case (Inl e)
    then show ?thesis by (simp add: ended_Some)
  next
    case (Inr info)
    then show ?thesis using "4.IH"(1) [OF refl Inr, of i] "4.prems" by (simp add: children_shallow_def)
  qed
  then obtain e w1 where f: "?first = Some (e, w1)" "set (wk_visitedDir w) \<subseteq> set (wk_visitedDir w1)" by (auto simp: ended_def)
  have "unvisited V w1 \<le> unvisited V w" by (rule unvisited_mono) (use f(2) "4.prems"(3) in \<open>simp_all add: finite_tree_def\<close>)
  then have "i + unvisited V w1 * k \<le> n" using "4.prems"(2) by (meson add_left_mono le_trans mult_le_mono1)
  with "4.IH"(2) [OF refl f(1) refl, of i] "4.prems"
  have "e = None \<Longrightarrow> ended w1 (walk_entries n H base full rd es w1)" by (simp add: children_shallow_def)
  then have "e = None \<Longrightarrow> ended w (walk_entries n H base full rd es w1)" using f(2) by (blast intro: ended_mono)
  then show ?case using f by (cases e) (auto simp: Let_def ended_def)
qed

lemma roots_end:
  assumes "finite_tree k V H" and "k * Suc (card V) \<le> n"
  shows "ended w (run_roots n H roots w)"
proof (induction roots arbitrary: w)
  case (Cons root roots)
  let ?first = "case h_lstat H root of Inl e \<Rightarrow> Some (unreadable (''stat '' @ root) e w)
    | Inr info \<Rightarrow> walk n H (root_base w root) root info (if wk_oneFS w then deviceOf info else None) w"
  have "unvisited V w \<le> card V" unfolding unvisited_def by (rule card_mono) (use assms(1) in \<open>auto simp: finite_tree_def\<close>)
  then have "unvisited V w * k \<le> card V * k" by simp
  moreover have "k + card V * k \<le> n" using assms(2) by (simp add: mult.commute)
  ultimately have "k + unvisited V w * k \<le> n" by linarith
  then have "ended w ?first"
    using walk_ends(1) [OF assms(1), of k root _ w n] assms(1) by (auto simp: ended_Some finite_tree_def split: sum.split)
  then obtain e w1 where f: "?first = Some (e, w1)" "set (wk_visitedDir w) \<subseteq> set (wk_visitedDir w1)" by (auto simp: ended_def)
  from ended_mono [OF Cons.IH [of w1] f(2)] f show ?case
    by (cases "h_lstat H root"; cases e) (auto simp: ended_def split: option.split prod.split)
qed (simp add: ended_Some)

lemma archive_ends:
  "finite_tree k V H \<Longrightarrow> k * Suc (card V) \<le> n \<Longrightarrow> \<exists>r w. archive n H cfg = Some (r, w)"
  using roots_end [of k V H n "new_walker cfg" "map Clean (Config_StringList cfg ''paths'')"]
  unfolding archive_def ended_def by blast

section \<open>Properties\<close>

text \<open>C40 (roundtrip): the archive of a backup can be restored entry by entry. When the configuration is valid,
  directories list plain names and the file system is finite, though its links may form cycles, the walk ends. Every
  entry of the archive, also of one that ends with an error, has a name that the restore accepts and puts below
  its target directory, and no two entries have the same name. The content of each has exactly the announced size,
  however the files change while they are read; only the last entry of a walk that fails may have less.\<close>

theorem archive_restorable:
  assumes "plain_dirs H" and "files_Validate vp cfg = None" and "finite_tree k V H" and "k * Suc (card V) \<le> n"
    and "clean_root root"
  shows "\<exists>r w. archive n H cfg = Some (r, w)
    \<and> distinct (map stem (wk_out w))
    \<and> (\<forall>x\<in>set (wk_out w). (\<exists>p. files_safeJoin root (oe_Name x) = Inr p \<and> inside root p \<and> p \<noteq> root)
         \<and> length (oe_Content x) \<le> oe_Size x)
    \<and> (\<forall>x\<in>set (if r = None then wk_out w else butlast (wk_out w)). length (oe_Content x) = oe_Size x)"
proof -
  note valid = Validate_paths [OF assms(2)]
  have roots: "list_all clean_root (map Clean (Config_StringList cfg ''paths''))"
    using valid clean_root_Clean by (auto simp: paths_valid_def list_all_iff)
  have "archive_ok (new_walker cfg)"
    using valid by (auto simp: archive_ok_def new_walker_def Let_def paths_valid_def)
  note ok = run_roots_ok [OF assms(1) roots this, of n]
  obtain r w where a: "archive n H cfg = Some (r, w)" using archive_ends [OF assms(3,4)] by blast
  with ok [of "(r, w)"] have res: "result_ok (r, w)" by (simp add: archive_def)
  have entry: "(\<exists>p. files_safeJoin root (oe_Name x) = Inr p \<and> inside root p \<and> p \<noteq> root) \<and> length (oe_Content x) \<le> oe_Size x"
    if "x \<in> set (wk_out w)" for x
  proof -
    from that res have x: "sound x" by (simp add: result_ok_def list_all_iff)
    have name: "oe_Name x = stem x \<or> oe_Name x = stem x @ ''/''"
      by (metis HasSuffix_iff TrimSuffix_append TrimSuffix_def stem_def)
    from x have "relative (stem x)" by (simp add: sound_def)
    from relative_accepted [OF this assms(5) name] obtain es where
      es: "es \<noteq> []" "files_safeJoin root (oe_Name x) = Inr (abs_path (elems root @ es))" "list_all plain es" by blast
    have "inside root (abs_path (elems root @ es))" using es by (simp add: inside_abs_path)
    moreover have "abs_path (elems root @ es) \<noteq> root"
      using es assms(5) by (metis abs_path_inject append_self_conv clean_rootE elems_plain list_all_append)
    ultimately show ?thesis using es x by (auto simp: sound_def)
  qed
  have "\<forall>x\<in>set (if r = None then wk_out w else butlast (wk_out w)). length (oe_Content x) = oe_Size x"
    using res by (auto simp: result_ok_def archive_ok_def list_all_iff complete_def)
  with a res entry show ?thesis by (intro exI [of _ r] exI [of _ w]) (simp add: result_ok_def)
qed

definition demo_finfo :: "fkind \<Rightarrow> finfo" where
  "demo_finfo k = \<lparr>fi_kind = k, fi_size = 2, fi_stat = Some (1, 7, 2), fi_mode = 0x1A4\<rparr>"

text \<open>Two directories named \<open>www\<close>, each with two names of one file that only opens where \<open>ok\<close>
  says so.\<close>

definition demo_fs :: "(string \<Rightarrow> bool) \<Rightarrow> host_fs" where
  "demo_fs ok = \<lparr>h_ctx = (\<lambda>_. None),
     h_lstat = (\<lambda>p. Inr (demo_finfo KDir)), h_stat = (\<lambda>p. Inr (demo_finfo KDir)), h_eval = (\<lambda>_. Inr ''/d''),
     h_readdir = (\<lambda>p. Inr (if p = ''/srv/www'' then [(''f'', Inr (demo_finfo KRegular)), (''g'', Inr (demo_finfo KRegular))]
        else if p = ''/opt/www'' then [(''x'', Inr (demo_finfo KSymlink))] else [])),
     h_readlink = (\<lambda>_. Inr ''t''), h_open = (\<lambda>p. if ok p then Inr (''abc'', None) else Inl (errNew ''permission denied'')),
     h_match = (\<lambda>_ _. False), h_header = (\<lambda>_. None), h_write = (\<lambda>_. None), h_copy = (\<lambda>_. None), h_pad = (\<lambda>_. None)\<rparr>"

definition demo_cfg :: "string list \<Rightarrow> Config" where
  "demo_cfg ps = [''paths'' \<mapsto> VStrings ps]"

definition named :: "wres option \<Rightarrow> (error option \<times> (string \<times> etype \<times> string) list \<times> nat) option" where
  "named r = map_option (\<lambda>(e, w). (e, map (\<lambda>x. (oe_Name x, oe_Type x, oe_Link x)) (wk_out w), wk_skipped w)) r"

lemma demo_archive:
  "named (archive 5 (demo_fs (\<lambda>_. True)) (demo_cfg [''/srv/www'']))
     = Some (None, [(''www/'', EFile, []), (''www/f'', EFile, []), (''www/g'', EHard, ''www/f'')], 0)"
  by code_simp

lemma demo_dirs: "plain_dirs (demo_fs ok)"
  by (auto simp: plain_dirs_def demo_fs_def plain_def split: if_splits)

lemma demo_finite: "finite_tree 3 {''/d''} (demo_fs ok)"
proof -
  have "shallow 1 (demo_fs ok) p i" if "fi_kind i \<noteq> KDir" for p i using that by simp
  then show ?thesis
    by (auto simp: finite_tree_def demo_fs_def demo_finfo_def numeral_3_eq_3)
qed

theorem archive_restorable_witness:
  "\<exists>r w. archive 6 (demo_fs (\<lambda>_. True)) (demo_cfg [''/srv/www'']) = Some (r, w)
     \<and> (\<forall>x\<in>set (wk_out w). \<exists>p. files_safeJoin ''/out'' (oe_Name x) = Inr p \<and> inside ''/out'' p)"
proof -
  have "files_Validate (\<lambda>_. True) (demo_cfg [''/srv/www'']) = None" by code_simp
  moreover have "clean_root ''/out''" by code_simp
  moreover have "3 * Suc (card {''/d''}) \<le> (6::nat)" by simp
  ultimately obtain r w where "archive 6 (demo_fs (\<lambda>_. True)) (demo_cfg [''/srv/www'']) = Some (r, w)"
    "\<forall>x\<in>set (wk_out w). (\<exists>p. files_safeJoin ''/out'' (oe_Name x) = Inr p \<and> inside ''/out'' p \<and> p \<noteq> ''/out'')
       \<and> length (oe_Content x) \<le> oe_Size x"
    using archive_restorable [OF demo_dirs _ demo_finite, of "\<lambda>_. True" "demo_cfg [''/srv/www'']" 6 "''/out''" "\<lambda>_. True"] by blast
  then show ?thesis by blast
qed

section \<open>What the archive leaves out\<close>

text \<open>A path that is its own base directory is left out in silence: when \<open>base_dir\<close> equals a configured
  path, or a path is the root of the file system and no base directory is set, the walk of that path stores
  nothing, whatever the directory holds, counts nothing as skipped and reports success.\<close>

theorem base_dir_left_out:
  assumes "IsAbs p" and "h_ctx H (Clean p) = None" and "h_lstat H (Clean p) = Inr info"
    and "Config_StringList cfg ''paths'' = [p]"
    and "TrimSpace (Config_String cfg ''base_dir'') = p \<or> (TrimSpace (Config_String cfg ''base_dir'') = [] \<and> Clean p = ''/'')"
  shows "archive (Suc n) H cfg = Some (None, new_walker cfg)"
proof -
  let ?w = "new_walker cfg"
  have cr: "clean_root (Clean p)" using assms(1) by (rule clean_root_Clean)
  have base: "root_base ?w (Clean p) = Clean p"
    using assms(5)
  proof
    assume b: "TrimSpace (Config_String cfg ''base_dir'') = p"
    have "p \<noteq> []" using assms(1) by (auto simp: IsAbs_def HasPrefix_def)
    with b have "wk_baseDir ?w = Clean p" by (simp add: new_walker_def Let_def)
    moreover have "within (Clean p) (Clean p)" using assms(1) by (simp add: within_elems)
    moreover have "Clean p \<noteq> []" using assms(1) by (simp add: Clean_elems abs_path_def)
    ultimately show ?thesis by (simp add: root_base_def)
  next
    assume b: "TrimSpace (Config_String cfg ''base_dir'') = [] \<and> Clean p = ''/''"
    then have "wk_baseDir ?w = []" by (simp add: new_walker_def)
    moreover have "Dir ''/'' = ''/''" by code_simp
    ultimately show ?thesis using b by (simp add: root_base_def)
  qed
  have "admit H (Clean p) (Clean p) info rd ?w = (None, ?w)" for rd
    using assms(1) by (simp add: admit_def entryName_base)
  with assms(2,3) base show ?thesis by (simp add: archive_def assms(4))
qed

theorem base_dir_left_out_witness:
  "archive 5 (demo_fs (\<lambda>_. True)) ((demo_cfg [''/srv/www''])(''base_dir'' \<mapsto> VString ''/srv/www''))
     = Some (None, new_walker ((demo_cfg [''/srv/www''])(''base_dir'' \<mapsto> VString ''/srv/www'')))"
proof -
  let ?cfg = "(demo_cfg [''/srv/www''])(''base_dir'' \<mapsto> VString ''/srv/www'')"
  have "IsAbs ''/srv/www''" by code_simp
  moreover have "Config_StringList ?cfg ''paths'' = [''/srv/www'']" by code_simp
  moreover have "TrimSpace (Config_String ?cfg ''base_dir'') = ''/srv/www''" by code_simp
  ultimately show ?thesis
    using base_dir_left_out [of "''/srv/www''" "demo_fs (\<lambda>_. True)" "demo_finfo KDir" ?cfg 4]
    by (simp add: demo_fs_def)
qed

text \<open>Of two paths with the same last element only the first is archived; and when a file with two names cannot
  be opened, the archive holds a hard link to an entry it does not have.\<close>

lemma second_path_left_out:
  "named (archive 5 (demo_fs (\<lambda>_. True)) (demo_cfg [''/opt/www'', ''/srv/www'']))
     = Some (None, [(''www/'', EFile, []), (''www/x'', ELink, ''t'')], 0)"
  by code_simp

lemma dangling_hard_link:
  "named (archive 5 (demo_fs (\<lambda>p. p \<noteq> ''/srv/www/f'')) (demo_cfg [''/srv/www'']))
     = Some (None, [(''www/'', EFile, []), (''www/g'', EHard, ''www/f'')], 1)"
  by code_simp

end
