(* ===== verification/Store_Users.thy ===== *)
theory Store_Users
  imports Store_Configs
begin

text \<open>
  Package \<open>internal/store\<close>, fourth part: users, their sessions and the API tokens (users.go,
  sessions.go, tokens.go). An address is unique, as is the hash of a token; a session refers to a
  user and is deleted with it.
\<close>

section \<open>Users\<close>

definition normalizeEmail :: "string \<Rightarrow> string" where
  "normalizeEmail email = ToLower (TrimSpace email)"

abbreviation ur_ID :: "UserRecord \<Rightarrow> string" where "ur_ID r \<equiv> usr_ID (ur_User r)"
abbreviation ur_Email :: "UserRecord \<Rightarrow> string" where "ur_Email r \<equiv> usr_Email (ur_User r)"
abbreviation ur_Role :: "UserRecord \<Rightarrow> UserRole" where "ur_Role r \<equiv> usr_Role (ur_User r)"

definition set_user :: "(User \<Rightarrow> User) \<Rightarrow> UserRecord \<Rightarrow> UserRecord" where
  "set_user f r = r\<lparr>ur_User := f (ur_User r)\<rparr>"

definition Users_Count :: "error option \<Rightarrow> db \<Rightarrow> nat result" where
  "Users_Count flt s =
     (case flt of Some e \<Rightarrow> Inl (wrapf ''count users'' e) | None \<Rightarrow> Inr (length (t_users s)))"

definition Users_CountAdmins :: "error option \<Rightarrow> db \<Rightarrow> nat result" where
  "Users_CountAdmins flt s =
     (case flt of
        Some e \<Rightarrow> Inl (wrapf ''count admins'' e)
      | None \<Rightarrow> Inr (count_rows (\<lambda>r. ur_Role r = RoleAdmin) (t_users s)))"

definition user_conflict :: "string \<Rightarrow> error" where
  "user_conflict email = GoErr (Some ErrConflict) (''user '' @ email @ '': conflict'')"

definition Users_Create :: "error option \<Rightarrow> string \<Rightarrow> time \<Rightarrow> User \<Rightarrow> string \<Rightarrow> db \<Rightarrow> User result \<times> db" where
  "Users_Create flt newID now u passwordHash s =
     (let u1 = (if usr_ID u = [] then u\<lparr>usr_ID := newID\<rparr> else u);
          u2 = (if IsZero (usr_CreatedAt u1) then u1\<lparr>usr_CreatedAt := now\<rparr> else u1);
          u3 = u2\<lparr>usr_Email := normalizeEmail (usr_Email u2)\<rparr>
      in case flt of
           Some e \<Rightarrow> (Inl (wrapf ''create user'' e), s)
         | None \<Rightarrow>
             (case insert_unique ur_ID ur_Email
                 \<lparr>ur_User = u3\<lparr>usr_LastLoginAt := nullTime (usr_LastLoginAt u3)\<rparr>, ur_PasswordHash = passwordHash\<rparr> (t_users s) of
                None \<Rightarrow> (Inl (user_conflict (usr_Email u3)), s)
              | Some rows \<Rightarrow> (Inr u3, s\<lparr>t_users := rows\<rparr>)))"

definition user_found :: "string \<Rightarrow> string \<Rightarrow> error option \<Rightarrow> UserRecord option \<Rightarrow> UserRecord result" where
  "user_found what ref flt found =
     (case flt of
        Some e \<Rightarrow> Inl (wrapf what e)
      | None \<Rightarrow> (case found of None \<Rightarrow> Inl (row_missing ''user'' ref) | Some r \<Rightarrow> Inr r))"

definition Users_Get :: "error option \<Rightarrow> string \<Rightarrow> db \<Rightarrow> UserRecord result" where
  "Users_Get flt rid s = user_found ''get user'' rid flt (find_row ur_ID rid (t_users s))"

definition Users_GetByEmail :: "error option \<Rightarrow> string \<Rightarrow> db \<Rightarrow> UserRecord result" where
  "Users_GetByEmail flt email s =
     user_found ''get user by email'' email flt (find_row ur_Email (normalizeEmail email) (t_users s))"

definition Users_List :: "error option \<Rightarrow> db \<Rightarrow> User list result" where
  "Users_List flt s =
     (case flt of
        Some e \<Rightarrow> Inl (wrapf ''list users'' e)
      | None \<Rightarrow> Inr (map ur_User (sort_key ur_Email (t_users s))))"

definition usr_assign :: "User \<Rightarrow> User \<Rightarrow> User" where
  "usr_assign u r = r\<lparr>usr_Email := normalizeEmail (usr_Email u), usr_Name := usr_Name u, usr_Role := usr_Role u\<rparr>"

definition Users_Update :: "error option \<Rightarrow> User \<Rightarrow> db \<Rightarrow> error option \<times> db" where
  "Users_Update flt u s =
     (case flt of
        Some e \<Rightarrow> (Some (wrapf ''update user'' e), s)
      | None \<Rightarrow>
          (case update_unique ur_ID ur_Email (usr_ID u) (set_user (usr_assign u)) (t_users s) of
             None \<Rightarrow> (Some (user_conflict (usr_Email u)), s)
           | Some rows \<Rightarrow>
               (affected (count_rows (\<lambda>r. ur_ID r = usr_ID u) (t_users s)) ''user'' (usr_ID u),
                s\<lparr>t_users := rows\<rparr>)))"

definition Users_SetPassword :: "error option \<Rightarrow> string \<Rightarrow> string \<Rightarrow> db \<Rightarrow> error option \<times> db" where
  "Users_SetPassword flt rid hash s =
     (case flt of
        Some e \<Rightarrow> (Some (wrapf ''set password'' e), s)
      | None \<Rightarrow>
          (affected (count_rows (\<lambda>r. ur_ID r = rid) (t_users s)) ''user'' rid,
           s\<lparr>t_users := update_rows (\<lambda>r. ur_ID r = rid) (\<lambda>r. r\<lparr>ur_PasswordHash := hash\<rparr>) (t_users s)\<rparr>))"

definition Users_TouchLogin :: "error option \<Rightarrow> string \<Rightarrow> time \<Rightarrow> db \<Rightarrow> error option \<times> db" where
  "Users_TouchLogin flt rid at s =
     (case flt of
        Some e \<Rightarrow> (Some (wrapf ''touch login'' e), s)
      | None \<Rightarrow>
          (None, s\<lparr>t_users := update_rows (\<lambda>r. ur_ID r = rid)
             (set_user (\<lambda>u. u\<lparr>usr_LastLoginAt := Some at\<rparr>)) (t_users s)\<rparr>))"

text \<open>The sessions of a user go with the user, by the foreign key.\<close>

definition Users_Delete :: "error option \<Rightarrow> string \<Rightarrow> db \<Rightarrow> error option \<times> db" where
  "Users_Delete flt rid s =
     (case flt of
        Some e \<Rightarrow> (Some (wrapf ''delete user'' e), s)
      | None \<Rightarrow>
          (affected (count_rows (\<lambda>r. ur_ID r = rid) (t_users s)) ''user'' rid,
           s\<lparr>t_users := delete_row ur_ID rid (t_users s),
             t_sessions := (if rid \<in> ur_ID ` set (t_users s) then filter (\<lambda>x. ses_UserID x \<noteq> rid) (t_sessions s)
                            else t_sessions s)\<rparr>))"

section \<open>Sessions\<close>

definition Sessions_Create :: "error option \<Rightarrow> Session \<Rightarrow> db \<Rightarrow> error option \<times> db" where
  "Sessions_Create flt x s =
     (case exec_err flt (find_row ses_ID (ses_ID x) (t_sessions s) \<noteq> None) ''UNIQUE constraint failed: sessions.id'' of
        Some e \<Rightarrow> (Some (wrapf ''create session'' e), s)
      | None \<Rightarrow>
          (case exec_err None (find_row ur_ID (ses_UserID x) (t_users s) = None) ''FOREIGN KEY constraint failed'' of
             Some e \<Rightarrow> (Some (wrapf ''create session'' e), s)
           | None \<Rightarrow> (None, s\<lparr>t_sessions := t_sessions s @ [x]\<rparr>)))"

definition Sessions_Get :: "error option \<Rightarrow> string \<Rightarrow> db \<Rightarrow> Session result" where
  "Sessions_Get flt rid s =
     (case flt of
        Some e \<Rightarrow> Inl (wrapf ''get session'' e)
      | None \<Rightarrow>
          (case find_row ses_ID rid (t_sessions s) of
             None \<Rightarrow> Inl (GoErr (Some ErrNotFound) ''session: not found'')
           | Some x \<Rightarrow> Inr x))"

definition Sessions_Touch :: "error option \<Rightarrow> string \<Rightarrow> time \<Rightarrow> time \<Rightarrow> db \<Rightarrow> error option \<times> db" where
  "Sessions_Touch flt rid seen expires s =
     (case flt of
        Some e \<Rightarrow> (Some (wrapf ''touch session'' e), s)
      | None \<Rightarrow>
          (None, s\<lparr>t_sessions := update_rows (\<lambda>x. ses_ID x = rid)
             (\<lambda>x. x\<lparr>ses_LastSeenAt := seen, ses_ExpiresAt := expires\<rparr>) (t_sessions s)\<rparr>))"

definition Sessions_Delete :: "error option \<Rightarrow> string \<Rightarrow> db \<Rightarrow> error option \<times> db" where
  "Sessions_Delete flt rid s =
     (case flt of
        Some e \<Rightarrow> (Some (wrapf ''delete session'' e), s)
      | None \<Rightarrow> (None, s\<lparr>t_sessions := delete_row ses_ID rid (t_sessions s)\<rparr>))"

definition Sessions_DeleteForUser :: "error option \<Rightarrow> string \<Rightarrow> db \<Rightarrow> error option \<times> db" where
  "Sessions_DeleteForUser flt userID s =
     (case flt of
        Some e \<Rightarrow> (Some (wrapf ''delete user sessions'' e), s)
      | None \<Rightarrow> (None, s\<lparr>t_sessions := filter (\<lambda>x. ses_UserID x \<noteq> userID) (t_sessions s)\<rparr>))"

section \<open>Tokens\<close>

abbreviation tr_ID :: "TokenRow \<Rightarrow> string" where "tr_ID r \<equiv> tok_ID (tr_Token r)"

definition tok_row :: "APIToken \<Rightarrow> APIToken" where
  "tok_row t = t\<lparr>tok_LastUsedAt := nullTime (tok_LastUsedAt t), tok_ExpiresAt := nullTime (tok_ExpiresAt t)\<rparr>"

definition Tokens_Create :: "error option \<Rightarrow> string \<Rightarrow> time \<Rightarrow> APIToken \<Rightarrow> string \<Rightarrow> db \<Rightarrow> APIToken result \<times> db" where
  "Tokens_Create flt newID now t hash s =
     (let t1 = (if tok_ID t = [] then t\<lparr>tok_ID := newID\<rparr> else t);
          t2 = (if IsZero (tok_CreatedAt t1) then t1\<lparr>tok_CreatedAt := now\<rparr> else t1);
          rows = insert_unique tr_ID tr_Hash \<lparr>tr_Token = tok_row t2, tr_Hash = hash\<rparr> (t_tokens s)
      in case exec_err flt (rows = None) ''UNIQUE constraint failed: api_tokens'' of
           Some e \<Rightarrow> (Inl (wrapf ''create token'' e), s)
         | None \<Rightarrow> (Inr t2, s\<lparr>t_tokens := the rows\<rparr>))"

definition token_found :: "string \<Rightarrow> error option \<Rightarrow> TokenRow option \<Rightarrow> APIToken result" where
  "token_found missing flt found =
     (case flt of
        Some e \<Rightarrow> Inl (wrapf ''get token'' e)
      | None \<Rightarrow>
          (case found of
             None \<Rightarrow> Inl (GoErr (Some ErrNotFound) (missing @ '': not found''))
           | Some r \<Rightarrow> Inr (tr_Token r)))"

definition Tokens_GetByHash :: "error option \<Rightarrow> string \<Rightarrow> db \<Rightarrow> APIToken result" where
  "Tokens_GetByHash flt hash s = token_found ''token'' flt (find_row tr_Hash hash (t_tokens s))"

definition Tokens_Get :: "error option \<Rightarrow> string \<Rightarrow> db \<Rightarrow> APIToken result" where
  "Tokens_Get flt rid s = token_found (''token '' @ rid) flt (find_row tr_ID rid (t_tokens s))"

definition Tokens_List :: "error option \<Rightarrow> db \<Rightarrow> APIToken list result" where
  "Tokens_List flt s =
     (case flt of
        Some e \<Rightarrow> Inl (wrapf ''list tokens'' e)
      | None \<Rightarrow> Inr (sort_key (\<lambda>t. - tok_CreatedAt t) (map tr_Token (t_tokens s))))"

definition Tokens_TouchUsed :: "error option \<Rightarrow> string \<Rightarrow> time \<Rightarrow> db \<Rightarrow> error option \<times> db" where
  "Tokens_TouchUsed flt rid at s =
     (case flt of
        Some e \<Rightarrow> (Some (wrapf ''touch token'' e), s)
      | None \<Rightarrow>
          (None, s\<lparr>t_tokens := update_rows (\<lambda>r. tr_ID r = rid)
             (\<lambda>r. r\<lparr>tr_Token := (tr_Token r)\<lparr>tok_LastUsedAt := Some at\<rparr>\<rparr>) (t_tokens s)\<rparr>))"

definition Tokens_Delete :: "error option \<Rightarrow> string \<Rightarrow> db \<Rightarrow> error option \<times> db" where
  "Tokens_Delete flt rid s =
     (case flt of
        Some e \<Rightarrow> (Some (wrapf ''delete token'' e), s)
      | None \<Rightarrow>
          (affected (count_rows (\<lambda>r. tr_ID r = rid) (t_tokens s)) ''token'' rid,
           s\<lparr>t_tokens := delete_row tr_ID rid (t_tokens s)\<rparr>))"

end
