(* ===== verification/Store_Integrity.thy ===== *)
theory Store_Integrity
  imports Store_Users
begin

text \<open>
  Integrity of the whole database: identifiers, names, addresses and token hashes stay unique, every
  job has its source, every session its user, whatever statements are executed and whichever of them
  fail.
\<close>

section \<open>Unique keys and names\<close>

definition unique_rows :: "('r \<Rightarrow> string) \<Rightarrow> ('r \<Rightarrow> string) \<Rightarrow> 'r list \<Rightarrow> bool" where
  "unique_rows key nm rows \<longleftrightarrow> distinct (map key rows) \<and> distinct (map nm rows)"

lemma insert_unique_ok:
  "unique_rows key nm rows \<Longrightarrow> insert_unique key nm r rows = Some rows' \<Longrightarrow> unique_rows key nm rows'"
  by (auto simp: insert_unique_def unique_rows_def split: if_splits)

lemma insert_unique_keys:
  "insert_unique key nm r rows = Some rows' \<Longrightarrow> key ` set rows' = insert (key r) (key ` set rows)"
  by (auto simp: insert_unique_def split: if_splits)

lemma delete_row_ok: "unique_rows key nm rows \<Longrightarrow> unique_rows key nm (delete_row key rid rows)"
  by (simp add: unique_rows_def delete_row_def distinct_map_filter')

lemma map_update_same: "(\<And>r. P r \<Longrightarrow> g (f r) = g r) \<Longrightarrow> map g (update_rows P f rows) = map g rows"
  by (simp add: update_rows_def)

lemma update_rows_ok:
  "(\<And>r. P r \<Longrightarrow> key (f r) = key r) \<Longrightarrow> (\<And>r. P r \<Longrightarrow> nm (f r) = nm r) \<Longrightarrow>
   unique_rows key nm rows \<Longrightarrow> unique_rows key nm (update_rows P f rows)"
  by (simp add: unique_rows_def map_update_same)

text \<open>One row gets a name no other row has.\<close>

lemma distinct_update_one:
  assumes "distinct (map key rows)" and "distinct (map nm rows)" and "find_row key rid rows = Some r"
    and "nm (f r) \<notin> nm ` set (filter (\<lambda>x. key x \<noteq> rid) rows)"
  shows "distinct (map nm (update_rows (\<lambda>x. key x = rid) f rows))"
  using assms
proof (induction rows)
  case (Cons x rows)
  show ?case
  proof (cases "key x = rid")
    case True
    then have [simp]: "x = r" using Cons.prems(3) by (simp add: find_row_def)
    have "key y \<noteq> rid" if "y \<in> set rows" for y using Cons.prems(1) True that by (auto simp: image_iff)
    then have "update_rows (\<lambda>y. key y = rid) f rows = rows" "filter (\<lambda>y. key y \<noteq> rid) rows = rows"
      by (simp_all add: update_rows_def map_idI)
    with Cons.prems True show ?thesis by (simp add: update_rows_def)
  next
    case False
    then have found: "find_row key rid rows = Some r" using Cons.prems(3) by (simp add: find_row_def)
    have new: "nm (f r) \<notin> nm ` set (filter (\<lambda>y. key y \<noteq> rid) rows)" using Cons.prems(4) False by auto
    from Cons.prems found new have ih: "distinct (map nm (update_rows (\<lambda>y. key y = rid) f rows))"
      by (intro Cons.IH) simp_all
    have "nm x \<noteq> nm (if key y = rid then f y else y)" if "y \<in> set rows" for y
    proof (cases "key y = rid")
      case True
      then have "y = r"
        using found find_row_unique [of key rows y] Cons.prems(1) that by simp
      with True False Cons.prems(4) show ?thesis by auto
    qed (use Cons.prems(2) that in \<open>auto simp: image_iff\<close>)
    with ih False show ?thesis by (auto simp: update_rows_def)
  qed
qed (simp add: find_row_def)

lemma update_unique_ok:
  assumes "unique_rows key nm rows" and "update_unique key nm rid f rows = Some rows'" and "\<And>r. key (f r) = key r"
  shows "unique_rows key nm rows'" and "key ` set rows' = key ` set rows"
proof -
  have k: "map key (update_rows P f rows) = map key rows" for P by (rule map_update_same) (rule assms(3))
  show "unique_rows key nm rows'"
    using assms distinct_update_one [of key rows nm rid _ f] k
    by (auto simp: update_unique_def unique_rows_def split: option.splits if_splits)
  show "key ` set rows' = key ` set rows"
    using assms(2) keys_set [OF k] by (auto simp: update_unique_def split: option.splits if_splits)
qed

lemma delete_row_keys: "key ` set (delete_row key rid rows) = key ` set rows - {rid}"
  by (auto simp: delete_row_def)

lemma assign_keys [simp]:
  "src_ID (src_assign x r) = src_ID r" "dst_ID (dst_assign d r2) = dst_ID r2" "host_ID (host_assign h r3) = host_ID r3"
  "chn_ID (chn_assign c r4) = chn_ID r4" "ur_ID (set_user (usr_assign u) r5) = ur_ID r5"
  "ur_ID (set_user (\<lambda>u. u\<lparr>usr_LastLoginAt := t\<rparr>) r5) = ur_ID r5"
  "ur_Email (set_user (\<lambda>u. u\<lparr>usr_LastLoginAt := t\<rparr>) r5) = ur_Email r5"
  by (simp_all add: src_assign_def dst_assign_def host_assign_def chn_assign_def set_user_def usr_assign_def)

section \<open>The invariant\<close>

definition configs_ok :: "db \<Rightarrow> bool" where
  "configs_ok s \<longleftrightarrow>
     unique_rows src_ID src_Name (t_sources s) \<and> unique_rows dst_ID dst_Name (t_destinations s)
     \<and> unique_rows host_ID host_Name (t_hosts s) \<and> unique_rows chn_ID chn_Name (t_channels s)
     \<and> job_SourceID ` set (t_jobs s) \<subseteq> src_ID ` set (t_sources s)"

definition accounts_ok :: "db \<Rightarrow> bool" where
  "accounts_ok s \<longleftrightarrow>
     unique_rows ur_ID ur_Email (t_users s) \<and> unique_rows tr_ID tr_Hash (t_tokens s)
     \<and> distinct (map ses_ID (t_sessions s)) \<and> ses_UserID ` set (t_sessions s) \<subseteq> ur_ID ` set (t_users s)"

definition store_ok :: "db \<Rightarrow> bool" where
  "store_ok s \<longleftrightarrow> db_ok s \<and> configs_ok s \<and> accounts_ok s"

section \<open>Statements on configurations\<close>

lemma Sources_Create_ok: "configs_ok s \<Longrightarrow> configs_ok (snd (Sources_Create flt nid now x s))"
  by (auto simp: Sources_Create_def configs_ok_def Let_def insert_unique_ok insert_unique_keys split: option.split)

lemma Sources_Update_ok: "configs_ok s \<Longrightarrow> configs_ok (snd (Sources_Update flt now x s))"
  by (auto simp: Sources_Update_def configs_ok_def Let_def update_unique_ok split: option.split)

lemma Sources_SetTestResult_ok: "configs_ok s \<Longrightarrow> configs_ok (snd (Sources_SetTestResult flt rid b m at s))"
  by (auto simp: Sources_SetTestResult_def configs_ok_def update_rows_ok keys_set [OF map_update_same] split: option.split)

lemma Sources_Delete_ok: "configs_ok s \<Longrightarrow> configs_ok (snd (Sources_Delete flt rid s))"
  by (auto simp: Sources_Delete_def configs_ok_def delete_row_ok delete_row_keys split: option.split)

lemma Destinations_Create_ok: "configs_ok s \<Longrightarrow> configs_ok (snd (Destinations_Create flt nid now x s))"
  by (auto simp: Destinations_Create_def configs_ok_def Let_def insert_unique_ok split: option.split)

lemma Destinations_Update_ok: "configs_ok s \<Longrightarrow> configs_ok (snd (Destinations_Update flt flt2 now x s))"
  by (auto simp: Destinations_Update_def configs_ok_def Let_def update_unique_ok split: option.split)

lemma Destinations_SetTestResult_ok: "configs_ok s \<Longrightarrow> configs_ok (snd (Destinations_SetTestResult flt rid b m at s))"
  by (auto simp: Destinations_SetTestResult_def configs_ok_def update_rows_ok split: option.split)

lemma Destinations_Delete_ok: "configs_ok s \<Longrightarrow> configs_ok (snd (Destinations_Delete flt rid s))"
  by (auto simp: Destinations_Delete_def configs_ok_def delete_row_ok split: option.split)

lemma Hosts_Create_ok: "configs_ok s \<Longrightarrow> configs_ok (snd (Hosts_Create flt nid now x s))"
  by (auto simp: Hosts_Create_def configs_ok_def Let_def insert_unique_ok split: option.split)

lemma Hosts_Update_ok: "configs_ok s \<Longrightarrow> configs_ok (snd (Hosts_Update flt now x s))"
  by (auto simp: Hosts_Update_def configs_ok_def Let_def update_unique_ok split: option.split)

lemma Hosts_SetTestResult_ok: "configs_ok s \<Longrightarrow> configs_ok (snd (Hosts_SetTestResult flt now rid b m os tools s))"
  by (auto simp: Hosts_SetTestResult_def configs_ok_def update_rows_ok split: option.split)

lemma Hosts_Delete_ok: "configs_ok s \<Longrightarrow> configs_ok (snd (Hosts_Delete flt_counts flt rid s))"
  by (auto simp: Hosts_Delete_def configs_ok_def delete_row_ok split: option.split)

lemma Channels_Create_ok: "configs_ok s \<Longrightarrow> configs_ok (snd (Channels_Create flt nid now x s))"
  by (auto simp: Channels_Create_def configs_ok_def Let_def insert_unique_ok split: option.split)

lemma Channels_Update_ok: "configs_ok s \<Longrightarrow> configs_ok (snd (Channels_Update flt now x s))"
  by (auto simp: Channels_Update_def configs_ok_def Let_def update_unique_ok split: option.split)

lemma Channels_SetSendResult_ok: "configs_ok s \<Longrightarrow> configs_ok (snd (Channels_SetSendResult flt rid at m s))"
  by (auto simp: Channels_SetSendResult_def configs_ok_def update_rows_ok split: option.split)

lemma Channels_Delete_ok: "configs_ok s \<Longrightarrow> configs_ok (snd (Channels_Delete flt rid s))"
  by (auto simp: Channels_Delete_def configs_ok_def delete_row_ok split: option.split)

section \<open>Statements on accounts\<close>

lemma Users_Create_ok: "accounts_ok s \<Longrightarrow> accounts_ok (snd (Users_Create flt nid now u h s))"
  by (auto simp: Users_Create_def accounts_ok_def Let_def insert_unique_ok insert_unique_keys split: option.split)

lemma Users_Update_ok: "accounts_ok s \<Longrightarrow> accounts_ok (snd (Users_Update flt u s))"
  by (auto simp: Users_Update_def accounts_ok_def update_unique_ok split: option.split)

lemma Users_SetPassword_ok: "accounts_ok s \<Longrightarrow> accounts_ok (snd (Users_SetPassword flt rid h s))"
  by (auto simp: Users_SetPassword_def accounts_ok_def update_rows_ok keys_set [OF map_update_same] split: option.split)

lemma Users_TouchLogin_ok: "accounts_ok s \<Longrightarrow> accounts_ok (snd (Users_TouchLogin flt rid at s))"
  by (auto simp: Users_TouchLogin_def accounts_ok_def update_rows_ok keys_set [OF map_update_same] split: option.split)

lemma Users_Delete_ok: "accounts_ok s \<Longrightarrow> accounts_ok (snd (Users_Delete flt rid s))"
  by (auto simp: Users_Delete_def accounts_ok_def delete_row_ok delete_row_keys distinct_map_filter' split: option.split)

lemma Sessions_Create_ok: "accounts_ok s \<Longrightarrow> accounts_ok (snd (Sessions_Create flt x s))"
  by (auto simp: Sessions_Create_def accounts_ok_def exec_err_def find_row_None split: option.splits if_splits)

lemma Sessions_Touch_ok: "accounts_ok s \<Longrightarrow> accounts_ok (snd (Sessions_Touch flt rid seen ex s))"
  by (auto simp: Sessions_Touch_def accounts_ok_def map_update_same keys_set [OF map_update_same] split: option.split)

lemma Sessions_Delete_ok: "accounts_ok s \<Longrightarrow> accounts_ok (snd (Sessions_Delete flt rid s))"
  by (auto simp: Sessions_Delete_def accounts_ok_def delete_row_def distinct_map_filter' split: option.split)

lemma Sessions_DeleteForUser_ok: "accounts_ok s \<Longrightarrow> accounts_ok (snd (Sessions_DeleteForUser flt uid s))"
  by (auto simp: Sessions_DeleteForUser_def accounts_ok_def distinct_map_filter' split: option.split)

lemma Sessions_DeleteExpired_ok: "accounts_ok s \<Longrightarrow> accounts_ok (snd (Sessions_DeleteExpired flt now s))"
  by (auto simp: Sessions_DeleteExpired_def accounts_ok_def distinct_map_filter' split: option.split)

lemma Tokens_Create_ok: "accounts_ok s \<Longrightarrow> accounts_ok (snd (Tokens_Create flt nid now t h s))"
  by (auto simp: Tokens_Create_def accounts_ok_def Let_def exec_err_def insert_unique_ok split: option.splits if_splits)

lemma Tokens_TouchUsed_ok: "accounts_ok s \<Longrightarrow> accounts_ok (snd (Tokens_TouchUsed flt rid at s))"
  by (auto simp: Tokens_TouchUsed_def accounts_ok_def update_rows_ok split: option.split)

lemma Tokens_Delete_ok: "accounts_ok s \<Longrightarrow> accounts_ok (snd (Tokens_Delete flt rid s))"
  by (auto simp: Tokens_Delete_def accounts_ok_def delete_row_ok split: option.split)

section \<open>All statements\<close>

text \<open>The statements of the other repositories, each with its faults, the identifier drawn and the
  clock.\<close>

datatype config_statement =
    CreateSource "error option" string time Source
  | UpdateSource "error option" time Source
  | TestedSource "error option" string bool string time
  | DeleteSource "error option" string
  | CreateDestination "error option" string time Destination
  | UpdateDestination "error option" "error option" time Destination
  | TestedDestination "error option" string bool string time
  | DeleteDestination "error option" string
  | CreateHost "error option" string time Host
  | UpdateHost "error option" time Host
  | TestedHost "error option" time string bool string string "string list"
  | DeleteHost "error option" "error option" string
  | CreateChannel "error option" string time NotificationChannel
  | UpdateChannel "error option" time NotificationChannel
  | SentChannel "error option" string time string
  | DeleteChannel "error option" string

fun apply_config :: "config_statement \<Rightarrow> db \<Rightarrow> db" where
  "apply_config (CreateSource flt newID now x) s = snd (Sources_Create flt newID now x s)"
| "apply_config (UpdateSource flt now x) s = snd (Sources_Update flt now x s)"
| "apply_config (TestedSource flt rid ok msg at) s = snd (Sources_SetTestResult flt rid ok msg at s)"
| "apply_config (DeleteSource flt rid) s = snd (Sources_Delete flt rid s)"
| "apply_config (CreateDestination flt newID now d) s = snd (Destinations_Create flt newID now d s)"
| "apply_config (UpdateDestination flt flt2 now d) s = snd (Destinations_Update flt flt2 now d s)"
| "apply_config (TestedDestination flt rid ok msg at) s = snd (Destinations_SetTestResult flt rid ok msg at s)"
| "apply_config (DeleteDestination flt rid) s = snd (Destinations_Delete flt rid s)"
| "apply_config (CreateHost flt newID now h) s = snd (Hosts_Create flt newID now h s)"
| "apply_config (UpdateHost flt now h) s = snd (Hosts_Update flt now h s)"
| "apply_config (TestedHost flt now rid ok msg os tools) s = snd (Hosts_SetTestResult flt now rid ok msg os tools s)"
| "apply_config (DeleteHost flt flt2 rid) s = snd (Hosts_Delete flt flt2 rid s)"
| "apply_config (CreateChannel flt newID now c) s = snd (Channels_Create flt newID now c s)"
| "apply_config (UpdateChannel flt now c) s = snd (Channels_Update flt now c s)"
| "apply_config (SentChannel flt rid at msg) s = snd (Channels_SetSendResult flt rid at msg s)"
| "apply_config (DeleteChannel flt rid) s = snd (Channels_Delete flt rid s)"

datatype account_statement =
    CreateUser "error option" string time User string
  | UpdateUser "error option" User
  | SetUserPassword "error option" string string
  | TouchUser "error option" string time
  | DeleteUser "error option" string
  | CreateSession "error option" Session
  | TouchSession "error option" string time time
  | DeleteSession "error option" string
  | DeleteUserSessions "error option" string
  | DeleteExpiredSessions "error option" time
  | CreateToken "error option" string time APIToken string
  | TouchToken "error option" string time
  | DeleteToken "error option" string
  | RecordAudit "error option" string time AuditEntry
  | DeleteAudit "error option" time

fun apply_account :: "account_statement \<Rightarrow> db \<Rightarrow> db" where
  "apply_account (CreateUser flt newID now u hash) s = snd (Users_Create flt newID now u hash s)"
| "apply_account (UpdateUser flt u) s = snd (Users_Update flt u s)"
| "apply_account (SetUserPassword flt rid hash) s = snd (Users_SetPassword flt rid hash s)"
| "apply_account (TouchUser flt rid at) s = snd (Users_TouchLogin flt rid at s)"
| "apply_account (DeleteUser flt rid) s = snd (Users_Delete flt rid s)"
| "apply_account (CreateSession flt x) s = snd (Sessions_Create flt x s)"
| "apply_account (TouchSession flt rid seen expires) s = snd (Sessions_Touch flt rid seen expires s)"
| "apply_account (DeleteSession flt rid) s = snd (Sessions_Delete flt rid s)"
| "apply_account (DeleteUserSessions flt uid) s = snd (Sessions_DeleteForUser flt uid s)"
| "apply_account (DeleteExpiredSessions flt now) s = snd (Sessions_DeleteExpired flt now s)"
| "apply_account (CreateToken flt newID now t hash) s = snd (Tokens_Create flt newID now t hash s)"
| "apply_account (TouchToken flt rid at) s = snd (Tokens_TouchUsed flt rid at s)"
| "apply_account (DeleteToken flt rid) s = snd (Tokens_Delete flt rid s)"
| "apply_account (RecordAudit flt newID now x) s = snd (Audit_Record flt newID now x s)"
| "apply_account (DeleteAudit flt cutoff) s = snd (Audit_DeleteOlderThan flt cutoff s)"

datatype any_statement = Rows statement | Config config_statement | Account account_statement

fun apply_any :: "any_statement \<Rightarrow> db \<Rightarrow> db" where
  "apply_any (Rows st) s = apply_statement st s"
| "apply_any (Config st) s = apply_config st s"
| "apply_any (Account st) s = apply_account st s"

section \<open>What the statements leave alone\<close>

lemma apply_statement_frame:
  "t_sources (apply_statement st s) = t_sources s" "t_destinations (apply_statement st s) = t_destinations s"
  "t_hosts (apply_statement st s) = t_hosts s" "t_channels (apply_statement st s) = t_channels s"
  "t_users (apply_statement st s) = t_users s" "t_sessions (apply_statement st s) = t_sessions s"
  "t_tokens (apply_statement st s) = t_tokens s"
  by (cases st; simp add: Runs_Create_def Runs_Save_def Runs_DeleteOlderThan_def Runs_AppendLog_def Artifacts_Create_def
        Artifacts_SetStatus_def Artifacts_SetVerified_def Artifacts_Delete_def SetLastRun_def SetNextRun_def
        SetOverdue_def upsert_state_def Settings_Save_def Jobs_Create_def Jobs_Update_def Jobs_SetEnabled_def
        Jobs_Delete_def Let_def split: option.split)+

lemma apply_statement_sources:
  assumes "job_SourceID ` set (t_jobs s) \<subseteq> src_ID ` set (t_sources s)"
  shows "job_SourceID ` set (t_jobs (apply_statement st s)) \<subseteq> src_ID ` set (t_sources s)"
proof (cases st)
  case (CreateJob flt nid now j)
  with assms show ?thesis
    by (auto simp: Jobs_Create_def job_constraint_def find_row_None Let_def job_row_def split: option.split)
next
  case (UpdateJob flt flt2 flt3 now j)
  with assms show ?thesis
    by (auto simp: Jobs_Update_def job_constraint_def find_row_None Let_def job_row_def update_rows_def
        image_image split: option.split)
next
  case (EnableJob flt now jid b)
  with assms show ?thesis
    by (auto simp: Jobs_SetEnabled_def update_rows_def split: option.split)
next
  case (DeleteJob flt flt2 jid b)
  with assms show ?thesis by (auto simp: Jobs_Delete_def split: option.split)
qed (use assms in \<open>simp_all add: Runs_Create_def Runs_Save_def Runs_DeleteOlderThan_def Runs_AppendLog_def
      Artifacts_Create_def Artifacts_SetStatus_def Artifacts_SetVerified_def Artifacts_Delete_def SetLastRun_def
      SetNextRun_def SetOverdue_def upsert_state_def Settings_Save_def Let_def split: option.split\<close>)

lemma apply_config_frame:
  "t_runs (apply_config st s) = t_runs s" "t_run_logs (apply_config st s) = t_run_logs s"
  "map art_ID (t_artifacts (apply_config st s)) = map art_ID (t_artifacts s)"
  "t_jobs (apply_config st s) = t_jobs s" "t_job_state (apply_config st s) = t_job_state s"
  "t_users (apply_config st s) = t_users s" "t_sessions (apply_config st s) = t_sessions s"
  "t_tokens (apply_config st s) = t_tokens s"
  by (cases st; simp add: Sources_Create_def Sources_Update_def Sources_SetTestResult_def Sources_Delete_def
        Destinations_Create_def Destinations_Update_def Destinations_SetTestResult_def Destinations_Delete_def
        Hosts_Create_def Hosts_Update_def Hosts_SetTestResult_def Hosts_Delete_def Channels_Create_def
        Channels_Update_def Channels_SetSendResult_def Channels_Delete_def map_update_same Let_def split: option.split)+

lemma apply_account_frame:
  "t_runs (apply_account st s) = t_runs s" "t_run_logs (apply_account st s) = t_run_logs s"
  "t_artifacts (apply_account st s) = t_artifacts s" "t_jobs (apply_account st s) = t_jobs s"
  "t_job_state (apply_account st s) = t_job_state s" "t_sources (apply_account st s) = t_sources s"
  "t_destinations (apply_account st s) = t_destinations s" "t_hosts (apply_account st s) = t_hosts s"
  "t_channels (apply_account st s) = t_channels s"
  by (cases st; simp add: Users_Create_def Users_Update_def Users_SetPassword_def Users_TouchLogin_def Users_Delete_def
        Sessions_Create_def Sessions_Touch_def Sessions_Delete_def Sessions_DeleteForUser_def Sessions_DeleteExpired_def
        Tokens_Create_def Tokens_TouchUsed_def Tokens_Delete_def Audit_Record_def Audit_DeleteOlderThan_def
        Let_def split: option.split)+

lemma apply_config_ok: "configs_ok s \<Longrightarrow> configs_ok (apply_config st s)"
  by (cases st)
     (simp_all add: Sources_Create_ok Sources_Update_ok Sources_SetTestResult_ok Sources_Delete_ok
      Destinations_Create_ok Destinations_Update_ok Destinations_SetTestResult_ok Destinations_Delete_ok
      Hosts_Create_ok Hosts_Update_ok Hosts_SetTestResult_ok Hosts_Delete_ok
      Channels_Create_ok Channels_Update_ok Channels_SetSendResult_ok Channels_Delete_ok)

lemma audit_accounts_ok:
  "accounts_ok (snd (Audit_Record flt nid now x s)) = accounts_ok s"
  "accounts_ok (snd (Audit_DeleteOlderThan flt cutoff s)) = accounts_ok s"
  by (simp_all add: Audit_Record_def Audit_DeleteOlderThan_def accounts_ok_def Let_def split: option.split)

lemma apply_account_ok: "accounts_ok s \<Longrightarrow> accounts_ok (apply_account st s)"
  by (cases st)
     (simp_all add: Users_Create_ok Users_Update_ok Users_SetPassword_ok Users_TouchLogin_ok Users_Delete_ok
      Sessions_Create_ok Sessions_Touch_ok Sessions_Delete_ok Sessions_DeleteForUser_ok Sessions_DeleteExpired_ok
      Tokens_Create_ok Tokens_TouchUsed_ok Tokens_Delete_ok audit_accounts_ok)

lemma db_ok_cong:
  assumes "t_runs s' = t_runs s" "t_run_logs s' = t_run_logs s" "map art_ID (t_artifacts s') = map art_ID (t_artifacts s)"
    "t_jobs s' = t_jobs s" "t_job_state s' = t_job_state s"
  shows "db_ok s' = db_ok s"
  by (simp add: db_ok_def assms)

lemma apply_any_ok: "store_ok s \<Longrightarrow> store_ok (apply_any st s)"
proof (cases st)
  case (Rows x)
  assume "store_ok s"
  then have "db_ok (apply_statement x s)" "configs_ok (apply_statement x s)" "accounts_ok (apply_statement x s)"
    using apply_statement_ok [of s x] apply_statement_sources [of s x]
    by (simp_all add: store_ok_def configs_ok_def accounts_ok_def apply_statement_frame)
  with Rows show ?thesis by (simp add: store_ok_def)
next
  case (Config x)
  assume "store_ok s"
  then show ?thesis
    using Config apply_config_ok [of s x] db_ok_cong [of "apply_config x s" s]
    by (simp add: store_ok_def accounts_ok_def apply_config_frame)
next
  case (Account x)
  assume "store_ok s"
  then show ?thesis
    using Account apply_account_ok [of s x] db_ok_cong [of "apply_account x s" s]
    by (simp add: store_ok_def configs_ok_def apply_account_frame)
qed

lemma empty_store_ok: "store_ok empty_db"
  using empty_db_ok by (simp add: store_ok_def configs_ok_def accounts_ok_def unique_rows_def) (simp add: empty_db_def)

section \<open>Properties\<close>

text \<open>No sequence of statements of any repository, from an empty database and whatever
  statement fails at any point, breaks the integrity of the database: identifiers, slugs, names, addresses
  and token hashes stay unique, every job has its source, every session its user, job states belong to
  jobs and log chunks to runs.\<close>

theorem database_integrity: "store_ok (fold apply_any statements empty_db)"
  by (rule fold_invariant [where Q = "\<lambda>_. True"]) (simp_all add: apply_any_ok empty_store_ok)

end
