(* ===== verification/Auth.thy ===== *)
theory Auth
  imports Store_Integrity Secrets
begin

text \<open>
  Package \<open>internal/auth\<close>, first part: password hashes (password.go), principals and scopes
  (principal.go, parts of middleware.go) and the login rate limiter (ratelimit.go). The key
  derivation of Argon2 is code outside the repository: a parameter \<open>K\<close> that takes the password, the
  salt, iterations, memory, parallelism and the length of the key.
\<close>

section \<open>Splitting and scanning\<close>

text \<open>\<open>strings.Split\<close> at a separator of one byte.\<close>

fun split_on :: "char \<Rightarrow> string \<Rightarrow> string list" where
  "split_on c [] = [[]]"
| "split_on c (x # xs) =
     (if x = c then [] # split_on c xs
      else (case split_on c xs of [] \<Rightarrow> [[x]] | y # ys \<Rightarrow> (x # y) # ys))"

text \<open>\<open>fmt.Sscanf\<close>: literal text must match; \<open>%d\<close> skips spaces, but no newline, and takes a sign if
  the target is signed and then all the digits that follow. What is left of the input is ignored.\<close>

definition scan_lit :: "string \<Rightarrow> string \<Rightarrow> string option" where
  "scan_lit p s = (if HasPrefix s p then Some (drop (length p) s) else None)"

definition scan_space :: "string \<Rightarrow> string option" where
  "scan_space s =
     (let t = trim_runes space_runes s
      in if CHR 0x0A \<in> set (take (length s - length t) s) then None else Some t)"

definition scan_digits :: "string \<Rightarrow> (int \<times> string) option" where
  "scan_digits s =
     (let ds = takeWhile is_digit s in if ds = [] then None else Some (int (decimal_value ds), dropWhile is_digit s))"

definition scan_uint :: "nat \<Rightarrow> string \<Rightarrow> (int \<times> string) option" where
  "scan_uint bits s =
     (case scan_space s of
        None \<Rightarrow> None
      | Some t \<Rightarrow>
          (case scan_digits t of
             None \<Rightarrow> None
           | Some (n, rest) \<Rightarrow> if n < 2 ^ bits then Some (n, rest) else None))"

definition scan_int :: "string \<Rightarrow> (int \<times> string) option" where
  "scan_int s =
     (case scan_space s of
        None \<Rightarrow> None
      | Some t \<Rightarrow>
          (let sign = (if HasPrefix t ''-'' then - 1 else 1);
               body = (if HasPrefix t ''-'' \<or> HasPrefix t ''+'' then drop 1 t else t)
           in case scan_digits body of
                None \<Rightarrow> None
              | Some (n, rest) \<Rightarrow> if in_int64 (sign * n) then Some (sign * n, rest) else None))"

definition and_then :: "'a option \<Rightarrow> ('a \<Rightarrow> 'b option) \<Rightarrow> 'b option" where
  "and_then x f = (case x of None \<Rightarrow> None | Some a \<Rightarrow> f a)"

section \<open>Passwords\<close>

type_synonym kdf = "string \<Rightarrow> string \<Rightarrow> int \<Rightarrow> int \<Rightarrow> int \<Rightarrow> int \<Rightarrow> string"

record argonParams =
  ap_memory :: int
  ap_iterations :: int
  ap_parallelism :: int
  ap_saltLength :: nat
  ap_keyLength :: int

definition defaultArgon :: argonParams where
  "defaultArgon = \<lparr>ap_memory = 64 * 1024, ap_iterations = 3, ap_parallelism = 2, ap_saltLength = 16, ap_keyLength = 32\<rparr>"

definition argon2_Version :: int where "argon2_Version = 19"

definition invalid_hash :: error where
  "invalid_hash = GoErr (Some ErrInvalidHash) ''invalid password hash''"

definition derive :: "kdf \<Rightarrow> argonParams \<Rightarrow> string \<Rightarrow> string \<Rightarrow> int \<Rightarrow> string" where
  "derive K p password salt len = K password salt (ap_iterations p) (ap_memory p) (ap_parallelism p) len"

text \<open>\<open>rnd\<close> is the outcome of \<open>rand.Read\<close> on a buffer of \<open>saltLength\<close> bytes.\<close>

definition HashPassword :: "kdf \<Rightarrow> string result \<Rightarrow> string \<Rightarrow> string result" where
  "HashPassword K rnd password =
     (let p = defaultArgon
      in case rnd of
           Inl e \<Rightarrow> Inl (wrapf ''generate salt'' e)
         | Inr salt \<Rightarrow>
             Inr (''$argon2id$v='' @ Itoa argon2_Version @ ''$m='' @ Itoa (ap_memory p) @ '',t='' @ Itoa (ap_iterations p)
               @ '',p='' @ Itoa (ap_parallelism p) @ ''$'' @ b64_encode False salt @ ''$''
               @ b64_encode False (derive K p password salt (ap_keyLength p))))"

definition scan_version :: "string \<Rightarrow> int option" where
  "scan_version s = and_then (scan_lit ''v='' s) (\<lambda>t. map_option fst (scan_int t))"

definition scan_params :: "string \<Rightarrow> argonParams option" where
  "scan_params s =
     and_then (scan_lit ''m='' s) (\<lambda>s1. and_then (scan_uint 32 s1) (\<lambda>(m, s2).
     and_then (scan_lit '',t='' s2) (\<lambda>s3. and_then (scan_uint 32 s3) (\<lambda>(t, s4).
     and_then (scan_lit '',p='' s4) (\<lambda>s5. and_then (scan_uint 8 s5) (\<lambda>(p, s6).
       Some \<lparr>ap_memory = m, ap_iterations = t, ap_parallelism = p, ap_saltLength = 0, ap_keyLength = 0\<rparr>))))))"

definition VerifyPassword :: "kdf \<Rightarrow> string \<Rightarrow> string \<Rightarrow> bool result" where
  "VerifyPassword K encoded password =
     (case split_on (CHR ''$'') encoded of
        [p0, p1, p2, p3, p4, p5] \<Rightarrow>
          if p1 \<noteq> ''argon2id'' then Inl invalid_hash
          else (case scan_version p2 of
                  None \<Rightarrow> Inl invalid_hash
                | Some version \<Rightarrow>
                    if version \<noteq> argon2_Version
                    then Inl (wrapf (''unsupported argon2 version '' @ Itoa version) invalid_hash)
                    else (case scan_params p3 of
                            None \<Rightarrow> Inl invalid_hash
                          | Some p \<Rightarrow>
                              (case b64_decode_raw False p4 of
                                 None \<Rightarrow> Inl invalid_hash
                               | Some salt \<Rightarrow>
                                   (case b64_decode_raw False p5 of
                                      None \<Rightarrow> Inl invalid_hash
                                    | Some want \<Rightarrow>
                                        Inr (derive K p password salt (int (length want) mod 2 ^ 32) = want)))))
      | _ \<Rightarrow> Inl invalid_hash)"

definition ValidatePassword :: "string \<Rightarrow> error option" where
  "ValidatePassword password =
     (if length password < 10 then Some (errNew ''password must be at least 10 characters'')
      else if 512 < length password then Some (errNew ''password must be at most 512 characters'')
      else None)"

section \<open>Principals\<close>

datatype AuthType = AuthSession | AuthToken

record Principal =
  pr_Type :: AuthType
  pr_User :: "User option"
  pr_TokenID :: string
  pr_TokenName :: string
  pr_Scopes :: "string list"
  pr_JobSlugs :: "string list"
  pr_SessionID :: string

text \<open>Methods of a nil pointer are allowed, so a principal is an option.\<close>

definition Principal_Label :: "Principal option \<Rightarrow> string" where
  "Principal_Label po =
     (case po of
        None \<Rightarrow> ''anonymous''
      | Some p \<Rightarrow>
          (case pr_User p of
             Some u \<Rightarrow> if usr_Email u \<noteq> [] then usr_Email u else usr_Name u
           | None \<Rightarrow> if pr_TokenName p \<noteq> [] then ''token:'' @ pr_TokenName p else ''token''))"

definition Principal_ID :: "Principal option \<Rightarrow> string" where
  "Principal_ID po =
     (case po of None \<Rightarrow> [] | Some p \<Rightarrow> (case pr_User p of Some u \<Rightarrow> usr_ID u | None \<Rightarrow> pr_TokenID p))"

definition HasScope :: "Principal option \<Rightarrow> string \<Rightarrow> bool" where
  "HasScope po scope =
     (case po of
        None \<Rightarrow> False
      | Some p \<Rightarrow> list_ex (\<lambda>x. x = scope \<or> x = ScopeAdmin \<or> (x = ScopeRun \<and> scope = ScopeRead)) (pr_Scopes p))"

definition IsAdmin :: "Principal option \<Rightarrow> bool" where
  "IsAdmin po = HasScope po ScopeAdmin"

definition AllowsJob :: "Principal option \<Rightarrow> string \<Rightarrow> bool" where
  "AllowsJob po slug =
     (case po of
        None \<Rightarrow> False
      | Some p \<Rightarrow> pr_JobSlugs p = [] \<or> list_ex (\<lambda>x. x = slug) (pr_JobSlugs p))"

definition ScopesForRole :: "UserRole \<Rightarrow> string list" where
  "ScopesForRole role =
     (if role = RoleAdmin then [ScopeAdmin, ScopeRead, ScopeRun, ScopeIngest] else [ScopeRead])"

definition RequireJobAccess :: "Principal option \<Rightarrow> string \<Rightarrow> error option" where
  "RequireJobAccess po slug =
     (if po = None then Some (errNew ''authentication required'')
      else if \<not> AllowsJob po slug then Some (errNew (''token is not allowed to use job '' @ slug))
      else None)"

definition known_scopes :: "string list" where
  "known_scopes = [ScopeAdmin, ScopeRead, ScopeRun, ScopeIngest]"

definition ValidateScopes :: "string list \<Rightarrow> error option" where
  "ValidateScopes scopes =
     (if scopes = [] then Some (errNew ''at least one scope is required'')
      else (case find (\<lambda>x. x \<notin> set known_scopes) scopes of
              None \<Rightarrow> None
            | Some x \<Rightarrow> Some (errNew (''unknown scope: '' @ x))))"

section \<open>The rate limiter\<close>

record RateLimiter =
  rl_hits :: "string \<rightharpoonup> time list"
  rl_limit :: int
  rl_window :: duration
  rl_lastScan :: time

definition NewRateLimiter :: "int \<Rightarrow> duration \<Rightarrow> RateLimiter" where
  "NewRateLimiter limit window = \<lparr>rl_hits = Map.empty, rl_limit = limit, rl_window = window, rl_lastScan = 0\<rparr>"

text \<open>A missing key reads as the empty slice.\<close>

definition hits_of :: "RateLimiter \<Rightarrow> string \<Rightarrow> time list" where
  "hits_of l k = (case rl_hits l k of None \<Rightarrow> [] | Some ts \<Rightarrow> ts)"

definition scan_hits :: "time \<Rightarrow> RateLimiter \<Rightarrow> RateLimiter" where
  "scan_hits now l =
     (if rl_window l < Sub now (rl_lastScan l)
      then l\<lparr>rl_hits := (\<lambda>k. case rl_hits l k of
                            None \<Rightarrow> None
                          | Some ts \<Rightarrow> if ts = [] \<or> rl_window l < Sub now (last ts) then None else Some ts),
             rl_lastScan := now\<rparr>
      else l)"

definition Allow :: "string \<Rightarrow> time \<Rightarrow> RateLimiter \<Rightarrow> bool \<times> RateLimiter" where
  "Allow k now l =
     (let l1 = scan_hits now l;
          cutoff = now - rl_window l1;
          kept = filter (\<lambda>t. cutoff < t) (hits_of l1 k)
      in if rl_limit l1 \<le> int (length kept) then (False, l1\<lparr>rl_hits := (rl_hits l1)(k \<mapsto> kept)\<rparr>)
         else (True, l1\<lparr>rl_hits := (rl_hits l1)(k \<mapsto> kept @ [now])\<rparr>))"

definition Reset :: "string \<Rightarrow> RateLimiter \<Rightarrow> RateLimiter" where
  "Reset k l = l\<lparr>rl_hits := (rl_hits l)(k := None)\<rparr>"

section \<open>A sliding window\<close>

text \<open>The reference: all admitted attempts are remembered; an attempt is admitted if fewer than
  \<open>limit\<close> of them lie in the window before it.\<close>

datatype login_event = Attempt string time | Cleared string

fun limiter_run :: "login_event list \<Rightarrow> RateLimiter \<Rightarrow> bool list" where
  "limiter_run [] l = []"
| "limiter_run (Attempt k t # es) l = (case Allow k t l of (b, l') \<Rightarrow> b # limiter_run es l')"
| "limiter_run (Cleared k # es) l = limiter_run es (Reset k l)"

definition in_window :: "duration \<Rightarrow> time \<Rightarrow> time list \<Rightarrow> time list" where
  "in_window w t ts = filter (\<lambda>u. t - w < u) ts"

fun window_run :: "int \<Rightarrow> duration \<Rightarrow> login_event list \<Rightarrow> (string \<Rightarrow> time list) \<Rightarrow> bool list" where
  "window_run limit w [] h = []"
| "window_run limit w (Attempt k t # es) h =
     (let ok = int (length (in_window w t (h k))) < limit
      in ok # window_run limit w es (if ok then h(k := h k @ [t]) else h))"
| "window_run limit w (Cleared k # es) h = window_run limit w es (h(k := []))"

fun event_times :: "login_event list \<Rightarrow> time list" where
  "event_times [] = []"
| "event_times (Attempt k t # es) = t # event_times es"
| "event_times (Cleared k # es) = event_times es"

definition tracks :: "int \<Rightarrow> duration \<Rightarrow> time \<Rightarrow> RateLimiter \<Rightarrow> (string \<Rightarrow> time list) \<Rightarrow> bool" where
  "tracks limit w now l h \<longleftrightarrow> rl_limit l = limit \<and> rl_window l = w
     \<and> (\<forall>k. in_window w now (hits_of l k) = in_window w now (h k) \<and> sorted (hits_of l k)
       \<and> (\<forall>u\<in>set (hits_of l k). u \<le> now))"

lemma Sub_window: "0 \<le> w \<Longrightarrow> w < 2 ^ 63 - 1 \<Longrightarrow> w < Sub t u \<longleftrightarrow> w < t - u"
  by (auto simp: Sub_def)

lemma in_window_later: "t \<le> t' \<Longrightarrow> in_window w t' (in_window w t ts) = in_window w t' ts"
  unfolding in_window_def filter_filter by (rule filter_cong) auto

lemma tracks_later: "tracks limit w t l h \<Longrightarrow> t \<le> t' \<Longrightarrow> tracks limit w t' l h"
  unfolding tracks_def by (metis in_window_later order_trans)

lemma sorted_last: "sorted ts \<Longrightarrow> u \<in> set ts \<Longrightarrow> u \<le> last ts" for ts :: "time list"
  by (induction ts) (auto split: if_splits)

lemma hits_scan:
  assumes "0 \<le> rl_window l" and "rl_window l < 2 ^ 63 - 1" and "sorted (hits_of l k)"
  shows "in_window (rl_window l) now (hits_of (scan_hits now l) k) = in_window (rl_window l) now (hits_of l k)"
    and "sorted (hits_of (scan_hits now l) k)"
    and "rl_limit (scan_hits now l) = rl_limit l" and "rl_window (scan_hits now l) = rl_window l"
    and "set (hits_of (scan_hits now l) k) \<subseteq> set (hits_of l k)"
proof -
  note sub = Sub_window [OF assms(1,2)]
  have old: "in_window (rl_window l) now ts = []" if "rl_window l < now - last ts" "sorted ts" for ts
    using sorted_last [OF that(2)] that(1) by (force simp: in_window_def filter_empty_conv)
  show "in_window (rl_window l) now (hits_of (scan_hits now l) k) = in_window (rl_window l) now (hits_of l k)"
    using assms(3) old by (auto simp: hits_of_def scan_hits_def sub in_window_def split: option.split)
  show "sorted (hits_of (scan_hits now l) k)"
    using assms(3) by (auto simp: hits_of_def scan_hits_def split: option.split)
qed (auto simp: scan_hits_def hits_of_def split: option.split if_splits)

lemma Allow_tracks:
  assumes "tracks limit w t l h" and "0 \<le> w" and "w < 2 ^ 63 - 1" and "Allow k t l = (b, l')"
  shows "b \<longleftrightarrow> int (length (in_window w t (h k))) < limit"
    and "tracks limit w t l' (if b then h(k := h k @ [t]) else h)"
proof -
  let ?l1 = "scan_hits t l"
  from assms(1) have lim: "rl_limit l = limit" "rl_window l = w"
    and eq: "in_window w t (hits_of l j) = in_window w t (h j)" and sorted: "sorted (hits_of l j)"
    and past: "u \<in> set (hits_of l j) \<Longrightarrow> u \<le> t" for j u
    by (auto simp: tracks_def)
  have s: "in_window w t (hits_of ?l1 j) = in_window w t (h j)" "sorted (hits_of ?l1 j)"
    "rl_limit ?l1 = limit" "rl_window ?l1 = w" and past1: "u \<in> set (hits_of ?l1 j) \<Longrightarrow> u \<le> t" for j u
    using hits_scan [where l = l and k = j and now = t] lim eq [of j] sorted [of j] past [of u j] assms(2,3) by auto
  let ?kept = "in_window w t (h k)"
  have res: "b = (int (length ?kept) < limit)"
    "l' = ?l1\<lparr>rl_hits := (rl_hits ?l1)(k \<mapsto> if b then ?kept @ [t] else ?kept)\<rparr>"
    using assms(4) s(1) [of k] s(3,4) by (auto simp: Allow_def Let_def in_window_def split: if_splits)
  then show "b \<longleftrightarrow> int (length (in_window w t (h k))) < limit" by simp
  have sk: "sorted ?kept"
    using sorted_wrt_filter [OF s(2) [of k], of "\<lambda>u. t - w < u"] unfolding s(1) [of k, symmetric] unfolding in_window_def .
  have past2: "u \<le> t" if "u \<in> set ?kept" for u
    using that past1 [of u k] unfolding s(1) [of k, symmetric] by (simp add: in_window_def)
  have new: "in_window w t (?kept @ xs) = in_window w t (h k @ xs)" for xs
    by (simp add: in_window_def)
  have "in_window w t (hits_of l' j) = in_window w t ((if b then h(k := h k @ [t]) else h) j)" for j
    using s(1) [of j] new [of "[t]"] new [of "[]"] by (simp add: res(2) hits_of_def)
  moreover have "sorted (hits_of l' j)" for j
  proof (cases "j = k")
    case True
    with True sk past2 show ?thesis by (auto simp: res(2) hits_of_def sorted_append)
  qed (use s(2) [of j] in \<open>simp add: res(2) hits_of_def\<close>)
  moreover have "u \<le> t" if "u \<in> set (hits_of l' j)" for u j
    using that past1 [of u j] past2 [of u] by (auto simp: res(2) hits_of_def split: if_splits)
  ultimately show "tracks limit w t l' (if b then h(k := h k @ [t]) else h)"
    using s(3,4) by (simp add: tracks_def res(2))
qed

lemma Reset_tracks: "tracks limit w t l h \<Longrightarrow> tracks limit w t (Reset k l) (h(k := []))"
  by (auto simp: tracks_def Reset_def hits_of_def)

lemma limiter_tracks:
  assumes "tracks limit w t l h" and "0 \<le> w" and "w < 2 ^ 63 - 1" and "sorted (t # event_times es)"
  shows "limiter_run es l = window_run limit w es h"
  using assms(1,4)
proof (induction es arbitrary: t l h rule: event_times.induct)
  case (2 k u es)
  obtain b l' where allow: "Allow k u l = (b, l')" by fastforce
  have "tracks limit w u l h" using 2(2,3) by (auto intro: tracks_later)
  note step = Allow_tracks [OF this assms(2,3) allow]
  have "limiter_run es l' = window_run limit w es (if b then h(k := h k @ [u]) else h)"
    using 2(3) by (intro 2(1) [OF step(2)]) simp
  with allow step(1) show ?case by (simp add: Let_def)
next
  case (3 k es)
  have "limiter_run es (Reset k l) = window_run limit w es (h(k := []))"
    by (rule 3(1) [OF Reset_tracks [OF 3(2)]]) (use 3(3) in simp)
  then show ?case by simp
qed simp

section \<open>Passwords survive a round trip\<close>

lemma split_on_nonempty [simp]: "split_on c s \<noteq> []"
  by (induction s) (auto split: list.split)

lemma split_on_single: "c \<notin> set s \<Longrightarrow> split_on c s = [s]"
  by (induction s) auto

lemma split_on_append: "c \<notin> set s \<Longrightarrow> split_on c (s @ c # t) = s # split_on c t"
  by (induction s) auto

lemma b64_no_dollar: "CHR ''$'' \<notin> set (b64_encode url s)"
proof -
  have "b64digit url d \<noteq> CHR ''$''" if "d < 64" for d
  proof -
    have "list_all (\<lambda>d. b64digit True d \<noteq> CHR ''$'' \<and> b64digit False d \<noteq> CHR ''$'') [0..<64]" by code_simp
    with that show ?thesis by (cases url) (simp_all add: list_all_iff)
  qed
  then show ?thesis
    using b64_digits_range unfolding b64_encode_digits by fastforce
qed

lemma hash_parts:
  "split_on (CHR ''$'') (''$argon2id$v=19$m=65536,t=3,p=2$'' @ b64_encode False salt @ ''$'' @ b64_encode False key)
    = [[], ''argon2id'', ''v=19'', ''m=65536,t=3,p=2'', b64_encode False salt, b64_encode False key]"
  using b64_no_dollar [of False salt] b64_no_dollar [of False key]
  by (simp add: split_on_append split_on_single)

lemma scan_space_printable: "s \<noteq> [] \<Longrightarrow> printable (hd s) \<Longrightarrow> scan_space s = Some s"
  by (simp add: scan_space_def trim_runes_space)

lemma scan_hash:
  "scan_version ''v=19'' = Some 19"
  "scan_params ''m=65536,t=3,p=2''
    = Some \<lparr>ap_memory = 65536, ap_iterations = 3, ap_parallelism = 2, ap_saltLength = 0, ap_keyLength = 0\<rparr>"
  by (simp_all add: scan_version_def scan_params_def and_then_def scan_lit_def HasPrefix_def scan_int_def scan_uint_def
      scan_space_printable printable_def scan_digits_def is_digit_def decimal_value_def digit_value_def in_int64_def Let_def)

lemma hash_text:
  "Itoa 19 = ''19''" "Itoa 65536 = ''65536''" "Itoa 3 = ''3''" "Itoa 2 = ''2''"
  by (simp_all add: Itoa_def digits_of.simps)

definition encoded_hash :: "kdf \<Rightarrow> string \<Rightarrow> string \<Rightarrow> string" where
  "encoded_hash K salt password = ''$argon2id$v=19$m=65536,t=3,p=2$'' @ b64_encode False salt @ ''$''
     @ b64_encode False (K password salt 3 65536 2 32)"

lemma HashPassword_encoded: "HashPassword K (Inr salt) password = Inr (encoded_hash K salt password)"
  by (simp add: HashPassword_def defaultArgon_def argon2_Version_def hash_text derive_def Let_def encoded_hash_def)

lemma encoded_verifies:
  assumes "length (K password salt 3 65536 2 32) = 32"
  shows "VerifyPassword K (encoded_hash K salt password) given
    = Inr (K given salt 3 65536 2 32 = K password salt 3 65536 2 32)"
proof -
  have "int (length (K password salt 3 65536 2 32)) mod 2 ^ 32 = 32" by (simp add: assms)
  then show ?thesis
    unfolding VerifyPassword_def encoded_hash_def hash_parts
    by (simp add: scan_hash argon2_Version_def b64_roundtrip derive_def)
qed

section \<open>Properties\<close>

text \<open>C25 (roundtrip): a stored password hash verifies exactly the passwords with the same derived key.
  The text HashPassword produces parses back to the same salt, parameters and key, so VerifyPassword
  accepts the password that was hashed, never fails on it, and accepts another one only if Argon2
  derives the same key from it.\<close>

theorem HashPassword_verifies:
  assumes "\<And>pw salt t m p n. length (K pw salt t m p n) = nat n"
    and "HashPassword K (Inr salt) password = Inr encoded"
  shows "VerifyPassword K encoded given
    = Inr (K given salt 3 65536 2 32 = K password salt 3 65536 2 32)"
  using assms(2) by (auto simp: HashPassword_encoded encoded_verifies assms(1))

theorem HashPassword_verifies_witness:
  "\<exists>encoded. HashPassword (\<lambda>pw salt t m p n. take (nat n) (pw @ replicate (nat n) (CHR ''x''))) (Inr ''0123456789abcdef'') ''secret'' = Inr encoded
    \<and> VerifyPassword (\<lambda>pw salt t m p n. take (nat n) (pw @ replicate (nat n) (CHR ''x''))) encoded ''secret'' = Inr True"
proof -
  let ?K = "\<lambda>pw salt t m p n. take (nat n) (pw @ replicate (nat n) (CHR ''x''))"
  obtain encoded where h: "HashPassword ?K (Inr ''0123456789abcdef'') ''secret'' = Inr encoded"
    by (simp add: HashPassword_def Let_def)
  then have "VerifyPassword ?K encoded ''secret'' = Inr True"
    using HashPassword_verifies [of ?K "''0123456789abcdef''" "''secret''" encoded "''secret''"] by simp
  with h show ?thesis by blast
qed

text \<open>C26 (equivalence): the login limiter is an exact sliding window. For attempts in the order of time,
  with its periodic scan, pruned lists and resets, it admits an attempt exactly if fewer than \<open>limit\<close>
  admitted attempts of the same client lie in the window before it, counted from the last reset.\<close>

theorem limiter_is_sliding_window:
  assumes "0 \<le> w" and "w < 2 ^ 63 - 1" and "sorted (event_times es)"
  shows "limiter_run es (NewRateLimiter limit w) = window_run limit w es (\<lambda>_. [])"
proof -
  define t where "t = (case event_times es of [] \<Rightarrow> 0 | u # _ \<Rightarrow> u)"
  have "sorted (t # event_times es)" using assms(3) by (cases "event_times es") (auto simp: t_def)
  moreover have "tracks limit w t (NewRateLimiter limit w) (\<lambda>_. [])"
    by (simp add: tracks_def NewRateLimiter_def hits_of_def)
  ultimately show ?thesis by (intro limiter_tracks [OF _ assms(1,2)])
qed

theorem limiter_is_sliding_window_witness:
  "limiter_run (map (\<lambda>i. Attempt ''ip'' (int i)) [0..<7]) (NewRateLimiter 5 60) = [True, True, True, True, True, False, False]"
  using limiter_is_sliding_window [of 60 "map (\<lambda>i. Attempt ''ip'' (int i)) [0..<7]" 5]
  by (simp add: upt_rec in_window_def)

end
