(* ===== verification/Remote.thy ===== *)
theory Remote
  imports Core_Config
begin

text \<open>
  Hosts reached over SSH (internal/remote/remote.go): the checks on a host, its keys, the pinned host key,
  the scrubbing of secrets from messages, and the quoting of commands for the shell of the host. Connections
  and streams are not modelled. Parsing and making keys is the work of the SSH library, a parameter.
\<close>

section \<open>Keys\<close>

text \<open>What the SSH library says of a private key with a passphrase (\<open>None\<close>: without one): the line of its
  public key, that a passphrase is missing, or another error.\<close>

datatype parsed_key = PublicLine string | PassphraseMissing | BadKey error

type_synonym key_parser = "string \<Rightarrow> string option \<Rightarrow> parsed_key"

definition parseSigner :: "key_parser \<Rightarrow> Host \<Rightarrow> string result" where
  "parseSigner parse h =
     (let pem = TrimSpace (host_PrivateKey h) in
      if pem = [] then Inl (errNew ''private key is empty'')
      else (case parse pem (if host_KeyPassphrase h \<noteq> [] then Some (host_KeyPassphrase h) else None) of
              PublicLine line \<Rightarrow> Inr line
            | PassphraseMissing \<Rightarrow> Inl (errNew ''the private key is encrypted, set the key passphrase'')
            | BadKey e \<Rightarrow> Inl (wrapf ''parse private key'' e)))"

definition PublicKeyOf :: "key_parser \<Rightarrow> Host \<Rightarrow> string result" where
  "PublicKeyOf parse h = (case parseSigner parse h of Inl e \<Rightarrow> Inl e | Inr line \<Rightarrow> Inr (TrimSpace line))"

text \<open>A generated key: the private key for the comment and the line of the public key, or the step that
  failed and its error.\<close>

type_synonym key_maker = "string \<Rightarrow> (string \<times> error) + (string \<times> string)"

definition GenerateKey :: "key_maker \<Rightarrow> string \<Rightarrow> (string \<times> string) result" where
  "GenerateKey generate comment =
     (case generate comment of
        Inl (step, e) \<Rightarrow> Inl (wrapf step e)
      | Inr (pem, line) \<Rightarrow> Inr (pem, TrimSpace line @ (if comment \<noteq> [] then '' '' @ comment else [])))"

section \<open>Checks\<close>

definition DefaultPort :: int where "DefaultPort = 22"

definition SHA256_marker :: string where "SHA256_marker = ''SHA256:''"

definition problem_if :: "bool \<Rightarrow> string \<Rightarrow> string list" where
  "problem_if b message = (if b then [message] else [])"

definition auth_problems :: "key_parser \<Rightarrow> Host \<Rightarrow> string list" where
  "auth_problems parse h =
     (case host_Auth h of
        HostAuthPassword \<Rightarrow> problem_if (host_Password h = []) ''a password is required for password authentication''
      | auth \<Rightarrow>
          if auth \<noteq> HostAuthKey \<and> auth \<noteq> HostAuthOther [] then [''auth must be key or password'']
          else if TrimSpace (host_PrivateKey h) = [] then [''a private key is required for key authentication'']
          else (case parseSigner parse h of Inl e \<Rightarrow> [Error e] | Inr _ \<Rightarrow> []))"

definition bad_fingerprint :: "string \<Rightarrow> bool" where
  "bad_fingerprint hostKey \<longleftrightarrow> TrimSpace hostKey \<noteq> [] \<and> \<not> HasPrefix (TrimSpace hostKey) SHA256_marker"

definition Validate :: "key_parser \<Rightarrow> Host \<Rightarrow> error option" where
  "Validate parse h =
     (let problems =
        problem_if (TrimSpace (host_Address h) = []) ''address is required''
        @ problem_if (host_Port h < 0 \<or> 65535 < host_Port h) ''port must be between 1 and 65535''
        @ problem_if (TrimSpace (host_User h) = []) ''user is required''
        @ auth_problems parse h
        @ problem_if (bad_fingerprint (host_HostKey h)) ''host key fingerprint must look like SHA256:abc...''
      in if problems \<noteq> [] then Some (errNew (Join problems ''; '')) else None)"

text \<open>What the client offers to the server: a password (also for every question asked) or a key.\<close>

datatype auth_method = OfferPassword string | OfferKey string

definition authMethods :: "key_parser \<Rightarrow> Host \<Rightarrow> auth_method list result" where
  "authMethods parse h =
     (if host_Auth h = HostAuthPassword
      then (if host_Password h = [] then Inl (errNew ''password authentication selected but no password is set'')
            else Inr [OfferPassword (host_Password h)])
      else (case parseSigner parse h of Inl e \<Rightarrow> Inl e | Inr line \<Rightarrow> Inr [OfferKey line]))"

text \<open>The callback judges the fingerprint a server shows; without a pinned fingerprint it accepts any.\<close>

definition hostKeyCallback :: "Host \<Rightarrow> (string \<Rightarrow> string \<Rightarrow> error option) result" where
  "hostKeyCallback h =
     (let expected = TrimSpace (host_HostKey h) in
      if expected = [] then Inr (\<lambda>_ _. None)
      else if \<not> HasPrefix expected SHA256_marker then Inl (errNew ''host key fingerprint must look like SHA256:abc...'')
      else Inr (\<lambda>hostname got.
             if got \<noteq> expected
             then Some (errNew (''host key mismatch for '' @ hostname @ '': expected '' @ expected @ '', got '' @ got))
             else None))"

section \<open>Scrubbing\<close>

text \<open>\<open>strings.ReplaceAll\<close> for a non-empty text to replace.\<close>

function ReplaceAll :: "string \<Rightarrow> string \<Rightarrow> string \<Rightarrow> string" where
  "ReplaceAll [] old new = []"
| "ReplaceAll (c # s) old new =
     (if old \<noteq> [] \<and> HasPrefix (c # s) old then new @ ReplaceAll (drop (length old) (c # s)) old new
      else c # ReplaceAll s old new)"
  by pat_completeness auto
termination
  by (relation "measure (\<lambda>(s, old, new). length s)") (auto simp: length_greater_0_conv)

definition stars :: string where "stars = ''***''"

definition scrub_values :: "string list \<Rightarrow> string \<Rightarrow> string" where
  "scrub_values secrets text = fold (\<lambda>v t. if 3 \<le> length v then ReplaceAll t v stars else t) secrets text"

definition ScrubText :: "Host \<Rightarrow> string \<Rightarrow> string" where
  "ScrubText h text = scrub_values [host_Password h, host_KeyPassphrase h, host_PrivateKey h] text"

definition Scrub :: "Host \<Rightarrow> error option \<Rightarrow> error option" where
  "Scrub h err =
     (case err of
        None \<Rightarrow> None
      | Some e \<Rightarrow> if ScrubText h (Error e) = Error e then Some e else Some (errNew (ScrubText h (Error e))))"

definition Client_scrub :: "Host \<Rightarrow> string list \<Rightarrow> string \<Rightarrow> string" where
  "Client_scrub h redact text = scrub_values redact (ScrubText h text)"

section \<open>Commands\<close>

definition alphanumeric :: "char \<Rightarrow> bool" where
  "alphanumeric c \<longleftrightarrow>
     (let n = of_char c :: nat in 97 \<le> n \<and> n \<le> 122 \<or> 65 \<le> n \<and> n \<le> 90 \<or> 48 \<le> n \<and> n \<le> 57)"

definition shell_safe :: "char \<Rightarrow> bool" where
  "shell_safe c \<longleftrightarrow> alphanumeric c \<or> c \<in> set ''-_./:=@,+''"

abbreviation apostrophe :: char where "apostrophe \<equiv> CHR 0x27"
abbreviation backslash :: char where "backslash \<equiv> CHR 0x5C"

definition quoted_apostrophe :: string where
  "quoted_apostrophe = [apostrophe, backslash, apostrophe, apostrophe]"

definition ShellQuote :: "string \<Rightarrow> string" where
  "ShellQuote s =
     (if s = [] then [apostrophe, apostrophe]
      else if list_all shell_safe s then s
      else [apostrophe] @ ReplaceAll s [apostrophe] quoted_apostrophe @ [apostrophe])"

definition ShellJoin :: "string list \<Rightarrow> string" where
  "ShellJoin args = Join (map ShellQuote args) '' ''"

definition Wrap :: "Host \<Rightarrow> string \<Rightarrow> string" where
  "Wrap h cmd = (if host_Sudo h then ''sudo -n -- sh -c '' @ ShellQuote cmd else cmd)"

section \<open>Messages of a command\<close>

fun Contains :: "string \<Rightarrow> string \<Rightarrow> bool" where
  "Contains [] sub = (sub = [])"
| "Contains (c # s) sub = (HasPrefix (c # s) sub \<or> Contains s sub)"

definition looksLikeError :: "string \<Rightarrow> bool" where
  "looksLikeError line =
     list_ex (Contains (ToLower line))
       [''error'', ''fatal'', ''denied'', ''failed'', ''cannot'', ''no such'', ''not found'', ''refused'']"

definition tailLines :: nat where "tailLines = 20"

definition addTail :: "string \<Rightarrow> string list \<Rightarrow> string list" where
  "addTail line lines = (let t = lines @ [line] in if tailLines < length t then drop (length t - tailLines) t else t)"

definition Tail :: "string list \<Rightarrow> string" where
  "Tail lines = Join lines '' | ''"

text \<open>A line of standard error, without the carriage return of its end.\<close>

definition TrimRight_CR :: "string \<Rightarrow> string" where
  "TrimRight_CR s = rev (dropWhile (\<lambda>c. c = CHR 0x0D) (rev s))"

definition stderr_line :: "Host \<Rightarrow> string list \<Rightarrow> string list \<Rightarrow> string \<Rightarrow> string list" where
  "stderr_line h redact lines text =
     (let line = TrimRight_CR text in
      if TrimSpace line = [] then lines else addTail (Client_scrub h redact line) lines)"

text \<open>How a command ended: stopped before the end of its output, with the code of the exit, or with
  another error.\<close>

datatype command_end = Aborted | Finished | Exited int | Broken string

definition Close_error :: "Host \<Rightarrow> string list \<Rightarrow> string list \<Rightarrow> command_end \<Rightarrow> error option" where
  "Close_error h redact lines how =
     (let detail = Tail lines; suffix = (if detail \<noteq> [] then '': '' @ detail else []) in
      case how of
        Aborted \<Rightarrow> Some (errNew ''remote command was stopped before it finished'')
      | Finished \<Rightarrow> None
      | Exited n \<Rightarrow> Some (errNew (''remote command exited with code '' @ Itoa n @ suffix))
      | Broken msg \<Rightarrow> Some (errNew (''remote command failed: '' @ Client_scrub h redact msg @ suffix)))"

definition KnownTools :: "string list" where
  "KnownTools = [''tar'', ''docker'', ''podman'', ''pg_dump'', ''pg_dumpall'', ''pg_restore'', ''psql'', ''mysqldump'',
     ''mariadb-dump'', ''mysql'', ''mariadb'', ''mongodump'', ''mongorestore'', ''redis-cli'', ''sqlite3'', ''zstd'',
     ''gzip'', ''sudo'']"

definition probe_command :: string where
  "probe_command =
     concat (map (\<lambda>tool. ''command -v '' @ tool @ '' >/dev/null 2>&1 && echo '' @ tool @ ''; '') KnownTools) @ ''true''"

section \<open>What the shell reads\<close>

text \<open>Splitting of a command into words as POSIX describes it (sections 2.2 and 2.6.5 of its shell command
  language), for commands without unquoted special characters; \<open>None\<close> when there is one, or an open
  quotation. Blanks separate words, single quotes keep everything up to the next one, a backslash keeps
  the next character.\<close>

definition extend :: "string option \<Rightarrow> string \<Rightarrow> string option" where
  "extend cur t = Some ((case cur of None \<Rightarrow> [] | Some w \<Rightarrow> w) @ t)"

fun shell_words :: "bool \<Rightarrow> string option \<Rightarrow> string \<Rightarrow> string list option" where
  "shell_words True cur [] = None"
| "shell_words False cur [] = Some (case cur of None \<Rightarrow> [] | Some w \<Rightarrow> [w])"
| "shell_words True cur (c # s) =
     (if c = apostrophe then shell_words False cur s else shell_words True (extend cur [c]) s)"
| "shell_words False cur (c # s) =
     (if c = apostrophe then shell_words True (extend cur []) s
      else if c = backslash
      then (case s of [] \<Rightarrow> None | d # s' \<Rightarrow> if d = CHR 0x0A then None else shell_words False (extend cur [d]) s')
      else if c = CHR '' ''
      then (case cur of None \<Rightarrow> shell_words False None s | Some w \<Rightarrow> map_option (\<lambda>ws. w # ws) (shell_words False None s))
      else if shell_safe c then shell_words False (extend cur [c]) s
      else None)"

lemma extend_extend [simp]: "extend (extend cur a) b = extend cur (a @ b)" "extend (Some w) b = Some (w @ b)"
  by (simp_all add: extend_def split: option.split)

lemma shell_safe_plain: "shell_safe c \<Longrightarrow> c \<noteq> apostrophe \<and> c \<noteq> backslash \<and> c \<noteq> CHR '' ''"
  by (auto simp: shell_safe_def alphanumeric_def Let_def)

lemma ReplaceAll_single:
  "ReplaceAll s [a] new = concat (map (\<lambda>c. if c = a then new else [c]) s)"
  by (induction s) (auto simp: HasPrefix_def)

lemma words_safe: "list_all shell_safe s \<Longrightarrow> s \<noteq> [] \<Longrightarrow> shell_words False cur (s @ t) = shell_words False (extend cur s) t"
proof (induction s arbitrary: cur)
  case (Cons c s)
  then show ?case by (cases "s = []") (auto dest: shell_safe_plain)
qed simp

lemma words_replaced:
  "shell_words True (Some w) (ReplaceAll s [apostrophe] quoted_apostrophe @ apostrophe # t) = shell_words False (Some (w @ s)) t"
  by (induction s arbitrary: w) (simp_all add: ReplaceAll_single quoted_apostrophe_def)

lemma words_ShellQuote: "shell_words False cur (ShellQuote s @ t) = shell_words False (extend cur s) t"
  using words_replaced [of "case cur of None \<Rightarrow> [] | Some w \<Rightarrow> w" s t]
  by (auto simp: ShellQuote_def words_safe extend_def)

text \<open>C20 (roundtrip): quoting of remote commands. A shell that splits the joined arguments into words gets
  exactly the arguments back, whatever bytes they hold: nothing in an argument is special to the shell,
  and no argument runs into the next. The command a host with sudo runs is such a line, with the command
  as its last word.\<close>

theorem ShellJoin_roundtrip:
  "shell_words False None (ShellJoin args) = Some args
   \<and> Wrap h cmd = (if host_Sudo h then ShellJoin [''sudo'', ''-n'', ''--'', ''sh'', ''-c'', cmd] else cmd)"
proof
  show "shell_words False None (ShellJoin args) = Some args"
    unfolding ShellJoin_def
  proof (induction args)
    case (Cons a args)
    then show ?case
      using words_ShellQuote [of None a "[]"] words_ShellQuote [of None a "'' '' @ Join (map ShellQuote args) '' ''"]
      by (cases args) (simp_all add: extend_def)
  qed simp
  show "Wrap h cmd = (if host_Sudo h then ShellJoin [''sudo'', ''-n'', ''--'', ''sh'', ''-c'', cmd] else cmd)"
    by (simp add: Wrap_def ShellJoin_def ShellQuote_def shell_safe_def alphanumeric_def)
qed

section \<open>What scrubbing leaves\<close>

abbreviation star_free :: "string \<Rightarrow> bool" where
  "star_free v \<equiv> CHR ''*'' \<notin> set v"

lemma HasPrefix_Cons: "HasPrefix (c # s) v \<longleftrightarrow> v = [] \<or> (\<exists>v'. v = c # v' \<and> HasPrefix s v')"
  by (cases v) (auto simp: HasPrefix_def)

lemma Contains_drop: "Contains (drop n t) v \<Longrightarrow> Contains t v"
proof (induction t arbitrary: n)
  case (Cons c t)
  then show ?case by (cases n) auto
qed simp

lemma ReplaceAll_match:
  "v \<noteq> [] \<and> HasPrefix (c # s) v \<Longrightarrow> ReplaceAll (c # s) v n = n @ ReplaceAll (drop (length v) (c # s)) v n"
  and ReplaceAll_skip: "\<not> (v \<noteq> [] \<and> HasPrefix (c # s) v) \<Longrightarrow> ReplaceAll (c # s) v n = c # ReplaceAll s v n"
  by (subst ReplaceAll.simps, auto simp del: ReplaceAll.simps)+

text \<open>The two steps of a replacement, as a rule.\<close>

lemma ReplaceAll_cases [case_names Nil match skip]:
  assumes "P []"
    and "\<And>t. v \<noteq> [] \<Longrightarrow> HasPrefix t v \<Longrightarrow> t \<noteq> [] \<Longrightarrow> P (drop (length v) t) \<Longrightarrow> ReplaceAll t v n = n @ ReplaceAll (drop (length v) t) v n \<Longrightarrow> P t"
    and "\<And>c t. v = [] \<or> \<not> HasPrefix (c # t) v \<Longrightarrow> P t \<Longrightarrow> ReplaceAll (c # t) v n = c # ReplaceAll t v n \<Longrightarrow> P (c # t)"
  shows "P t"
proof (induction t rule: length_induct)
  case (1 t)
  show ?case
  proof (cases t)
    case Nil then show ?thesis using assms(1) by simp
  next
    case (Cons c s)
    show ?thesis
    proof (cases "v \<noteq> [] \<and> HasPrefix t v")
      case True
      then have "length (drop (length v) t) < length t" using Cons by (cases v) auto
      with 1 True assms(2) [of t] Cons ReplaceAll_match [of v c s n] show ?thesis by blast
    next
      case False
      with 1 assms(3) [of c s] Cons ReplaceAll_skip [of v c s n] show ?thesis by (metis length_Cons lessI)
    qed
  qed
qed

lemma HasPrefix_ReplaceAll: "star_free p \<Longrightarrow> HasPrefix (ReplaceAll t v stars) p \<Longrightarrow> HasPrefix t p"
proof (induction t arbitrary: p rule: ReplaceAll_cases [where v = v and n = stars])
  case (match t)
  then have "HasPrefix (stars @ ReplaceAll (drop (length v) t) v stars) p" by simp
  with match(6) have "p = []" by (cases p) (auto simp: stars_def HasPrefix_Cons)
  then show ?case by (simp add: HasPrefix_def)
next
  case (skip c t)
  then have "HasPrefix (c # ReplaceAll t v stars) p" by simp
  with skip.IH skip.prems(1) show ?case by (cases p) (auto simp: HasPrefix_Cons simp del: ReplaceAll.simps)
qed simp

lemma Contains_stars: "star_free v \<Longrightarrow> v \<noteq> [] \<Longrightarrow> Contains (stars @ t) v = Contains t v"
  by (cases v) (auto simp: stars_def HasPrefix_def)

lemma skip_no_prefix:
  "star_free v \<Longrightarrow> \<not> HasPrefix (c # t) v \<Longrightarrow> \<not> HasPrefix (c # ReplaceAll t u stars) v"
  by (cases v) (auto simp: HasPrefix_Cons simp del: ReplaceAll.simps dest: HasPrefix_ReplaceAll)

lemma ReplaceAll_removes:
  assumes "star_free v" and "v \<noteq> []"
  shows "\<not> Contains (ReplaceAll t v stars) v"
proof (induction t rule: ReplaceAll_cases [where v = v and n = stars])
  case (match t)
  from match(4) show ?case by (simp only: match(5) Contains_stars [OF assms]) simp
next
  case (skip c t)
  then show ?case using skip_no_prefix [OF assms(1), of c t v] assms(2) by (simp only: Contains.simps) blast
qed (simp add: assms)

lemma ReplaceAll_keeps_out:
  assumes "star_free v" and "v \<noteq> []"
  shows "\<not> Contains t v \<Longrightarrow> \<not> Contains (ReplaceAll t u stars) v"
proof (induction t rule: ReplaceAll_cases [where v = u and n = stars])
  case (match t)
  then show ?case using Contains_drop by (simp only: Contains_stars [OF assms]) blast
next
  case (skip c t)
  then show ?case using skip_no_prefix [OF assms(1), of c t u] by (simp only: Contains.simps) blast
qed (simp add: assms)

lemma scrub_values_keeps_out:
  "star_free v \<Longrightarrow> v \<noteq> [] \<Longrightarrow> \<not> Contains t v \<Longrightarrow> \<not> Contains (scrub_values secrets t) v"
  unfolding scrub_values_def by (induction secrets arbitrary: t) (simp_all add: ReplaceAll_keeps_out)

lemma scrub_values_removes:
  assumes "v \<in> set secrets" and "3 \<le> length v" and "star_free v"
  shows "\<not> Contains (scrub_values secrets t) v"
  using assms
proof (induction secrets arbitrary: t)
  case (Cons u secrets)
  have v: "v \<noteq> []" using assms(2) by auto
  show ?case
  proof (cases "u = v")
    case True
    then have "scrub_values (u # secrets) t = scrub_values secrets (ReplaceAll t v stars)"
      using assms(2) by (simp add: scrub_values_def)
    then show ?thesis using scrub_values_keeps_out [OF assms(3) v ReplaceAll_removes [OF assms(3) v]] by simp
  next
    case False
    with Cons show ?thesis by (simp add: scrub_values_def)
  qed
qed simp

lemma Client_scrub_values:
  "Client_scrub h redact text = scrub_values ([host_Password h, host_KeyPassphrase h, host_PrivateKey h] @ redact) text"
  by (simp add: Client_scrub_def ScrubText_def scrub_values_def)

text \<open>C21 (safety): secrets of three or more bytes without an asterisk are scrubbed from messages. A text that passed
  the scrubbing of a client does not contain the password, passphrase or key of the host, nor a value to redact,
  if it is such a secret; and a scrubbed error has a text without such secrets of the host. Shorter secrets
  stay in the text.\<close>

theorem scrubbed_texts_hide_secrets:
  assumes "3 \<le> length v" and "CHR ''*'' \<notin> set v"
  shows "(v \<in> {host_Password h, host_KeyPassphrase h, host_PrivateKey h} \<union> set redact \<longrightarrow> \<not> Contains (Client_scrub h redact text) v)
    \<and> (\<forall>e e'. v \<in> {host_Password h, host_KeyPassphrase h, host_PrivateKey h} \<longrightarrow> Scrub h e = Some e' \<longrightarrow> \<not> Contains (Error e') v)"
proof -
  have "\<not> Contains (ScrubText h t) v" if "v \<in> {host_Password h, host_KeyPassphrase h, host_PrivateKey h}" for t
    using scrub_values_removes [of v "[host_Password h, host_KeyPassphrase h, host_PrivateKey h]" t] assms that
    by (auto simp: ScrubText_def)
  moreover have "\<exists>t. Error e' = ScrubText h t" if "Scrub h e = Some e'" for e e'
    using that by (auto simp: Scrub_def errNew_def split: option.splits if_splits intro: exI [of _ "Error e'"])
  ultimately show ?thesis
    using scrub_values_removes [OF _ assms, of "[host_Password h, host_KeyPassphrase h, host_PrivateKey h] @ redact"]
    unfolding Client_scrub_values by (metis (no_types, lifting) Un_iff empty_iff insert_iff list.set(1,2) set_append)
qed

theorem scrubbed_texts_hide_secrets_witness:
  "\<not> Contains (Client_scrub (zero_host\<lparr>host_Password := ''hunter2''\<rparr>) [] ''login as root with hunter2 failed'') ''hunter2''"
  using scrubbed_texts_hide_secrets [of "''hunter2''" "zero_host\<lparr>host_Password := ''hunter2''\<rparr>" "[]"] by simp

text \<open>A shorter secret stays in the text.\<close>

lemma short_secret_shows: "Contains (ScrubText (zero_host\<lparr>host_Password := ''pw''\<rparr>) ''password pw refused'') ''pw''"
  by (simp add: ScrubText_def scrub_values_def zero_host_def HasPrefix_def)

end
