(* ===== verification/Web.thy ===== *)
theory Web
  imports Auth Engine_Runs Scheduler Remote
begin

text \<open>
  The ground of the HTTP server (package \<open>internal/server\<close>: errors.go, audit.go, principal.go,
  parts of server.go). A handler is a computation in the state monad over the state of the server:
  the database, the engine and the login limiter. The faults of the database, fresh identifiers,
  random bytes and readings of the clock are lists in the state, one element for each use; a fault
  list that has run out means success. A handler returns a reply: a status with a body, or an error
  with its status, code, message and fields.
\<close>

section \<open>State\<close>

record web =
  web_db :: db
  web_engine :: engine
  web_limiter :: RateLimiter
  web_reloads :: nat
  web_faults :: "error option list"
  web_ids :: "string list"
  web_random :: "string result list"
  web_clock :: "time list"

type_synonym 'a web_op = "(web, 'a) state"

text \<open>An error of the database driver may be a canceled context; it carries no sentinel of the program.\<close>

definition driver_fault :: "error \<Rightarrow> error" where
  "driver_fault e = (if sentinel_of e \<in> {Some Canceled, Some DeadlineExceeded} then e else GoErr None (Error e))"

definition next_fault :: "error option web_op" where
  "next_fault = State (\<lambda>w. case web_faults w of
     [] \<Rightarrow> (None, w) | x # xs \<Rightarrow> (map_option driver_fault x, w\<lparr>web_faults := xs\<rparr>))"

definition next_id :: "string web_op" where
  "next_id = State (\<lambda>w. case web_ids w of [] \<Rightarrow> ([], w) | x # xs \<Rightarrow> (x, w\<lparr>web_ids := xs\<rparr>))"

definition random_bytes :: "string result web_op" where
  "random_bytes = State (\<lambda>w. case web_random w of
     [] \<Rightarrow> (Inl (errNew ''no entropy''), w) | x # xs \<Rightarrow> (x, w\<lparr>web_random := xs\<rparr>))"

definition time_Now :: "time web_op" where
  "time_Now = State (\<lambda>w. case web_clock w of [] \<Rightarrow> (0, w) | x # xs \<Rightarrow> (x, w\<lparr>web_clock := xs\<rparr>))"

text \<open>A statement on the database and a query of it.\<close>

definition sql :: "(error option \<Rightarrow> db \<Rightarrow> 'a \<times> db) \<Rightarrow> 'a web_op" where
  "sql f = do {
     flt \<leftarrow> next_fault;
     State (\<lambda>w. case f flt (web_db w) of (x, d) \<Rightarrow> (x, w\<lparr>web_db := d\<rparr>)) }"

definition lookup :: "(error option \<Rightarrow> db \<Rightarrow> 'a) \<Rightarrow> 'a web_op" where
  "lookup f = do { flt \<leftarrow> next_fault; gets (\<lambda>w. f flt (web_db w)) }"

text \<open>A request to the engine, which works on its own state and the database.\<close>

definition on_engine :: "(error option \<Rightarrow> engine \<times> db \<Rightarrow> 'a \<times> engine \<times> db) \<Rightarrow> 'a web_op" where
  "on_engine f = do {
     flt \<leftarrow> next_fault;
     State (\<lambda>w. case f flt (web_engine w, web_db w) of (x, e, d) \<Rightarrow> (x, w\<lparr>web_engine := e, web_db := d\<rparr>)) }"

definition ReloadSchedule :: "unit web_op" where
  "ReloadSchedule = modify (\<lambda>w. w\<lparr>web_reloads := Suc (web_reloads w)\<rparr>)"

text \<open>What the server is configured with: the key derivation of passwords, SHA-256, the public address,
  the cipher of secrets, the cron library, the registered drivers and the SSH library. \<open>drv_Test\<close> and
  \<open>sv_probe\<close> are what a connection that starts at a time comes to.\<close>

record driver =
  drv_Spec :: DriverSpec
  drv_Validate :: "Config \<Rightarrow> error option"
  drv_Test :: "Config \<Rightarrow> time \<Rightarrow> error option"

record site =
  sv_kdf :: kdf
  sv_sha :: "string \<Rightarrow> string"
  sv_BaseURL :: string
  sv_cipher :: Cipher
  sv_clockwork :: clockwork
  sv_sources :: "string \<Rightarrow> driver option"
  sv_destinations :: "string \<Rightarrow> driver option"
  sv_notifiers :: "string \<Rightarrow> driver option"
  sv_parse_key :: key_parser
  sv_generate_key :: "string result \<Rightarrow> key_maker"
  sv_probe :: "Host \<Rightarrow> time \<Rightarrow> (string \<times> string list) result"

section \<open>Replies\<close>

type_synonym fields = "string \<rightharpoonup> string"

datatype 'a reply = Reply (status_of: int) (body_of: 'a) | Refuse (status_of: int) (code_of: string) (message_of: string) fields

datatype failure = Invalid string fields | Failed error

definition codeValidation :: string where "codeValidation = ''validation_failed''"
definition codeUnauthenticated :: string where "codeUnauthenticated = ''unauthenticated''"
definition codeForbidden :: string where "codeForbidden = ''forbidden''"
definition codeNotFound :: string where "codeNotFound = ''not_found''"
definition codeConflict :: string where "codeConflict = ''conflict''"
definition codeLocked :: string where "codeLocked = ''locked''"
definition codeInternal :: string where "codeInternal = ''internal''"

definition writeError :: "int \<Rightarrow> string \<Rightarrow> string \<Rightarrow> 'a reply" where
  "writeError status c message = Refuse status c message Map.empty"

definition fail :: "failure \<Rightarrow> 'a reply" where
  "fail f =
     (case f of
        Invalid message flds \<Rightarrow>
          Refuse 400 codeValidation (if message = [] then ''validation failed'' else message) flds
      | Failed e \<Rightarrow>
          if errIs e ErrNotFound then writeError 404 codeNotFound (Error e)
          else if errIs e ErrConflict then writeError 409 codeConflict (Error e)
          else if errIs e ErrJobBusy then writeError 423 codeLocked (Error e)
          else if errIs e ErrQueueFull then writeError 503 codeInternal (Error e)
          else writeError 500 codeInternal (Error e))"

text \<open>A step that may fail; a handler answers its error and returns.\<close>

definition orfail :: "'a result \<Rightarrow> ('a \<Rightarrow> 'b reply web_op) \<Rightarrow> 'b reply web_op" where
  "orfail r k = (case r of Inl e \<Rightarrow> return (fail (Failed e)) | Inr x \<Rightarrow> k x)"

definition orinvalid :: "failure + 'a \<Rightarrow> ('a \<Rightarrow> 'b reply web_op) \<Rightarrow> 'b reply web_op" where
  "orinvalid r k = (case r of Inl f \<Rightarrow> return (fail f) | Inr x \<Rightarrow> k x)"

definition unless_err :: "error option \<Rightarrow> 'b reply web_op \<Rightarrow> 'b reply web_op" where
  "unless_err r k = (case r of Some e \<Rightarrow> return (fail (Failed e)) | None \<Rightarrow> k)"

text \<open>\<open>decodeBody\<close>: the body of the request as it decodes, or the message of the decoder.\<close>

type_synonym 'r body = "string + 'r"

definition decodeBody :: "'r body \<Rightarrow> failure + 'r" where
  "decodeBody b = (case b of Inl msg \<Rightarrow> Inl (Invalid (''invalid JSON body: '' @ msg) Map.empty) | Inr req \<Rightarrow> Inr req)"

text \<open>A validation error collects one message per field.\<close>

definition field_if :: "bool \<Rightarrow> string \<Rightarrow> string \<Rightarrow> fields \<Rightarrow> fields" where
  "field_if b name message ve = (if b then ve(name \<mapsto> message) else ve)"

definition no_fields :: fields where "no_fields = Map.empty"

definition checked :: "string \<Rightarrow> fields \<Rightarrow> failure option" where
  "checked message ve = (if dom ve = {} then None else Some (Invalid message ve))"

lemma checked_None: "checked message ve = None \<longleftrightarrow> ve = Map.empty"
  by (simp add: checked_def)

lemma field_if_empty: "field_if b name message ve = Map.empty \<longleftrightarrow> \<not> b \<and> ve = Map.empty"
  by (auto simp: field_if_def)

definition unless_fields :: "string \<Rightarrow> fields \<Rightarrow> 'b reply web_op \<Rightarrow> 'b reply web_op" where
  "unless_fields message ve k = (case checked message ve of Some f \<Rightarrow> return (fail f) | None \<Rightarrow> k)"

section \<open>Requests\<close>

record request =
  hr_Method :: string
  hr_Authorization :: string
  hr_Cookie :: "string option"
  hr_RequestedWith :: string
  hr_ClientIP :: string
  hr_UserAgent :: string
  hr_Query :: "string \<Rightarrow> string"

definition queryBool :: "request \<Rightarrow> string \<Rightarrow> bool" where
  "queryBool r name = (ToLower (TrimSpace (hr_Query r name)) \<in> {''1'', ''true'', ''yes'', ''on''})"

definition page_number :: "string \<Rightarrow> string \<Rightarrow> failure + int" where
  "page_number name v =
     (case Atoi v of
        Some n \<Rightarrow> if n < 0 then Inl (Invalid (name @ '' must be a non-negative integer'') [name \<mapsto> ''invalid''])
                  else Inr n
      | None \<Rightarrow> Inl (Invalid (name @ '' must be a non-negative integer'') [name \<mapsto> ''invalid'']))"

definition pageFromRequest :: "request \<Rightarrow> failure + Page" where
  "pageFromRequest r =
     (let l = TrimSpace (hr_Query r ''limit''); off = TrimSpace (hr_Query r ''offset'')
      in case (if l = [] then Inr 0 else page_number ''limit'' l) of
           Inl f \<Rightarrow> Inl f
         | Inr n \<Rightarrow>
             (let limit = (if n > MaxLimit then MaxLimit else n)
              in case (if off = [] then Inr 0 else page_number ''offset'' off) of
                   Inl f \<Rightarrow> Inl f
                 | Inr m \<Rightarrow> Inr \<lparr>pg_Limit = limit, pg_Offset = m\<rparr>))"

section \<open>Audit\<close>

text \<open>The entry is recorded for the principal given, or else the one of the request; an error is only
  logged.\<close>

definition audit ::
  "request \<Rightarrow> Principal option \<Rightarrow> string \<Rightarrow> string \<Rightarrow> string \<Rightarrow> string \<Rightarrow> Config \<Rightarrow> unit web_op" where
  "audit r p action objectType objectID objectName details = do {
     now \<leftarrow> time_Now;
     i \<leftarrow> next_id;
     _ \<leftarrow> sql (\<lambda>flt. Audit_Record flt i now
       \<lparr>ae_ID = [], ae_Time = now, ae_ActorID = Principal_ID p, ae_ActorLabel = Principal_Label p,
        ae_Action = action, ae_ObjectType = objectType, ae_ObjectID = objectID, ae_ObjectName = objectName,
        ae_Details = details, ae_IP = hr_ClientIP r\<rparr>);
     return () }"

section \<open>Rules\<close>

lemma run_sql:
  "run_state (sql f) w = (let (flt, w1) = run_state next_fault w; (x, d) = f flt (web_db w1) in (x, w1\<lparr>web_db := d\<rparr>))"
  by (simp add: sql_def case_prod_beta Let_def)

lemma next_fault_frame [simp]:
  "web_db (snd (run_state next_fault w)) = web_db w" "web_engine (snd (run_state next_fault w)) = web_engine w"
  "web_limiter (snd (run_state next_fault w)) = web_limiter w"
  by (auto simp: next_fault_def split: list.split)

lemma next_frame [simp]:
  "web_db (snd (run_state next_id w)) = web_db w" "web_db (snd (run_state random_bytes w)) = web_db w"
  "web_db (snd (run_state time_Now w)) = web_db w"
  by (auto simp: next_id_def random_bytes_def time_Now_def split: list.split)

text \<open>An assertion on the database: what keeps it, by the statements.\<close>

definition on_db :: "(db \<Rightarrow> bool) \<Rightarrow> web \<Rightarrow> bool" where
  "on_db P w \<longleftrightarrow> P (web_db w)"

lemma keeps_next [wp]:
  "keeps (on_db P) next_fault" "keeps (on_db P) next_id" "keeps (on_db P) random_bytes" "keeps (on_db P) time_Now"
  "keeps (on_db P) ReloadSchedule"
  by (auto intro!: keepsI simp: on_db_def ReloadSchedule_def)

lemma keeps_lookup [wp]: "keeps (on_db P) (lookup f)"
  unfolding lookup_def by (intro wp)

lemma keeps_sql [wp]: "(\<And>flt d. P d \<Longrightarrow> P (snd (f flt d))) \<Longrightarrow> keeps (on_db P) (sql f)"
  by (rule keepsI) (auto simp: on_db_def run_sql case_prod_beta Let_def)

lemma keeps_engine [wp]:
  "(\<And>flt e d. P d \<Longrightarrow> P (snd (snd (f flt (e, d))))) \<Longrightarrow> keeps (on_db P) (on_engine f)"
  by (rule keepsI) (auto simp: on_db_def on_engine_def case_prod_beta)

lemma keeps_orfail [wp]: "(\<And>x. r = Inr x \<Longrightarrow> keeps P (k x)) \<Longrightarrow> keeps P (orfail r k)"
  by (cases r) (auto simp: orfail_def intro: keeps_return)

lemma keeps_orinvalid [wp]: "(\<And>x. r = Inr x \<Longrightarrow> keeps P (k x)) \<Longrightarrow> keeps P (orinvalid r k)"
  by (cases r) (auto simp: orinvalid_def intro: keeps_return)

lemma keeps_unless_err [wp]: "keeps P k \<Longrightarrow> keeps P (unless_err r k)"
  by (auto simp: unless_err_def intro: keeps_return split: option.split)

lemma keeps_unless_fields [wp]: "keeps P k \<Longrightarrow> keeps P (unless_fields m ve k)"
  by (auto simp: unless_fields_def intro: keeps_return split: option.split)

text \<open>The audit table is the only one the audit trail touches.\<close>

lemma Audit_Record_frame: "\<exists>rows. snd (Audit_Record flt i now x d) = d\<lparr>t_audit := rows\<rparr>"
  by (auto simp: Audit_Record_def Let_def intro: exI [of _ "t_audit d"] split: option.split)

lemma keeps_audit [wp]: "(\<And>d rows. P d \<Longrightarrow> P (d\<lparr>t_audit := rows\<rparr>)) \<Longrightarrow> keeps (on_db P) (audit r p a t i n ds)"
  unfolding audit_def by (intro wp) (metis Audit_Record_frame)

text \<open>Forward reasoning about a handler: what holds of the result of a step and of the database after it,
  from what held before.\<close>

definition after :: "(db \<Rightarrow> bool) \<Rightarrow> 'a web_op \<Rightarrow> ('a \<Rightarrow> db \<Rightarrow> bool) \<Rightarrow> bool" where
  "after P m Q \<longleftrightarrow> (\<forall>w. P (web_db w) \<longrightarrow> Q (fst (run_state m w)) (web_db (snd (run_state m w))))"

lemma afterD: "after P m Q \<Longrightarrow> P (web_db w) \<Longrightarrow> run_state m w = (x, w') \<Longrightarrow> Q x (web_db w')"
  by (auto simp: after_def dest: spec [of _ w])

lemma after_return: "(\<And>d. P d \<Longrightarrow> Q x d) \<Longrightarrow> after P (return x) Q"
  by (simp add: after_def)

lemma after_conseq: "after P m Q \<Longrightarrow> (\<And>d. P' d \<Longrightarrow> P d) \<Longrightarrow> (\<And>x d. Q x d \<Longrightarrow> Q' x d) \<Longrightarrow> after P' m Q'"
  by (auto simp: after_def)

lemma after_bind: "after P m R \<Longrightarrow> (\<And>x. after (R x) (f x) Q) \<Longrightarrow> after P (m \<bind> f) Q"
  by (auto simp: after_def case_prod_beta)

definition foreign :: "error option \<Rightarrow> bool" where
  "foreign flt = (case flt of None \<Rightarrow> True | Some e \<Rightarrow> sentinel_of e \<in> {None, Some Canceled, Some DeadlineExceeded})"

lemma next_fault_foreign [simp]: "foreign (fst (run_state next_fault w))"
  by (auto simp: next_fault_def foreign_def driver_fault_def split: list.split option.split)

lemma after_lookup: "after P (lookup f) (\<lambda>x d. P d \<and> (\<exists>flt. foreign flt \<and> x = f flt d))"
  by (auto simp: after_def lookup_def case_prod_beta intro!: exI [of _ "fst (run_state next_fault _)"])

lemma after_sql: "after P (sql f) (\<lambda>x d. \<exists>flt d0. foreign flt \<and> P d0 \<and> f flt d0 = (x, d))"
  by (auto simp: after_def run_sql case_prod_beta Let_def intro!: exI [of _ "fst (run_state next_fault _)"])

lemma after_next:
  "after P next_id (\<lambda>_. P)" "after P time_Now (\<lambda>_. P)" "after P random_bytes (\<lambda>_. P)" "after P next_fault (\<lambda>_. P)"
  "after P ReloadSchedule (\<lambda>_. P)"
  by (auto simp: after_def ReloadSchedule_def)

lemma after_modify: "(\<And>w. web_db (f w) = web_db w) \<Longrightarrow> after P (modify f) (\<lambda>_. P)"
  by (simp add: after_def)

lemma after_audit: "after P (audit r p a t i n ds) (\<lambda>_ d. \<exists>d0 rows. P d0 \<and> d = d0\<lparr>t_audit := rows\<rparr>)"
  unfolding audit_def
  by (intro after_bind [OF after_next(2)] after_bind [OF after_next(1)] after_bind [OF after_sql] after_return)
     (metis Audit_Record_frame snd_conv)

lemma after_orfail: "(\<And>e d. P d \<Longrightarrow> r = Inl e \<Longrightarrow> Q (fail (Failed e)) d) \<Longrightarrow> (\<And>x. after (\<lambda>d. P d \<and> r = Inr x) (k x) Q)
   \<Longrightarrow> after P (orfail r k) Q"
  by (cases r) (auto simp: orfail_def after_def)

lemma after_orinvalid: "(\<And>f d. P d \<Longrightarrow> r = Inl f \<Longrightarrow> Q (fail f) d) \<Longrightarrow> (\<And>x. after (\<lambda>d. P d \<and> r = Inr x) (k x) Q)
   \<Longrightarrow> after P (orinvalid r k) Q"
  by (cases r) (auto simp: orinvalid_def after_def)

lemma after_unless_err: "(\<And>e d. P d \<Longrightarrow> r = Some e \<Longrightarrow> Q (fail (Failed e)) d) \<Longrightarrow> after (\<lambda>d. P d \<and> r = None) k Q
   \<Longrightarrow> after P (unless_err r k) Q"
  by (cases r) (auto simp: unless_err_def after_def)

lemma after_unless_fields:
  "(\<And>d. P d \<Longrightarrow> Q (fail (Invalid m ve)) d) \<Longrightarrow> after (\<lambda>d. P d \<and> ve = Map.empty) k Q \<Longrightarrow> after P (unless_fields m ve k) Q"
  by (auto simp: unless_fields_def checked_def after_def split: option.split)

lemma after_if: "(b \<Longrightarrow> after (\<lambda>d. P d \<and> b) m Q) \<Longrightarrow> (\<not> b \<Longrightarrow> after (\<lambda>d. P d \<and> \<not> b) n Q) \<Longrightarrow> after P (if b then m else n) Q"
  by (auto simp: after_def)

lemma after_option: "after (\<lambda>d. P d \<and> v = None) m Q \<Longrightarrow> (\<And>x. after (\<lambda>d. P d \<and> v = Some x) (f x) Q)
   \<Longrightarrow> after P (case v of None \<Rightarrow> m | Some x \<Rightarrow> f x) Q"
  by (cases v) (auto simp: after_def)

lemma after_sum: "(\<And>e. after (\<lambda>d. P d \<and> v = Inl e) (f e) Q) \<Longrightarrow> (\<And>x. after (\<lambda>d. P d \<and> v = Inr x) (g x) Q)
   \<Longrightarrow> after P (case v of Inl e \<Rightarrow> f e | Inr x \<Rightarrow> g x) Q"
  by (cases v) (auto simp: after_def)

lemma after_prod: "(\<And>a b. after (\<lambda>d. P d \<and> v = (a, b)) (f a b) Q) \<Longrightarrow> after P (case v of (a, b) \<Rightarrow> f a b) Q"
  by (cases v) (auto simp: after_def)

text \<open>What held before is not forgotten.\<close>

lemma after_before: "after P m Q \<Longrightarrow> after P m (\<lambda>x d. Q x d \<and> (\<exists>d0. P d0))"
  by (auto simp: after_def)

lemma after_let: "after P (f v) Q \<Longrightarrow> after P (let x = v in f x) Q"
  by (simp add: Let_def)

lemmas after_steps = after_orfail after_orinvalid after_unless_err after_unless_fields after_if after_option after_sum
  after_let after_bind [OF after_lookup] after_bind [OF after_sql] after_bind [OF after_next(1)]
  after_bind [OF after_next(2)] after_bind [OF after_next(3)] after_bind [OF after_next(4)]
  after_bind [OF after_next(5)] after_bind [OF after_audit]

end
