(* ===== verification/Auth_Manager.thy ===== *)
theory Auth_Manager
  imports Web
begin

text \<open>
  Package \<open>internal/auth\<close>, second part: logins, sessions and tokens (manager.go) and the HTTP
  middleware that finds out who makes a request and what the request may do (middleware.go). SHA-256
  is a parameter \<open>sha\<close>, and the key derivation \<open>K\<close> that of the password hashes.
\<close>

section \<open>Secrets\<close>

definition CookieName :: string where "CookieName = ''backvault_session''"
definition SessionTTL :: duration where "SessionTTL = 30 * (24 * Hour)"
definition TokenPrefix :: string where "TokenPrefix = ''bvt_''"
definition tokenBodyLen :: nat where "tokenBodyLen = 32"

definition base62Alphabet :: string where
  "base62Alphabet = ''0123456789ABCDEFGHIJKLMNOPQRSTUVWXYZabcdefghijklmnopqrstuvwxyz''"

definition hashSecret :: "(string \<Rightarrow> string) \<Rightarrow> string \<Rightarrow> string" where
  "hashSecret sha secret = hex_encode (sha secret)"

definition randomSecret :: "string result web_op" where
  "randomSecret = do {
     rnd \<leftarrow> random_bytes;
     return (case rnd of Inl e \<Rightarrow> Inl (wrapf ''generate random secret'' e) | Inr buf \<Rightarrow> Inr (b64_encode True buf)) }"

text \<open>Each character is an independent draw below 62; a draw is the first byte of the random bytes,
  reduced to that range.\<close>

fun randomBase62 :: "nat \<Rightarrow> string \<Rightarrow> string result web_op" where
  "randomBase62 0 sb = return (Inr sb)"
| "randomBase62 (Suc n) sb = do {
     rnd \<leftarrow> random_bytes;
     (case rnd of
        Inl e \<Rightarrow> return (Inl (wrapf ''generate token'' e))
      | Inr buf \<Rightarrow> randomBase62 n (sb @ [base62Alphabet ! (of_char (hd (buf @ [CHR 0x00])) mod length base62Alphabet)])) }"

section \<open>Logins and sessions\<close>

definition invalid_credentials :: error where
  "invalid_credentials = GoErr (Some ErrInvalidCredentials) ''invalid email or password''"

definition session_expired :: error where
  "session_expired = GoErr (Some ErrSessionExpired) ''session expired''"

definition token_expired :: error where
  "token_expired = GoErr (Some ErrTokenExpired) ''token expired''"

definition Login :: "kdf \<Rightarrow> string \<Rightarrow> string \<Rightarrow> User result web_op" where
  "Login K email password = do {
     found \<leftarrow> lookup (\<lambda>flt. Users_GetByEmail flt email);
     (case found of
        Inl e \<Rightarrow> return (Inl (if errIs e ErrNotFound then invalid_credentials else e))
      | Inr rec \<Rightarrow>
          (case VerifyPassword K (ur_PasswordHash rec) password of
             Inr True \<Rightarrow> do {
               now \<leftarrow> time_Now;
               err \<leftarrow> sql (\<lambda>flt. Users_TouchLogin flt (ur_ID rec) now);
               (case err of
                  Some e \<Rightarrow> return (Inl e)
                | None \<Rightarrow> return (Inr ((ur_User rec)\<lparr>usr_LastLoginAt := Some now\<rparr>))) }
           | _ \<Rightarrow> return (Inl invalid_credentials))) }"

definition CreateSession :: "(string \<Rightarrow> string) \<Rightarrow> string \<Rightarrow> string \<Rightarrow> string \<Rightarrow> (string \<times> time) result web_op" where
  "CreateSession sha userID ip userAgent = do {
     rsecret \<leftarrow> randomSecret;
     (case rsecret of
        Inl e \<Rightarrow> return (Inl e)
      | Inr secret \<Rightarrow> do {
          now \<leftarrow> time_Now;
          let expires = now + SessionTTL;
          err \<leftarrow> sql (\<lambda>flt. Sessions_Create flt
            \<lparr>ses_ID = hashSecret sha secret, ses_UserID = userID, ses_CreatedAt = now, ses_ExpiresAt = expires,
             ses_LastSeenAt = now, ses_IP = ip, ses_UserAgent = userAgent\<rparr>);
          return (case err of Some e \<Rightarrow> Inl e | None \<Rightarrow> Inr (secret, expires)) }) }"

definition session_principal :: "User \<Rightarrow> string \<Rightarrow> Principal" where
  "session_principal u sid = \<lparr>pr_Type = AuthSession, pr_User = Some u, pr_TokenID = [], pr_TokenName = [],
     pr_Scopes = ScopesForRole (usr_Role u), pr_JobSlugs = [], pr_SessionID = sid\<rparr>"

definition ResolveSession :: "(string \<Rightarrow> string) \<Rightarrow> string \<Rightarrow> Principal result web_op" where
  "ResolveSession sha secret = do {
     let sid = hashSecret sha secret;
     found \<leftarrow> lookup (\<lambda>flt. Sessions_Get flt sid);
     (case found of
        Inl e \<Rightarrow> return (Inl e)
      | Inr sess \<Rightarrow> do {
          now \<leftarrow> time_Now;
          if ses_ExpiresAt sess < now
          then do {
            _ \<leftarrow> sql (\<lambda>flt. Sessions_Delete flt sid);
            return (Inl session_expired) }
          else do {
            ruser \<leftarrow> lookup (\<lambda>flt. Users_Get flt (ses_UserID sess));
            (case ruser of
               Inl e \<Rightarrow> return (Inl e)
             | Inr rec \<Rightarrow> do {
                 err \<leftarrow> (if Hour < Sub now (ses_LastSeenAt sess)
                        then sql (\<lambda>flt. Sessions_Touch flt sid now (now + SessionTTL))
                        else return None);
                 (case err of
                    Some e \<Rightarrow> return (Inl e)
                  | None \<Rightarrow> return (Inr (session_principal (ur_User rec) sid))) }) } }) }"

definition DestroySession :: "(string \<Rightarrow> string) \<Rightarrow> string \<Rightarrow> error option web_op" where
  "DestroySession sha secret = sql (\<lambda>flt. Sessions_Delete flt (hashSecret sha secret))"

section \<open>Tokens\<close>

definition CreateToken :: "(string \<Rightarrow> string) \<Rightarrow> APIToken \<Rightarrow> (APIToken \<times> string) result web_op" where
  "CreateToken sha t = do {
     rbody \<leftarrow> randomBase62 tokenBodyLen [];
     (case rbody of
        Inl e \<Rightarrow> return (Inl e)
      | Inr b \<Rightarrow> do {
          let secret = TokenPrefix @ b;
          newID \<leftarrow> next_id;
          now \<leftarrow> time_Now;
          saved \<leftarrow> sql (\<lambda>flt. Tokens_Create flt newID now
            (t\<lparr>tok_Prefix := take (length TokenPrefix + 8) secret\<rparr>) (hashSecret sha secret));
          return (case saved of Inl e \<Rightarrow> Inl e | Inr t' \<Rightarrow> Inr (t', secret)) }) }"

definition token_principal :: "APIToken \<Rightarrow> Principal" where
  "token_principal t = \<lparr>pr_Type = AuthToken, pr_User = None, pr_TokenID = tok_ID t, pr_TokenName = tok_Name t,
     pr_Scopes = tok_Scopes t, pr_JobSlugs = tok_JobSlugs t, pr_SessionID = []\<rparr>"

definition token_is_expired :: "APIToken \<Rightarrow> time \<Rightarrow> bool" where
  "token_is_expired t now = (case tok_ExpiresAt t of None \<Rightarrow> False | Some e \<Rightarrow> e < now)"

definition ResolveToken :: "(string \<Rightarrow> string) \<Rightarrow> string \<Rightarrow> Principal result web_op" where
  "ResolveToken sha secret = do {
     found \<leftarrow> lookup (\<lambda>flt. Tokens_GetByHash flt (hashSecret sha secret));
     (case found of
        Inl e \<Rightarrow> return (Inl e)
      | Inr tok \<Rightarrow> do {
          now \<leftarrow> time_Now;
          if token_is_expired tok now then return (Inl token_expired)
          else do {
            err \<leftarrow> (if (case tok_LastUsedAt tok of None \<Rightarrow> True | Some u \<Rightarrow> Minute < Sub now u)
                   then sql (\<lambda>flt. Tokens_TouchUsed flt (tok_ID tok) now)
                   else return None);
            (case err of
               Some e \<Rightarrow> return (Inl e)
             | None \<Rightarrow> return (Inr (token_principal tok))) } }) }"

section \<open>Accounts\<close>

definition SetPassword :: "kdf \<Rightarrow> string \<Rightarrow> string \<Rightarrow> error option web_op" where
  "SetPassword K userID password = do {
     rnd \<leftarrow> random_bytes;
     (case HashPassword K rnd password of
        Inl e \<Rightarrow> return (Some e)
      | Inr hash \<Rightarrow> sql (\<lambda>flt. Users_SetPassword flt userID hash)) }"

definition CreateUser :: "kdf \<Rightarrow> User \<Rightarrow> string \<Rightarrow> User result web_op" where
  "CreateUser K u password = do {
     rnd \<leftarrow> random_bytes;
     (case HashPassword K rnd password of
        Inl e \<Rightarrow> return (Inl e)
      | Inr hash \<Rightarrow> do {
          newID \<leftarrow> next_id;
          now \<leftarrow> time_Now;
          sql (\<lambda>flt. Users_Create flt newID now u hash) }) }"

definition NeedsSetup :: "bool result web_op" where
  "NeedsSetup = do {
     r \<leftarrow> lookup Users_Count;
     return (case r of Inl e \<Rightarrow> Inl e | Inr n \<Rightarrow> Inr (n = 0)) }"

definition BootstrapAdmin :: "kdf \<Rightarrow> string \<Rightarrow> string \<Rightarrow> bool result web_op" where
  "BootstrapAdmin K email password =
     (if TrimSpace email = [] \<or> password = [] then return (Inr False)
      else do {
        needs \<leftarrow> NeedsSetup;
        (case needs of
           Inl e \<Rightarrow> return (Inl e)
         | Inr False \<Rightarrow> return (Inr False)
         | Inr True \<Rightarrow> do {
             r \<leftarrow> CreateUser K (zero_user\<lparr>usr_Email := email, usr_Name := ''Administrator'', usr_Role := RoleAdmin\<rparr>) password;
             return (case r of Inl e \<Rightarrow> Inl e | Inr u \<Rightarrow> Inr True) }) })"

section \<open>Middleware\<close>

text \<open>What comes before a handler passes the request on with the principal it found, or answers it.
  The second component says whether the answer clears the session cookie.\<close>

type_synonym 'a outcome = "'a reply \<times> bool"

definition Resolve ::
  "(string \<Rightarrow> string) \<Rightarrow> (request \<Rightarrow> Principal option \<Rightarrow> 'a reply web_op) \<Rightarrow> request \<Rightarrow> 'a outcome web_op" where
  "Resolve sha next r =
     (let header = TrimSpace (hr_Authorization r) in
      if header \<noteq> [] then
        if \<not> HasPrefix (ToLower header) ''bearer ''
        then return (writeError 401 ''unauthenticated'' ''unsupported authorization scheme'', False)
        else do {
          p \<leftarrow> ResolveToken sha (TrimSpace (drop (length ''bearer '') header));
          (case p of
             Inl e \<Rightarrow>
               return (if errIs e ErrNotFound \<or> errIs e ErrTokenExpired
                       then writeError 401 ''unauthenticated'' ''invalid or expired API token''
                       else writeError 500 ''internal'' ''could not verify API token'', False)
           | Inr pr \<Rightarrow> do { x \<leftarrow> next r (Some pr); return (x, False) }) }
      else if hr_Cookie r \<notin> {None, Some []} then do {
          p \<leftarrow> ResolveSession sha (the (hr_Cookie r));
          (case p of
             Inl e \<Rightarrow>
               if errIs e ErrNotFound \<or> errIs e ErrSessionExpired
               then do { x \<leftarrow> next r None; return (x, True) }
               else return (writeError 500 ''internal'' ''could not verify session'', False)
           | Inr pr \<Rightarrow> do { x \<leftarrow> next r (Some pr); return (x, False) }) }
      else do { x \<leftarrow> next r None; return (x, False) })"

definition RequireAuth ::
  "(request \<Rightarrow> Principal option \<Rightarrow> 'a reply web_op) \<Rightarrow> request \<Rightarrow> Principal option \<Rightarrow> 'a reply web_op" where
  "RequireAuth next r p =
     (if p = None then return (writeError 401 ''unauthenticated'' ''authentication required'') else next r p)"

definition RequireScope ::
  "string \<Rightarrow> (request \<Rightarrow> Principal option \<Rightarrow> 'a reply web_op) \<Rightarrow> request \<Rightarrow> Principal option \<Rightarrow> 'a reply web_op" where
  "RequireScope scope next r p =
     (if p = None then return (writeError 401 ''unauthenticated'' ''authentication required'')
      else if \<not> HasScope p scope then return (writeError 403 ''forbidden'' (''missing scope: '' @ scope))
      else next r p)"

definition mutating :: "string \<Rightarrow> bool" where
  "mutating method = (method \<in> {''POST'', ''PUT'', ''PATCH'', ''DELETE''})"

definition CSRFHeader :: string where "CSRFHeader = ''X-Requested-With''"
definition CSRFValue :: string where "CSRFValue = ''backvault''"

text \<open>\<open>strings.EqualFold\<close> with an ASCII text: besides the ASCII letters, the Kelvin sign folds to k
  and the long s to s.\<close>

fun fold_ascii :: "string \<Rightarrow> string" where
  "fold_ascii (a # b # c # s) =
     (if [a, b, c] = [CHR 0xE2, CHR 0x84, CHR 0xAA] then CHR ''k'' # fold_ascii s
      else if [a, b] = [CHR 0xC5, CHR 0xBF] then CHR ''s'' # fold_ascii (c # s)
      else lower_char a # fold_ascii (b # c # s))"
| "fold_ascii [a, b] = (if [a, b] = [CHR 0xC5, CHR 0xBF] then ''s'' else [lower_char a, lower_char b])"
| "fold_ascii [a] = [lower_char a]"
| "fold_ascii [] = []"

definition CSRF ::
  "(request \<Rightarrow> Principal option \<Rightarrow> 'a reply web_op) \<Rightarrow> request \<Rightarrow> Principal option \<Rightarrow> 'a reply web_op" where
  "CSRF next r p =
     (if \<not> mutating (hr_Method r) then next r p
      else if p \<noteq> None \<and> pr_Type (the p) = AuthSession \<and> fold_ascii (hr_RequestedWith r) \<noteq> CSRFValue
      then return (writeError 403 ''forbidden'' (''missing '' @ CSRFHeader @ '': '' @ CSRFValue @ '' header''))
      else next r p)"

section \<open>Routes\<close>

text \<open>The guards of buildRouter: a route of the API behind a scope, behind any authentication, or open.\<close>

datatype guard = Open_Route | Authenticated | Scoped string

fun guarded ::
  "guard \<Rightarrow> (request \<Rightarrow> Principal option \<Rightarrow> 'a reply web_op) \<Rightarrow> request \<Rightarrow> Principal option \<Rightarrow> 'a reply web_op" where
  "guarded Open_Route h = h"
| "guarded Authenticated h = RequireAuth h"
| "guarded (Scoped scope) h = RequireScope scope h"

definition route ::
  "(string \<Rightarrow> string) \<Rightarrow> guard \<Rightarrow> (request \<Rightarrow> Principal option \<Rightarrow> 'a reply web_op) \<Rightarrow> request \<Rightarrow> 'a outcome web_op" where
  "route sha g h = Resolve sha (CSRF (guarded g h))"

text \<open>The table of the API, by method and path; the routes outside it serve health checks, metrics and
  the static files of the panel.\<close>

definition api_routes :: "(string \<times> string \<times> guard) list" where
  "api_routes =
     map (\<lambda>(m, p). (m, p, Open_Route))
       [(''GET'', ''/healthz''), (''GET'', ''/readyz''), (''GET'', ''/setup/status''), (''POST'', ''/setup''),
        (''POST'', ''/auth/login''), (''GET'', ''/docs''), (''GET'', ''/docs/page''), (''GET'', ''/docs/search''),
        (''GET'', ''/docs/assets/*'')]
     @ map (\<lambda>(m, p). (m, p, Authenticated))
       [(''POST'', ''/auth/logout''), (''GET'', ''/auth/me''), (''GET'', ''/meta/version''), (''GET'', ''/meta/sources''),
        (''GET'', ''/meta/destinations''), (''GET'', ''/meta/notifiers''), (''GET'', ''/meta/tools''),
        (''GET'', ''/meta/timezones''), (''PUT'', ''/users/{id}/password'')]
     @ map (\<lambda>p. (''GET'', p, Scoped ScopeRead))
       [''/dashboard'', ''/events/stream'', ''/sources'', ''/sources/{id}'', ''/hosts'', ''/hosts/{id}'', ''/destinations'',
        ''/destinations/{id}'', ''/destinations/{id}/browse'', ''/jobs'', ''/jobs/{id}'', ''/jobs/{id}/runs'',
        ''/jobs/{id}/artifacts'', ''/jobs/{id}/schedule/preview'', ''/runs'', ''/runs/{id}'', ''/runs/{id}/log'',
        ''/runs/{id}/log/stream'', ''/artifacts'', ''/artifacts/{id}'', ''/artifacts/{id}/download'',
        ''/notifications/channels'', ''/notifications/channels/{id}'', ''/settings'']
     @ map (\<lambda>p. (''POST'', p, Scoped ScopeRun))
       [''/jobs/{id}/run'', ''/runs/{id}/cancel'', ''/artifacts/{id}/verify'']
     @ [(''POST'', ''/ingest/{jobSlug}'', Scoped ScopeIngest)]
     @ map (\<lambda>(m, p). (m, p, Scoped ScopeAdmin))
       [(''POST'', ''/sources''), (''PUT'', ''/sources/{id}''), (''DELETE'', ''/sources/{id}''), (''POST'', ''/sources/test''),
        (''POST'', ''/sources/{id}/test''), (''POST'', ''/hosts''), (''PUT'', ''/hosts/{id}''), (''DELETE'', ''/hosts/{id}''),
        (''POST'', ''/hosts/test''), (''POST'', ''/hosts/{id}/test''), (''POST'', ''/hosts/keygen''),
        (''POST'', ''/hosts/{id}/keygen''), (''POST'', ''/destinations''), (''PUT'', ''/destinations/{id}''),
        (''DELETE'', ''/destinations/{id}''), (''POST'', ''/destinations/test''), (''POST'', ''/destinations/{id}/test''),
        (''POST'', ''/jobs''), (''PUT'', ''/jobs/{id}''), (''DELETE'', ''/jobs/{id}''), (''POST'', ''/jobs/{id}/enable''),
        (''POST'', ''/jobs/{id}/disable''), (''POST'', ''/jobs/{id}/prune''), (''POST'', ''/jobs/{id}/duplicate''),
        (''DELETE'', ''/artifacts/{id}''), (''POST'', ''/artifacts/{id}/restore''), (''POST'', ''/notifications/channels''),
        (''PUT'', ''/notifications/channels/{id}''), (''DELETE'', ''/notifications/channels/{id}''),
        (''POST'', ''/notifications/channels/test''), (''POST'', ''/notifications/channels/{id}/test''), (''PUT'', ''/settings''),
        (''GET'', ''/users''), (''POST'', ''/users''), (''GET'', ''/users/{id}''), (''PUT'', ''/users/{id}''),
        (''DELETE'', ''/users/{id}''), (''GET'', ''/tokens''), (''POST'', ''/tokens''), (''DELETE'', ''/tokens/{id}''),
        (''GET'', ''/audit''), (''GET'', ''/export''), (''POST'', ''/import'')]"

section \<open>Who a request speaks for\<close>

definition bearer :: "request \<Rightarrow> string" where
  "bearer r = TrimSpace (drop (length ''bearer '') (TrimSpace (hr_Authorization r)))"

definition live_session :: "(string \<Rightarrow> string) \<Rightarrow> db \<Rightarrow> time \<Rightarrow> string \<Rightarrow> Principal \<Rightarrow> bool" where
  "live_session sha d now secret p \<longleftrightarrow>
     (\<exists>x u. find_row ses_ID (hashSecret sha secret) (t_sessions d) = Some x \<and> now \<le> ses_ExpiresAt x
        \<and> find_row ur_ID (ses_UserID x) (t_users d) = Some u
        \<and> p = session_principal (ur_User u) (hashSecret sha secret))"

definition live_token :: "(string \<Rightarrow> string) \<Rightarrow> db \<Rightarrow> time \<Rightarrow> string \<Rightarrow> Principal \<Rightarrow> bool" where
  "live_token sha d now secret p \<longleftrightarrow>
     (\<exists>x. find_row tr_Hash (hashSecret sha secret) (t_tokens d) = Some x \<and> \<not> token_is_expired (tr_Token x) now
        \<and> p = token_principal (tr_Token x))"

definition clock_of :: "web \<Rightarrow> time" where
  "clock_of w = fst (run_state time_Now w)"

text \<open>The principal of a request: nobody, the user of a live session, or a live token.\<close>

definition vouched :: "(string \<Rightarrow> string) \<Rightarrow> db \<Rightarrow> time \<Rightarrow> request \<Rightarrow> Principal option \<Rightarrow> bool" where
  "vouched sha d now r po =
     (case po of
        None \<Rightarrow> True
      | Some p \<Rightarrow>
          if TrimSpace (hr_Authorization r) \<noteq> [] then live_token sha d now (bearer r) p
          else (case hr_Cookie r of None \<Rightarrow> False | Some c \<Rightarrow> live_session sha d now c p))"

fun guard_admits :: "guard \<Rightarrow> Principal option \<Rightarrow> bool" where
  "guard_admits Open_Route p = True"
| "guard_admits Authenticated p = (p \<noteq> None)"
| "guard_admits (Scoped scope) p = HasScope p scope"

definition csrf_safe :: "request \<Rightarrow> Principal option \<Rightarrow> bool" where
  "csrf_safe r p \<longleftrightarrow> mutating (hr_Method r) \<longrightarrow> (\<forall>pr. p = Some pr \<and> pr_Type pr = AuthSession \<longrightarrow> fold_ascii (hr_RequestedWith r) = CSRFValue)"

lemma clock_lookup [simp]: "clock_of (snd (run_state next_fault w)) = clock_of w"
  by (auto simp: clock_of_def time_Now_def next_fault_def split: list.split)

lemma run_lookup:
  "run_state (lookup f) w = (f (fst (run_state next_fault w)) (web_db w), snd (run_state next_fault w))"
  by (simp add: lookup_def case_prod_beta)

lemma ResolveSession_live:
  assumes "run_state (ResolveSession sha secret) w = (Inr p, w')"
  shows "live_session sha (web_db w) (clock_of w) secret p"
proof -
  let ?w1 = "snd (run_state next_fault w)" and ?sid = "hashSecret sha secret"
  obtain sess where sess: "Sessions_Get (fst (run_state next_fault w)) ?sid (web_db w) = Inr sess"
    using assms by (auto simp: ResolveSession_def Let_def run_lookup split: sum.splits)
  then have row: "find_row ses_ID ?sid (t_sessions (web_db w)) = Some sess"
    by (auto simp: Sessions_Get_def split: option.splits)
  have fresh: "\<not> ses_ExpiresAt sess < clock_of w"
  proof
    assume "ses_ExpiresAt sess < clock_of w"
    moreover have "fst (run_state time_Now ?w1) = clock_of w" using clock_lookup [of w] by (simp add: clock_of_def)
    ultimately show False using assms sess by (auto simp: ResolveSession_def Let_def run_lookup case_prod_beta)
  qed
  then have now: "\<not> ses_ExpiresAt sess < fst (run_state time_Now ?w1)"
    using clock_lookup [of w] by (simp add: clock_of_def)
  let ?w2 = "snd (run_state time_Now ?w1)"
  obtain u where u: "Users_Get (fst (run_state next_fault ?w2)) (ses_UserID sess) (web_db w) = Inr u"
    and p: "p = session_principal (ur_User u) ?sid"
    using assms sess now
    by (auto simp: ResolveSession_def Let_def run_lookup case_prod_beta split: sum.splits if_splits option.splits)
  have "find_row ur_ID (ses_UserID sess) (t_users (web_db w)) = Some u"
    using u by (auto simp: Users_Get_def user_found_def split: option.splits)
  with row fresh p show ?thesis by (auto simp: live_session_def)
qed

lemma ResolveToken_live:
  assumes "run_state (ResolveToken sha secret) w = (Inr p, w')"
  shows "live_token sha (web_db w) (clock_of w) secret p"
proof -
  obtain tok where tok: "Tokens_GetByHash (fst (run_state next_fault w)) (hashSecret sha secret) (web_db w) = Inr tok"
    using assms by (auto simp: ResolveToken_def Let_def run_lookup split: sum.splits)
  then obtain x where row: "find_row tr_Hash (hashSecret sha secret) (t_tokens (web_db w)) = Some x" "tok = tr_Token x"
    by (auto simp: Tokens_GetByHash_def token_found_def split: option.splits)
  have now: "fst (run_state time_Now (snd (run_state next_fault w))) = clock_of w"
    using clock_lookup [of w] by (simp add: clock_of_def)
  have "\<not> token_is_expired tok (clock_of w)" "p = token_principal tok"
    using assms tok by (auto simp: ResolveToken_def Let_def run_lookup case_prod_beta now split: if_splits option.splits)
  with row show ?thesis by (auto simp: live_token_def)
qed

text \<open>What a guarded handler does for a principal that is not admitted does not matter.\<close>

lemma CSRF_guarded:
  assumes "csrf_safe r p \<Longrightarrow> guard_admits g p \<Longrightarrow> run_state (h1 r p) w = run_state (h2 r p) w"
  shows "run_state (CSRF (guarded g h1) r p) w = run_state (CSRF (guarded g h2) r p) w"
  using assms
  by (cases g; cases p) (auto simp: CSRF_def csrf_safe_def RequireAuth_def RequireScope_def)

lemma Resolve_vouched:
  assumes "\<And>p w'. vouched sha (web_db w) (clock_of w) r p \<Longrightarrow> run_state (h1 r p) w' = run_state (h2 r p) w'"
  shows "run_state (Resolve sha h1 r) w = run_state (Resolve sha h2 r) w"
proof -
  have none: "run_state (h1 r None) w' = run_state (h2 r None) w'" for w'
    by (rule assms) (simp add: vouched_def)
  show ?thesis
  proof (cases "TrimSpace (hr_Authorization r) = []")
    case False
    have tok: "run_state (h1 r (Some p)) w' = run_state (h2 r (Some p)) w'"
      if "run_state (ResolveToken sha (bearer r)) w = (Inr p, w'')" for p w' w''
      by (rule assms) (use False ResolveToken_live [OF that] in \<open>simp add: vouched_def\<close>)
    with False show ?thesis
      by (cases "run_state (ResolveToken sha (bearer r)) w")
         (auto simp: Resolve_def Let_def bearer_def split: sum.split)
  next
    case True
    show ?thesis
    proof (cases "hr_Cookie r \<in> {None, Some []}")
      case False
      then obtain c where c: "hr_Cookie r = Some c" "c \<noteq> []" by auto
      have ses: "run_state (h1 r (Some p)) w' = run_state (h2 r (Some p)) w'"
        if "run_state (ResolveSession sha c) w = (Inr p, w'')" for p w' w''
        by (rule assms) (use True c ResolveSession_live [OF that] in \<open>simp add: vouched_def\<close>)
      with True c none show ?thesis
        by (cases "run_state (ResolveSession sha c) w") (auto simp: Resolve_def Let_def split: sum.split)
    qed (use True none in \<open>auto simp: Resolve_def Let_def\<close>)
  qed
qed

text \<open>The guards of the routes that change state.\<close>

definition changing_route :: "string \<times> string \<times> guard \<Rightarrow> bool" where
  "changing_route x =
     (case x of (m, path, g) \<Rightarrow>
        (case g of
           Scoped scope \<Rightarrow> scope = ScopeAdmin \<or> scope = ScopeRun \<or> scope = ScopeIngest \<and> path = ''/ingest/{jobSlug}''
         | _ \<Rightarrow> path \<in> {''/setup'', ''/auth/login'', ''/auth/logout'', ''/users/{id}/password''}))"

lemma changing_routes: "list_all (\<lambda>x. mutating (fst x) \<longrightarrow> changing_route x) api_routes"
  by code_simp

section \<open>A session is created and found again\<close>

lemma CreateSession_stored:
  assumes "run_state (CreateSession sha uid ip ua) w = (Inr (secret, expires), w1)"
  shows "\<exists>x. find_row ses_ID (hashSecret sha secret) (t_sessions (web_db w1)) = Some x \<and> ses_UserID x = uid
      \<and> ses_ExpiresAt x = expires \<and> t_users (web_db w1) = t_users (web_db w)"
proof -
  obtain x flt d where stored: "Sessions_Create flt x d = (None, web_db w1)" "t_users d = t_users (web_db w)"
    and x: "ses_ID x = hashSecret sha secret" "ses_UserID x = uid" "ses_ExpiresAt x = expires"
    using assms
    by (auto simp: CreateSession_def randomSecret_def run_sql Let_def case_prod_beta split: sum.splits option.splits)
       (metis Session.select_convs(1,2,4) prod.collapse)
  then have new: "find_row ses_ID (ses_ID x) (t_sessions d) = None"
    and db: "web_db w1 = d\<lparr>t_sessions := t_sessions d @ [x]\<rparr>"
    by (auto simp: Sessions_Create_def exec_err_def split: option.splits if_splits)
  have "t_sessions (web_db w1) = t_sessions d @ [x]" "t_users (web_db w1) = t_users d"
    by (simp_all add: db)
  with new x stored(2) show ?thesis by (intro exI [of _ x]) (simp add: find_row_append)
qed

section \<open>Properties\<close>

text \<open>C7 (safety): a handler behind a guard runs only for a principal that the guard admits, that the
  request proves and that passes the CSRF check. Replacing what the handler does for any other principal,
  for one whose session or token is not stored or has expired, or for a mutating session request without
  the header, changes neither the answer nor the state of the server.\<close>

theorem route_guards_handler:
  assumes "\<And>p w'. vouched sha (web_db w) (clock_of w) r p \<Longrightarrow> csrf_safe r p \<Longrightarrow> guard_admits g p
    \<Longrightarrow> run_state (h1 r p) w' = run_state (h2 r p) w'"
  shows "run_state (route sha g h1 r) w = run_state (route sha g h2 r) w"
  unfolding route_def by (rule Resolve_vouched) (rule CSRF_guarded, erule (2) assms)

definition demo_request :: request where
  "demo_request = \<lparr>hr_Method = ''POST'', hr_Authorization = [], hr_Cookie = None, hr_RequestedWith = [],
     hr_ClientIP = ''192.0.2.7'', hr_UserAgent = [], hr_Query = (\<lambda>_. [])\<rparr>"

definition demo_web :: web where
  "demo_web = \<lparr>web_db = empty_db, web_engine = engine_New, web_limiter = NewRateLimiter 5 Minute, web_reloads = 0,
     web_faults = [], web_ids = [], web_random = [], web_clock = []\<rparr>"

theorem route_guards_handler_witness:
  "run_state (route (\<lambda>s. s) (Scoped ScopeAdmin) (\<lambda>_ _. return (Reply 204 ())) demo_request) demo_web
    = run_state (route (\<lambda>s. s) (Scoped ScopeAdmin) (\<lambda>_ _. return (writeError 401 ''x'' ''y'')) demo_request) demo_web"
  by (rule route_guards_handler) (auto simp: vouched_def demo_request_def TrimSpace_def trim_runes.simps HasScope_def split: option.splits)

text \<open>C11 (safety): a session of a user who is no administrator changes nothing but its own account. Of the
  routes that change state its scopes open only login, setup, logout and the change of a password; an
  ingest token reaches besides these only the ingest.\<close>

theorem viewer_changes_nothing:
  assumes "(m, path, g) \<in> set api_routes" and "mutating m" and "usr_Role u \<noteq> RoleAdmin"
    and "tok_Scopes t = [ScopeIngest]"
  shows "(guard_admits g (Some (session_principal u sid)) \<longrightarrow>
      path \<in> {''/setup'', ''/auth/login'', ''/auth/logout'', ''/users/{id}/password''})
    \<and> (guard_admits g (Some (token_principal t)) \<longrightarrow>
      path \<in> {''/setup'', ''/auth/login'', ''/auth/logout'', ''/users/{id}/password'', ''/ingest/{jobSlug}''})"
proof -
  have v: "HasScope (Some (session_principal u sid)) scope \<longleftrightarrow> scope = ScopeRead" for scope
    using assms(3) by (auto simp: HasScope_def session_principal_def ScopesForRole_def scope_defs)
  have i: "HasScope (Some (token_principal t)) scope \<longleftrightarrow> scope = ScopeIngest" for scope
    using assms(4) by (auto simp: HasScope_def token_principal_def scope_defs)
  have "changing_route (m, path, g)"
    using changing_routes assms(1,2) by (auto simp: list_all_iff)
  then show ?thesis
    by (cases g) (auto simp: changing_route_def v i scope_defs)
qed

theorem viewer_changes_nothing_witness:
  "(''POST'', ''/jobs'', Scoped ScopeAdmin) \<in> set api_routes
    \<and> \<not> guard_admits (Scoped ScopeAdmin) (Some (session_principal (zero_user\<lparr>usr_Role := RoleViewer\<rparr>) ''s''))"
proof -
  have r: "(''POST'', ''/jobs'', Scoped ScopeAdmin) \<in> set api_routes" by (simp add: api_routes_def)
  moreover have "mutating ''POST''" by (simp add: mutating_def)
  ultimately show ?thesis
    using viewer_changes_nothing [OF r, of "zero_user\<lparr>usr_Role := RoleViewer\<rparr>" "zero_token\<lparr>tok_Scopes := [ScopeIngest]\<rparr>" "''s''"]
    by auto
qed

text \<open>A session that was created is found by its secret until it expires: as long as its
  row and its user are stored and the database answers, the secret resolves to the user the session was
  created for, with the scopes of the user's role.\<close>

theorem session_resolves:
  assumes "run_state (CreateSession sha uid ip ua) w = (Inr (secret, expires), w1)"
    and "web_db w2 = web_db w1" and "web_faults w2 = []" and "clock_of w2 \<le> expires"
    and "find_row ur_ID uid (t_users (web_db w)) = Some u"
  shows "fst (run_state (ResolveSession sha secret) w2) = Inr (session_principal (ur_User u) (hashSecret sha secret))"
proof -
  obtain x where x: "find_row ses_ID (hashSecret sha secret) (t_sessions (web_db w2)) = Some x" "ses_UserID x = uid"
    "ses_ExpiresAt x = expires" "find_row ur_ID uid (t_users (web_db w2)) = Some u"
    using CreateSession_stored [OF assms(1)] assms(2,5) by auto
  have fault: "run_state next_fault v = (None, v)" if "web_faults v = []" for v using that by (simp add: next_fault_def)
  have time: "fst (run_state time_Now v) = clock_of v" "web_faults (snd (run_state time_Now v)) = web_faults v" for v
    by (auto simp: clock_of_def time_Now_def split: list.split)
  from x assms(3,4) show ?thesis
    by (simp add: ResolveSession_def Let_def run_lookup fault Sessions_Get_def Users_Get_def user_found_def
        case_prod_beta time run_sql Sessions_Touch_def)
qed


definition session_demo :: web where
  "session_demo = demo_web\<lparr>web_db := empty_db\<lparr>t_users := [\<lparr>ur_User = zero_user\<lparr>usr_ID := ''u''\<rparr>, ur_PasswordHash = []\<rparr>]\<rparr>,
     web_random := [Inr ''random'']\<rparr>"

theorem session_resolves_witness:
  "\<exists>w1. run_state (CreateSession (\<lambda>s. s) ''u'' [] []) session_demo = (Inr (''cmFuZG9t'', SessionTTL), w1)
     \<and> fst (run_state (ResolveSession (\<lambda>s. s) ''cmFuZG9t'') (w1\<lparr>web_clock := [Hour]\<rparr>))
       = Inr (session_principal (zero_user\<lparr>usr_ID := ''u''\<rparr>) (hashSecret (\<lambda>s. s) ''cmFuZG9t''))"
proof -
  let ?m = "run_state (CreateSession (\<lambda>s. s) ''u'' [] []) session_demo"
  have "fst ?m = Inr (''cmFuZG9t'', SessionTTL) \<and> web_faults (snd ?m) = []" by code_simp
  then obtain w1 where run: "?m = (Inr (''cmFuZG9t'', SessionTTL), w1)" "web_faults w1 = []"
    by (cases ?m) auto
  have "find_row ur_ID ''u'' (t_users (web_db session_demo)) = Some \<lparr>ur_User = zero_user\<lparr>usr_ID := ''u''\<rparr>, ur_PasswordHash = []\<rparr>"
    by (simp add: session_demo_def find_row_def zero_user_def)
  from session_resolves [OF run(1) _ _ _ this, of "w1\<lparr>web_clock := [Hour]\<rparr>"] run show ?thesis
    by (auto simp: clock_of_def time_Now_def SessionTTL_def)
qed

end
