(* ===== verification/Slug.thy ===== *)
theory Slug
  imports Auth_Manager
begin

text \<open>
  Slugs of jobs (internal/server/slug.go): how a name becomes a slug, which slugs are valid, and how a free
  one is found.
\<close>

section \<open>From a name to a slug\<close>

definition slug_char :: "char \<Rightarrow> bool" where
  "slug_char c \<longleftrightarrow> c \<in> set ''abcdefghijklmnopqrstuvwxyz0123456789''"

text \<open>Two runes outside ASCII have an ASCII letter as their lower case: U+0130 and U+212A. Every other byte
  of a rune outside ASCII is dropped, unless the rune is a space.\<close>

fun lower_letters :: "string \<Rightarrow> string" where
  "lower_letters (a # b # c # s) =
     (if [a, b, c] = [CHR 0xE2, CHR 0x84, CHR 0xAA] then CHR ''k'' # lower_letters s
      else if [a, b] = [CHR 0xC4, CHR 0xB0] then CHR ''i'' # lower_letters (c # s)
      else lower_char a # lower_letters (b # c # s))"
| "lower_letters [a, b] = (if [a, b] = [CHR 0xC4, CHR 0xB0] then ''i'' else [lower_char a, lower_char b])"
| "lower_letters [a] = [lower_char a]"
| "lower_letters [] = []"

function slug_loop :: "string \<Rightarrow> string \<Rightarrow> bool \<Rightarrow> string" where
  "slug_loop [] sb lastDash = sb"
| "slug_loop (c # s) sb lastDash =
     (let n = rune_len space_runes (c # s) in
      if slug_char c then slug_loop s (sb @ [c]) False
      else if 0 < n \<or> c \<in> set ''-_./''
      then (if \<not> lastDash \<and> sb \<noteq> [] then slug_loop (drop (n - 1) s) (sb @ ''-'') True
            else slug_loop (drop (n - 1) s) sb lastDash)
      else slug_loop s sb lastDash)"
  by pat_completeness auto
termination
  by (relation "measure (\<lambda>(s, sb, b). length s)") auto

declare slug_loop.simps(2) [simp del]

definition trim_dashes :: "string \<Rightarrow> string" where
  "trim_dashes s = rev (dropWhile (\<lambda>c. c = CHR ''-'') (rev (dropWhile (\<lambda>c. c = CHR ''-'') s)))"

definition slugify :: "string \<Rightarrow> string" where
  "slugify s = trim_dashes (slug_loop (lower_letters (TrimSpace s)) [] True)"

text \<open>The pattern \<open>^[a-z0-9]+(?:-[a-z0-9]+)*$\<close>: parts of letters and digits with single dashes
  between them.\<close>

definition validSlug :: "string \<Rightarrow> bool" where
  "validSlug s \<longleftrightarrow> (\<forall>p\<in>set (split_on (CHR ''-'') s). p \<noteq> [] \<and> list_all slug_char p)"

section \<open>A free slug\<close>

fun unique_loop ::
  "string \<Rightarrow> (string \<Rightarrow> bool result web_op) \<Rightarrow> int list \<Rightarrow> string \<Rightarrow> (failure + string) web_op" where
  "unique_loop base ex [] candidate =
     return (Inl (Invalid ''could not derive a unique slug'' [''slug'' \<mapsto> ''conflict'']))"
| "unique_loop base ex (i # is) candidate = do {
     taken \<leftarrow> ex candidate;
     (case taken of
        Inl e \<Rightarrow> return (Inl (Failed e))
      | Inr False \<Rightarrow> return (Inr candidate)
      | Inr True \<Rightarrow> unique_loop base ex is (base @ ''-'' @ Itoa i)) }"

definition slug_numbers :: "int list" where
  "slug_numbers = map int [2..<1000]"

definition uniqueSlug :: "string \<Rightarrow> (string \<Rightarrow> bool result web_op) \<Rightarrow> (failure + string) web_op" where
  "uniqueSlug base ex =
     (let b = (if base = [] then ''job'' else base) in unique_loop b ex slug_numbers b)"

section \<open>Slugs that come out are valid\<close>

text \<open>Inside the loop: letters and digits with single dashes between them, perhaps a dash at the end.\<close>

definition slug_shape :: "string \<Rightarrow> bool \<Rightarrow> bool" where
  "slug_shape sb lastDash \<longleftrightarrow>
     (if sb = [] then lastDash
      else if lastDash then (\<exists>t. sb = t @ ''-'' \<and> validSlug t) else validSlug sb)"

lemma slug_char_dash [simp]: "\<not> slug_char (CHR ''-'')"
  by (simp add: slug_char_def)

lemma split_on_snoc_other:
  "c \<noteq> x \<Longrightarrow> split_on c (s @ [x]) = butlast (split_on c s) @ [last (split_on c s) @ [x]]"
  by (induction s) (auto split: list.split simp: butlast_append)

lemma split_on_snoc_sep: "split_on c (s @ [c]) = split_on c s @ [[]]"
  by (induction s) (auto split: list.split)

lemma validSlug_snoc:
  assumes "validSlug s \<or> s = []" and "slug_char x"
  shows "validSlug (s @ [x])"
proof -
  let ?d = "CHR ''-''"
  have x: "?d \<noteq> x" using assms(2) by auto
  show ?thesis
  proof (cases "s = []")
    case True with assms(2) x show ?thesis by (auto simp: validSlug_def)
  next
    case False
    then have v: "validSlug s" using assms(1) by simp
    then show ?thesis
      using assms(2) in_set_butlastD [of _ "split_on ?d s"] last_in_set [OF split_on_nonempty, of ?d s]
      by (auto simp: validSlug_def split_on_snoc_other [OF x])
  qed
qed

lemma validSlug_dash_snoc:
  assumes "validSlug t" and "slug_char x"
  shows "validSlug (t @ [CHR ''-'', x])"
proof -
  have "CHR ''-'' \<noteq> x" using assms(2) by auto
  from split_on_snoc_other [OF this, of "t @ ''-''"]
  have "split_on (CHR ''-'') (t @ [CHR ''-'', x]) = split_on (CHR ''-'') t @ [[x]]"
    by (simp add: split_on_snoc_sep)
  with assms show ?thesis by (auto simp: validSlug_def)
qed


lemma validSlug_ends:
  assumes "validSlug t"
  shows "t \<noteq> []" and "slug_char (hd t)" and "slug_char (last t)"
proof -
  show ne: "t \<noteq> []" using assms by (auto simp: validSlug_def)
  show "slug_char (hd t)"
    using assms ne by (cases t) (auto simp: validSlug_def split: list.splits if_splits)
  obtain u x where t: "t = u @ [x]" using ne by (metis rev_exhaust)
  show "slug_char (last t)"
  proof (cases "x = CHR ''-''")
    case True with assms show ?thesis by (simp add: t validSlug_def split_on_snoc_sep)
  next
    case False with assms show ?thesis by (simp add: t validSlug_def split_on_snoc_other)
  qed
qed

lemma trim_dashes_valid:
  assumes "validSlug t"
  shows "trim_dashes t = t" and "trim_dashes (t @ ''-'') = t"
proof -
  note ends = validSlug_ends [OF assms]
  have r: "rev t = last t # rev (butlast t)" using ends(1) by (cases t rule: rev_cases) simp_all
  have h: "dropWhile (\<lambda>c. c = CHR ''-'') (t @ v) = t @ v" for v
    using ends slug_char_dash by (cases t) auto
  have l: "dropWhile (\<lambda>c. c = CHR ''-'') (rev t) = rev t"
    using ends(3) slug_char_dash by (auto simp: r)
  show "trim_dashes t = t" using h [of "[]"] l by (simp add: trim_dashes_def)
  show "trim_dashes (t @ ''-'') = t" using h [of "''-''"] l by (simp add: trim_dashes_def)
qed

lemma slug_loop_shape: "slug_shape sb b \<Longrightarrow> \<exists>b'. slug_shape (slug_loop s sb b) b'"
proof (induction s sb b rule: slug_loop.induct)
  case (2 c s sb b)
  have keep: "slug_char c \<Longrightarrow> slug_shape (sb @ [c]) False"
    using 2(5) validSlug_snoc [of sb c] by (auto simp: slug_shape_def validSlug_dash_snoc split: if_splits)
  have dash: "\<not> b \<Longrightarrow> sb \<noteq> [] \<Longrightarrow> slug_shape (sb @ ''-'') True"
    using 2(5) by (auto simp: slug_shape_def)
  show ?case
    unfolding slug_loop.simps(2) [of c s] Let_def
    using 2(1) [OF refl _ keep] 2(2) [OF refl _ _ _ dash] 2(3) [OF refl _ _ _ 2(5)] 2(4) [OF refl _ _ 2(5)]
    by (auto simp del: append_assoc)
qed auto

lemma slugify_valid_or_empty: "slugify s = [] \<or> validSlug (slugify s)"
proof -
  obtain b where "slug_shape (slug_loop (lower_letters (TrimSpace s)) [] True) b"
    using slug_loop_shape [of "[]" True] by (auto simp: slug_shape_def)
  then show ?thesis
    by (auto simp: slugify_def slug_shape_def trim_dashes_valid trim_dashes_def [of "[]"] split: if_splits)
qed

section \<open>Valid slugs stay as they are\<close>

lemma double_sep: "[] \<in> set (tl (split_on c (u @ c # c # v)))"
  by (induction u) (auto split: list.split dest: list.set_sel(2))

lemma slug_loop_valid:
  assumes "validSlug (sb @ s)" and "\<forall>c\<in>set s. slug_char c \<or> c = CHR ''-''"
    and "b \<longleftrightarrow> sb = [] \<or> last sb = CHR ''-''"
  shows "slug_loop s sb b = sb @ s"
  using assms
proof (induction s arbitrary: sb b)
  case (Cons c s)
  have n: "rune_len space_runes (c # s) = 0" if "c = CHR ''-''"
    using space_runes_unprintable that by (intro rune_len_printable) (auto simp: list_all_iff printable_def)
  show ?case
  proof (cases "slug_char c")
    case True
    then have "last (sb @ [c]) \<noteq> CHR ''-''" by auto
    with True Cons.prems Cons.IH [of "sb @ [c]" False] show ?thesis by (simp add: slug_loop.simps(2) Let_def)
  next
    case False
    then have c: "c = CHR ''-''" using Cons.prems(2) by simp
    have sb: "sb \<noteq> []" using Cons.prems(1) validSlug_ends(2) c by fastforce
    have "\<not> b"
    proof
      assume b
      with Cons.prems(3) sb obtain u where "sb = u @ ''-''" by (cases sb rule: rev_cases) auto
      with Cons.prems(1) list.set_sel(2) [OF split_on_nonempty double_sep [of "CHR ''-''" u s]] show False
        by (auto simp: c validSlug_def)
    qed
    with False c sb n Cons.prems Cons.IH [of "sb @ ''-''" True] show ?thesis by (simp add: slug_loop.simps(2) Let_def)
  qed
qed simp


lemma slug_chars:
  "list_all (\<lambda>c. printable c \<and> lower_char c = c \<and> c \<notin> {CHR 0xE2, CHR 0xC4}) ''-abcdefghijklmnopqrstuvwxyz0123456789''"
  by code_simp

lemma slug_char_plain:
  assumes "slug_char c \<or> c = CHR ''-''"
  shows "printable c" and "lower_char c = c" and "c \<noteq> CHR 0xE2" and "c \<noteq> CHR 0xC4"
  using assms slug_chars by (auto simp: slug_char_def)

lemma split_on_chars: "x \<in> set s \<Longrightarrow> x = c \<or> (\<exists>p\<in>set (split_on c s). x \<in> set p)"
proof (induction s)
  case (Cons a s)
  then show ?case by (cases "split_on c s") auto
qed simp

lemma validSlug_chars: "validSlug s \<Longrightarrow> \<forall>c\<in>set s. slug_char c \<or> c = CHR ''-''"
  using split_on_chars by (fastforce simp: validSlug_def list_all_iff)

lemma lower_letters_plain: "\<forall>c\<in>set s. slug_char c \<or> c = CHR ''-'' \<Longrightarrow> lower_letters s = s"
  by (induction s rule: lower_letters.induct) (auto simp: slug_char_plain)

lemma slugify_valid: "validSlug s \<Longrightarrow> slugify s = s"
proof -
  assume v: "validSlug s"
  note chars = validSlug_chars [OF v] and ends = validSlug_ends [OF v]
  have "TrimSpace s = s" using ends slug_char_plain(1) by (intro TrimSpace_printable(1)) auto
  moreover have "slug_loop s [] True = s" using slug_loop_valid [of "[]" s True] v chars by simp
  ultimately show ?thesis using v by (simp add: slugify_def lower_letters_plain [OF chars] trim_dashes_valid)
qed

section \<open>The search for a free slug\<close>

definition slug_taken :: "db \<Rightarrow> string \<Rightarrow> string \<Rightarrow> bool" where
  "slug_taken d exceptID slug \<longleftrightarrow> (\<exists>j\<in>set (t_jobs d). job_Slug j = slug \<and> job_ID j \<noteq> exceptID)"

lemma SlugExists_taken: "Jobs_SlugExists None slug exceptID d = Inr (slug_taken d exceptID slug)"
  by (auto simp: Jobs_SlugExists_def slug_taken_def count_rows_def filter_empty_conv)

definition slug_candidates :: "string \<Rightarrow> int list \<Rightarrow> string \<Rightarrow> string list" where
  "slug_candidates base is candidate = take (length is) (candidate # map (\<lambda>i. base @ ''-'' @ Itoa i) is)"

definition check_slug :: "string \<Rightarrow> string \<Rightarrow> bool result web_op" where
  "check_slug exceptID slug = lookup (\<lambda>flt. Jobs_SlugExists flt slug exceptID)"

lemma run_unique_loop:
  assumes "web_faults w = []"
  shows "run_state (unique_loop base (check_slug exceptID) is candidate) w =
    (case find (\<lambda>s. \<not> slug_taken (web_db w) exceptID s) (slug_candidates base is candidate) of
       None \<Rightarrow> Inl (Invalid ''could not derive a unique slug'' [''slug'' \<mapsto> ''conflict''])
     | Some s \<Rightarrow> Inr s, w)"
proof (induction "is" arbitrary: candidate)
  case Nil show ?case by (simp add: slug_candidates_def)
next
  case (Cons i "is")
  have "run_state (check_slug exceptID candidate) w = (Inr (slug_taken (web_db w) exceptID candidate), w)"
    by (simp add: check_slug_def lookup_def next_fault_def assms SlugExists_taken)
  then show ?case by (simp add: Cons.IH slug_candidates_def)
qed

lemma split_on_append_general: "split_on c (u @ c # v) = split_on c u @ split_on c v"
  by (induction u) (auto split: list.split)

lemma validSlug_append:
  assumes "validSlug u" and "validSlug v"
  shows "validSlug (u @ ''-'' @ v)"
  using assms split_on_append_general [of "CHR ''-''" u v] by (auto simp: validSlug_def)

lemma validSlug_Itoa: "validSlug (Itoa (int n))"
proof -
  have d: "set (digits_of n) \<subseteq> set ''0123456789''" by (rule digits_of_set)
  then have "CHR ''-'' \<notin> set (digits_of n)" by auto
  moreover have "list_all slug_char (digits_of n)" using d by (fastforce simp: list_all_iff slug_char_def)
  ultimately show ?thesis by (simp add: validSlug_def Itoa_def split_on_single digits_of_nonempty)
qed


lemma slug_candidates_valid:
  assumes "validSlug base" and "\<forall>i\<in>set is. 0 \<le> i" and "validSlug candidate"
  shows "\<forall>s\<in>set (slug_candidates base is candidate). validSlug s"
proof
  fix s assume "s \<in> set (slug_candidates base is candidate)"
  then have "s \<in> insert candidate ((\<lambda>i. base @ ''-'' @ Itoa i) ` set is)"
    unfolding slug_candidates_def using set_take_subset by fastforce
  then show "validSlug s"
    unfolding insert_iff
  proof (elim disjE)
    assume "s \<in> (\<lambda>i. base @ ''-'' @ Itoa i) ` set is"
    then obtain i where i: "i \<in> set is" "s = base @ ''-'' @ Itoa i" by blast
    with assms(2) obtain n where "i = int n" by (metis nonneg_int_cases)
    with i show ?thesis by (simp only: validSlug_append [OF assms(1) validSlug_Itoa])
  qed (use assms(3) in simp)
qed

lemma slug_numbers:
  shows "distinct slug_numbers" and "length slug_numbers = 998" and "\<forall>i\<in>set slug_numbers. 0 \<le> i"
proof -
  show "distinct slug_numbers" unfolding slug_numbers_def by (subst distinct_map) (rule conjI, rule distinct_upt, rule inj_on_of_nat)
  show "length slug_numbers = 998" unfolding slug_numbers_def by (simp only: length_map length_upt)
  show "\<forall>i\<in>set slug_numbers. 0 \<le> i" unfolding slug_numbers_def set_map by (intro ballI) (elim imageE, simp only: of_nat_0_le_iff)
qed

lemma candidates_distinct: "distinct (slug_candidates base slug_numbers base)"
proof -
  have "inj_on (\<lambda>i. base @ ''-'' @ Itoa i) (set slug_numbers)"
    using slug_numbers(3) by (intro inj_onI) (auto simp: Itoa_def digits_of_inject nat_eq_iff2 not_less [symmetric] split: if_splits)
  then have "distinct (base # map (\<lambda>i. base @ ''-'' @ Itoa i) slug_numbers)"
    using slug_numbers(1) by (auto simp: distinct_map)
  then show ?thesis unfolding slug_candidates_def by (rule distinct_take)
qed

lemma length_candidates: "length (slug_candidates base slug_numbers base) = 998"
  by (simp add: slug_candidates_def slug_numbers(2))

section \<open>Properties\<close>

text \<open>Slugs. What \<open>slugify\<close> makes of a name is empty or a valid slug, and a valid slug
  is left as it is.\<close>

theorem slugify_canonical: "(slugify s = [] \<or> validSlug (slugify s)) \<and> (validSlug s \<longrightarrow> slugify s = s)"
  using slugify_valid_or_empty slugify_valid by blast

theorem slugify_canonical_witness:
  "slugify ''web-01'' = ''web-01''"
  using slugify_canonical [of "''web-01''"] by (simp add: validSlug_def slug_char_def)

text \<open>C14 (termination): a free slug is always found. With fewer than 998 jobs stored and a database that
  answers, the search returns a valid slug that no other job has, and changes nothing.\<close>

theorem uniqueSlug_found:
  assumes "web_faults w = []" and "length (t_jobs (web_db w)) < 998" and "base = [] \<or> validSlug base"
  shows "\<exists>s. run_state (uniqueSlug base (check_slug exceptID)) w = (Inr s, w) \<and> validSlug s
    \<and> \<not> slug_taken (web_db w) exceptID s"
proof -
  let ?b = "if base = [] then ''job'' else base"
  let ?cs = "slug_candidates ?b slug_numbers ?b"
  have "validSlug ''job''" by (simp add: validSlug_def slug_char_def)
  then have b: "validSlug ?b" using assms(3) by auto
  have "\<exists>s\<in>set ?cs. \<not> slug_taken (web_db w) exceptID s"
  proof (rule ccontr)
    assume "\<not> ?thesis"
    then have "set ?cs \<subseteq> job_Slug ` set (t_jobs (web_db w))"
      unfolding slug_taken_def by (intro subsetI) (metis imageI)
    then have "card (set ?cs) \<le> card (job_Slug ` set (t_jobs (web_db w)))" by (intro card_mono) auto
    also have "\<dots> \<le> length (t_jobs (web_db w))" by (metis card_image_le card_length finite_set le_trans)
    finally show False
      using assms(2) distinct_card [OF candidates_distinct] length_candidates by simp
  qed
  then obtain s where s: "find (\<lambda>s. \<not> slug_taken (web_db w) exceptID s) ?cs = Some s"
    by (metis find_None_iff not_None_eq)
  then have "s \<in> set ?cs" "\<not> slug_taken (web_db w) exceptID s"
    by (auto simp: find_Some_iff)
  moreover have "\<forall>s\<in>set ?cs. validSlug s" using b slug_numbers(3) by (intro slug_candidates_valid)
  ultimately show ?thesis by (simp add: uniqueSlug_def Let_def run_unique_loop [OF assms(1)] s)
qed


theorem uniqueSlug_found_witness:
  "\<exists>s. run_state (uniqueSlug ''web'' (check_slug [])) demo_web = (Inr s, demo_web) \<and> validSlug s"
proof -
  have demo: "web_faults demo_web = []" "length (t_jobs (web_db demo_web)) < 998" by (simp_all add: demo_web_def empty_db_def)
  have "validSlug ''web''" by (simp add: validSlug_def slug_char_def)
  then show ?thesis using uniqueSlug_found [OF demo] by blast
qed

end
