(* ===== verification/Server_Jobs.thy ===== *)
theory Server_Jobs
  imports Slug
begin

text \<open>
  The handlers of jobs (internal/server/jobs.go): the checks on a request for a job, and creating, updating,
  deleting, enabling, running, pruning, duplicating and listing jobs. A handler takes the request, the
  principal the middleware found, the reference in the path and the decoded body.
\<close>

section \<open>Requests\<close>

record jobRequest =
  jq_Slug :: string
  jq_Name :: string
  jq_Description :: string
  jq_SourceID :: string
  jq_DestinationIDs :: "string list"
  jq_Schedule :: string
  jq_Timezone :: string
  jq_Enabled :: "bool option"
  jq_Compression :: Compression
  jq_CompressionLevel :: int
  jq_Encryption :: Encryption
  jq_EncryptionPassphrase :: string
  jq_Retention :: Retention
  jq_NotificationChannelIDs :: "string list"
  jq_NotifyOn :: "string list"
  jq_TimeoutMinutes :: int
  jq_Retries :: int
  jq_RetryDelaySeconds :: int
  jq_PreCommand :: string
  jq_PostCommand :: string
  jq_VerifyAfterUpload :: bool
  jq_ExpectedIntervalMinutes :: int
  jq_Tags :: "string list"

definition jobRef :: "string \<Rightarrow> Job result web_op" where
  "jobRef ref = do {
     join1 \<leftarrow> next_fault; flt2 \<leftarrow> next_fault; join2 \<leftarrow> next_fault;
     lookup (\<lambda>flt. Jobs_GetByIDOrSlug flt join1 flt2 join2 ref) }"

definition get_job :: "string \<Rightarrow> Job result web_op" where
  "get_job jobID = do { flt_join \<leftarrow> next_fault; lookup (\<lambda>flt. Jobs_Get flt flt_join jobID) }"

text \<open>An error while the next run is stored is only logged.\<close>

definition refreshJobSchedule :: "site \<Rightarrow> string \<Rightarrow> unit web_op" where
  "refreshJobSchedule S jobID = do {
     found \<leftarrow> get_job jobID;
     (case found of
        Inl e \<Rightarrow> return ()
      | Inr job \<Rightarrow> do {
          st \<leftarrow> lookup Settings_Get;
          (case st of
             (cfg, Some e) \<Rightarrow> return ()
           | (cfg, None) \<Rightarrow> do {
               now \<leftarrow> time_Now;
               let nxt = (case NextRun (sv_clockwork S) job (set_DefaultTimezone cfg) now of Inl e \<Rightarrow> None | Inr t \<Rightarrow> t);
               at \<leftarrow> time_Now;
               _ \<leftarrow> sql (\<lambda>flt. SetNextRun flt at (job_ID job) nxt);
               ReloadSchedule }) }) }"

definition maskJob :: "Job \<Rightarrow> Job" where
  "maskJob j = (if job_EncryptionPassphrase j \<noteq> [] then j\<lparr>job_EncryptionPassphrase := SecretMask\<rparr> else j)"

section \<open>Checks\<close>

text \<open>A step of the checks: an error stops them, a wrong field is collected.\<close>

definition orstop :: "'a result \<Rightarrow> ('a \<Rightarrow> (failure + 'b) web_op) \<Rightarrow> (failure + 'b) web_op" where
  "orstop r k = (case r of Inl e \<Rightarrow> return (Inl (Failed e)) | Inr x \<Rightarrow> k x)"

definition found_or_missing :: "'a result \<Rightarrow> ('a option) result" where
  "found_or_missing r = (case r of Inr x \<Rightarrow> Inr (Some x) | Inl e \<Rightarrow> if errIs e ErrNotFound then Inr None else Inl e)"

definition error_text :: "'a result \<Rightarrow> string" where
  "error_text r = (case r of Inl e \<Rightarrow> Error e | Inr x \<Rightarrow> [])"

definition find_source :: "string \<Rightarrow> Source result web_op" where
  "find_source i = do { flt2 \<leftarrow> next_fault; lookup (\<lambda>flt. Sources_Get flt flt2 i) }"

definition find_destination :: "string \<Rightarrow> Destination result web_op" where
  "find_destination i = do { flt2 \<leftarrow> next_fault; flt3 \<leftarrow> next_fault; lookup (\<lambda>flt. Destinations_Get flt flt2 flt3 i) }"

definition check_source :: "jobRequest \<Rightarrow> Job \<times> fields \<Rightarrow> (failure + Job \<times> fields) web_op" where
  "check_source req = (\<lambda>(job, ve).
     if TrimSpace (jq_SourceID req) = [] then return (Inr (job, field_if True ''sourceId'' ''required'' ve))
     else do {
       r \<leftarrow> find_source (jq_SourceID req);
       orstop (found_or_missing r) (\<lambda>found. return (Inr (case found of
          None \<Rightarrow> (job, field_if True ''sourceId'' ''source does not exist'' ve)
        | Some src \<Rightarrow> (job\<lparr>job_SourceID := src_ID src\<rparr>, ve)))) })"

fun check_destinations ::
  "string list \<Rightarrow> string list \<Rightarrow> string list \<Rightarrow> fields \<Rightarrow> (failure + string list \<times> fields) web_op" where
  "check_destinations [] seen ids ve = return (Inr (ids, ve))"
| "check_destinations (i # is) seen ids ve =
     (if i \<in> set seen then check_destinations is seen ids ve
      else do {
        r \<leftarrow> find_destination i;
        orstop (found_or_missing r) (\<lambda>found. case found of
            None \<Rightarrow> check_destinations is (i # seen) ids
                      (field_if True ''destinationIds'' (''destination '' @ i @ '' does not exist'') ve)
          | Some d \<Rightarrow> check_destinations is (i # seen) (ids @ [i]) ve) })"

fun check_channels :: "string list \<Rightarrow> fields \<Rightarrow> (failure + fields) web_op" where
  "check_channels [] ve = return (Inr ve)"
| "check_channels (i # is) ve = do {
     r \<leftarrow> lookup (\<lambda>flt. Channels_Get flt i);
     orstop (found_or_missing r) (\<lambda>found.
       check_channels is (field_if (found = None) ''notificationChannelIds'' (''channel '' @ i @ '' does not exist'') ve)) }"

text \<open>The fields that need no look-up before the passphrase.\<close>

definition schedule_part :: "site \<Rightarrow> jobRequest \<Rightarrow> Job \<times> fields \<Rightarrow> Job \<times> fields" where
  "schedule_part S req = (\<lambda>(job, ve).
     let schedule = TrimSpace (jq_Schedule req); timezone = TrimSpace (jq_Timezone req);
         parsed = ParseSchedule (sv_clockwork S) schedule; loc = LoadLocation (sv_clockwork S) timezone
     in (job\<lparr>job_Schedule := schedule, job_Timezone := timezone\<rparr>,
         field_if (timezone \<noteq> [] \<and> isl loc) ''timezone'' (error_text loc)
           (field_if (schedule \<noteq> [] \<and> isl parsed) ''schedule'' (error_text parsed) ve)))"

definition packing_part :: "jobRequest \<Rightarrow> Job \<times> fields \<Rightarrow> Job \<times> fields" where
  "packing_part req = (\<lambda>(job, ve).
     let (job1, bad_compression) = (case jq_Compression req of
            CompressionEmpty \<Rightarrow> (job\<lparr>job_Compression := CompressionNone\<rparr>, False)
          | CompressionOther s \<Rightarrow> (job, True)
          | c \<Rightarrow> (job\<lparr>job_Compression := c\<rparr>, False));
         (job2, bad_encryption) = (case jq_Encryption req of
            EncryptionOther s \<Rightarrow> (job1, True)
          | EncryptionAge \<Rightarrow> (job1\<lparr>job_Encryption := EncryptionAge\<rparr>, False)
          | _ \<Rightarrow> (job1\<lparr>job_Encryption := EncryptionNone\<rparr>, False))
     in (job2\<lparr>job_CompressionLevel := jq_CompressionLevel req\<rparr>,
         field_if bad_encryption ''encryption'' ''must be none or age''
           (field_if (jq_CompressionLevel req < 0 \<or> 19 < jq_CompressionLevel req) ''compressionLevel'' ''must be between 0 and 19''
             (field_if bad_compression ''compression'' ''must be none, gzip or zstd'' ve))))"

text \<open>The mask keeps the stored passphrase; another text is encrypted.\<close>

definition check_passphrase :: "site \<Rightarrow> jobRequest \<Rightarrow> Job option \<Rightarrow> Job \<times> fields \<Rightarrow> (failure + Job \<times> fields) web_op" where
  "check_passphrase S req existing = (\<lambda>(job, ve). do {
     r \<leftarrow> (if jq_EncryptionPassphrase req = SecretMask
          then return (Inr (job, field_if (existing = None) ''encryptionPassphrase'' ''required'' ve))
          else if jq_EncryptionPassphrase req = [] then return (Inr (job\<lparr>job_EncryptionPassphrase := []\<rparr>, ve))
          else do {
            rnd \<leftarrow> random_bytes;
            orstop (Encrypt (sv_cipher S) rnd (jq_EncryptionPassphrase req))
              (\<lambda>encrypted. return (Inr (job\<lparr>job_EncryptionPassphrase := encrypted\<rparr>, ve))) });
     return (case r of
        Inl f \<Rightarrow> Inl f
      | Inr (job1, ve1) \<Rightarrow>
          (let ve2 = field_if (job_Encryption job1 = EncryptionAge \<and> job_EncryptionPassphrase job1 = [])
                       ''encryptionPassphrase'' ''required when encryption is age'' ve1
           in Inr (if job_Encryption job1 = EncryptionNone then job1\<lparr>job_EncryptionPassphrase := []\<rparr> else job1, ve2))) })"


definition negative_retention :: "Retention \<Rightarrow> bool" where
  "negative_retention r \<longleftrightarrow> KeepLast r < 0 \<or> KeepHourly r < 0 \<or> KeepDaily r < 0 \<or> KeepWeekly r < 0 \<or> KeepMonthly r < 0
     \<or> KeepYearly r < 0 \<or> MaxAgeDays r < 0"

fun unknown_events :: "string \<Rightarrow> string list \<Rightarrow> fields \<Rightarrow> fields" where
  "unknown_events name [] ve = ve"
| "unknown_events name (ev # evs) ve =
     unknown_events name evs (field_if (ev \<notin> set AllEvents) name (''unknown event: '' @ ev) ve)"

definition numbers_part :: "jobRequest \<Rightarrow> Job option \<Rightarrow> Job \<times> fields \<Rightarrow> Job \<times> fields" where
  "numbers_part req existing = (\<lambda>(job, ve).
     (job\<lparr>job_TimeoutMinutes := jq_TimeoutMinutes req, job_Retries := jq_Retries req,
        job_RetryDelaySeconds := jq_RetryDelaySeconds req, job_ExpectedIntervalMinutes := jq_ExpectedIntervalMinutes req,
        job_PreCommand := jq_PreCommand req, job_PostCommand := jq_PostCommand req,
        job_VerifyAfterUpload := jq_VerifyAfterUpload req, job_Tags := jq_Tags req,
        job_Enabled := (case jq_Enabled req of
            Some b \<Rightarrow> b | None \<Rightarrow> (case existing of None \<Rightarrow> True | Some j \<Rightarrow> job_Enabled j))\<rparr>,
      field_if (jq_ExpectedIntervalMinutes req < 0) ''expectedIntervalMinutes'' ''must not be negative''
        (field_if (jq_RetryDelaySeconds req < 0) ''retryDelaySeconds'' ''must not be negative''
          (field_if (jq_Retries req < 0 \<or> 20 < jq_Retries req) ''retries'' ''must be between 0 and 20''
            (field_if (jq_TimeoutMinutes req < 0) ''timeoutMinutes'' ''must not be negative'' ve)))))"

definition check_job_slug :: "jobRequest \<Rightarrow> Job option \<Rightarrow> Job \<times> fields \<Rightarrow> (failure + Job \<times> fields) web_op" where
  "check_job_slug req existing = (\<lambda>(job, ve).
     let exceptID = (case existing of None \<Rightarrow> [] | Some j \<Rightarrow> job_ID j); requested = TrimSpace (jq_Slug req) in
     if requested \<noteq> []
     then (if \<not> validSlug requested
           then return (Inr (job, field_if True ''slug'' ''must contain only lowercase letters, digits and dashes'' ve))
           else do {
             r \<leftarrow> check_slug exceptID requested;
             orstop r (\<lambda>taken. return (Inr (job\<lparr>job_Slug := requested\<rparr>, field_if taken ''slug'' ''already in use'' ve))) })
     else if (case existing of None \<Rightarrow> True | Some j \<Rightarrow> job_Slug j = [])
     then do {
       r \<leftarrow> uniqueSlug (slugify (TrimSpace (jq_Name req))) (check_slug exceptID);
       return (case r of Inl f \<Rightarrow> Inl f | Inr slug \<Rightarrow> Inr (job\<lparr>job_Slug := slug\<rparr>, ve)) }
     else return (Inr (job, ve)))"

text \<open>\<open>proceed\<close> goes on with the checks unless one stopped them.\<close>

definition proceed :: "(failure + 'a) web_op \<Rightarrow> ('a \<Rightarrow> (failure + 'b) web_op) \<Rightarrow> (failure + 'b) web_op" where
  "proceed m k = do { r \<leftarrow> m; (case r of Inl f \<Rightarrow> return (Inl f) | Inr x \<Rightarrow> k x) }"

definition start_job :: "jobRequest \<Rightarrow> Job option \<Rightarrow> Job \<times> fields" where
  "start_job req existing =
     ((case existing of None \<Rightarrow> zero_job | Some j \<Rightarrow> j)\<lparr>job_Name := TrimSpace (jq_Name req), job_Description := jq_Description req\<rparr>,
      field_if (TrimSpace (jq_Name req) = []) ''name'' ''required'' no_fields)"

definition validateJob :: "site \<Rightarrow> jobRequest \<Rightarrow> Job option \<Rightarrow> (failure + Job) web_op" where
  "validateJob S req existing =
     proceed (check_source req (start_job req existing)) (\<lambda>(job1, ve1).
     proceed (check_destinations (jq_DestinationIDs req) [] []
       (field_if (jq_DestinationIDs req = []) ''destinationIds'' ''at least one destination is required'' ve1)) (\<lambda>(ids, ve2).
     proceed (check_passphrase S req existing
       (packing_part req (schedule_part S req (job1\<lparr>job_DestinationIDs := ids\<rparr>, ve2)))) (\<lambda>(job3, ve3).
     proceed (check_channels (jq_NotificationChannelIDs req)
       (unknown_events ''notifyOn'' (jq_NotifyOn req)
         (field_if (negative_retention (jq_Retention req)) ''retention'' ''values must not be negative'' ve3))) (\<lambda>ve4.
     proceed (check_job_slug req existing (numbers_part req existing
       (job3\<lparr>job_Retention := jq_Retention req, job_NotifyOn := jq_NotifyOn req,
          job_NotificationChannelIDs := jq_NotificationChannelIDs req\<rparr>, ve4))) (\<lambda>(job5, ve5).
     return (case checked ''invalid job'' ve5 of Some f \<Rightarrow> Inl f | None \<Rightarrow> Inr job5))))))"

section \<open>Handlers\<close>

definition answer_job :: "int \<Rightarrow> string \<Rightarrow> Job reply web_op" where
  "answer_job status jobID = do {
     r \<leftarrow> get_job jobID;
     orfail r (\<lambda>full. return (Reply status (maskJob full))) }"

definition save_new_job :: "site \<Rightarrow> request \<Rightarrow> Principal option \<Rightarrow> Job \<Rightarrow> string \<Rightarrow> Config \<Rightarrow> Job reply web_op" where
  "save_new_job S r p job action details = do {
     newID \<leftarrow> next_id;
     now \<leftarrow> time_Now;
     saved \<leftarrow> sql (\<lambda>flt. Jobs_Create flt newID now job);
     orfail saved (\<lambda>created. do {
       refreshJobSchedule S (job_ID created);
       audit r p action ''job'' (job_ID created) (job_Name created) details;
       answer_job 201 (job_ID created) }) }"

definition handleCreateJob :: "site \<Rightarrow> request \<Rightarrow> Principal option \<Rightarrow> jobRequest body \<Rightarrow> Job reply web_op" where
  "handleCreateJob S r p b =
     orinvalid (decodeBody b) (\<lambda>req. do {
       v \<leftarrow> validateJob S req None;
       orinvalid v (\<lambda>job. save_new_job S r p job ''job.create'' [''slug'' \<mapsto> VString (job_Slug job)]) })"

definition handleUpdateJob :: "site \<Rightarrow> request \<Rightarrow> Principal option \<Rightarrow> string \<Rightarrow> jobRequest body \<Rightarrow> Job reply web_op" where
  "handleUpdateJob S r p ref b = do {
     found \<leftarrow> jobRef ref;
     orfail found (\<lambda>existing.
       orinvalid (decodeBody b) (\<lambda>req. do {
         v \<leftarrow> validateJob S req (Some existing);
         orinvalid v (\<lambda>job. do {
           flt2 \<leftarrow> next_fault; flt3 \<leftarrow> next_fault;
           now \<leftarrow> time_Now;
           saved \<leftarrow> sql (\<lambda>flt. Jobs_Update flt flt2 flt3 now job);
           orfail saved (\<lambda>_. do {
             refreshJobSchedule S (job_ID job);
             audit r p ''job.update'' ''job'' (job_ID job) (job_Name job) [''slug'' \<mapsto> VString (job_Slug job)];
             answer_job 200 (job_ID job) }) }) })) }"

definition handleDeleteJob :: "request \<Rightarrow> Principal option \<Rightarrow> string \<Rightarrow> unit reply web_op" where
  "handleDeleteJob r p ref = do {
     found \<leftarrow> jobRef ref;
     orfail found (\<lambda>job. do {
       let deleteArtifacts = queryBool r ''deleteArtifacts'';
       flt2 \<leftarrow> next_fault;
       err \<leftarrow> sql (\<lambda>flt. Jobs_Delete flt flt2 (job_ID job) deleteArtifacts);
       unless_err err (do {
         ReloadSchedule;
         audit r p ''job.delete'' ''job'' (job_ID job) (job_Name job) [''deleteArtifacts'' \<mapsto> VBool deleteArtifacts];
         return (Reply 204 ()) }) }) }"

definition setJobEnabled :: "site \<Rightarrow> request \<Rightarrow> Principal option \<Rightarrow> string \<Rightarrow> bool \<Rightarrow> Job reply web_op" where
  "setJobEnabled S r p ref enabled = do {
     found \<leftarrow> jobRef ref;
     orfail found (\<lambda>job. do {
       now \<leftarrow> time_Now;
       err \<leftarrow> sql (\<lambda>flt. Jobs_SetEnabled flt now (job_ID job) enabled);
       unless_err err (do {
         refreshJobSchedule S (job_ID job);
         audit r p (if enabled then ''job.enable'' else ''job.disable'') ''job'' (job_ID job) (job_Name job) Map.empty;
         answer_job 200 (job_ID job) }) }) }"

definition handleDuplicateJob :: "site \<Rightarrow> request \<Rightarrow> Principal option \<Rightarrow> string \<Rightarrow> Job reply web_op" where
  "handleDuplicateJob S r p ref = do {
     found \<leftarrow> jobRef ref;
     orfail found (\<lambda>job. do {
       copySlug \<leftarrow> uniqueSlug (job_Slug job @ ''-copy'') (check_slug []);
       orinvalid copySlug (\<lambda>slug.
         save_new_job S r p
           (job\<lparr>job_ID := [], job_Slug := slug, job_Name := job_Name job @ '' (copy)'', job_Enabled := False\<rparr>)
           ''job.duplicate'' [''from'' \<mapsto> VString (job_Slug job)]) }) }"

definition requireJobAccess :: "Principal option \<Rightarrow> string \<Rightarrow> error option" where
  "requireJobAccess po slug =
     (case po of
        None \<Rightarrow> None
      | Some p \<Rightarrow> if pr_Type p \<noteq> AuthToken then None else RequireJobAccess po slug)"

definition enqueue_job ::
  "request \<Rightarrow> Principal option \<Rightarrow> Job \<Rightarrow> string
   \<Rightarrow> (error option \<Rightarrow> string \<Rightarrow> time \<Rightarrow> engine \<times> db \<Rightarrow> Run result \<times> engine \<times> db) \<Rightarrow> Run reply web_op" where
  "enqueue_job r p job action request_run = do {
     newID \<leftarrow> next_id;
     now \<leftarrow> time_Now;
     started \<leftarrow> on_engine (\<lambda>flt. request_run flt newID now);
     orfail started (\<lambda>run. do {
       audit r p action ''job'' (job_ID job) (job_Name job) [''runId'' \<mapsto> VString (run_ID run)];
       return (Reply 202 run) }) }"

definition handleRunJob :: "request \<Rightarrow> Principal option \<Rightarrow> string \<Rightarrow> Run reply web_op" where
  "handleRunJob r p ref = do {
     found \<leftarrow> jobRef ref;
     orfail found (\<lambda>job.
       case requireJobAccess p (job_Slug job) of
         Some e \<Rightarrow> return (writeError 403 codeForbidden (Error e))
       | None \<Rightarrow> enqueue_job r p job ''job.run''
                   (\<lambda>flt newID now. EnqueueBackup flt newID now job TriggerAPI (Principal_Label p))) }"

definition handlePruneJob :: "request \<Rightarrow> Principal option \<Rightarrow> string \<Rightarrow> Run reply web_op" where
  "handlePruneJob r p ref = do {
     found \<leftarrow> jobRef ref;
     orfail found (\<lambda>job. enqueue_job r p job ''job.prune''
       (\<lambda>flt newID now. EnqueuePrune flt newID now job (Principal_Label p))) }"

section \<open>Views\<close>

definition maskJobs :: "Job list \<Rightarrow> Job list" where
  "maskJobs jobs = map maskJob jobs"

definition job_filter :: "request \<Rightarrow> Page \<Rightarrow> JobFilter" where
  "job_filter r page =
     (let v = TrimSpace (hr_Query r ''enabled'') in
      \<lparr>jf_Enabled = (if v \<noteq> [] then Some (v = ''1'' \<or> ToLower v = ''true'') else None),
       jf_SourceID = TrimSpace (hr_Query r ''sourceId''), jf_DestinationID = TrimSpace (hr_Query r ''destinationId''),
       jf_Tag = TrimSpace (hr_Query r ''tag''), jf_Q = TrimSpace (hr_Query r ''q''), jf_Page = page\<rparr>)"

definition handleListJobs :: "request \<Rightarrow> (Job list \<times> nat) reply web_op" where
  "handleListJobs r =
     orinvalid (pageFromRequest r) (\<lambda>page. do {
       flt2 \<leftarrow> next_fault; flt_join \<leftarrow> next_fault;
       listed \<leftarrow> lookup (\<lambda>flt. Jobs_List flt flt2 flt_join (job_filter r page));
       orfail listed (\<lambda>(items, total). return (Reply 200 (maskJobs items, total))) })"

definition handleGetJob :: "string \<Rightarrow> Job reply web_op" where
  "handleGetJob ref = do { found \<leftarrow> jobRef ref; orfail found (\<lambda>job. return (Reply 200 (maskJob job))) }"

definition handleJobRuns :: "request \<Rightarrow> string \<Rightarrow> (Run list \<times> nat) reply web_op" where
  "handleJobRuns r ref = do {
     found \<leftarrow> jobRef ref;
     orfail found (\<lambda>job. orinvalid (pageFromRequest r) (\<lambda>page. do {
       items \<leftarrow> lookup (\<lambda>flt. Runs_List flt
         \<lparr>rf_JobID = job_ID job, rf_JobSlug = [], rf_Status = TrimSpace (hr_Query r ''status''), rf_Statuses = [],
          rf_Kind = TrimSpace (hr_Query r ''kind''), rf_Since = 0, rf_Until = 0, rf_Page = page\<rparr>);
       orfail items (\<lambda>x. return (Reply 200 x)) })) }"

definition handleJobArtifacts :: "request \<Rightarrow> string \<Rightarrow> (Artifact list \<times> nat) reply web_op" where
  "handleJobArtifacts r ref = do {
     found \<leftarrow> jobRef ref;
     orfail found (\<lambda>job. orinvalid (pageFromRequest r) (\<lambda>page. do {
       items \<leftarrow> lookup (\<lambda>flt. Artifacts_List flt
         \<lparr>af_JobID = job_ID job, af_JobSlug = [], af_DestinationID = TrimSpace (hr_Query r ''destination''),
          af_Status = TrimSpace (hr_Query r ''status''), af_RunID = [], af_Since = 0, af_Until = 0, af_Q = [],
          af_Page = page\<rparr>);
       orfail items (\<lambda>x. return (Reply 200 x)) })) }"

definition preview_count :: "request \<Rightarrow> int" where
  "preview_count r =
     (let v = TrimSpace (hr_Query r ''count'') in
      case Atoi v of None \<Rightarrow> 5 | Some n \<Rightarrow> if v \<noteq> [] \<and> 0 < n \<and> n \<le> 50 then n else 5)"

definition handleSchedulePreview :: "site \<Rightarrow> request \<Rightarrow> string \<Rightarrow> (time list \<times> nat) reply web_op" where
  "handleSchedulePreview S r ref = do {
     found \<leftarrow> jobRef ref;
     orfail found (\<lambda>job. do {
       st \<leftarrow> lookup Settings_Get;
       unless_err (snd st) (do {
         now \<leftarrow> time_Now;
         (case NextRuns (sv_clockwork S) job (set_DefaultTimezone (fst st)) now (preview_count r) of
            Inl e \<Rightarrow> return (fail (Invalid (Error e) [''schedule'' \<mapsto> Error e]))
          | Inr items \<Rightarrow> return (Reply 200 (items, length items))) }) }) }"

end
