(* ===== verification/Server_Configs.thy ===== *)
theory Server_Configs
  imports Server_Jobs Safe_Path
begin

text \<open>
  The handlers of sources, destinations and notification channels (internal/server/sources.go,
  destinations.go, channels.go) and what they share (driverconfig.go): a configuration that comes in is
  merged with the stored secrets, decrypted, validated and encrypted again; one that goes out is masked.
\<close>

section \<open>Configurations\<close>

record preparedConfig =
  pc_Plain :: Config
  pc_Encrypted :: Config
  pc_Spec :: DriverSpec

text \<open>Every secret field is encrypted with a nonce of its own.\<close>

primrec draw_nonces :: "string list \<Rightarrow> (string \<Rightarrow> string result) web_op" where
  "draw_nonces [] = return (\<lambda>_. Inl (errNew ''no entropy''))"
| "draw_nonces (f # fs) = do { x \<leftarrow> random_bytes; g \<leftarrow> draw_nonces fs; return (g(f := x)) }"

definition bad_config :: "error \<Rightarrow> failure" where
  "bad_config e = Invalid (Error e) [''config'' \<mapsto> Error e]"

text \<open>\<open>nil\<close> configurations are empty maps; \<open>None\<close> is a \<open>nil\<close> check.\<close>

definition prepareConfigOnHost ::
  "site \<Rightarrow> DriverSpec \<Rightarrow> Config \<Rightarrow> Config \<Rightarrow> Host option \<Rightarrow> (Config \<Rightarrow> error option) option
   \<Rightarrow> (failure + preparedConfig) web_op" where
  "prepareConfigOnHost S spec incoming previous host validate =
     (let fields = SecretFields spec; merged = Config_MergeSecrets incoming previous fields in
      case DecryptConfig (sv_cipher S) merged fields of
        Inl e \<Rightarrow> return (Inl (Failed e))
      | Inr opened \<Rightarrow>
          (let candidate = Config_WithHost opened host [] in
           case ValidateRequired spec candidate of
             Some e \<Rightarrow> return (Inl (bad_config e))
           | None \<Rightarrow>
               (case (case validate of None \<Rightarrow> None | Some check \<Rightarrow> check candidate) of
                  Some e \<Rightarrow> return (Inl (bad_config e))
                | None \<Rightarrow> do {
                    nonces \<leftarrow> draw_nonces fields;
                    return (case EncryptConfig (sv_cipher S) nonces opened fields of
                        Inl e \<Rightarrow> Inl (Failed e)
                      | Inr sealed \<Rightarrow> Inr \<lparr>pc_Plain = opened, pc_Encrypted = sealed, pc_Spec = spec\<rparr>) })))"

definition prepareConfig ::
  "site \<Rightarrow> DriverSpec \<Rightarrow> Config \<Rightarrow> Config \<Rightarrow> (Config \<Rightarrow> error option) option \<Rightarrow> (failure + preparedConfig) web_op" where
  "prepareConfig S spec incoming previous validate = prepareConfigOnHost S spec incoming previous None validate"

definition spec_of :: "string \<Rightarrow> string \<Rightarrow> driver option \<Rightarrow> failure + driver" where
  "spec_of what kind found =
     (case found of
        None \<Rightarrow> Inl (Invalid (''unknown '' @ what @ '' kind '' @ quoted kind) [''kind'' \<mapsto> ''unknown''])
      | Some drv \<Rightarrow> Inr drv)"

definition sourceSpec :: "site \<Rightarrow> string \<Rightarrow> failure + driver" where
  "sourceSpec S kind = spec_of ''source'' kind (sv_sources S kind)"

definition destinationSpec :: "site \<Rightarrow> string \<Rightarrow> failure + driver" where
  "destinationSpec S kind = spec_of ''destination'' kind (sv_destinations S kind)"

definition notifierSpec :: "site \<Rightarrow> string \<Rightarrow> failure + driver" where
  "notifierSpec S kind = spec_of ''notifier'' kind (sv_notifiers S kind)"

text \<open>A configuration of an unknown kind is not shown at all.\<close>

definition masked_config :: "driver option \<Rightarrow> Config \<Rightarrow> Config" where
  "masked_config found cfg =
     (case found of Some drv \<Rightarrow> Config_Masked cfg (SecretFields (drv_Spec drv)) | None \<Rightarrow> Map.empty)"

definition maskSource :: "site \<Rightarrow> Source \<Rightarrow> Source" where
  "maskSource S src = src\<lparr>src_Config := masked_config (sv_sources S (src_Kind src)) (src_Config src)\<rparr>"

definition maskDestination :: "site \<Rightarrow> Destination \<Rightarrow> Destination" where
  "maskDestination S d = d\<lparr>dst_Config := masked_config (sv_destinations S (dst_Kind d)) (dst_Config d)\<rparr>"

definition maskChannel :: "site \<Rightarrow> NotificationChannel \<Rightarrow> NotificationChannel" where
  "maskChannel S c = c\<lparr>chn_Config := masked_config (sv_notifiers S (chn_Kind c)) (chn_Config c)\<rparr>"

definition name_and_kind :: "string \<Rightarrow> string \<Rightarrow> fields" where
  "name_and_kind name kind =
     field_if (TrimSpace kind = []) ''kind'' ''required'' (field_if (TrimSpace name = []) ''name'' ''required'' no_fields)"

text \<open>An update may leave the kind out; for another kind the stored secrets do not count.\<close>

definition kept_kind :: "string \<Rightarrow> string \<Rightarrow> string" where
  "kept_kind requested stored = (if TrimSpace requested = [] then stored else requested)"

definition previous_config :: "string \<Rightarrow> string \<Rightarrow> Config \<Rightarrow> Config" where
  "previous_config kind stored cfg = (if kind \<noteq> stored then Map.empty else cfg)"

definition kind_detail :: "string \<Rightarrow> Config" where
  "kind_detail kind = [''kind'' \<mapsto> VString kind]"

section \<open>Sources\<close>

record sourceRequest =
  sq_Name :: string
  sq_Kind :: string
  sq_Description :: string
  sq_Config :: Config
  sq_HostID :: string
  sq_Tags :: "string list"

definition find_host :: "string \<Rightarrow> Host result web_op" where
  "find_host i = do { flt2 \<leftarrow> next_fault; lookup (\<lambda>flt. Hosts_Get flt flt2 i) }"

definition bad_host :: "string \<Rightarrow> failure" where
  "bad_host message = Invalid ''invalid source'' [''hostId'' \<mapsto> message]"

definition validateSourceHost :: "DriverSpec \<Rightarrow> string \<Rightarrow> (failure + string \<times> Host option) web_op" where
  "validateSourceHost spec given =
     (let hostID = TrimSpace given in
      if hostID = [] then return (Inr ([], None))
      else if \<not> DriverSpec_Has spec CapRemote then return (Inl (bad_host ''this driver cannot run on a host''))
      else do {
        r \<leftarrow> find_host hostID;
        return (case r of
            Inl e \<Rightarrow> if errIs e ErrNotFound then Inl (bad_host ''host does not exist'') else Inl (Failed e)
          | Inr host \<Rightarrow> Inr (host_ID host, Some host)) })"

definition handleListSources :: "site \<Rightarrow> request \<Rightarrow> (Source list \<times> nat) reply web_op" where
  "handleListSources S r =
     orinvalid (pageFromRequest r) (\<lambda>page. do {
       flt2 \<leftarrow> next_fault; flt3 \<leftarrow> next_fault;
       items \<leftarrow> lookup (\<lambda>flt. Sources_List flt flt2 flt3
         \<lparr>sf_Kind = TrimSpace (hr_Query r ''kind''), sf_HostID = TrimSpace (hr_Query r ''host''),
          sf_Q = TrimSpace (hr_Query r ''q''), sf_Page = page\<rparr>);
       orfail items (\<lambda>(rows, total). return (Reply 200 (map (maskSource S) rows, total))) })"

definition handleGetSource :: "site \<Rightarrow> string \<Rightarrow> Source reply web_op" where
  "handleGetSource S i = do { r \<leftarrow> find_source i; orfail r (\<lambda>src. return (Reply 200 (maskSource S src))) }"

definition handleCreateSource :: "site \<Rightarrow> request \<Rightarrow> Principal option \<Rightarrow> sourceRequest body \<Rightarrow> Source reply web_op" where
  "handleCreateSource S r p b =
     orinvalid (decodeBody b) (\<lambda>req.
     unless_fields ''invalid source'' (name_and_kind (sq_Name req) (sq_Kind req)) (
     orinvalid (sourceSpec S (sq_Kind req)) (\<lambda>drv. do {
       h \<leftarrow> validateSourceHost (drv_Spec drv) (sq_HostID req);
       orinvalid h (\<lambda>(hostID, host). do {
         prepared \<leftarrow> prepareConfigOnHost S (drv_Spec drv) (sq_Config req) Map.empty host (Some (drv_Validate drv));
         orinvalid prepared (\<lambda>pc. do {
           newID \<leftarrow> next_id; now \<leftarrow> time_Now;
           saved \<leftarrow> sql (\<lambda>flt. Sources_Create flt newID now (zero_source\<lparr>src_Name := TrimSpace (sq_Name req),
             src_Kind := sq_Kind req, src_Description := sq_Description req, src_Config := pc_Encrypted pc,
             src_HostID := hostID, src_Tags := sq_Tags req\<rparr>));
           orfail saved (\<lambda>src. do {
             audit r p ''source.create'' ''source'' (src_ID src) (src_Name src) (kind_detail (src_Kind src));
             created \<leftarrow> find_source (src_ID src);
             orfail created (\<lambda>full. return (Reply 201 (maskSource S full))) }) }) }) })))"

definition handleUpdateSource ::
  "site \<Rightarrow> request \<Rightarrow> Principal option \<Rightarrow> string \<Rightarrow> sourceRequest body \<Rightarrow> Source reply web_op" where
  "handleUpdateSource S r p i b = do {
     found \<leftarrow> find_source i;
     orfail found (\<lambda>existing.
     orinvalid (decodeBody b) (\<lambda>req.
     if TrimSpace (sq_Name req) = []
     then return (fail (Invalid ''invalid source'' [''name'' \<mapsto> ''required'']))
     else (let kind = kept_kind (sq_Kind req) (src_Kind existing) in
     orinvalid (sourceSpec S kind) (\<lambda>drv. do {
       h \<leftarrow> validateSourceHost (drv_Spec drv) (sq_HostID req);
       orinvalid h (\<lambda>(hostID, host). do {
         prepared \<leftarrow> prepareConfigOnHost S (drv_Spec drv) (sq_Config req)
           (previous_config kind (src_Kind existing) (src_Config existing)) host (Some (drv_Validate drv));
         orinvalid prepared (\<lambda>pc. do {
           now \<leftarrow> time_Now;
           saved \<leftarrow> sql (\<lambda>flt. Sources_Update flt now (existing\<lparr>src_Name := TrimSpace (sq_Name req), src_Kind := kind,
             src_Description := sq_Description req, src_Config := pc_Encrypted pc, src_HostID := hostID,
             src_Tags := sq_Tags req\<rparr>));
           orfail saved (\<lambda>_. do {
             again \<leftarrow> find_source (src_ID existing);
             orfail again (\<lambda>updated. do {
               audit r p ''source.update'' ''source'' (src_ID updated) (src_Name updated) (kind_detail (src_Kind updated));
               return (Reply 200 (maskSource S updated)) }) }) }) }) })))) }"

definition handleDeleteSource :: "request \<Rightarrow> Principal option \<Rightarrow> string \<Rightarrow> unit reply web_op" where
  "handleDeleteSource r p i = do {
     found \<leftarrow> find_source i;
     orfail found (\<lambda>src.
       if 0 < src_JobCount src then return (writeError 409 codeConflict ''source is used by jobs'')
       else do {
         err \<leftarrow> sql (\<lambda>flt. Sources_Delete flt (src_ID src));
         unless_err err (do {
           audit r p ''source.delete'' ''source'' (src_ID src) (src_Name src) Map.empty;
           return (Reply 204 ()) }) }) }"

section \<open>Destinations\<close>

record destinationRequest =
  dq_Name :: string
  dq_Kind :: string
  dq_Description :: string
  dq_Config :: Config
  dq_Tags :: "string list"

definition handleListDestinations :: "site \<Rightarrow> request \<Rightarrow> (Destination list \<times> nat) reply web_op" where
  "handleListDestinations S r =
     orinvalid (pageFromRequest r) (\<lambda>page. do {
       flt2 \<leftarrow> next_fault; flt3 \<leftarrow> next_fault; flt4 \<leftarrow> next_fault;
       items \<leftarrow> lookup (\<lambda>flt. Destinations_List flt flt2 flt3 flt4
         \<lparr>df_Kind = TrimSpace (hr_Query r ''kind''), df_Q = TrimSpace (hr_Query r ''q''), df_Page = page\<rparr>);
       orfail items (\<lambda>(rows, total). return (Reply 200 (map (maskDestination S) rows, total))) })"

definition handleGetDestination :: "site \<Rightarrow> string \<Rightarrow> Destination reply web_op" where
  "handleGetDestination S i = do { r \<leftarrow> find_destination i; orfail r (\<lambda>d. return (Reply 200 (maskDestination S d))) }"

definition handleCreateDestination ::
  "site \<Rightarrow> request \<Rightarrow> Principal option \<Rightarrow> destinationRequest body \<Rightarrow> Destination reply web_op" where
  "handleCreateDestination S r p b =
     orinvalid (decodeBody b) (\<lambda>req.
     unless_fields ''invalid destination'' (name_and_kind (dq_Name req) (dq_Kind req)) (
     orinvalid (destinationSpec S (dq_Kind req)) (\<lambda>drv. do {
       prepared \<leftarrow> prepareConfig S (drv_Spec drv) (dq_Config req) Map.empty (Some (drv_Validate drv));
       orinvalid prepared (\<lambda>pc. do {
         newID \<leftarrow> next_id; now \<leftarrow> time_Now;
         saved \<leftarrow> sql (\<lambda>flt. Destinations_Create flt newID now (zero_destination\<lparr>dst_Name := TrimSpace (dq_Name req),
           dst_Kind := dq_Kind req, dst_Description := dq_Description req, dst_Config := pc_Encrypted pc,
           dst_Tags := dq_Tags req\<rparr>));
         orfail saved (\<lambda>d. do {
           audit r p ''destination.create'' ''destination'' (dst_ID d) (dst_Name d) (kind_detail (dst_Kind d));
           return (Reply 201 (maskDestination S d)) }) }) })))"

definition handleUpdateDestination ::
  "site \<Rightarrow> request \<Rightarrow> Principal option \<Rightarrow> string \<Rightarrow> destinationRequest body \<Rightarrow> Destination reply web_op" where
  "handleUpdateDestination S r p i b = do {
     found \<leftarrow> find_destination i;
     orfail found (\<lambda>existing.
     orinvalid (decodeBody b) (\<lambda>req.
     if TrimSpace (dq_Name req) = []
     then return (fail (Invalid ''invalid destination'' [''name'' \<mapsto> ''required'']))
     else (let kind = kept_kind (dq_Kind req) (dst_Kind existing) in
     orinvalid (destinationSpec S kind) (\<lambda>drv. do {
       prepared \<leftarrow> prepareConfig S (drv_Spec drv) (dq_Config req)
         (previous_config kind (dst_Kind existing) (dst_Config existing)) (Some (drv_Validate drv));
       orinvalid prepared (\<lambda>pc. do {
         flt2 \<leftarrow> next_fault; now \<leftarrow> time_Now;
         saved \<leftarrow> sql (\<lambda>flt. Destinations_Update flt flt2 now (existing\<lparr>dst_Name := TrimSpace (dq_Name req),
           dst_Kind := kind, dst_Description := dq_Description req, dst_Config := pc_Encrypted pc,
           dst_Tags := dq_Tags req\<rparr>));
         orfail saved (\<lambda>updated. do {
           audit r p ''destination.update'' ''destination'' (dst_ID updated) (dst_Name updated) (kind_detail (dst_Kind updated));
           return (Reply 200 (maskDestination S updated)) }) }) })))) }"

definition handleDeleteDestination :: "request \<Rightarrow> Principal option \<Rightarrow> string \<Rightarrow> unit reply web_op" where
  "handleDeleteDestination r p i = do {
     found \<leftarrow> find_destination i;
     orfail found (\<lambda>d.
       if 0 < dst_JobCount d then return (writeError 409 codeConflict ''destination is used by jobs'')
       else do {
         err \<leftarrow> sql (\<lambda>flt. Destinations_Delete flt (dst_ID d));
         unless_err err (do {
           audit r p ''destination.delete'' ''destination'' (dst_ID d) (dst_Name d) Map.empty;
           return (Reply 204 ()) }) }) }"

section \<open>Notification channels\<close>

record channelRequest =
  cq_Name :: string
  cq_Kind :: string
  cq_Config :: Config
  cq_Enabled :: "bool option"
  cq_Events :: "string list"

definition find_channel :: "string \<Rightarrow> NotificationChannel result web_op" where
  "find_channel i = lookup (\<lambda>flt. Channels_Get flt i)"

definition handleListChannels :: "site \<Rightarrow> (NotificationChannel list \<times> nat) reply web_op" where
  "handleListChannels S = do {
     items \<leftarrow> lookup Channels_List;
     orfail items (\<lambda>rows. return (Reply 200 (map (maskChannel S) rows, length rows))) }"

definition handleGetChannel :: "site \<Rightarrow> string \<Rightarrow> NotificationChannel reply web_op" where
  "handleGetChannel S i = do { r \<leftarrow> find_channel i; orfail r (\<lambda>c. return (Reply 200 (maskChannel S c))) }"

definition validateChannelEvents :: "string list \<Rightarrow> failure option" where
  "validateChannelEvents events = checked ''invalid channel'' (unknown_events ''events'' events no_fields)"

definition unless_failure :: "failure option \<Rightarrow> 'b reply web_op \<Rightarrow> 'b reply web_op" where
  "unless_failure r k = (case r of Some f \<Rightarrow> return (fail f) | None \<Rightarrow> k)"

definition handleCreateChannel ::
  "site \<Rightarrow> request \<Rightarrow> Principal option \<Rightarrow> channelRequest body \<Rightarrow> NotificationChannel reply web_op" where
  "handleCreateChannel S r p b =
     orinvalid (decodeBody b) (\<lambda>req.
     unless_fields ''invalid channel'' (name_and_kind (cq_Name req) (cq_Kind req)) (
     unless_failure (validateChannelEvents (cq_Events req)) (
     orinvalid (notifierSpec S (cq_Kind req)) (\<lambda>drv. do {
       prepared \<leftarrow> prepareConfig S (drv_Spec drv) (cq_Config req) Map.empty (Some (drv_Validate drv));
       orinvalid prepared (\<lambda>pc. do {
         newID \<leftarrow> next_id; now \<leftarrow> time_Now;
         saved \<leftarrow> sql (\<lambda>flt. Channels_Create flt newID now (zero_channel\<lparr>chn_Name := TrimSpace (cq_Name req),
           chn_Kind := cq_Kind req, chn_Config := pc_Encrypted pc,
           chn_Enabled := (case cq_Enabled req of None \<Rightarrow> True | Some x \<Rightarrow> x), chn_Events := cq_Events req\<rparr>));
         orfail saved (\<lambda>c. do {
           audit r p ''channel.create'' ''channel'' (chn_ID c) (chn_Name c) (kind_detail (chn_Kind c));
           return (Reply 201 (maskChannel S c)) }) }) }))))"

definition handleUpdateChannel ::
  "site \<Rightarrow> request \<Rightarrow> Principal option \<Rightarrow> string \<Rightarrow> channelRequest body \<Rightarrow> NotificationChannel reply web_op" where
  "handleUpdateChannel S r p i b = do {
     found \<leftarrow> find_channel i;
     orfail found (\<lambda>existing.
     orinvalid (decodeBody b) (\<lambda>req.
     if TrimSpace (cq_Name req) = []
     then return (fail (Invalid ''invalid channel'' [''name'' \<mapsto> ''required'']))
     else unless_failure (validateChannelEvents (cq_Events req))
     (let kind = kept_kind (cq_Kind req) (chn_Kind existing) in
     orinvalid (notifierSpec S kind) (\<lambda>drv. do {
       prepared \<leftarrow> prepareConfig S (drv_Spec drv) (cq_Config req)
         (previous_config kind (chn_Kind existing) (chn_Config existing)) (Some (drv_Validate drv));
       orinvalid prepared (\<lambda>pc. do {
         now \<leftarrow> time_Now;
         saved \<leftarrow> sql (\<lambda>flt. Channels_Update flt now (existing\<lparr>chn_Name := TrimSpace (cq_Name req), chn_Kind := kind,
           chn_Config := pc_Encrypted pc, chn_Events := cq_Events req,
           chn_Enabled := (case cq_Enabled req of None \<Rightarrow> chn_Enabled existing | Some x \<Rightarrow> x)\<rparr>));
         orfail saved (\<lambda>updated. do {
           audit r p ''channel.update'' ''channel'' (chn_ID updated) (chn_Name updated) (kind_detail (chn_Kind updated));
           return (Reply 200 (maskChannel S updated)) }) }) })))) }"

definition handleDeleteChannel :: "request \<Rightarrow> Principal option \<Rightarrow> string \<Rightarrow> unit reply web_op" where
  "handleDeleteChannel r p i = do {
     found \<leftarrow> find_channel i;
     orfail found (\<lambda>c. do {
       err \<leftarrow> sql (\<lambda>flt. Channels_Delete flt (chn_ID c));
       unless_err err (do {
         audit r p ''channel.delete'' ''channel'' (chn_ID c) (chn_Name c) Map.empty;
         return (Reply 204 ()) }) }) }"

end
