(* ===== verification/Server_Hosts.thy ===== *)
theory Server_Hosts
  imports Server_Configs
begin

text \<open>
  The handlers of hosts and of the settings (internal/server/hosts.go, settings.go), and the connection test
  of a host (internal/engine/hosts.go).
\<close>

section \<open>Checks on hosts\<close>

record hostRequest =
  hq_ID :: string
  hq_Name :: string
  hq_Description :: string
  hq_Address :: string
  hq_Port :: int
  hq_User :: string
  hq_Auth :: HostAuth
  hq_PrivateKey :: string
  hq_KeyPassphrase :: string
  hq_Password :: string
  hq_PublicKey :: string
  hq_HostKey :: string
  hq_Sudo :: bool
  hq_ConnectTimeoutSeconds :: int
  hq_Tags :: "string list"

definition hostFromRequest :: "hostRequest \<Rightarrow> Host" where
  "hostFromRequest req =
     zero_host\<lparr>host_Name := TrimSpace (hq_Name req), host_Description := hq_Description req,
       host_Address := TrimSpace (hq_Address req),
       host_Port := (if hq_Port req \<le> 0 then DefaultPort else hq_Port req),
       host_User := TrimSpace (hq_User req),
       host_Auth := (if hq_Auth req = HostAuthOther [] then HostAuthKey else hq_Auth req),
       host_PrivateKey := hq_PrivateKey req, host_KeyPassphrase := hq_KeyPassphrase req, host_Password := hq_Password req,
       host_PublicKey := TrimSpace (hq_PublicKey req), host_HostKey := TrimSpace (hq_HostKey req),
       host_Sudo := hq_Sudo req, host_ConnectTimeout := hq_ConnectTimeoutSeconds req, host_Tags := hq_Tags req\<rparr>"

definition unmask :: "string \<Rightarrow> string \<Rightarrow> string" where
  "unmask given previous = (if given = SecretMask then previous else given)"

definition mergeHostSecrets :: "Host \<Rightarrow> Host \<Rightarrow> Host" where
  "mergeHostSecrets h previous =
     h\<lparr>host_PrivateKey := unmask (host_PrivateKey h) (host_PrivateKey previous),
       host_KeyPassphrase := unmask (host_KeyPassphrase h) (host_KeyPassphrase previous),
       host_Password := unmask (host_Password h) (host_Password previous)\<rparr>"

definition auth_field :: "Host \<Rightarrow> fields \<Rightarrow> fields" where
  "auth_field h ve =
     (case host_Auth h of
        HostAuthKey \<Rightarrow> field_if (TrimSpace (host_PrivateKey h) = []) ''privateKey'' ''required for key authentication'' ve
      | HostAuthPassword \<Rightarrow> field_if (host_Password h = []) ''password'' ''required for password authentication'' ve
      | HostAuthOther s \<Rightarrow> field_if True ''auth'' ''must be key or password'' ve)"

definition host_check_fields :: "Host \<Rightarrow> fields" where
  "host_check_fields h =
     field_if (bad_fingerprint (host_HostKey h)) ''hostKey'' ''must look like SHA256:abc...''
       (auth_field h
         (field_if (host_Port h < 1 \<or> 65535 < host_Port h) ''port'' ''must be between 1 and 65535''
           (field_if (TrimSpace (host_User h) = []) ''user'' ''required''
             (field_if (TrimSpace (host_Address h) = []) ''address'' ''required''
               (field_if (TrimSpace (host_Name h) = []) ''name'' ''required'' no_fields)))))"

definition validateHost :: "site \<Rightarrow> Host \<Rightarrow> failure option" where
  "validateHost S h =
     (case checked ''invalid host'' (host_check_fields h) of
        Some f \<Rightarrow> Some f
      | None \<Rightarrow>
          (case Validate (sv_parse_key S) h of
             None \<Rightarrow> None
           | Some e \<Rightarrow> Some (Invalid (Error e)
               [(if host_Auth h = HostAuthPassword then ''password'' else ''privateKey'') \<mapsto> Error e])))"

definition firstNonEmpty :: "string list \<Rightarrow> string" where
  "firstNonEmpty vs = (case find (\<lambda>v. v \<noteq> []) vs of None \<Rightarrow> [] | Some v \<Rightarrow> v)"

text \<open>A public key that came along is kept when it is the derived one with a comment.\<close>

definition derivePublicKey :: "site \<Rightarrow> Host \<Rightarrow> string list \<Rightarrow> failure + Host" where
  "derivePublicKey S h candidates =
     (if host_Auth h \<noteq> HostAuthKey then Inr (h\<lparr>host_PublicKey := firstNonEmpty candidates\<rparr>)
      else (case PublicKeyOf (sv_parse_key S) h of
              Inl e \<Rightarrow> Inl (Invalid (Error e) [''privateKey'' \<mapsto> Error e])
            | Inr derived \<Rightarrow>
                (case find (\<lambda>c. c \<noteq> [] \<and> HasPrefix c derived) candidates of
                   Some c \<Rightarrow> Inr (h\<lparr>host_PublicKey := c\<rparr>)
                 | None \<Rightarrow> Inr (h\<lparr>host_PublicKey := derived\<rparr>))))"

section \<open>Handlers of hosts\<close>

definition host_secret_names :: "string list" where
  "host_secret_names = [''privateKey'', ''keyPassphrase'', ''password'']"

definition seal_host :: "site \<Rightarrow> Host \<Rightarrow> Host result web_op" where
  "seal_host S h = do { nonces \<leftarrow> draw_nonces host_secret_names; return (EncryptHost (sv_cipher S) nonces h) }"

definition handleListHosts :: "request \<Rightarrow> (Host list \<times> nat) reply web_op" where
  "handleListHosts r =
     orinvalid (pageFromRequest r) (\<lambda>page. do {
       flt2 \<leftarrow> next_fault; flt3 \<leftarrow> next_fault;
       items \<leftarrow> lookup (\<lambda>flt. Hosts_List flt flt2 flt3
         \<lparr>hf_Q = TrimSpace (hr_Query r ''q''), hf_Tag = TrimSpace (hr_Query r ''tag''), hf_Page = page\<rparr>);
       orfail items (\<lambda>(rows, total). return (Reply 200 (map Host_Masked rows, total))) })"

definition handleGetHost :: "string \<Rightarrow> Host reply web_op" where
  "handleGetHost i = do { r \<leftarrow> find_host i; orfail r (\<lambda>h. return (Reply 200 (Host_Masked h))) }"

definition HostAuth_str :: "HostAuth \<Rightarrow> string" where
  "HostAuth_str a = (case a of HostAuthKey \<Rightarrow> ''key'' | HostAuthPassword \<Rightarrow> ''password'' | HostAuthOther s \<Rightarrow> s)"

definition host_detail :: "Host \<Rightarrow> Config" where
  "host_detail h = [''address'' \<mapsto> VString (host_Address h), ''auth'' \<mapsto> VString (HostAuth_str (host_Auth h))]"

definition handleCreateHost :: "site \<Rightarrow> request \<Rightarrow> Principal option \<Rightarrow> hostRequest body \<Rightarrow> Host reply web_op" where
  "handleCreateHost S r p b =
     orinvalid (decodeBody b) (\<lambda>req.
     let host = mergeHostSecrets (hostFromRequest req) zero_host in
     unless_failure (validateHost S host) (
     orinvalid (derivePublicKey S host [host_PublicKey host]) (\<lambda>host2. do {
       stored \<leftarrow> seal_host S host2;
       orfail stored (\<lambda>sealed. do {
         newID \<leftarrow> next_id; now \<leftarrow> time_Now;
         saved \<leftarrow> sql (\<lambda>flt. Hosts_Create flt newID now sealed);
         orfail saved (\<lambda>h. do {
           audit r p ''host.create'' ''host'' (host_ID h) (host_Name h) (host_detail h);
           return (Reply 201 (Host_Masked h)) }) }) })))"

text \<open>Storing a changed host and showing it as it is stored then.\<close>

definition save_host :: "site \<Rightarrow> request \<Rightarrow> Principal option \<Rightarrow> string \<Rightarrow> (Host \<Rightarrow> Config) \<Rightarrow> Host \<Rightarrow> Host reply web_op" where
  "save_host S r p action details host = do {
     stored \<leftarrow> seal_host S host;
     orfail stored (\<lambda>sealed. do {
       now \<leftarrow> time_Now;
       saved \<leftarrow> sql (\<lambda>flt. Hosts_Update flt now sealed);
       orfail saved (\<lambda>_. do {
         again \<leftarrow> find_host (host_ID host);
         orfail again (\<lambda>h. do {
           audit r p action ''host'' (host_ID h) (host_Name h) (details h);
           return (Reply 200 (Host_Masked h)) }) }) }) }"

definition handleUpdateHost :: "site \<Rightarrow> request \<Rightarrow> Principal option \<Rightarrow> string \<Rightarrow> hostRequest body \<Rightarrow> Host reply web_op" where
  "handleUpdateHost S r p i b = do {
     found \<leftarrow> find_host i;
     orfail found (\<lambda>existing.
     orfail (DecryptHost (sv_cipher S) existing) (\<lambda>previous.
     orinvalid (decodeBody b) (\<lambda>req.
     let host = (mergeHostSecrets (hostFromRequest req) previous)\<lparr>host_ID := host_ID existing\<rparr> in
     unless_failure (validateHost S host) (
     orinvalid (derivePublicKey S host [host_PublicKey host, host_PublicKey previous])
       (save_host S r p ''host.update'' host_detail))))) }"

definition host_in_use :: "'a reply" where
  "host_in_use = writeError 409 codeConflict ''host is used by sources''"

definition handleDeleteHost :: "request \<Rightarrow> Principal option \<Rightarrow> string \<Rightarrow> unit reply web_op" where
  "handleDeleteHost r p i = do {
     found \<leftarrow> find_host i;
     orfail found (\<lambda>host.
       if 0 < host_SourceCount host then return host_in_use
       else do {
         flt_counts \<leftarrow> next_fault;
         err \<leftarrow> sql (\<lambda>flt. Hosts_Delete flt_counts flt (host_ID host));
         (case err of
            Some e \<Rightarrow> return (if errIs e ErrConflict then host_in_use else fail (Failed e))
          | None \<Rightarrow> do {
              audit r p ''host.delete'' ''host'' (host_ID host) (host_Name host) Map.empty;
              return (Reply 204 ()) }) }) }"

section \<open>Keys\<close>

text \<open>Code points outside ASCII are dropped like the other ones.\<close>

fun comment_chars :: "string \<Rightarrow> string" where
  "comment_chars [] = []"
| "comment_chars (c # s) =
     (let n = of_char c :: nat in
      if (97 \<le> n \<and> n \<le> 122) \<or> (48 \<le> n \<and> n \<le> 57) \<or> c \<in> set ''.-_'' then c # comment_chars s
      else if 65 \<le> n \<and> n \<le> 90 then char_of (n + 32) # comment_chars s
      else if c = CHR '' '' then CHR ''-'' # comment_chars s
      else comment_chars s)"

definition sanitizeComment :: "string \<Rightarrow> string" where
  "sanitizeComment v =
     (let edge = (\<lambda>c. c = CHR ''-'' \<or> c = CHR ''.'');
          cleaned = rev (dropWhile edge (rev (dropWhile edge (comment_chars (TrimSpace v)))))
      in if cleaned = [] then ''backvault'' else cleaned)"

definition keyComment :: "string web_op" where
  "keyComment = do {
     st \<leftarrow> lookup Settings_Get;
     return (''backvault@'' @ sanitizeComment (case st of (cfg, None) \<Rightarrow> set_SiteName cfg | (cfg, Some e) \<Rightarrow> [])) }"

definition new_key :: "site \<Rightarrow> (string \<times> string) result web_op" where
  "new_key S = do {
     comment \<leftarrow> keyComment;
     rnd \<leftarrow> random_bytes;
     return (Remote.GenerateKey (sv_generate_key S rnd) comment) }"

definition handleKeygen :: "site \<Rightarrow> request \<Rightarrow> Principal option \<Rightarrow> (string \<times> string) reply web_op" where
  "handleKeygen S r p = do {
     key \<leftarrow> new_key S;
     orfail key (\<lambda>pair. do { audit r p ''host.keygen'' ''host'' [] [] Map.empty; return (Reply 200 pair) }) }"

definition handleHostKeygen :: "site \<Rightarrow> request \<Rightarrow> Principal option \<Rightarrow> string \<Rightarrow> Host reply web_op" where
  "handleHostKeygen S r p i = do {
     found \<leftarrow> find_host i;
     orfail found (\<lambda>existing.
     orfail (DecryptHost (sv_cipher S) existing) (\<lambda>previous. do {
       key \<leftarrow> new_key S;
       orfail key (\<lambda>(private_pem, public_line).
         save_host S r p ''host.keygen'' (\<lambda>_. Map.empty)
           (previous\<lparr>host_Auth := HostAuthKey, host_PrivateKey := private_pem, host_KeyPassphrase := [],
              host_PublicKey := public_line\<rparr>)) })) }"

section \<open>Connection tests\<close>

record HostTestResult =
  ht_OK :: bool
  ht_Message :: string
  ht_OS :: string
  ht_Tools :: "string list"

definition no_connection :: "string \<Rightarrow> HostTestResult" where
  "no_connection message = \<lparr>ht_OK = False, ht_Message = message, ht_OS = [], ht_Tools = []\<rparr>"

text \<open>An error of dialing or probing is shown without the secrets of the host. The duration is left out.\<close>

definition TestHost :: "site \<Rightarrow> Host \<Rightarrow> HostTestResult web_op" where
  "TestHost S host = do {
     started \<leftarrow> time_Now;
     return (case Validate (sv_parse_key S) host of
         Some e \<Rightarrow> no_connection (Error e)
       | None \<Rightarrow>
           (case sv_probe S host started of
              Inl e \<Rightarrow> no_connection (ScrubText host (Error e))
            | Inr (os, tools) \<Rightarrow> \<lparr>ht_OK = True, ht_Message = ''connection successful'', ht_OS = os, ht_Tools = tools\<rparr>)) }"

text \<open>An unknown identifier in the request means no stored secrets.\<close>

definition handleTestHostConfig :: "site \<Rightarrow> hostRequest body \<Rightarrow> HostTestResult reply web_op" where
  "handleTestHostConfig S b =
     orinvalid (decodeBody b) (\<lambda>req. do {
       previous \<leftarrow> (if TrimSpace (hq_ID req) = [] then return (Inr zero_host)
         else do {
           found \<leftarrow> find_host (TrimSpace (hq_ID req));
           return (case found of Inl _ \<Rightarrow> Inr zero_host | Inr existing \<Rightarrow> DecryptHost (sv_cipher S) existing) });
       orfail previous (\<lambda>prev. do {
         res \<leftarrow> TestHost S (mergeHostSecrets (hostFromRequest req) prev);
         return (Reply 200 res) }) })"

definition handleTestHost :: "site \<Rightarrow> request \<Rightarrow> Principal option \<Rightarrow> string \<Rightarrow> HostTestResult reply web_op" where
  "handleTestHost S r p i = do {
     found \<leftarrow> find_host i;
     orfail found (\<lambda>stored.
     orfail (DecryptHost (sv_cipher S) stored) (\<lambda>host. do {
       res \<leftarrow> TestHost S host;
       now \<leftarrow> time_Now;
       err \<leftarrow> sql (\<lambda>flt. Hosts_SetTestResult flt now (host_ID stored) (ht_OK res)
         (if ht_OK res then [] else ht_Message res) (ht_OS res) (ht_Tools res));
       unless_err err (do {
         audit r p ''host.test'' ''host'' (host_ID stored) (host_Name stored) [''ok'' \<mapsto> VBool (ht_OK res)];
         return (Reply 200 res) }) })) }"

section \<open>Settings\<close>

definition handleGetSettings :: "Settings reply web_op" where
  "handleGetSettings = do {
     st \<leftarrow> lookup Settings_Get;
     unless_err (snd st) (return (Reply 200 (fst st))) }"

definition isHTTPURL :: "string \<Rightarrow> bool" where
  "isHTTPURL v \<longleftrightarrow> 7 < length v \<and> (take 7 v = ''http://'' \<or> 8 < length v \<and> take 8 v = ''https://'')"

definition settings_fields :: "site \<Rightarrow> Settings \<Rightarrow> fields" where
  "settings_fields S st =
     unknown_events ''defaultNotifyOn'' (set_DefaultNotifyOn st)
       (field_if (negative_retention (set_DefaultRetention st)) ''defaultRetention'' ''values must not be negative''
         (field_if (set_BaseURL st \<noteq> [] \<and> \<not> isHTTPURL (set_BaseURL st)) ''baseUrl'' ''must start with http:// or https://''
           (let loc = LoadLocation (sv_clockwork S) (set_DefaultTimezone st) in
            field_if (isl loc) ''defaultTimezone'' (error_text loc)
             (field_if (set_RunHistoryDays st < 0 \<or> set_AuditHistoryDays st < 0) ''runHistoryDays'' ''must not be negative''
               (field_if (set_OverdueCheckMinutes st < 1 \<or> 1440 < set_OverdueCheckMinutes st)
                 ''overdueCheckMinutes'' ''must be between 1 and 1440''
                 (field_if (set_MaxConcurrentRuns st < 1 \<or> 64 < set_MaxConcurrentRuns st)
                   ''maxConcurrentRuns'' ''must be between 1 and 64'' no_fields))))))"

text \<open>\<open>ReloadSettings\<close> of the engine (internal/engine/engine.go): an error is only logged.\<close>

definition ReloadSettings :: "unit web_op" where
  "ReloadSettings = do {
     st \<leftarrow> lookup Settings_Get;
     (case st of
        (cfg, Some e) \<Rightarrow> return ()
      | (cfg, None) \<Rightarrow> modify (\<lambda>w. w\<lparr>web_engine := setConcurrency (set_MaxConcurrentRuns cfg) (web_engine w)\<rparr>)) }"

text \<open>The body is decoded over the current settings: \<open>b\<close> maps them to the incoming ones.\<close>

definition handleUpdateSettings ::
  "site \<Rightarrow> request \<Rightarrow> Principal option \<Rightarrow> (Settings \<Rightarrow> Settings) body \<Rightarrow> Settings reply web_op" where
  "handleUpdateSettings S r p b = do {
     st \<leftarrow> lookup Settings_Get;
     unless_err (snd st) (
     orinvalid (decodeBody b) (\<lambda>change.
     let incoming = change (fst st) in
     unless_fields ''invalid settings'' (settings_fields S incoming) (do {
       saved \<leftarrow> sql (\<lambda>flt. Settings_Save flt incoming);
       unless_err (snd saved) (do {
         ReloadSettings;
         ReloadSchedule;
         audit r p ''settings.update'' ''settings'' ''settings'' (set_SiteName (fst saved)) Map.empty;
         return (Reply 200 (fst saved)) }) }))) }"

end
