(* ===== verification/Server_Transfer.thy ===== *)
theory Server_Transfer
  imports Server_Hosts
begin

text \<open>
  Export and import of the configuration (internal/server/export.go). The YAML encoding of the document
  is left out: an export answers the document, an import gets the document or the error of its decoder.
\<close>

section \<open>The document\<close>

record exportHost =
  eh_Name :: string
  eh_Description :: string
  eh_Address :: string
  eh_Port :: int
  eh_User :: string
  eh_Auth :: HostAuth
  eh_PrivateKey :: string
  eh_KeyPassphrase :: string
  eh_Password :: string
  eh_HostKey :: string
  eh_Sudo :: bool
  eh_ConnectTimeoutSeconds :: int
  eh_Tags :: "string list"

record exportSource =
  es_Name :: string
  es_Kind :: string
  es_Description :: string
  es_Config :: Config
  es_Host :: string
  es_Tags :: "string list"

record exportDestination =
  ed_Name :: string
  ed_Kind :: string
  ed_Description :: string
  ed_Config :: Config
  ed_Tags :: "string list"

record exportJob =
  ej_Slug :: string
  ej_Name :: string
  ej_Description :: string
  ej_Source :: string
  ej_Destinations :: "string list"
  ej_Schedule :: string
  ej_Timezone :: string
  ej_Enabled :: bool
  ej_Compression :: Compression
  ej_CompressionLevel :: int
  ej_Encryption :: Encryption
  ej_EncryptionPassphrase :: string
  ej_Retention :: Retention
  ej_NotificationChannels :: "string list"
  ej_NotifyOn :: "string list"
  ej_TimeoutMinutes :: int
  ej_Retries :: int
  ej_RetryDelaySeconds :: int
  ej_PreCommand :: string
  ej_PostCommand :: string
  ej_VerifyAfterUpload :: bool
  ej_ExpectedIntervalMinutes :: int
  ej_Tags :: "string list"

record exportChannel =
  ec_Name :: string
  ec_Kind :: string
  ec_Enabled :: bool
  ec_Events :: "string list"
  ec_Config :: Config

record exportDocument =
  doc_Version :: int
  doc_ExportedAt :: time
  doc_Hosts :: "exportHost list"
  doc_Sources :: "exportSource list"
  doc_Destinations :: "exportDestination list"
  doc_Jobs :: "exportJob list"
  doc_Channels :: "exportChannel list"

record importChange =
  ic_Kind :: string
  ic_Name :: string
  ic_Action :: string
  ic_Note :: string

section \<open>Export\<close>

definition first_page :: Page where
  "first_page = \<lparr>pg_Limit = MaxLimit, pg_Offset = 0\<rparr>"

definition list_hosts :: "(Host list \<times> nat) result web_op" where
  "list_hosts = do {
     flt2 \<leftarrow> next_fault; flt3 \<leftarrow> next_fault;
     lookup (\<lambda>flt. Hosts_List flt flt2 flt3 \<lparr>hf_Q = [], hf_Tag = [], hf_Page = first_page\<rparr>) }"

definition list_sources :: "(Source list \<times> nat) result web_op" where
  "list_sources = do {
     flt2 \<leftarrow> next_fault; flt3 \<leftarrow> next_fault;
     lookup (\<lambda>flt. Sources_List flt flt2 flt3 \<lparr>sf_Kind = [], sf_HostID = [], sf_Q = [], sf_Page = first_page\<rparr>) }"

definition list_destinations :: "(Destination list \<times> nat) result web_op" where
  "list_destinations = do {
     flt2 \<leftarrow> next_fault; flt3 \<leftarrow> next_fault; flt4 \<leftarrow> next_fault;
     lookup (\<lambda>flt. Destinations_List flt flt2 flt3 flt4 \<lparr>df_Kind = [], df_Q = [], df_Page = first_page\<rparr>) }"

definition export_host :: "site \<Rightarrow> bool \<Rightarrow> Host \<Rightarrow> exportHost" where
  "export_host S includeSecrets h0 =
     (let h = (if includeSecrets then DecryptHostLenient (sv_cipher S) h0 else Host_Masked h0) in
      \<lparr>eh_Name = host_Name h, eh_Description = host_Description h, eh_Address = host_Address h, eh_Port = host_Port h,
       eh_User = host_User h, eh_Auth = host_Auth h, eh_PrivateKey = host_PrivateKey h,
       eh_KeyPassphrase = host_KeyPassphrase h, eh_Password = host_Password h, eh_HostKey = host_HostKey h,
       eh_Sudo = host_Sudo h, eh_ConnectTimeoutSeconds = host_ConnectTimeout h, eh_Tags = host_Tags h\<rparr>)"

text \<open>With the secrets the configuration of a known kind is decrypted, leniently; without them it is masked.\<close>

definition export_config :: "site \<Rightarrow> bool \<Rightarrow> driver option \<Rightarrow> Config \<Rightarrow> Config" where
  "export_config S includeSecrets found cfg =
     (if includeSecrets
      then (case found of None \<Rightarrow> cfg | Some drv \<Rightarrow> DecryptConfigLenient (sv_cipher S) cfg (SecretFields (drv_Spec drv)))
      else masked_config found cfg)"

definition export_source :: "site \<Rightarrow> bool \<Rightarrow> Source \<Rightarrow> exportSource" where
  "export_source S includeSecrets x =
     \<lparr>es_Name = src_Name x, es_Kind = src_Kind x, es_Description = src_Description x,
      es_Config = export_config S includeSecrets (sv_sources S (src_Kind x)) (src_Config x),
      es_Host = src_HostName x, es_Tags = src_Tags x\<rparr>"

definition export_destination :: "site \<Rightarrow> bool \<Rightarrow> Destination \<Rightarrow> exportDestination" where
  "export_destination S includeSecrets x =
     \<lparr>ed_Name = dst_Name x, ed_Kind = dst_Kind x, ed_Description = dst_Description x,
      ed_Config = export_config S includeSecrets (sv_destinations S (dst_Kind x)) (dst_Config x), ed_Tags = dst_Tags x\<rparr>"

definition export_channel :: "site \<Rightarrow> bool \<Rightarrow> NotificationChannel \<Rightarrow> exportChannel" where
  "export_channel S includeSecrets x =
     \<lparr>ec_Name = chn_Name x, ec_Kind = chn_Kind x, ec_Enabled = chn_Enabled x, ec_Events = chn_Events x,
      ec_Config = export_config S includeSecrets (sv_notifiers S (chn_Kind x)) (chn_Config x)\<rparr>"

text \<open>The maps from identifiers to names and back that the code fills row by row.\<close>

definition names_of :: "('a \<Rightarrow> string) \<Rightarrow> ('a \<Rightarrow> string) \<Rightarrow> 'a list \<Rightarrow> string \<rightharpoonup> string" where
  "names_of key val rows = fold (\<lambda>x m. m(key x \<mapsto> val x)) rows Map.empty"

definition or_empty :: "string option \<Rightarrow> string" where
  "or_empty x = (case x of None \<Rightarrow> [] | Some s \<Rightarrow> s)"

definition export_passphrase :: "site \<Rightarrow> bool \<Rightarrow> string \<Rightarrow> string result" where
  "export_passphrase S includeSecrets pw =
     (if pw = [] then Inr [] else if includeSecrets then Decrypt (sv_cipher S) pw else Inr SecretMask)"

definition export_job ::
  "site \<Rightarrow> bool \<Rightarrow> (string \<rightharpoonup> string) \<Rightarrow> (string \<rightharpoonup> string) \<Rightarrow> (string \<rightharpoonup> string) \<Rightarrow> Job \<Rightarrow> exportJob result" where
  "export_job S includeSecrets sourceNames destNames channelNames j =
     (case export_passphrase S includeSecrets (job_EncryptionPassphrase j) of
        Inl e \<Rightarrow> Inl e
      | Inr pw \<Rightarrow> Inr
          \<lparr>ej_Slug = job_Slug j, ej_Name = job_Name j, ej_Description = job_Description j,
           ej_Source = or_empty (sourceNames (job_SourceID j)),
           ej_Destinations = List.map_filter destNames (job_DestinationIDs j),
           ej_Schedule = job_Schedule j, ej_Timezone = job_Timezone j, ej_Enabled = job_Enabled j,
           ej_Compression = job_Compression j, ej_CompressionLevel = job_CompressionLevel j,
           ej_Encryption = job_Encryption j, ej_EncryptionPassphrase = pw, ej_Retention = job_Retention j,
           ej_NotificationChannels = List.map_filter channelNames (job_NotificationChannelIDs j),
           ej_NotifyOn = job_NotifyOn j, ej_TimeoutMinutes = job_TimeoutMinutes j, ej_Retries = job_Retries j,
           ej_RetryDelaySeconds = job_RetryDelaySeconds j, ej_PreCommand = job_PreCommand j,
           ej_PostCommand = job_PostCommand j, ej_VerifyAfterUpload = job_VerifyAfterUpload j,
           ej_ExpectedIntervalMinutes = job_ExpectedIntervalMinutes j, ej_Tags = job_Tags j\<rparr>)"

definition append_result :: "('a \<Rightarrow> 'b result) \<Rightarrow> 'b list \<Rightarrow> 'a \<Rightarrow> 'b list result" where
  "append_result f items x = (case f x of Inl e \<Rightarrow> Inl e | Inr y \<Rightarrow> Inr (items @ [y]))"

definition buildExport :: "site \<Rightarrow> bool \<Rightarrow> exportDocument result web_op" where
  "buildExport S includeSecrets = do {
     now \<leftarrow> time_Now;
     hosts \<leftarrow> list_hosts;
     (case hosts of Inl e \<Rightarrow> return (Inl e) | Inr (hs, _) \<Rightarrow> do {
     sources \<leftarrow> list_sources;
     (case sources of Inl e \<Rightarrow> return (Inl e) | Inr (ss, _) \<Rightarrow> do {
     destinations \<leftarrow> list_destinations;
     (case destinations of Inl e \<Rightarrow> return (Inl e) | Inr (ds, _) \<Rightarrow> do {
     channels \<leftarrow> lookup Channels_List;
     (case channels of Inl e \<Rightarrow> return (Inl e) | Inr cs \<Rightarrow> do {
     flt_join \<leftarrow> next_fault;
     jobs \<leftarrow> lookup (\<lambda>flt. Jobs_All flt flt_join);
     (case jobs of Inl e \<Rightarrow> return (Inl e) | Inr js \<Rightarrow>
       return (case foldE (append_result (export_job S includeSecrets (names_of src_ID src_Name ss) (names_of dst_ID dst_Name ds)
                      (names_of chn_ID chn_Name cs))) [] js of
           Inl e \<Rightarrow> Inl e
         | Inr items \<Rightarrow> Inr
             \<lparr>doc_Version = 1, doc_ExportedAt = now, doc_Hosts = map (export_host S includeSecrets) hs,
              doc_Sources = map (export_source S includeSecrets) ss,
              doc_Destinations = map (export_destination S includeSecrets) ds, doc_Jobs = items,
              doc_Channels = map (export_channel S includeSecrets) cs\<rparr>)) }) }) }) }) }"

definition handleExport :: "site \<Rightarrow> request \<Rightarrow> Principal option \<Rightarrow> exportDocument reply web_op" where
  "handleExport S r p = do {
     let includeSecrets = queryBool r ''includeSecrets'';
     built \<leftarrow> buildExport S includeSecrets;
     orfail built (\<lambda>doc. do {
       audit r p (if includeSecrets then ''export.secrets'' else ''export'') ''export'' [] []
         [''hosts'' \<mapsto> VInt (int (length (doc_Hosts doc))), ''sources'' \<mapsto> VInt (int (length (doc_Sources doc))),
          ''destinations'' \<mapsto> VInt (int (length (doc_Destinations doc))), ''jobs'' \<mapsto> VInt (int (length (doc_Jobs doc))),
          ''channels'' \<mapsto> VInt (int (length (doc_Channels doc)))];
       return (Reply 200 doc) }) }"

section \<open>Import\<close>

text \<open>A loop over items stops at the first failure. It threads the map from names to identifiers and the
  changes so far.\<close>

type_synonym progress = "(string \<rightharpoonup> string) \<times> importChange list"

fun import_loop :: "('item \<Rightarrow> 'acc \<Rightarrow> (failure + 'acc) web_op) \<Rightarrow> 'item list \<Rightarrow> 'acc \<Rightarrow> (failure + 'acc) web_op" where
  "import_loop step [] acc = return (Inr acc)"
| "import_loop step (x # xs) acc = proceed (step x acc) (import_loop step xs)"

definition change_of :: "string \<Rightarrow> string \<Rightarrow> bool \<Rightarrow> string \<Rightarrow> importChange" where
  "change_of kind name exists note =
     \<lparr>ic_Kind = kind, ic_Name = name, ic_Action = (if exists then ''update'' else ''create''), ic_Note = note\<rparr>"

text \<open>The row an existing name stands for, fetched again.\<close>

definition current_of :: "string option \<Rightarrow> (string \<Rightarrow> 'a result web_op) \<Rightarrow> (failure + 'a option) web_op" where
  "current_of existingID fetch =
     (case existingID of
        None \<Rightarrow> return (Inr None)
      | Some i \<Rightarrow> do { r \<leftarrow> fetch i; orstop r (\<lambda>x. return (Inr (Some x))) })"

definition previous_host :: "site \<Rightarrow> Host option \<Rightarrow> Host result" where
  "previous_host S current = (case current of None \<Rightarrow> Inr zero_host | Some h \<Rightarrow> DecryptHost (sv_cipher S) h)"

definition host_request :: "exportHost \<Rightarrow> hostRequest" where
  "host_request x =
     \<lparr>hq_ID = [], hq_Name = eh_Name x, hq_Description = eh_Description x, hq_Address = eh_Address x, hq_Port = eh_Port x,
      hq_User = eh_User x, hq_Auth = eh_Auth x, hq_PrivateKey = eh_PrivateKey x, hq_KeyPassphrase = eh_KeyPassphrase x,
      hq_Password = eh_Password x, hq_PublicKey = [], hq_HostKey = eh_HostKey x, hq_Sudo = eh_Sudo x,
      hq_ConnectTimeoutSeconds = eh_ConnectTimeoutSeconds x, hq_Tags = eh_Tags x\<rparr>"

definition valid_or_stop :: "failure option \<Rightarrow> (failure + 'a) web_op \<Rightarrow> (failure + 'a) web_op" where
  "valid_or_stop r k = (case r of Some f \<Rightarrow> return (Inl f) | None \<Rightarrow> k)"

definition import_host :: "site \<Rightarrow> bool \<Rightarrow> exportHost \<Rightarrow> progress \<Rightarrow> (failure + progress) web_op" where
  "import_host S dryRun item = (\<lambda>(ids, changes).
     proceed (current_of (ids (eh_Name item)) find_host) (\<lambda>current.
     orstop (previous_host S current) (\<lambda>previous.
     let host = (mergeHostSecrets (hostFromRequest (host_request item)) previous)\<lparr>host_ID := or_empty (ids (eh_Name item))\<rparr> in
     valid_or_stop (validateHost S host) (
     proceed (return (derivePublicKey S host [host_PublicKey previous])) (\<lambda>host2.
     let changes' = changes @ [change_of ''host'' (eh_Name item) (ids (eh_Name item) \<noteq> None) []] in
     if dryRun then return (Inr (ids, changes'))
     else do {
       stored \<leftarrow> seal_host S host2;
       orstop stored (\<lambda>sealed. do {
         newID \<leftarrow> next_id; now \<leftarrow> time_Now;
         saved \<leftarrow> sql (\<lambda>flt. if ids (eh_Name item) \<noteq> None then Hosts_Update flt now sealed
                            else Hosts_Create flt newID now sealed);
         orstop saved (\<lambda>h. return (Inr (ids(eh_Name item \<mapsto> host_ID h), changes'))) }) })))))"

text \<open>An unknown host is noted and left out.\<close>

definition import_source_host ::
  "DriverSpec \<Rightarrow> (string \<rightharpoonup> string) \<Rightarrow> string \<Rightarrow> (failure + string \<times> string) web_op" where
  "import_source_host spec hostIDs given =
     (let name = TrimSpace given in
      if name = [] then return (Inr ([], []))
      else (case hostIDs name of
              None \<Rightarrow> return (Inr ([], ''unknown host: '' @ name))
            | Some i \<Rightarrow> proceed (validateSourceHost spec i) (\<lambda>_. return (Inr (i, [])))))"

definition import_source :: "site \<Rightarrow> bool \<Rightarrow> (string \<rightharpoonup> string) \<Rightarrow> exportSource \<Rightarrow> progress \<Rightarrow> (failure + progress) web_op" where
  "import_source S dryRun hostIDs item = (\<lambda>(ids, changes).
     proceed (return (sourceSpec S (es_Kind item))) (\<lambda>drv.
     proceed (current_of (ids (es_Name item)) find_source) (\<lambda>current.
     proceed (prepareConfig S (drv_Spec drv) (es_Config item)
         (case current of None \<Rightarrow> Map.empty | Some x \<Rightarrow> src_Config x) (Some (drv_Validate drv))) (\<lambda>pc.
     proceed (import_source_host (drv_Spec drv) hostIDs (es_Host item)) (\<lambda>(hostID, note).
     let changes' = changes @ [change_of ''source'' (es_Name item) (ids (es_Name item) \<noteq> None) note] in
     if dryRun then return (Inr (ids, changes'))
     else do {
       newID \<leftarrow> next_id; now \<leftarrow> time_Now;
       let row = zero_source\<lparr>src_ID := or_empty (ids (es_Name item)), src_Name := es_Name item, src_Kind := es_Kind item,
         src_Description := es_Description item, src_Config := pc_Encrypted pc, src_HostID := hostID, src_Tags := es_Tags item\<rparr>;
       saved \<leftarrow> sql (\<lambda>flt. if ids (es_Name item) \<noteq> None then Sources_Update flt now row else Sources_Create flt newID now row);
       orstop saved (\<lambda>x. return (Inr (ids(es_Name item \<mapsto> src_ID x), changes'))) })))))"

definition import_destination :: "site \<Rightarrow> bool \<Rightarrow> exportDestination \<Rightarrow> progress \<Rightarrow> (failure + progress) web_op" where
  "import_destination S dryRun item = (\<lambda>(ids, changes).
     proceed (return (destinationSpec S (ed_Kind item))) (\<lambda>drv.
     proceed (current_of (ids (ed_Name item)) find_destination) (\<lambda>current.
     proceed (prepareConfig S (drv_Spec drv) (ed_Config item)
         (case current of None \<Rightarrow> Map.empty | Some x \<Rightarrow> dst_Config x) (Some (drv_Validate drv))) (\<lambda>pc.
     let changes' = changes @ [change_of ''destination'' (ed_Name item) (ids (ed_Name item) \<noteq> None) []] in
     if dryRun then return (Inr (ids, changes'))
     else do {
       newID \<leftarrow> next_id; now \<leftarrow> time_Now; flt2 \<leftarrow> next_fault;
       let row = zero_destination\<lparr>dst_ID := or_empty (ids (ed_Name item)), dst_Name := ed_Name item, dst_Kind := ed_Kind item,
         dst_Description := ed_Description item, dst_Config := pc_Encrypted pc, dst_Tags := ed_Tags item\<rparr>;
       saved \<leftarrow> sql (\<lambda>flt. if ids (ed_Name item) \<noteq> None then Destinations_Update flt flt2 now row
                          else Destinations_Create flt newID now row);
       orstop saved (\<lambda>x. return (Inr (ids(ed_Name item \<mapsto> dst_ID x), changes'))) }))))"

definition import_channel :: "site \<Rightarrow> bool \<Rightarrow> exportChannel \<Rightarrow> progress \<Rightarrow> (failure + progress) web_op" where
  "import_channel S dryRun item = (\<lambda>(ids, changes).
     proceed (return (notifierSpec S (ec_Kind item))) (\<lambda>drv.
     proceed (current_of (ids (ec_Name item)) find_channel) (\<lambda>current.
     proceed (prepareConfig S (drv_Spec drv) (ec_Config item)
         (case current of None \<Rightarrow> Map.empty | Some x \<Rightarrow> chn_Config x) (Some (drv_Validate drv))) (\<lambda>pc.
     let changes' = changes @ [change_of ''channel'' (ec_Name item) (ids (ec_Name item) \<noteq> None) []] in
     if dryRun then return (Inr (ids, changes'))
     else do {
       newID \<leftarrow> next_id; now \<leftarrow> time_Now;
       let row = zero_channel\<lparr>chn_ID := or_empty (ids (ec_Name item)), chn_Name := ec_Name item, chn_Kind := ec_Kind item,
         chn_Config := pc_Encrypted pc, chn_Enabled := ec_Enabled item, chn_Events := ec_Events item\<rparr>;
       saved \<leftarrow> sql (\<lambda>flt. if ids (ec_Name item) \<noteq> None then Channels_Update flt now row else Channels_Create flt newID now row);
       orstop saved (\<lambda>x. return (Inr (ids(ec_Name item \<mapsto> chn_ID x), changes'))) }))))"

text \<open>Names of unknown channels are dropped, the last unknown destination is noted, an unknown source
  overrides the note.\<close>

definition job_request_of ::
  "(string \<rightharpoonup> string) \<Rightarrow> (string \<rightharpoonup> string) \<Rightarrow> (string \<rightharpoonup> string) \<Rightarrow> string \<Rightarrow> exportJob \<Rightarrow> jobRequest" where
  "job_request_of sourceIDs destIDs channelIDs slug x =
     \<lparr>jq_Slug = slug, jq_Name = ej_Name x, jq_Description = ej_Description x, jq_SourceID = or_empty (sourceIDs (ej_Source x)),
      jq_DestinationIDs = List.map_filter destIDs (ej_Destinations x), jq_Schedule = ej_Schedule x,
      jq_Timezone = ej_Timezone x, jq_Enabled = Some (ej_Enabled x), jq_Compression = ej_Compression x,
      jq_CompressionLevel = ej_CompressionLevel x, jq_Encryption = ej_Encryption x,
      jq_EncryptionPassphrase = ej_EncryptionPassphrase x, jq_Retention = ej_Retention x,
      jq_NotificationChannelIDs = List.map_filter channelIDs (ej_NotificationChannels x), jq_NotifyOn = ej_NotifyOn x,
      jq_TimeoutMinutes = ej_TimeoutMinutes x, jq_Retries = ej_Retries x, jq_RetryDelaySeconds = ej_RetryDelaySeconds x,
      jq_PreCommand = ej_PreCommand x, jq_PostCommand = ej_PostCommand x, jq_VerifyAfterUpload = ej_VerifyAfterUpload x,
      jq_ExpectedIntervalMinutes = ej_ExpectedIntervalMinutes x, jq_Tags = ej_Tags x\<rparr>"

definition job_note :: "(string \<rightharpoonup> string) \<Rightarrow> (string \<rightharpoonup> string) \<Rightarrow> exportJob \<Rightarrow> string" where
  "job_note sourceIDs destIDs x =
     (if or_empty (sourceIDs (ej_Source x)) = [] then ''unknown source: '' @ ej_Source x
      else fold (\<lambda>name note. if destIDs name = None then ''unknown destination: '' @ name else note) (ej_Destinations x) [])"

definition import_job ::
  "site \<Rightarrow> bool \<Rightarrow> (string \<rightharpoonup> string) \<Rightarrow> (string \<rightharpoonup> string) \<Rightarrow> (string \<rightharpoonup> string) \<Rightarrow> exportJob \<Rightarrow> importChange list
   \<Rightarrow> (failure + importChange list) web_op" where
  "import_job S dryRun sourceIDs destIDs channelIDs item changes =
     (let slug = (if ej_Slug item = [] then slugify (ej_Name item) else ej_Slug item) in do {
        flt_join \<leftarrow> next_fault;
        found \<leftarrow> lookup (\<lambda>flt. Jobs_GetBySlug flt flt_join slug);
        orstop (found_or_missing found) (\<lambda>existing.
          let exists = (existing \<noteq> None); req = job_request_of sourceIDs destIDs channelIDs slug item in
          if dryRun then return (Inr (changes @ [change_of ''job'' slug exists (job_note sourceIDs destIDs item)]))
          else proceed (validateJob S req existing) (\<lambda>job. do {
            newID \<leftarrow> next_id; now \<leftarrow> time_Now; flt2 \<leftarrow> next_fault; flt3 \<leftarrow> next_fault;
            saved \<leftarrow> sql (\<lambda>flt. if exists then Jobs_Update flt flt2 flt3 now job else Jobs_Create flt newID now job);
            orstop saved (\<lambda>_. return (Inr (changes @ [change_of ''job'' slug exists []]))) })) })"

definition ids_by_name :: "('a \<Rightarrow> string) \<Rightarrow> ('a \<Rightarrow> string) \<Rightarrow> 'a list \<Rightarrow> string \<rightharpoonup> string" where
  "ids_by_name name key rows = names_of name key rows"

definition import_document :: "site \<Rightarrow> bool \<Rightarrow> exportDocument \<Rightarrow> (failure + importChange list) web_op" where
  "import_document S dryRun doc = do {
     hosts \<leftarrow> list_hosts;
     orstop hosts (\<lambda>(hs, _).
     proceed (import_loop (import_host S dryRun) (doc_Hosts doc) (ids_by_name host_Name host_ID hs, [])) (\<lambda>(hostIDs, changes1). do {
     sources \<leftarrow> list_sources;
     orstop sources (\<lambda>(ss, _).
     proceed (import_loop (import_source S dryRun hostIDs) (doc_Sources doc) (ids_by_name src_Name src_ID ss, changes1)) (\<lambda>(sourceIDs, changes2). do {
     destinations \<leftarrow> list_destinations;
     orstop destinations (\<lambda>(ds, _).
     proceed (import_loop (import_destination S dryRun) (doc_Destinations doc) (ids_by_name dst_Name dst_ID ds, changes2)) (\<lambda>(destIDs, changes3). do {
     channels \<leftarrow> lookup Channels_List;
     orstop channels (\<lambda>cs.
     proceed (import_loop (import_channel S dryRun) (doc_Channels doc) (ids_by_name chn_Name chn_ID cs, changes3)) (\<lambda>(channelIDs, changes4).
     import_loop (import_job S dryRun sourceIDs destIDs channelIDs) (doc_Jobs doc) changes4)) })) })) })) }"

datatype yaml_body = Unreadable | BadYAML string | Document exportDocument

definition decodeYAML :: "yaml_body \<Rightarrow> failure + exportDocument" where
  "decodeYAML b =
     (case b of
        Unreadable \<Rightarrow> Inl (Invalid ''could not read the request body'' Map.empty)
      | BadYAML msg \<Rightarrow> Inl (Invalid (''invalid YAML: '' @ msg) Map.empty)
      | Document doc \<Rightarrow> Inr doc)"

definition handleImport :: "site \<Rightarrow> request \<Rightarrow> Principal option \<Rightarrow> yaml_body \<Rightarrow> (bool \<times> importChange list \<times> nat) reply web_op" where
  "handleImport S r p b =
     orinvalid (decodeYAML b) (\<lambda>doc. do {
       let dryRun = queryBool r ''dryRun'';
       res \<leftarrow> import_document S dryRun doc;
       orinvalid res (\<lambda>changes. do {
         (if dryRun then return () else do {
            ReloadSchedule;
            audit r p ''import'' ''import'' [] [] [''changes'' \<mapsto> VInt (int (length changes))] });
         return (Reply 200 (dryRun, changes, length changes)) }) })"

end
