(* ===== verification/Jobs_Checks.thy ===== *)
theory Jobs_Checks
  imports Server_Jobs
begin

text \<open>
  What the checks on a request for a job ensure: the job they accept is well-formed (\<open>job_ok\<close>), its
  references exist and its slug is free. Lemmas for one check each, composed in \<open>looks_validateJob\<close>.
\<close>

section \<open>Computations that only look\<close>

definition looks :: "db \<Rightarrow> 'a web_op \<Rightarrow> ('a \<Rightarrow> bool) \<Rightarrow> bool" where
  "looks d m Q \<longleftrightarrow> (\<forall>w. web_db w = d \<longrightarrow> web_db (snd (run_state m w)) = d \<and> Q (fst (run_state m w)))"

lemma looks_return: "Q x \<Longrightarrow> looks d (return x) Q"
  by (simp add: looks_def)

lemma looks_bind: "looks d m R \<Longrightarrow> (\<And>x. R x \<Longrightarrow> looks d (f x) Q) \<Longrightarrow> looks d (m \<bind> f) Q"
  by (auto simp: looks_def case_prod_beta)

lemma looks_conseq: "looks d m R \<Longrightarrow> (\<And>x. R x \<Longrightarrow> Q x) \<Longrightarrow> looks d m Q"
  by (auto simp: looks_def)

lemma looks_lookup: "looks d (lookup f) (\<lambda>x. \<exists>flt. foreign flt \<and> x = f flt d)"
  by (auto simp: looks_def run_lookup intro!: exI [of _ "fst (run_state next_fault _)"])

lemma looks_next: "looks d next_fault foreign" "looks d next_id (\<lambda>_. True)" "looks d time_Now (\<lambda>_. True)"
  "looks d random_bytes (\<lambda>_. True)"
  by (auto simp: looks_def)

lemma looks_if: "(b \<Longrightarrow> looks d m Q) \<Longrightarrow> (\<not> b \<Longrightarrow> looks d n Q) \<Longrightarrow> looks d (if b then m else n) Q"
  by simp

lemma looks_orstop: "(\<And>e. r = Inl e \<Longrightarrow> Q (Inl (Failed e))) \<Longrightarrow> (\<And>x. r = Inr x \<Longrightarrow> looks d (k x) Q) \<Longrightarrow> looks d (orstop r k) Q"
  by (cases r) (auto simp: orstop_def looks_return)

lemma looks_proceed:
  "looks d m R \<Longrightarrow> (\<And>f. R (Inl f) \<Longrightarrow> Q (Inl f)) \<Longrightarrow> (\<And>x. R (Inr x) \<Longrightarrow> looks d (k x) Q) \<Longrightarrow> looks d (proceed m k) Q"
  unfolding proceed_def by (erule looks_bind) (auto intro: looks_return split: sum.split)

lemma after_looks: "(\<And>d. P d \<Longrightarrow> looks d m (Q d)) \<Longrightarrow> after P m (\<lambda>x d. P d \<and> Q d x)"
  by (auto simp: after_def looks_def)

lemma looks_find_source:
  "looks d (find_source i) (\<lambda>r. \<forall>x. r = Inr x \<longrightarrow> src_ID x = i \<and> i \<in> src_ID ` set (t_sources d))"
  unfolding find_source_def
  by (intro looks_bind [OF looks_next(1)] looks_conseq [OF looks_lookup])
     (auto simp: Sources_Get_def join_source_def join_host_def split: option.splits dest!: find_row_Some)

lemma looks_find_destination:
  "looks d (find_destination i) (\<lambda>r. \<forall>x. r = Inr x \<longrightarrow> i \<in> dst_ID ` set (t_destinations d))"
  unfolding find_destination_def
  by (intro looks_bind [OF looks_next(1)] looks_conseq [OF looks_lookup])
     (auto simp: Destinations_Get_def split: option.splits dest!: find_row_Some)

section \<open>Well-formed jobs\<close>

definition job_ok :: "clockwork \<Rightarrow> Job \<Rightarrow> bool" where
  "job_ok C j \<longleftrightarrow>
     job_Name j \<noteq> [] \<and> validSlug (job_Slug j) \<and> job_DestinationIDs j \<noteq> [] \<and> distinct (job_DestinationIDs j)
   \<and> (job_Schedule j = [] \<or> \<not> isl (ParseSchedule C (job_Schedule j)))
   \<and> (job_Timezone j = [] \<or> \<not> isl (LoadLocation C (job_Timezone j)))
   \<and> job_Compression j \<in> {CompressionNone, CompressionGzip, CompressionZstd}
   \<and> 0 \<le> job_CompressionLevel j \<and> job_CompressionLevel j \<le> 19
   \<and> job_Encryption j \<in> {EncryptionNone, EncryptionAge}
   \<and> (job_Encryption j = EncryptionAge \<longleftrightarrow> job_EncryptionPassphrase j \<noteq> [])
   \<and> (job_EncryptionPassphrase j = [] \<or> IsEncrypted (job_EncryptionPassphrase j))
   \<and> \<not> negative_retention (job_Retention j) \<and> set (job_NotifyOn j) \<subseteq> set AllEvents
   \<and> 0 \<le> job_TimeoutMinutes j \<and> 0 \<le> job_Retries j \<and> job_Retries j \<le> 20
   \<and> 0 \<le> job_RetryDelaySeconds j \<and> 0 \<le> job_ExpectedIntervalMinutes j"

definition references_ok :: "db \<Rightarrow> Job \<Rightarrow> bool" where
  "references_ok d j \<longleftrightarrow>
     job_SourceID j \<in> src_ID ` set (t_sources d)
   \<and> set (job_DestinationIDs j) \<subseteq> dst_ID ` set (t_destinations d)
   \<and> set (job_NotificationChannelIDs j) \<subseteq> chn_ID ` set (t_channels d)"

lemma looks_check_source:
  "looks d (check_source req (job, ve)) (\<lambda>res. \<forall>job' ve'. res = Inr (job', ve') \<longrightarrow> ve' = Map.empty \<longrightarrow>
     ve = Map.empty \<and> job_SourceID job' \<in> src_ID ` set (t_sources d) \<and> job' = job\<lparr>job_SourceID := job_SourceID job'\<rparr>)"
  unfolding check_source_def prod.case
  by (intro looks_if looks_bind [OF looks_find_source] looks_orstop looks_return)
     (auto simp: field_if_empty found_or_missing_def split: option.splits sum.splits if_splits)

lemma looks_check_destinations:
  assumes "distinct ids" and "set ids \<subseteq> set seen"
  shows "looks d (check_destinations is seen ids ve) (\<lambda>res. \<forall>ids' ve'. res = Inr (ids', ve') \<longrightarrow> ve' = Map.empty \<longrightarrow>
     ve = Map.empty \<and> distinct ids' \<and> set ids' = set ids \<union> (set is - set seen)
     \<and> set is - set seen \<subseteq> dst_ID ` set (t_destinations d))"
  using assms
proof (induction "is" arbitrary: seen ids ve)
  case Nil
  then show ?case by (auto intro: looks_return)
next
  case (Cons i "is")
  show ?case
  proof (cases "i \<in> set seen")
    case True
    with Cons.IH [OF Cons.prems] show ?thesis by (simp add: insert_Diff_if)
  next
    case False
    have missing: "looks d (check_destinations is (i # seen) ids (field_if True n msg ve))
        (\<lambda>res. \<forall>ids' ve'. res = Inr (ids', ve') \<longrightarrow> ve' \<noteq> Map.empty)" for n msg
      using Cons.prems by (intro looks_conseq [OF Cons.IH]) (auto simp: field_if_empty)
    have found: "looks d (check_destinations is (i # seen) (ids @ [i]) ve)
        (\<lambda>res. \<forall>ids' ve'. res = Inr (ids', ve') \<longrightarrow> ve' = Map.empty \<longrightarrow> ve = Map.empty \<and> distinct ids'
          \<and> set ids' = set (ids @ [i]) \<union> (set is - set (i # seen)) \<and> set is - set (i # seen) \<subseteq> dst_ID ` set (t_destinations d))"
      using Cons.prems False by (intro Cons.IH) auto
    show ?thesis
      unfolding check_destinations.simps(2) if_not_P [OF False]
    proof (intro looks_bind [OF looks_find_destination] looks_orstop, goal_cases)
      case (2 r v)
      show ?case
      proof (cases v)
        case None
        then show ?thesis by (auto intro!: looks_conseq [OF missing])
      next
        case (Some x)
        with 2 have "i \<in> dst_ID ` set (t_destinations d)"
          by (auto simp: found_or_missing_def split: sum.splits if_splits)
        moreover have "set (i # is) - set seen = insert i (set is - set (i # seen))" using False by auto
        ultimately show ?thesis unfolding Some option.case by (intro looks_conseq [OF found]) (simp only:, auto)
      qed
    qed simp
  qed
qed


lemma looks_check_channels:
  "looks d (check_channels is ve) (\<lambda>res. \<forall>ve'. res = Inr ve' \<longrightarrow> ve' = Map.empty \<longrightarrow>
     ve = Map.empty \<and> set is \<subseteq> chn_ID ` set (t_channels d))"
proof (induction "is" arbitrary: ve)
  case Nil show ?case by (auto intro: looks_return)
next
  case (Cons i "is")
  show ?case
    unfolding check_channels.simps(2)
    by (intro looks_bind [OF looks_lookup] looks_orstop looks_conseq [OF Cons.IH])
       (auto simp: found_or_missing_def field_if_empty Channels_Get_def split: option.splits sum.splits if_splits
         dest!: find_row_Some)
qed

lemma Encrypt_Inr: "Encrypt c rnd s = Inr t \<Longrightarrow> s \<noteq> [] \<Longrightarrow> IsEncrypted t"
  by (auto simp: Encrypt_def IsEncrypted_def split: if_splits sum.splits)

lemma IsEncrypted_nonempty: "IsEncrypted s \<Longrightarrow> s \<noteq> []"
  by (auto simp: IsEncrypted_def HasPrefix_iff Prefix_def)

lemma passphrase_same: "job\<lparr>job_EncryptionPassphrase := job_EncryptionPassphrase job\<rparr> = job"
  by (cases job) simp

text \<open>A job with another passphrase that is empty or encrypted.\<close>

definition rekeyed :: "Job \<Rightarrow> Job \<Rightarrow> bool" where
  "rekeyed job job' \<longleftrightarrow> (\<exists>pw. job' = job\<lparr>job_EncryptionPassphrase := pw\<rparr> \<and> (pw = [] \<or> IsEncrypted pw))"

lemma rekeyed_set: "pw = [] \<or> IsEncrypted pw \<Longrightarrow> rekeyed job (job\<lparr>job_EncryptionPassphrase := pw\<rparr>)"
  unfolding rekeyed_def by blast

lemma rekeyed_same: "job_EncryptionPassphrase job = [] \<or> IsEncrypted (job_EncryptionPassphrase job) \<Longrightarrow> rekeyed job job"
  using rekeyed_set [of "job_EncryptionPassphrase job" job] by (simp only: passphrase_same)

lemma looks_check_passphrase:
  assumes "ve = Map.empty \<Longrightarrow> existing \<noteq> None \<Longrightarrow> job_EncryptionPassphrase job = [] \<or> IsEncrypted (job_EncryptionPassphrase job)"
    and "ve = Map.empty \<Longrightarrow> job_Encryption job \<in> {EncryptionNone, EncryptionAge}"
  shows "looks d (check_passphrase S req existing (job, ve)) (\<lambda>res. \<forall>job' ve'. res = Inr (job', ve') \<longrightarrow> ve' = Map.empty \<longrightarrow>
     ve = Map.empty \<and> (\<exists>pw. job' = job\<lparr>job_EncryptionPassphrase := pw\<rparr> \<and> (pw = [] \<or> IsEncrypted pw)
       \<and> (job_Encryption job = EncryptionAge \<longleftrightarrow> pw \<noteq> [])))"
proof -
  let ?chosen = "\<lambda>res. \<forall>job' ve'. res = Inr (job', ve') \<longrightarrow> ve' = Map.empty \<longrightarrow>
     ve = Map.empty \<and> rekeyed job job'"
  have "looks d (if jq_EncryptionPassphrase req = SecretMask
          then return (Inr (job, field_if (existing = None) ''encryptionPassphrase'' ''required'' ve))
          else if jq_EncryptionPassphrase req = [] then return (Inr (job\<lparr>job_EncryptionPassphrase := []\<rparr>, ve))
          else do {
            rnd \<leftarrow> random_bytes;
            orstop (Encrypt (sv_cipher S) rnd (jq_EncryptionPassphrase req))
              (\<lambda>encrypted. return (Inr (job\<lparr>job_EncryptionPassphrase := encrypted\<rparr>, ve))) }) ?chosen"
  proof (intro looks_if looks_bind [OF looks_next(4)] looks_orstop looks_return allI impI, goal_cases)
    case (1 job' ve')
    then have "existing \<noteq> None" "ve = Map.empty" "job' = job" by (auto simp: field_if_def split: if_splits)
    then show ?case using rekeyed_same [OF assms(1)] by blast
  next
    case (2 job' ve')
    then show ?case using rekeyed_set [of "[]" job] by simp
  next
    case (4 rnd x job' ve')
    then show ?case using rekeyed_set [of x job] Encrypt_Inr [of _ _ _ x] by auto
  qed simp
  then show ?thesis
    unfolding check_passphrase_def prod.case
  proof (rule looks_bind, intro looks_return, goal_cases)
    case (1 r)
    show ?case
    proof (intro allI impI)
      fix job' ve'
      assume eq: "(case r of Inl f \<Rightarrow> Inl f
        | Inr (job1, ve1) \<Rightarrow>
          (let ve2 = field_if (job_Encryption job1 = EncryptionAge \<and> job_EncryptionPassphrase job1 = [])
                       ''encryptionPassphrase'' ''required when encryption is age'' ve1
           in Inr (if job_Encryption job1 = EncryptionNone then job1\<lparr>job_EncryptionPassphrase := []\<rparr> else job1, ve2))) = Inr (job', ve')"
        and "ve' = Map.empty"
      then obtain job1 ve1 where r: "r = Inr (job1, ve1)" and "ve1 = Map.empty"
        and pw: "\<not> (job_Encryption job1 = EncryptionAge \<and> job_EncryptionPassphrase job1 = [])"
        and job': "job' = (if job_Encryption job1 = EncryptionNone then job1\<lparr>job_EncryptionPassphrase := []\<rparr> else job1)"
        by (cases r) (auto simp: Let_def field_if_empty)
      with 1 obtain p where "ve = Map.empty" "job1 = job\<lparr>job_EncryptionPassphrase := p\<rparr>" "p = [] \<or> IsEncrypted p" by (auto simp: rekeyed_def)
      with assms(2) pw job' have "job' = job\<lparr>job_EncryptionPassphrase := if job_Encryption job = EncryptionNone then [] else p\<rparr>"
          "job_Encryption job = EncryptionAge \<longleftrightarrow> (if job_Encryption job = EncryptionNone then [] else p) \<noteq> []"
        by auto
      then show "ve = Map.empty \<and> (\<exists>pw. job' = job\<lparr>job_EncryptionPassphrase := pw\<rparr> \<and> (pw = [] \<or> IsEncrypted pw)
          \<and> (job_Encryption job = EncryptionAge \<longleftrightarrow> pw \<noteq> []))"
        using \<open>ve = Map.empty\<close> \<open>p = [] \<or> IsEncrypted p\<close> by metis
    qed
  qed
qed


lemma looks_check_slug: "looks d (check_slug ex s) (\<lambda>r. \<forall>b. r = Inr b \<longrightarrow> b = slug_taken d ex s)"
  unfolding check_slug_def
  by (rule looks_conseq [OF looks_lookup])
     (auto simp: Jobs_SlugExists_def slug_taken_def count_rows_def filter_empty_conv split: option.splits)

lemma looks_unique_loop:
  "looks d (unique_loop base (check_slug ex) is candidate)
     (\<lambda>res. \<forall>s. res = Inr s \<longrightarrow> \<not> slug_taken d ex s \<and> s \<in> set (slug_candidates base is candidate))"
proof (induction "is" arbitrary: candidate)
  case Nil show ?case by (auto intro: looks_return)
next
  case (Cons i "is")
  show ?case
    unfolding unique_loop.simps(2)
  proof (rule looks_bind [OF looks_check_slug], goal_cases)
    case (1 r)
    show ?case
    proof (cases r)
      case (Inl e) then show ?thesis by (auto intro: looks_return)
    next
      case (Inr b)
      with 1 show ?thesis
        by (cases b) (auto intro!: looks_return looks_conseq [OF Cons.IH] simp: slug_candidates_def)
    qed
  qed
qed

lemma looks_uniqueSlug:
  assumes "base = [] \<or> validSlug base"
  shows "looks d (uniqueSlug base (check_slug ex)) (\<lambda>res. \<forall>s. res = Inr s \<longrightarrow> \<not> slug_taken d ex s \<and> validSlug s)"
proof -
  let ?b = "if base = [] then ''job'' else base"
  have "validSlug ''job''" by (simp add: validSlug_def slug_char_def)
  then have "validSlug ?b" using assms by auto
  then have "\<forall>s\<in>set (slug_candidates ?b slug_numbers ?b). validSlug s"
    using slug_numbers(3) by (intro slug_candidates_valid)
  then show ?thesis
    unfolding uniqueSlug_def Let_def by (intro looks_conseq [OF looks_unique_loop]) blast
qed

definition except_id :: "Job option \<Rightarrow> string" where
  "except_id existing = (case existing of None \<Rightarrow> [] | Some j \<Rightarrow> job_ID j)"

lemma looks_check_job_slug:
  assumes "\<And>old. ve = Map.empty \<Longrightarrow> existing = Some old \<Longrightarrow> job_Slug job = job_Slug old \<and> validSlug (job_Slug old)"
  shows "looks d (check_job_slug req existing (job, ve)) (\<lambda>res. \<forall>job' ve'. res = Inr (job', ve') \<longrightarrow> ve' = Map.empty \<longrightarrow>
     ve = Map.empty \<and> (\<exists>slug. job' = job\<lparr>job_Slug := slug\<rparr> \<and> validSlug slug
       \<and> (\<not> slug_taken d (except_id existing) slug \<or> existing \<noteq> None \<and> slug = job_Slug job)))"
  unfolding check_job_slug_def prod.case Let_def except_id_def [symmetric]
proof (intro looks_if looks_bind [OF looks_check_slug] looks_bind [OF looks_uniqueSlug] looks_orstop looks_return
    allI impI, goal_cases)
  case (3 r taken job' ve')
  then show ?case by (auto simp: field_if_empty)
next
  case 4
  then show ?case using slugify_valid_or_empty by blast
next
  case (5 r job' ve')
  then show ?case by (auto split: sum.splits)
next
  case (6 job' ve')
  then obtain old where old: "existing = Some old" by (auto split: option.splits)
  have "job\<lparr>job_Slug := job_Slug job\<rparr> = job" by (cases job) simp
  with 6 old assms [OF _ old] show ?case by (intro conjI exI [of _ "job_Slug job"]) simp_all
qed (auto simp: field_if_empty)

lemma unknown_events_empty: "unknown_events name evs ve = Map.empty \<longleftrightarrow> set evs \<subseteq> set AllEvents \<and> ve = Map.empty"
  by (induction evs arbitrary: ve) (auto simp: field_if_empty simp del: fun_upd_apply)


text \<open>What the parts without look-ups contribute.\<close>

definition packed_ok :: "Job \<Rightarrow> bool" where
  "packed_ok j \<longleftrightarrow> job_Compression j \<in> {CompressionNone, CompressionGzip, CompressionZstd}
     \<and> 0 \<le> job_CompressionLevel j \<and> job_CompressionLevel j \<le> 19 \<and> job_Encryption j \<in> {EncryptionNone, EncryptionAge}"

lemma packing_part_ok:
  assumes "packing_part req (job, ve) = (job', ve')" and "ve' = Map.empty"
  shows "ve = Map.empty" and "packed_ok job'" and "\<exists>c e l. job' = job\<lparr>job_Compression := c, job_Encryption := e, job_CompressionLevel := l\<rparr>"
proof -
  have same: "job = job\<lparr>job_Compression := job_Compression job\<rparr>" "job = job\<lparr>job_Encryption := job_Encryption job\<rparr>" for job :: Job
    by (cases job, simp)+
  show "ve = Map.empty" "packed_ok job'"
    using assms by (auto simp: packing_part_def packed_ok_def Let_def field_if_empty split: Compression.splits Encryption.splits)
  have "\<exists>c e. job' = job\<lparr>job_Compression := c, job_Encryption := e, job_CompressionLevel := jq_CompressionLevel req\<rparr>"
    using assms by (auto simp: packing_part_def Let_def field_if_empty split: Compression.splits Encryption.splits)
  then show "\<exists>c e l. job' = job\<lparr>job_Compression := c, job_Encryption := e, job_CompressionLevel := l\<rparr>" by blast
qed

definition scheduled_ok :: "clockwork \<Rightarrow> Job \<Rightarrow> bool" where
  "scheduled_ok C j \<longleftrightarrow> (job_Schedule j = [] \<or> \<not> isl (ParseSchedule C (job_Schedule j)))
     \<and> (job_Timezone j = [] \<or> \<not> isl (LoadLocation C (job_Timezone j)))"

lemma schedule_part_ok:
  assumes "schedule_part S req (job, ve) = (job', ve')" and "ve' = Map.empty"
  shows "ve = Map.empty" and "scheduled_ok (sv_clockwork S) job'"
    and "\<exists>a z. job' = job\<lparr>job_Schedule := a, job_Timezone := z\<rparr>"
  using assms by (auto simp: schedule_part_def scheduled_ok_def Let_def field_if_empty)

definition numbers_ok :: "Job \<Rightarrow> bool" where
  "numbers_ok j \<longleftrightarrow> 0 \<le> job_TimeoutMinutes j \<and> 0 \<le> job_Retries j \<and> job_Retries j \<le> 20
     \<and> 0 \<le> job_RetryDelaySeconds j \<and> 0 \<le> job_ExpectedIntervalMinutes j"

lemma numbers_part_ok:
  assumes "numbers_part req existing (job, ve) = (job', ve')" and "ve' = Map.empty"
  shows "ve = Map.empty" and "numbers_ok job'"
    and "\<exists>t n dl ex pre post v tags en. job' = job\<lparr>job_TimeoutMinutes := t, job_Retries := n, job_RetryDelaySeconds := dl,
           job_ExpectedIntervalMinutes := ex, job_PreCommand := pre, job_PostCommand := post, job_VerifyAfterUpload := v,
           job_Tags := tags, job_Enabled := en\<rparr>"
proof -
  show "ve = Map.empty" "numbers_ok job'"
    using assms by (auto simp: numbers_part_def numbers_ok_def field_if_empty)
  have "job' = fst (numbers_part req existing (job, ve))" by (simp add: assms(1))
  then show "\<exists>t n dl ex pre post v tags en. job' = job\<lparr>job_TimeoutMinutes := t, job_Retries := n, job_RetryDelaySeconds := dl,
           job_ExpectedIntervalMinutes := ex, job_PreCommand := pre, job_PostCommand := post, job_VerifyAfterUpload := v,
           job_Tags := tags, job_Enabled := en\<rparr>"
    unfolding numbers_part_def prod.case fst_conv by (intro exI)
qed

lemma job_ok_parts:
  "job_ok C j \<longleftrightarrow> job_Name j \<noteq> [] \<and> validSlug (job_Slug j) \<and> job_DestinationIDs j \<noteq> [] \<and> distinct (job_DestinationIDs j)
     \<and> scheduled_ok C j \<and> packed_ok j \<and> (job_Encryption j = EncryptionAge \<longleftrightarrow> job_EncryptionPassphrase j \<noteq> [])
     \<and> (job_EncryptionPassphrase j = [] \<or> IsEncrypted (job_EncryptionPassphrase j))
     \<and> \<not> negative_retention (job_Retention j) \<and> set (job_NotifyOn j) \<subseteq> set AllEvents \<and> numbers_ok j"
  by (auto simp: job_ok_def scheduled_ok_def packed_ok_def numbers_ok_def)


text \<open>The checks together.\<close>

definition accepted :: "clockwork \<Rightarrow> db \<Rightarrow> Job option \<Rightarrow> Job \<Rightarrow> bool" where
  "accepted C d existing job \<longleftrightarrow> job_ok C job \<and> references_ok d job
     \<and> job_ID job = except_id existing
     \<and> (\<not> slug_taken d (except_id existing) (job_Slug job) \<or> (\<exists>old. existing = Some old \<and> job_Slug job = job_Slug old))"

definition previous_ok :: "Job option \<Rightarrow> bool" where
  "previous_ok existing = (case existing of None \<Rightarrow> True | Some old \<Rightarrow> validSlug (job_Slug old)
     \<and> (job_EncryptionPassphrase old = [] \<or> IsEncrypted (job_EncryptionPassphrase old)))"

lemma start_job_fields:
  "start_job req existing = (job, ve) \<Longrightarrow> job_ID job = except_id existing \<and> (ve = Map.empty \<longrightarrow> job_Name job \<noteq> [])
     \<and> (\<forall>old. existing = Some old \<longrightarrow> job_Slug job = job_Slug old \<and> job_EncryptionPassphrase job = job_EncryptionPassphrase old)"
  by (auto simp: start_job_def except_id_def zero_job_def field_if_empty no_fields_def split: option.splits)

definition ready :: "clockwork \<Rightarrow> db \<Rightarrow> Job option \<Rightarrow> Job \<Rightarrow> bool" where
  "ready C d existing j \<longleftrightarrow> job_Name j \<noteq> [] \<and> job_DestinationIDs j \<noteq> [] \<and> distinct (job_DestinationIDs j)
     \<and> scheduled_ok C j \<and> packed_ok j \<and> (job_Encryption j = EncryptionAge \<longleftrightarrow> job_EncryptionPassphrase j \<noteq> [])
     \<and> (job_EncryptionPassphrase j = [] \<or> IsEncrypted (job_EncryptionPassphrase j))
     \<and> job_SourceID j \<in> src_ID ` set (t_sources d) \<and> set (job_DestinationIDs j) \<subseteq> dst_ID ` set (t_destinations d)
     \<and> job_ID j = except_id existing
     \<and> (\<forall>old. existing = Some old \<longrightarrow> job_Slug j = job_Slug old \<and> validSlug (job_Slug old))"

lemma looks_finish_job:
  assumes "ve = Map.empty \<Longrightarrow> ready C d existing job"
  shows "looks d
    (proceed (check_channels (jq_NotificationChannelIDs req)
       (unknown_events ''notifyOn'' (jq_NotifyOn req)
         (field_if (negative_retention (jq_Retention req)) ''retention'' ''values must not be negative'' ve))) (\<lambda>ve4.
     proceed (check_job_slug req existing (numbers_part req existing
       (job\<lparr>job_Retention := jq_Retention req, job_NotifyOn := jq_NotifyOn req,
          job_NotificationChannelIDs := jq_NotificationChannelIDs req\<rparr>, ve4))) (\<lambda>(job5, ve5).
     return (case checked ''invalid job'' ve5 of Some f \<Rightarrow> Inl f | None \<Rightarrow> Inr job5))))
    (\<lambda>res. \<forall>job'. res = Inr job' \<longrightarrow> accepted C d existing job')"
proof (rule looks_proceed [OF looks_check_channels], simp, goal_cases)
  case (1 ve4)
  let ?job4 = "job\<lparr>job_Retention := jq_Retention req, job_NotifyOn := jq_NotifyOn req,
          job_NotificationChannelIDs := jq_NotificationChannelIDs req\<rparr>"
  obtain job5 ve5 where nums: "numbers_part req existing (?job4, ve4) = (job5, ve5)" by fastforce
  have job5: "ready C d existing job5 \<and> numbers_ok job5 \<and> job_Retention job5 = jq_Retention req \<and> job_NotifyOn job5 = jq_NotifyOn req
      \<and> job_NotificationChannelIDs job5 = jq_NotificationChannelIDs req \<and> \<not> negative_retention (jq_Retention req)
      \<and> set (jq_NotifyOn req) \<subseteq> set AllEvents \<and> set (jq_NotificationChannelIDs req) \<subseteq> chn_ID ` set (t_channels d)"
    if "ve5 = Map.empty"
  proof -
    note n = numbers_part_ok [OF nums that]
    from n(1) 1 have ve: "ve = Map.empty" and facts: "set (jq_NotifyOn req) \<subseteq> set AllEvents" "\<not> negative_retention (jq_Retention req)"
        "set (jq_NotificationChannelIDs req) \<subseteq> chn_ID ` set (t_channels d)"
      by (auto simp: unknown_events_empty field_if_empty)
    have "ready C d existing job5"
      using assms [OF ve] n(3) by (elim exE) (auto simp: ready_def scheduled_ok_def packed_ok_def)
    with facts n(2,3) show ?thesis by (elim exE) simp
  qed
  show ?case
    unfolding nums
  proof (rule looks_proceed [OF looks_check_job_slug], goal_cases)
    case 1
    then show ?case using job5 by (auto simp: ready_def)
  next
    case (3 x)
    obtain job6 ve6 where x: "x = (job6, ve6)" by fastforce
    show ?case
      unfolding x prod.case
    proof (intro looks_return allI impI)
      fix job' assume "(case checked ''invalid job'' ve6 of None \<Rightarrow> Inr job6 | Some f \<Rightarrow> Inl f) = Inr job'"
      then have ve6: "ve6 = Map.empty" and j: "job' = job6" by (auto simp: checked_def split: if_splits)
      with 3 x obtain slug where "ve5 = Map.empty" "job6 = job5\<lparr>job_Slug := slug\<rparr>" "validSlug slug"
          "\<not> slug_taken d (except_id existing) slug \<or> existing \<noteq> None \<and> slug = job_Slug job5" by auto
      with job5 show "accepted C d existing job'"
        by (auto simp: j accepted_def job_ok_parts references_ok_def ready_def scheduled_ok_def packed_ok_def numbers_ok_def)
    qed
  qed simp
qed


definition named :: "db \<Rightarrow> Job option \<Rightarrow> Job \<Rightarrow> bool" where
  "named d existing j \<longleftrightarrow> job_Name j \<noteq> [] \<and> job_DestinationIDs j \<noteq> [] \<and> distinct (job_DestinationIDs j)
     \<and> job_SourceID j \<in> src_ID ` set (t_sources d) \<and> set (job_DestinationIDs j) \<subseteq> dst_ID ` set (t_destinations d)
     \<and> job_ID j = except_id existing
     \<and> (\<forall>old. existing = Some old \<longrightarrow> job_Slug j = job_Slug old \<and> validSlug (job_Slug old)
          \<and> (job_EncryptionPassphrase j = [] \<or> IsEncrypted (job_EncryptionPassphrase j)))"

lemma looks_packing:
  assumes "ve = Map.empty \<Longrightarrow> named d existing job"
    and "\<And>job' ve'. (ve' = Map.empty \<Longrightarrow> ready (sv_clockwork S) d existing job') \<Longrightarrow> looks d (k (job', ve')) Q"
    and "\<And>f. Q (Inl f)"
  shows "looks d (proceed (check_passphrase S req existing (packing_part req (schedule_part S req (job, ve)))) k) Q"
proof -
  obtain job2 ve2 where sched: "schedule_part S req (job, ve) = (job2, ve2)" by fastforce
  obtain job3 ve3 where pack: "packing_part req (job2, ve2) = (job3, ve3)" by fastforce
  have job3: "named d existing job3 \<and> scheduled_ok (sv_clockwork S) job3 \<and> packed_ok job3" if "ve3 = Map.empty"
  proof -
    note p = packing_part_ok [OF pack that]
    note q = schedule_part_ok [OF sched p(1)]
    have "named d existing job2" using assms(1) [OF q(1)] q(3) by (elim exE) (auto simp: named_def)
    with p q(2) show ?thesis by (elim exE) (auto simp: named_def scheduled_ok_def)
  qed
  show ?thesis
    unfolding sched pack
  proof (rule looks_proceed [OF looks_check_passphrase], goal_cases)
    case 1
    then show ?case using job3 by (auto simp: named_def)
  next
    case 2
    then show ?case using job3 by (auto simp: packed_ok_def)
  next
    case (4 x)
    obtain job4 ve4 where x: "x = (job4, ve4)" by fastforce
    show ?case
      unfolding x
    proof (rule assms(2))
      assume "ve4 = Map.empty"
      with 4 x obtain pw where "ve3 = Map.empty" "job4 = job3\<lparr>job_EncryptionPassphrase := pw\<rparr>" "pw = [] \<or> IsEncrypted pw"
          "job_Encryption job3 = EncryptionAge \<longleftrightarrow> pw \<noteq> []" by auto
      with job3 show "ready (sv_clockwork S) d existing job4"
        by (auto simp: ready_def named_def scheduled_ok_def packed_ok_def)
    qed
  qed (rule assms(3))
qed

lemma looks_validateJob:
  assumes "previous_ok existing"
  shows "looks d (validateJob S req existing) (\<lambda>res. \<forall>job. res = Inr job \<longrightarrow> accepted (sv_clockwork S) d existing job)"
proof -
  obtain job0 ve0 where start: "start_job req existing = (job0, ve0)" by fastforce
  note s0 = start_job_fields [OF start]
  show ?thesis
    unfolding validateJob_def start
  proof (rule looks_proceed [OF looks_check_source], simp, goal_cases)
    case (1 x)
    obtain job1 ve1 where x: "x = (job1, ve1)" by fastforce
    have job1: "ve0 = Map.empty \<and> job_SourceID job1 \<in> src_ID ` set (t_sources d) \<and> job1 = job0\<lparr>job_SourceID := job_SourceID job1\<rparr>"
      if "ve1 = Map.empty" using 1 x that by auto
    show ?case
      unfolding x prod.case
    proof (rule looks_proceed [OF looks_check_destinations], simp, simp, simp, goal_cases)
      case (1 y)
      note found = this
      obtain ids ve2 where y: "y = (ids, ve2)" by fastforce
      show ?case
        unfolding y prod.case
      proof (rule looks_packing, goal_cases)
        case 1
        with found y have ids: "ve1 = Map.empty" "jq_DestinationIDs req \<noteq> []" "distinct ids" "set ids = set (jq_DestinationIDs req)"
            "set (jq_DestinationIDs req) \<subseteq> dst_ID ` set (t_destinations d)" by (auto simp: field_if_empty)
        obtain sid where j: "ve0 = Map.empty" "sid \<in> src_ID ` set (t_sources d)" "job1 = job0\<lparr>job_SourceID := sid\<rparr>"
          using job1 [OF ids(1)] by blast
        have "ids \<noteq> []" using ids by (metis set_empty)
        then show ?case using s0 ids j assms by (auto simp: named_def previous_ok_def)
      next
        case (2 job' ve')
        then show ?case unfolding prod.case by (rule looks_finish_job)
      qed simp
    qed
  qed
qed

end
