(* ===== verification/Server_Accounts.thy ===== *)
theory Server_Accounts
  imports Auth_Manager
begin

text \<open>
  The handlers of package \<open>internal/server\<close> for setup, login, users and tokens (auth_handlers.go,
  users.go, tokens.go). A handler takes the request, the principal the middleware found and the
  decoded body.
\<close>

section \<open>Setup, login, logout\<close>

record setupRequest =
  su_Name :: string
  su_Email :: string
  su_Password :: string

record loginRequest =
  li_Email :: string
  li_Password :: string

record cookie =
  ck_Value :: string
  ck_MaxAge :: int
  ck_Secure :: bool

fun Role_str :: "UserRole \<Rightarrow> string" where
  "Role_str RoleAdmin = ''admin''"
| "Role_str RoleViewer = ''viewer''"
| "Role_str (RoleOther s) = s"

definition password_message :: "string \<Rightarrow> string" where
  "password_message pw = (case ValidatePassword pw of None \<Rightarrow> [] | Some e \<Rightarrow> Error e)"

definition secureCookies :: "site \<Rightarrow> bool web_op" where
  "secureCookies S =
     (if HasPrefix (sv_BaseURL S) ''https://'' then return True
      else do {
        r \<leftarrow> lookup Settings_Get;
        return (case r of
                  (st, Some e) \<Rightarrow> False
                | (st, None) \<Rightarrow> HasPrefix (set_BaseURL st) ''https://'') })"

text \<open>\<open>startSession\<close>: an error while the login time is recorded is only logged.\<close>

definition startSession :: "site \<Rightarrow> request \<Rightarrow> User \<Rightarrow> cookie result web_op" where
  "startSession S r u = do {
     made \<leftarrow> CreateSession (sv_sha S) (usr_ID u) (hr_ClientIP r) (hr_UserAgent r);
     (case made of
        Inl e \<Rightarrow> return (Inl e)
      | Inr (secret, expires) \<Rightarrow> do {
          now \<leftarrow> time_Now;
          _ \<leftarrow> sql (\<lambda>flt. Users_TouchLogin flt (usr_ID u) now);
          now2 \<leftarrow> time_Now;
          secure \<leftarrow> secureCookies S;
          return (Inr \<lparr>ck_Value = secret, ck_MaxAge = quot (Sub expires now2) Second, ck_Secure = secure\<rparr>) }) }"

definition setup_fields :: "setupRequest \<Rightarrow> fields" where
  "setup_fields req =
     field_if (ValidatePassword (su_Password req) \<noteq> None) ''password'' (password_message (su_Password req))
       (field_if (TrimSpace (su_Name req) = []) ''name'' ''required''
         (field_if (TrimSpace (su_Email req) = []) ''email'' ''required'' no_fields))"

definition handleSetupStatus :: "bool reply web_op" where
  "handleSetupStatus = do { needs \<leftarrow> NeedsSetup; orfail needs (\<lambda>b. return (Reply 200 b)) }"

definition handleSetup :: "site \<Rightarrow> request \<Rightarrow> setupRequest body \<Rightarrow> (User \<times> cookie) reply web_op" where
  "handleSetup S r b = do {
     needs \<leftarrow> NeedsSetup;
     orfail needs (\<lambda>needed.
       if \<not> needed then return (writeError 409 codeConflict ''setup has already been completed'')
       else orinvalid (decodeBody b) (\<lambda>req.
         unless_fields ''invalid setup request'' (setup_fields req) (do {
           ruser \<leftarrow> CreateUser (sv_kdf S)
             (zero_user\<lparr>usr_Email := su_Email req, usr_Name := su_Name req, usr_Role := RoleAdmin\<rparr>) (su_Password req);
           orfail ruser (\<lambda>u. do {
             started \<leftarrow> startSession S r u;
             orfail started (\<lambda>ck. do {
               audit r (Some ((session_principal u [])\<lparr>pr_Scopes := []\<rparr>)) ''user.create'' ''user'' (usr_ID u) (usr_Email u)
                 [''role'' \<mapsto> VString (Role_str (usr_Role u)), ''setup'' \<mapsto> VBool True];
               return (Reply 201 (u, ck)) }) }) }))) }"

definition allow_login :: "string \<Rightarrow> bool web_op" where
  "allow_login ip = do {
     now \<leftarrow> time_Now;
     State (\<lambda>w. case Allow ip now (web_limiter w) of (ok, l) \<Rightarrow> (ok, w\<lparr>web_limiter := l\<rparr>)) }"

definition handleLogin :: "site \<Rightarrow> request \<Rightarrow> loginRequest body \<Rightarrow> (User \<times> cookie) reply web_op" where
  "handleLogin S r b = do {
     ok \<leftarrow> allow_login (hr_ClientIP r);
     if \<not> ok then return (writeError 429 ''rate_limited'' ''too many login attempts, try again in a minute'')
     else orinvalid (decodeBody b) (\<lambda>req. do {
       ruser \<leftarrow> Login (sv_kdf S) (li_Email req) (li_Password req);
       (case ruser of
          Inl e \<Rightarrow>
            if errIs e ErrInvalidCredentials
            then return (writeError 401 codeUnauthenticated ''invalid email or password'')
            else return (fail (Failed e))
        | Inr u \<Rightarrow> do {
            modify (\<lambda>w. w\<lparr>web_limiter := Reset (hr_ClientIP r) (web_limiter w)\<rparr>);
            started \<leftarrow> startSession S r u;
            orfail started (\<lambda>ck. return (Reply 200 (u, ck))) }) }) }"

definition cleared_cookie :: "bool \<Rightarrow> cookie" where
  "cleared_cookie secure = \<lparr>ck_Value = [], ck_MaxAge = - 1, ck_Secure = secure\<rparr>"

definition handleLogout :: "site \<Rightarrow> request \<Rightarrow> cookie reply web_op" where
  "handleLogout S r = do {
     err \<leftarrow> (case hr_Cookie r of
              None \<Rightarrow> return None
            | Some c \<Rightarrow> if c = [] then return None else DestroySession (sv_sha S) c);
     if err \<noteq> None \<and> \<not> errIs (the err) ErrNotFound then return (fail (Failed (the err)))
     else do {
       secure \<leftarrow> secureCookies S;
       return (Reply 204 (cleared_cookie secure)) } }"

section \<open>Users\<close>

record userRequest =
  uq_Email :: string
  uq_Name :: string
  uq_Role :: UserRole
  uq_Password :: string

record passwordRequest =
  pq_Current :: string
  pq_New :: string

definition validateRole :: "UserRole \<Rightarrow> UserRole option" where
  "validateRole role =
     (case role of
        RoleAdmin \<Rightarrow> Some RoleAdmin
      | RoleViewer \<Rightarrow> Some RoleViewer
      | RoleOther s \<Rightarrow> if s = [] then Some RoleViewer else None)"

definition role_or_none :: "UserRole option \<Rightarrow> UserRole" where
  "role_or_none r = (case r of None \<Rightarrow> RoleOther [] | Some x \<Rightarrow> x)"

definition handleListUsers :: "(User list \<times> nat) reply web_op" where
  "handleListUsers = do { r \<leftarrow> lookup Users_List; orfail r (\<lambda>items. return (Reply 200 (items, length items))) }"

definition handleGetUser :: "string \<Rightarrow> User reply web_op" where
  "handleGetUser rid = do { r \<leftarrow> lookup (\<lambda>flt. Users_Get flt rid); orfail r (\<lambda>rec. return (Reply 200 (ur_User rec))) }"

definition create_user_fields :: "userRequest \<Rightarrow> fields" where
  "create_user_fields req =
     field_if (validateRole (uq_Role req) = None) ''role'' ''must be admin or viewer''
       (field_if (ValidatePassword (uq_Password req) \<noteq> None) ''password'' (password_message (uq_Password req))
         (field_if (TrimSpace (uq_Email req) = []) ''email'' ''required'' no_fields))"

definition handleCreateUser :: "site \<Rightarrow> request \<Rightarrow> Principal option \<Rightarrow> userRequest body \<Rightarrow> User reply web_op" where
  "handleCreateUser S r p b =
     orinvalid (decodeBody b) (\<lambda>req.
       unless_fields ''invalid user'' (create_user_fields req) (do {
         ruser \<leftarrow> CreateUser (sv_kdf S)
           (zero_user\<lparr>usr_Email := uq_Email req, usr_Name := uq_Name req,
              usr_Role := role_or_none (validateRole (uq_Role req))\<rparr>) (uq_Password req);
         orfail ruser (\<lambda>u. do {
           audit r p ''user.create'' ''user'' (usr_ID u) (usr_Email u) [''role'' \<mapsto> VString (Role_str (usr_Role u))];
           return (Reply 201 u) }) }))"

text \<open>The check that an administrator remains. The first component is the answer that ends the
  handler.\<close>

definition last_admin :: "bool \<Rightarrow> string \<Rightarrow> ('b reply option) web_op" where
  "last_admin leaves message =
     (if \<not> leaves then return None
      else do {
        r \<leftarrow> lookup Users_CountAdmins;
        return (case r of
                  Inl e \<Rightarrow> Some (fail (Failed e))
                | Inr admins \<Rightarrow> if admins \<le> 1 then Some (writeError 409 codeConflict message) else None) })"

definition update_user_fields :: "userRequest \<Rightarrow> fields" where
  "update_user_fields req =
     field_if (validateRole (uq_Role req) = None) ''role'' ''must be admin or viewer''
       (field_if (TrimSpace (uq_Email req) = []) ''email'' ''required'' no_fields)"

definition handleUpdateUser :: "request \<Rightarrow> Principal option \<Rightarrow> string \<Rightarrow> userRequest body \<Rightarrow> User reply web_op" where
  "handleUpdateUser r p rid b = do {
     found \<leftarrow> lookup (\<lambda>flt. Users_Get flt rid);
     orfail found (\<lambda>rec.
       orinvalid (decodeBody b) (\<lambda>req.
         unless_fields ''invalid user'' (update_user_fields req) (do {
           let role = role_or_none (validateRole (uq_Role req));
           stop \<leftarrow> last_admin (ur_Role rec = RoleAdmin \<and> role \<noteq> RoleAdmin) ''the last administrator cannot be demoted'';
           (case stop of
              Some answer \<Rightarrow> return answer
            | None \<Rightarrow> do {
                let u = (ur_User rec)\<lparr>usr_Email := uq_Email req, usr_Name := uq_Name req, usr_Role := role\<rparr>;
                err \<leftarrow> sql (\<lambda>flt. Users_Update flt u);
                unless_err err (do {
                  audit r p ''user.update'' ''user'' (usr_ID u) (usr_Email u) [''role'' \<mapsto> VString (Role_str role)];
                  return (Reply 200 u) }) }) }))) }"

definition handleDeleteUser :: "request \<Rightarrow> Principal option \<Rightarrow> string \<Rightarrow> unit reply web_op" where
  "handleDeleteUser r p rid = do {
     found \<leftarrow> lookup (\<lambda>flt. Users_Get flt rid);
     orfail found (\<lambda>rec. do {
       stop \<leftarrow> last_admin (ur_Role rec = RoleAdmin) ''the last administrator cannot be deleted'';
       (case stop of
          Some answer \<Rightarrow> return answer
        | None \<Rightarrow> do {
            err \<leftarrow> sql (\<lambda>flt. Users_Delete flt (ur_ID rec));
            unless_err err (do {
              audit r p ''user.delete'' ''user'' (ur_ID rec) (ur_Email rec) Map.empty;
              return (Reply 204 ()) }) }) }) }"

text \<open>The route requires authentication, so there is a principal.\<close>

definition handleChangePassword ::
  "site \<Rightarrow> request \<Rightarrow> Principal option \<Rightarrow> string \<Rightarrow> passwordRequest body \<Rightarrow> unit reply web_op" where
  "handleChangePassword S r p rid b =
     (let self = (case p of None \<Rightarrow> False | Some pr \<Rightarrow> (case pr_User pr of None \<Rightarrow> False | Some u \<Rightarrow> usr_ID u = rid)) in
      if \<not> self \<and> \<not> IsAdmin p
      then return (writeError 403 codeForbidden ''only administrators can change another user's password'')
      else do {
        found \<leftarrow> lookup (\<lambda>flt. Users_Get flt rid);
        orfail found (\<lambda>rec.
          orinvalid (decodeBody b) (\<lambda>req.
            if ValidatePassword (pq_New req) \<noteq> None
            then return (fail (Invalid ''invalid password'' [''newPassword'' \<mapsto> password_message (pq_New req)]))
            else (case (if self then VerifyPassword (sv_kdf S) (ur_PasswordHash rec) (pq_Current req) else Inr True) of
                    Inl e \<Rightarrow>
                      return (fail (if errIs e ErrInvalidHash
                                    then Invalid ''invalid password'' [''currentPassword'' \<mapsto> ''does not match'']
                                    else Failed e))
                  | Inr False \<Rightarrow> return (fail (Invalid ''invalid password'' [''currentPassword'' \<mapsto> ''does not match'']))
                  | Inr True \<Rightarrow> do {
                      err \<leftarrow> SetPassword (sv_kdf S) (ur_ID rec) (pq_New req);
                      unless_err err (do {
                        err2 \<leftarrow> sql (\<lambda>flt. Sessions_DeleteForUser flt (ur_ID rec));
                        if err2 \<noteq> None \<and> \<not> errIs (the err2) ErrNotFound then return (fail (Failed (the err2)))
                        else do {
                          audit r p ''user.password'' ''user'' (ur_ID rec) (ur_Email rec) Map.empty;
                          return (Reply 204 ()) } }) }))) })"

section \<open>Tokens\<close>

record tokenRequest =
  tq_Name :: string
  tq_Scopes :: "string list"
  tq_JobSlugs :: "string list"
  tq_ExpiresAt :: "time option"

definition handleListTokens :: "(APIToken list \<times> nat) reply web_op" where
  "handleListTokens = do { r \<leftarrow> lookup Tokens_List; orfail r (\<lambda>items. return (Reply 200 (items, length items))) }"

fun unknown_jobs :: "string list \<Rightarrow> fields \<Rightarrow> fields web_op" where
  "unknown_jobs [] ve = return ve"
| "unknown_jobs (slug # slugs) ve = do {
     flt_join \<leftarrow> next_fault;
     r \<leftarrow> lookup (\<lambda>flt. Jobs_GetBySlug flt flt_join slug);
     unknown_jobs slugs (field_if (isl r) ''jobSlugs'' (''unknown job: '' @ slug) ve) }"

definition token_fields :: "tokenRequest \<Rightarrow> time \<Rightarrow> fields" where
  "token_fields req now =
     field_if (case tq_ExpiresAt req of None \<Rightarrow> False | Some t \<Rightarrow> t < now) ''expiresAt'' ''must be in the future''
       (field_if (ValidateScopes (tq_Scopes req) \<noteq> None) ''scopes''
          (case ValidateScopes (tq_Scopes req) of None \<Rightarrow> [] | Some e \<Rightarrow> Error e)
         (field_if (TrimSpace (tq_Name req) = []) ''name'' ''required'' no_fields))"

definition handleCreateToken ::
  "site \<Rightarrow> request \<Rightarrow> Principal option \<Rightarrow> tokenRequest body \<Rightarrow> (APIToken \<times> string) reply web_op" where
  "handleCreateToken S r p b =
     orinvalid (decodeBody b) (\<lambda>req. do {
       now \<leftarrow> (if tq_ExpiresAt req = None then return 0 else time_Now);
       ve \<leftarrow> unknown_jobs (tq_JobSlugs req) (token_fields req now);
       unless_fields ''invalid token'' ve (do {
         created \<leftarrow> CreateToken (sv_sha S)
           (zero_token\<lparr>tok_Name := TrimSpace (tq_Name req), tok_Scopes := tq_Scopes req,
              tok_JobSlugs := tq_JobSlugs req, tok_ExpiresAt := tq_ExpiresAt req, tok_CreatedBy := Principal_Label p\<rparr>);
         orfail created (\<lambda>(t, secret). do {
           audit r p ''token.create'' ''token'' (tok_ID t) (tok_Name t) [''scopes'' \<mapsto> VStrings (tok_Scopes t)];
           return (Reply 201 (t, secret)) }) }) })"

definition handleDeleteToken :: "request \<Rightarrow> Principal option \<Rightarrow> string \<Rightarrow> unit reply web_op" where
  "handleDeleteToken r p rid = do {
     found \<leftarrow> lookup (\<lambda>flt. Tokens_Get flt rid);
     orfail found (\<lambda>t. do {
       err \<leftarrow> sql (\<lambda>flt. Tokens_Delete flt (tok_ID t));
       unless_err err (do {
         audit r p ''token.delete'' ''token'' (tok_ID t) (tok_Name t) Map.empty;
         return (Reply 204 ()) }) }) }"

end
