(* ===== verification/Accounts_Props.thy ===== *)
theory Accounts_Props
  imports Server_Accounts
begin

text \<open>
  Properties of the accounts: an administrator always remains, a login needs the password, setup is
  closed once there is a user, and revoked access stays revoked.
\<close>

section \<open>Administrators\<close>

definition admins :: "db \<Rightarrow> nat" where
  "admins d = count_rows (\<lambda>r. ur_Role r = RoleAdmin) (t_users d)"

definition administered :: "db \<Rightarrow> bool" where
  "administered d \<longleftrightarrow> accounts_ok d \<and> 0 < admins d"

lemma admins_audit [simp]: "admins (d\<lparr>t_audit := rows\<rparr>) = admins d"
  by (simp add: admins_def)

lemma accounts_audit [simp]: "accounts_ok (d\<lparr>t_audit := rows\<rparr>) = accounts_ok d"
  by (simp add: accounts_ok_def)

lemma administered_audit [simp]: "administered (d\<lparr>t_audit := rows\<rparr>) = administered d"
  by (simp add: administered_def)

lemma count_rows_pos: "0 < count_rows P rows \<longleftrightarrow> (\<exists>r\<in>set rows. P r)"
  by (auto simp: count_rows_def filter_empty_conv)

text \<open>With two administrators there is another one than any given user.\<close>

lemma another_admin:
  assumes "distinct (map ur_ID rows)" and "2 \<le> count_rows (\<lambda>r. ur_Role r = RoleAdmin) rows"
  shows "\<exists>r\<in>set rows. ur_Role r = RoleAdmin \<and> ur_ID r \<noteq> rid"
proof (rule ccontr)
  assume none: "\<not> ?thesis"
  let ?as = "filter (\<lambda>r. ur_Role r = RoleAdmin) rows"
  have "ur_ID ` set ?as \<subseteq> {rid}" using none by auto
  then have "card (ur_ID ` set ?as) \<le> 1" using card_mono [of "{rid}" "ur_ID ` set ?as"] by simp
  moreover have "card (ur_ID ` set ?as) = length ?as"
    using distinct_map_filter' [OF assms(1)] distinct_card [of "map ur_ID ?as"] by simp
  ultimately show False using assms(2) by (simp add: count_rows_def)
qed

lemma Users_Update_admins:
  assumes "administered d" and "usr_Role u \<noteq> RoleAdmin \<longrightarrow> (\<exists>r\<in>set (t_users d). ur_Role r = RoleAdmin \<and> ur_ID r \<noteq> usr_ID u)"
    and "Users_Update flt u d = (x, d')"
  shows "administered d'"
proof -
  have ok: "accounts_ok d'" using assms(1,3) Users_Update_ok [of d flt u] by (simp add: administered_def)
  obtain r where r: "r \<in> set (t_users d)" "ur_Role r = RoleAdmin" "usr_Role u \<noteq> RoleAdmin \<longrightarrow> ur_ID r \<noteq> usr_ID u"
    using assms(1,2) by (auto simp: administered_def admins_def count_rows_pos)
  let ?r = "if ur_ID r = usr_ID u then set_user (usr_assign u) r else r"
  have "t_users d' = t_users d \<or> t_users d' = update_rows (\<lambda>x. ur_ID x = usr_ID u) (set_user (usr_assign u)) (t_users d)"
    using assms(3) by (auto simp: Users_Update_def update_unique_def split: option.splits if_splits)
  then have "\<exists>y\<in>set (t_users d'). ur_Role y = RoleAdmin"
  proof
    assume eq: "t_users d' = update_rows (\<lambda>x. ur_ID x = usr_ID u) (set_user (usr_assign u)) (t_users d)"
    have "?r \<in> set (t_users d')" using r(1) by (auto simp: eq update_rows_def)
    moreover have "ur_Role ?r = RoleAdmin" using r(2,3) by (auto simp: set_user_def usr_assign_def)
    ultimately show ?thesis by blast
  qed (use r in auto)
  with ok show ?thesis by (simp add: administered_def admins_def count_rows_pos)
qed

lemma Users_Delete_admins:
  assumes "administered d" and "\<exists>r\<in>set (t_users d). ur_Role r = RoleAdmin \<and> ur_ID r \<noteq> rid"
    and "Users_Delete flt rid d = (x, d')"
  shows "administered d'"
proof -
  have "accounts_ok d'" using assms(1,3) Users_Delete_ok [of d flt rid] by (simp add: administered_def)
  moreover have "\<exists>y\<in>set (t_users d'). ur_Role y = RoleAdmin"
    using assms(2,3) by (auto simp: Users_Delete_def delete_row_def split: option.splits)
  ultimately show ?thesis by (simp add: administered_def admins_def count_rows_pos)
qed

definition refusal :: "'a reply \<Rightarrow> bool" where
  "refusal answer = (case answer of Reply st x \<Rightarrow> False | Refuse st c m f \<Rightarrow> True)"

lemma refusal_fail: "refusal (fail f)" "refusal (writeError st c m)" "\<not> refusal (Reply st x)"
  by (auto simp: refusal_def fail_def writeError_def split: failure.split)

lemma after_last_admin:
  "after P (last_admin leaves msg) (\<lambda>stop d. P d \<and> (stop = None \<and> leaves \<longrightarrow> 2 \<le> admins d)
     \<and> (\<forall>answer. stop = Some answer \<longrightarrow> refusal answer))"
  unfolding last_admin_def
  by (intro after_steps after_return) (auto simp: refusal_fail Users_CountAdmins_def admins_def split: option.splits sum.splits if_splits)

lemma found_user:
  assumes "Users_Get flt rid d = Inr rec"
  shows "rec \<in> set (t_users d)" and "ur_ID rec = rid" and "find_row ur_ID rid (t_users d) = Some rec"
  using assms find_row_Some [of ur_ID rid "t_users d" rec]
  by (auto simp: Users_Get_def user_found_def split: option.splits)

lemma other_admin:
  assumes "administered d" and "rec \<in> set (t_users d)" and "ur_Role rec = RoleAdmin \<longrightarrow> 2 \<le> admins d"
  shows "\<exists>r\<in>set (t_users d). ur_Role r = RoleAdmin \<and> ur_ID r \<noteq> ur_ID rec"
proof (cases "ur_Role rec = RoleAdmin")
  case True
  with assms show ?thesis
    by (intro another_admin) (auto simp: administered_def accounts_ok_def unique_rows_def admins_def)
next
  case False
  obtain r where r: "r \<in> set (t_users d)" "ur_Role r = RoleAdmin"
    using assms(1) by (auto simp: administered_def admins_def count_rows_pos)
  moreover have "ur_ID r \<noteq> ur_ID rec"
  proof
    assume eq: "ur_ID r = ur_ID rec"
    have "distinct (map ur_ID (t_users d))" using assms(1) by (simp add: administered_def accounts_ok_def unique_rows_def)
    with r(1) assms(2) eq have "r = rec" by (auto dest: inj_onD simp: distinct_map)
    with False r(2) show False by simp
  qed
  ultimately show ?thesis by blast
qed

lemma found_update:
  assumes "Users_Update flt2 u d = (x, d')" and "Users_Get flt rid d = Inr rec" and "administered d"
    and "ur_Role rec = RoleAdmin \<longrightarrow> usr_Role u \<noteq> RoleAdmin \<longrightarrow> 2 \<le> admins d" and "usr_ID u = ur_ID rec"
  shows "administered d'"
  using assms other_admin [of d rec] found_user [OF assms(2)] by (intro Users_Update_admins [OF assms(3) _ assms(1)]) auto

lemma found_delete:
  assumes "Users_Delete flt2 (ur_ID rec) d = (x, d')" and "Users_Get flt rid d = Inr rec" and "administered d"
    and "ur_Role rec = RoleAdmin \<longrightarrow> 2 \<le> admins d"
  shows "administered d'"
  using assms other_admin [of d rec] found_user [OF assms(2)] by (intro Users_Delete_admins [OF assms(3) _ assms(1)]) auto

lemma handleUpdateUser_admins: "after administered (handleUpdateUser r p rid b) (\<lambda>_. administered)"
  unfolding handleUpdateUser_def
  by (intro after_steps after_bind [OF after_last_admin] after_return)
     (elim exE conjE; simp; (erule (1) found_update; simp))+

lemma handleDeleteUser_admins: "after administered (handleDeleteUser r p rid) (\<lambda>_. administered)"
  unfolding handleDeleteUser_def
  by (intro after_steps after_bind [OF after_last_admin] after_return) 
     (elim exE conjE; simp; (erule (1) found_delete; simp))+

text \<open>The other statements on accounts add users, or keep the roles of the users stored.\<close>

lemma administered_statements:
  "administered d \<Longrightarrow> administered (snd (Users_Create flt nid now u h d))"
  "administered d \<Longrightarrow> administered (snd (Users_SetPassword flt rid h d))"
  "administered d \<Longrightarrow> administered (snd (Users_TouchLogin flt rid at d))"
  "administered d \<Longrightarrow> administered (snd (Sessions_Create flt x d))"
  "administered d \<Longrightarrow> administered (snd (Sessions_Delete flt rid d))"
  "administered d \<Longrightarrow> administered (snd (Sessions_Touch flt rid at ex d))"
  "administered d \<Longrightarrow> administered (snd (Sessions_DeleteForUser flt rid d))"
  "administered d \<Longrightarrow> administered (snd (Tokens_Create flt nid now t h d))"
  "administered d \<Longrightarrow> administered (snd (Tokens_Delete flt rid d))"
  "administered d \<Longrightarrow> administered (snd (Tokens_TouchUsed flt rid at d))"
proof -
  have upd: "0 < admins (d\<lparr>t_users := update_rows P f (t_users d)\<rparr>)" if ad: "0 < admins d" and role: "\<And>r. ur_Role (f r) = ur_Role r" for P f
  proof -
    obtain r where "r \<in> set (t_users d)" "ur_Role r = RoleAdmin" using ad unfolding admins_def count_rows_pos by blast
    then have "(if P r then f r else r) \<in> set (update_rows P f (t_users d))" "ur_Role (if P r then f r else r) = RoleAdmin"
      using role [of r] by (auto simp: update_rows_def)
    then show ?thesis unfolding admins_def count_rows_pos by auto
  qed
  show "administered d \<Longrightarrow> administered (snd (Users_Create flt nid now u h d))"
    using Users_Create_ok [of d flt nid now u h]
    by (auto simp: administered_def admins_def Users_Create_def Let_def insert_unique_def count_rows_def split: option.splits if_splits)
  show "administered d \<Longrightarrow> administered (snd (Users_SetPassword flt rid h d))"
    using Users_SetPassword_ok [of d flt rid h] by (auto simp: administered_def Users_SetPassword_def upd split: option.splits)
  show "administered d \<Longrightarrow> administered (snd (Users_TouchLogin flt rid at d))"
    using Users_TouchLogin_ok [of d flt rid at]
    by (auto simp: administered_def Users_TouchLogin_def set_user_def intro!: upd split: option.splits)
  show "administered d \<Longrightarrow> administered (snd (Sessions_Create flt x d))"
    using Sessions_Create_ok [of d flt x]
    by (auto simp: administered_def admins_def Sessions_Create_def split: option.splits)
  show "administered d \<Longrightarrow> administered (snd (Sessions_Delete flt rid d))"
    using Sessions_Delete_ok [of d flt rid]
    by (auto simp: administered_def admins_def Sessions_Delete_def split: option.splits)
  show "administered d \<Longrightarrow> administered (snd (Sessions_Touch flt rid at ex d))"
    using Sessions_Touch_ok [of d flt rid at ex]
    by (auto simp: administered_def admins_def Sessions_Touch_def split: option.splits)
  show "administered d \<Longrightarrow> administered (snd (Sessions_DeleteForUser flt rid d))"
    using Sessions_DeleteForUser_ok [of d flt rid]
    by (auto simp: administered_def admins_def Sessions_DeleteForUser_def split: option.splits)
  show "administered d \<Longrightarrow> administered (snd (Tokens_Create flt nid now t h d))"
    using Tokens_Create_ok [of d flt nid now t h]
    by (auto simp: administered_def admins_def Tokens_Create_def Let_def split: option.splits)
  show "administered d \<Longrightarrow> administered (snd (Tokens_Delete flt rid d))"
    using Tokens_Delete_ok [of d flt rid]
    by (auto simp: administered_def admins_def Tokens_Delete_def split: option.splits)
  show "administered d \<Longrightarrow> administered (snd (Tokens_TouchUsed flt rid at d))"
    using Tokens_TouchUsed_ok [of d flt rid at]
    by (auto simp: administered_def admins_def Tokens_TouchUsed_def split: option.splits)
qed

lemma keeps_after: "keeps (on_db P) m \<Longrightarrow> after P m (\<lambda>_. P)"
  using keepsD [of "on_db P" m] by (auto simp: after_def on_db_def)

lemma keeps_randomBase62 [wp]: "keeps (on_db P) (randomBase62 n sb)"
  by (induction n arbitrary: sb) (auto intro!: wp)

lemma keeps_unknown_jobs [wp]: "keeps (on_db P) (unknown_jobs slugs ve)"
  by (induction slugs arbitrary: ve) (auto intro!: wp)

lemma keeps_bool: "keeps P m \<Longrightarrow> keeps P n \<Longrightarrow> keeps P (case b of True \<Rightarrow> m | False \<Rightarrow> n)"
  by (cases b) auto

lemma keeps_accounts [wp]:
  "keeps (on_db administered) (CreateUser K u pw)" "keeps (on_db administered) (SetPassword K uid pw)"
  "keeps (on_db administered) (CreateSession sha uid ip ua)" "keeps (on_db administered) (DestroySession sha c)"
  "keeps (on_db administered) (Login K email pw)" "keeps (on_db administered) (CreateToken sha t)"
  "keeps (on_db administered) NeedsSetup" "keeps (on_db administered) (secureCookies S)"
  unfolding CreateUser_def SetPassword_def CreateSession_def DestroySession_def Login_def CreateToken_def NeedsSetup_def
    secureCookies_def randomSecret_def
  by ((intro wp keeps_bool administered_statements; assumption?)+)

lemma keeps_allow_login [wp]: "keeps (on_db P) (allow_login ip)"
  unfolding allow_login_def by (intro wp keepsI) (simp add: on_db_def split: prod.split)

text \<open>The requests that change accounts, in any order, each with its principal and body.\<close>

datatype account_request =
    UpdateUserReq string "userRequest body"
  | DeleteUserReq string
  | CreateUserReq "userRequest body"
  | PasswordReq string "passwordRequest body"
  | SetupReq "setupRequest body"
  | LoginReq "loginRequest body"
  | LogoutReq
  | CreateTokenReq "tokenRequest body"
  | DeleteTokenReq string

definition discard :: "'a reply web_op \<Rightarrow> unit web_op" where
  "discard m = do { _ \<leftarrow> m; return () }"

fun serve_account :: "site \<Rightarrow> request \<times> Principal option \<times> account_request \<Rightarrow> unit web_op" where
  "serve_account S (r, p, UpdateUserReq rid b) = discard (handleUpdateUser r p rid b)"
| "serve_account S (r, p, DeleteUserReq rid) = discard (handleDeleteUser r p rid)"
| "serve_account S (r, p, CreateUserReq b) = discard (handleCreateUser S r p b)"
| "serve_account S (r, p, PasswordReq rid b) = discard (handleChangePassword S r p rid b)"
| "serve_account S (r, p, SetupReq b) = discard (handleSetup S r b)"
| "serve_account S (r, p, LoginReq b) = discard (handleLogin S r b)"
| "serve_account S (r, p, LogoutReq) = discard (handleLogout S r)"
| "serve_account S (r, p, CreateTokenReq b) = discard (handleCreateToken S r p b)"
| "serve_account S (r, p, DeleteTokenReq rid) = discard (handleDeleteToken r p rid)"

fun serve_all :: "site \<Rightarrow> (request \<times> Principal option \<times> account_request) list \<Rightarrow> unit web_op" where
  "serve_all S [] = return ()"
| "serve_all S (q # qs) = do { serve_account S q; serve_all S qs }"

lemma keeps_of_after: "after P m (\<lambda>_. P) \<Longrightarrow> keeps (on_db P) m"
  by (rule keepsI) (auto simp: after_def on_db_def)

lemma keeps_discard [wp]: "keeps P m \<Longrightarrow> keeps P (discard m)"
  unfolding discard_def by (intro wp)

lemma keeps_startSession [wp]: "keeps (on_db administered) (startSession S r u)"
  unfolding startSession_def by (intro wp administered_statements; assumption?)

lemma keeps_handlers:
  "keeps (on_db administered) (handleCreateUser S r p b)" "keeps (on_db administered) (handleSetup S r b2)"
  "keeps (on_db administered) (handleLogin S r b3)" "keeps (on_db administered) (handleLogout S r)"
  "keeps (on_db administered) (handleChangePassword S r p rid b4)"
  "keeps (on_db administered) (handleCreateToken S r p b5)" "keeps (on_db administered) (handleDeleteToken r p rid)"
  unfolding handleCreateUser_def handleSetup_def handleLogin_def handleLogout_def handleChangePassword_def
    handleCreateToken_def handleDeleteToken_def
  by ((intro wp keeps_bool administered_statements; (simp add: on_db_def | assumption)?)+)

lemma serve_account_admins: "keeps (on_db administered) (serve_account S q)"
proof -
  obtain r p x where q: "q = (r, p, x)" using prod_cases3 by blast
  show ?thesis unfolding q
    by (cases x) (auto intro!: keeps_discard keeps_handlers keeps_of_after [OF handleUpdateUser_admins]
        keeps_of_after [OF handleDeleteUser_admins])
qed

section \<open>Properties\<close>

text \<open>C8 (invariant): an administrator always remains. Whatever requests about accounts are served one
  after the other, from whomever, with whatever faults of the database, a database with an administrator
  still has one.\<close>

theorem administrator_remains:
  assumes "administered (web_db w)"
  shows "administered (web_db (snd (run_state (serve_all S qs) w)))"
proof -
  have "keeps (on_db administered) (serve_all S qs)"
    by (induction qs) (auto intro!: wp serve_account_admins)
  from keepsD [OF this, of w] assms show ?thesis by (simp add: on_db_def)
qed

definition demo_kdf :: kdf where
  "demo_kdf pw salt t m p n = take (nat n) (pw @ replicate (nat n) (CHR ''x''))"

definition demo_site :: site where
  "demo_site = \<lparr>sv_kdf = demo_kdf, sv_sha = (\<lambda>s. s), sv_BaseURL = ''https://b'', sv_cipher = demo_cipher,
     sv_clockwork = \<lparr>cw_parse = (\<lambda>_. None), cw_zone = (\<lambda>_. None), cw_next = (\<lambda>_ _ t. t + Hour)\<rparr>,
     sv_sources = (\<lambda>_. None), sv_destinations = (\<lambda>_. None), sv_notifiers = (\<lambda>_. None),
     sv_parse_key = (\<lambda>_ _. PublicLine []), sv_generate_key = (\<lambda>_ _. Inr ([], [])), sv_probe = (\<lambda>_ _. Inr ([], []))\<rparr>"

definition demo_admin :: "string \<Rightarrow> UserRecord" where
  "demo_admin i = \<lparr>ur_User = zero_user\<lparr>usr_ID := i, usr_Email := i, usr_Role := RoleAdmin\<rparr>, ur_PasswordHash = []\<rparr>"

definition admin_web :: web where
  "admin_web = demo_web\<lparr>web_db := empty_db\<lparr>t_users := [demo_admin ''a'', demo_admin ''b'']\<rparr>\<rparr>"

lemma admin_web_ok: "administered (web_db admin_web)"
  by (simp add: admin_web_def demo_web_def administered_def accounts_ok_def unique_rows_def admins_def count_rows_def
      demo_admin_def empty_db_def)

theorem administrator_remains_witness:
  "administered (web_db (snd (run_state (serve_all demo_site
     [(demo_request, None, DeleteUserReq ''a''), (demo_request, None, DeleteUserReq ''b'')]) admin_web)))"
  by (rule administrator_remains) (rule admin_web_ok)

text \<open>The check and the change are two statements. Served at the same time, two demotions that both
  passed the check leave no administrator.\<close>

lemma concurrent_demotions:
  "let d0 = web_db admin_web;
       demote = (\<lambda>i. (ur_User (demo_admin i))\<lparr>usr_Role := RoleViewer\<rparr>);
       check_a = Users_CountAdmins None d0; check_b = Users_CountAdmins None d0;
       (err_a, d1) = Users_Update None (demote ''a'') d0;
       (err_b, d2) = Users_Update None (demote ''b'') d1
   in check_a = Inr 2 \<and> check_b = Inr 2 \<and> err_a = None \<and> err_b = None \<and> admins d2 = 0"
  by (simp add: admin_web_def demo_web_def empty_db_def demo_admin_def Users_CountAdmins_def Users_Update_def
      count_rows_def update_unique_def find_row_def update_rows_def set_user_def usr_assign_def affected_def
      admins_def normalizeEmail_def ToLower_def TrimSpace_printable printable_def zero_user_def lower_char_def)

section \<open>Revocation\<close>

definition no_sessions :: "string \<Rightarrow> db \<Rightarrow> bool" where
  "no_sessions rid d \<longleftrightarrow> (\<forall>x\<in>set (t_sessions d). ses_UserID x \<noteq> rid)"

lemma no_sessions_live:
  assumes "no_sessions rid d" and "live_session sha d now secret p"
  shows "(case pr_User p of None \<Rightarrow> True | Some u \<Rightarrow> usr_ID u \<noteq> rid)"
proof -
  obtain x u where x: "x \<in> set (t_sessions d)" and u: "ur_ID u = ses_UserID x" and p: "p = session_principal (ur_User u) (hashSecret sha secret)"
    using assms(2) find_row_Some unfolding live_session_def by metis
  show ?thesis using assms(1) x u by (auto simp: p session_principal_def no_sessions_def)
qed

lemma Users_Delete_sessions:
  "Users_Delete flt rid d = (None, d') \<Longrightarrow> no_sessions rid d'"
  by (auto simp: Users_Delete_def no_sessions_def affected_def count_rows_0 find_row_None split: option.splits if_splits)

lemma refusal_reply: "fail f = Reply st x \<Longrightarrow> False" "refusal (Reply st y) \<Longrightarrow> False"
  using refusal_fail by metis+

lemma handleDeleteUser_revokes:
  "after (\<lambda>_. True) (handleDeleteUser r p rid) (\<lambda>rep d. rep = Reply 204 () \<longrightarrow> no_sessions rid d)"
  unfolding handleDeleteUser_def
  by (intro after_steps after_bind [OF after_last_admin] after_return)
     (auto simp: found_user refusal_fail no_sessions_def dest: refusal_reply dest!: Users_Delete_sessions)

lemma after_any: "after P m (\<lambda>_ _. True)"
  by (simp add: after_def)

lemma Sessions_DeleteForUser_done:
  "Sessions_DeleteForUser flt rid d = (x, d') \<Longrightarrow> foreign flt \<Longrightarrow> (\<exists>e. x = Some e \<and> errIs e ErrNotFound) \<or> x = None \<Longrightarrow> no_sessions rid d'"
  by (auto simp: Sessions_DeleteForUser_def no_sessions_def foreign_def errIs_def wrapf_def split: option.splits)

lemma no_sessions_audit [simp]: "no_sessions rid (d\<lparr>t_audit := rows\<rparr>) = no_sessions rid d"
  by (simp add: no_sessions_def)

lemma after_orfail_pure:
  assumes "\<And>e d. P d \<Longrightarrow> r = Inl e \<Longrightarrow> Q (fail (Failed e)) d" and "\<And>x d. P d \<Longrightarrow> r = Inr x \<Longrightarrow> C x"
    and "\<And>x. C x \<Longrightarrow> after (\<lambda>d. P d \<and> r = Inr x) (k x) Q"
  shows "after P (orfail r k) Q"
  using assms by (cases r) (auto simp: orfail_def after_def)

lemma handleChangePassword_revokes:
  "after (\<lambda>_. True) (handleChangePassword S r p rid b) (\<lambda>rep d. rep = Reply 204 () \<longrightarrow> no_sessions rid d)"
proof -
  have last: "after Q (do {
       err2 \<leftarrow> sql (\<lambda>flt. Sessions_DeleteForUser flt rid);
       if err2 \<noteq> None \<and> \<not> errIs (the err2) ErrNotFound then return (fail (Failed (the err2)))
       else do { audit r p a t rid n Map.empty; return (Reply 204 ()) } })
     (\<lambda>rep d. rep = Reply 204 () \<longrightarrow> no_sessions rid d)" for Q a t n
    by (intro after_steps after_return) (auto dest: refusal_reply Sessions_DeleteForUser_done)
  have no: "after Q (return (fail f)) (\<lambda>rep d. rep = Reply 204 () \<longrightarrow> no_sessions rid d)" for Q f
    by (rule after_return) (auto dest: refusal_reply)
  have kept: "after Q (case v of Inl e \<Rightarrow> return (fail (F e)) | Inr True \<Rightarrow> m | Inr False \<Rightarrow> return (fail f2)) (\<lambda>rep d. rep = Reply 204 () \<longrightarrow> no_sessions rid d)"
    if "after Q m (\<lambda>rep d. rep = Reply 204 () \<longrightarrow> no_sessions rid d)" for Q v F f2 m
    using that no by (cases v) (auto split: bool.splits)
  have refused: "after Q (return (writeError st c m)) (\<lambda>rep d. rep = Reply 204 () \<longrightarrow> no_sessions rid d)" for Q st c m
    by (rule after_return) (simp add: writeError_def)
  show ?thesis
    unfolding handleChangePassword_def Let_def
  proof (intro after_if refused after_bind [OF after_lookup] after_orfail_pure [where C = "\<lambda>rec. ur_ID rec = rid"] after_orinvalid no,
      goal_cases)
    case (4 found rec req)
    then have rid: "rid = ur_ID rec" by simp
    show ?case
      unfolding rid
      by (rule kept [unfolded rid], rule after_bind, rule after_any, rule after_unless_err, (auto dest: refusal_reply)[1],
          rule last [unfolded rid])
  qed (auto simp: found_user dest: refusal_reply)
qed


text \<open>C10 (safety): revoked access is gone. Once a user was deleted, or the password was changed, no
  session secret resolves to that user, whatever the clock says.\<close>

theorem revoked_access_is_gone:
  assumes "run_state (handleDeleteUser r p rid) w = (Reply 204 (), w')
      \<or> run_state (handleChangePassword S r p rid b) w = (Reply 204 (), w')"
  shows "\<not> (\<exists>secret now pr u. live_session sha (web_db w') now secret pr \<and> pr_User pr = Some u \<and> usr_ID u = rid)"
proof -
  have "no_sessions rid (web_db w')"
    using assms afterD [OF handleDeleteUser_revokes] afterD [OF handleChangePassword_revokes] by (metis TrueI)
  then show ?thesis by (auto dest!: no_sessions_live)
qed

definition session_of :: "string \<Rightarrow> Session" where
  "session_of uid = \<lparr>ses_ID = ''s'' @ uid, ses_UserID = uid, ses_CreatedAt = 0, ses_ExpiresAt = 9, ses_LastSeenAt = 0, ses_IP = [],
     ses_UserAgent = []\<rparr>"

definition session_web :: web where
  "session_web = admin_web\<lparr>web_db := (web_db admin_web)\<lparr>t_sessions := [session_of ''a'', session_of ''b'']\<rparr>\<rparr>"

theorem revoked_access_is_gone_witness:
  "let w' = snd (run_state (handleDeleteUser demo_request None ''a'') session_web)
   in t_sessions (web_db w') = [session_of ''b'']
    \<and> \<not> (\<exists>secret now pr u. live_session (\<lambda>s. s) (web_db w') now secret pr \<and> pr_User pr = Some u \<and> usr_ID u = ''a'')"
proof -
  let ?m = "run_state (handleDeleteUser demo_request None ''a'') session_web"
  have "case ?m of (Reply st x, w') \<Rightarrow> st = 204 \<and> t_sessions (web_db w') = [session_of ''b''] | _ \<Rightarrow> False"
    by code_simp
  then obtain w' where "?m = (Reply 204 (), w')" "t_sessions (web_db w') = [session_of ''b'']"
    by (cases ?m) (auto split: reply.splits)
  with revoked_access_is_gone [of demo_request None "''a''" session_web w'] show ?thesis
    by (simp add: Let_def)
qed

section \<open>Setup and login\<close>

text \<open>Setup is closed for good once there is a user. Whatever the request, a server with a user
  answers it with a refusal and changes nothing in the database.\<close>

theorem setup_closed:
  assumes "t_users (web_db w) \<noteq> []"
  shows "refusal (fst (run_state (handleSetup S r b) w)) \<and> web_db (snd (run_state (handleSetup S r b) w)) = web_db w"
  using assms
  by (auto simp: handleSetup_def NeedsSetup_def run_lookup Users_Count_def case_prod_beta orfail_def refusal_fail
      split: option.splits sum.splits)

theorem setup_closed_witness:
  "refusal (fst (run_state (handleSetup demo_site demo_request (Inr \<lparr>su_Name = ''m'', su_Email = ''m'', su_Password = ''0123456789''\<rparr>)) admin_web))"
  using setup_closed [of admin_web demo_site demo_request] by (simp add: admin_web_def)


definition holds_session :: "(string \<Rightarrow> string) \<Rightarrow> string \<Rightarrow> string \<Rightarrow> db \<Rightarrow> bool" where
  "holds_session sha uid secret d \<longleftrightarrow>
     (\<exists>x. find_row ses_ID (hashSecret sha secret) (t_sessions d) = Some x \<and> ses_UserID x = uid)"

lemma after_CreateSession:
  "after P (CreateSession sha uid ip ua) (\<lambda>res d. \<forall>secret ex. res = Inr (secret, ex) \<longrightarrow> holds_session sha uid secret d)"
  unfolding after_def holds_session_def
proof (intro allI impI)
  fix w secret ex
  assume "fst (run_state (CreateSession sha uid ip ua) w) = Inr (secret, ex)"
  then have "run_state (CreateSession sha uid ip ua) w = (Inr (secret, ex), snd (run_state (CreateSession sha uid ip ua) w))"
    by (metis prod.collapse)
  from CreateSession_stored [OF this]
  show "\<exists>x. find_row ses_ID (hashSecret sha secret) (t_sessions (web_db (snd (run_state (CreateSession sha uid ip ua) w)))) = Some x
      \<and> ses_UserID x = uid" by blast
qed

lemma TouchLogin_sessions: "Users_TouchLogin flt rid at d = (x, d') \<Longrightarrow> t_sessions d' = t_sessions d"
  by (auto simp: Users_TouchLogin_def split: option.splits)

lemma after_secureCookies: "after P (secureCookies S) (\<lambda>_. P)"
  unfolding secureCookies_def
  by (intro after_steps after_return after_bind [OF after_lookup]) auto

lemma after_startSession:
  "after P (startSession S r u) (\<lambda>res d. \<forall>ck. res = Inr ck \<longrightarrow> holds_session (sv_sha S) (usr_ID u) (ck_Value ck) d)"
  unfolding startSession_def
  by (intro after_bind [OF after_CreateSession] after_sum after_prod after_bind [OF after_next(2)] after_bind [OF after_sql]
        after_bind [OF after_secureCookies] after_return)
     (auto simp: holds_session_def dest: TouchLogin_sessions)

definition may_login :: "kdf \<Rightarrow> db \<Rightarrow> string \<Rightarrow> string \<Rightarrow> string \<Rightarrow> bool" where
  "may_login K d email password uid \<longleftrightarrow>
     (\<exists>row. find_row ur_Email (normalizeEmail email) (t_users d) = Some row \<and> ur_ID row = uid
        \<and> VerifyPassword K (ur_PasswordHash row) password = Inr True)"


lemma after_allow_login: "after P (allow_login ip) (\<lambda>_. P)"
  by (auto simp: after_def allow_login_def case_prod_beta)

lemma after_Login:
  "after P (Login K email pw) (\<lambda>res d. \<exists>d0. P d0 \<and> (\<forall>u. res = Inr u \<longrightarrow> may_login K d0 email pw (usr_ID u)))"
  unfolding after_def
  by (auto simp: Login_def run_lookup case_prod_beta may_login_def Users_GetByEmail_def user_found_def
      split: option.splits sum.splits bool.splits)

text \<open>C9 (safety): a login takes the password of a stored user. Whoever is let in by the login gave the
  address of a user and a password that verifies against the hash stored for that user, and the secret in
  the cookie belongs to a session stored for this same user.\<close>

theorem login_needs_password:
  assumes "run_state (handleLogin S r b) w = (Reply st (u, ck), w')"
  shows "(\<exists>req. b = Inr req \<and> may_login (sv_kdf S) (web_db w) (li_Email req) (li_Password req) (usr_ID u))
    \<and> holds_session (sv_sha S) (usr_ID u) (ck_Value ck) (web_db w')"
proof -
  have "after (\<lambda>d. d = web_db w) (handleLogin S r b) (\<lambda>rep d. \<forall>st u ck. rep = Reply st (u, ck) \<longrightarrow>
      (\<exists>req. b = Inr req \<and> may_login (sv_kdf S) (web_db w) (li_Email req) (li_Password req) (usr_ID u))
      \<and> holds_session (sv_sha S) (usr_ID u) (ck_Value ck) d)"
    unfolding handleLogin_def
    by (intro after_bind [OF after_allow_login] after_if after_orinvalid after_bind [OF after_Login] after_sum after_return
          after_bind [OF after_modify] after_bind [OF after_before [OF after_startSession]] after_orfail)
       (auto simp: writeError_def decodeBody_def dest: refusal_reply split: sum.splits)
  from afterD [OF this _ assms] show ?thesis by blast
qed


lemma startSession_succeeds:
  assumes "web_random w = Inr x # xs" and "web_faults w = []" and "t_sessions (web_db w) = []" and "web_clock w = []"
    and "find_row ur_ID (usr_ID u) (t_users (web_db w)) = Some rec"
  shows "\<exists>ck w'. run_state (startSession S r u) w = (Inr ck, w')"
  using assms
  by (simp add: startSession_def CreateSession_def randomSecret_def random_bytes_def run_sql next_fault_def Sessions_Create_def
      exec_err_def time_Now_def Let_def case_prod_beta find_row_def)

definition login_web :: web where
  "login_web = admin_web\<lparr>web_db := empty_db\<lparr>t_users := [(demo_admin ''a'')\<lparr>ur_PasswordHash := encoded_hash demo_kdf ''salt'' ''secret''\<rparr>]\<rparr>,
     web_random := [Inr ''random'']\<rparr>"

lemma demo_login: "VerifyPassword demo_kdf (encoded_hash demo_kdf ''salt'' ''secret'') ''secret'' = Inr True"
proof -
  have "length (demo_kdf ''secret'' ''salt'' 3 65536 2 32) = 32" by (simp add: demo_kdf_def)
  then show ?thesis by (simp only: encoded_verifies simp_thms)
qed

theorem login_needs_password_witness:
  "\<exists>u ck w'. run_state (handleLogin demo_site demo_request (Inr \<lparr>li_Email = ''A'', li_Password = ''secret''\<rparr>)) login_web
      = (Reply 200 (u, ck), w') \<and> usr_ID u = ''a'' \<and> holds_session (\<lambda>s. s) ''a'' (ck_Value ck) (web_db w')"
proof -
  let ?m = "run_state (handleLogin demo_site demo_request (Inr \<lparr>li_Email = ''A'', li_Password = ''secret''\<rparr>)) login_web"
  let ?row = "(demo_admin ''a'')\<lparr>ur_PasswordHash := encoded_hash demo_kdf ''salt'' ''secret''\<rparr>"
  have mail: "normalizeEmail ''A'' = ''a''"
    by (simp add: normalizeEmail_def ToLower_def TrimSpace_printable printable_def lower_char_def, code_simp)
  have "fst (Allow ''192.0.2.7'' 0 (NewRateLimiter 5 Minute))" by code_simp
  then obtain w1 where allow: "run_state (allow_login ''192.0.2.7'') login_web = (True, w1)" "web_db w1 = web_db login_web"
      "web_faults w1 = []" "web_clock w1 = []" "web_random w1 = [Inr ''random'']"
    by (auto simp: allow_login_def login_web_def admin_web_def demo_web_def time_Now_def case_prod_beta)
  have row: "find_row ur_Email ''a'' (t_users (web_db w1)) = Some ?row"
    by (simp add: allow(2) login_web_def find_row_def demo_admin_def)
  let ?u = "(ur_User ?row)\<lparr>usr_LastLoginAt := Some 0\<rparr>"
  let ?w2 = "w1\<lparr>web_db := snd (Users_TouchLogin None ''a'' 0 (web_db w1))\<rparr>"
  have id: "ur_ID (demo_admin ''a'') = ''a''" by (simp add: demo_admin_def)
  have login: "run_state (Login demo_kdf ''A'' ''secret'') w1 = (Inr ?u, ?w2)"
    by (simp add: Login_def run_lookup run_sql Users_GetByEmail_def user_found_def row [unfolded allow(2)] mail demo_login time_Now_def
        next_fault_def allow id case_prod_beta Users_TouchLogin_def)
  have after: "t_sessions (web_db ?w2) = []" "\<exists>rec. find_row ur_ID ''a'' (t_users (web_db ?w2)) = Some rec"
    by (simp_all add: allow(2) login_web_def empty_db_def Users_TouchLogin_def update_rows_def find_row_def demo_admin_def
        set_user_def)
  obtain ck w3 where "run_state (startSession demo_site demo_request ?u) (?w2\<lparr>web_limiter := Reset ''192.0.2.7'' (web_limiter w1)\<rparr>) = (Inr ck, w3)"
    using startSession_succeeds [of "?w2\<lparr>web_limiter := Reset ''192.0.2.7'' (web_limiter w1)\<rparr>" "''random''" "[]" "?u" _ demo_site demo_request] after allow
    by (auto simp: id)
  then have "?m = (Reply 200 (?u, ck), w3)"
    by (simp add: handleLogin_def allow login orinvalid_def decodeBody_def demo_request_def demo_site_def orfail_def)
  then obtain u where "?m = (Reply 200 (u, ck), w3)" "usr_ID u = ''a''" by (simp add: demo_admin_def)
  with login_needs_password [OF this(1)] show ?thesis by (auto simp: demo_site_def)
qed

end
