(* ===== verification/Jobs_Props.thy ===== *)
theory Jobs_Props
  imports Jobs_Checks Accounts_Props
begin

text \<open>
  Properties of the jobs: an accepted request gives a well-formed job, and every stored job stays well-formed
  under all handlers that write jobs.
\<close>

section \<open>Stored jobs stay well-formed\<close>

definition jobs_ok :: "clockwork \<Rightarrow> db \<Rightarrow> bool" where
  "jobs_ok C d \<longleftrightarrow> (\<forall>j\<in>set (t_jobs d). job_ok C j)"

lemma jobs_ok_frame: "t_jobs d' = t_jobs d \<Longrightarrow> jobs_ok C d' = jobs_ok C d"
  by (simp add: jobs_ok_def)

lemma job_ok_cong [simp]:
  "job_ok C (enrichJob d j) = job_ok C j" "job_ok C (job_row j) = job_ok C j"
  "job_ok C (j\<lparr>job_CreatedAt := a\<rparr>) = job_ok C j" "job_ok C (j\<lparr>job_UpdatedAt := a\<rparr>) = job_ok C j"
  "job_ok C (j\<lparr>job_Enabled := b\<rparr>) = job_ok C j" "job_ok C (j\<lparr>job_ID := i\<rparr>) = job_ok C j"
proof -
  show "job_ok C (enrichJob d j) = job_ok C j"
    unfolding enrichJob_def Let_def by (simp add: job_ok_def split: option.split list.split)
qed (simp_all add: job_ok_def job_row_def)

lemma Jobs_Create_jobs: "jobs_ok C d \<Longrightarrow> job_ok C j \<Longrightarrow> jobs_ok C (snd (Jobs_Create flt i now j d))"
  by (auto simp: Jobs_Create_def jobs_ok_def Let_def split: option.split)

lemma Jobs_Update_jobs: "jobs_ok C d \<Longrightarrow> job_ok C j \<Longrightarrow> jobs_ok C (snd (Jobs_Update flt1 flt2 flt3 now j d))"
  by (auto simp: Jobs_Update_def jobs_ok_def Let_def update_rows_def split: option.split)

lemma Jobs_SetEnabled_jobs: "jobs_ok C d \<Longrightarrow> jobs_ok C (snd (Jobs_SetEnabled flt now i b d))"
  by (auto simp: Jobs_SetEnabled_def jobs_ok_def update_rows_def split: option.split)

lemma Jobs_Delete_jobs: "jobs_ok C d \<Longrightarrow> jobs_ok C (snd (Jobs_Delete flt1 flt2 i b d))"
  by (auto simp: Jobs_Delete_def jobs_ok_def split: option.split)

lemma SetNextRun_jobs: "jobs_ok C (snd (SetNextRun flt now i t d)) = jobs_ok C d"
  by (rule jobs_ok_frame) (auto simp: SetNextRun_def upsert_state_def split: option.split)

lemma enqueue_locked_jobs: "t_jobs (snd (snd (enqueue_locked flt now run (e, d)))) = t_jobs d"
  by (auto simp: enqueue_locked_def Runs_Create_def Let_def split: prod.split option.split sum.split)

lemma keeps_bind_after:
  "after P m (\<lambda>x d. P d \<and> R x) \<Longrightarrow> (\<And>x. R x \<Longrightarrow> keeps (on_db P) (f x)) \<Longrightarrow> keeps (on_db P) (m \<bind> f)"
proof (rule keepsI)
  fix s assume m: "after P m (\<lambda>x d. P d \<and> R x)" and f: "\<And>x. R x \<Longrightarrow> keeps (on_db P) (f x)" and s: "on_db P s"
  then have "P (web_db (snd (run_state m s)))" "R (fst (run_state m s))" by (auto simp: after_def on_db_def)
  with keepsD [OF f] show "on_db P (snd (run_state (m \<bind> f) s))" by (simp add: on_db_def case_prod_beta)
qed

lemma Jobs_found:
  assumes "jobs_ok C d"
  shows "Jobs_Get flt1 flt2 ref d = Inr j \<Longrightarrow> job_ok C j" and "Jobs_GetBySlug flt1 flt2 ref d = Inr j \<Longrightarrow> job_ok C j"
  using assms by (auto simp: Jobs_Get_def Jobs_GetBySlug_def jobs_ok_def split: option.splits dest!: find_row_Some)

lemma Jobs_ref_found: "jobs_ok C d \<Longrightarrow> Jobs_GetByIDOrSlug flt1 join1 flt2 join2 ref d = Inr j \<Longrightarrow> job_ok C j"
  by (auto simp: Jobs_GetByIDOrSlug_def split: sum.splits if_splits intro: Jobs_found)

lemma after_jobRef: "after (jobs_ok C) (jobRef ref) (\<lambda>r d. jobs_ok C d \<and> (\<forall>j. r = Inr j \<longrightarrow> job_ok C j))"
  unfolding jobRef_def
  by (intro after_bind [OF after_next(4)]) (rule after_conseq [OF after_lookup], assumption, elim conjE exE, intro conjI allI impI, assumption, rule Jobs_ref_found, assumption, simp only:)

lemma keeps_get_job [wp]: "keeps (on_db P) (get_job i)"
  unfolding get_job_def by (intro wp)

lemma keeps_answer_job [wp]: "keeps (on_db P) (answer_job st i)"
  unfolding answer_job_def by (intro wp)

lemma keeps_refreshJobSchedule [wp]: "keeps (on_db (jobs_ok C)) (refreshJobSchedule S i)"
  unfolding refreshJobSchedule_def by (intro wp) (simp add: SetNextRun_jobs)

lemma keeps_audit_jobs: "keeps (on_db (jobs_ok C)) (audit r p a t i n ds)"
  by (rule keeps_audit) (simp add: jobs_ok_def)

lemma keeps_save_new_job: "job_ok C job \<Longrightarrow> keeps (on_db (jobs_ok C)) (save_new_job S r p job a ds)"
  unfolding save_new_job_def by (intro wp keeps_audit_jobs) (rule Jobs_Create_jobs)

lemma after_validateJob:
  assumes "C = sv_clockwork S" and "previous_ok existing"
  shows "after (jobs_ok C) (validateJob S req existing) (\<lambda>res d. jobs_ok C d \<and> (\<forall>job. res = Inr job \<longrightarrow> job_ok C job))"
  by (rule after_conseq [OF after_looks [where P = "jobs_ok C", OF looks_validateJob [OF assms(2)]]]) (auto simp: assms(1) accepted_def)

lemma job_ok_previous: "job_ok C old \<Longrightarrow> previous_ok (Some old)"
  by (simp add: job_ok_def previous_ok_def)

lemma after_uniqueSlug:
  assumes "base = [] \<or> validSlug base"
  shows "after P (uniqueSlug base (check_slug ex)) (\<lambda>res d. P d \<and> (\<forall>s. res = Inr s \<longrightarrow> validSlug s))"
  by (rule after_conseq [OF after_looks [where P = P, OF looks_uniqueSlug [OF assms]]]) auto

lemma copy_ok:
  assumes "job_ok C j"
  shows "validSlug (job_Slug j @ ''-copy'')"
    and "validSlug s \<Longrightarrow> job_ok C (j\<lparr>job_ID := i, job_Slug := s, job_Name := job_Name j @ '' (copy)''\<rparr>)"
proof -
  have "validSlug ''copy''" by (simp add: validSlug_def slug_char_def)
  with assms show "validSlug (job_Slug j @ ''-copy'')"
    using validSlug_append [of "job_Slug j" "''copy''"] by (simp add: job_ok_def)
  assume "validSlug s"
  with assms show "job_ok C (j\<lparr>job_ID := i, job_Slug := s, job_Name := job_Name j @ '' (copy)''\<rparr>)"
    by (auto simp: job_ok_def)
qed

lemma job_handlers:
  assumes C: "C = sv_clockwork S"
  shows "keeps (on_db (jobs_ok C)) (handleCreateJob S r p b)" "keeps (on_db (jobs_ok C)) (handleUpdateJob S r p ref b)"
    "keeps (on_db (jobs_ok C)) (handleDeleteJob r p ref)" "keeps (on_db (jobs_ok C)) (setJobEnabled S r p ref enabled)"
    "keeps (on_db (jobs_ok C)) (handleDuplicateJob S r p ref)" "keeps (on_db (jobs_ok C)) (handleRunJob r p ref)"
    "keeps (on_db (jobs_ok C)) (handlePruneJob r p ref)"
proof -
  show "keeps (on_db (jobs_ok C)) (handleCreateJob S r p b)"
    unfolding handleCreateJob_def
    by (intro keeps_orinvalid keeps_bind_after [OF after_validateJob [OF C]] keeps_save_new_job) (simp_all add: previous_ok_def)
  show "keeps (on_db (jobs_ok C)) (handleUpdateJob S r p ref b)"
    unfolding handleUpdateJob_def
    by (intro keeps_bind_after [OF after_jobRef] keeps_orfail keeps_orinvalid keeps_bind_after [OF after_validateJob [OF C job_ok_previous]]
        wp keeps_audit_jobs Jobs_Update_jobs) auto
  show "keeps (on_db (jobs_ok C)) (handleDeleteJob r p ref)"
    unfolding handleDeleteJob_def by (intro wp keeps_audit_jobs Jobs_Delete_jobs keeps_bind_after [OF after_jobRef])
  show "keeps (on_db (jobs_ok C)) (setJobEnabled S r p ref enabled)"
    unfolding setJobEnabled_def by (intro wp keeps_audit_jobs Jobs_SetEnabled_jobs keeps_bind_after [OF after_jobRef])
  show "keeps (on_db (jobs_ok C)) (handleRunJob r p ref)" "keeps (on_db (jobs_ok C)) (handlePruneJob r p ref)"
    unfolding handleRunJob_def handlePruneJob_def enqueue_job_def EnqueueBackup_def EnqueuePrune_def
    by (intro wp keeps_audit_jobs keeps_bind_after [OF after_jobRef]; simp add: jobs_ok_def enqueue_locked_jobs)+
  show "keeps (on_db (jobs_ok C)) (handleDuplicateJob S r p ref)"
    unfolding handleDuplicateJob_def
  proof (intro keeps_bind_after [OF after_jobRef] keeps_orfail keeps_bind_after [OF after_uniqueSlug], goal_cases)
    case (1 found job)
    then show ?case using copy_ok(1) by blast
  next
    case (2 found job res)
    then show ?case by (intro keeps_orinvalid keeps_save_new_job) (simp add: copy_ok(2))
  qed
qed

datatype job_request =
    CreateJobReq "jobRequest body" | UpdateJobReq string "jobRequest body" | DeleteJobReq string
  | EnableJobReq string bool | DuplicateJobReq string | RunJobReq string | PruneJobReq string

fun serve_job :: "site \<Rightarrow> request \<times> Principal option \<times> job_request \<Rightarrow> unit web_op" where
  "serve_job S (r, p, CreateJobReq b) = discard (handleCreateJob S r p b)"
| "serve_job S (r, p, UpdateJobReq ref b) = discard (handleUpdateJob S r p ref b)"
| "serve_job S (r, p, DeleteJobReq ref) = discard (handleDeleteJob r p ref)"
| "serve_job S (r, p, EnableJobReq ref b) = discard (setJobEnabled S r p ref b)"
| "serve_job S (r, p, DuplicateJobReq ref) = discard (handleDuplicateJob S r p ref)"
| "serve_job S (r, p, RunJobReq ref) = discard (handleRunJob r p ref)"
| "serve_job S (r, p, PruneJobReq ref) = discard (handlePruneJob r p ref)"

fun serve_jobs :: "site \<Rightarrow> (request \<times> Principal option \<times> job_request) list \<Rightarrow> unit web_op" where
  "serve_jobs S [] = return ()"
| "serve_jobs S (q # qs) = do { serve_job S q; serve_jobs S qs }"

lemma serve_job_ok: "keeps (on_db (jobs_ok (sv_clockwork S))) (serve_job S q)"
proof -
  obtain r p x where q: "q = (r, p, x)" using prod_cases3 by blast
  show ?thesis unfolding q by (cases x) (auto intro!: keeps_discard job_handlers)
qed

section \<open>Properties\<close>

text \<open>C13 (type): an accepted request is a well-formed job. The checks never change the database; when they
  accept a request, the job has a name, a valid slug that no other job has, distinct destinations, a
  schedule and a zone that parse, a known compression and encryption with a passphrase exactly for age,
  stored encrypted, and numbers in their ranges, and its source, destinations and channels are stored.\<close>

theorem accepted_job_well_formed:
  assumes "previous_ok existing"
  shows "(\<forall>job. fst (run_state (validateJob S req existing) w) = Inr job
      \<longrightarrow> accepted (sv_clockwork S) (web_db w) existing job)
    \<and> web_db (snd (run_state (validateJob S req existing) w)) = web_db w"
  using looks_validateJob [OF assms, of "web_db w" S req] by (simp add: looks_def)

text \<open>C12 (invariant): every stored job stays well-formed. Whatever requests about jobs are served, from
  whomever, with whatever faults of the database, a database whose jobs are well-formed keeps only
  well-formed jobs.\<close>

theorem stored_jobs_well_formed:
  assumes "jobs_ok (sv_clockwork S) (web_db w)"
  shows "jobs_ok (sv_clockwork S) (web_db (snd (run_state (serve_jobs S qs) w)))"
proof -
  have "keeps (on_db (jobs_ok (sv_clockwork S))) (serve_jobs S qs)"
    by (induction qs) (auto intro!: wp serve_job_ok)
  from keepsD [OF this, of w] assms show ?thesis by (simp add: on_db_def)
qed


definition demo_job_request :: jobRequest where
  "demo_job_request = \<lparr>jq_Slug = ''web'', jq_Name = ''w'', jq_Description = [], jq_SourceID = ''s'', jq_DestinationIDs = [''d'', ''d''],
     jq_Schedule = [], jq_Timezone = [], jq_Enabled = None, jq_Compression = CompressionZstd, jq_CompressionLevel = 3,
     jq_Encryption = EncryptionAge, jq_EncryptionPassphrase = ''secret'', jq_Retention = zero_retention,
     jq_NotificationChannelIDs = [], jq_NotifyOn = [], jq_TimeoutMinutes = 0, jq_Retries = 2, jq_RetryDelaySeconds = 30,
     jq_PreCommand = [], jq_PostCommand = [], jq_VerifyAfterUpload = True, jq_ExpectedIntervalMinutes = 0, jq_Tags = []\<rparr>"

definition job_web :: web where
  "job_web = demo_web\<lparr>web_db := empty_db\<lparr>t_sources := [zero_source\<lparr>src_ID := ''s''\<rparr>], t_destinations := [zero_destination\<lparr>dst_ID := ''d''\<rparr>]\<rparr>,
     web_random := [Inr ''nonce'']\<rparr>"

lemma demo_job_accepted: "\<exists>job. fst (run_state (validateJob demo_site demo_job_request None) job_web) = Inr job \<and> job_DestinationIDs job = [''d'']"
proof -
  have t: "TrimSpace ''web'' = ''web''" "TrimSpace ''w'' = ''w''" "TrimSpace ''s'' = ''s''" "TrimSpace [] = []"
    by (simp_all add: TrimSpace_printable printable_def) (simp add: TrimSpace_def trim_runes.simps)
  have v: "validSlug ''web''" by (simp add: validSlug_def slug_char_def)
  have src: "run_state (find_source ''s'') w = (Inr (join_source (web_db job_web) (zero_source\<lparr>src_ID := ''s''\<rparr>)), w)"
    if "web_db w = web_db job_web" "web_faults w = []" for w
    using that by (simp add: find_source_def lookup_def next_fault_def Sources_Get_def job_web_def find_row_def)
  have dst: "run_state (find_destination ''d'') w = (Inr (join_destination (web_db job_web) (zero_destination\<lparr>dst_ID := ''d''\<rparr>)), w)"
    if "web_db w = web_db job_web" "web_faults w = []" for w
    using that by (simp add: find_destination_def lookup_def next_fault_def Destinations_Get_def job_web_def find_row_def usage_faults_def)
  have slug: "run_state (check_slug [] ''web'') w = (Inr False, w)" if "web_db w = web_db job_web" "web_faults w = []" for w
    using that by (simp add: check_slug_def lookup_def next_fault_def Jobs_SlugExists_def job_web_def empty_db_def count_rows_def)
  have w: "web_faults job_web = []" "web_random job_web = [Inr ''nonce'']" by (simp_all add: job_web_def demo_web_def)
  have mask: "''secret'' \<noteq> SecretMask" "\<not> IsEncrypted ''secret''"
    by (simp_all add: SecretMask_def IsEncrypted_def Prefix_def HasPrefix_iff)
  show ?thesis
    by (simp add: validateJob_def proceed_def check_source_def start_job_def demo_job_request_def orstop_def
        found_or_missing_def find_row_def t v src dst slug w mask field_if_def no_fields_def check_passphrase_def packing_part_def
        schedule_part_def Let_def random_bytes_def Encrypt_def negative_retention_def zero_retention_def
        check_job_slug_def numbers_part_def checked_def zero_job_def join_source_def join_host_def Prefix_def)
qed

text \<open>A request that names a destination twice is accepted with the destination once.\<close>

theorem accepted_job_well_formed_witness:
  "\<exists>job. accepted (sv_clockwork demo_site) (web_db job_web) None job \<and> job_DestinationIDs job = [''d'']"
proof -
  have "previous_ok None" by (simp add: previous_ok_def)
  from accepted_job_well_formed [OF this] demo_job_accepted show ?thesis by blast
qed

theorem stored_jobs_well_formed_witness:
  "jobs_ok (sv_clockwork demo_site) (web_db (snd (run_state (serve_jobs demo_site
     [(demo_request, None, CreateJobReq (Inr demo_job_request)), (demo_request, None, DuplicateJobReq ''web'')]) job_web)))"
  by (rule stored_jobs_well_formed) (simp add: jobs_ok_def job_web_def empty_db_def)

end
