(* ===== verification/Configs_Checks.thy ===== *)
theory Configs_Checks
  imports Server_Transfer Jobs_Props
begin

text \<open>
  What the handling of configurations keeps of the database: stored secrets are encrypted or empty. Lemmas
  for the preparation of a configuration, for the statements and for the handlers of each kind.
\<close>

section \<open>Encrypted at rest\<close>

definition sealed_text :: "string \<Rightarrow> bool" where
  "sealed_text s \<longleftrightarrow> s = [] \<or> IsEncrypted s"

definition sealed_config :: "string list \<Rightarrow> Config \<Rightarrow> bool" where
  "sealed_config fs cfg \<longleftrightarrow> (\<forall>f\<in>set fs. \<forall>s. cfg f = Some (VString s) \<longrightarrow> sealed_text s)"

definition sealed_for :: "driver option \<Rightarrow> Config \<Rightarrow> bool" where
  "sealed_for found cfg = (case found of None \<Rightarrow> True | Some drv \<Rightarrow> sealed_config (SecretFields (drv_Spec drv)) cfg)"

definition sealed_host :: "Host \<Rightarrow> bool" where
  "sealed_host h \<longleftrightarrow> sealed_text (host_PrivateKey h) \<and> sealed_text (host_KeyPassphrase h) \<and> sealed_text (host_Password h)"

definition secrets_sealed :: "site \<Rightarrow> db \<Rightarrow> bool" where
  "secrets_sealed S d \<longleftrightarrow>
     (\<forall>x\<in>set (t_sources d). sealed_for (sv_sources S (src_Kind x)) (src_Config x))
   \<and> (\<forall>x\<in>set (t_destinations d). sealed_for (sv_destinations S (dst_Kind x)) (dst_Config x))
   \<and> (\<forall>x\<in>set (t_channels d). sealed_for (sv_notifiers S (chn_Kind x)) (chn_Config x))
   \<and> (\<forall>h\<in>set (t_hosts d). sealed_host h)"

lemma Encrypt_sealed: "Encrypt c rnd s = Inr t \<Longrightarrow> sealed_text t"
  using Encrypt_Inr [of c rnd s t] by (cases "s = []") (auto simp: sealed_text_def Encrypt_def)

lemma config_step_other: "config_step v op cfg f = Inr out \<Longrightarrow> g \<noteq> f \<Longrightarrow> out g = cfg g"
  by (auto simp: config_step_def split: option.splits cfgval.splits sum.splits if_splits)

lemma config_step_encrypts:
  "config_step v (\<lambda>f. Encrypt c (rnd f)) cfg f = Inr out \<Longrightarrow> out f = Some (VString s) \<Longrightarrow> sealed_text s"
  by (auto simp: config_step_def sealed_text_def split: option.splits cfgval.splits sum.splits if_splits
      dest: Encrypt_sealed)

lemma EncryptConfig_sealed:
  assumes "EncryptConfig c rnd cfg fs = Inr out"
  shows "sealed_config fs out"
proof -
  have "sealed_config (gs @ fs) out" if "sealed_config gs cfg"
    and "foldE (config_step v (\<lambda>f. Encrypt c (rnd f))) cfg fs = Inr out" for gs v cfg
    using that
  proof (induction fs arbitrary: gs cfg)
    case (Cons f fs)
    then obtain cfg' where step: "config_step v (\<lambda>f. Encrypt c (rnd f)) cfg f = Inr cfg'"
      and rest: "foldE (config_step v (\<lambda>f. Encrypt c (rnd f))) cfg' fs = Inr out"
      by (auto split: sum.splits)
    have "sealed_config (gs @ [f]) cfg'"
      unfolding sealed_config_def
    proof (intro ballI allI impI)
      fix g s assume "g \<in> set (gs @ [f])" "cfg' g = Some (VString s)"
      with Cons.prems(1) config_step_other [OF step, of g] config_step_encrypts [OF step, of s]
      show "sealed_text s" by (cases "g = f") (auto simp: sealed_config_def)
    qed
    from Cons.IH [OF this rest] show ?case by simp
  qed simp
  from this [of "[]"] assms show ?thesis by (auto simp: EncryptConfig_def sealed_config_def)
qed

lemma host_field_sealed: "host_field v n (Encrypt c (rnd n)) s = Inr t \<Longrightarrow> sealed_text t"
  by (auto simp: host_field_def sealed_text_def split: if_splits sum.splits dest: Encrypt_sealed)

lemma EncryptHost_sealed: "EncryptHost c rnd h = Inr out \<Longrightarrow> sealed_host out"
  by (auto simp: EncryptHost_def host_fields_def sealed_host_def split: sum.splits dest: host_field_sealed)

lemma looks_draw_nonces: "looks d (draw_nonces fs) (\<lambda>_. True)"
  by (induction fs) (auto intro!: looks_return looks_bind [OF looks_next(4)] elim!: looks_bind)

lemma looks_prepareConfigOnHost:
  "looks d (prepareConfigOnHost S spec incoming previous host validate)
     (\<lambda>res. \<forall>pc. res = Inr pc \<longrightarrow> sealed_config (SecretFields spec) (pc_Encrypted pc))"
  unfolding prepareConfigOnHost_def Let_def
  by (auto intro!: looks_return looks_bind [OF looks_draw_nonces] dest!: EncryptConfig_sealed
      split: sum.split option.split sum.split_asm)

lemma looks_seal_host: "looks d (seal_host S h) (\<lambda>res. \<forall>out. res = Inr out \<longrightarrow> sealed_host out)"
  unfolding seal_host_def by (auto intro!: looks_return looks_bind [OF looks_draw_nonces] dest: EncryptHost_sealed)

section \<open>Statements\<close>

lemma sealed_frame:
  "t_sources d' = t_sources d \<Longrightarrow> t_destinations d' = t_destinations d \<Longrightarrow> t_channels d' = t_channels d
   \<Longrightarrow> t_hosts d' = t_hosts d \<Longrightarrow> secrets_sealed S d' = secrets_sealed S d"
  by (simp add: secrets_sealed_def)

lemma insert_unique_set: "insert_unique key name x rows = Some rows' \<Longrightarrow> set rows' \<subseteq> insert x (set rows)"
  by (auto simp: insert_unique_def split: if_splits)

lemma update_unique_set:
  "update_unique key name i f rows = Some rows' \<Longrightarrow> r \<in> set rows' \<Longrightarrow> r \<in> set rows \<or> (\<exists>r0\<in>set rows. r = f r0)"
  by (auto simp: update_unique_def update_rows_def split: option.splits if_splits)

lemma source_statements:
  assumes "secrets_sealed S d"
  shows "sealed_for (sv_sources S (src_Kind x)) (src_Config x) \<Longrightarrow> secrets_sealed S (snd (Sources_Create flt i now x d))"
    and "sealed_for (sv_sources S (src_Kind x)) (src_Config x) \<Longrightarrow> secrets_sealed S (snd (Sources_Update flt now x d))"
    and "secrets_sealed S (snd (Sources_Delete flt rid d))"
    and "secrets_sealed S (snd (Sources_SetTestResult flt rid ok msg now d))"
  using assms
  by (auto simp: secrets_sealed_def Sources_Create_def Sources_Update_def Sources_Delete_def Sources_SetTestResult_def
      Let_def src_row_def src_assign_def delete_row_def update_rows_def split: option.split
      dest!: insert_unique_set update_unique_set)


lemma destination_statements:
  assumes "secrets_sealed S d"
  shows "sealed_for (sv_destinations S (dst_Kind x)) (dst_Config x) \<Longrightarrow> secrets_sealed S (snd (Destinations_Create flt i now x d))"
    and "sealed_for (sv_destinations S (dst_Kind x)) (dst_Config x) \<Longrightarrow> secrets_sealed S (snd (Destinations_Update flt flt2 now x d))"
    and "secrets_sealed S (snd (Destinations_Delete flt rid d))"
    and "secrets_sealed S (snd (Destinations_SetTestResult flt rid ok msg now d))"
  using assms
  by (auto simp: secrets_sealed_def Destinations_Create_def Destinations_Update_def Destinations_Delete_def
      Destinations_SetTestResult_def Let_def dst_row_def dst_assign_def delete_row_def update_rows_def split: option.split
      dest!: insert_unique_set update_unique_set)

lemma channel_statements:
  assumes "secrets_sealed S d"
  shows "sealed_for (sv_notifiers S (chn_Kind x)) (chn_Config x) \<Longrightarrow> secrets_sealed S (snd (Channels_Create flt i now x d))"
    and "sealed_for (sv_notifiers S (chn_Kind x)) (chn_Config x) \<Longrightarrow> secrets_sealed S (snd (Channels_Update flt now x d))"
    and "secrets_sealed S (snd (Channels_Delete flt rid d))"
  using assms
  by (auto simp: secrets_sealed_def Channels_Create_def Channels_Update_def Channels_Delete_def
      Let_def chn_row_def chn_assign_def delete_row_def update_rows_def split: option.split
      dest!: insert_unique_set update_unique_set)

lemma sealed_host_simps [simp]:
  "sealed_host (host_row h) = sealed_host h" "sealed_host (normalizeHost h) = sealed_host h"
  "sealed_host (h\<lparr>host_ID := i\<rparr>) = sealed_host h" "sealed_host (h\<lparr>host_CreatedAt := t\<rparr>) = sealed_host h"
  "sealed_host (h\<lparr>host_UpdatedAt := t\<rparr>) = sealed_host h" "sealed_host (host_assign h r) = sealed_host h"
  "sealed_host (h\<lparr>host_LastTestAt := lt, host_LastTestOK := ok, host_LastTestError := msg, host_LastSeenOS := os, host_Tools := ts\<rparr>)
     = sealed_host h"
  "sealed_host (join_sources d h) = sealed_host h"
  by (simp_all add: sealed_host_def host_row_def normalizeHost_def host_assign_def join_sources_def)

definition hosts_sealed :: "Host list \<Rightarrow> bool" where
  "hosts_sealed hs \<longleftrightarrow> (\<forall>h\<in>set hs. sealed_host h)"

lemma hosts_sealed_rows:
  "hosts_sealed hs \<Longrightarrow> sealed_host x \<Longrightarrow> insert_unique host_ID host_Name (host_row x) hs = Some hs' \<Longrightarrow> hosts_sealed hs'"
  "hosts_sealed hs \<Longrightarrow> sealed_host x \<Longrightarrow> update_unique host_ID host_Name i (host_assign x) hs = Some hs' \<Longrightarrow> hosts_sealed hs'"
  by (auto simp: hosts_sealed_def dest!: insert_unique_set update_unique_set)

lemma secrets_sealed_hosts: "secrets_sealed S d \<Longrightarrow> hosts_sealed hs \<Longrightarrow> secrets_sealed S (d\<lparr>t_hosts := hs\<rparr>)"
  by (simp add: secrets_sealed_def hosts_sealed_def)

lemma host_statements:
  assumes sealed: "secrets_sealed S d"
  shows "sealed_host x \<Longrightarrow> secrets_sealed S (snd (Hosts_Create flt i now x d))"
    and "sealed_host x \<Longrightarrow> secrets_sealed S (snd (Hosts_Update flt now x d))"
    and "secrets_sealed S (snd (Hosts_Delete flt flt2 rid d))"
    and "secrets_sealed S (snd (Hosts_SetTestResult flt now rid ok msg os tools d))"
proof -
  have hs: "hosts_sealed (t_hosts d)" using sealed by (simp add: secrets_sealed_def hosts_sealed_def)
  show "sealed_host x \<Longrightarrow> secrets_sealed S (snd (Hosts_Create flt i now x d))"
    by (auto simp: Hosts_Create_def Let_def sealed split: option.split intro!: secrets_sealed_hosts elim!: hosts_sealed_rows(1) [OF hs, rotated])
  show "sealed_host x \<Longrightarrow> secrets_sealed S (snd (Hosts_Update flt now x d))"
    by (auto simp: Hosts_Update_def Let_def sealed split: option.split intro!: secrets_sealed_hosts elim!: hosts_sealed_rows(2) [OF hs, rotated])
  have "hosts_sealed (delete_row host_ID rid (t_hosts d))" using hs by (simp add: hosts_sealed_def delete_row_def)
  then show "secrets_sealed S (snd (Hosts_Delete flt flt2 rid d))"
    by (auto simp: Hosts_Delete_def sealed split: option.split intro!: secrets_sealed_hosts)
  have "hosts_sealed (update_rows (\<lambda>r. host_ID r = rid) (\<lambda>r. r\<lparr>host_LastTestAt := Some now, host_LastTestOK := Some ok,
      host_LastTestError := msg, host_LastSeenOS := os, host_Tools := tools\<rparr>) (t_hosts d))"
    using hs by (auto simp: hosts_sealed_def update_rows_def)
  then show "secrets_sealed S (snd (Hosts_SetTestResult flt now rid ok msg os tools d))"
    by (auto simp: Hosts_SetTestResult_def sealed split: option.split intro!: secrets_sealed_hosts)
qed

text \<open>Statements about jobs and settings leave the configurations alone, and the other way round.\<close>

definition same_configs :: "db \<Rightarrow> db \<Rightarrow> bool" where
  "same_configs d d' \<longleftrightarrow> t_sources d' = t_sources d \<and> t_destinations d' = t_destinations d \<and> t_channels d' = t_channels d
     \<and> t_hosts d' = t_hosts d"

lemma same_configs_sealed: "same_configs d d' \<Longrightarrow> secrets_sealed S d \<Longrightarrow> secrets_sealed S d'"
  by (simp add: secrets_sealed_def same_configs_def)

lemma same_configs_statements:
  "same_configs d (snd (Jobs_Create flt i now j d))"
  "same_configs d (snd (Jobs_Update flt flt2 flt3 now j d))"
  "same_configs d (snd (Jobs_SetEnabled flt now i b d))"
  "same_configs d (snd (Jobs_Delete flt flt2 i b d))"
  "same_configs d (snd (SetNextRun flt now i t d))"
  "same_configs d (snd (Settings_Save flt st d))"
  "same_configs d (snd (snd (enqueue_locked flt now run (e, d))))"
  "same_configs d (d\<lparr>t_audit := rows\<rparr>)"
proof -
  show "same_configs d (snd (Jobs_Create flt i now j d))"
    by (simp add: same_configs_def Jobs_Create_def Let_def split: option.split)
  show "same_configs d (snd (Jobs_Update flt flt2 flt3 now j d))"
    by (simp add: same_configs_def Jobs_Update_def Let_def split: option.split)
  show "same_configs d (snd (Jobs_SetEnabled flt now i b d))"
    by (simp add: same_configs_def Jobs_SetEnabled_def Let_def split: option.split)
  show "same_configs d (snd (Jobs_Delete flt flt2 i b d))"
    by (simp add: same_configs_def Jobs_Delete_def Let_def split: option.split)
  show "same_configs d (snd (SetNextRun flt now i t d))"
    by (simp add: same_configs_def SetNextRun_def upsert_state_def Let_def split: option.split)
  show "same_configs d (snd (Settings_Save flt st d))"
    by (simp add: same_configs_def Settings_Save_def Let_def split: option.split)
  show "same_configs d (snd (snd (enqueue_locked flt now run (e, d))))"
    by (simp add: same_configs_def enqueue_locked_def Runs_Create_def Let_def split: option.split prod.split sum.split)
qed (simp add: same_configs_def)

lemma same_jobs_statements:
  "t_jobs (snd (Sources_Create flt i now x1 d)) = t_jobs d"
  "t_jobs (snd (Sources_Update flt now x1 d)) = t_jobs d"
  "t_jobs (snd (Sources_Delete flt rid d)) = t_jobs d"
  "t_jobs (snd (Sources_SetTestResult flt rid ok msg now d)) = t_jobs d"
  "t_jobs (snd (Destinations_Create flt i now x2 d)) = t_jobs d"
  "t_jobs (snd (Destinations_Update flt flt2 now x2 d)) = t_jobs d"
  "t_jobs (snd (Destinations_Delete flt rid d)) = t_jobs d"
  "t_jobs (snd (Destinations_SetTestResult flt rid ok msg now d)) = t_jobs d"
  "t_jobs (snd (Channels_Create flt i now x3 d)) = t_jobs d"
  "t_jobs (snd (Channels_Update flt now x3 d)) = t_jobs d"
  "t_jobs (snd (Channels_Delete flt rid d)) = t_jobs d"
  "t_jobs (snd (Hosts_Create flt i now x4 d)) = t_jobs d"
  "t_jobs (snd (Hosts_Update flt now x4 d)) = t_jobs d"
  "t_jobs (snd (Hosts_Delete flt flt2 rid d)) = t_jobs d"
  "t_jobs (snd (Hosts_SetTestResult flt now rid ok msg os tools d)) = t_jobs d"
  "t_jobs (snd (Settings_Save flt st d)) = t_jobs d"
  by (simp_all add: Sources_Create_def Sources_Update_def Sources_Delete_def Sources_SetTestResult_def Destinations_Create_def Destinations_Update_def Destinations_Delete_def Destinations_SetTestResult_def Channels_Create_def Channels_Update_def Channels_Delete_def Hosts_Create_def Hosts_Update_def Hosts_Delete_def Hosts_SetTestResult_def Settings_Save_def
      Let_def split: option.split)

lemmas jobs_statements = jobs_ok_frame [OF same_jobs_statements(1)]

end
