(* ===== verification/Configs_Keeps.thy ===== *)
theory Configs_Keeps
  imports Configs_Checks
begin

text \<open>
  The handlers of the configuration, the import and the handlers of jobs keep the stored secrets encrypted and
  the stored jobs well-formed (\<open>config_ok\<close>), handler by handler.
\<close>

section \<open>Handlers\<close>

definition config_ok :: "site \<Rightarrow> db \<Rightarrow> bool" where
  "config_ok S d \<longleftrightarrow> secrets_sealed S d \<and> jobs_ok (sv_clockwork S) d"

lemma config_okI: "secrets_sealed S d' \<Longrightarrow> t_jobs d' = t_jobs d \<Longrightarrow> config_ok S d \<Longrightarrow> config_ok S d'"
  by (simp add: config_ok_def jobs_ok_def)

named_theorems kept \<open>statements that keep the configuration\<close>

lemma config_statements [kept]:
  assumes "config_ok S d"
  shows "sealed_for (sv_sources S (src_Kind x1)) (src_Config x1) \<Longrightarrow> config_ok S (snd (Sources_Create flt i now x1 d))"
    "sealed_for (sv_sources S (src_Kind x1)) (src_Config x1) \<Longrightarrow> config_ok S (snd (Sources_Update flt now x1 d))"
    "config_ok S (snd (Sources_Delete flt rid d))" "config_ok S (snd (Sources_SetTestResult flt rid ok msg now d))"
    "sealed_for (sv_destinations S (dst_Kind x2)) (dst_Config x2) \<Longrightarrow> config_ok S (snd (Destinations_Create flt i now x2 d))"
    "sealed_for (sv_destinations S (dst_Kind x2)) (dst_Config x2) \<Longrightarrow> config_ok S (snd (Destinations_Update flt flt2 now x2 d))"
    "config_ok S (snd (Destinations_Delete flt rid d))" "config_ok S (snd (Destinations_SetTestResult flt rid ok msg now d))"
    "sealed_for (sv_notifiers S (chn_Kind x3)) (chn_Config x3) \<Longrightarrow> config_ok S (snd (Channels_Create flt i now x3 d))"
    "sealed_for (sv_notifiers S (chn_Kind x3)) (chn_Config x3) \<Longrightarrow> config_ok S (snd (Channels_Update flt now x3 d))"
    "config_ok S (snd (Channels_Delete flt rid d))"
    "sealed_host x4 \<Longrightarrow> config_ok S (snd (Hosts_Create flt i now x4 d))"
    "sealed_host x4 \<Longrightarrow> config_ok S (snd (Hosts_Update flt now x4 d))"
    "config_ok S (snd (Hosts_Delete flt flt2 rid d))" "config_ok S (snd (Hosts_SetTestResult flt now rid ok msg os tools d))"
    "config_ok S (snd (Settings_Save flt st d))" "config_ok S (d\<lparr>t_audit := rows\<rparr>)"
proof -
  have sealed: "secrets_sealed S d" using assms by (simp add: config_ok_def)
  note statements = source_statements [OF sealed] destination_statements [OF sealed] channel_statements [OF sealed]
    host_statements [OF sealed] same_configs_sealed [OF same_configs_statements(6) sealed]
    same_configs_sealed [OF same_configs_statements(8) sealed]
  show "sealed_for (sv_sources S (src_Kind x1)) (src_Config x1) \<Longrightarrow> config_ok S (snd (Sources_Create flt i now x1 d))"
    "sealed_for (sv_sources S (src_Kind x1)) (src_Config x1) \<Longrightarrow> config_ok S (snd (Sources_Update flt now x1 d))"
    "config_ok S (snd (Sources_Delete flt rid d))" "config_ok S (snd (Sources_SetTestResult flt rid ok msg now d))"
    "sealed_for (sv_destinations S (dst_Kind x2)) (dst_Config x2) \<Longrightarrow> config_ok S (snd (Destinations_Create flt i now x2 d))"
    "sealed_for (sv_destinations S (dst_Kind x2)) (dst_Config x2) \<Longrightarrow> config_ok S (snd (Destinations_Update flt flt2 now x2 d))"
    "config_ok S (snd (Destinations_Delete flt rid d))" "config_ok S (snd (Destinations_SetTestResult flt rid ok msg now d))"
    "sealed_for (sv_notifiers S (chn_Kind x3)) (chn_Config x3) \<Longrightarrow> config_ok S (snd (Channels_Create flt i now x3 d))"
    "sealed_for (sv_notifiers S (chn_Kind x3)) (chn_Config x3) \<Longrightarrow> config_ok S (snd (Channels_Update flt now x3 d))"
    "config_ok S (snd (Channels_Delete flt rid d))"
    "sealed_host x4 \<Longrightarrow> config_ok S (snd (Hosts_Create flt i now x4 d))"
    "sealed_host x4 \<Longrightarrow> config_ok S (snd (Hosts_Update flt now x4 d))"
    "config_ok S (snd (Hosts_Delete flt flt2 rid d))" "config_ok S (snd (Hosts_SetTestResult flt now rid ok msg os tools d))"
    "config_ok S (snd (Settings_Save flt st d))" "config_ok S (d\<lparr>t_audit := rows\<rparr>)"
    by ((rule config_okI [OF _ _ assms]; (rule statements | simp only: same_jobs_statements | simp); assumption?)+)
qed

lemma keeps_looks: "(\<And>d. looks d m Q) \<Longrightarrow> keeps (on_db P) m"
  by (rule keepsI) (simp add: looks_def on_db_def)

lemma after_all_looks: "(\<And>d. looks d m Q) \<Longrightarrow> after P m (\<lambda>x d. P d \<and> Q x)"
  by (auto simp: after_def looks_def)

lemma keeps_finds [wp]:
  "keeps (on_db P) (find_source i)" "keeps (on_db P) (find_destination i)" "keeps (on_db P) (find_channel i)"
  "keeps (on_db P) (find_host i)" "keeps (on_db P) (validateSourceHost spec hid)" "keeps (on_db P) (new_key S)"
  "keeps (on_db P) (TestHost S h)" "keeps (on_db P) (list_hosts)" "keeps (on_db P) (list_sources)"
  "keeps (on_db P) (list_destinations)" "keeps (on_db P) ReloadSettings"
proof -
  show "keeps (on_db P) ReloadSettings"
    unfolding ReloadSettings_def by (intro wp) (auto simp: on_db_def split: prod.split option.split intro!: wp)
qed (unfold find_source_def find_destination_def find_channel_def find_host_def validateSourceHost_def Let_def new_key_def
    keyComment_def TestHost_def list_hosts_def list_sources_def list_destinations_def, (intro wp)+)

lemma keeps_unless_failure [wp]: "keeps P k \<Longrightarrow> keeps P (unless_failure r k)"
  by (auto simp: unless_failure_def intro: keeps_return split: option.split)

lemmas after_prepare = after_all_looks [OF looks_prepareConfigOnHost]

lemmas after_seal = after_all_looks [OF looks_seal_host]

lemma spec_ofD: "spec_of what kind found = Inr drv \<Longrightarrow> found = Some drv"
  by (auto simp: spec_of_def split: option.splits)


lemma sealed_prepared:
  "spec_of what kind found = Inr drv \<Longrightarrow> sealed_config (SecretFields (drv_Spec drv)) cfg \<Longrightarrow> sealed_for found cfg"
  by (auto simp: sealed_for_def dest: spec_ofD)

lemma keeps_audit_config [wp]: "keeps (on_db (config_ok S)) (audit r p a t i n ds)"
  by (rule keeps_audit) (rule kept)

lemma source_handlers:
  "keeps (on_db (config_ok S)) (handleCreateSource S r p b1)" "keeps (on_db (config_ok S)) (handleUpdateSource S r p i b1)"
  "keeps (on_db (config_ok S)) (handleDeleteSource r p i)"
proof -
  show "keeps (on_db (config_ok S)) (handleCreateSource S r p b1)"
    unfolding handleCreateSource_def
    by (intro keeps_bind_after [OF after_prepare] wp) (auto simp: sourceSpec_def intro!: kept dest: sealed_prepared)
  show "keeps (on_db (config_ok S)) (handleUpdateSource S r p i b1)"
    unfolding handleUpdateSource_def Let_def
    by (intro keeps_bind_after [OF after_prepare] wp) (auto simp: sourceSpec_def intro!: kept dest: sealed_prepared)
  show "keeps (on_db (config_ok S)) (handleDeleteSource r p i)"
    unfolding handleDeleteSource_def by (intro wp kept)
qed

lemma destination_handlers:
  "keeps (on_db (config_ok S)) (handleCreateDestination S r p b2)" "keeps (on_db (config_ok S)) (handleUpdateDestination S r p i b2)"
  "keeps (on_db (config_ok S)) (handleDeleteDestination r p i)"
proof -
  show "keeps (on_db (config_ok S)) (handleCreateDestination S r p b2)"
    unfolding handleCreateDestination_def prepareConfig_def
    by (intro keeps_bind_after [OF after_prepare] wp) (auto simp: destinationSpec_def intro!: kept dest: sealed_prepared)
  show "keeps (on_db (config_ok S)) (handleUpdateDestination S r p i b2)"
    unfolding handleUpdateDestination_def Let_def prepareConfig_def
    by (intro keeps_bind_after [OF after_prepare] wp) (auto simp: destinationSpec_def intro!: kept dest: sealed_prepared)
  show "keeps (on_db (config_ok S)) (handleDeleteDestination r p i)"
    unfolding handleDeleteDestination_def by (intro wp kept)
qed

lemma channel_handlers:
  "keeps (on_db (config_ok S)) (handleCreateChannel S r p b3)" "keeps (on_db (config_ok S)) (handleUpdateChannel S r p i b3)"
  "keeps (on_db (config_ok S)) (handleDeleteChannel r p i)"
proof -
  show "keeps (on_db (config_ok S)) (handleCreateChannel S r p b3)"
    unfolding handleCreateChannel_def prepareConfig_def
    by (intro keeps_bind_after [OF after_prepare] wp) (auto simp: notifierSpec_def intro!: kept dest: sealed_prepared)
  show "keeps (on_db (config_ok S)) (handleUpdateChannel S r p i b3)"
    unfolding handleUpdateChannel_def Let_def prepareConfig_def
    by (intro keeps_bind_after [OF after_prepare] wp) (auto simp: notifierSpec_def intro!: kept dest: sealed_prepared)
  show "keeps (on_db (config_ok S)) (handleDeleteChannel r p i)"
    unfolding handleDeleteChannel_def by (intro wp kept)
qed

lemma keeps_save_host: "keeps (on_db (config_ok S)) (save_host S r p a ds h)"
  unfolding save_host_def by (intro keeps_bind_after [OF after_seal] wp) (auto intro!: kept)

lemma host_handlers:
  "keeps (on_db (config_ok S)) (handleCreateHost S r p b4)" "keeps (on_db (config_ok S)) (handleUpdateHost S r p i b4)"
  "keeps (on_db (config_ok S)) (handleDeleteHost r p i)" "keeps (on_db (config_ok S)) (handleHostKeygen S r p i)"
  "keeps (on_db (config_ok S)) (handleKeygen S r p)" "keeps (on_db (config_ok S)) (handleTestHost S r p i)"
  "keeps (on_db (config_ok S)) (handleUpdateSettings S r p b5)"
proof -
  show "keeps (on_db (config_ok S)) (handleCreateHost S r p b4)"
    unfolding handleCreateHost_def Let_def by (intro keeps_bind_after [OF after_seal] wp) (auto intro!: kept)
  show "keeps (on_db (config_ok S)) (handleUpdateHost S r p i b4)"
    unfolding handleUpdateHost_def Let_def by (intro wp keeps_save_host)
  show "keeps (on_db (config_ok S)) (handleDeleteHost r p i)"
    unfolding handleDeleteHost_def by (intro wp kept)
  show "keeps (on_db (config_ok S)) (handleHostKeygen S r p i)"
    unfolding handleHostKeygen_def by (intro wp keeps_save_host)
  show "keeps (on_db (config_ok S)) (handleKeygen S r p)"
    unfolding handleKeygen_def by (intro wp)
  show "keeps (on_db (config_ok S)) (handleTestHost S r p i)"
    unfolding handleTestHost_def by (intro wp kept)
  show "keeps (on_db (config_ok S)) (handleUpdateSettings S r p b5)"
    unfolding handleUpdateSettings_def Let_def by (intro wp kept)
qed

section \<open>Jobs\<close>

lemma keeps_orstop [wp]: "(\<And>x. r = Inr x \<Longrightarrow> keeps P (k x)) \<Longrightarrow> keeps P (orstop r k)"
  by (cases r) (auto simp: orstop_def intro: keeps_return)

lemma keeps_proceed [wp]: "keeps P m \<Longrightarrow> (\<And>x. keeps P (k x)) \<Longrightarrow> keeps P (proceed m k)"
  unfolding proceed_def by (intro wp)

lemma keeps_proceed_after:
  "after P m (\<lambda>x d. P d \<and> R x) \<Longrightarrow> (\<And>x. R (Inr x) \<Longrightarrow> keeps (on_db P) (k x)) \<Longrightarrow> keeps (on_db P) (proceed m k)"
  unfolding proceed_def
proof (rule keeps_bind_after, assumption, goal_cases)
  case (1 x)
  then show ?case by (cases x) (auto intro: keeps_return)
qed

lemma keeps_check_destinations [wp]: "keeps (on_db P) (check_destinations is seen ids ve)"
  by (induction "is" arbitrary: seen ids ve) (auto intro!: wp split: option.split)

lemma keeps_check_channels [wp]: "keeps (on_db P) (check_channels is ve)"
  by (induction "is" arbitrary: ve) (auto intro!: wp)

lemma keeps_check_slug [wp]: "keeps (on_db P) (check_slug ex slug)"
  unfolding check_slug_def by (intro wp)

lemma keeps_unique_loop [wp]: "keeps (on_db P) (unique_loop base (check_slug ex) is c)"
  by (induction "is" arbitrary: c) (auto intro!: wp split: sum.split bool.split)

lemma keeps_validateJob [wp]: "keeps (on_db P) (validateJob S req existing)"
  unfolding validateJob_def check_source_def check_passphrase_def check_job_slug_def uniqueSlug_def Let_def
  by (intro wp)

lemma keeps_uniqueSlug [wp]: "keeps (on_db P) (uniqueSlug base (check_slug ex))"
  unfolding uniqueSlug_def Let_def by (intro wp)

lemma keeps_jobRef [wp]: "keeps (on_db P) (jobRef ref)"
  unfolding jobRef_def by (intro wp)

lemma job_handlers_sealed:
  assumes P: "P = secrets_sealed S"
  shows "keeps (on_db P) (serve_job S q)"
proof -
  have same: "P d'" if "same_configs d d'" "P d" for d d' using same_configs_sealed that P by blast
  note st = same_configs_statements [THEN same]
  have audit: "keeps (on_db P) (audit r p a t i n ds)" for r p a t i n ds by (rule keeps_audit) (rule st)
  have refresh: "keeps (on_db P) (refreshJobSchedule S i)" for i unfolding refreshJobSchedule_def by (intro wp st)
  have new: "keeps (on_db P) (save_new_job S r p j a ds)" for r p j a ds
    unfolding save_new_job_def by (intro wp audit refresh st)
  obtain r p x where q: "q = (r, p, x)" using prod_cases3 by blast
  have "keeps (on_db P) (handleCreateJob S r p b)" for b
    unfolding handleCreateJob_def by (intro wp new)
  moreover have "keeps (on_db P) (handleUpdateJob S r p ref b)" for ref b
    unfolding handleUpdateJob_def by (intro wp audit refresh st)
  moreover have "keeps (on_db P) (handleDeleteJob r p ref)" for ref
    unfolding handleDeleteJob_def by (intro wp audit st)
  moreover have "keeps (on_db P) (setJobEnabled S r p ref b)" for ref b
    unfolding setJobEnabled_def by (intro wp audit refresh st)
  moreover have "keeps (on_db P) (handleDuplicateJob S r p ref)" for ref
    unfolding handleDuplicateJob_def by (intro wp new)
  moreover have "keeps (on_db P) (handleRunJob r p ref)" "keeps (on_db P) (handlePruneJob r p ref)" for ref
    unfolding handleRunJob_def handlePruneJob_def enqueue_job_def EnqueueBackup_def EnqueuePrune_def
    by (intro wp audit; (rule st, assumption)?; simp split: option.split prod.split; auto intro: st)+
  ultimately show ?thesis unfolding q by (cases x) (auto intro!: keeps_discard)
qed

lemma keeps_both: "keeps (on_db P) m \<Longrightarrow> keeps (on_db Q) m \<Longrightarrow> keeps (on_db (\<lambda>d. P d \<and> Q d)) m"
  by (auto simp: keeps_def valid_def on_db_def)

lemma job_handlers_config: "keeps (on_db (config_ok S)) (serve_job S q)"
  unfolding config_ok_def [abs_def] by (rule keeps_both [OF job_handlers_sealed [OF refl] serve_job_ok])

section \<open>Import\<close>

lemma keeps_current_of [wp]: "(\<And>i. keeps P (fetch i)) \<Longrightarrow> keeps P (current_of e fetch)"
  unfolding current_of_def by (intro wp)

lemma keeps_valid_or_stop [wp]: "keeps P k \<Longrightarrow> keeps P (valid_or_stop r k)"
  by (auto simp: valid_or_stop_def intro: keeps_return split: option.split)

lemma keeps_import_loop: "(\<And>x acc. keeps P (step x acc)) \<Longrightarrow> keeps P (import_loop step xs acc)"
  by (induction xs arbitrary: acc) (auto intro!: wp)


lemma keeps_import_host: "keeps (on_db (config_ok S)) (import_host S dry item acc)"
  unfolding import_host_def Let_def
  by (intro keeps_bind_after [OF after_seal] wp) (auto intro!: kept)

lemma keeps_import_source_host [wp]: "keeps (on_db P) (import_source_host spec ids n)"
  unfolding import_source_host_def Let_def by (intro wp)

lemma keeps_proceed_return: "(\<And>x. r = Inr x \<Longrightarrow> keeps P (k x)) \<Longrightarrow> keeps P (proceed (return r) k)"
  by (cases r) (auto simp: proceed_def intro: keeps_return)

lemmas import_steps = keeps_proceed_return keeps_proceed_after [OF after_prepare] wp

lemma keeps_import_rows:
  "keeps (on_db (config_ok S)) (import_source S dry hostIDs item1 acc)"
  "keeps (on_db (config_ok S)) (import_destination S dry item2 acc)"
  "keeps (on_db (config_ok S)) (import_channel S dry item3 acc)"
proof -
  show "keeps (on_db (config_ok S)) (import_source S dry hostIDs item1 acc)"
    unfolding import_source_def Let_def prepareConfig_def
    by (intro import_steps) (auto simp: sourceSpec_def intro!: kept dest: sealed_prepared)
  show "keeps (on_db (config_ok S)) (import_destination S dry item2 acc)"
    unfolding import_destination_def Let_def prepareConfig_def
    by (intro import_steps) (auto simp: destinationSpec_def intro!: kept dest: sealed_prepared)
  show "keeps (on_db (config_ok S)) (import_channel S dry item3 acc)"
    unfolding import_channel_def Let_def prepareConfig_def
    by (intro import_steps) (auto simp: notifierSpec_def intro!: kept dest: sealed_prepared)
qed

lemma after_config_validateJob:
  assumes "previous_ok existing"
  shows "after (config_ok S) (validateJob S req existing)
     (\<lambda>res d. config_ok S d \<and> (\<forall>job. res = Inr job \<longrightarrow> job_ok (sv_clockwork S) job))"
  by (rule after_conseq [OF after_looks [where P = "config_ok S", OF looks_validateJob [OF assms]]]) (auto simp: accepted_def)

lemma config_job_statements:
  assumes "config_ok S d" and "job_ok (sv_clockwork S) j"
  shows "config_ok S (snd (Jobs_Create flt i now j d))" and "config_ok S (snd (Jobs_Update flt flt2 flt3 now j d))"
  using assms Jobs_Create_jobs [of "sv_clockwork S" d j] Jobs_Update_jobs [of "sv_clockwork S" d j]
    same_configs_sealed [OF same_configs_statements(1)] same_configs_sealed [OF same_configs_statements(2)]
  by (auto simp: config_ok_def)

lemma after_GetBySlug:
  "after (config_ok S) (lookup (\<lambda>flt. Jobs_GetBySlug flt flt2 slug))
     (\<lambda>r d. config_ok S d \<and> (\<forall>old. found_or_missing r = Inr old \<longrightarrow> previous_ok old))"
proof (rule after_conseq [OF after_lookup], assumption, elim conjE exE, intro conjI allI impI, assumption)
  fix r d flt old
  assume "config_ok S d" "r = Jobs_GetBySlug flt flt2 slug d" "found_or_missing r = Inr old"
  then show "previous_ok old"
    using Jobs_found(2) [of "sv_clockwork S" d flt flt2 slug] job_ok_previous
    by (auto simp: config_ok_def found_or_missing_def previous_ok_def split: sum.splits if_splits)
qed

lemma keeps_import_job: "keeps (on_db (config_ok S)) (import_job S dry m1 m2 m3 item changes)"
  unfolding import_job_def Let_def
  by (intro keeps_bind_after [OF after_GetBySlug] keeps_proceed_after [OF after_config_validateJob] wp)
     (auto intro: config_job_statements)

lemma keeps_handleImport: "keeps (on_db (config_ok S)) (handleImport S r p b)"
  unfolding handleImport_def import_document_def Let_def
  by (intro wp keeps_import_loop keeps_import_host keeps_import_rows keeps_import_job)

end
