(* ===== verification/Configs_Props.thy ===== *)
theory Configs_Props
  imports Configs_Keeps
begin

text \<open>
  Properties of the configuration: secrets stay encrypted at rest under every handler that writes, replies and
  exports show none, a masked configuration sent back keeps them, and a dry run of an import changes nothing.
\<close>

section \<open>Requests\<close>

datatype config_request =
    CreateSourceReq "sourceRequest body" | UpdateSourceReq string "sourceRequest body" | DeleteSourceReq string
  | CreateDestinationReq "destinationRequest body" | UpdateDestinationReq string "destinationRequest body" | DeleteDestinationReq string
  | CreateChannelReq "channelRequest body" | UpdateChannelReq string "channelRequest body" | DeleteChannelReq string
  | CreateHostReq "hostRequest body" | UpdateHostReq string "hostRequest body" | DeleteHostReq string
  | KeygenReq | HostKeygenReq string | TestHostReq string
  | UpdateSettingsReq "(Settings \<Rightarrow> Settings) body" | ImportReq yaml_body | JobReq job_request

fun serve_config :: "site \<Rightarrow> request \<times> Principal option \<times> config_request \<Rightarrow> unit web_op" where
  "serve_config S (r, p, CreateSourceReq b) = discard (handleCreateSource S r p b)"
| "serve_config S (r, p, UpdateSourceReq i b) = discard (handleUpdateSource S r p i b)"
| "serve_config S (r, p, DeleteSourceReq i) = discard (handleDeleteSource r p i)"
| "serve_config S (r, p, CreateDestinationReq b) = discard (handleCreateDestination S r p b)"
| "serve_config S (r, p, UpdateDestinationReq i b) = discard (handleUpdateDestination S r p i b)"
| "serve_config S (r, p, DeleteDestinationReq i) = discard (handleDeleteDestination r p i)"
| "serve_config S (r, p, CreateChannelReq b) = discard (handleCreateChannel S r p b)"
| "serve_config S (r, p, UpdateChannelReq i b) = discard (handleUpdateChannel S r p i b)"
| "serve_config S (r, p, DeleteChannelReq i) = discard (handleDeleteChannel r p i)"
| "serve_config S (r, p, CreateHostReq b) = discard (handleCreateHost S r p b)"
| "serve_config S (r, p, UpdateHostReq i b) = discard (handleUpdateHost S r p i b)"
| "serve_config S (r, p, DeleteHostReq i) = discard (handleDeleteHost r p i)"
| "serve_config S (r, p, KeygenReq) = discard (handleKeygen S r p)"
| "serve_config S (r, p, HostKeygenReq i) = discard (handleHostKeygen S r p i)"
| "serve_config S (r, p, TestHostReq i) = discard (handleTestHost S r p i)"
| "serve_config S (r, p, UpdateSettingsReq b) = discard (handleUpdateSettings S r p b)"
| "serve_config S (r, p, ImportReq b) = discard (handleImport S r p b)"
| "serve_config S (r, p, JobReq q) = serve_job S (r, p, q)"

fun serve_configs :: "site \<Rightarrow> (request \<times> Principal option \<times> config_request) list \<Rightarrow> unit web_op" where
  "serve_configs S [] = return ()"
| "serve_configs S (q # qs) = do { serve_config S q; serve_configs S qs }"

lemma keeps_serve_config: "keeps (on_db (config_ok S)) (serve_config S q)"
proof -
  obtain r p x where q: "q = (r, p, x)" using prod_cases3 by blast
  show ?thesis
    unfolding q
    by (cases x) (simp_all only: serve_config.simps keeps_discard source_handlers destination_handlers channel_handlers
        host_handlers keeps_handleImport job_handlers_config)
qed

section \<open>Properties\<close>

text \<open>C15 (invariant): secret texts at rest. Whatever requests about sources, destinations, channels, hosts,
  settings and jobs are served, imports included and with whatever faults, every text in a secret field of a
  stored configuration whose kind has a driver, and every stored key, passphrase and password of a host, stays
  empty or carries the marker \<open>enc:v1:\<close> of an encrypted value, and every stored job stays well-formed. Two
  kinds of secrets are not covered, and are stored in the clear: a value that is no text, and a text that
  came with the marker.\<close>

theorem stored_secrets_encrypted:
  assumes "secrets_sealed S (web_db w)" and "jobs_ok (sv_clockwork S) (web_db w)"
  shows "secrets_sealed S (web_db (snd (run_state (serve_configs S qs) w)))
    \<and> jobs_ok (sv_clockwork S) (web_db (snd (run_state (serve_configs S qs) w)))"
proof -
  have "keeps (on_db (config_ok S)) (serve_configs S qs)"
    by (induction qs) (auto intro!: wp keeps_serve_config)
  from keepsD [OF this, of w] assms show ?thesis by (simp add: on_db_def config_ok_def)
qed

text \<open>A secret that comes as a number is stored as it is.\<close>

lemma number_secret_in_clear:
  assumes "EncryptConfig c rnd cfg fs = Inr out" and "cfg f = Some (VFloat m k)"
  shows "out f = Some (VFloat m k)"
proof -
  have "foldE (config_step v op) cfg fs = Inr out \<Longrightarrow> cfg f = Some (VFloat m k) \<Longrightarrow> out f = Some (VFloat m k)" for v op
  proof (induction fs arbitrary: cfg)
    case (Cons g fs)
    then obtain cfg' where step: "config_step v op cfg g = Inr cfg'" and rest: "foldE (config_step v op) cfg' fs = Inr out"
      by (auto split: sum.splits)
    have "cfg' f = Some (VFloat m k)"
      using step Cons.prems(2) by (auto simp: config_step_def split: option.splits cfgval.splits sum.splits if_splits)
    with Cons.IH rest show ?case by blast
  qed simp
  with assms show ?thesis unfolding EncryptConfig_def Config_Clone_def by blast
qed

text \<open>A reply satisfies a predicate unless it is an error.\<close>

definition returns :: "('a \<Rightarrow> bool) \<Rightarrow> 'a reply web_op \<Rightarrow> bool" where
  "returns Q m \<longleftrightarrow> (\<forall>w. case fst (run_state m w) of Reply st x \<Rightarrow> Q x | Refuse st cd msg flds \<Rightarrow> True)"

lemma returns_rules:
  "Q x \<Longrightarrow> returns Q (return (Reply st x))" "returns Q (return (fail f))" "returns Q (return (writeError st' cd msg))"
  "(\<And>y. returns Q (k y)) \<Longrightarrow> returns Q (m \<bind> k)"
  "(\<And>y. returns Q (k y)) \<Longrightarrow> returns Q (orfail r k)" "(\<And>y. returns Q (j y)) \<Longrightarrow> returns Q (orinvalid v j)"
  "returns Q n \<Longrightarrow> returns Q (unless_fields msg ve n)" "returns Q n \<Longrightarrow> returns Q (unless_failure fo n)"
  "returns Q n \<Longrightarrow> returns Q (unless_err eo n)"
  "returns Q n \<Longrightarrow> returns Q n' \<Longrightarrow> returns Q (if b then n else n')"
  by (auto simp: returns_def fail_def writeError_def orfail_def orinvalid_def unless_fields_def unless_failure_def unless_err_def
      case_prod_beta split: failure.split sum.split option.split)

definition hides :: "driver option \<Rightarrow> Config \<Rightarrow> bool" where
  "hides found cfg =
     (case found of
        None \<Rightarrow> cfg = Map.empty
      | Some drv \<Rightarrow> \<forall>f\<in>set (SecretFields (drv_Spec drv)). Config_Has cfg f \<longrightarrow> cfg f = Some (VString SecretMask))"

lemma hides_masked: "hides found (masked_config found cfg)"
proof (cases found)
  case (Some drv)
  have "Config_Has (Config_Masked cfg fs) f \<longrightarrow> Config_Masked cfg fs f = Some (VString SecretMask)" if "f \<in> set fs" for f fs
    using that by (auto simp: Masked_apply Config_Has_def cfg_lookup_def)
  with Some show ?thesis by (simp add: hides_def masked_config_def)
qed (simp add: hides_def masked_config_def)

definition source_hidden :: "site \<Rightarrow> Source \<Rightarrow> bool" where
  "source_hidden S x \<longleftrightarrow> hides (sv_sources S (src_Kind x)) (src_Config x)"

definition destination_hidden :: "site \<Rightarrow> Destination \<Rightarrow> bool" where
  "destination_hidden S x \<longleftrightarrow> hides (sv_destinations S (dst_Kind x)) (dst_Config x)"

definition channel_hidden :: "site \<Rightarrow> NotificationChannel \<Rightarrow> bool" where
  "channel_hidden S x \<longleftrightarrow> hides (sv_notifiers S (chn_Kind x)) (chn_Config x)"

definition masked_text :: "string \<Rightarrow> bool" where
  "masked_text s \<longleftrightarrow> s = [] \<or> s = SecretMask"

definition host_hidden :: "Host \<Rightarrow> bool" where
  "host_hidden h \<longleftrightarrow> masked_text (host_PrivateKey h) \<and> masked_text (host_KeyPassphrase h) \<and> masked_text (host_Password h)"

definition job_hidden :: "Job \<Rightarrow> bool" where
  "job_hidden j \<longleftrightarrow> masked_text (job_EncryptionPassphrase j)"

lemma hidden_masks:
  "source_hidden S (maskSource S x1)" "destination_hidden S (maskDestination S x2)" "channel_hidden S (maskChannel S x3)"
  "host_hidden (Host_Masked h)" "job_hidden (maskJob j)"
  by (auto simp: source_hidden_def maskSource_def destination_hidden_def maskDestination_def channel_hidden_def maskChannel_def
      hides_masked host_hidden_def masked_text_def Host_Masked_def mask_secret_def job_hidden_def maskJob_def)

definition listed_all :: "('a \<Rightarrow> bool) \<Rightarrow> 'a list \<times> nat \<Rightarrow> bool" where
  "listed_all Q x \<longleftrightarrow> (\<forall>y\<in>set (fst x). Q y)"


lemma returns_prod: "(\<And>a b. returns Q (f a b)) \<Longrightarrow> returns Q (case x of (a, b) \<Rightarrow> f a b)"
  by (cases x) auto

lemma returns_list: "(\<And>x. Q (g x)) \<Longrightarrow> returns (listed_all Q) (return (Reply st (map g rows, n)))"
  by (rule returns_rules) (simp add: listed_all_def)

lemmas returns_all = returns_rules hidden_masks returns_prod returns_list

text \<open>C16 (safety): successful replies mask stored secrets. Whatever is asked of sources, destinations, channels,
  hosts and jobs by the handlers that read, list, create, change, enable or duplicate them or give a stored host a
  new key, a reply that is not an error has every set secret field replaced by the mask; of a kind without a driver
  it shows no configuration at all. Texts of error replies are not covered, nor is \<open>handleKeygen\<close>, which
  stores nothing and answers with the new private key it was asked for.\<close>

theorem replies_hide_secrets:
  "returns (source_hidden S) (handleGetSource S i) \<and> returns (listed_all (source_hidden S)) (handleListSources S r)
   \<and> returns (source_hidden S) (handleCreateSource S r p b1) \<and> returns (source_hidden S) (handleUpdateSource S r p i b1)
   \<and> returns (destination_hidden S) (handleGetDestination S i) \<and> returns (listed_all (destination_hidden S)) (handleListDestinations S r)
   \<and> returns (destination_hidden S) (handleCreateDestination S r p b2) \<and> returns (destination_hidden S) (handleUpdateDestination S r p i b2)
   \<and> returns (channel_hidden S) (handleGetChannel S i) \<and> returns (listed_all (channel_hidden S)) (handleListChannels S)
   \<and> returns (channel_hidden S) (handleCreateChannel S r p b3) \<and> returns (channel_hidden S) (handleUpdateChannel S r p i b3)
   \<and> returns host_hidden (handleGetHost i) \<and> returns (listed_all host_hidden) (handleListHosts r)
   \<and> returns host_hidden (handleCreateHost S r p b4) \<and> returns host_hidden (handleUpdateHost S r p i b4)
   \<and> returns host_hidden (handleHostKeygen S r p i)
   \<and> returns job_hidden (handleGetJob i) \<and> returns (listed_all job_hidden) (handleListJobs r)
   \<and> returns job_hidden (handleCreateJob S r p b5) \<and> returns job_hidden (handleUpdateJob S r p i b5)
   \<and> returns job_hidden (setJobEnabled S r p i e) \<and> returns job_hidden (handleDuplicateJob S r p i)"
proof -
  have job: "returns job_hidden (answer_job st j)" for st j
    unfolding answer_job_def by (intro returns_all)
  have new: "returns job_hidden (save_new_job S r p j a ds)" for r p j a ds
    unfolding save_new_job_def by (intro returns_all job)
  have host: "returns host_hidden (save_host S r p a ds h)" for r p a ds h
    unfolding save_host_def by (intro returns_all)
  show ?thesis
    unfolding handleGetSource_def handleListSources_def handleCreateSource_def handleUpdateSource_def
      handleGetDestination_def handleListDestinations_def handleCreateDestination_def handleUpdateDestination_def
      handleGetChannel_def handleListChannels_def handleCreateChannel_def handleUpdateChannel_def
      handleGetHost_def handleListHosts_def handleCreateHost_def handleUpdateHost_def handleHostKeygen_def
      handleGetJob_def handleListJobs_def handleCreateJob_def handleUpdateJob_def setJobEnabled_def handleDuplicateJob_def
      Let_def maskJobs_def
    by (intro conjI returns_all job new host)
qed

text \<open>A document without secrets.\<close>

definition document_hides :: "site \<Rightarrow> exportDocument \<Rightarrow> bool" where
  "document_hides S doc \<longleftrightarrow>
     (\<forall>x\<in>set (doc_Hosts doc). masked_text (eh_PrivateKey x) \<and> masked_text (eh_KeyPassphrase x) \<and> masked_text (eh_Password x))
   \<and> (\<forall>x\<in>set (doc_Sources doc). hides (sv_sources S (es_Kind x)) (es_Config x))
   \<and> (\<forall>x\<in>set (doc_Destinations doc). hides (sv_destinations S (ed_Kind x)) (ed_Config x))
   \<and> (\<forall>x\<in>set (doc_Channels doc). hides (sv_notifiers S (ec_Kind x)) (ec_Config x))
   \<and> (\<forall>x\<in>set (doc_Jobs doc). masked_text (ej_EncryptionPassphrase x))"

lemma export_rows:
  "\<forall>x\<in>set (map (export_host S False) hs). masked_text (eh_PrivateKey x) \<and> masked_text (eh_KeyPassphrase x) \<and> masked_text (eh_Password x)"
  "\<forall>x\<in>set (map (export_source S False) ss). hides (sv_sources S (es_Kind x)) (es_Config x)"
  "\<forall>x\<in>set (map (export_destination S False) ds). hides (sv_destinations S (ed_Kind x)) (ed_Config x)"
  "\<forall>x\<in>set (map (export_channel S False) cs). hides (sv_notifiers S (ec_Kind x)) (ec_Config x)"
  "export_job S False m1 m2 m3 j = Inr x \<Longrightarrow> masked_text (ej_EncryptionPassphrase x)"
  by (auto simp: export_host_def export_source_def export_destination_def export_channel_def export_config_def hides_masked
      Host_Masked_def mask_secret_def masked_text_def export_job_def export_passphrase_def Let_def split: sum.splits if_splits)

lemma append_result_all:
  "foldE (append_result f) acc js = Inr items \<Longrightarrow> \<forall>x\<in>set acc. Q x \<Longrightarrow> \<forall>j x. f j = Inr x \<longrightarrow> Q x \<Longrightarrow> \<forall>x\<in>set items. Q x"
proof (induction js arbitrary: acc)
  case (Cons j js)
  from Cons.prems(1) obtain x where x: "f j = Inr x" "foldE (append_result f) (acc @ [x]) js = Inr items"
    by (cases "f j") (auto simp: append_result_def [of f acc j])
  have "\<forall>y\<in>set (acc @ [x]). Q y" using Cons.prems(2,3) x(1) by simp
  from Cons.IH [OF x(2) this Cons.prems(3)] show ?case .
qed simp

definition finds :: "('a \<Rightarrow> bool) \<Rightarrow> 'a result web_op \<Rightarrow> bool" where
  "finds Q m \<longleftrightarrow> (\<forall>w x. fst (run_state m w) = Inr x \<longrightarrow> Q x)"

lemma finds_bind: "(\<And>y. finds Q (k y)) \<Longrightarrow> finds Q (m \<bind> k)"
  by (simp add: finds_def case_prod_beta)

lemma finds_sum: "(\<And>x. finds Q (k x)) \<Longrightarrow> finds Q (case r of Inl e \<Rightarrow> return (Inl e) | Inr x \<Rightarrow> k x)"
  by (cases r) (auto simp: finds_def)

lemma finds_prod: "(\<And>a b. finds Q (f a b)) \<Longrightarrow> finds Q (case x of (a, b) \<Rightarrow> f a b)"
  by (cases x) auto

lemma buildExport_hides: "finds (document_hides S) (buildExport S False)"
  unfolding buildExport_def
proof (intro finds_bind finds_sum finds_prod, goal_cases)
  case (1 now hosts hr hs n sources sr ss n2 destinations dr ds n3 channels cs flt jobs js)
  show ?case
    unfolding finds_def
  proof (intro allI impI)
    fix w x
    assume built: "fst (run_state (return (case foldE (append_result
          (export_job S False (names_of src_ID src_Name ss) (names_of dst_ID dst_Name ds) (names_of chn_ID chn_Name cs))) [] js of
        Inl e \<Rightarrow> Inl e
      | Inr items \<Rightarrow> Inr \<lparr>doc_Version = 1, doc_ExportedAt = now, doc_Hosts = map (export_host S False) hs,
          doc_Sources = map (export_source S False) ss, doc_Destinations = map (export_destination S False) ds,
          doc_Jobs = items, doc_Channels = map (export_channel S False) cs\<rparr>)) w) = Inr x"
    then obtain items where items: "foldE (append_result
          (export_job S False (names_of src_ID src_Name ss) (names_of dst_ID dst_Name ds) (names_of chn_ID chn_Name cs))) [] js = Inr items"
      and x: "x = \<lparr>doc_Version = 1, doc_ExportedAt = now, doc_Hosts = map (export_host S False) hs,
          doc_Sources = map (export_source S False) ss, doc_Destinations = map (export_destination S False) ds,
          doc_Jobs = items, doc_Channels = map (export_channel S False) cs\<rparr>"
      by (auto split: sum.splits)
    have "\<forall>x\<in>set items. masked_text (ej_EncryptionPassphrase x)"
      by (rule append_result_all [OF items]) (auto dest: export_rows(5))
    then show "document_hides S x"
      unfolding document_hides_def x exportDocument.simps using export_rows(1-4) by blast
  qed
qed

text \<open>C19 (safety): an export without secrets shows none. Unless the request asks for the secrets, every
  document it answers has all keys, passphrases and passwords empty or masked, and the configurations
  masked like in the replies.\<close>

theorem export_hides_secrets:
  assumes "\<not> queryBool r ''includeSecrets''"
  shows "returns (document_hides S) (handleExport S r p)"
proof -
  have "fst (run_state (handleExport S r p) w) = Reply st x \<Longrightarrow> document_hides S x" for w st x
    using buildExport_hides [of S] assms
    by (cases "fst (run_state (buildExport S False) w)")
       (auto simp: handleExport_def Let_def orfail_def case_prod_beta finds_def fail_def writeError_def split: failure.splits if_splits)
  then show ?thesis by (auto simp: returns_def split: reply.split)
qed

section \<open>Dry runs\<close>

abbreviation still :: "db \<Rightarrow> 'a web_op \<Rightarrow> bool" where
  "still d m \<equiv> looks d m (\<lambda>_. True)"

lemma still_rules:
  "still d (return x)" "still d m \<Longrightarrow> (\<And>x. still d (f x)) \<Longrightarrow> still d (m \<bind> f)"
  "(\<And>x. still d (k x)) \<Longrightarrow> still d (orstop r k)" "still d pm \<Longrightarrow> (\<And>x. still d (g x)) \<Longrightarrow> still d (proceed pm g)"
  "still d v \<Longrightarrow> still d (valid_or_stop fo v)" "still d (lookup h)" "still d next_fault"
  "(\<And>a b. still d (q a b)) \<Longrightarrow> still d (case xy of (a, b) \<Rightarrow> q a b)"
  by (auto intro!: looks_return looks_orstop looks_next looks_conseq [OF looks_lookup] looks_conseq [OF looks_next(1)]
      elim: looks_bind looks_proceed simp: valid_or_stop_def split: option.split prod.split)

lemma still_steps:
  "(\<And>i. still d (fetch i)) \<Longrightarrow> still d (current_of e fetch)"
  "still d (find_source i)" "still d (find_destination i)" "still d (find_channel i)" "still d (find_host i)"
  "still d (prepareConfig S spec cfg prev v)" "still d (import_source_host spec ids n)"
  "still d list_hosts" "still d list_sources" "still d list_destinations"
proof -
  show "still d (prepareConfig S spec cfg prev v)"
    unfolding prepareConfig_def by (rule looks_conseq [OF looks_prepareConfigOnHost]) simp
  show find_host: "still d (find_host i)" for i unfolding find_host_def by (intro still_rules)
  have "still d (validateSourceHost spec i)" for i
    unfolding validateSourceHost_def Let_def by (intro looks_if still_rules find_host)
  then show "still d (import_source_host spec ids n)"
    unfolding import_source_host_def Let_def by (auto intro!: looks_if still_rules split: option.split)
  show "(\<And>i. still d (fetch i)) \<Longrightarrow> still d (current_of e fetch)"
    unfolding current_of_def by (auto intro!: still_rules split: option.split)
qed (unfold find_source_def find_destination_def find_channel_def list_hosts_def list_sources_def list_destinations_def, (intro still_rules)+)

lemma still_import_loop: "(\<And>x acc. still d (step x acc)) \<Longrightarrow> still d (import_loop step xs acc)"
  by (induction xs arbitrary: acc) (auto intro!: still_rules)

lemma still_import_document: "still d (import_document S True doc)"
proof -
  have "still d (import_host S True x acc)" for x acc
    unfolding import_host_def Let_def if_True by (intro still_rules still_steps)
  moreover have "still d (import_source S True hs x acc)" for hs x acc
    unfolding import_source_def Let_def if_True by (intro still_rules still_steps)
  moreover have "still d (import_destination S True x acc)" for x acc
    unfolding import_destination_def Let_def if_True by (intro still_rules still_steps)
  moreover have "still d (import_channel S True x acc)" for x acc
    unfolding import_channel_def Let_def if_True by (intro still_rules still_steps)
  moreover have "still d (import_job S True m1 m2 m3 x acc)" for m1 m2 m3 x acc
    unfolding import_job_def Let_def if_True by (intro still_rules still_steps)
  ultimately show ?thesis
    unfolding import_document_def by (intro still_rules still_steps still_import_loop)
qed

text \<open>C18 (safety): a dry run changes nothing. Whatever document is imported with \<open>dryRun\<close>, with whatever
  faults, the database is the same afterwards, its audit log included.\<close>

theorem dry_run_changes_nothing:
  assumes "queryBool r ''dryRun''"
  shows "web_db (snd (run_state (handleImport S r p b) w)) = web_db w"
  using still_import_document [of "web_db w" S] assms
  by (auto simp: handleImport_def orinvalid_def looks_def Let_def case_prod_beta split: sum.split)

section \<open>Prepared configurations\<close>

lemma prepared_parts:
  assumes "fst (run_state (prepareConfigOnHost S spec incoming previous host check) w) = Inr pc"
  shows "DecryptConfig (sv_cipher S) (Config_MergeSecrets incoming previous (SecretFields spec)) (SecretFields spec) = Inr (pc_Plain pc)"
    and "ValidateRequired spec (Config_WithHost (pc_Plain pc) host []) = None"
    and "check = Some validate \<Longrightarrow> validate (Config_WithHost (pc_Plain pc) host []) = None"
  using assms
  by (auto simp: prepareConfigOnHost_def Let_def case_prod_beta split: sum.splits option.splits)

text \<open>C17 (roundtrip): a masked configuration sent back keeps its secrets. When a stored configuration comes
  back as the API showed it, preparing it gives the plain configuration the stored one decrypts to; and
  what is prepared in any way passed the required fields and the check of the driver, and its text
  secrets are encrypted.\<close>

theorem masked_config_keeps_secrets:
  assumes "fst (run_state (prepareConfigOnHost S spec incoming previous host (Some validate)) w) = Inr pc"
  shows "(incoming = Config_Masked previous (SecretFields spec) \<longrightarrow>
        DecryptConfig (sv_cipher S) previous (SecretFields spec) = Inr (pc_Plain pc))
    \<and> ValidateRequired spec (Config_WithHost (pc_Plain pc) host []) = None
    \<and> validate (Config_WithHost (pc_Plain pc) host []) = None
    \<and> sealed_config (SecretFields spec) (pc_Encrypted pc)"
proof -
  have "sealed_config (SecretFields spec) (pc_Encrypted pc)"
    using looks_prepareConfigOnHost [of "web_db w" S spec incoming previous host "Some validate"] assms
    by (auto simp: looks_def)
  then show ?thesis
    using prepared_parts [OF assms] Masked_MergeSecrets_roundtrip [of previous "SecretFields spec"] by auto
qed

section \<open>What imports refuse\<close>

lemma Merge_other: "g \<notin> set fs \<Longrightarrow> Config_MergeSecrets c prev fs g = c g"
proof -
  have "fold (\<lambda>f out. if Config_String out f = SecretMask
        then (case prev f of Some p \<Rightarrow> out(f \<mapsto> p) | None \<Rightarrow> out(f := None)) else out) fs c g = c g" if "g \<notin> set fs"
    using that by (induction fs arbitrary: c) (auto split: option.split)
  then show "g \<notin> set fs \<Longrightarrow> ?thesis" by (simp add: Config_MergeSecrets_def Config_Clone_def)
qed

lemma DecryptConfig_other:
  assumes "DecryptConfig c cfg fs = Inr out" and "g \<notin> set fs"
  shows "out g = cfg g"
proof -
  have "foldE (config_step v op) cfg fs = Inr out \<Longrightarrow> g \<notin> set fs \<Longrightarrow> out g = cfg g" for v op
  proof (induction fs arbitrary: cfg)
    case (Cons f fs)
    then obtain cfg' where step: "config_step v op cfg f = Inr cfg'" and rest: "foldE (config_step v op) cfg' fs = Inr out"
      by (auto split: sum.splits)
    with Cons config_step_other [OF step, of g] show ?case by simp
  qed simp
  with assms show ?thesis unfolding DecryptConfig_def Config_Clone_def by blast
qed

text \<open>C23 (error): sources on a host do not survive an import. A field that a driver requires only for sources
  on the Backvault host (like the address of an ssh source) may be missing from the configuration of a
  source on another host, and the update handler accepts it; but an import checks the configuration
  without the host, so the document that an export made of such a source is always refused.\<close>

theorem host_source_not_importable:
  assumes "sv_sources S (es_Kind item) = Some drv" and "f \<in> set (spec_Fields (drv_Spec drv))"
    and "fld_Required f" and "fld_LocalOnly f" and "fld_Default f = VNil" and "fld_ShowIf f = []"
    and "fld_Name f \<notin> set (SecretFields (drv_Spec drv))" and "fld_Name f \<noteq> HostConfigKey"
    and "es_Config item (fld_Name f) = None"
  shows "isl (fst (run_state (import_source S dryRun hostIDs item acc) w))
    \<and> \<not> field_missing True (es_Config item) f"
proof
  let ?spec = "drv_Spec drv"
  have missing: "isl (fst (run_state (prepareConfig S ?spec (es_Config item) prev check) w))" for prev check w
  proof (rule ccontr)
    assume "\<not> ?thesis"
    then obtain pc where pc: "fst (run_state (prepareConfigOnHost S ?spec (es_Config item) prev None check) w) = Inr pc"
      by (auto simp: prepareConfig_def isl_def) (metis sum.exhaust)
    let ?c = "Config_WithHost (pc_Plain pc) None []"
    have "?c (fld_Name f) = None"
      using DecryptConfig_other [OF prepared_parts(1) [OF pc] assms(7)] Merge_other [OF assms(7)] assms(8,9)
      by (simp add: Config_WithHost_def Config_Clone_def)
    then have "field_missing (Config_Host ?c \<noteq> None) ?c f"
      using assms(3-6) by (simp add: field_missing_def showIfMatches_def Config_Has_def cfg_lookup_def Config_WithHost_def Config_Host_def)
    with assms(2) have "filter (field_missing (Config_Host ?c \<noteq> None) ?c) (spec_Fields ?spec) \<noteq> []"
      by (auto simp: filter_empty_conv)
    with prepared_parts(2) [OF pc] show False by (simp add: ValidateRequired_def Let_def split: if_splits)
  qed
  obtain ids changes where acc: "acc = (ids, changes)" by (cases acc)
  have stop: "isl (fst (run_state m w)) \<Longrightarrow> isl (fst (run_state (proceed m k) w))" for m :: "(failure + 'x) web_op" and k w
    by (auto simp: proceed_def case_prod_beta split: sum.split)
  have later: "(\<And>x w. isl (fst (run_state (k x) w))) \<Longrightarrow> isl (fst (run_state (proceed m k) w))"
    for m :: "(failure + 'x) web_op" and k :: "'x \<Rightarrow> (failure + progress) web_op" and w
    by (auto simp: proceed_def case_prod_beta split: sum.split)
  have kind: "sourceSpec S (es_Kind item) = Inr drv" using assms(1) by (simp add: sourceSpec_def spec_of_def)
  have "isl (fst (run_state (proceed (current_of (ids (es_Name item)) find_source) (\<lambda>current.
      proceed (prepareConfig S ?spec (es_Config item) (case current of None \<Rightarrow> Map.empty | Some x \<Rightarrow> src_Config x) (Some (drv_Validate drv))) (k current))) w))"
    for k :: "Source option \<Rightarrow> preparedConfig \<Rightarrow> (failure + progress) web_op"
    by (rule later) (rule stop [OF missing])
  then show "isl (fst (run_state (import_source S dryRun hostIDs item acc) w))"
    unfolding import_source_def acc prod.case kind by (simp add: proceed_def)
  show "\<not> field_missing True (es_Config item) f" using assms(4) by (simp add: field_missing_def)
qed

text \<open>An import needs the key the stored hosts were encrypted with. When a host of the document is
  already stored and its secrets do not open with the key of the server, the import is refused before
  anything is written, even if the document carries all secrets. So the documented way to change the
  master key, an export with secrets that is imported under the new key, fails as soon as there is a host.\<close>

theorem import_needs_stored_key:
  assumes "t_hosts (web_db w) = [h]" and "web_faults w = []"
    and "doc_Hosts doc = item # items" and "eh_Name item = host_Name h" and "DecryptHost (sv_cipher S) h = Inl e"
  shows "fst (run_state (handleImport S r p (Document doc)) w) = fail (Failed e)
    \<and> web_db (snd (run_state (handleImport S r p (Document doc)) w)) = web_db w"
proof -
  have flt: "run_state next_fault w = (None, w)" using assms(2) by (simp add: next_fault_def)
  have look: "run_state (lookup f) w = (f None (web_db w), w)" for f :: "error option \<Rightarrow> db \<Rightarrow> 'x"
    using assms(2) by (simp add: lookup_def flt)
  have hosts: "run_state list_hosts w = (Inr ([join_sources (web_db w) h], 1), w)"
    unfolding list_hosts_def by (simp add: flt look Hosts_List_def listed_def assms(1) HostFilter_where_def where_search_def
        first_page_def Page_normalized_def limit_offset_def MaxLimit_def like_any_def TrimSpace_def trim_runes.simps)
  have found: "run_state (find_host (host_ID h)) w = (Inr (join_sources (web_db w) h), w)"
    unfolding find_host_def by (simp add: flt look Hosts_Get_def host_found_def find_row_def assms(1))
  have closed: "DecryptHost (sv_cipher S) (join_sources (web_db w) h) = Inl e"
    using assms(5) by (simp add: DecryptHost_def host_fields_def join_sources_def split: sum.splits)
  have ids: "ids_by_name host_Name host_ID [join_sources (web_db w) h] = [host_Name h \<mapsto> host_ID h]"
    by (simp add: ids_by_name_def names_of_def join_sources_def)
  have "run_state (import_host S dry item ([host_Name h \<mapsto> host_ID h], [])) w = (Inl (Failed e), w)" for dry
    by (simp add: import_host_def assms(4) current_of_def proceed_def found orstop_def previous_host_def closed)
  then have "run_state (import_document S dry doc) w = (Inl (Failed e), w)" for dry
    by (simp add: import_document_def hosts orstop_def assms(3) ids proceed_def)
  then show ?thesis by (simp add: handleImport_def decodeYAML_def orinvalid_def Let_def)
qed

section \<open>Hosts that are accepted\<close>

text \<open>An accepted host can be used. The client of a host that the checks of the API accept
  has something to log in with and a judgement of the host key: a pinned fingerprint accepts exactly the
  server that shows it. The port is in range and the public key can be derived.\<close>

theorem accepted_host_usable:
  assumes "validateHost S h = None"
  shows "(\<exists>m. authMethods (sv_parse_key S) h = Inr [m])
    \<and> (\<exists>judge. hostKeyCallback h = Inr judge
        \<and> (\<forall>name got. judge name got = None \<longleftrightarrow> TrimSpace (host_HostKey h) \<in> {[], got}))
    \<and> 1 \<le> host_Port h \<and> host_Port h \<le> 65535 \<and> \<not> isl (derivePublicKey S h candidates)"
proof -
  have fields: "host_check_fields h = Map.empty" and valid: "Validate (sv_parse_key S) h = None"
    using assms by (auto simp: validateHost_def checked_def split: option.splits if_splits)
  have ranges: "1 \<le> host_Port h" "host_Port h \<le> 65535" "\<not> bad_fingerprint (host_HostKey h)"
    and auth: "auth_field h no_fields = Map.empty"
    using fields
    by (auto simp: host_check_fields_def auth_field_def field_if_empty no_fields_def split: HostAuth.splits)
  have "auth_problems (sv_parse_key S) h = []"
    using valid by (auto simp: Validate_def Let_def split: if_splits)
  with auth have creds: "(\<exists>m. authMethods (sv_parse_key S) h = Inr [m]) \<and> \<not> isl (derivePublicKey S h candidates)"
    by (auto simp: auth_problems_def auth_field_def field_if_empty no_fields_def authMethods_def derivePublicKey_def
        PublicKeyOf_def problem_if_def split: HostAuth.splits if_splits sum.splits option.splits)
  have judge: "\<exists>judge. hostKeyCallback h = Inr judge
      \<and> (\<forall>name got. judge name got = None \<longleftrightarrow> TrimSpace (host_HostKey h) \<in> {[], got})"
    using ranges(3) by (auto simp: hostKeyCallback_def Let_def bad_fingerprint_def)
  from creds judge ranges show ?thesis by blast
qed

section \<open>Examples\<close>

definition demo_field :: "string \<Rightarrow> Field" where
  "demo_field n = \<lparr>fld_Name = n, fld_Label = n, fld_Type = FieldString, fld_Required = False, fld_Secret = False,
     fld_Default = VNil, fld_ShowIf = [], fld_LocalOnly = False\<rparr>"

definition demo_driver :: driver where
  "demo_driver =
     \<lparr>drv_Spec = \<lparr>spec_Kind = ''ssh'', spec_Label = ''SSH'',
        spec_Fields = [(demo_field ''host'')\<lparr>fld_Required := True, fld_LocalOnly := True\<rparr>, (demo_field ''password'')\<lparr>fld_Secret := True\<rparr>],
        spec_Capabilities = [CapRemote], spec_Tools = []\<rparr>,
      drv_Validate = (\<lambda>_. None), drv_Test = (\<lambda>_ _. None)\<rparr>"

definition config_site :: site where
  "config_site = demo_site\<lparr>sv_sources := (\<lambda>_. Some demo_driver)\<rparr>"

definition demo_source_request :: sourceRequest where
  "demo_source_request = \<lparr>sq_Name = ''files'', sq_Kind = ''ssh'', sq_Description = [],
     sq_Config = [''host'' \<mapsto> VString ''h'', ''password'' \<mapsto> VString ''hunter2''], sq_HostID = [], sq_Tags = []\<rparr>"

definition demo_document :: exportDocument where
  "demo_document = \<lparr>doc_Version = 1, doc_ExportedAt = 0, doc_Hosts = [], doc_Sources = [\<lparr>es_Name = ''files'', es_Kind = ''ssh'',
       es_Description = [], es_Config = Map.empty, es_Host = ''box'', es_Tags = []\<rparr>], doc_Destinations = [], doc_Jobs = [], doc_Channels = []\<rparr>"

theorem stored_secrets_encrypted_witness:
  "secrets_sealed config_site (web_db (snd (run_state (serve_configs config_site
     [(demo_request, None, CreateSourceReq (Inr demo_source_request)), (demo_request, None, ImportReq (Document demo_document)),
      (demo_request, None, JobReq (CreateJobReq (Inr demo_job_request)))]) job_web)))"
  by (rule conjunct1 [OF stored_secrets_encrypted])
     (simp_all add: secrets_sealed_def jobs_ok_def job_web_def empty_db_def zero_source_def zero_destination_def sealed_for_def
       sealed_config_def config_site_def demo_driver_def demo_site_def)

theorem export_hides_secrets_witness: "returns (document_hides config_site) (handleExport config_site demo_request None)"
proof -
  have "TrimSpace [] = []" by (simp add: TrimSpace_def trim_runes.simps)
  then have "\<not> queryBool demo_request ''includeSecrets''" by (simp add: queryBool_def demo_request_def ToLower_def)
  then show ?thesis by (rule export_hides_secrets)
qed

theorem dry_run_changes_nothing_witness:
  "web_db (snd (run_state (handleImport config_site (demo_request\<lparr>hr_Query := (\<lambda>_. ''1'')\<rparr>) None (Document demo_document)) job_web)) = web_db job_web"
proof -
  have "TrimSpace ''1'' = ''1''" by (simp add: TrimSpace_printable printable_def)
  then have "queryBool (demo_request\<lparr>hr_Query := (\<lambda>_. ''1'')\<rparr>) ''dryRun''" by (simp add: queryBool_def ToLower_def lower_char_def)
  then show ?thesis by (rule dry_run_changes_nothing)
qed

theorem masked_config_keeps_secrets_witness:
  "\<exists>pc :: preparedConfig. DecryptConfig demo_cipher [''password'' \<mapsto> VString ''hunter2''] [''password''] = Inr (pc_Plain pc)
     \<and> sealed_config [''password''] (pc_Encrypted pc)"
proof -
  let ?spec = "(drv_Spec demo_driver)\<lparr>spec_Fields := [(demo_field ''password'')\<lparr>fld_Secret := True\<rparr>]\<rparr>"
  let ?cfg = "[''password'' \<mapsto> VString ''hunter2'']"
  have fields: "SecretFields ?spec = [''password'']" by (simp add: SecretFields_def demo_field_def)
  have clear: "\<not> IsEncrypted ''hunter2''" by (simp add: IsEncrypted_def Prefix_def HasPrefix_iff)
  have plain_cfg: "DecryptConfig demo_cipher ?cfg [''password''] = Inr ?cfg"
    by (simp add: DecryptConfig_def config_step_def Config_Clone_def Decrypt_def clear)
  have "\<exists>pc. fst (run_state (prepareConfigOnHost config_site ?spec (Config_Masked ?cfg [''password'']) ?cfg None (Some (\<lambda>_. None))) job_web) = Inr pc"
    unfolding prepareConfigOnHost_def Let_def fields Masked_MergeSecrets_roundtrip
    by (simp add: config_site_def demo_site_def plain_cfg ValidateRequired_def field_missing_def demo_field_def
        EncryptConfig_def config_step_def Config_Clone_def Encrypt_def clear random_bytes_def job_web_def)
  then obtain pc where "fst (run_state (prepareConfigOnHost config_site ?spec (Config_Masked ?cfg [''password'']) ?cfg None (Some (\<lambda>_. None))) job_web) = Inr pc" ..
  from masked_config_keeps_secrets [OF this] fields show ?thesis
    by (auto simp: config_site_def demo_site_def)
qed

theorem host_source_not_importable_witness:
  "isl (fst (run_state (import_source config_site False [''box'' \<mapsto> ''h1''] (hd (doc_Sources demo_document)) (Map.empty, [])) job_web))"
  by (rule conjunct1 [OF host_source_not_importable [where drv = demo_driver and f = "(demo_field ''host'')\<lparr>fld_Required := True, fld_LocalOnly := True\<rparr>"]])
     (simp_all add: config_site_def demo_document_def demo_driver_def demo_field_def SecretFields_def HostConfigKey_def)

definition sealed_box :: Host where
  "sealed_box = zero_host\<lparr>host_ID := ''h1'', host_Name := ''box'', host_Password := ''enc:v1:!''\<rparr>"

lemma export_host_name: "eh_Name (export_host S False h) = host_Name h"
  by (simp add: export_host_def Host_Masked_def Let_def)

theorem import_needs_stored_key_witness:
  "\<exists>e w. fst (run_state (handleImport config_site demo_request None (Document (demo_document\<lparr>doc_Hosts := [export_host config_site False sealed_box]\<rparr>))) w)
     = fail (Failed e)"
proof -
  let ?w = "job_web\<lparr>web_db := empty_db\<lparr>t_hosts := [sealed_box]\<rparr>\<rparr>"
  have "isl (DecryptHost (sv_cipher config_site) sealed_box)" by code_simp
  then obtain e where e: "DecryptHost (sv_cipher config_site) sealed_box = Inl e" by (auto simp: isl_def)
  have "fst (run_state (handleImport config_site demo_request None (Document (demo_document\<lparr>doc_Hosts := [export_host config_site False sealed_box]\<rparr>))) ?w)
     = fail (Failed e)"
    by (rule conjunct1 [OF import_needs_stored_key [where item = "export_host config_site False sealed_box" and items = "[]", OF _ _ _ _ e]])
       (simp_all add: job_web_def demo_web_def export_host_name)
  then show ?thesis by blast
qed

theorem accepted_host_usable_witness:
  "\<exists>m. authMethods (sv_parse_key demo_site) (zero_host\<lparr>host_Name := ''box'', host_Address := ''h'', host_Port := 22, host_User := ''u'',
     host_Auth := HostAuthPassword, host_Password := ''pw''\<rparr>) = Inr [m]"
proof -
  let ?h = "zero_host\<lparr>host_Name := ''box'', host_Address := ''h'', host_Port := 22, host_User := ''u'',
     host_Auth := HostAuthPassword, host_Password := ''pw''\<rparr>"
  have t: "TrimSpace ''box'' = ''box''" "TrimSpace ''h'' = ''h''" "TrimSpace ''u'' = ''u''" "TrimSpace [] = []"
    by (simp_all add: TrimSpace_printable printable_def) (simp add: TrimSpace_def trim_runes.simps)
  have "validateHost demo_site ?h = None"
    by (simp add: validateHost_def host_check_fields_def auth_field_def field_if_def no_fields_def checked_def zero_host_def t
        bad_fingerprint_def Validate_def problem_if_def auth_problems_def)
  from accepted_host_usable [OF this] show ?thesis by blast
qed

end
