(* ===== verification/Store_Readback.thy ===== *)
theory Store_Readback
  imports Store_Integrity
begin

text \<open>
  What is written to a repository is read back: creating, changing and deleting a source, a destination, a host or
  a notification channel has its effect on the row it names, all columns included, and on no other.
\<close>

section \<open>Rows\<close>










section \<open>What a statement does to what is read\<close>

text \<open>\<open>get\<close> reads a row by its identifier. A statement is accepted exactly if \<open>ok\<close> holds, the row it names
  is there or not as it needs, and no other row has the name. A refused statement changes nothing; an accepted one
  changes what is read under \<open>rid\<close> as \<open>Q\<close> says, and nothing else.\<close>

definition only_at :: "(string \<Rightarrow> db \<Rightarrow> 'r result) \<Rightarrow> string \<Rightarrow> db \<Rightarrow> db \<Rightarrow> bool" where
  "only_at get rid d d' \<longleftrightarrow> (\<forall>i. i \<noteq> rid \<longrightarrow> get i d' = get i d)"

definition missing :: "'r result \<Rightarrow> bool" where
  "missing r \<longleftrightarrow> (\<exists>e. r = Inl e \<and> errIs e ErrNotFound)"

definition taken :: "(string \<Rightarrow> db \<Rightarrow> 'r result) \<Rightarrow> ('r \<Rightarrow> string) \<Rightarrow> string \<Rightarrow> string \<Rightarrow> db \<Rightarrow> bool" where
  "taken get nm name rid d \<longleftrightarrow> (\<exists>i r. i \<noteq> rid \<and> get i d = Inr r \<and> nm r = name)"

definition creates ::
  "(string \<Rightarrow> db \<Rightarrow> 'r result) \<Rightarrow> ('r \<Rightarrow> string) \<Rightarrow> ('r \<Rightarrow> string) \<Rightarrow> bool \<Rightarrow> string \<Rightarrow> string \<Rightarrow> ('r \<Rightarrow> bool) \<Rightarrow>
   db \<Rightarrow> 'r result \<times> db \<Rightarrow> bool" where
  "creates get ident nm ok rid name Q d out \<longleftrightarrow>
     (let accepted = (ok \<and> missing (get rid d) \<and> \<not> taken get nm name rid d) in
      case out of
        (Inl e, d') \<Rightarrow> \<not> accepted \<and> d' = d
      | (Inr y, d') \<Rightarrow>
          accepted \<and> ident y = rid \<and> (\<exists>z. get rid d' = Inr z \<and> ident z = rid \<and> Q z) \<and> only_at get rid d d')"

definition updates ::
  "(string \<Rightarrow> db \<Rightarrow> 'r result) \<Rightarrow> ('r \<Rightarrow> string) \<Rightarrow> ('r \<Rightarrow> string) \<Rightarrow> bool \<Rightarrow> string \<Rightarrow> string \<Rightarrow> ('r \<Rightarrow> 'r \<Rightarrow> bool) \<Rightarrow>
   db \<Rightarrow> 'r result \<times> db \<Rightarrow> bool" where
  "updates get ident nm ok rid name Q d out \<longleftrightarrow>
     (let accepted = (ok \<and> \<not> missing (get rid d) \<and> \<not> taken get nm name rid d) in
      case out of
        (Inl e, d') \<Rightarrow> \<not> accepted \<and> d' = d
      | (Inr y, d') \<Rightarrow>
          accepted \<and> ident y = rid
          \<and> (\<exists>r z. get rid d = Inr r \<and> get rid d' = Inr z \<and> ident z = rid \<and> Q r z) \<and> only_at get rid d d')"

definition deletes :: "(string \<Rightarrow> db \<Rightarrow> 'r result) \<Rightarrow> bool \<Rightarrow> string \<Rightarrow> db \<Rightarrow> error option \<times> db \<Rightarrow> bool" where
  "deletes get ok rid d out \<longleftrightarrow>
     (let accepted = (ok \<and> \<not> missing (get rid d)) in
      case out of
        (Some e, d') \<Rightarrow> \<not> accepted \<and> d' = d
      | (None, d') \<Rightarrow> accepted \<and> missing (get rid d') \<and> only_at get rid d d')"

lemmas readback_defs = creates_def updates_def deletes_def only_at_def missing_def taken_def row_missing_def errIs_def Let_def



section \<open>Each repository\<close>
























section \<open>Properties\<close>




end
