(* ===== verification/Events.thy ===== *)
theory Events
  imports Core_Types "HOL-Library.Word"
begin

text \<open>
  The event bus (internal/engine/events.go). Subscribers own buffered channels; a publisher offers an event
  to each of them and never waits. The lock of the bus is read-held while publishing, so several calls
  of \<open>Publish\<close> run at the same time: they are split into their steps, and the operations that
  take the lock for writing are single steps that wait until nobody publishes.
\<close>

section \<open>Channels\<close>

text \<open>What an operation of the runtime does: panic, or a value.\<close>

datatype 'a go = Panic | Fine 'a

record 'e chan =
  ch_cap :: nat
  ch_buf :: "'e list"
  ch_closed :: bool

definition make_chan :: "nat \<Rightarrow> 'e chan" where
  "make_chan n = \<lparr>ch_cap = n, ch_buf = [], ch_closed = False\<rparr>"

text \<open>A send with a \<open>default\<close> branch: it panics on a closed channel, and says whether the event was taken.\<close>

definition try_send :: "'e \<Rightarrow> 'e chan \<Rightarrow> ('e chan \<times> bool) go" where
  "try_send ev c =
     (if ch_closed c then Panic
      else if length (ch_buf c) < ch_cap c then Fine (c\<lparr>ch_buf := ch_buf c @ [ev]\<rparr>, True)
      else Fine (c, False))"

definition close_chan :: "'e chan \<Rightarrow> 'e chan go" where
  "close_chan c = (if ch_closed c then Panic else Fine (c\<lparr>ch_closed := True\<rparr>))"

section \<open>The bus\<close>

text \<open>A call of \<open>Publish\<close> that holds the lock: the subscribers it has not visited yet, and the value of the
  counter it has read for \<open>b.dropped++\<close> and not written back.\<close>

record 'e publishing =
  pb_event :: 'e
  pb_left :: "nat list"
  pb_read :: "64 word option"

text \<open>A subscriber is the index of its channel in \<open>bus_chans\<close>, the list of all channels made so far.\<close>

record 'e bus =
  bus_chans :: "'e chan list"
  bus_subs :: "nat list"
  bus_closed :: bool
  bus_dropped :: "64 word"
  bus_publishing :: "'e publishing list"

definition NewBus :: "'e bus" where
  "NewBus = \<lparr>bus_chans = [], bus_subs = [], bus_closed = False, bus_dropped = 0, bus_publishing = []\<rparr>"

definition set_chan :: "nat \<Rightarrow> 'e chan \<Rightarrow> 'e bus \<Rightarrow> 'e bus" where
  "set_chan i c b = b\<lparr>bus_chans := (bus_chans b)[i := c]\<rparr>"

text \<open>An operation that takes the lock for writing waits (\<open>None\<close>) while someone publishes.\<close>

definition with_lock :: "('e bus \<Rightarrow> 'e bus go) \<Rightarrow> 'e bus \<Rightarrow> 'e bus go option" where
  "with_lock f b = (if bus_publishing b = [] then Some (f b) else None)"

definition Subscribe :: "int \<Rightarrow> 'e bus \<Rightarrow> 'e bus go" where
  "Subscribe buffer b =
     (let c = make_chan (if buffer \<le> 0 then 64 else nat buffer); i = length (bus_chans b) in
      if bus_closed b
      then (case close_chan c of Panic \<Rightarrow> Panic | Fine c' \<Rightarrow> Fine (b\<lparr>bus_chans := bus_chans b @ [c']\<rparr>))
      else Fine (b\<lparr>bus_chans := bus_chans b @ [c], bus_subs := bus_subs b @ [i]\<rparr>))"

text \<open>Removes a subscriber and closes its channel.\<close>

definition drop_sub :: "nat \<Rightarrow> 'e bus \<Rightarrow> 'e bus go" where
  "drop_sub i b =
     (case close_chan (bus_chans b ! i) of
        Panic \<Rightarrow> Panic
      | Fine c \<Rightarrow> Fine (set_chan i c (b\<lparr>bus_subs := remove1 i (bus_subs b)\<rparr>)))"

text \<open>The function \<open>Subscribe\<close> returns. A second call finds the subscriber gone, so that \<open>once\<close> makes no difference.\<close>

definition cancel_sub :: "nat \<Rightarrow> 'e bus \<Rightarrow> 'e bus go" where
  "cancel_sub i b = (if i \<in> set (bus_subs b) then drop_sub i b else Fine b)"

fun drop_subs :: "nat list \<Rightarrow> 'e bus \<Rightarrow> 'e bus go" where
  "drop_subs [] b = Fine b"
| "drop_subs (i # is) b = (case drop_sub i b of Panic \<Rightarrow> Panic | Fine b' \<Rightarrow> drop_subs is b')"

definition Bus_Close :: "'e bus \<Rightarrow> 'e bus go" where
  "Bus_Close b = (if bus_closed b then Fine b else drop_subs (bus_subs b) (b\<lparr>bus_closed := True\<rparr>))"

section \<open>Publishing, step by step\<close>

definition publish_start :: "'e \<Rightarrow> 'e bus \<Rightarrow> 'e bus" where
  "publish_start ev b =
     (if bus_closed b then b
      else b\<lparr>bus_publishing := bus_publishing b @ [\<lparr>pb_event = ev, pb_left = bus_subs b, pb_read = None\<rparr>]\<rparr>)"

definition set_publishing :: "nat \<Rightarrow> 'e publishing \<Rightarrow> 'e bus \<Rightarrow> 'e bus" where
  "set_publishing k p b = b\<lparr>bus_publishing := (bus_publishing b)[k := p]\<rparr>"

text \<open>One round of the loop for subscriber \<open>i\<close>; when the event is not taken, the counter is read.\<close>

definition publish_send :: "nat \<Rightarrow> nat \<Rightarrow> 'e bus \<Rightarrow> 'e bus go" where
  "publish_send k i b =
     (let p = bus_publishing b ! k; left = remove1 i (pb_left p) in
      case try_send (pb_event p) (bus_chans b ! i) of
        Panic \<Rightarrow> Panic
      | Fine (c, True) \<Rightarrow> Fine (set_publishing k (p\<lparr>pb_left := left\<rparr>) (set_chan i c b))
      | Fine (c, False) \<Rightarrow> Fine (set_publishing k (p\<lparr>pb_left := left, pb_read := Some (bus_dropped b)\<rparr>) b))"

definition publish_count :: "nat \<Rightarrow> 64 word \<Rightarrow> 'e bus \<Rightarrow> 'e bus" where
  "publish_count k d b =
     set_publishing k ((bus_publishing b ! k)\<lparr>pb_read := None\<rparr>) (b\<lparr>bus_dropped := d + 1\<rparr>)"

definition publish_end :: "nat \<Rightarrow> 'e bus \<Rightarrow> 'e bus" where
  "publish_end k b = b\<lparr>bus_publishing := take k (bus_publishing b) @ drop (Suc k) (bus_publishing b)\<rparr>"

text \<open>A subscriber takes the oldest event of its channel.\<close>

definition receive :: "nat \<Rightarrow> 'e bus \<Rightarrow> 'e bus" where
  "receive i b = set_chan i ((bus_chans b ! i)\<lparr>ch_buf := tl (ch_buf (bus_chans b ! i))\<rparr>) b"

datatype 'e bus_act =
    ASubscribe int | ACancel nat | AClose | AReceive nat
  | APublish 'e | ASend nat nat | ACount nat | AReturn nat

text \<open>\<open>None\<close>: the step is not possible now.\<close>

fun bus_step :: "'e bus_act \<Rightarrow> 'e bus \<Rightarrow> 'e bus go option" where
  "bus_step (ASubscribe n) b = with_lock (Subscribe n) b"
| "bus_step (ACancel i) b = (if i < length (bus_chans b) then with_lock (cancel_sub i) b else None)"
| "bus_step AClose b = with_lock Bus_Close b"
| "bus_step (AReceive i) b =
     (if i < length (bus_chans b) \<and> ch_buf (bus_chans b ! i) \<noteq> [] then Some (Fine (receive i b)) else None)"
| "bus_step (APublish ev) b = Some (Fine (publish_start ev b))"
| "bus_step (ASend k i) b =
     (if k < length (bus_publishing b) \<and> pb_read (bus_publishing b ! k) = None \<and> i \<in> set (pb_left (bus_publishing b ! k))
      then Some (publish_send k i b) else None)"
| "bus_step (ACount k) b =
     (if k < length (bus_publishing b)
      then (case pb_read (bus_publishing b ! k) of None \<Rightarrow> None | Some d \<Rightarrow> Some (Fine (publish_count k d b)))
      else None)"
| "bus_step (AReturn k) b =
     (if k < length (bus_publishing b) \<and> pb_read (bus_publishing b ! k) = None \<and> pb_left (bus_publishing b ! k) = []
      then Some (Fine (publish_end k b)) else None)"

fun bus_run :: "'e bus_act list \<Rightarrow> 'e bus \<Rightarrow> 'e bus go option" where
  "bus_run [] b = Some (Fine b)"
| "bus_run (a # as) b =
     (case bus_step a b of
        None \<Rightarrow> None
      | Some Panic \<Rightarrow> Some Panic
      | Some (Fine b') \<Rightarrow> bus_run as b')"

section \<open>The invariant\<close>

definition chan_ok :: "'e chan \<Rightarrow> bool" where
  "chan_ok c \<longleftrightarrow> length (ch_buf c) \<le> ch_cap c"

text \<open>The subscribers of the bus are exactly the open channels; publishers only have subscribers left.\<close>

definition bus_inv :: "'e bus \<Rightarrow> bool" where
  "bus_inv b \<longleftrightarrow>
     distinct (bus_subs b)
     \<and> (\<forall>i. i \<in> set (bus_subs b) \<longleftrightarrow> i < length (bus_chans b) \<and> \<not> ch_closed (bus_chans b ! i))
     \<and> (\<forall>c\<in>set (bus_chans b). chan_ok c)
     \<and> (\<forall>p\<in>set (bus_publishing b). set (pb_left p) \<subseteq> set (bus_subs b) \<and> distinct (pb_left p))"

lemma bus_invD:
  assumes "bus_inv b"
  shows "distinct (bus_subs b)"
    and "i \<in> set (bus_subs b) \<longleftrightarrow> i < length (bus_chans b) \<and> \<not> ch_closed (bus_chans b ! i)"
    and "c \<in> set (bus_chans b) \<Longrightarrow> chan_ok c"
    and "p \<in> set (bus_publishing b) \<Longrightarrow> set (pb_left p) \<subseteq> set (bus_subs b) \<and> distinct (pb_left p)"
  using assms by (auto simp: bus_inv_def)

lemma NewBus_inv: "bus_inv NewBus"
  by (simp add: bus_inv_def NewBus_def)

lemma Subscribe_inv: "bus_inv b \<Longrightarrow> bus_publishing b = [] \<Longrightarrow> \<exists>b'. Subscribe n b = Fine b' \<and> bus_inv b'"
  by (auto simp: Subscribe_def Let_def make_chan_def close_chan_def bus_inv_def chan_ok_def nth_append less_Suc_eq)

lemma drop_sub_inv:
  assumes "bus_inv b" and "bus_publishing b = []" and "i \<in> set (bus_subs b)"
  shows "\<exists>b'. drop_sub i b = Fine b' \<and> bus_inv b' \<and> bus_publishing b' = []
    \<and> bus_subs b' = remove1 i (bus_subs b) \<and> bus_closed b' = bus_closed b"
proof -
  have i: "i < length (bus_chans b)" "\<not> ch_closed (bus_chans b ! i)" using bus_invD(2) [OF assms(1), of i] assms(3) by auto
  have c: "chan_ok c" if "c \<in> set ((bus_chans b)[i := (bus_chans b ! i)\<lparr>ch_closed := True\<rparr>])" for c
    using set_update_subset_insert [of "bus_chans b" i "(bus_chans b ! i)\<lparr>ch_closed := True\<rparr>"] that
      bus_invD(3) [OF assms(1)] nth_mem [OF i(1)] by (fastforce simp: chan_ok_def)
  show ?thesis
    using i c assms(2) bus_invD(1) [OF assms(1)] bus_invD(2) [OF assms(1)]
    by (auto simp: drop_sub_def close_chan_def set_chan_def bus_inv_def nth_list_update)
qed

lemma drop_subs_inv:
  "bus_inv b \<Longrightarrow> bus_publishing b = [] \<Longrightarrow> is = bus_subs b
   \<Longrightarrow> \<exists>b'. drop_subs is b = Fine b' \<and> bus_inv b' \<and> bus_subs b' = [] \<and> bus_closed b' = bus_closed b"
proof (induction "is" arbitrary: b)
  case (Cons i "is")
  from drop_sub_inv [OF Cons.prems(1,2), of i] Cons.prems(3) obtain b' where
    b': "drop_sub i b = Fine b'" "bus_inv b'" "bus_publishing b' = []" "bus_subs b' = remove1 i (bus_subs b)" "bus_closed b' = bus_closed b"
    by (metis list.set_intros(1))
  have "bus_subs b' = is" using b'(4) Cons.prems(3) by (metis remove1.simps(2))
  with Cons.IH [OF b'(2,3)] b' show ?case by simp
qed auto

lemma set_chan_inv:
  assumes "bus_inv b" and "i < length (bus_chans b)" and "chan_ok c" and "ch_closed c = ch_closed (bus_chans b ! i)"
  shows "bus_inv (set_chan i c b)"
proof -
  have "chan_ok d" if "d \<in> set ((bus_chans b)[i := c])" for d
    using set_update_subset_insert [of "bus_chans b" i c] that bus_invD(3) [OF assms(1)] assms(3) by auto
  then show ?thesis using assms by (auto simp: bus_inv_def set_chan_def nth_list_update)
qed

lemma set_publishing_inv:
  assumes "bus_inv b" and "set (pb_left p) \<subseteq> set (bus_subs b)" and "distinct (pb_left p)"
  shows "bus_inv (set_publishing k p b)"
proof -
  have "set (pb_left q) \<subseteq> set (bus_subs b) \<and> distinct (pb_left q)" if "q \<in> set ((bus_publishing b)[k := p])" for q
    using set_update_subset_insert [of "bus_publishing b" k p] that bus_invD(4) [OF assms(1)] assms(2,3) by auto
  then show ?thesis using assms(1) by (simp add: bus_inv_def set_publishing_def)
qed

lemma publish_send_inv:
  assumes "bus_inv b" and "k < length (bus_publishing b)" and "i \<in> set (pb_left (bus_publishing b ! k))"
  shows "\<exists>b'. publish_send k i b = Fine b' \<and> bus_inv b' \<and> bus_subs b' = bus_subs b \<and> bus_closed b' = bus_closed b"
proof -
  let ?p = "bus_publishing b ! k" and ?c = "bus_chans b ! i"
  have p: "set (pb_left ?p) \<subseteq> set (bus_subs b)" "distinct (pb_left ?p)"
    using bus_invD(4) [OF assms(1) nth_mem [OF assms(2)]] by auto
  then have i: "i < length (bus_chans b)" "\<not> ch_closed ?c"
    using bus_invD(2) [OF assms(1), of i] assms(3) by auto
  have c: "chan_ok ?c" using bus_invD(3) [OF assms(1) nth_mem [OF i(1)]] .
  have sub: "set (remove1 i (pb_left ?p)) \<subseteq> set (bus_subs b)" using p(1) set_remove1_subset by fastforce
  show ?thesis
  proof (cases "length (ch_buf ?c) < ch_cap ?c")
    case True
    let ?c' = "?c\<lparr>ch_buf := ch_buf ?c @ [pb_event ?p]\<rparr>"
    have "bus_inv (set_chan i ?c' b)" by (rule set_chan_inv [OF assms(1) i(1)]) (use True in \<open>simp_all add: chan_ok_def\<close>)
    then have "bus_inv (set_publishing k (?p\<lparr>pb_left := remove1 i (pb_left ?p)\<rparr>) (set_chan i ?c' b))"
      by (rule set_publishing_inv) (use sub p(2) in \<open>simp_all add: set_chan_def distinct_remove1\<close>)
    with True i(2) show ?thesis by (simp add: publish_send_def try_send_def Let_def set_publishing_def set_chan_def)
  next
    case False
    have "bus_inv (set_publishing k (?p\<lparr>pb_left := remove1 i (pb_left ?p), pb_read := Some (bus_dropped b)\<rparr>) b)"
      by (rule set_publishing_inv [OF assms(1)]) (use sub p(2) in \<open>simp_all add: distinct_remove1\<close>)
    with False i(2) show ?thesis by (simp add: publish_send_def try_send_def Let_def set_publishing_def)
  qed
qed

text \<open>A closed bus has no subscribers.\<close>

definition bus_ok :: "'e bus \<Rightarrow> bool" where
  "bus_ok b \<longleftrightarrow> bus_inv b \<and> (bus_closed b \<longrightarrow> bus_subs b = [])"

lemma with_lock_ok:
  assumes "with_lock f b = Some r" and "bus_publishing b = [] \<Longrightarrow> \<exists>b'. f b = Fine b' \<and> bus_ok b'"
  shows "\<exists>b'. r = Fine b' \<and> bus_ok b'"
  using assms by (auto simp: with_lock_def split: if_splits)

lemma bus_step_ok:
  assumes "bus_ok b" and "bus_step a b = Some r"
  shows "\<exists>b'. r = Fine b' \<and> bus_ok b'"
proof -
  have inv: "bus_inv b" and cl: "bus_closed b \<Longrightarrow> bus_subs b = []" using assms(1) by (auto simp: bus_ok_def)
  show ?thesis
  proof (cases a)
    case (ASubscribe n)
    show ?thesis
      by (rule with_lock_ok [of "Subscribe n" b])
        (use assms(2) ASubscribe Subscribe_inv [OF inv, of n] cl in
          \<open>auto simp: bus_ok_def Subscribe_def Let_def make_chan_def close_chan_def split: if_splits\<close>)
  next
    case (ACancel i)
    have "\<exists>b'. cancel_sub i b = Fine b' \<and> bus_ok b'" if "bus_publishing b = []"
      using drop_sub_inv [OF inv that, of i] cl assms(1) by (auto simp: cancel_sub_def bus_ok_def)
    with ACancel assms(2) show ?thesis by (auto split: if_splits intro: with_lock_ok)
  next
    case AClose
    have "\<exists>b'. Bus_Close b = Fine b' \<and> bus_ok b'" if p: "bus_publishing b = []"
    proof (cases "bus_closed b")
      case False
      have "bus_inv (b\<lparr>bus_closed := True\<rparr>)" using inv by (simp add: bus_inv_def)
      from drop_subs_inv [OF this, of "bus_subs b"] p False show ?thesis by (auto simp: Bus_Close_def bus_ok_def)
    qed (use assms(1) in \<open>simp add: Bus_Close_def\<close>)
    with AClose assms(2) show ?thesis by (auto intro: with_lock_ok)
  next
    case (AReceive i)
    then have i: "i < length (bus_chans b)" and r: "r = Fine (receive i b)" using assms(2) by (auto split: if_splits)
    have "chan_ok (bus_chans b ! i)" using bus_invD(3) [OF inv nth_mem [OF i]] .
    then have "bus_inv (receive i b)"
      unfolding receive_def by (intro set_chan_inv [OF inv i]) (auto simp: chan_ok_def)
    with r cl show ?thesis by (auto simp: bus_ok_def receive_def set_chan_def)
  next
    case (APublish ev)
    with assms(2) inv cl show ?thesis by (auto simp: publish_start_def bus_ok_def bus_inv_def)
  next
    case (ASend k i)
    with assms(2) publish_send_inv [OF inv, of k i] cl show ?thesis by (auto simp: bus_ok_def split: if_splits)
  next
    case (ACount k)
    then obtain d where k: "k < length (bus_publishing b)" and r: "r = Fine (publish_count k d b)"
      using assms(2) by (auto split: if_splits option.splits)
    have "bus_inv (b\<lparr>bus_dropped := d + 1\<rparr>)" using inv by (simp add: bus_inv_def)
    then have "bus_inv (publish_count k d b)"
      unfolding publish_count_def
      by (rule set_publishing_inv) (use bus_invD(4) [OF inv nth_mem [OF k]] in auto)
    with r cl show ?thesis by (auto simp: bus_ok_def publish_count_def set_publishing_def)
  next
    case (AReturn k)
    then have r: "r = Fine (publish_end k b)" using assms(2) by (auto split: if_splits)
    have "set (bus_publishing (publish_end k b)) \<subseteq> set (bus_publishing b)"
      using set_take_subset [of k] set_drop_subset [of "Suc k"] by (fastforce simp: publish_end_def)
    then have "bus_inv (publish_end k b)"
      using inv unfolding bus_inv_def by (simp add: publish_end_def) blast
    with r cl show ?thesis by (auto simp: bus_ok_def publish_end_def)
  qed
qed

lemma bus_run_ok: "bus_ok b \<Longrightarrow> bus_run as b = Some r \<Longrightarrow> \<exists>b'. r = Fine b' \<and> bus_ok b'"
proof (induction as arbitrary: b)
  case (Cons a as)
  from Cons.prems(2) obtain x where x: "bus_step a b = Some x" by (auto split: option.splits)
  from bus_step_ok [OF Cons.prems(1) x] obtain b' where "x = Fine b'" "bus_ok b'" by auto
  with x Cons show ?case by auto
qed auto

lemma NewBus_ok: "bus_ok NewBus"
  by (simp add: bus_ok_def NewBus_inv) (simp add: NewBus_def)

section \<open>Properties\<close>

text \<open>C22 (safety): no interleaving of publishers, subscribers that come and go, receivers and the closing of the bus sends
  on a closed channel or closes one twice, which would end the process; no channel holds more than its
  capacity, and once the bus is closed every channel is closed, so every receiver ends.\<close>

theorem bus_never_panics:
  assumes "bus_run as NewBus = Some r"
  shows "\<exists>b. r = Fine b
    \<and> (\<forall>c\<in>set (bus_chans b). length (ch_buf c) \<le> ch_cap c)
    \<and> (bus_closed b \<longrightarrow> (\<forall>c\<in>set (bus_chans b). ch_closed c))"
proof -
  from bus_run_ok [OF NewBus_ok assms] obtain b where r: "r = Fine b" and ok: "bus_ok b" by auto
  then have inv: "bus_inv b" by (simp add: bus_ok_def)
  have "ch_closed c" if "bus_closed b" "c \<in> set (bus_chans b)" for c
  proof -
    from that(2) obtain i where "i < length (bus_chans b)" "c = bus_chans b ! i" by (auto simp: in_set_conv_nth)
    with bus_invD(2) [OF inv, of i] ok that(1) show ?thesis by (auto simp: bus_ok_def)
  qed
  with r bus_invD(3) [OF inv] show ?thesis by (auto simp: chan_ok_def)
qed

definition demo_acts :: "nat bus_act list" where
  "demo_acts = [ASubscribe 1, ASubscribe 1, APublish 7, ASend 0 1, ASend 0 0, AReturn 0, APublish 8, ASend 0 0, ACount 0,
                AReceive 1, ASend 0 1, AReturn 0, ACancel 0, ACancel 0, AClose]"

lemmas bus_eval = demo_acts_def NewBus_def with_lock_def Subscribe_def make_chan_def publish_start_def publish_send_def
  try_send_def set_publishing_def set_chan_def publish_count_def publish_end_def receive_def cancel_sub_def drop_sub_def
  close_chan_def Bus_Close_def Let_def

theorem bus_never_panics_witness:
  "\<exists>b. bus_run demo_acts NewBus = Some (Fine b) \<and> (\<forall>c\<in>set (bus_chans b). ch_closed c)"
  using bus_never_panics [of demo_acts] by (auto simp: bus_eval)

text \<open>The state after a publisher has returned.\<close>

lemma publisher_finishes:
  "bus_inv b \<Longrightarrow> k < length (bus_publishing b) \<Longrightarrow> length (pb_left (bus_publishing b ! k)) = n
   \<Longrightarrow> pb_read (bus_publishing b ! k) = None
   \<Longrightarrow> \<exists>as b'. length as \<le> 2 * n + 1 \<and> bus_run as b = Some (Fine b')
        \<and> bus_publishing b' = take k (bus_publishing b) @ drop (Suc k) (bus_publishing b)"
proof (induction n arbitrary: b)
  case 0
  then show ?case by (intro exI [of _ "[AReturn k]"]) (simp add: publish_end_def)
next
  case (Suc n)
  let ?p = "bus_publishing b ! k"
  from Suc.prems(3) obtain i where i: "i \<in> set (pb_left ?p)" by (cases "pb_left ?p") auto
  from publish_send_inv [OF Suc.prems(1,2) i] obtain c where c: "publish_send k i b = Fine c" "bus_inv c" by auto
  have send: "bus_step (ASend k i) b = Some (Fine c)" using Suc.prems i c(1) by simp
  have kc: "k < length (bus_publishing c)" and left: "pb_left (bus_publishing c ! k) = remove1 i (pb_left ?p)"
    and others: "take k (bus_publishing c) @ drop (Suc k) (bus_publishing c) = take k (bus_publishing b) @ drop (Suc k) (bus_publishing b)"
    using c(1) Suc.prems(2) by (auto simp: publish_send_def Let_def set_publishing_def set_chan_def split: go.splits if_splits bool.splits)
  have len: "length (pb_left (bus_publishing c ! k)) = n" using left i Suc.prems(3) by (simp add: length_remove1)
  show ?case
  proof (cases "pb_read (bus_publishing c ! k)")
    case None
    from Suc.IH [OF c(2) kc len None] obtain as b' where
      "length as \<le> 2 * n + 1" "bus_run as c = Some (Fine b')"
      "bus_publishing b' = take k (bus_publishing c) @ drop (Suc k) (bus_publishing c)" by blast
    with send others show ?thesis by (intro exI [of _ "ASend k i # as"] exI [of _ b']) simp
  next
    case (Some d)
    let ?e = "publish_count k d c"
    have "bus_inv (c\<lparr>bus_dropped := d + 1\<rparr>)" using c(2) by (simp add: bus_inv_def)
    then have e: "bus_inv ?e"
      unfolding publish_count_def by (rule set_publishing_inv) (use bus_invD(4) [OF c(2) nth_mem [OF kc]] in auto)
    have count: "bus_step (ACount k) c = Some (Fine ?e)" using kc Some by simp
    have ke: "k < length (bus_publishing ?e)" "length (pb_left (bus_publishing ?e ! k)) = n" "pb_read (bus_publishing ?e ! k) = None"
      using kc len by (simp_all add: publish_count_def set_publishing_def)
    from Suc.IH [OF e ke] obtain as b' where
      "length as \<le> 2 * n + 1" "bus_run as ?e = Some (Fine b')"
      "bus_publishing b' = take k (bus_publishing ?e) @ drop (Suc k) (bus_publishing ?e)" by blast
    with send count others show ?thesis
      by (intro exI [of _ "ASend k i # ACount k # as"] exI [of _ b']) (simp add: publish_count_def set_publishing_def)
  qed
qed

text \<open>Publishing never waits for a slow subscriber: from every state of the bus a publisher can return by
  steps of its own alone, at most two for every subscriber it has left and two more.\<close>

theorem publish_returns:
  assumes "bus_run as NewBus = Some (Fine b)" and "k < length (bus_publishing b)"
  shows "\<exists>more b'. length more \<le> 2 * length (pb_left (bus_publishing b ! k)) + 2 \<and> bus_run more b = Some (Fine b')
    \<and> bus_publishing b' = take k (bus_publishing b) @ drop (Suc k) (bus_publishing b)"
proof (cases "pb_read (bus_publishing b ! k)")
  case None
  have "bus_inv b" using bus_run_ok [OF NewBus_ok assms(1)] by (auto simp: bus_ok_def)
  from publisher_finishes [OF this assms(2) refl None] obtain more b' where
    m: "length more \<le> 2 * length (pb_left (bus_publishing b ! k)) + 1" "bus_run more b = Some (Fine b')"
    "bus_publishing b' = take k (bus_publishing b) @ drop (Suc k) (bus_publishing b)" by blast
  from m(1) have "length more \<le> 2 * length (pb_left (bus_publishing b ! k)) + 2" by simp
  with m(2,3) show ?thesis by blast
next
  case (Some d)
  let ?e = "publish_count k d b"
  have inv: "bus_inv b" using bus_run_ok [OF NewBus_ok assms(1)] by (auto simp: bus_ok_def)
  have "bus_inv (b\<lparr>bus_dropped := d + 1\<rparr>)" using inv by (simp add: bus_inv_def)
  then have e: "bus_inv ?e"
    unfolding publish_count_def by (rule set_publishing_inv) (use bus_invD(4) [OF inv nth_mem [OF assms(2)]] in auto)
  have ke: "k < length (bus_publishing ?e)" "pb_read (bus_publishing ?e ! k) = None"
    "pb_left (bus_publishing ?e ! k) = pb_left (bus_publishing b ! k)"
    using assms(2) by (simp_all add: publish_count_def set_publishing_def)
  from publisher_finishes [OF e ke(1) refl ke(2)] ke(3) obtain more b' where
    "length more \<le> 2 * length (pb_left (bus_publishing b ! k)) + 1" "bus_run more ?e = Some (Fine b')"
    "bus_publishing b' = take k (bus_publishing ?e) @ drop (Suc k) (bus_publishing ?e)" by auto
  with assms(2) Some show ?thesis
    by (intro exI [of _ "ACount k # more"] exI [of _ b']) (simp add: publish_count_def set_publishing_def)
qed

definition full_acts :: "nat bus_act list" where
  "full_acts = [ASubscribe 1, ASubscribe 1, APublish 7, ASend 0 1, ASend 0 0, AReturn 0, APublish 8, APublish 9]"

theorem publish_returns_witness:
  "\<exists>b more b'. bus_run full_acts NewBus = Some (Fine b) \<and> length (bus_publishing b) = 2
    \<and> length more \<le> 6 \<and> bus_run more b = Some (Fine b') \<and> length (bus_publishing b') = 1"
proof -
  obtain b where b: "bus_run full_acts NewBus = Some (Fine b)" "length (bus_publishing b) = 2"
      "length (pb_left (bus_publishing b ! 0)) = 2"
    by (simp add: bus_eval full_acts_def)
  from publish_returns [OF b(1), of 0] b(2,3) obtain more b' where
    "length more \<le> 6" "bus_run more b = Some (Fine b')" "bus_publishing b' = drop (Suc 0) (bus_publishing b)" by auto
  with b show ?thesis by (intro exI [of _ b] exI [of _ more] exI [of _ b']) simp
qed

text \<open>The counter of dropped events is incremented under the read lock: two publishers that drop an event at
  the same time count one.\<close>

lemma dropped_lost_update:
  "\<exists>b. bus_run (full_acts @ [ASend 0 0, ASend 1 0, ACount 0, ACount 1]) NewBus = Some (Fine b) \<and> bus_dropped b = 1"
  by (simp add: bus_eval full_acts_def)

end
