(* ===== verification/Spec2Isabelle.thy ===== *)
theory Spec2Isabelle
  imports Retention Pipeline_Safety Engine_Props Scheduler Secrets Pack Files_Restore Files_Walk Configs_Props Store_Readback Events
begin

text \<open>
  Verification of Backvault, a backup service written in Go.

  The program. A job names a source (a database, a directory, ...), the destinations of its backups, a
  schedule and a retention policy. The engine (internal/engine) runs jobs: it dumps the source, compresses
  and encrypts the dump into a spool file, uploads it to every destination with retries, verifies it, and
  deletes what the retention policy does not keep. Runs, artifacts, jobs and settings live in an SQL
  database (internal/store). Secrets in configurations are encrypted (internal/secrets). Sources and
  destinations are drivers with a specification of their fields (internal/core, internal/source,
  internal/dest). An HTTP server and a command line (internal/server, cmd) sit on top.

  Conventions. A Go string is a list of bytes; a result with an error is a value of \<open>error + 'a\<close>,
  a lone error an option; \<open>int64\<close> arithmetic that can overflow is written with \<open>wrap64\<close>; an instant
  is a number of nanoseconds in UTC. Stateful code is in the state monad of the HOL library. A loop over a list is
  a recursion over it, a loop that may not end has fuel and a theorem on how much is enough. What lies outside
  the repository (the clock, the database engine's faults, codecs, cron expressions, tar, the file system, drivers) is a
  parameter: a field of an environment record or an argument. Log lines are left out.

  Theories and the code they model:

  Prelude: strings, strconv, durations, errors, the state monad with its Hoare rules. Go_Time: calendar
  arithmetic and layouts of package time. Go_Path: package path. No part of the repository.

  Core_Types (internal/core/types.go): the data model as records and datatypes. Core_Config
  (internal/core/config.go): typed access to configurations, masking and merging of secrets, required fields.

  Secrets (internal/secrets): encryption of secret fields and the key file, over a cipher with its law.

  Pack (internal/engine/pack.go, spool.go, naming in download.go): the chain of writers that compresses and
  encrypts, the reader that undoes it, the spool, and file names.

  Retention (internal/engine/retention.go): \<open>Plan\<close> and its specification in calendar terms.

  Store_Tables, Store_Jobs (internal/store): the tables as lists of rows and the statements on them; every
  statement may fail with an arbitrary error and then changes nothing. The datatype \<open>statement\<close> collects the
  statements for the integrity invariant.

  Run_State (internal/engine/runstate.go): the state of one run in execution, with its stages, events, and a
  history \<open>sy_calls\<close> of the calls that leave the process. The record \<open>env\<close> is the outside world; each
  of its fields may change the world, so nothing is assumed about its answers unless a theorem says so.

  Pipeline (runner.go, prune.go, ingest.go, drivers.go, hosts.go): the backup, prune, verify and ingest runs.
  Pipeline_Calls holds a logic for the history (\<open>emits\<close>: what a computation appends to it), Pipeline_Props
  and Pipeline_Safety the properties: retry discipline, order of uploads and deletions, records only of stored
  bytes, checksums, retention keeps the newest, verification.

  Engine (engine.go): lock per job, queue of 256 tasks, dispatcher, slots, as functions on the engine state and as a
  step relation over all interleavings; Engine_Props: its invariants, bounds, termination and where it rests;
  Engine_Runs: requests, execution, abandonment, recovery and cleanup against the database.

  Events (events.go): the event bus with its channels, every interleaving of publishers, subscribers and closing.

  Scheduler (scheduler.go, overdue.go): schedules, missed runs, next-run times and overdue detection, over a
  cron library and a time zone database that are parameters.

  Safe_Path: the four path checks (engine, files driver, local destination), each shown equal to a condition
  on the elements of the path. Restore (restore.go, download.go): restore runs, opening an artifact, extraction,
  installing a file; Restore_Props: a file appears only complete, what was packed comes back, paths stay inside.
  Files_Restore (internal/source/files/restore.go): the other extraction, and what both do on a disk where
  links are followed. Files_Walk (internal/source/files/files.go): the walk that writes the archive.

  Store_Configs, Store_Users (internal/store): the tables of sources, destinations, channels, hosts, audit records and
  users, sessions, tokens. The identifiers, unique names and references of the schema
  (internal/store/migrations) are part of the statements: \<open>insert_unique\<close>, \<open>update_unique\<close>,
  \<open>job_constraint\<close> and the cascades of the deletions. Store_Integrity: what every statement keeps of the
  tables. Store_Readback: what is written to a repository is read back, by a locale \<open>repository\<close> that is
  interpreted for sources, destinations, hosts and channels.

  Web (internal/server and internal/auth, what handlers share): replies, the site record for the world of a handler,
  \<open>lookup\<close> and \<open>sql\<close> for one statement of the store, decoding and auditing. Auth (internal/auth): password hashes,
  tokens, the login throttle. Auth_Manager: sessions and API tokens on the tables. Server_Accounts: setup, login, users,
  tokens; Accounts_Props: what the handlers keep of the accounts, above all that an administrator remains.

  Slug and Server_Jobs (internal/server/jobs.go): slugs of jobs and the job handlers, with Jobs_Checks and
  Jobs_Props for what reaches the table and the scheduler. Server_Configs, Server_Hosts (sources.go, destinations.go,
  channels.go, hosts.go): the handlers of configurations and hosts. Server_Transfer (export.go): export, dry run and
  import. Configs_Checks: the checks of a configuration; Configs_Keeps: a Hoare logic for what these handlers keep of the
  tables; Configs_Props: secrets are stored encrypted, answers and exports never show them, a dry run changes nothing.

  Remote (internal/remote/remote.go): configuration of a host, shell quoting, hiding of secrets in error texts.

  Bounds and fuel. \<open>walk\<close> has fuel, because links that are followed may form cycles. For a file system in which
  finitely many directories are reached through links and every tree is finite, the depth of the trees times one
  more than the number of these directories is enough (\<open>archive_ends\<close>): a walk never enters the same directory
  through a link twice. The resolution of links on a disk follows at most 40, as
  Linux does. \<open>previousSlot\<close> has the code's own limit of 2000 steps.

  Assumptions on the engine. It is started once and stopped at the end, as its only caller does. A driver returns
  once its context is done, so an execution that is canceled or runs out of time ends; a driver that ignores its
  context would hold its slot and the lock of its job, and the liveness properties do not speak of it.

  Not modelled. SQL itself and the concurrency of the database: a statement is one step. Log lines and progress. The
  drivers that run external programs or speak network protocols (database dumps, S3, SFTP, WebDAV, remote commands
  over SSH) are parameters of the runs and handlers, because what they do is what those programs and servers do.
  Goroutines other than those of the engine and of the bus: readers and writers of a pipe appear as the stream they
  produce. HTTP itself: a handler starts from a decoded request and ends in a reply; routing, cookies, headers and
  the web panel are left out, as are the connection tests, the notifier and the command line.
\<close>

end
